(* ===== verification/Prelude.thy ===== *)
theory Prelude
  imports Main "HOL-Library.List_Lexorder" "HOL-Library.Char_ord"
begin

text \<open>
  Shared vocabulary of the development: the dynamically typed values the program reads out of
  JSON documents (\<open>pyval\<close>), dictionary lookup as Python's \<open>dict.get\<close>, the
  order-preserving de-duplication \<open>tuple(dict.fromkeys(xs))\<close>, the two-valued
  \<open>bool | int\<close> type of controlled values, and the generic lemmas the components share.

  Python strings are modelled as \<open>string\<close> (lists of 8-bit characters): the texts the
  program compares are identifiers of the Latin-1 range. Python dictionaries are association
  lists whose keys are distinct (insertion order is kept), read with \<open>map_of\<close>.
\<close>

named_theorems refusal_simps \<open>unfolding rules for the code paths that refuse\<close>

section \<open>Dynamically typed values\<close>

text \<open>
  \<open>POther n\<close> stands for any value of another type (a float, for instance): the modelled code
  only asks such a value for its type and its truth value, and \<open>n \<noteq> 0\<close> is the latter.
\<close>

datatype pyval =
    PNone
  | PBool bool
  | PInt int
  | PStr string
  | PList "pyval list"
  | PDict "(string \<times> pyval) list"
  | POther nat

type_synonym facts = "(string \<times> pyval) list"

text \<open>\<open>d.get(k)\<close>: an absent key and a key bound to \<open>None\<close> read the same.\<close>

definition get :: "facts \<Rightarrow> string \<Rightarrow> pyval" where
  "get d k = (case map_of d k of None \<Rightarrow> PNone | Some v \<Rightarrow> v)"

fun truthy :: "pyval \<Rightarrow> bool" where
  "truthy PNone = False"
| "truthy (PBool b) = b"
| "truthy (PInt i) = (i \<noteq> 0)"
| "truthy (PStr s) = (s \<noteq> [])"
| "truthy (PList xs) = (xs \<noteq> [])"
| "truthy (PDict d) = (d \<noteq> [])"
| "truthy (POther n) = (n \<noteq> 0)"

text \<open>The dictionary itself when the value is one, else the empty dictionary.\<close>

fun as_dict :: "pyval \<Rightarrow> facts" where
  "as_dict (PDict d) = d"
| "as_dict _ = []"

text \<open>The value compared with a string literal, as \<open>x == "..."\<close> and \<open>x in {...}\<close> do.\<close>

definition is_str :: "pyval \<Rightarrow> string \<Rightarrow> bool" where
  "is_str v s \<longleftrightarrow> v = PStr s"

fun str_in :: "pyval \<Rightarrow> string list \<Rightarrow> bool" where
  "str_in (PStr s) xs = (s \<in> set xs)"
| "str_in _ xs = False"

text \<open>\<open>d.get(k, default)\<close>: the default stands in for an absent key only.\<close>

definition get_or :: "facts \<Rightarrow> string \<Rightarrow> pyval \<Rightarrow> pyval" where
  "get_or d k v = (case map_of d k of None \<Rightarrow> v | Some x \<Rightarrow> x)"

text \<open>Values that a Python set or dictionary cannot hold: testing their membership raises.\<close>

fun unhashable :: "pyval \<Rightarrow> bool" where
  "unhashable (PList _) = True"
| "unhashable (PDict _) = True"
| "unhashable _ = False"

text \<open>An optional text as the value a dictionary holds for it.\<close>

fun opt_text :: "string option \<Rightarrow> pyval" where
  "opt_text None = PNone"
| "opt_text (Some s) = PStr s"

lemma get_or_Nil [simp]: "get_or [] k v = v"
  by (simp add: get_or_def)

lemma get_or_Cons [simp]: "get_or ((k', x) # d) k v = (if k = k' then x else get_or d k v)"
  by (simp add: get_or_def)

lemma get_Nil [simp]: "get [] k = PNone"
  by (simp add: get_def)

lemma get_Cons [simp]: "get ((k', v) # d) k = (if k = k' then v else get d k)"
  by (simp add: get_def)

text \<open>The exceptions of the language the modelled code raises, with their message.\<close>

datatype py_error =
  ValueError string | TypeError string | KeyError string | AttributeError string
  | AssertionError string | StructError string

text \<open>Sequencing of code that may raise, and its lift to a loop that raises at the first failure.\<close>

definition bindE :: "'e + 'a \<Rightarrow> ('a \<Rightarrow> 'e + 'b) \<Rightarrow> 'e + 'b" where
  "bindE r f = (case r of Inl e \<Rightarrow> Inl e | Inr x \<Rightarrow> f x)"

fun mapE :: "('a \<Rightarrow> 'e + 'b) \<Rightarrow> 'a list \<Rightarrow> 'e + 'b list" where
  "mapE f [] = Inr []"
| "mapE f (x # xs) = bindE (f x) (\<lambda>y. bindE (mapE f xs) (\<lambda>ys. Inr (y # ys)))"

definition ensure :: "bool \<Rightarrow> 'e \<Rightarrow> 'e + unit" where
  "ensure b e = (if b then Inr () else Inl e)"

lemma bindE_simps [simp]: "bindE (Inl e) f = Inl e" "bindE (Inr x) f = f x"
  by (simp_all add: bindE_def)

lemma bindE_Inr: "bindE r f = Inr y \<longleftrightarrow> (\<exists>x. r = Inr x \<and> f x = Inr y)"
  by (cases r) simp_all

lemma bindE_if_Inr: "bindE (if b then Inl e else r) f = Inr y \<longleftrightarrow> \<not> b \<and> bindE r f = Inr y"
  by simp

lemma ensure_Inr [simp]: "ensure b e = Inr u \<longleftrightarrow> b"
  by (simp add: ensure_def)

lemma ensure_True [simp]: "ensure True e = Inr ()"
  by (simp add: ensure_def)

lemma mapE_map: "(\<And>x. x \<in> set xs \<Longrightarrow> f (g x) = Inr x) \<Longrightarrow> mapE f (map g xs) = Inr xs"
  by (induction xs) simp_all

text \<open>
  \<open>str(v)\<close>: the parameter renders the values whose text the program never produces itself
  (numbers and containers). Iteration over a value, and \<open>d[k]\<close>.
\<close>

definition py_str :: "(pyval \<Rightarrow> string) \<Rightarrow> pyval \<Rightarrow> string" where
  "py_str render v = (case v of
     PStr s \<Rightarrow> s
   | PNone \<Rightarrow> ''None''
   | PBool b \<Rightarrow> (if b then ''True'' else ''False'')
   | _ \<Rightarrow> render v)"

fun py_iter :: "pyval \<Rightarrow> py_error + pyval list" where
  "py_iter (PList xs) = Inr xs"
| "py_iter (PStr s) = Inr (map (\<lambda>c. PStr [c]) s)"
| "py_iter (PDict d) = Inr (map (\<lambda>(k, _). PStr k) d)"
| "py_iter _ = Inl (TypeError ''object is not iterable'')"

definition getitem :: "facts \<Rightarrow> string \<Rightarrow> py_error + pyval" where
  "getitem d k = (case map_of d k of None \<Rightarrow> Inl (KeyError k) | Some v \<Rightarrow> Inr v)"

lemma py_str_text [simp]: "py_str render (PStr s) = s"
  by (simp add: py_str_def)

lemma getitem_Cons [simp]: "getitem ((k', v) # d) k = (if k = k' then Inr v else getitem d k)"
  by (simp add: getitem_def)

lemma map_py_str_text [simp]: "map (py_str render \<circ> PStr) xs = xs"
  by (induction xs) simp_all

section \<open>Controlled values: \<open>bool | int\<close>\<close>

datatype ivalue = VBool bool | VInt int

text \<open>Python compares \<open>True\<close> and \<open>1\<close> as equal, since \<open>bool\<close> is a subtype of \<open>int\<close>.\<close>

fun val_int :: "ivalue \<Rightarrow> int" where
  "val_int (VBool b) = (if b then 1 else 0)"
| "val_int (VInt i) = i"

definition val_eq :: "ivalue \<Rightarrow> ivalue \<Rightarrow> bool" where
  "val_eq a b \<longleftrightarrow> val_int a = val_int b"

lemma val_eq_refl [simp]: "val_eq a a"
  by (simp add: val_eq_def)

lemma val_eq_sym: "val_eq a b \<longleftrightarrow> val_eq b a"
  by (auto simp: val_eq_def)

lemma val_eq_trans: "val_eq a b \<Longrightarrow> val_eq b c \<Longrightarrow> val_eq a c"
  by (simp add: val_eq_def)

section \<open>Order-preserving de-duplication\<close>

fun fromkeys :: "'a list \<Rightarrow> 'a list" where
  "fromkeys [] = []"
| "fromkeys (x # xs) = x # filter (\<lambda>y. y \<noteq> x) (fromkeys xs)"

lemma set_fromkeys [simp]: "set (fromkeys xs) = set xs"
  by (induction xs) auto

lemma distinct_fromkeys [simp]: "distinct (fromkeys xs)"
  by (induction xs) auto

lemma fromkeys_eq_Nil [simp]: "fromkeys xs = [] \<longleftrightarrow> xs = []"
  by (cases xs) auto

lemma fromkeys_distinct: "distinct xs \<Longrightarrow> fromkeys xs = xs"
  by (induction xs) (auto simp: filter_id_conv)

lemma fromkeys_eq_single: "fromkeys xs = [a] \<longleftrightarrow> xs \<noteq> [] \<and> set xs = {a}"
proof
  assume h: "fromkeys xs = [a]"
  then have "xs \<noteq> []" by auto
  moreover have "set xs = {a}" using set_fromkeys [of xs] h by simp
  ultimately show "xs \<noteq> [] \<and> set xs = {a}" by simp
next
  assume h: "xs \<noteq> [] \<and> set xs = {a}"
  then obtain y ys where "xs = y # ys" by (cases xs) auto
  with h have "y = a" and "\<forall>z \<in> set (fromkeys ys). z = a" by auto
  then show "fromkeys xs = [a]" using \<open>xs = y # ys\<close> by simp
qed

section \<open>Sorted sets of strings, as \<open>sorted({...})\<close>\<close>

definition sorted_set :: "string list \<Rightarrow> string list" where
  "sorted_set xs = sort (remdups xs)"

lemma set_sorted_set [simp]: "set (sorted_set xs) = set xs"
  by (simp add: sorted_set_def)

lemma sorted_set_eq_Nil [simp]: "sorted_set xs = [] \<longleftrightarrow> xs = []"
  by (metis set_sorted_set set_empty)

lemma sorted_set_cong: "set xs = set ys \<Longrightarrow> sorted_set xs = sorted_set ys"
  unfolding sorted_set_def
  by (metis sorted_list_of_set_sort_remdups)

lemma sorted_set_single [simp]: "sorted_set [x] = [x]"
  by (simp add: sorted_set_def)

section \<open>The first element that satisfies a test\<close>

lemma find_Some_in: "find P xs = Some x \<Longrightarrow> x \<in> set xs \<and> P x"
  by (induction xs) (auto split: if_splits)

lemma find_None_all: "find P xs = None \<longleftrightarrow> (\<forall>x \<in> set xs. \<not> P x)"
  by (induction xs) auto

text \<open>\<open>endswith\<close> and lower-casing of ASCII text.\<close>

definition endswith :: "string \<Rightarrow> string \<Rightarrow> bool" where
  "endswith s suf \<longleftrightarrow> length suf \<le> length s \<and> drop (length s - length suf) s = suf"

definition lower_char :: "char \<Rightarrow> char" where
  "lower_char c = (if 65 \<le> (of_char c :: nat) \<and> (of_char c :: nat) \<le> 90
     then char_of ((of_char c :: nat) + 32) else c)"

definition lower :: "string \<Rightarrow> string" where
  "lower s = map lower_char s"

lemma endswith_append [simp]: "endswith (p @ s) s"
  by (simp add: endswith_def)

end
