(* ===== verification/Intent.thy ===== *)
theory Intent
  imports Prelude
begin

text \<open>
  What LocalPlane is prepared to intend: \<open>src/localplane/backend/domain/intent.py\<close>.
  The two adoptable interface fields, the capture of an observation into intent, and the two
  ways an intent is revised (an operator's values, or the verified runtime). A refusal is the
  left value of a sum and carries the code and detail of the source's \<open>RevisionRefused\<close>.
\<close>

section \<open>Data\<close>

datatype value_type = VT_Boolean | VT_Integer

fun vt_str :: "value_type \<Rightarrow> string" where
  "vt_str VT_Boolean = ''boolean''"
| "vt_str VT_Integer = ''integer''"

record adoptable_field =
  af_name :: string
  af_type :: value_type

definition ADOPTABLE_INTERFACE_FIELDS :: "adoptable_field list" where
  "ADOPTABLE_INTERFACE_FIELDS =
     [\<lparr>af_name = ''admin_up'', af_type = VT_Boolean\<rparr>,
      \<lparr>af_name = ''mtu'', af_type = VT_Integer\<rparr>]"

record captured_field =
  cf_field :: string
  cf_type :: value_type
  cf_value :: ivalue

record uncapturable_field =
  uf_field :: string
  uf_type :: value_type
  uf_reason :: string
  uf_observed :: pyval

record capture =
  cap_fields :: "captured_field list"
  cap_uncapturable :: "uncapturable_field list"

definition capture_complete :: "capture \<Rightarrow> bool" where
  "capture_complete c \<longleftrightarrow> cap_uncapturable c = []"

section \<open>Typed reading of one value\<close>

fun coerce :: "value_type \<Rightarrow> pyval \<Rightarrow> ivalue option" where
  "coerce VT_Boolean (PBool b) = Some (VBool b)"
| "coerce VT_Boolean _ = None"
| "coerce VT_Integer (PInt i) = (if i > 0 then Some (VInt i) else None)"
| "coerce VT_Integer _ = None"

definition encode :: "value_type \<Rightarrow> ivalue \<Rightarrow> int" where
  "encode vt v = val_int v"

fun decode :: "value_type \<Rightarrow> int \<Rightarrow> ivalue" where
  "decode VT_Boolean n = VBool (n \<noteq> 0)"
| "decode VT_Integer n = VInt n"

text \<open>A value that has the shape its type says, as every value \<open>coerce\<close> returns has.\<close>

fun well_typed :: "value_type \<Rightarrow> ivalue \<Rightarrow> bool" where
  "well_typed VT_Boolean (VBool _) = True"
| "well_typed VT_Integer (VInt i) = (i > 0)"
| "well_typed _ _ = False"

fun to_pyval :: "ivalue \<Rightarrow> pyval" where
  "to_pyval (VBool b) = PBool b"
| "to_pyval (VInt i) = PInt i"

lemma coerce_well_typed: "coerce vt raw = Some v \<Longrightarrow> well_typed vt v"
  by (cases "(vt, raw)" rule: coerce.cases) (auto split: if_splits)

lemma coerce_to_pyval: "coerce vt raw = Some v \<Longrightarrow> raw = to_pyval v"
  by (cases "(vt, raw)" rule: coerce.cases) (auto split: if_splits)

lemma coerce_of_well_typed: "well_typed vt v \<Longrightarrow> coerce vt (to_pyval v) = Some v"
  by (cases vt; cases v) auto

lemma coerce_iff: "coerce vt raw = Some v \<longleftrightarrow> well_typed vt v \<and> raw = to_pyval v"
  using coerce_well_typed coerce_to_pyval coerce_of_well_typed by blast

lemma coerce_PNone [simp]: "coerce vt PNone = None"
  by (cases vt) auto

lemma well_typed_val_eq: "well_typed vt a \<Longrightarrow> well_typed vt b \<Longrightarrow> val_eq a b \<longleftrightarrow> a = b"
  by (cases vt; cases a; cases b) (auto simp: val_eq_def)

section \<open>Capturing an observation\<close>

definition capture_one ::
  "facts \<Rightarrow> adoptable_field \<Rightarrow> uncapturable_field + captured_field" where
  "capture_one fs f =
     (let raw = get fs (af_name f) in
      if raw = PNone
      then Inl \<lparr>uf_field = af_name f, uf_type = af_type f,
                uf_reason = ''observed_value_unreadable'', uf_observed = PNone\<rparr>
      else case coerce (af_type f) raw of
        None \<Rightarrow> Inl \<lparr>uf_field = af_name f, uf_type = af_type f,
                     uf_reason = ''observed_value_not_usable'', uf_observed = raw\<rparr>
      | Some v \<Rightarrow> Inr \<lparr>cf_field = af_name f, cf_type = af_type f, cf_value = v\<rparr>)"

fun capture_loop :: "facts \<Rightarrow> adoptable_field list \<Rightarrow> capture \<Rightarrow> capture" where
  "capture_loop fs [] acc = acc"
| "capture_loop fs (f # rest) acc =
     (case capture_one fs f of
        Inl u \<Rightarrow> capture_loop fs rest (acc\<lparr>cap_uncapturable := cap_uncapturable acc @ [u]\<rparr>)
      | Inr c \<Rightarrow> capture_loop fs rest (acc\<lparr>cap_fields := cap_fields acc @ [c]\<rparr>))"

definition capture_interface_intent :: "facts \<Rightarrow> capture" where
  "capture_interface_intent fs =
     capture_loop fs ADOPTABLE_INTERFACE_FIELDS \<lparr>cap_fields = [], cap_uncapturable = []\<rparr>"

section \<open>Revision\<close>

datatype revision_kind = Explicit | Runtime_Adoption

record field_change =
  fc_field :: string
  fc_type :: value_type
  fc_was :: ivalue
  fc_now :: ivalue

record revision_plan =
  rp_kind :: revision_kind
  rp_fields :: "captured_field list"
  rp_changed :: "field_change list"
  rp_carried :: "string list"

record revision_refused =
  rr_code :: string
  rr_detail :: facts

text \<open>\<open>{f.field: f for f in current}\<close>: with a repeated key the later field wins.\<close>

definition controlled :: "captured_field list \<Rightarrow> string \<rightharpoonup> captured_field" where
  "controlled current = map_of (rev (map (\<lambda>f. (cf_field f, f)) current))"

definition controlled_names :: "captured_field list \<Rightarrow> string list" where
  "controlled_names current = fromkeys (map cf_field current)"

definition adoptable_by_name :: "string \<Rightarrow> adoptable_field option" where
  "adoptable_by_name n = find (\<lambda>f. af_name f = n) ADOPTABLE_INTERFACE_FIELDS"

definition intended_doc :: "captured_field list \<Rightarrow> pyval" where
  "intended_doc current = PDict (map (\<lambda>f. (cf_field f, to_pyval (cf_value f))) current)"

text \<open>
  The loop over the requested fields. The accumulator is \<open>planned\<close>, the dictionary being
  rewritten, and \<open>changed\<close>, in request order; each refusal leaves the loop at once.
\<close>

fun plan_fields ::
  "(string \<rightharpoonup> captured_field) \<Rightarrow> string list \<Rightarrow> (string \<times> pyval) list \<Rightarrow>
   (string \<rightharpoonup> captured_field) \<Rightarrow> field_change list \<Rightarrow>
   revision_refused + (string \<rightharpoonup> captured_field) \<times> field_change list" where
  "plan_fields ctl names [] planned changed = Inr (planned, changed)"
| "plan_fields ctl names ((field, raw) # rest) planned changed =
     (case adoptable_by_name field of
        None \<Rightarrow> Inl \<lparr>rr_code = ''unsupported_field'', rr_detail =
          [(''field'', PStr field),
           (''supported_fields'',
            PList (map (\<lambda>f. PStr (af_name f)) ADOPTABLE_INTERFACE_FIELDS))]\<rparr>
      | Some _ \<Rightarrow>
        (case ctl field of
           None \<Rightarrow> Inl \<lparr>rr_code = ''field_not_controlled'', rr_detail =
             [(''field'', PStr field),
              (''controlled_fields'', PList (map PStr (sort names)))]\<rparr>
         | Some existing \<Rightarrow>
           (case coerce (cf_type existing) raw of
              None \<Rightarrow> Inl \<lparr>rr_code = ''invalid_field_value'', rr_detail =
                [(''field'', PStr field),
                 (''expected_type'', PStr (vt_str (cf_type existing))),
                 (''supplied'', raw)]\<rparr>
            | Some value \<Rightarrow>
              plan_fields ctl names rest
                (planned(field \<mapsto> \<lparr>cf_field = field, cf_type = cf_type existing,
                                    cf_value = value\<rparr>))
                (if \<not> val_eq value (cf_value existing)
                 then changed @ [\<lparr>fc_field = field, fc_type = cf_type existing,
                                  fc_was = cf_value existing, fc_now = value\<rparr>]
                 else changed))))"

definition plan_explicit_revision ::
  "captured_field list \<Rightarrow> (string \<times> pyval) list \<Rightarrow> revision_refused + revision_plan" where
  "plan_explicit_revision current requested =
     (if requested = []
      then Inl \<lparr>rr_code = ''empty_revision'', rr_detail =
        [(''message'', PStr ''no desired value was supplied''),
         (''controlled_fields'', PList (map PStr (sort (controlled_names current))))]\<rparr>
      else case plan_fields (controlled current) (controlled_names current) requested
                  (controlled current) [] of
        Inl r \<Rightarrow> Inl r
      | Inr (planned, changed) \<Rightarrow>
          (if changed = []
           then Inl \<lparr>rr_code = ''revision_changes_nothing'', rr_detail =
             [(''message'', PStr ''every supplied value is already the intended one''),
              (''intended'', intended_doc current)]\<rparr>
           else Inr \<lparr>rp_kind = Explicit,
                     rp_fields = map (\<lambda>f. the (planned (cf_field f))) current,
                     rp_changed = changed,
                     rp_carried = map cf_field
                       (filter (\<lambda>f. cf_field f \<notin> fst ` set requested) current)\<rparr>))"

definition unverified_missing ::
  "captured_field list \<Rightarrow> capture \<Rightarrow> uncapturable_field list" where
  "unverified_missing current cap =
     filter (\<lambda>u. controlled current (uf_field u) \<noteq> None) (cap_uncapturable cap)"

definition unverified_unseen :: "captured_field list \<Rightarrow> capture \<Rightarrow> string list" where
  "unverified_unseen current cap =
     filter (\<lambda>n. controlled (cap_fields cap) n = None \<and>
                n \<notin> uf_field ` set (unverified_missing current cap))
       (controlled_names current)"

definition plan_runtime_revision ::
  "captured_field list \<Rightarrow> capture \<Rightarrow> revision_refused + revision_plan" where
  "plan_runtime_revision current cap =
     (let ctl = controlled current; observed = controlled (cap_fields cap);
          missing = unverified_missing current cap;
          unseen = unverified_unseen current cap in
      if missing \<noteq> [] \<or> unseen \<noteq> []
      then Inl \<lparr>rr_code = ''controlled_values_unverified'', rr_detail =
        [(''fields'', PList (
           map (\<lambda>u. PDict [(''field'', PStr (uf_field u)),
                            (''value_type'', PStr (vt_str (uf_type u))),
                            (''reason'', PStr (uf_reason u)),
                            (''observed'', uf_observed u)]) missing
         @ map (\<lambda>n. PDict [(''field'', PStr n),
                            (''value_type'', PStr (vt_str (cf_type (the (ctl n))))),
                            (''reason'', PStr ''observed_value_unreadable''),
                            (''observed'', PNone)]) unseen))]\<rparr>
      else
        (let changed =
           map (\<lambda>n. let f = the (ctl n) in
                  \<lparr>fc_field = n, fc_type = cf_type f, fc_was = cf_value f,
                   fc_now = cf_value (the (observed n))\<rparr>)
             (filter (\<lambda>n. \<not> val_eq (cf_value (the (observed n))) (cf_value (the (ctl n))))
               (controlled_names current)) in
         if changed = []
         then Inl \<lparr>rr_code = ''revision_changes_nothing'', rr_detail =
           [(''message'', PStr ''the observed runtime is already the intended state''),
            (''intended'', intended_doc current)]\<rparr>
         else Inr \<lparr>rp_kind = Runtime_Adoption,
                   rp_fields = map (\<lambda>f. the (observed (cf_field f))) current,
                   rp_changed = changed, rp_carried = []\<rparr>))"

section \<open>Lemmas\<close>

lemma controlled_Some_mem:
  "controlled current n = Some f \<Longrightarrow> f \<in> set current \<and> cf_field f = n"
  by (auto simp: controlled_def dest!: map_of_SomeD)

lemma controlled_distinct:
  assumes "distinct (map cf_field current)" and "f \<in> set current"
  shows "controlled current (cf_field f) = Some f"
  using assms unfolding controlled_def
  by (intro map_of_is_SomeI) (auto simp: rev_map [symmetric] comp_def)

lemma controlled_None_iff: "controlled current n = None \<longleftrightarrow> n \<notin> cf_field ` set current"
  by (force simp: controlled_def map_of_eq_None_iff)

lemma adoptable_by_name_iff:
  "adoptable_by_name n \<noteq> None \<longleftrightarrow> n \<in> af_name ` set ADOPTABLE_INTERFACE_FIELDS"
  by (auto simp: adoptable_by_name_def find_None_all)

lemma capture_loop_append:
  "capture_loop fs flds acc =
     \<lparr>cap_fields = cap_fields acc @ concat (map (\<lambda>f. case capture_one fs f of
         Inl _ \<Rightarrow> [] | Inr c \<Rightarrow> [c]) flds),
      cap_uncapturable = cap_uncapturable acc @ concat (map (\<lambda>f. case capture_one fs f of
         Inl u \<Rightarrow> [u] | Inr _ \<Rightarrow> []) flds)\<rparr>"
  by (induction flds arbitrary: acc) (auto split: sum.splits)

lemma capture_one_Inr:
  "capture_one fs f = Inr c \<longleftrightarrow>
     (\<exists>v. coerce (af_type f) (get fs (af_name f)) = Some v \<and>
          c = \<lparr>cf_field = af_name f, cf_type = af_type f, cf_value = v\<rparr>)"
  by (auto simp: capture_one_def Let_def split: option.splits)

lemma capture_one_Inl:
  "capture_one fs f = Inl u \<Longrightarrow> uf_field u = af_name f \<and> coerce (af_type f) (get fs (af_name f)) = None"
  by (auto simp: capture_one_def Let_def split: option.splits if_splits)

lemma capture_field_mem:
  "c \<in> set (cap_fields (capture_interface_intent fs)) \<longleftrightarrow>
     (\<exists>f \<in> set ADOPTABLE_INTERFACE_FIELDS. capture_one fs f = Inr c)"
  by (auto simp: capture_interface_intent_def capture_loop_append eq_commute split: sum.splits)

lemma capture_uncapturable_mem:
  "u \<in> set (cap_uncapturable (capture_interface_intent fs)) \<longleftrightarrow>
     (\<exists>f \<in> set ADOPTABLE_INTERFACE_FIELDS. capture_one fs f = Inl u)"
  by (auto simp: capture_interface_intent_def capture_loop_append eq_commute split: sum.splits)

text \<open>Every captured field is what the observation holds, read at the field's own type.\<close>

lemma capture_field_read:
  assumes "c \<in> set (cap_fields (capture_interface_intent fs))"
  shows "coerce (cf_type c) (get fs (cf_field c)) = Some (cf_value c)"
  using assms by (auto simp: capture_field_mem capture_one_Inr)

lemma distinct_capture_names:
  "distinct (map cf_field (cap_fields (capture_interface_intent fs)))"
  by (auto simp: capture_interface_intent_def capture_loop_append ADOPTABLE_INTERFACE_FIELDS_def
      dest!: sym [where t = "capture_one fs _"] split: sum.splits)
     (auto simp: capture_one_Inr)

lemma capture_complete_iff:
  "capture_complete (capture_interface_intent fs) \<longleftrightarrow>
     (\<forall>f \<in> set ADOPTABLE_INTERFACE_FIELDS. coerce (af_type f) (get fs (af_name f)) \<noteq> None)"
proof -
  have "cap_uncapturable (capture_interface_intent fs) = [] \<longleftrightarrow>
        (\<forall>f \<in> set ADOPTABLE_INTERFACE_FIELDS. \<exists>c. capture_one fs f = Inr c)"
    by (auto simp: capture_interface_intent_def capture_loop_append split: sum.splits)
       (metis sum.exhaust)
  then show ?thesis
    unfolding capture_complete_def by (simp add: capture_one_Inr)
qed

text \<open>
  What one pass of the loop has done: \<open>revised\<close> is the value a controlled field ends up with.
\<close>

definition revised :: "(string \<times> pyval) list \<Rightarrow> captured_field \<Rightarrow> captured_field option" where
  "revised req e = (case map_of req (cf_field e) of
     None \<Rightarrow> Some e
   | Some raw \<Rightarrow> map_option (\<lambda>v. e\<lparr>cf_value := v\<rparr>) (coerce (cf_type e) raw))"

definition acceptable :: "captured_field list \<Rightarrow> string \<times> pyval \<Rightarrow> bool" where
  "acceptable current r \<longleftrightarrow> adoptable_by_name (fst r) \<noteq> None \<and>
     (\<exists>e. controlled current (fst r) = Some e \<and> coerce (cf_type e) (snd r) \<noteq> None)"

definition moved :: "captured_field list \<Rightarrow> string \<times> pyval \<Rightarrow> field_change option" where
  "moved current r = (case controlled current (fst r) of None \<Rightarrow> None | Some e \<Rightarrow>
     (case coerce (cf_type e) (snd r) of None \<Rightarrow> None | Some v \<Rightarrow>
        if val_eq v (cf_value e) then None
        else Some \<lparr>fc_field = fst r, fc_type = cf_type e, fc_was = cf_value e, fc_now = v\<rparr>))"

lemma plan_fields_Inr_iff:
  "isl (plan_fields (controlled current) names req planned changed) \<longleftrightarrow>
     (\<exists>r \<in> set req. \<not> acceptable current r)"
proof (induction req arbitrary: planned changed)
  case Nil
  then show ?case by simp
next
  case (Cons r req)
  show ?case
    by (cases r, cases "adoptable_by_name (fst r)"; cases "controlled current (fst r)";
        cases "coerce (cf_type (the (controlled current (fst r)))) (snd r)")
       (simp_all add: Cons.IH acceptable_def)
qed

lemma plan_fields_changed:
  assumes "plan_fields (controlled current) names req planned changed = Inr (p', c')"
  shows "c' = changed @ List.map_filter (moved current) req"
  using assms
proof (induction req arbitrary: planned changed)
  case Nil
  then show ?case by (simp add: List.map_filter_simps)
next
  case (Cons r req)
  then show ?case
    by (cases r) (auto simp: moved_def List.map_filter_simps split: option.splits if_splits
        dest!: Cons.IH)
qed

lemma plan_fields_planned:
  assumes "plan_fields (controlled current) names req planned changed = Inr (p', c')"
    and "distinct (map fst req)"
  shows "p' n = (case map_of req n of None \<Rightarrow> planned n
     | Some raw \<Rightarrow> (case controlled current n of None \<Rightarrow> None
         | Some e \<Rightarrow> map_option (\<lambda>v. e\<lparr>cf_value := v\<rparr>) (coerce (cf_type e) raw)))"
  using assms
proof (induction req arbitrary: planned changed)
  case Nil
  then show ?case by simp
next
  case (Cons r req)
  obtain field raw where r: "r = (field, raw)" by (cases r)
  from Cons.prems obtain e v planned' changed' where
      e: "controlled current field = Some e" and v: "coerce (cf_type e) raw = Some v"
    and planned': "planned' = planned(field \<mapsto> \<lparr>cf_field = field, cf_type = cf_type e, cf_value = v\<rparr>)"
    and rest: "plan_fields (controlled current) names req planned' changed' = Inr (p', c')"
    by (auto simp: r split: option.splits)
  have field: "cf_field e = field" using controlled_Some_mem [OF e] by simp
  from Cons.IH [OF rest] Cons.prems(2) r
  have IH: "p' n = (case map_of req n of None \<Rightarrow> planned' n
     | Some raw \<Rightarrow> (case controlled current n of None \<Rightarrow> None
         | Some e \<Rightarrow> map_option (\<lambda>v. e\<lparr>cf_value := v\<rparr>) (coerce (cf_type e) raw)))" by simp
  show ?case
  proof (cases "n = field")
    case True
    with Cons.prems(2) r have "map_of req n = None" by (force simp: map_of_eq_None_iff)
    with True IH r e v planned' field show ?thesis by (cases e) simp
  next
    case False
    with IH r planned' show ?thesis by (simp split: option.splits)
  qed
qed

lemma map_filter_eq_Nil: "List.map_filter f xs = [] \<longleftrightarrow> (\<forall>x \<in> set xs. f x = None)"
  by (induction xs) (auto simp: List.map_filter_simps split: option.splits)

lemma set_map_filter_Some: "y \<in> set (List.map_filter f xs) \<longleftrightarrow> (\<exists>x \<in> set xs. f x = Some y)"
  by (induction xs) (auto simp: List.map_filter_simps split: option.splits)

lemma revised_field: "revised req e = Some e' \<Longrightarrow> cf_field e' = cf_field e \<and> cf_type e' = cf_type e"
  by (auto simp: revised_def split: option.splits)

lemma explicit_plan_Inr:
  assumes "plan_explicit_revision current req = Inr p"
    and "distinct (map cf_field current)" and "distinct (map fst req)"
  shows "rp_kind p = Explicit"
    and "map Some (rp_fields p) = map (revised req) current"
    and "rp_changed p = List.map_filter (moved current) req"
    and "rp_changed p \<noteq> []"
    and "rp_carried p = map cf_field (filter (\<lambda>f. cf_field f \<notin> fst ` set req) current)"
    and "\<forall>r \<in> set req. acceptable current r"
proof -
  from assms(1) obtain planned changed where
      pf: "plan_fields (controlled current) (controlled_names current) req (controlled current) []
             = Inr (planned, changed)"
    and ne: "changed \<noteq> []"
    and p: "p = \<lparr>rp_kind = Explicit, rp_fields = map (\<lambda>f. the (planned (cf_field f))) current,
                 rp_changed = changed, rp_carried = map cf_field
                       (filter (\<lambda>f. cf_field f \<notin> fst ` set req) current)\<rparr>"
    by (auto simp: plan_explicit_revision_def split: if_splits sum.splits prod.splits)
  show acc: "\<forall>r \<in> set req. acceptable current r"
    using pf plan_fields_Inr_iff [of current "controlled_names current" req "controlled current" "[]"]
    by simp
  have "Some (the (planned (cf_field e))) = revised req e" if "e \<in> set current" for e
  proof -
    have c: "controlled current (cf_field e) = Some e"
      using controlled_distinct [OF assms(2) that] .
    show ?thesis
    proof (cases "map_of req (cf_field e)")
      case None
      then show ?thesis
        using plan_fields_planned [OF pf assms(3), of "cf_field e"] c by (simp add: revised_def)
    next
      case (Some raw)
      then have "(cf_field e, raw) \<in> set req" by (rule map_of_SomeD)
      with acc c obtain v where "coerce (cf_type e) raw = Some v"
        by (fastforce simp: acceptable_def)
      then show ?thesis
        using plan_fields_planned [OF pf assms(3), of "cf_field e"] c Some
        by (simp add: revised_def)
    qed
  qed
  then show "map Some (rp_fields p) = map (revised req) current" by (simp add: p)
  show "rp_changed p = List.map_filter (moved current) req"
    using plan_fields_changed [OF pf] by (simp add: p)
  show "rp_kind p = Explicit" "rp_changed p \<noteq> []"
    "rp_carried p = map cf_field (filter (\<lambda>f. cf_field f \<notin> fst ` set req) current)"
    using ne by (simp_all add: p)
qed

lemma explicit_plan_exists_iff:
  "(\<exists>p. plan_explicit_revision current req = Inr p) \<longleftrightarrow>
     (\<forall>r \<in> set req. acceptable current r) \<and> (\<exists>r \<in> set req. moved current r \<noteq> None)"
proof (cases "plan_fields (controlled current) (controlled_names current) req (controlled current) []")
  case (Inl r)
  then have "\<exists>r \<in> set req. \<not> acceptable current r"
    using plan_fields_Inr_iff [of current "controlled_names current" req "controlled current" "[]"]
    by simp
  with Inl show ?thesis by (auto simp: plan_explicit_revision_def)
next
  case (Inr x)
  obtain pl ch where x: "x = (pl, ch)" by (cases x)
  have "\<forall>r \<in> set req. acceptable current r"
    using Inr plan_fields_Inr_iff [of current "controlled_names current" req "controlled current" "[]"]
    by simp
  moreover have "ch = List.map_filter (moved current) req"
    using plan_fields_changed [OF Inr [unfolded x]] by simp
  ultimately show ?thesis
    using Inr x by (cases "req = []")
      (auto simp: plan_explicit_revision_def List.map_filter_simps map_filter_eq_Nil)
qed

lemma runtime_plan_Inr:
  assumes "plan_runtime_revision current cap = Inr p"
    and "distinct (map cf_field current)"
  shows "rp_kind p = Runtime_Adoption"
    and "map Some (rp_fields p) = map (\<lambda>f. controlled (cap_fields cap) (cf_field f)) current"
    and "\<exists>f \<in> set current. \<exists>g. controlled (cap_fields cap) (cf_field f) = Some g \<and>
           \<not> val_eq (cf_value g) (cf_value f)"
    and "rp_carried p = []"
proof -
  let ?obs = "controlled (cap_fields cap)"
  from assms(1) have miss: "unverified_missing current cap = []"
    and unseen: "unverified_unseen current cap = []"
    and f: "rp_fields p = map (\<lambda>f. the (?obs (cf_field f))) current"
    and "filter (\<lambda>n. \<not> val_eq (cf_value (the (?obs n))) (cf_value (the (controlled current n))))
           (controlled_names current) \<noteq> []"
    and kind: "rp_kind p = Runtime_Adoption" and carr: "rp_carried p = []"
    by (auto simp: plan_runtime_revision_def Let_def split: if_splits)
  then obtain n where n: "n \<in> set (controlled_names current)"
      "\<not> val_eq (cf_value (the (?obs n))) (cf_value (the (controlled current n)))"
    by (auto simp: filter_empty_conv)
  have seen: "?obs (cf_field e) \<noteq> None" if "e \<in> set current" for e
    using unseen miss that by (auto simp: unverified_unseen_def controlled_names_def filter_empty_conv)
  then show "map Some (rp_fields p) = map (\<lambda>f. ?obs (cf_field f)) current"
    by (simp add: f)
  from n(1) obtain e where e: "e \<in> set current" "cf_field e = n" by (auto simp: controlled_names_def)
  from seen [OF e(1)] obtain g where g: "?obs (cf_field e) = Some g" by auto
  have "\<not> val_eq (cf_value g) (cf_value e)"
    using n(2) controlled_distinct [OF assms(2) e(1)] g e(2) by auto
  with g e(1)
  show "\<exists>f \<in> set current. \<exists>g. ?obs (cf_field f) = Some g \<and> \<not> val_eq (cf_value g) (cf_value f)"
    by blast
  show "rp_kind p = Runtime_Adoption" "rp_carried p = []" by (fact kind, fact carr)
qed

end
