(* ===== verification/Reconciliation.thy ===== *)
theory Reconciliation
  imports Intent
begin

text \<open>
  Comparing retained intent with the newest observation:
  \<open>src/localplane/backend/domain/reconciliation.py\<close>, with the reconciliation axis of
  \<open>domain/states.py\<close>. The lemmas characterise each verdict by the fields that caused it
  (a readable disagreement outranks an unreadable field, which outranks agreement), and
  relate it to \<open>Intent\<close>: intent captured from an observation is in sync with it.
\<close>

datatype reconciliation_state = RS_In_Sync | RS_Drifted | RS_Applying | RS_Unknown

datatype comparison = Matches | Differs | Unknown

record intended_field =
  if_field :: string
  if_type :: value_type
  if_value :: ivalue

record observed_snapshot =
  os_observation_id :: string
  os_sweep_id :: string
  os_observed_at :: string
  os_capability :: string
  os_provider :: string
  os_facts :: facts

record field_comparison =
  fcmp_field :: string
  fcmp_type :: value_type
  fcmp_intended :: ivalue
  fcmp_observed :: "ivalue option"
  fcmp_comparison :: comparison
  fcmp_reason :: string

record reconciliation =
  rec_state :: reconciliation_state
  rec_reason :: string
  rec_fields :: "field_comparison list"
  rec_observation_id :: "string option"
  rec_sweep_id :: "string option"
  rec_observed_at :: "string option"

definition drifted_fields :: "reconciliation \<Rightarrow> field_comparison list" where
  "drifted_fields r = filter (\<lambda>f. fcmp_comparison f = Differs) (rec_fields r)"

definition unknown_comparison :: "string \<Rightarrow> intended_field \<Rightarrow> field_comparison" where
  "unknown_comparison reason i =
     \<lparr>fcmp_field = if_field i, fcmp_type = if_type i, fcmp_intended = if_value i,
      fcmp_observed = None, fcmp_comparison = Unknown, fcmp_reason = reason\<rparr>"

definition compare_field :: "intended_field \<Rightarrow> facts \<Rightarrow> field_comparison" where
  "compare_field i fs =
     (let raw = get fs (if_field i) in
      if raw = PNone then unknown_comparison ''observed_value_unreadable'' i
      else case coerce (if_type i) raw of
        None \<Rightarrow> unknown_comparison ''observed_value_not_usable'' i
      | Some observed \<Rightarrow>
          (let matches = val_eq observed (if_value i) in
           \<lparr>fcmp_field = if_field i, fcmp_type = if_type i, fcmp_intended = if_value i,
            fcmp_observed = Some observed,
            fcmp_comparison = (if matches then Matches else Differs),
            fcmp_reason = (if matches then ''observed_value_matches''
                           else ''observed_value_differs'')\<rparr>))"

definition reconcile ::
  "string \<Rightarrow> string \<Rightarrow> intended_field list \<Rightarrow> observed_snapshot option \<Rightarrow> reconciliation" where
  "reconcile intent_capability intent_provider intended observation =
     (case observation of
        None \<Rightarrow>
          \<lparr>rec_state = RS_Unknown, rec_reason = ''no_observation'',
           rec_fields = map (unknown_comparison ''no_observation'') intended,
           rec_observation_id = None, rec_sweep_id = None, rec_observed_at = None\<rparr>
      | Some obs \<Rightarrow>
          if os_capability obs \<noteq> intent_capability \<or> os_provider obs \<noteq> intent_provider
          then \<lparr>rec_state = RS_Unknown, rec_reason = ''observation_source_incompatible'',
                rec_fields = map (unknown_comparison ''observation_source_incompatible'') intended,
                rec_observation_id = Some (os_observation_id obs),
                rec_sweep_id = Some (os_sweep_id obs),
                rec_observed_at = Some (os_observed_at obs)\<rparr>
          else
            (let comparisons = map (\<lambda>i. compare_field i (os_facts obs)) intended;
                 sr = (if comparisons = []
                       then (RS_Unknown, ''intent_controls_no_fields'')
                       else if \<exists>c \<in> set comparisons. fcmp_comparison c = Differs
                       then (RS_Drifted, ''controlled_field_differs'')
                       else if \<exists>c \<in> set comparisons. fcmp_comparison c = Unknown
                       then (RS_Unknown, ''controlled_field_not_observable'')
                       else (RS_In_Sync, ''controlled_fields_match'')) in
             \<lparr>rec_state = fst sr, rec_reason = snd sr, rec_fields = comparisons,
              rec_observation_id = Some (os_observation_id obs),
              rec_sweep_id = Some (os_sweep_id obs),
              rec_observed_at = Some (os_observed_at obs)\<rparr>))"

section \<open>Lemmas\<close>

definition reads_as :: "observed_snapshot \<Rightarrow> intended_field \<Rightarrow> ivalue option" where
  "reads_as obs i = coerce (if_type i) (get (os_facts obs) (if_field i))"

lemma compare_field_cases:
  "fcmp_comparison (compare_field i fs) =
     (case coerce (if_type i) (get fs (if_field i)) of
        None \<Rightarrow> Unknown | Some v \<Rightarrow> if val_eq v (if_value i) then Matches else Differs)"
  by (auto simp: compare_field_def unknown_comparison_def Let_def split: option.splits)

lemma compare_field_observed:
  "fcmp_observed (compare_field i fs) = coerce (if_type i) (get fs (if_field i))"
  by (auto simp: compare_field_def unknown_comparison_def Let_def split: option.splits)

text \<open>Whether the observation may be compared at all.\<close>

definition comparable :: "string \<Rightarrow> string \<Rightarrow> observed_snapshot \<Rightarrow> bool" where
  "comparable cap prov obs \<longleftrightarrow> os_capability obs = cap \<and> os_provider obs = prov"

lemma compare_field_matches_iff:
  "fcmp_comparison (compare_field i fs) = Matches \<longleftrightarrow>
     (\<exists>v. coerce (if_type i) (get fs (if_field i)) = Some v \<and> val_eq v (if_value i))"
  by (auto simp: compare_field_cases split: option.splits)

lemma compare_field_differs_iff:
  "fcmp_comparison (compare_field i fs) = Differs \<longleftrightarrow>
     (\<exists>v. coerce (if_type i) (get fs (if_field i)) = Some v \<and> \<not> val_eq v (if_value i))"
  by (auto simp: compare_field_cases split: option.splits)

lemma reconcile_drifted_iff:
  "rec_state (reconcile cap prov intended observation) = RS_Drifted \<longleftrightarrow>
     (\<exists>obs. observation = Some obs \<and> comparable cap prov obs \<and>
        (\<exists>i \<in> set intended. \<exists>v. reads_as obs i = Some v \<and> \<not> val_eq v (if_value i)))"
proof -
  have "rec_state (reconcile cap prov intended observation) = RS_Drifted \<longleftrightarrow>
     (\<exists>obs. observation = Some obs \<and> comparable cap prov obs \<and>
        (\<exists>i \<in> set intended. fcmp_comparison (compare_field i (os_facts obs)) = Differs))"
    by (cases observation) (auto simp: reconcile_def comparable_def Let_def)
  then show ?thesis by (simp add: compare_field_differs_iff reads_as_def)
qed

lemma matches_iff: "c = Matches \<longleftrightarrow> c \<noteq> Differs \<and> c \<noteq> Unknown"
  by (cases c) auto

lemma reconcile_in_sync_iff:
  "rec_state (reconcile cap prov intended observation) = RS_In_Sync \<longleftrightarrow>
     (\<exists>obs. observation = Some obs \<and> comparable cap prov obs \<and> intended \<noteq> [] \<and>
        (\<forall>i \<in> set intended. \<exists>v. reads_as obs i = Some v \<and> val_eq v (if_value i)))"
proof -
  have "rec_state (reconcile cap prov intended observation) = RS_In_Sync \<longleftrightarrow>
     (\<exists>obs. observation = Some obs \<and> comparable cap prov obs \<and> intended \<noteq> [] \<and>
        (\<forall>i \<in> set intended. fcmp_comparison (compare_field i (os_facts obs)) = Matches))"
    by (cases observation) (auto simp: reconcile_def comparable_def matches_iff Let_def)
  then show ?thesis by (simp add: compare_field_matches_iff reads_as_def)
qed

lemma reconcile_never_applying:
  "rec_state (reconcile cap prov intended observation) \<noteq> RS_Applying"
  by (auto simp: reconcile_def Let_def split: option.splits)

lemma reconcile_unknown_iff:
  "rec_state (reconcile cap prov intended observation) = RS_Unknown \<longleftrightarrow>
     rec_state (reconcile cap prov intended observation) \<noteq> RS_Drifted \<and>
     rec_state (reconcile cap prov intended observation) \<noteq> RS_In_Sync"
  using reconcile_never_applying [of cap prov intended observation]
  by (cases "rec_state (reconcile cap prov intended observation)") auto

text \<open>The intent a captured field set writes, one intended field per captured value.\<close>

definition intend :: "captured_field \<Rightarrow> intended_field" where
  "intend c = \<lparr>if_field = cf_field c, if_type = cf_type c, if_value = cf_value c\<rparr>"

lemma in_sync_of_read_fields:
  assumes "flds \<noteq> []" and "comparable cap prov obs"
    and "\<forall>c \<in> set flds. coerce (cf_type c) (get (os_facts obs) (cf_field c)) = Some (cf_value c)"
  shows "rec_state (reconcile cap prov (map intend flds) (Some obs)) = RS_In_Sync"
  using assms by (auto simp: reconcile_in_sync_iff reads_as_def intend_def)

section \<open>Properties\<close>

text \<open>C36. Precedence of the reconciliation verdict, for every observation and intent: the object
  is drifted exactly when a comparable observation shows a readable controlled value that
  differs, in sync exactly when it shows every controlled value (at least one) and all agree,
  and unknown in every other case; it is never applying. In particular an unreadable value
  alone never produces drift and never produces agreement.\<close>

theorem reconcile_verdict:
  "rec_state (reconcile cap prov intended observation) =
     (case observation of
        None \<Rightarrow> RS_Unknown
      | Some obs \<Rightarrow>
          if comparable cap prov obs \<and>
             (\<exists>i \<in> set intended. \<exists>v. reads_as obs i = Some v \<and> \<not> val_eq v (if_value i))
          then RS_Drifted
          else if comparable cap prov obs \<and> intended \<noteq> [] \<and>
             list_all (\<lambda>i. \<exists>v. reads_as obs i = Some v \<and> val_eq v (if_value i)) intended
          then RS_In_Sync
          else RS_Unknown)"
proof (cases observation)
  case None
  then show ?thesis by (simp add: reconcile_def)
next
  case (Some obs)
  let ?s = "rec_state (reconcile cap prov intended observation)"
  show ?thesis
  proof (cases "?s")
    case RS_In_Sync
    then show ?thesis
      using reconcile_in_sync_iff [of cap prov intended observation]
        reconcile_drifted_iff [of cap prov intended observation] Some
      by (simp add: list_all_iff)
  next
    case RS_Drifted
    then show ?thesis using reconcile_drifted_iff [of cap prov intended observation] Some by simp
  next
    case RS_Applying
    then show ?thesis using reconcile_never_applying by blast
  next
    case RS_Unknown
    then show ?thesis
      using reconcile_in_sync_iff [of cap prov intended observation]
        reconcile_drifted_iff [of cap prov intended observation] Some
      by (simp add: list_all_iff)
  qed
qed

text \<open>C38. Adopting an object and then reconciling it against the very observation it was
  adopted from yields agreement: when the capture of the facts is complete, the intent made of
  the captured fields is in sync with every comparable snapshot that carries those facts.\<close>

theorem adopt_then_in_sync:
  assumes "capture_complete (capture_interface_intent (os_facts obs))"
    and "comparable cap prov obs"
  shows "rec_state (reconcile cap prov
           (map intend (cap_fields (capture_interface_intent (os_facts obs)))) (Some obs)) = RS_In_Sync"
proof (rule in_sync_of_read_fields [OF _ assms(2)])
  let ?f = "\<lparr>af_name = ''mtu'', af_type = VT_Integer\<rparr>"
  have "?f \<in> set ADOPTABLE_INTERFACE_FIELDS" by (simp add: ADOPTABLE_INTERFACE_FIELDS_def)
  moreover from this obtain c where "capture_one (os_facts obs) ?f = Inr c"
    using assms(1) by (fastforce simp: capture_complete_iff capture_one_Inr)
  ultimately have "c \<in> set (cap_fields (capture_interface_intent (os_facts obs)))"
    by (auto simp: capture_field_mem)
  then show "cap_fields (capture_interface_intent (os_facts obs)) \<noteq> []" by auto
  show "\<forall>c \<in> set (cap_fields (capture_interface_intent (os_facts obs))).
      coerce (cf_type c) (get (os_facts obs) (cf_field c)) = Some (cf_value c)"
    by (blast intro: capture_field_read)
qed

definition sample_snapshot :: observed_snapshot where
  "sample_snapshot = \<lparr>os_observation_id = ''obs_1'', os_sweep_id = ''swp_1'',
     os_observed_at = ''t0'', os_capability = ''network.interface.observe'',
     os_provider = ''linux.kernel'',
     os_facts = [(''admin_up'', PBool True), (''mtu'', PInt 1500)]\<rparr>"

theorem adopt_then_in_sync_witness:
  "rec_state (reconcile ''network.interface.observe'' ''linux.kernel''
     (map intend (cap_fields (capture_interface_intent (os_facts sample_snapshot))))
     (Some sample_snapshot)) = RS_In_Sync"
  by (rule adopt_then_in_sync)
     (simp_all add: capture_complete_iff ADOPTABLE_INTERFACE_FIELDS_def sample_snapshot_def
        comparable_def)

text \<open>Declaring the observed runtime correct is itself a revision that ends the drift it was
  made for: whenever a runtime revision of an intent is accepted, the object was drifted
  against that observation and the revised field set (same names, same order) is in sync
  with it.\<close>

theorem runtime_revision_settles_drift:
  assumes "plan_runtime_revision current (capture_interface_intent (os_facts obs)) = Inr p"
    and "distinct (map cf_field current)"
    and "\<forall>f \<in> set current. \<forall>a \<in> set ADOPTABLE_INTERFACE_FIELDS.
           af_name a = cf_field f \<longrightarrow> af_type a = cf_type f"
    and "comparable cap prov obs"
  shows "rec_state (reconcile cap prov (map intend current) (Some obs)) = RS_Drifted \<and>
         rec_state (reconcile cap prov (map intend (rp_fields p)) (Some obs)) = RS_In_Sync \<and>
         map cf_field (rp_fields p) = map cf_field current"
proof (intro conjI)
  let ?cap = "capture_interface_intent (os_facts obs)"
  note rt = runtime_plan_Inr [OF assms(1,2)]
  have obs_read: "coerce (cf_type g) (get (os_facts obs) (cf_field g)) = Some (cf_value g)"
      "cf_field g = n" "g \<in> set (cap_fields ?cap)"
    if "controlled (cap_fields ?cap) n = Some g" for n g
    using controlled_Some_mem [OF that] by (auto intro: capture_field_read)
  from rt(3) obtain f g where f: "f \<in> set current"
      and g: "controlled (cap_fields ?cap) (cf_field f) = Some g" "\<not> val_eq (cf_value g) (cf_value f)"
    by blast
  from obs_read(3) [OF g(1)] obtain a where "a \<in> set ADOPTABLE_INTERFACE_FIELDS"
      "af_name a = cf_field g" "af_type a = cf_type g"
    by (auto simp: capture_field_mem capture_one_Inr)
  with assms(3) f obs_read(2) [OF g(1)] have "cf_type f = cf_type g" by auto
  with f g obs_read [OF g(1)] assms(4)
  show "rec_state (reconcile cap prov (map intend current) (Some obs)) = RS_Drifted"
    by (auto simp: reconcile_drifted_iff reads_as_def intend_def intro!: bexI [of _ f])
  from f have "current \<noteq> []" by auto
  then have "rp_fields p \<noteq> []" using arg_cong [OF rt(2), of length] by auto
  moreover have "coerce (cf_type c) (get (os_facts obs) (cf_field c)) = Some (cf_value c)"
    if "c \<in> set (rp_fields p)" for c
  proof -
    from that have "Some c \<in> set (map Some (rp_fields p))" by simp
    then have "Some c \<in> (\<lambda>f. controlled (cap_fields ?cap) (cf_field f)) ` set current"
      by (simp only: rt(2) set_map)
    then obtain f :: captured_field where "Some c = controlled (cap_fields ?cap) (cf_field f)" by blast
    then have "controlled (cap_fields ?cap) (cf_field f) = Some c" by simp
    then show ?thesis by (rule obs_read(1))
  qed
  ultimately show "rec_state (reconcile cap prov (map intend (rp_fields p)) (Some obs)) = RS_In_Sync"
    using assms(4) by (blast intro: in_sync_of_read_fields)
  have "map (map_option cf_field) (map Some (rp_fields p)) = map (\<lambda>f. Some (cf_field f)) current"
    unfolding rt(2) map_map
  proof (rule map_cong [OF refl])
    fix f assume "f \<in> set current"
    then have "controlled (cap_fields ?cap) (cf_field f) \<in> set (map Some (rp_fields p))"
      by (simp add: rt(2))
    then obtain c where "controlled (cap_fields ?cap) (cf_field f) = Some c" by auto
    then show "(map_option cf_field \<circ> (\<lambda>f. controlled (cap_fields ?cap) (cf_field f))) f =
        Some (cf_field f)"
      using obs_read(2) by simp
  qed
  then have "map Some (map cf_field (rp_fields p)) = map Some (map cf_field current)"
    by (simp add: comp_def)
  then show "map cf_field (rp_fields p) = map cf_field current"
    by (rule map_injective) simp
qed

theorem runtime_revision_settles_drift_witness:
  "\<exists>p. plan_runtime_revision
        [\<lparr>cf_field = ''admin_up'', cf_type = VT_Boolean, cf_value = VBool True\<rparr>,
         \<lparr>cf_field = ''mtu'', cf_type = VT_Integer, cf_value = VInt 9000\<rparr>]
        (capture_interface_intent (os_facts sample_snapshot)) = Inr p \<and>
     rec_state (reconcile ''network.interface.observe'' ''linux.kernel''
        (map intend (rp_fields p)) (Some sample_snapshot)) = RS_In_Sync"
proof -
  let ?cur = "[\<lparr>cf_field = ''admin_up'', cf_type = VT_Boolean, cf_value = VBool True\<rparr>,
         \<lparr>cf_field = ''mtu'', cf_type = VT_Integer, cf_value = VInt 9000\<rparr>]"
  obtain p where p: "plan_runtime_revision ?cur (capture_interface_intent (os_facts sample_snapshot)) = Inr p"
    by (simp add: plan_runtime_revision_def unverified_missing_def unverified_unseen_def
        capture_interface_intent_def ADOPTABLE_INTERFACE_FIELDS_def capture_one_def sample_snapshot_def
        controlled_def controlled_names_def val_eq_def Let_def)
  have "rec_state (reconcile ''network.interface.observe'' ''linux.kernel''
        (map intend (rp_fields p)) (Some sample_snapshot)) = RS_In_Sync"
    using runtime_revision_settles_drift [OF p, of "''network.interface.observe''" "''linux.kernel''"]
    by (simp add: ADOPTABLE_INTERFACE_FIELDS_def sample_snapshot_def comparable_def)
  with p show ?thesis by blast
qed

text \<open>An explicit revision never widens or narrows what LocalPlane is answerable for: when it
  is accepted, the new field set has the names and types of the old one in the same order,
  every field the operator named holds the supplied value read at its type, every other field
  keeps its value, the recorded changes are exactly the named fields whose value differs (at
  least one), and the carried fields are exactly those not named.\<close>

theorem explicit_revision_exact:
  assumes "plan_explicit_revision current req = Inr p"
    and "distinct (map cf_field current)" and "distinct (map fst req)"
  shows "map Some (rp_fields p) = map (revised req) current \<and>
         map cf_field (rp_fields p) = map cf_field current \<and>
         rp_changed p = List.map_filter (moved current) req \<and> rp_changed p \<noteq> [] \<and>
         rp_carried p = map cf_field (filter (\<lambda>f. cf_field f \<notin> fst ` set req) current)"
proof -
  note ex = explicit_plan_Inr [OF assms]
  have "map (map_option cf_field) (map Some (rp_fields p)) =
        map (map_option cf_field) (map (revised req) current)"
    using ex(2) by simp
  also have "\<dots> = map (\<lambda>f. Some (cf_field f)) current"
    unfolding map_map
  proof (rule map_cong [OF refl])
    fix f assume "f \<in> set current"
    then have "revised req f \<in> set (map Some (rp_fields p))" by (simp add: ex(2))
    then show "(map_option cf_field \<circ> revised req) f = Some (cf_field f)"
      by (auto dest: revised_field)
  qed
  finally have "map Some (map cf_field (rp_fields p)) = map Some (map cf_field current)"
    by (simp add: comp_def)
  then have "map cf_field (rp_fields p) = map cf_field current"
    by (rule map_injective) simp
  with ex show ?thesis by simp
qed

theorem explicit_revision_exact_witness:
  "\<exists>p. plan_explicit_revision
        [\<lparr>cf_field = ''admin_up'', cf_type = VT_Boolean, cf_value = VBool True\<rparr>,
         \<lparr>cf_field = ''mtu'', cf_type = VT_Integer, cf_value = VInt 1500\<rparr>]
        [(''mtu'', PInt 9000)] = Inr p \<and> rp_carried p = [''admin_up'']"
proof -
  let ?cur = "[\<lparr>cf_field = ''admin_up'', cf_type = VT_Boolean, cf_value = VBool True\<rparr>,
         \<lparr>cf_field = ''mtu'', cf_type = VT_Integer, cf_value = VInt 1500\<rparr>]"
  obtain p where p: "plan_explicit_revision ?cur [(''mtu'', PInt 9000)] = Inr p"
    by (simp add: plan_explicit_revision_def adoptable_by_name_def ADOPTABLE_INTERFACE_FIELDS_def
        controlled_def val_eq_def)
  have "rp_carried p = [''admin_up'']"
    using explicit_revision_exact [OF p] by simp
  with p show ?thesis by blast
qed

end
