(* ===== verification/Protection.thy ===== *)
theory Protection
  imports Prelude
begin

text \<open>
  The protected-resource core: \<open>src/localplane/backend/domain/protection.py\<close>. Protection
  reasons are assessed one by one and rolled up into one status. The lemmas show that the
  roll-up is honest: \<open>PS_Clear\<close> is only reached when every reason was evaluated and found
  not to apply, and an unresolved management path makes every resource unknown.
\<close>

datatype protection_status = PS_Protected | PS_Clear | PS_Unknown

datatype protection_reason = PR_Management_Path | PR_Localplane_Agent

fun ps_str :: "protection_status \<Rightarrow> string" where
  "ps_str PS_Protected = ''protected''"
| "ps_str PS_Clear = ''clear''"
| "ps_str PS_Unknown = ''unknown''"

fun pr_str :: "protection_reason \<Rightarrow> string" where
  "pr_str PR_Management_Path = ''management_path''"
| "pr_str PR_Localplane_Agent = ''localplane_agent''"

datatype management_path_relation =
  On_Management_Path | Not_On_Management_Path | Relation_Unknown

record management_path_verdict =
  mpv_resource_id :: "string option"
  mpv_reason :: string
  mpv_evidence_id :: "string option"
  mpv_observed_at :: "string option"
  mpv_missing_evidence :: "string list"

definition confirmed :: "management_path_verdict \<Rightarrow> bool" where
  "confirmed v \<longleftrightarrow> mpv_resource_id v \<noteq> None"

record reason_assessment =
  ra_reason :: protection_reason
  ra_status :: protection_status
  ra_detail :: string
  ra_evidence_id :: "string option"
  ra_observed_at :: "string option"
  ra_evidence :: facts
  ra_missing_evidence :: "string list"

record protection_assessment =
  pa_status :: protection_status
  pa_reasons :: "protection_reason list"
  pa_unresolved :: "protection_reason list"
  pa_assessed :: "reason_assessment list"
  pa_management_path :: management_path_relation
  pa_reason :: string
  pa_missing_evidence :: "string list"

definition pa_evidence_id :: "protection_assessment \<Rightarrow> string option" where
  "pa_evidence_id p = Option.bind (find (\<lambda>e. ra_evidence_id e \<noteq> None) (pa_assessed p)) ra_evidence_id"

definition pa_evidence_observed_at :: "protection_assessment \<Rightarrow> string option" where
  "pa_evidence_observed_at p =
     Option.bind (find (\<lambda>e. ra_evidence_id e \<noteq> None) (pa_assessed p)) ra_observed_at"

definition NOT_THE_MANAGEMENT_PATH :: string where
  "NOT_THE_MANAGEMENT_PATH = ''not_the_management_path''"

definition CANNOT_AFFECT_MANAGEMENT_PATH :: string where
  "CANNOT_AFFECT_MANAGEMENT_PATH = ''operation_cannot_affect_management_path''"

definition assess_management_path_reason ::
  "management_path_verdict \<Rightarrow> string \<Rightarrow> bool \<Rightarrow> reason_assessment \<times> management_path_relation" where
  "assess_management_path_reason v resource_id applicable =
     (let relation =
            (case mpv_resource_id v of
               None \<Rightarrow> Relation_Unknown
             | Some r \<Rightarrow> if r = resource_id then On_Management_Path else Not_On_Management_Path);
          assessment = (\<lambda>status detail.
            \<lparr>ra_reason = PR_Management_Path, ra_status = status, ra_detail = detail,
             ra_evidence_id = mpv_evidence_id v, ra_observed_at = mpv_observed_at v,
             ra_evidence = [], ra_missing_evidence = []\<rparr>) in
      if \<not> applicable then (assessment PS_Clear CANNOT_AFFECT_MANAGEMENT_PATH, relation)
      else case relation of
          On_Management_Path \<Rightarrow> (assessment PS_Protected (mpv_reason v), relation)
        | Not_On_Management_Path \<Rightarrow> (assessment PS_Clear NOT_THE_MANAGEMENT_PATH, relation)
        | Relation_Unknown \<Rightarrow> (assessment PS_Unknown (mpv_reason v), relation))"

definition has_status :: "protection_status \<Rightarrow> reason_assessment \<Rightarrow> bool" where
  "has_status s e \<longleftrightarrow> ra_status e = s"

definition roll_up_protection ::
  "reason_assessment list \<Rightarrow> management_path_relation \<Rightarrow> string list \<Rightarrow>
   py_error + protection_assessment" where
  "roll_up_protection assessed management_path missing_evidence =
     (case assessed of
        [] \<Rightarrow> Inl (ValueError ''a protection assessment must evaluate at least one reason'')
      | first # _ \<Rightarrow>
        (let protected = map ra_reason (filter (has_status PS_Protected) assessed);
             unresolved = map ra_reason (filter (has_status PS_Unknown) assessed);
             ds = (if protected \<noteq> []
                   then (the (find (has_status PS_Protected) assessed), PS_Protected)
                   else if unresolved \<noteq> []
                   then (the (find (has_status PS_Unknown) assessed), PS_Unknown)
                   else (first, PS_Clear)) in
         Inr \<lparr>pa_status = snd ds, pa_reasons = protected, pa_unresolved = unresolved,
              pa_assessed = assessed, pa_management_path = management_path,
              pa_reason = ra_detail (fst ds), pa_missing_evidence = missing_evidence\<rparr>))"

definition assess_resource_protection ::
  "management_path_verdict \<Rightarrow> string \<Rightarrow> bool \<Rightarrow> py_error + protection_assessment" where
  "assess_resource_protection v resource_id applicable =
     (let ar = assess_management_path_reason v resource_id applicable in
      roll_up_protection [fst ar] (snd ar)
        (if ra_status (fst ar) = PS_Unknown then mpv_missing_evidence v else []))"

section \<open>Lemmas\<close>

lemma roll_up_error_iff: "isl (roll_up_protection assessed mp missing) \<longleftrightarrow> assessed = []"
  by (cases assessed) (auto simp: roll_up_protection_def Let_def)

lemma roll_up_sel:
  assumes "roll_up_protection assessed mp missing = Inr p"
  shows "assessed \<noteq> []" "pa_assessed p = assessed" "pa_management_path p = mp"
    "pa_missing_evidence p = missing"
    "pa_reasons p = map ra_reason (filter (has_status PS_Protected) assessed)"
    "pa_unresolved p = map ra_reason (filter (has_status PS_Unknown) assessed)"
  using assms by (auto simp: roll_up_protection_def Let_def split: list.splits)

lemma roll_up_status:
  assumes "roll_up_protection assessed mp missing = Inr p"
  shows "pa_status p =
    (if \<exists>e \<in> set assessed. ra_status e = PS_Protected then PS_Protected
     else if \<exists>e \<in> set assessed. ra_status e = PS_Unknown then PS_Unknown else PS_Clear)"
  using assms
  by (cases assessed) (auto simp: roll_up_protection_def Let_def filter_empty_conv has_status_def)

text \<open>The published detail is that of an assessment with the rolled-up status.\<close>

lemma roll_up_decisive:
  assumes "roll_up_protection assessed mp missing = Inr p"
  shows "\<exists>e \<in> set assessed. ra_status e = pa_status p \<and> ra_detail e = pa_reason p"
proof -
  obtain a as where a: "assessed = a # as"
    using assms by (cases assessed) (auto simp: roll_up_protection_def)
  let ?P = "filter (has_status PS_Protected) assessed"
  let ?U = "filter (has_status PS_Unknown) assessed"
  show ?thesis
  proof (cases "?P = []")
    case False
    then obtain e where e: "find (has_status PS_Protected) assessed = Some e"
      by (cases "find (has_status PS_Protected) assessed") (auto simp: find_None_all filter_empty_conv)
    with False assms a have "pa_status p = PS_Protected" "pa_reason p = ra_detail e"
      by (auto simp: roll_up_protection_def Let_def)
    with find_Some_in [OF e] show ?thesis by (auto simp: has_status_def)
  next
    case P: True
    show ?thesis
    proof (cases "?U = []")
      case False
      then obtain e where e: "find (has_status PS_Unknown) assessed = Some e"
        by (cases "find (has_status PS_Unknown) assessed") (auto simp: find_None_all filter_empty_conv)
      with False P assms a have "pa_status p = PS_Unknown" "pa_reason p = ra_detail e"
        by (auto simp: roll_up_protection_def Let_def)
      with find_Some_in [OF e] show ?thesis by (auto simp: has_status_def)
    next
      case True
      with P assms a have "pa_status p = PS_Clear" "pa_reason p = ra_detail a"
        by (auto simp: roll_up_protection_def Let_def split: if_splits)
      moreover have "ra_status a = PS_Clear"
        using P True a by (cases "ra_status a") (auto simp: has_status_def filter_empty_conv split: if_splits)
      ultimately show ?thesis using a by auto
    qed
  qed
qed

lemma assess_relation:
  "snd (assess_management_path_reason v r app) =
     (case mpv_resource_id v of None \<Rightarrow> Relation_Unknown
      | Some r' \<Rightarrow> if r' = r then On_Management_Path else Not_On_Management_Path)"
  by (auto simp: assess_management_path_reason_def Let_def split: option.splits)

lemma assess_status:
  "ra_status (fst (assess_management_path_reason v r app)) =
     (if \<not> app then PS_Clear else case mpv_resource_id v of None \<Rightarrow> PS_Unknown
      | Some r' \<Rightarrow> if r' = r then PS_Protected else PS_Clear)"
  by (auto simp: assess_management_path_reason_def Let_def split: option.splits)

lemma assess_reason [simp]:
  "ra_reason (fst (assess_management_path_reason v r app)) = PR_Management_Path"
  by (auto simp: assess_management_path_reason_def Let_def split: option.splits)

lemma assess_resource_total: "\<exists>p. assess_resource_protection v r app = Inr p"
  by (simp add: assess_resource_protection_def roll_up_protection_def Let_def)

lemma assess_resource_status:
  assumes "assess_resource_protection v r app = Inr p"
  shows "pa_status p = (if \<not> app then PS_Clear else case mpv_resource_id v of None \<Rightarrow> PS_Unknown
           | Some r' \<Rightarrow> if r' = r then PS_Protected else PS_Clear)"
    and "pa_management_path p = (case mpv_resource_id v of None \<Rightarrow> Relation_Unknown
           | Some r' \<Rightarrow> if r' = r then On_Management_Path else Not_On_Management_Path)"
  using roll_up_status [OF assms [unfolded assess_resource_protection_def Let_def]]
    roll_up_sel(3) [OF assms [unfolded assess_resource_protection_def Let_def]]
  by (auto simp: assess_status assess_relation split: option.splits)

section \<open>Properties\<close>

text \<open>The protection roll-up never softens an unsettled reason: rolling up assessed reasons
  fails exactly on the empty list; otherwise the status is protected when some reason is proven,
  else unknown when some reason is unsettled, and clear only when every single reason was
  evaluated and found not to apply; the proven and the unsettled reasons are all listed in
  order, and the published code is that of a reason with the status given.\<close>

theorem roll_up_honest:
  "case roll_up_protection assessed mp missing of
     Inl _ \<Rightarrow> assessed = []
   | Inr p \<Rightarrow> assessed \<noteq> [] \<and>
       (pa_status p = PS_Clear \<longleftrightarrow> list_all (has_status PS_Clear) assessed) \<and>
       (pa_status p = PS_Protected \<longleftrightarrow> list_ex (has_status PS_Protected) assessed) \<and>
       pa_reasons p = map ra_reason (filter (has_status PS_Protected) assessed) \<and>
       pa_unresolved p = map ra_reason (filter (has_status PS_Unknown) assessed) \<and>
       list_ex (\<lambda>e. ra_status e = pa_status p \<and> ra_detail e = pa_reason p) assessed"
proof (cases "roll_up_protection assessed mp missing")
  case (Inl e)
  then show ?thesis using roll_up_error_iff [of assessed mp missing] by simp
next
  case (Inr p)
  have "(\<forall>e \<in> set assessed. ra_status e = PS_Clear) \<longleftrightarrow>
        \<not> (\<exists>e \<in> set assessed. ra_status e = PS_Protected) \<and>
        \<not> (\<exists>e \<in> set assessed. ra_status e = PS_Unknown)"
    by (metis protection_status.distinct(1,5) protection_status.exhaust)
  with roll_up_status [OF Inr]
  have "pa_status p = PS_Clear \<longleftrightarrow> list_all (has_status PS_Clear) assessed"
    by (auto simp: list_all_iff has_status_def)
  moreover have "pa_status p = PS_Protected \<longleftrightarrow> list_ex (has_status PS_Protected) assessed"
    using roll_up_status [OF Inr] by (auto simp: list_ex_iff has_status_def)
  moreover have "list_ex (\<lambda>e. ra_status e = pa_status p \<and> ra_detail e = pa_reason p) assessed"
    using roll_up_decisive [OF Inr] by (simp add: list_ex_iff)
  ultimately show ?thesis using roll_up_sel [OF Inr] Inr by simp
qed

end
