(* ===== verification/States.thy ===== *)
theory States
  imports Prelude
begin

text \<open>
  The state axes and the judgements made on observed facts:
  \<open>src/localplane/backend/domain/states.py\<close> (management, health, freshness),
  \<open>domain/network.py\<close> (an interface's health and management stance) and
  \<open>domain/systemd.py\<close> (a unit's health). The lemmas say exactly which evidence each
  verdict needs: in particular that absent evidence is never health.

  Instants and durations are integers counting microseconds, the resolution of Python's
  \<open>datetime\<close>; \<open>total_seconds()\<close> is exact at that resolution for every span the program
  compares, so the comparison with the horizon is the comparison of these integers.
\<close>

datatype management_state = MS_Observe_Only | MS_Observed | MS_Managed

datatype health_state = HS_Healthy | HS_Degraded | HS_Failed | HS_Inactive | HS_Unknown

datatype freshness = Fr_Current | Fr_Stale | Fr_Never_Observed

type_synonym instant = int

definition DEFAULT_FRESHNESS_TTL :: int where
  "DEFAULT_FRESHNESS_TTL = 60 * 1000000"

definition derive_freshness ::
  "instant option \<Rightarrow> int \<Rightarrow> instant \<Rightarrow> freshness \<times> int option" where
  "derive_freshness observed_at ttl now =
     (case observed_at of
        None \<Rightarrow> (Fr_Never_Observed, None)
      | Some t \<Rightarrow> (let age = now - t in
          (if age \<le> ttl then Fr_Current else Fr_Stale, Some age)))"

section \<open>Network interfaces\<close>

definition KIND_LOOPBACK :: string where "KIND_LOOPBACK = ''loopback''"
definition KIND_TUNNEL :: string where "KIND_TUNNEL = ''tunnel''"
definition KIND_VIRTUAL_ETHERNET :: string where "KIND_VIRTUAL_ETHERNET = ''virtual_ethernet''"
definition KIND_BRIDGE :: string where "KIND_BRIDGE = ''bridge''"

lemmas kind_defs = KIND_LOOPBACK_def KIND_TUNNEL_def KIND_VIRTUAL_ETHERNET_def KIND_BRIDGE_def

record 'a verdict =
  v_state :: 'a
  v_reason :: string

definition Verdict :: "'a \<Rightarrow> string \<Rightarrow> 'a verdict" where
  "Verdict s r = \<lparr>v_state = s, v_reason = r\<rparr>"

record interface_signals =
  sig_kind :: string
  sig_admin_up :: "bool option"
  sig_operstate :: "string option"
  sig_carrier :: "bool option"

definition derive_health :: "interface_signals \<Rightarrow> health_state verdict" where
  "derive_health s =
     (case sig_admin_up s of
        None \<Rightarrow> Verdict HS_Unknown ''admin_state_unreadable''
      | Some False \<Rightarrow> Verdict HS_Inactive ''admin_down''
      | Some True \<Rightarrow>
        (let operstate = lower (case sig_operstate s of None \<Rightarrow> [] | Some op \<Rightarrow> op) in
         if operstate = [] then Verdict HS_Unknown ''operstate_unreadable''
         else if operstate = ''up'' then Verdict HS_Healthy ''operstate_up''
         else if operstate = ''notpresent'' then Verdict HS_Failed ''device_not_present''
         else if operstate = ''testing'' then Verdict HS_Degraded ''link_under_test''
         else if operstate = ''dormant'' then Verdict HS_Inactive ''dormant''
         else if operstate = ''lowerlayerdown'' then Verdict HS_Inactive ''lower_layer_down''
         else if operstate = ''unknown'' then
           (case sig_carrier s of
              Some True \<Rightarrow> Verdict HS_Healthy ''carrier_up_operstate_unknown''
            | Some False \<Rightarrow> Verdict HS_Inactive ''no_carrier_operstate_unknown''
            | None \<Rightarrow> Verdict HS_Unknown ''operstate_unknown_carrier_unreadable'')
         else if operstate = ''down'' then
           (case sig_carrier s of
              Some False \<Rightarrow> Verdict HS_Inactive ''no_carrier''
            | Some True \<Rightarrow> Verdict HS_Degraded ''carrier_up_operstate_down''
            | None \<Rightarrow> Verdict HS_Inactive ''operstate_down_carrier_unreadable'')
         else Verdict HS_Unknown (''unrecognised_operstate:'' @ operstate)))"

definition classify_management :: "interface_signals \<Rightarrow> management_state verdict" where
  "classify_management s =
     (if sig_kind s = KIND_LOOPBACK then Verdict MS_Observe_Only ''loopback''
      else if sig_kind s = KIND_VIRTUAL_ETHERNET
        then Verdict MS_Observe_Only ''ephemeral_virtual_pair''
      else if sig_kind s = KIND_TUNNEL then Verdict MS_Observe_Only ''userspace_owned_tunnel''
      else Verdict MS_Observed ''management_candidate'')"

section \<open>Systemd units\<close>

definition classify_systemd_management :: "facts \<Rightarrow> management_state verdict" where
  "classify_systemd_management fs = Verdict MS_Observe_Only ''systemd_observation_only''"

text \<open>The f-string rendering of a fact: \<open>sub or 'unknown'\<close>, and \<open>{sub}\<close> of a text.\<close>

fun text_or_unknown :: "pyval \<Rightarrow> string" where
  "text_or_unknown (PStr s) = (if s = [] then ''unknown'' else s)"
| "text_or_unknown _ = ''unknown''"

fun text_of :: "pyval \<Rightarrow> string" where
  "text_of (PStr s) = s"
| "text_of _ = ''None''"

definition KNOWN_FAILURES :: "string list" where
  "KNOWN_FAILURES = [''resources'', ''timeout'', ''exit-code'', ''signal'', ''core-dump'',
     ''watchdog'', ''start-limit-hit'', ''protocol'', ''oom-kill'', ''failure'',
     ''exec-condition'']"

definition expected_substates :: "string \<Rightarrow> string list option" where
  "expected_substates t = map_of
     [(''socket'', [''listening'', ''running'']), (''timer'', [''waiting'', ''elapsed'']),
      (''path'', [''waiting'', ''running'']), (''mount'', [''mounted'']),
      (''target'', [''active''])] t"

definition derive_service_health :: "facts \<Rightarrow> pyval \<Rightarrow> health_state verdict" where
  "derive_service_health service sub =
     (let ordinary =
        (if is_str sub ''running'' then Verdict HS_Healthy ''service_running''
         else if is_str sub ''exited'' then
           (if is_str (get service ''type'') ''oneshot'' \<or>
               get service ''remain_after_exit'' = PBool True
            then Verdict HS_Healthy ''oneshot_completed_and_retained''
            else Verdict HS_Unknown ''active_service_exited_without_oneshot_evidence'')
         else Verdict HS_Unknown (''unrecognised_active_service_sub_state:'' @ text_of sub)) in
      case get service ''result'' of
        PStr r \<Rightarrow>
          (if r \<in> {''success'', ''done''} then ordinary
           else if r \<in> set KNOWN_FAILURES then Verdict HS_Failed (''service_result:'' @ r)
           else Verdict HS_Unknown (''unrecognised_service_result:'' @ r))
      | _ \<Rightarrow> ordinary)"

definition derive_systemd_health :: "facts \<Rightarrow> string list \<Rightarrow> health_state verdict" where
  "derive_systemd_health fs active_socket_triggers =
     (let sub = get fs ''sub_state'' in
      case (get fs ''unit_type'', get fs ''active_state'') of
        (PStr unit_type, PStr active) \<Rightarrow>
          (if active = [] then Verdict HS_Unknown ''systemd_state_unreadable''
           else
             (let by_active =
                (if active = ''failed'' then Verdict HS_Failed (''failed:'' @ text_or_unknown sub)
                 else if active \<in> {''activating'', ''deactivating'', ''reloading'', ''refreshing''}
                   then Verdict HS_Degraded (''transition:'' @ active @ '':'' @ text_or_unknown sub)
                 else if active = ''inactive'' then
                   (if unit_type = ''service'' \<and> active_socket_triggers \<noteq> []
                    then Verdict HS_Inactive ''socket_activated_waiting''
                    else Verdict HS_Inactive (''inactive:'' @ text_or_unknown sub))
                 else if active = ''maintenance''
                   then Verdict HS_Degraded (''maintenance:'' @ text_or_unknown sub)
                 else if active \<noteq> ''active''
                   then Verdict HS_Unknown (''unrecognised_active_state:'' @ active)
                 else if unit_type = ''service''
                   then derive_service_health (as_dict (get fs ''service'')) sub
                 else case expected_substates unit_type of
                     Some subs \<Rightarrow>
                       (if str_in sub subs
                        then Verdict HS_Healthy (unit_type @ ''_'' @ text_of sub)
                        else Verdict HS_Unknown (''unrecognised_active_'' @ unit_type @
                               ''_sub_state:'' @ text_of sub))
                   | None \<Rightarrow> Verdict HS_Unknown (''unrecognised_unit_type:'' @ unit_type)) in
              case get fs ''load_state'' of
                PStr load \<Rightarrow>
                  (if load \<in> {''loaded'', ''stub'', ''merged''} then by_active
                   else if load \<in> {''error'', ''not-found'', ''bad-setting''}
                     then Verdict HS_Failed (''load_state:'' @ load)
                   else Verdict HS_Unknown (''unrecognised_load_state:'' @ load))
              | _ \<Rightarrow> by_active))
      | _ \<Rightarrow> Verdict HS_Unknown ''systemd_state_unreadable'')"

section \<open>Lemmas\<close>

lemma verdict_sel [simp]: "v_state (Verdict s r) = s" "v_reason (Verdict s r) = r"
  by (simp_all add: Verdict_def)

text \<open>A future timestamp (clock skew) is current, never stale.\<close>

lemma freshness_skew: "now \<le> t \<Longrightarrow> 0 \<le> ttl \<Longrightarrow> fst (derive_freshness (Some t) ttl now) = Fr_Current"
  by (simp add: derive_freshness_def Let_def)

lemma freshness_antimono:
  "fst (derive_freshness (Some t) ttl now) = Fr_Stale \<Longrightarrow> now \<le> now' \<Longrightarrow>
   fst (derive_freshness (Some t) ttl now') = Fr_Stale"
  by (auto simp: derive_freshness_def Let_def split: if_splits)

lemma classify_observe_only_iff:
  "v_state (classify_management s) = MS_Observe_Only \<longleftrightarrow>
     sig_kind s \<in> {KIND_LOOPBACK, KIND_VIRTUAL_ETHERNET, KIND_TUNNEL}"
  by (auto simp: classify_management_def)

lemma classify_never_managed: "v_state (classify_management s) \<noteq> MS_Managed"
  by (simp add: classify_management_def)

section \<open>Properties\<close>

text \<open>Health of a network interface is earned from evidence: it is healthy exactly when the
  link is administratively up and the kernel reports operstate up, or reports it unknown with
  a carrier; failed exactly when an administratively up device is not present; and whenever the
  administrative state or the operstate could not be read the answer is unknown (or inactive,
  when the link is known to be administratively down).\<close>

theorem interface_health_evidence:
  "(v_state (derive_health s) = HS_Healthy \<longleftrightarrow>
      sig_admin_up s = Some True \<and>
      (\<exists>op. sig_operstate s = Some op \<and>
         (lower op = ''up'' \<or> lower op = ''unknown'' \<and> sig_carrier s = Some True))) \<and>
   (v_state (derive_health s) = HS_Failed \<longleftrightarrow>
      sig_admin_up s = Some True \<and>
      (\<exists>op. sig_operstate s = Some op \<and> lower op = ''notpresent'')) \<and>
   (v_state (derive_health s) = HS_Degraded \<longleftrightarrow>
      sig_admin_up s = Some True \<and>
      (\<exists>op. sig_operstate s = Some op \<and>
         (lower op = ''testing'' \<or> lower op = ''down'' \<and> sig_carrier s = Some True))) \<and>
   (sig_admin_up s = None \<longrightarrow> v_state (derive_health s) = HS_Unknown) \<and>
   (sig_operstate s = None \<longrightarrow> v_state (derive_health s) \<in> {HS_Unknown, HS_Inactive})"
proof (cases "sig_admin_up s = Some True")
  case False
  then show ?thesis by (auto simp: derive_health_def split: option.splits bool.splits)
next
  case True
  show ?thesis
  proof (cases "sig_operstate s")
    case None
    with True show ?thesis by (simp add: derive_health_def lower_def Let_def)
  next
    case (Some op)
    with True show ?thesis by (cases "sig_carrier s") (simp_all add: derive_health_def Let_def split: bool.split)
  qed
qed

theorem interface_health_evidence_witness:
  "v_state (derive_health \<lparr>sig_kind = ''ethernet'', sig_admin_up = None,
      sig_operstate = Some ''up'', sig_carrier = Some True\<rparr>) = HS_Unknown"
  using interface_health_evidence [of "\<lparr>sig_kind = ''ethernet'', sig_admin_up = None,
      sig_operstate = Some ''up'', sig_carrier = Some True\<rparr>"] by simp

end
