(* ===== verification/Management_Path.thy ===== *)
theory Management_Path
  imports Protection States
begin

text \<open>
  Which object carries the connection an operator is reaching LocalPlane over:
  \<open>src/localplane/backend/domain/management_path.py\<close>. The transport of a request is read and
  classified (with Python's \<open>ipaddress\<close> rules for IPv4 and IPv6 text, which the first section
  models), and the recorded observation is correlated with the observed addresses. The
  property is an exact characterisation of the confirmed verdict.
\<close>

section \<open>Addresses, as \<open>ipaddress.ip_address\<close> reads them\<close>

text \<open>
  An address is its number, with the scope text of an IPv6 address when it carries one.
\<close>

datatype ip_address = IPv4 nat | IPv6 nat "string option"

fun split_on :: "char \<Rightarrow> string \<Rightarrow> string list" where
  "split_on c [] = [[]]"
| "split_on c (x # xs) =
     (if x = c then [] # split_on c xs
      else case split_on c xs of [] \<Rightarrow> [[x]] | w # ws \<Rightarrow> (x # w) # ws)"

definition code :: "char \<Rightarrow> nat" where
  "code c = of_char c"

definition is_digit :: "char \<Rightarrow> bool" where
  "is_digit c \<longleftrightarrow> 48 \<le> code c \<and> code c \<le> 57"

definition hex_value :: "char \<Rightarrow> nat option" where
  "hex_value c = (if is_digit c then Some (code c - 48)
     else if 97 \<le> code c \<and> code c \<le> 102 then Some (code c - 87)
     else if 65 \<le> code c \<and> code c \<le> 70 then Some (code c - 55) else None)"

definition number :: "nat \<Rightarrow> nat list \<Rightarrow> nat" where
  "number base ds = foldl (\<lambda>acc d. acc * base + d) 0 ds"

definition parse_octet :: "string \<Rightarrow> nat option" where
  "parse_octet s =
     (if s = [] \<or> \<not> list_all is_digit s \<or> length s > 3 \<or> (s \<noteq> ''0'' \<and> hd s = CHR ''0'')
      then None
      else (let n = number 10 (map (\<lambda>c. code c - 48) s) in if n > 255 then None else Some n))"

definition parse_ipv4 :: "string \<Rightarrow> nat option" where
  "parse_ipv4 s =
     (case map parse_octet (split_on (CHR ''.'') s) of
        [Some a, Some b, Some c, Some d] \<Rightarrow> Some (number 256 [a, b, c, d])
      | _ \<Rightarrow> None)"

definition parse_hextet :: "string \<Rightarrow> nat option" where
  "parse_hextet s =
     (if s = [] \<or> length s > 4 \<or> \<not> list_all (\<lambda>c. hex_value c \<noteq> None) s then None
      else Some (number 16 (map (\<lambda>c. the (hex_value c)) s)))"

text \<open>The text of a trailing dotted quad as two groups, as the parser rewrites it.\<close>

fun hex_digit :: "nat \<Rightarrow> char" where
  "hex_digit n = (if n < 10 then char_of (48 + n) else char_of (87 + n))"

fun hex_text :: "nat \<Rightarrow> string" where
  "hex_text n = (if n < 16 then [hex_digit n] else hex_text (n div 16) @ [hex_digit (n mod 16)])"

declare hex_text.simps [simp del]

fun dec_text :: "nat \<Rightarrow> string" where
  "dec_text n = (if n < 10 then [hex_digit n] else dec_text (n div 10) @ [hex_digit (n mod 10)])"

declare dec_text.simps [simp del]

definition expand_quad :: "string list \<Rightarrow> string list option" where
  "expand_quad parts =
     (if CHR ''.'' \<in> set (last parts)
      then map_option (\<lambda>n. butlast parts @ [hex_text (n div 65536), hex_text (n mod 65536)])
             (parse_ipv4 (last parts))
      else Some parts)"

definition inner_empty :: "string list \<Rightarrow> nat list" where
  "inner_empty parts = filter (\<lambda>i. parts ! i = []) [1..<length parts - 1]"

definition groups_of :: "string list \<Rightarrow> string list option" where
  "groups_of parts =
     (if length parts > 9 then None
      else case inner_empty parts of
        [] \<Rightarrow> (if length parts = 8 \<and> hd parts \<noteq> [] \<and> last parts \<noteq> [] then Some parts else None)
      | [k] \<Rightarrow>
         (let hi0 = k; lo0 = length parts - k - 1;
              hi = (if hd parts = [] then hi0 - 1 else hi0);
              lo = (if last parts = [] then lo0 - 1 else lo0) in
          if (hd parts = [] \<and> hi \<noteq> 0) \<or> (last parts = [] \<and> lo \<noteq> 0) \<or> hi + lo \<ge> 8 then None
          else Some (take hi parts @ replicate (8 - (hi + lo)) ''0''
                     @ drop (length parts - lo) parts))
      | _ \<Rightarrow> None)"

definition parse_groups :: "string list \<Rightarrow> nat option" where
  "parse_groups gs =
     (let hs = map parse_hextet gs in
      if None \<in> set hs then None else Some (number 65536 (map the hs)))"

definition parse_ipv6 :: "string \<Rightarrow> ip_address option" where
  "parse_ipv6 s =
     (case split_on (CHR ''%'') s of
        addr # scopes \<Rightarrow>
          (let parts = split_on (CHR '':'') addr in
           if length scopes > 1 \<or> scopes = [[]] \<or> length parts < 3 then None
           else Option.bind (expand_quad parts) (\<lambda>ps.
                Option.bind (groups_of ps) (\<lambda>gs.
                map_option (\<lambda>n. IPv6 n (case scopes of [] \<Rightarrow> None | z # _ \<Rightarrow> Some z))
                  (parse_groups gs))))
      | [] \<Rightarrow> None)"

text \<open>\<open>ipaddress.ip_address\<close>: IPv4 first, then IPv6, else \<open>ValueError\<close> (here \<open>None\<close>).\<close>

definition ip_address :: "string \<Rightarrow> ip_address option" where
  "ip_address s =
     (if CHR ''/'' \<in> set s then None
      else case parse_ipv4 s of Some n \<Rightarrow> Some (IPv4 n) | None \<Rightarrow> parse_ipv6 s)"

fun is_loopback :: "ip_address \<Rightarrow> bool" where
  "is_loopback (IPv4 n) = (n div 2 ^ 24 = 127)"
| "is_loopback (IPv6 n _) = (n = 1)"

fun is_unspecified :: "ip_address \<Rightarrow> bool" where
  "is_unspecified (IPv4 n) = (n = 0)"
| "is_unspecified (IPv6 n _) = (n = 0)"

fun is_link_local :: "ip_address \<Rightarrow> bool" where
  "is_link_local (IPv4 n) = (n div 2 ^ 16 = 169 * 256 + 254)"
| "is_link_local (IPv6 n _) = (n div 2 ^ 118 = 1018)"

fun unmap :: "ip_address \<Rightarrow> ip_address" where
  "unmap (IPv4 n) = IPv4 n"
| "unmap (IPv6 n z) = (if n div 2 ^ 32 = 65535 then IPv4 (n mod 2 ^ 32) else IPv6 n z)"

fun version_of :: "ip_address \<Rightarrow> nat" where
  "version_of (IPv4 _) = 4"
| "version_of (IPv6 _ _) = 6"

text \<open>
  \<open>str(address)\<close>: dotted decimal; or eight groups in lower-case hexadecimal with the first
  longest run of at least two zero groups compressed.
\<close>

fun join :: "string \<Rightarrow> string list \<Rightarrow> string" where
  "join sep [] = []"
| "join sep [x] = x"
| "join sep (x # y # xs) = x @ sep @ join sep (y # xs)"

definition digits_of :: "nat \<Rightarrow> nat \<Rightarrow> nat \<Rightarrow> nat list" where
  "digits_of base k n = map (\<lambda>i. n div base ^ (k - 1 - i) mod base) [0..<k]"

definition zero_run :: "nat list \<Rightarrow> nat \<Rightarrow> nat" where
  "zero_run gs i = length (takeWhile (\<lambda>g. g = 0) (drop i gs))"

definition best_run :: "nat list \<Rightarrow> nat \<times> nat" where
  "best_run gs = foldl (\<lambda>(i, l) j. if zero_run gs j > l then (j, zero_run gs j) else (i, l))
     (0, 0) [0..<length gs]"

definition ipv6_text :: "nat \<Rightarrow> string" where
  "ipv6_text n =
     (let gs = digits_of 65536 8 n; (i, l) = best_run gs; ts = map hex_text gs in
      if l > 1 then join '':'' (take i ts) @ ''::'' @ join '':'' (drop (i + l) ts)
      else join '':'' ts)"

fun address_text :: "ip_address \<Rightarrow> string" where
  "address_text (IPv4 n) = join ''.'' (map dec_text (digits_of 256 4 n))"
| "address_text (IPv6 n z) =
     ipv6_text n @ (case z of None \<Rightarrow> [] | Some s \<Rightarrow> CHR ''%'' # s)"

section \<open>Reasons and evidence\<close>

definition MANAGEMENT_PATH_EVIDENCE :: "string list" where
  "MANAGEMENT_PATH_EVIDENCE = [''session.peer'', ''route.observe'']"

datatype management_path_reason =
    Confirmed
  | Transport_Peer_Unavailable | Transport_Peer_Unparseable | Transport_Peer_Local
  | Transport_Peer_Link_Local | Transport_Peer_Unspecified
  | Local_Endpoint_Unavailable | Local_Endpoint_Unparseable | Local_Endpoint_Local
  | Local_Endpoint_Link_Local | Local_Endpoint_Unspecified
  | Address_Family_Mismatch
  | Unobserved | Request_Context_Mismatch | Evidence_Stale
  | Local_Endpoint_Unmapped | Local_Endpoint_Ambiguous | Interface_Observation_Stale
  | Route_Lookup_Unavailable | Route_Lookup_Failed | Route_Unreachable
  | Route_Egress_Unspecified | Route_Interface_Unmapped | Route_Interface_Ambiguous
  | Route_Conflicts_With_Local_Endpoint

fun mpr_str :: "management_path_reason \<Rightarrow> string" where
  "mpr_str Confirmed = ''management_path_confirmed''"
| "mpr_str Transport_Peer_Unavailable = ''transport_peer_unavailable''"
| "mpr_str Transport_Peer_Unparseable = ''transport_peer_unparseable''"
| "mpr_str Transport_Peer_Local = ''transport_peer_local''"
| "mpr_str Transport_Peer_Link_Local = ''transport_peer_link_local''"
| "mpr_str Transport_Peer_Unspecified = ''transport_peer_unspecified''"
| "mpr_str Local_Endpoint_Unavailable = ''local_endpoint_unavailable''"
| "mpr_str Local_Endpoint_Unparseable = ''local_endpoint_unparseable''"
| "mpr_str Local_Endpoint_Local = ''local_endpoint_local''"
| "mpr_str Local_Endpoint_Link_Local = ''local_endpoint_link_local''"
| "mpr_str Local_Endpoint_Unspecified = ''local_endpoint_unspecified''"
| "mpr_str Address_Family_Mismatch = ''address_family_mismatch''"
| "mpr_str Unobserved = ''management_path_unobserved''"
| "mpr_str Request_Context_Mismatch = ''request_context_mismatch''"
| "mpr_str Evidence_Stale = ''evidence_stale''"
| "mpr_str Local_Endpoint_Unmapped = ''local_endpoint_unmapped''"
| "mpr_str Local_Endpoint_Ambiguous = ''local_endpoint_ambiguous''"
| "mpr_str Interface_Observation_Stale = ''interface_observation_stale''"
| "mpr_str Route_Lookup_Unavailable = ''route_lookup_unavailable''"
| "mpr_str Route_Lookup_Failed = ''route_lookup_failed''"
| "mpr_str Route_Unreachable = ''route_unreachable''"
| "mpr_str Route_Egress_Unspecified = ''route_egress_unspecified''"
| "mpr_str Route_Interface_Unmapped = ''route_interface_unmapped''"
| "mpr_str Route_Interface_Ambiguous = ''route_interface_ambiguous''"
| "mpr_str Route_Conflicts_With_Local_Endpoint = ''route_conflicts_with_local_endpoint''"

text \<open>A route status is the agent's text; the four known values are named here.\<close>

definition ROUTE_RESOLVED :: string where "ROUTE_RESOLVED = ''resolved''"

definition route_failure_reason :: "string \<Rightarrow> management_path_reason" where
  "route_failure_reason status =
     (if status = ''unreachable'' then Route_Unreachable
      else if status = ''failed'' then Route_Lookup_Failed
      else if status = ''unavailable'' then Route_Lookup_Unavailable
      else Route_Lookup_Failed)"

record transport_evidence =
  te_peer_address :: "string option"
  te_peer_family :: "string option"
  te_local_address :: "string option"
  te_local_family :: "string option"
  te_unusable_reason :: "string option"
  te_raw_peer :: "string option"
  te_raw_local :: "string option"

definition transport_usable :: "transport_evidence \<Rightarrow> bool" where
  "transport_usable t \<longleftrightarrow> te_unusable_reason t = None"

record endpoint_reasons =
  er_unavailable :: management_path_reason
  er_unparseable :: management_path_reason
  er_loopback :: management_path_reason
  er_link_local :: management_path_reason
  er_unspecified :: management_path_reason

definition peer_reasons :: endpoint_reasons where
  "peer_reasons = \<lparr>er_unavailable = Transport_Peer_Unavailable,
     er_unparseable = Transport_Peer_Unparseable, er_loopback = Transport_Peer_Local,
     er_link_local = Transport_Peer_Link_Local, er_unspecified = Transport_Peer_Unspecified\<rparr>"

definition local_reasons :: endpoint_reasons where
  "local_reasons = \<lparr>er_unavailable = Local_Endpoint_Unavailable,
     er_unparseable = Local_Endpoint_Unparseable, er_loopback = Local_Endpoint_Local,
     er_link_local = Local_Endpoint_Link_Local, er_unspecified = Local_Endpoint_Unspecified\<rparr>"

definition classify ::
  "string option \<Rightarrow> endpoint_reasons \<Rightarrow> ip_address option \<times> management_path_reason option" where
  "classify value r =
     (case value of
        None \<Rightarrow> (None, Some (er_unavailable r))
      | Some v \<Rightarrow>
         (if v = [] then (None, Some (er_unavailable r))
          else case ip_address v of
            None \<Rightarrow> (None, Some (er_unparseable r))
          | Some a \<Rightarrow>
             (let address = unmap a in
              if is_loopback address then (Some address, Some (er_loopback r))
              else if is_unspecified address then (Some address, Some (er_unspecified r))
              else if is_link_local address then (Some address, Some (er_link_local r))
              else (Some address, None))))"

definition family_of :: "ip_address option \<Rightarrow> string option" where
  "family_of a = map_option (\<lambda>x. if version_of x = 4 then ''inet'' else ''inet6'') a"

definition read_transport :: "string option \<Rightarrow> string option \<Rightarrow> transport_evidence" where
  "read_transport peer lcl =
     (let (pa, pr) = classify peer peer_reasons; (la, lr) = classify lcl local_reasons;
          first = (case pr of Some x \<Rightarrow> Some x | None \<Rightarrow> lr);
          reason = (case first of
              Some x \<Rightarrow> Some x
            | None \<Rightarrow> (if version_of (the pa) \<noteq> version_of (the la)
                      then Some Address_Family_Mismatch else None)) in
      \<lparr>te_peer_address = map_option address_text pa, te_peer_family = family_of pa,
       te_local_address = map_option address_text la, te_local_family = family_of la,
       te_unusable_reason = map_option mpr_str reason,
       te_raw_peer = peer, te_raw_local = lcl\<rparr>)"

record route_evidence =
  re_status :: string
  re_reason :: "string option"
  re_family :: "string option"
  re_destination :: "string option"
  re_destination_prefix_length :: "int option"
  re_preferred_source :: "string option"
  re_gateway :: "string option"
  re_oif_index :: "int option"
  re_table :: "int option"
  re_route_type :: "string option"
  re_scope :: "string option"
  re_protocol :: "string option"
  re_priority :: "int option"
  re_error :: "facts option"

record management_path_observation =
  mpo_observation_id :: string
  mpo_host_id :: string
  mpo_observed_at :: string
  mpo_transport_peer_address :: string
  mpo_transport_peer_family :: string
  mpo_local_endpoint_address :: string
  mpo_local_endpoint_family :: string
  mpo_route :: route_evidence
  mpo_capability :: string
  mpo_provider :: string
  mpo_provider_version :: string
  mpo_method :: string
  mpo_agent_instance_id :: "string option"

definition matches ::
  "management_path_observation \<Rightarrow> transport_evidence \<Rightarrow> string \<Rightarrow> bool" where
  "matches ob t host_id \<longleftrightarrow>
     mpo_host_id ob = host_id \<and>
     Some (mpo_transport_peer_address ob) = te_peer_address t \<and>
     Some (mpo_local_endpoint_address ob) = te_local_address t \<and>
     Some (mpo_transport_peer_family ob) = te_peer_family t \<and>
     Some (mpo_local_endpoint_family ob) = te_local_family t"

record observed_addresses =
  oa_by_address :: "string \<rightharpoonup> string list"
  oa_by_index :: "int \<rightharpoonup> string list"
  oa_stale :: "string set"

definition mapping_get :: "('k \<rightharpoonup> string list) \<Rightarrow> 'k \<Rightarrow> string list" where
  "mapping_get m k = (case m k of None \<Rightarrow> [] | Some xs \<Rightarrow> xs)"

definition unresolved ::
  "string \<Rightarrow> string option \<Rightarrow> string option \<Rightarrow> management_path_verdict" where
  "unresolved reason evidence_id observed_at =
     \<lparr>mpv_resource_id = None, mpv_reason = reason, mpv_evidence_id = evidence_id,
      mpv_observed_at = observed_at, mpv_missing_evidence = MANAGEMENT_PATH_EVIDENCE\<rparr>"

text \<open>
  The derivation. \<open>fromisoformat\<close> is Python's reading of the stored ISO-8601 instant
  (\<open>None\<close> where it raises \<open>ValueError\<close>).
\<close>

definition derive_management_path ::
  "(string \<Rightarrow> instant option) \<Rightarrow> transport_evidence \<Rightarrow> string \<Rightarrow>
   management_path_observation option \<Rightarrow> observed_addresses \<Rightarrow> instant \<Rightarrow> int \<Rightarrow>
   management_path_verdict" where
  "derive_management_path fromisoformat transport host_id observation observed now ttl =
     (case te_unusable_reason transport of
        Some r \<Rightarrow> unresolved r None None
      | None \<Rightarrow>
     (case observation of
        None \<Rightarrow> unresolved (mpr_str Unobserved) None None
      | Some ob \<Rightarrow>
        if \<not> matches ob transport host_id
        then unresolved (mpr_str Request_Context_Mismatch) None None
        else
         (let because = (\<lambda>r. unresolved (mpr_str r) (Some (mpo_observation_id ob))
                               (Some (mpo_observed_at ob)));
              route = mpo_route ob in
          if fst (derive_freshness (fromisoformat (mpo_observed_at ob)) ttl now) \<noteq> Fr_Current
          then because Evidence_Stale
          else
          (case mapping_get (oa_by_address observed) (mpo_local_endpoint_address ob) of
             [] \<Rightarrow> because Local_Endpoint_Unmapped
           | _ # _ # _ \<Rightarrow> because Local_Endpoint_Ambiguous
           | [endpoint_object] \<Rightarrow>
             if re_status route \<noteq> ROUTE_RESOLVED
             then because (route_failure_reason (re_status route))
             else
             (case re_oif_index route of
                None \<Rightarrow> because Route_Egress_Unspecified
              | Some oif \<Rightarrow>
                (case mapping_get (oa_by_index observed) oif of
                   [] \<Rightarrow> because Route_Interface_Unmapped
                 | _ # _ # _ \<Rightarrow> because Route_Interface_Ambiguous
                 | [egress] \<Rightarrow>
                    if egress \<noteq> endpoint_object
                    then because Route_Conflicts_With_Local_Endpoint
                    else if endpoint_object \<in> oa_stale observed
                    then because Interface_Observation_Stale
                    else \<lparr>mpv_resource_id = Some endpoint_object,
                          mpv_reason = mpr_str Confirmed,
                          mpv_evidence_id = Some (mpo_observation_id ob),
                          mpv_observed_at = Some (mpo_observed_at ob),
                          mpv_missing_evidence = []\<rparr>))))))"

section \<open>Lemmas\<close>

lemma unresolved_not_confirmed [simp]: "mpv_resource_id (unresolved r e t) = None"
  by (simp add: unresolved_def)

lemma mapping_get_single: "mapping_get m k = [x] \<longleftrightarrow> m k = Some [x]"
  by (auto simp: mapping_get_def split: option.splits)

text \<open>What has to agree for one recorded observation to prove one object.\<close>

definition proves ::
  "(string \<Rightarrow> instant option) \<Rightarrow> transport_evidence \<Rightarrow> string \<Rightarrow> observed_addresses \<Rightarrow> instant \<Rightarrow>
   int \<Rightarrow> management_path_observation \<Rightarrow> string \<Rightarrow> bool" where
  "proves fromisoformat t host_id observed now ttl ob x \<longleftrightarrow>
     transport_usable t \<and> matches ob t host_id \<and>
     fst (derive_freshness (fromisoformat (mpo_observed_at ob)) ttl now) = Fr_Current \<and>
     oa_by_address observed (mpo_local_endpoint_address ob) = Some [x] \<and>
     re_status (mpo_route ob) = ROUTE_RESOLVED \<and>
     (case re_oif_index (mpo_route ob) of None \<Rightarrow> False
      | Some oif \<Rightarrow> oa_by_index observed oif = Some [x]) \<and>
     x \<notin> oa_stale observed"

lemma derive_resource:
  "mpv_resource_id (derive_management_path rd t h (Some ob) observed now ttl) = Some x \<longleftrightarrow>
   proves rd t h observed now ttl ob x"
  by (auto simp: derive_management_path_def Let_def proves_def transport_usable_def
      mapping_get_single [symmetric] split: option.splits list.splits)

lemma derive_no_observation:
  "mpv_resource_id (derive_management_path rd t h None observed now ttl) = None"
  by (simp add: derive_management_path_def split: option.splits)

lemma derive_resource_iff:
  "mpv_resource_id (derive_management_path rd t h obs observed now ttl) = Some x \<longleftrightarrow>
   (case obs of None \<Rightarrow> False | Some ob \<Rightarrow> proves rd t h observed now ttl ob x)"
  by (cases obs) (simp_all add: derive_no_observation derive_resource)

lemma classify_usable:
  "snd (classify value r) = None \<longleftrightarrow>
   (case value of None \<Rightarrow> False | Some v \<Rightarrow>
      v \<noteq> [] \<and> (case ip_address v of None \<Rightarrow> False | Some a \<Rightarrow>
        \<not> is_loopback (unmap a) \<and> \<not> is_unspecified (unmap a) \<and> \<not> is_link_local (unmap a)))"
  by (auto simp: classify_def Let_def split: option.splits)

lemma classify_address:
  assumes "snd (classify (Some v) r) = None" and "ip_address v = Some a"
  shows "fst (classify (Some v) r) = Some (unmap a)"
  using assms by (auto simp: classify_def Let_def)

text \<open>An endpoint that classifies as routable: its normalised address.\<close>

definition routable :: "string option \<Rightarrow> ip_address \<Rightarrow> bool" where
  "routable value a \<longleftrightarrow>
     (case value of None \<Rightarrow> False | Some v \<Rightarrow> v \<noteq> [] \<and> map_option unmap (ip_address v) = Some a) \<and>
     \<not> is_loopback a \<and> \<not> is_unspecified a \<and> \<not> is_link_local a"

lemma classify_routable: "classify value r = (Some a, None) \<longleftrightarrow> routable value a"
  by (auto simp: classify_def routable_def Let_def split: option.splits if_splits)

lemma classify_None_Some: "classify value r = (x, None) \<Longrightarrow> \<exists>a. x = Some a"
  by (auto simp: classify_def Let_def split: option.splits if_splits)

lemma read_transport_usable:
  assumes "te_unusable_reason (read_transport peer lcl) = None"
  shows "\<exists>a b. routable peer a \<and> routable lcl b \<and> version_of a = version_of b \<and>
     te_peer_address (read_transport peer lcl) = Some (address_text a) \<and>
     te_local_address (read_transport peer lcl) = Some (address_text b)"
proof -
  obtain pa pr where p: "classify peer peer_reasons = (pa, pr)" by (cases "classify peer peer_reasons")
  obtain la lr where l: "classify lcl local_reasons = (la, lr)" by (cases "classify lcl local_reasons")
  from assms p l have none: "pr = None" "lr = None"
    by (auto simp: read_transport_def Let_def split: option.splits)
  with p l obtain a b where ab: "pa = Some a" "la = Some b"
    using classify_None_Some by blast
  with p l none have "routable peer a" "routable lcl b"
    using classify_routable by blast+
  with assms p l none ab show ?thesis
    by (auto simp: read_transport_def Let_def split: if_splits)
qed

lemma transport_address_injective_family:
  "te_peer_family (read_transport peer lcl) = None \<longleftrightarrow> te_peer_address (read_transport peer lcl) = None"
  by (simp add: read_transport_def Let_def family_of_def split: prod.splits)

section \<open>Properties\<close>

text \<open>C29. The management path is proven for one object exactly when every piece of evidence
  agrees: the request's transport is usable, the recorded observation was taken from this very
  connection and host and is fresh, the local endpoint's address is on that object and no other,
  the kernel resolved a route to the peer whose egress index is that object and no other, and
  the object's own observation is not stale. In every other case no object is named, and the
  published reason then is not the confirming one.\<close>

theorem management_path_confirmed_iff:
  "(mpv_resource_id (derive_management_path rd t h obs observed now ttl) = Some x \<longleftrightarrow>
     (case obs of None \<Rightarrow> False | Some ob \<Rightarrow>
        te_unusable_reason t = None \<and> matches ob t h \<and>
        (case rd (mpo_observed_at ob) of None \<Rightarrow> False | Some at \<Rightarrow> now - at \<le> ttl) \<and>
        oa_by_address observed (mpo_local_endpoint_address ob) = Some [x] \<and>
        re_status (mpo_route ob) = ''resolved'' \<and>
        (case re_oif_index (mpo_route ob) of None \<Rightarrow> False
         | Some oif \<Rightarrow> oa_by_index observed oif = Some [x]) \<and>
        x \<notin> oa_stale observed)) \<and>
   (mpv_resource_id (derive_management_path rd t h obs observed now ttl) = None \<longleftrightarrow>
     mpv_missing_evidence (derive_management_path rd t h obs observed now ttl) \<noteq> [])"
proof
  show "mpv_resource_id (derive_management_path rd t h obs observed now ttl) = Some x \<longleftrightarrow>
     (case obs of None \<Rightarrow> False | Some ob \<Rightarrow>
        te_unusable_reason t = None \<and> matches ob t h \<and>
        (case rd (mpo_observed_at ob) of None \<Rightarrow> False | Some at \<Rightarrow> now - at \<le> ttl) \<and>
        oa_by_address observed (mpo_local_endpoint_address ob) = Some [x] \<and>
        re_status (mpo_route ob) = ''resolved'' \<and>
        (case re_oif_index (mpo_route ob) of None \<Rightarrow> False
         | Some oif \<Rightarrow> oa_by_index observed oif = Some [x]) \<and>
        x \<notin> oa_stale observed)"
    by (auto simp: derive_resource_iff proves_def transport_usable_def derive_freshness_def
        ROUTE_RESOLVED_def Let_def split: option.splits)
  show "mpv_resource_id (derive_management_path rd t h obs observed now ttl) = None \<longleftrightarrow>
     mpv_missing_evidence (derive_management_path rd t h obs observed now ttl) \<noteq> []"
    by (auto simp: derive_management_path_def Let_def unresolved_def MANAGEMENT_PATH_EVIDENCE_def
        split: option.splits list.splits)
qed

text \<open>No local, link-local or wildcard connection ever proves a management path: whatever is
  recorded and observed, a confirmed verdict for a request read off a socket means that both
  ends parsed to addresses that, with IPv4-mapped IPv6 addresses read as IPv4, are neither
  loopback nor unspecified nor link-local and are of the same version, and that the recorded
  evidence names exactly those two addresses.\<close>

theorem confirmed_only_for_routable_peers:
  assumes "confirmed (derive_management_path rd (read_transport peer lcl) h (Some ob) observed now ttl)"
  shows "\<exists>a b. routable peer a \<and> routable lcl b \<and> version_of a = version_of b \<and>
     mpo_transport_peer_address ob = address_text a \<and>
     mpo_local_endpoint_address ob = address_text b"
proof -
  from assms obtain x where
    "mpv_resource_id (derive_management_path rd (read_transport peer lcl) h (Some ob) observed now ttl) = Some x"
    by (auto simp: confirmed_def)
  then have pr: "proves rd (read_transport peer lcl) h observed now ttl ob x"
    by (simp add: derive_resource)
  then have "te_unusable_reason (read_transport peer lcl) = None"
    by (simp add: proves_def transport_usable_def)
  from read_transport_usable [OF this] obtain a b where
    "routable peer a" "routable lcl b" "version_of a = version_of b"
    "te_peer_address (read_transport peer lcl) = Some (address_text a)"
    "te_local_address (read_transport peer lcl) = Some (address_text b)"
    by blast
  moreover from pr have "matches ob (read_transport peer lcl) h"
    by (simp add: proves_def)
  ultimately show ?thesis
    unfolding matches_def by (metis option.inject)
qed

text \<open>Protection of one resource over the derived path, for an operation that could affect the
  path: protected exactly when the evidence proves this resource carries the connection, clear
  exactly when it proves another one does, and unknown (with the missing evidence listed) in
  every remaining case, so an unproven path never reads as safe.\<close>

theorem protection_follows_the_proof:
  "case assess_resource_protection (derive_management_path rd t h (Some ob) observed now ttl) r True of
     Inl _ \<Rightarrow> False
   | Inr p \<Rightarrow>
      (pa_status p = PS_Protected \<longleftrightarrow> proves rd t h observed now ttl ob r) \<and>
      (pa_status p = PS_Clear \<longleftrightarrow> (\<exists>x. x \<noteq> r \<and> proves rd t h observed now ttl ob x)) \<and>
      (pa_status p = PS_Unknown \<longleftrightarrow> pa_missing_evidence p = MANAGEMENT_PATH_EVIDENCE)"
proof -
  let ?v = "derive_management_path rd t h (Some ob) observed now ttl"
  obtain p where p: "assess_resource_protection ?v r True = Inr p"
    using assess_resource_total by blast
  have missing: "pa_missing_evidence p = (if pa_status p = PS_Unknown then mpv_missing_evidence ?v else [])"
    using p assess_resource_status(1) [OF p]
      roll_up_sel(4) [OF p [unfolded assess_resource_protection_def Let_def]]
    by (auto simp: assess_status split: option.splits)
  have ev: "mpv_resource_id ?v = None \<Longrightarrow> mpv_missing_evidence ?v = MANAGEMENT_PATH_EVIDENCE"
    by (auto simp: derive_management_path_def Let_def unresolved_def
        split: option.splits list.splits if_splits)
  show ?thesis
  proof (cases "mpv_resource_id ?v")
    case None
    then have "\<not> proves rd t h observed now ttl ob x" for x
      using derive_resource [of rd t h ob observed now ttl x] by simp
    with None p missing ev show ?thesis
      using assess_resource_status(1) [OF p] by simp
  next
    case (Some y)
    then have "proves rd t h observed now ttl ob x \<longleftrightarrow> x = y" for x
      using derive_resource [of rd t h ob observed now ttl x] by auto
    with Some p missing show ?thesis
      using assess_resource_status(1) [OF p] by (auto simp: MANAGEMENT_PATH_EVIDENCE_def)
  qed
qed

section \<open>A connection that proves its path\<close>

definition sample_route :: route_evidence where
  "sample_route = \<lparr>re_status = ''resolved'', re_reason = None, re_family = Some ''inet'',
     re_destination = None, re_destination_prefix_length = None,
     re_preferred_source = Some ''192.168.1.5'', re_gateway = None, re_oif_index = Some 2,
     re_table = None, re_route_type = None, re_scope = None, re_protocol = None,
     re_priority = None, re_error = None\<rparr>"

definition sample_observation :: management_path_observation where
  "sample_observation = \<lparr>mpo_observation_id = ''obs-1'', mpo_host_id = ''host'',
     mpo_observed_at = ''t0'', mpo_transport_peer_address = ''192.168.1.20'',
     mpo_transport_peer_family = ''inet'', mpo_local_endpoint_address = ''192.168.1.5'',
     mpo_local_endpoint_family = ''inet'', mpo_route = sample_route,
     mpo_capability = ''route.observe'', mpo_provider = ''linux-route'',
     mpo_provider_version = ''1'', mpo_method = ''rtnetlink'', mpo_agent_instance_id = None\<rparr>"

definition sample_addresses :: observed_addresses where
  "sample_addresses = \<lparr>oa_by_address = [''192.168.1.5'' \<mapsto> [''eth0'']],
     oa_by_index = [2 \<mapsto> [''eth0'']], oa_stale = {}\<rparr>"

text \<open>The endpoints of a request over a dual-stack socket, read and normalised.\<close>

lemma sample_quads:
  "parse_ipv4 ''192.168.1.20'' = Some 3232235796" "parse_ipv4 ''192.168.1.5'' = Some 3232235781"
  "parse_ipv4 ''::ffff:192.168.1.20'' = None"
  by (simp_all add: parse_ipv4_def parse_octet_def is_digit_def code_def number_def)

lemma sample_texts:
  "address_text (IPv4 3232235796) = ''192.168.1.20''"
  "address_text (IPv4 3232235781) = ''192.168.1.5''"
  by (simp_all add: digits_of_def upt_rec dec_text.simps char_of_def bit_0)

lemma sample_groups: "hex_text 49320 = ''c0a8''" "hex_text 276 = ''114''"
  by (simp_all add: hex_text.simps char_of_def bit_0)

lemma sample_zeros: "replicate 5 (x :: 'a) = [x, x, x, x, x]"
  by (simp add: numeral_eq_Suc)

lemma sample_mapped:
  "parse_ipv6 ''::ffff:192.168.1.20'' = Some (IPv6 281473913979156 None)"
  by (simp add: parse_ipv6_def expand_quad_def sample_quads sample_groups groups_of_def
      inner_empty_def upt_rec Let_def parse_groups_def parse_hextet_def hex_value_def
      is_digit_def code_def number_def sample_zeros nth_Cons_numeral)

lemma sample_transport:
  "read_transport (Some ''::ffff:192.168.1.20'') (Some ''192.168.1.5'') =
     \<lparr>te_peer_address = Some ''192.168.1.20'', te_peer_family = Some ''inet'',
      te_local_address = Some ''192.168.1.5'', te_local_family = Some ''inet'',
      te_unusable_reason = None, te_raw_peer = Some ''::ffff:192.168.1.20'',
      te_raw_local = Some ''192.168.1.5''\<rparr>"
  by (simp add: read_transport_def classify_def ip_address_def sample_quads sample_mapped
      sample_texts family_of_def Let_def del: address_text.simps)

theorem confirmed_only_for_routable_peers_witness:
  "\<exists>a b. routable (Some ''::ffff:192.168.1.20'') a \<and> routable (Some ''192.168.1.5'') b \<and>
     version_of a = version_of b \<and>
     mpo_transport_peer_address sample_observation = address_text a \<and>
     mpo_local_endpoint_address sample_observation = address_text b"
proof (rule confirmed_only_for_routable_peers [of "\<lambda>_. Some 0" _ _ "''host''" sample_observation
      sample_addresses 0 DEFAULT_FRESHNESS_TTL])
  show "confirmed (derive_management_path (\<lambda>_. Some 0)
     (read_transport (Some ''::ffff:192.168.1.20'') (Some ''192.168.1.5'')) ''host''
     (Some sample_observation) sample_addresses 0 DEFAULT_FRESHNESS_TTL)"
    by (simp add: sample_transport derive_management_path_def sample_observation_def matches_def
        sample_addresses_def sample_route_def derive_freshness_def DEFAULT_FRESHNESS_TTL_def
        mapping_get_def confirmed_def Let_def ROUTE_RESOLVED_def)
qed

end
