(* ===== verification/Lifecycle.thy ===== *)
theory Lifecycle
  imports Protection
begin

text \<open>
  The systemd service lifecycle: \<open>src/localplane/backend/domain/systemd_lifecycle.py\<close> over
  the vocabulary of \<open>src/localplane/protocol/docker_runtime_owner.py\<close>. The typed evidence a
  lifecycle plan rests on (with the checks of its constructors and its document form), the two
  protection reasons assessed from it, and the refusals of the service subset. The properties
  say when protection is clear, when no refusal remains, and that a stored context reads back.

  \<open>render\<close> is \<open>str\<close> on numbers and containers, and \<open>rd\<close> what Python's
  \<open>datetime.fromisoformat\<close> says of a text: whether it carries an offset, and its year.
\<close>

section \<open>The runtime-owner vocabulary\<close>

definition DOCKER_DIRECT_UNIX_CONTRACT :: string where
  "DOCKER_DIRECT_UNIX_CONTRACT = ''docker-direct-unix-v1''"
definition DOCKER_RUNTIME_OWNER_METHOD_VERSION :: int where
  "DOCKER_RUNTIME_OWNER_METHOD_VERSION = 1"
definition DOCKER_RUNTIME_OWNER_PROVIDER :: string where
  "DOCKER_RUNTIME_OWNER_PROVIDER = ''docker''"
definition RUNTIME_OWNER_UMBRELLA_GAP :: string where
  "RUNTIME_OWNER_UMBRELLA_GAP = ''management_path.runtime_owner_unproven''"

datatype runtime_owner_status = RO_Resolved | RO_Incomplete

fun ro_str :: "runtime_owner_status \<Rightarrow> string" where
  "ro_str RO_Resolved = ''resolved''"
| "ro_str RO_Incomplete = ''incomplete''"

definition DOCKER_RUNTIME_OWNER_GAPS :: "string list" where
  "DOCKER_RUNTIME_OWNER_GAPS = map (\<lambda>s. ''management_path.runtime_owner.'' @ s)
     [''attestation_unavailable'', ''attestation_untrusted'', ''attestation_changed'',
      ''direct_transport_unproven'', ''peer_pidfd_unavailable'', ''peer_process_exited'',
      ''daemon_process_unattested'', ''daemon_unit_unresolved'', ''daemon_unit_mismatch'',
      ''daemon_main_pid_mismatch'', ''socket_activation_unsupported'',
      ''engine_snapshot_changed'', ''transport_reconnected'',
      ''container_enumeration_incomplete'', ''container_not_found'', ''container_ambiguous'',
      ''container_changed'', ''pid_namespace_mismatch'', ''cgroup_namespace_mismatch'']"

definition DOCKER_EXECUTION_CGROUP_RELATIONS :: "string list" where
  "DOCKER_EXECUTION_CGROUP_RELATIONS = [''equal'', ''ancestor'']"

definition SYSTEMD_LIFECYCLE_AUTHORITY :: string where "SYSTEMD_LIFECYCLE_AUTHORITY = ''systemd''"
definition SYSTEMD_MANAGE_UNITS_ACTION :: string where
  "SYSTEMD_MANAGE_UNITS_ACTION = ''org.freedesktop.systemd1.manage-units''"

datatype systemd_service_action = SA_Start | SA_Stop | SA_Restart

fun sa_str :: "systemd_service_action \<Rightarrow> string" where
  "sa_str SA_Start = ''start''"
| "sa_str SA_Stop = ''stop''"
| "sa_str SA_Restart = ''restart''"

definition sa_of :: "string \<Rightarrow> py_error + systemd_service_action" where
  "sa_of s = (if s = ''start'' then Inr SA_Start else if s = ''stop'' then Inr SA_Stop
     else if s = ''restart'' then Inr SA_Restart
     else Inl (ValueError ''not a valid SystemdServiceAction''))"

definition ro_of :: "string \<Rightarrow> py_error + runtime_owner_status" where
  "ro_of s = (if s = ''resolved'' then Inr RO_Resolved
     else if s = ''incomplete'' then Inr RO_Incomplete
     else Inl (ValueError ''not a valid DockerRuntimeOwnerStatus''))"

section \<open>Texts the constructor admits\<close>

definition lower_hex :: "char \<Rightarrow> bool" where
  "lower_hex c \<longleftrightarrow> c \<in> set ''0123456789abcdef''"

definition hex_of_length :: "nat \<Rightarrow> string \<Rightarrow> bool" where
  "hex_of_length n s \<longleftrightarrow> length s = n \<and> list_all lower_hex s"

definition sha256_text :: "string \<Rightarrow> bool" where
  "sha256_text s \<longleftrightarrow> take 7 s = ''sha256:'' \<and> hex_of_length 64 (drop 7 s)"

fun pieces :: "string \<Rightarrow> string list" where
  "pieces [] = [[]]"
| "pieces (x # xs) =
     (if x = CHR ''/'' then [] # pieces xs
      else case pieces xs of [] \<Rightarrow> [[x]] | w # ws \<Rightarrow> (x # w) # ws)"

text \<open>\<open>posixpath.normpath\<close>, on a path with \<open>slashes\<close> leading slashes kept.\<close>

fun norm_step :: "nat \<Rightarrow> string list \<Rightarrow> string \<Rightarrow> string list" where
  "norm_step slashes acc part =
     (if part = [] \<or> part = ''.'' then acc
      else if part \<noteq> ''..'' \<or> (slashes = 0 \<and> acc = []) \<or> (acc \<noteq> [] \<and> last acc = ''..'')
      then acc @ [part]
      else butlast acc)"

fun slash_join :: "string list \<Rightarrow> string" where
  "slash_join [] = []"
| "slash_join [x] = x"
| "slash_join (x # y # xs) = x @ ''/'' @ slash_join (y # xs)"

definition initial_slashes :: "string \<Rightarrow> nat" where
  "initial_slashes p = (if take 1 p \<noteq> ''/'' then 0
     else if take 2 p = ''//'' \<and> take 3 p \<noteq> ''///'' then 2 else 1)"

definition normpath :: "string \<Rightarrow> string" where
  "normpath p =
     (if p = [] then ''.''
      else (let n = initial_slashes p;
                r = replicate n (CHR ''/'') @ slash_join (foldl (norm_step n) [] (pieces p)) in
            if r = [] then ''.'' else r))"

definition double_slash :: "string \<Rightarrow> bool" where
  "double_slash p \<longleftrightarrow> list_ex (\<lambda>i. take 2 (drop i p) = ''//'') [0..<length p]"

text \<open>\<open>PurePosixPath(p).parts\<close> drops empty and \<open>.\<close> components and keeps \<open>..\<close>.\<close>

definition endpoint_text :: "string \<Rightarrow> bool" where
  "endpoint_text p \<longleftrightarrow>
     take 1 p = ''/'' \<and> p \<noteq> ''/'' \<and>
     \<not> list_ex (\<lambda>c. c = CHR 0x00 \<or> c = CHR 0x0D \<or> c = CHR 0x0A) p \<and>
     normpath p = p \<and> \<not> double_slash p \<and>
     ''..'' \<notin> set (filter (\<lambda>c. c \<noteq> [] \<and> c \<noteq> ''.'') (pieces p))"

definition started_text :: "(string \<Rightarrow> (bool \<times> int) option) \<Rightarrow> string \<Rightarrow> bool" where
  "started_text rd s \<longleftrightarrow>
     (case rd s of None \<Rightarrow> False | Some (tz, year) \<Rightarrow> CHR ''T'' \<in> set s \<and> tz \<and> 1 < year)"

definition unit_text :: "string \<Rightarrow> bool" where
  "unit_text s \<longleftrightarrow> endswith s ''.service'' \<and> length s \<le> 255 \<and>
     \<not> list_ex (\<lambda>c. c = CHR ''/'' \<or> c = CHR 0x00 \<or> c = CHR 0x0D \<or> c = CHR 0x0A) s"

definition invocation_text :: "string \<Rightarrow> bool" where
  "invocation_text s \<longleftrightarrow> hex_of_length 32 s \<and> set s \<noteq> {CHR ''0''}"

definition absent_or :: "(string \<Rightarrow> bool) \<Rightarrow> string option \<Rightarrow> bool" where
  "absent_or P v = (case v of None \<Rightarrow> True | Some s \<Rightarrow> P s)"

section \<open>The runtime-owner correlation\<close>

record runtime_owner_correlation =
  roc_contract_version :: string
  roc_method_version :: int
  roc_provider :: string
  roc_status :: runtime_owner_status
  roc_attestation_fingerprint :: "string option"
  roc_endpoint :: "string option"
  roc_container_id :: "string option"
  roc_container_started_at :: "string option"
  roc_engine_id :: "string option"
  roc_direct_transport_verified :: bool
  roc_peer_service_main_verified :: bool
  roc_owner_unit_id :: "string option"
  roc_owner_invocation_id :: "string option"
  roc_execution_cgroup_relation :: "string option"
  roc_gaps :: "string list"

definition validate_text_shapes ::
  "(string \<Rightarrow> (bool \<times> int) option) \<Rightarrow> runtime_owner_correlation \<Rightarrow> py_error + unit" where
  "validate_text_shapes rd v =
     bindE (ensure (absent_or sha256_text (roc_attestation_fingerprint v))
       (ValueError ''runtime-owner attestation fingerprint is malformed'')) (\<lambda>_.
     bindE (ensure (absent_or endpoint_text (roc_endpoint v))
       (ValueError ''runtime-owner endpoint is malformed'')) (\<lambda>_.
     bindE (ensure (absent_or (hex_of_length 64) (roc_container_id v))
       (ValueError ''runtime-owner container id is malformed'')) (\<lambda>_.
     bindE (ensure (absent_or (started_text rd) (roc_container_started_at v))
       (ValueError ''runtime-owner StartedAt is malformed'')) (\<lambda>_.
     bindE (ensure (absent_or unit_text (roc_owner_unit_id v))
       (ValueError ''runtime-owner Unit.Id is malformed'')) (\<lambda>_.
     ensure (absent_or invocation_text (roc_owner_invocation_id v))
       (ValueError ''runtime-owner InvocationID is malformed''))))))"

definition present :: "string option \<Rightarrow> bool" where
  "present v = (case v of None \<Rightarrow> False | Some s \<Rightarrow> s \<noteq> [])"

definition owner_post_init ::
  "(string \<Rightarrow> (bool \<times> int) option) \<Rightarrow> runtime_owner_correlation \<Rightarrow> py_error + unit" where
  "owner_post_init rd r =
     bindE (ensure (roc_contract_version r = DOCKER_DIRECT_UNIX_CONTRACT)
       (ValueError ''unknown runtime-owner contract'')) (\<lambda>_.
     bindE (ensure (roc_method_version r = DOCKER_RUNTIME_OWNER_METHOD_VERSION)
       (ValueError ''unknown runtime-owner method version'')) (\<lambda>_.
     bindE (ensure (roc_provider r = DOCKER_RUNTIME_OWNER_PROVIDER)
       (ValueError ''unknown runtime-owner provider'')) (\<lambda>_.
     bindE (ensure (list_all (\<lambda>g. g \<in> set DOCKER_RUNTIME_OWNER_GAPS) (roc_gaps r))
       (ValueError ''unknown runtime-owner gap'')) (\<lambda>_.
     bindE (ensure (sorted_set (roc_gaps r) = roc_gaps r)
       (ValueError ''runtime-owner gaps must be unique and sorted'')) (\<lambda>_.
     bindE (ensure (absent_or (\<lambda>x. x \<in> set DOCKER_EXECUTION_CGROUP_RELATIONS)
                     (roc_execution_cgroup_relation r))
       (ValueError ''unknown runtime-owner cgroup relation'')) (\<lambda>_.
     bindE (validate_text_shapes rd r) (\<lambda>_.
     (case roc_status r of
        RO_Resolved \<Rightarrow>
          ensure (list_all present
              [roc_attestation_fingerprint r, roc_endpoint r, roc_container_id r,
               roc_container_started_at r, roc_engine_id r, roc_owner_unit_id r,
               roc_owner_invocation_id r, roc_execution_cgroup_relation r] \<and>
            roc_direct_transport_verified r \<and> roc_peer_service_main_verified r \<and>
            roc_gaps r = [])
           (ValueError ''resolved runtime-owner correlation is incomplete'')
      | RO_Incomplete \<Rightarrow>
          ensure (\<not> roc_direct_transport_verified r \<and> \<not> roc_peer_service_main_verified r \<and>
            list_all (\<lambda>v. v = None)
              [roc_container_id r, roc_container_started_at r, roc_engine_id r,
               roc_owner_unit_id r, roc_owner_invocation_id r, roc_execution_cgroup_relation r] \<and>
            roc_gaps r \<noteq> [])
           (ValueError ''incomplete runtime-owner correlation claims authority'')))))))))"

definition optional_text :: "pyval \<Rightarrow> py_error + string option" where
  "optional_text v = (case v of
     PNone \<Rightarrow> Inr None
   | PStr s \<Rightarrow> Inr (Some s)
   | _ \<Rightarrow> Inl (ValueError ''optional lifecycle text fields must be strings or null''))"

definition owner_as_dict :: "runtime_owner_correlation \<Rightarrow> facts" where
  "owner_as_dict r =
     [(''contract_version'', PStr (roc_contract_version r)),
      (''method_version'', PInt (roc_method_version r)),
      (''provider'', PStr (roc_provider r)),
      (''status'', PStr (ro_str (roc_status r))),
      (''attestation_fingerprint'', opt_text (roc_attestation_fingerprint r)),
      (''endpoint'', opt_text (roc_endpoint r)),
      (''container_id'', opt_text (roc_container_id r)),
      (''container_started_at'', opt_text (roc_container_started_at r)),
      (''engine_id'', opt_text (roc_engine_id r)),
      (''direct_transport_verified'', PBool (roc_direct_transport_verified r)),
      (''peer_service_main_verified'', PBool (roc_peer_service_main_verified r)),
      (''owner_unit_id'', opt_text (roc_owner_unit_id r)),
      (''owner_invocation_id'', opt_text (roc_owner_invocation_id r)),
      (''execution_cgroup_relation'', opt_text (roc_execution_cgroup_relation r)),
      (''gaps'', PList (map PStr (roc_gaps r)))]"

definition OWNER_FIELDS :: "string list" where
  "OWNER_FIELDS = [''contract_version'', ''method_version'', ''provider'', ''status'',
     ''attestation_fingerprint'', ''endpoint'', ''container_id'', ''container_started_at'',
     ''engine_id'', ''direct_transport_verified'', ''peer_service_main_verified'',
     ''owner_unit_id'', ''owner_invocation_id'', ''execution_cgroup_relation'', ''gaps'']"

fun str_list :: "pyval list \<Rightarrow> string list option" where
  "str_list [] = Some []"
| "str_list (PStr s # xs) = map_option (\<lambda>ys. s # ys) (str_list xs)"
| "str_list (_ # xs) = None"

definition owner_from_dict ::
  "(string \<Rightarrow> (bool \<times> int) option) \<Rightarrow> (pyval \<Rightarrow> string) \<Rightarrow> facts \<Rightarrow>
   py_error + runtime_owner_correlation" where
  "owner_from_dict rd render d =
     bindE (ensure (set (map fst d) = set OWNER_FIELDS)
       (ValueError ''runtime-owner correlation has unknown or missing fields'')) (\<lambda>_.
     bindE (case get d ''method_version'' of PInt i \<Rightarrow> Inr i
            | _ \<Rightarrow> Inl (ValueError ''runtime-owner method_version must be an integer'')) (\<lambda>mv.
     bindE (case (get d ''direct_transport_verified'', get d ''peer_service_main_verified'') of
              (PBool a, PBool b) \<Rightarrow> Inr (a, b)
            | _ \<Rightarrow> Inl (ValueError ''runtime-owner verdicts must be booleans'')) (\<lambda>(dt, sm).
     bindE (case get d ''gaps'' of
              PList xs \<Rightarrow> (case str_list xs of Some gs \<Rightarrow> Inr gs
                | None \<Rightarrow> Inl (ValueError ''runtime-owner gaps must be a string list''))
            | _ \<Rightarrow> Inl (ValueError ''runtime-owner gaps must be a string list'')) (\<lambda>gs.
     bindE (getitem d ''contract_version'') (\<lambda>cv.
     bindE (getitem d ''provider'') (\<lambda>pv.
     bindE (getitem d ''status'') (\<lambda>sv.
     bindE (ro_of (py_str render sv)) (\<lambda>st.
     bindE (optional_text (get d ''attestation_fingerprint'')) (\<lambda>af.
     bindE (optional_text (get d ''endpoint'')) (\<lambda>ep.
     bindE (optional_text (get d ''container_id'')) (\<lambda>ci.
     bindE (optional_text (get d ''container_started_at'')) (\<lambda>cs.
     bindE (optional_text (get d ''engine_id'')) (\<lambda>ei.
     bindE (optional_text (get d ''owner_unit_id'')) (\<lambda>ou.
     bindE (optional_text (get d ''owner_invocation_id'')) (\<lambda>oi.
     bindE (optional_text (get d ''execution_cgroup_relation'')) (\<lambda>ec.
     (let r = \<lparr>roc_contract_version = py_str render cv, roc_method_version = mv,
               roc_provider = py_str render pv, roc_status = st,
               roc_attestation_fingerprint = af, roc_endpoint = ep, roc_container_id = ci,
               roc_container_started_at = cs, roc_engine_id = ei,
               roc_direct_transport_verified = dt, roc_peer_service_main_verified = sm,
               roc_owner_unit_id = ou, roc_owner_invocation_id = oi,
               roc_execution_cgroup_relation = ec, roc_gaps = gs\<rparr> in
      bindE (owner_post_init rd r) (\<lambda>_. Inr r))))))))))))))))))"

section \<open>Authorization and the lifecycle context\<close>

datatype authorization_state = Not_Preflighted

record authorization_assessment =
  aut_state :: authorization_state
  aut_exact :: bool
  aut_authority :: string
  aut_decision_point :: string
  aut_action_id :: string
  aut_canonical_target :: string
  aut_verb :: systemd_service_action
  aut_reason :: string

definition not_preflighted :: "string \<Rightarrow> systemd_service_action \<Rightarrow> authorization_assessment" where
  "not_preflighted canonical_target verb =
     \<lparr>aut_state = Not_Preflighted, aut_exact = False, aut_authority = SYSTEMD_LIFECYCLE_AUTHORITY,
      aut_decision_point = ''dispatch'', aut_action_id = SYSTEMD_MANAGE_UNITS_ACTION,
      aut_canonical_target = canonical_target, aut_verb = verb,
      aut_reason = ''unprivileged_caller_cannot_supply_trusted_polkit_unit_verb_details''\<rparr>"

record effect_edge =
  ee_source :: string
  ee_relation :: string
  ee_target :: string

definition edge_as_dict :: "effect_edge \<Rightarrow> facts" where
  "edge_as_dict e = [(''source'', PStr (ee_source e)), (''relation'', PStr (ee_relation e)),
     (''target'', PStr (ee_target e))]"

record systemd_lifecycle_context =
  cx_status :: string
  cx_observed_at :: string
  cx_target_unit :: string
  cx_action :: systemd_service_action
  cx_target_facts :: facts
  cx_effect_units :: "string list"
  cx_effect_edges :: "effect_edge list"
  cx_effect_complete :: bool
  cx_active_activation_sources :: "string list"
  cx_active_upholding_sources :: "string list"
  cx_management_units :: "string list"
  cx_management_complete :: bool
  cx_connection_unit :: "string option"
  cx_connection_unit_type :: "string option"
  cx_agent_unit :: "string option"
  cx_agent_complete :: bool
  cx_agent_unit_type :: "string option"
  cx_gaps :: "string list"
  cx_evidence :: facts
  cx_runtime_owner :: "runtime_owner_correlation option"
  cx_observation_id :: "string option"

definition opt_mem :: "string option \<Rightarrow> string list \<Rightarrow> bool" where
  "opt_mem v xs = (case v of None \<Rightarrow> False | Some s \<Rightarrow> s \<in> set xs)"

definition context_post_init :: "systemd_lifecycle_context \<Rightarrow> py_error + unit" where
  "context_post_init c =
     (case cx_runtime_owner c of
        None \<Rightarrow> Inr ()
      | Some r \<Rightarrow>
         (case roc_status r of
            RO_Resolved \<Rightarrow>
              ensure (opt_mem (roc_owner_unit_id r) (cx_management_units c))
                (ValueError ''resolved runtime owner is absent from management_units'')
          | RO_Incomplete \<Rightarrow>
              bindE (ensure (\<not> cx_management_complete c)
                (ValueError ''incomplete runtime owner cannot complete the management path'')) (\<lambda>_.
              bindE (ensure (RUNTIME_OWNER_UMBRELLA_GAP \<in> set (cx_gaps c))
                (ValueError ''incomplete runtime owner is missing the umbrella gap'')) (\<lambda>_.
              ensure (set (roc_gaps r) \<subseteq> set (cx_gaps c))
                (ValueError ''runtime-owner granular gaps are missing from context'')))))"

definition context_complete :: "systemd_lifecycle_context \<Rightarrow> bool" where
  "context_complete c \<longleftrightarrow> cx_status c = ''complete'' \<and> cx_effect_complete c \<and>
     cx_management_complete c \<and> cx_agent_complete c \<and> cx_gaps c = []"

definition texts :: "string list \<Rightarrow> pyval" where
  "texts xs = PList (map PStr xs)"

definition context_as_dict :: "systemd_lifecycle_context \<Rightarrow> facts" where
  "context_as_dict c =
     [(''status'', PStr (cx_status c)),
      (''observed_at'', PStr (cx_observed_at c)),
      (''target_unit'', PStr (cx_target_unit c)),
      (''action'', PStr (sa_str (cx_action c))),
      (''target_facts'', PDict (cx_target_facts c)),
      (''effect_units'', texts (cx_effect_units c)),
      (''effect_edges'', PList (map (\<lambda>e. PDict (edge_as_dict e)) (cx_effect_edges c))),
      (''effect_complete'', PBool (cx_effect_complete c)),
      (''active_activation_sources'', texts (cx_active_activation_sources c)),
      (''active_upholding_sources'', texts (cx_active_upholding_sources c)),
      (''management_units'', texts (cx_management_units c)),
      (''management_complete'', PBool (cx_management_complete c)),
      (''connection_unit'', opt_text (cx_connection_unit c)),
      (''connection_unit_type'', opt_text (cx_connection_unit_type c)),
      (''agent_unit'', opt_text (cx_agent_unit c)),
      (''agent_complete'', PBool (cx_agent_complete c)),
      (''agent_unit_type'', opt_text (cx_agent_unit_type c)),
      (''gaps'', texts (cx_gaps c)),
      (''evidence'', PDict (cx_evidence c)),
      (''runtime_owner'', (case cx_runtime_owner c of None \<Rightarrow> PNone
                           | Some r \<Rightarrow> PDict (owner_as_dict r))),
      (''observation_id'', opt_text (cx_observation_id c))]"

definition edge_from :: "(pyval \<Rightarrow> string) \<Rightarrow> facts \<Rightarrow> py_error + effect_edge" where
  "edge_from render d =
     bindE (getitem d ''source'') (\<lambda>s.
     bindE (getitem d ''relation'') (\<lambda>r.
     bindE (getitem d ''target'') (\<lambda>t.
       Inr \<lparr>ee_source = py_str render s, ee_relation = py_str render r,
            ee_target = py_str render t\<rparr>)))"

fun edges_from :: "(pyval \<Rightarrow> string) \<Rightarrow> pyval list \<Rightarrow> py_error + effect_edge list" where
  "edges_from render [] = Inr []"
| "edges_from render (PDict d # xs) =
     bindE (edge_from render d) (\<lambda>e. bindE (edges_from render xs) (\<lambda>es. Inr (e # es)))"
| "edges_from render (_ # xs) = edges_from render xs"

definition texts_from ::
  "(pyval \<Rightarrow> string) \<Rightarrow> facts \<Rightarrow> string \<Rightarrow> py_error + string list" where
  "texts_from render d k =
     bindE (py_iter (get_or d k (PList []))) (\<lambda>xs. Inr (map (\<lambda>v. py_str render v) xs))"

definition str_unless_none :: "(pyval \<Rightarrow> string) \<Rightarrow> pyval \<Rightarrow> string option" where
  "str_unless_none render v = (if v = PNone then None else Some (py_str render v))"

definition context_from_dict ::
  "(string \<Rightarrow> (bool \<times> int) option) \<Rightarrow> (pyval \<Rightarrow> string) \<Rightarrow> facts \<Rightarrow>
   py_error + systemd_lifecycle_context" where
  "context_from_dict rd render d =
     bindE (case get d ''runtime_owner'' of PNone \<Rightarrow> Inr None | PDict x \<Rightarrow> Inr (Some x)
            | _ \<Rightarrow> Inl (ValueError ''runtime_owner must be an object or null'')) (\<lambda>raw.
     bindE (bindE (py_iter (get_or d ''effect_edges'' (PList []))) (edges_from render)) (\<lambda>edges.
     bindE (sa_of (py_str render (get_or d ''action'' (PStr ''start'')))) (\<lambda>action.
     bindE (texts_from render d ''effect_units'') (\<lambda>units.
     bindE (texts_from render d ''active_activation_sources'') (\<lambda>acts.
     bindE (texts_from render d ''active_upholding_sources'') (\<lambda>ups.
     bindE (texts_from render d ''management_units'') (\<lambda>mgmt.
     bindE (optional_text (get d ''connection_unit'')) (\<lambda>cu.
     bindE (optional_text (get d ''connection_unit_type'')) (\<lambda>cut.
     bindE (optional_text (get d ''agent_unit_type'')) (\<lambda>aut.
     bindE (texts_from render d ''gaps'') (\<lambda>gaps.
     bindE (case raw of None \<Rightarrow> Inr None
            | Some x \<Rightarrow> bindE (owner_from_dict rd render x) (\<lambda>r. Inr (Some r))) (\<lambda>owner.
     (let c = \<lparr>cx_status = py_str render (get_or d ''status'' (PStr ''failed'')),
               cx_observed_at = py_str render (get_or d ''observed_at'' (PStr [])),
               cx_target_unit = py_str render (get_or d ''target_unit'' (PStr [])),
               cx_action = action,
               cx_target_facts = as_dict (get d ''target_facts''),
               cx_effect_units = units, cx_effect_edges = edges,
               cx_effect_complete = truthy (get d ''effect_complete''),
               cx_active_activation_sources = acts, cx_active_upholding_sources = ups,
               cx_management_units = mgmt,
               cx_management_complete = truthy (get d ''management_complete''),
               cx_connection_unit = cu, cx_connection_unit_type = cut,
               cx_agent_unit = str_unless_none render (get d ''agent_unit''),
               cx_agent_complete = truthy (get d ''agent_complete''),
               cx_agent_unit_type = aut, cx_gaps = gaps,
               cx_evidence = as_dict (get d ''evidence''),
               cx_runtime_owner = owner,
               cx_observation_id = str_unless_none render (get d ''observation_id'')\<rparr> in
      bindE (context_post_init c) (\<lambda>_. Inr c))))))))))))))"

section \<open>Protection of a lifecycle action\<close>

definition lifecycle_evidence :: "systemd_lifecycle_context \<Rightarrow> facts" where
  "lifecycle_evidence c =
     [(''target_unit'', PStr (cx_target_unit c)), (''action'', PStr (sa_str (cx_action c))),
      (''effect_units'', texts (sort (cx_effect_units c))),
      (''effect_edges'', PList (map (\<lambda>e. PDict (edge_as_dict e)) (cx_effect_edges c))),
      (''effect_complete'', PBool (cx_effect_complete c)),
      (''context_gaps'', texts (sort (cx_gaps c)))]"

definition or_default :: "string list \<Rightarrow> string \<Rightarrow> string list" where
  "or_default xs x = (if xs = [] then [x] else xs)"

definition management_intersection :: "systemd_lifecycle_context \<Rightarrow> string list" where
  "management_intersection c =
     sorted_set (filter (\<lambda>u. u \<in> set (cx_management_units c)) (cx_effect_units c))"

definition management_unit_reason :: "systemd_lifecycle_context \<Rightarrow> reason_assessment" where
  "management_unit_reason c =
     (let sd = (if management_intersection c \<noteq> []
                then (PS_Protected, ''effect_closure_contains_management_path_unit'')
                else if cx_management_complete c \<and> cx_effect_complete c
                then (PS_Clear, ''effect_closure_disjoint_from_management_path_units'')
                else (PS_Unknown, ''management_path_effect_correlation_incomplete'')) in
      \<lparr>ra_reason = PR_Management_Path, ra_status = fst sd, ra_detail = snd sd,
       ra_evidence_id = cx_observation_id c, ra_observed_at = Some (cx_observed_at c),
       ra_evidence = lifecycle_evidence c @
         [(''management_units'', texts (sort (cx_management_units c))),
          (''intersection'', texts (management_intersection c)),
          (''management_complete'', PBool (cx_management_complete c))],
       ra_missing_evidence = (if fst sd \<noteq> PS_Unknown then []
         else sort (or_default (cx_gaps c) ''management_path_unit''))\<rparr>)"

definition agent_unit_reason :: "systemd_lifecycle_context \<Rightarrow> reason_assessment" where
  "agent_unit_reason c =
     (let sd = (if opt_mem (cx_agent_unit c) (cx_effect_units c)
                then (PS_Protected, ''effect_closure_contains_localplane_agent_unit'')
                else if cx_agent_complete c \<and> cx_effect_complete c \<and> present (cx_agent_unit c)
                then (PS_Clear, ''effect_closure_disjoint_from_localplane_agent_unit'')
                else (PS_Unknown, ''localplane_agent_effect_correlation_incomplete'')) in
      \<lparr>ra_reason = PR_Localplane_Agent, ra_status = fst sd, ra_detail = snd sd,
       ra_evidence_id = cx_observation_id c, ra_observed_at = Some (cx_observed_at c),
       ra_evidence = lifecycle_evidence c @
         [(''agent_unit'', opt_text (cx_agent_unit c)),
          (''agent_complete'', PBool (cx_agent_complete c))],
       ra_missing_evidence = (if fst sd \<noteq> PS_Unknown then []
         else sort (or_default (cx_gaps c) ''localplane_agent_unit''))\<rparr>)"

definition assess_lifecycle_protection ::
  "systemd_lifecycle_context \<Rightarrow> py_error + protection_assessment" where
  "assess_lifecycle_protection c =
     (let assessed = [management_unit_reason c, agent_unit_reason c] in
      roll_up_protection assessed Relation_Unknown
        (sorted_set (concat (map ra_missing_evidence assessed))))"

section \<open>Which services a lifecycle action applies to\<close>

definition KNOWN_SERVICE_TYPES :: "string list" where
  "KNOWN_SERVICE_TYPES = [''simple'', ''exec'', ''forking'', ''notify'', ''notify-reload'',
     ''dbus'', ''idle'', ''oneshot'']"
definition TRANSITIONAL_ACTIVE_STATES :: "string list" where
  "TRANSITIONAL_ACTIVE_STATES = [''activating'', ''deactivating'', ''reloading'',
     ''refreshing'', ''maintenance'']"
definition MASKED_UNIT_FILE_STATES :: "string list" where
  "MASKED_UNIT_FILE_STATES = [''masked'', ''masked-runtime'']"

definition reason_if :: "bool \<Rightarrow> string \<Rightarrow> string list" where
  "reason_if b r = (if b then [r] else [])"

definition lifecycle_refusals ::
  "systemd_lifecycle_context \<Rightarrow> string \<Rightarrow> string list" where
  "lifecycle_refusals c expected_canonical_id =
     (let d = cx_target_facts c; service = as_dict (get d ''service'');
          canonical = get d ''canonical_id''; active = get d ''active_state'';
          service_type = get service ''type''; action = cx_action c;
          start_needed = (action = SA_Start \<or> action = SA_Restart);
          stop_needed = (action = SA_Stop \<or> action = SA_Restart) in
      reason_if (cx_target_unit c \<noteq> expected_canonical_id \<or> \<not> is_str canonical expected_canonical_id)
        ''canonical_unit_mismatch'' @
      reason_if (\<not> is_str (get d ''unit_type'') ''service'' \<or>
                 \<not> endswith expected_canonical_id ''.service'') ''target_not_service'' @
      reason_if (\<not> is_str (get d ''load_state'') ''loaded'') ''unit_not_loaded'' @
      reason_if (get d ''transient'' \<noteq> PBool False) ''transient_or_unknown_service'' @
      reason_if (get d ''current_job'' \<noteq> PNone) ''systemd_job_in_progress'' @
      reason_if (str_in active TRANSITIONAL_ACTIVE_STATES \<or>
                 \<not> str_in active [''active'', ''inactive'', ''failed''])
        ''service_state_not_stable_or_understood'' @
      reason_if (\<not> str_in service_type KNOWN_SERVICE_TYPES) ''service_type_not_understood'' @
      reason_if (is_str service_type ''oneshot'' \<and> get service ''remain_after_exit'' \<noteq> PBool True)
        ''oneshot_without_remain_after_exit'' @
      reason_if (action = SA_Start \<and> \<not> str_in active [''inactive'', ''failed''])
        ''start_requires_inactive_or_failed'' @
      reason_if (action = SA_Stop \<and> \<not> is_str active ''active'') ''stop_requires_active'' @
      reason_if (action = SA_Restart \<and> \<not> is_str active ''active'') ''restart_requires_active'' @
      (if start_needed then
         reason_if (str_in (get d ''unit_file_state'') MASKED_UNIT_FILE_STATES) ''service_masked'' @
         reason_if (get d ''can_start'' \<noteq> PBool True) ''can_start_not_proven'' @
         reason_if (get d ''refuse_manual_start'' \<noteq> PBool False) ''manual_start_not_permitted'' @
         reason_if (get d ''need_daemon_reload'' \<noteq> PBool False) ''daemon_reload_needed_or_unknown''
       else []) @
      (if stop_needed then
         reason_if (get d ''can_stop'' \<noteq> PBool True) ''can_stop_not_proven'' @
         reason_if (get d ''refuse_manual_stop'' \<noteq> PBool False) ''manual_stop_not_permitted''
       else []) @
      reason_if (action = SA_Restart \<and> \<not> truthy (get d ''invocation_id''))
        ''restart_baseline_invocation_id_missing'' @
      reason_if (stop_needed \<and> cx_active_activation_sources c \<noteq> [])
        ''active_trigger_may_reactivate_service'' @
      reason_if (stop_needed \<and> cx_active_upholding_sources c \<noteq> [])
        ''active_upholder_may_reactivate_service'')"

text \<open>
  Membership tests on a value a set cannot hold raise; the state, the service type and, for an
  action that starts the unit, the unit-file state are tested so.
\<close>

definition lifecycle_applicability ::
  "systemd_lifecycle_context \<Rightarrow> string \<Rightarrow> py_error + string list" where
  "lifecycle_applicability c expected_canonical_id =
     (let d = cx_target_facts c; service = as_dict (get d ''service'') in
      if unhashable (get d ''active_state'') \<or> unhashable (get service ''type'') \<or>
         (cx_action c \<noteq> SA_Stop \<and> unhashable (get d ''unit_file_state''))
      then Inl (TypeError ''unhashable type'')
      else Inr (fromkeys (lifecycle_refusals c expected_canonical_id)))"

section \<open>Lemmas\<close>

lemma sa_of_str [simp]: "sa_of (sa_str a) = Inr a"
  by (cases a) (simp_all add: sa_of_def)

lemma ro_of_str [simp]: "ro_of (ro_str a) = Inr a"
  by (cases a) (simp_all add: ro_of_def)

lemma str_list_texts [simp]: "str_list (map PStr xs) = Some xs"
  by (induction xs) simp_all

lemma optional_text_opt [simp]: "optional_text (opt_text v) = Inr v"
  by (cases v) (simp_all add: optional_text_def)

lemma str_unless_none_opt [simp]: "str_unless_none render (opt_text v) = v"
  by (cases v) (simp_all add: str_unless_none_def)

lemma edges_from_dicts [simp]:
  "edges_from render (map (\<lambda>e. PDict (edge_as_dict e)) es) = Inr es"
  by (induction es) (simp_all add: edge_from_def edge_as_dict_def)

lemma owner_eta:
  "\<lparr>roc_contract_version = roc_contract_version r,
      roc_method_version = roc_method_version r, roc_provider = roc_provider r,
      roc_status = roc_status r,
      roc_attestation_fingerprint = roc_attestation_fingerprint r,
      roc_endpoint = roc_endpoint r, roc_container_id = roc_container_id r,
      roc_container_started_at = roc_container_started_at r,
      roc_engine_id = roc_engine_id r,
      roc_direct_transport_verified = roc_direct_transport_verified r,
      roc_peer_service_main_verified = roc_peer_service_main_verified r,
      roc_owner_unit_id = roc_owner_unit_id r,
      roc_owner_invocation_id = roc_owner_invocation_id r,
      roc_execution_cgroup_relation = roc_execution_cgroup_relation r, roc_gaps = roc_gaps r\<rparr> = r"
  by (cases r) simp

lemma owner_round_trip:
  "owner_from_dict rd render (owner_as_dict r) = bindE (owner_post_init rd r) (\<lambda>_. Inr r)"
  by (simp add: owner_from_dict_def owner_as_dict_def OWNER_FIELDS_def Let_def owner_eta)

lemma owner_from_dict_valid:
  "owner_from_dict rd render d = Inr r \<Longrightarrow> owner_post_init rd r = Inr ()"
  by (auto simp: owner_from_dict_def bindE_Inr Let_def split: prod.splits)

definition owner_valid :: "(string \<Rightarrow> (bool \<times> int) option) \<Rightarrow> systemd_lifecycle_context \<Rightarrow> bool" where
  "owner_valid rd c \<longleftrightarrow>
     (case cx_runtime_owner c of None \<Rightarrow> True | Some r \<Rightarrow> owner_post_init rd r = Inr ())"

lemma context_eta:
  assumes "w = cx_runtime_owner c"
  shows "\<lparr>cx_status = cx_status c, cx_observed_at = cx_observed_at c,
      cx_target_unit = cx_target_unit c, cx_action = cx_action c,
      cx_target_facts = cx_target_facts c, cx_effect_units = cx_effect_units c,
      cx_effect_edges = cx_effect_edges c, cx_effect_complete = cx_effect_complete c,
      cx_active_activation_sources = cx_active_activation_sources c,
      cx_active_upholding_sources = cx_active_upholding_sources c,
      cx_management_units = cx_management_units c,
      cx_management_complete = cx_management_complete c,
      cx_connection_unit = cx_connection_unit c,
      cx_connection_unit_type = cx_connection_unit_type c, cx_agent_unit = cx_agent_unit c,
      cx_agent_complete = cx_agent_complete c, cx_agent_unit_type = cx_agent_unit_type c,
      cx_gaps = cx_gaps c, cx_evidence = cx_evidence c, cx_runtime_owner = w,
      cx_observation_id = cx_observation_id c\<rparr> = c"
  using assms by (cases c) simp

lemma texts_from_eq:
  "get_or d k (PList []) = texts xs \<Longrightarrow> texts_from render d k = Inr xs"
  by (simp add: texts_from_def texts_def o_def)

lemma context_round_trip_aux:
  "context_from_dict rd render (context_as_dict c) =
     bindE (case cx_runtime_owner c of None \<Rightarrow> Inr () | Some r \<Rightarrow> owner_post_init rd r) (\<lambda>_.
     bindE (context_post_init c) (\<lambda>_. Inr c))"
proof -
  let ?d = "context_as_dict c"
  have lists:
    "texts_from render ?d ''effect_units'' = Inr (cx_effect_units c)"
    "texts_from render ?d ''active_activation_sources'' = Inr (cx_active_activation_sources c)"
    "texts_from render ?d ''active_upholding_sources'' = Inr (cx_active_upholding_sources c)"
    "texts_from render ?d ''management_units'' = Inr (cx_management_units c)"
    "texts_from render ?d ''gaps'' = Inr (cx_gaps c)"
    by (rule texts_from_eq, simp add: context_as_dict_def)+
  have fetch:
    "get_or ?d ''effect_edges'' (PList []) = PList (map (\<lambda>e. PDict (edge_as_dict e)) (cx_effect_edges c))"
    "get_or ?d ''action'' (PStr ''start'') = PStr (sa_str (cx_action c))"
    "get_or ?d ''status'' (PStr ''failed'') = PStr (cx_status c)"
    "get_or ?d ''observed_at'' (PStr []) = PStr (cx_observed_at c)"
    "get_or ?d ''target_unit'' (PStr []) = PStr (cx_target_unit c)"
    "get ?d ''target_facts'' = PDict (cx_target_facts c)"
    "get ?d ''effect_complete'' = PBool (cx_effect_complete c)"
    "get ?d ''management_complete'' = PBool (cx_management_complete c)"
    "get ?d ''agent_complete'' = PBool (cx_agent_complete c)"
    "get ?d ''connection_unit'' = opt_text (cx_connection_unit c)"
    "get ?d ''connection_unit_type'' = opt_text (cx_connection_unit_type c)"
    "get ?d ''agent_unit'' = opt_text (cx_agent_unit c)"
    "get ?d ''agent_unit_type'' = opt_text (cx_agent_unit_type c)"
    "get ?d ''observation_id'' = opt_text (cx_observation_id c)"
    "get ?d ''evidence'' = PDict (cx_evidence c)"
    "get ?d ''runtime_owner'' = (case cx_runtime_owner c of None \<Rightarrow> PNone
        | Some r \<Rightarrow> PDict (owner_as_dict r))"
    by (simp_all add: context_as_dict_def)
  show ?thesis
  proof (cases "cx_runtime_owner c")
    case None
    then show ?thesis
      unfolding context_from_dict_def by (simp add: fetch lists Let_def context_eta)
  next
    case (Some r)
    then show ?thesis
      unfolding context_from_dict_def
      by (cases "owner_post_init rd r") (simp_all add: fetch lists Let_def owner_round_trip context_eta)
  qed
qed

lemma context_from_dict_valid:
  assumes "context_from_dict rd render d = Inr c"
  shows "context_post_init c = Inr () \<and> owner_valid rd c"
  using assms
  by (auto simp: context_from_dict_def bindE_Inr Let_def owner_valid_def owner_from_dict_valid
      split: option.splits)

lemma lifecycle_reason_status:
  "ra_status (management_unit_reason c) =
     (if set (cx_effect_units c) \<inter> set (cx_management_units c) \<noteq> {} then PS_Protected
      else if cx_management_complete c \<and> cx_effect_complete c then PS_Clear else PS_Unknown)"
  "ra_status (agent_unit_reason c) =
     (if opt_mem (cx_agent_unit c) (cx_effect_units c) then PS_Protected
      else if cx_agent_complete c \<and> cx_effect_complete c \<and> present (cx_agent_unit c)
      then PS_Clear else PS_Unknown)"
  by (auto simp: management_unit_reason_def agent_unit_reason_def management_intersection_def
      Let_def filter_empty_conv)

lemma lifecycle_reasons [simp]:
  "ra_reason (management_unit_reason c) = PR_Management_Path"
  "ra_reason (agent_unit_reason c) = PR_Localplane_Agent"
  by (simp_all add: management_unit_reason_def agent_unit_reason_def Let_def)

lemma assess_lifecycle_total: "\<exists>p. assess_lifecycle_protection c = Inr p"
  by (simp add: assess_lifecycle_protection_def roll_up_protection_def Let_def)

lemma assess_lifecycle_status:
  assumes "assess_lifecycle_protection c = Inr p"
  shows "pa_status p =
     (if PS_Protected \<in> {ra_status (management_unit_reason c), ra_status (agent_unit_reason c)}
      then PS_Protected
      else if PS_Unknown \<in> {ra_status (management_unit_reason c), ra_status (agent_unit_reason c)}
      then PS_Unknown else PS_Clear)"
    "pa_assessed p = [management_unit_reason c, agent_unit_reason c]"
    "pa_missing_evidence p = sorted_set (ra_missing_evidence (management_unit_reason c) @
       ra_missing_evidence (agent_unit_reason c))"
  using roll_up_status [OF assms [unfolded assess_lifecycle_protection_def Let_def]]
    roll_up_sel [OF assms [unfolded assess_lifecycle_protection_def Let_def]]
  by auto

lemma sort_eq_Nil [simp]: "sort xs = [] \<longleftrightarrow> xs = []"
  by (metis set_empty set_sort)

lemma missing_iff_unknown:
  "ra_missing_evidence (management_unit_reason c) = [] \<longleftrightarrow>
     ra_status (management_unit_reason c) \<noteq> PS_Unknown"
  "ra_missing_evidence (agent_unit_reason c) = [] \<longleftrightarrow>
     ra_status (agent_unit_reason c) \<noteq> PS_Unknown"
  by (simp_all add: management_unit_reason_def agent_unit_reason_def Let_def or_default_def)

lemma reason_if_simps [simp]:
  "reason_if b r = [] \<longleftrightarrow> \<not> b" "x \<in> set (reason_if b r) \<longleftrightarrow> b \<and> x = r"
  by (auto simp: reason_if_def)

section \<open>Properties\<close>

text \<open>C34. A lifecycle action is clear of both protected resources only on a complete proof: the
  assessment always yields a verdict; it is clear exactly when the effect closure, the
  management path and the agent's containment are all completely established and the closure
  holds neither a unit of the path nor the agent's unit, which must be named; it is protected
  exactly when the closure reaches one of them; and some missing evidence is listed exactly
  when one of the two reasons stays open.\<close>

theorem lifecycle_protection_exact:
  "case assess_lifecycle_protection c of Inl _ \<Rightarrow> False | Inr p \<Rightarrow>
     (pa_status p = PS_Clear \<longleftrightarrow>
        cx_effect_complete c \<and> cx_management_complete c \<and> cx_agent_complete c \<and>
        set (cx_effect_units c) \<inter> set (cx_management_units c) = {} \<and>
        (case cx_agent_unit c of None \<Rightarrow> False
         | Some u \<Rightarrow> u \<noteq> [] \<and> u \<notin> set (cx_effect_units c))) \<and>
     (pa_status p = PS_Protected \<longleftrightarrow>
        \<not> (set (cx_effect_units c) \<inter> set (cx_management_units c) = {} \<and>
           \<not> opt_mem (cx_agent_unit c) (cx_effect_units c))) \<and>
     (pa_missing_evidence p = [] \<longleftrightarrow> PS_Unknown \<notin> set (map ra_status (pa_assessed p)))"
proof -
  obtain p where p: "assess_lifecycle_protection c = Inr p"
    using assess_lifecycle_total by blast
  have "pa_missing_evidence p = [] \<longleftrightarrow> PS_Unknown \<notin> set (map ra_status (pa_assessed p))"
    using assess_lifecycle_status(2,3) [OF p] missing_iff_unknown [of c] by auto
  with p show ?thesis
    using assess_lifecycle_status(1) [OF p]
    by (auto simp: lifecycle_reason_status opt_mem_def present_def split: option.splits)
qed

text \<open>Storing a lifecycle context and reading it back is exact: the reading gives the very
  context back when the constructors' checks hold of it (the runtime owner's proof is well
  formed and consistent with the context), and is refused otherwise, so nothing that fails
  those checks survives in a stored document.\<close>

theorem context_round_trip:
  "case context_from_dict rd render (context_as_dict c) of
     Inr c' \<Rightarrow> c' = c \<and> context_post_init c = Inr () \<and> owner_valid rd c
   | Inl _ \<Rightarrow> \<not> (context_post_init c = Inr () \<and> owner_valid rd c)"
proof (cases "owner_valid rd c \<and> context_post_init c = Inr ()")
  case True
  then show ?thesis
    by (simp add: context_round_trip_aux owner_valid_def split: option.splits)
next
  case False
  then show ?thesis
    by (auto simp: context_round_trip_aux owner_valid_def bindE_def split: option.splits sum.splits)
qed

text \<open>No refusal remains for a lifecycle action exactly when the target is the expected
  loaded, permanent service unit with no job in progress and a service type this build
  understands (a oneshot only when it remains after exit), its state is the one the action
  starts from, and everything the action needs is positively established: permission to start
  (not masked, startable, no daemon reload owed) for what starts the unit, permission to stop
  and no active unit that would bring it back for what stops it, and a recorded invocation
  for a restart.\<close>

theorem lifecycle_applicable_iff:
  "lifecycle_applicability c expected = Inr [] \<longleftrightarrow>
     (let d = cx_target_facts c; service = as_dict (get d ''service'');
          startable = (get d ''can_start'' = PBool True \<and> get d ''refuse_manual_start'' = PBool False \<and>
             get d ''need_daemon_reload'' = PBool False \<and> \<not> unhashable (get d ''unit_file_state'') \<and>
             \<not> str_in (get d ''unit_file_state'') [''masked'', ''masked-runtime'']);
          stoppable = (get d ''can_stop'' = PBool True \<and> get d ''refuse_manual_stop'' = PBool False \<and>
             cx_active_activation_sources c = [] \<and> cx_active_upholding_sources c = []) in
      cx_target_unit c = expected \<and> get d ''canonical_id'' = PStr expected \<and>
      endswith expected ''.service'' \<and> get d ''unit_type'' = PStr ''service'' \<and>
      get d ''load_state'' = PStr ''loaded'' \<and> get d ''transient'' = PBool False \<and>
      get d ''current_job'' = PNone \<and>
      (str_in (get service ''type'')
         [''simple'', ''exec'', ''forking'', ''notify'', ''notify-reload'', ''dbus'', ''idle''] \<or>
       get service ''type'' = PStr ''oneshot'' \<and> get service ''remain_after_exit'' = PBool True) \<and>
      (case cx_action c of
         SA_Start \<Rightarrow> str_in (get d ''active_state'') [''inactive'', ''failed''] \<and> startable
       | SA_Stop \<Rightarrow> get d ''active_state'' = PStr ''active'' \<and> stoppable
       | SA_Restart \<Rightarrow> get d ''active_state'' = PStr ''active'' \<and> startable \<and> stoppable \<and>
           truthy (get d ''invocation_id'')))"
proof -
  let ?d = "cx_target_facts c"
  let ?T = "get (as_dict (get ?d ''service'')) ''type''"
  let ?A = "get ?d ''active_state''"
  let ?seven = "[''simple'', ''exec'', ''forking'', ''notify'', ''notify-reload'', ''dbus'', ''idle'']"
  have types: "\<not> unhashable ?T \<and> str_in ?T KNOWN_SERVICE_TYPES \<and> (?T = PStr ''oneshot'' \<longrightarrow> b) \<longleftrightarrow>
     str_in ?T ?seven \<or> ?T = PStr ''oneshot'' \<and> b" for b
    by (cases ?T) (auto simp: KNOWN_SERVICE_TYPES_def)
  have active: "\<not> unhashable ?A \<and> \<not> str_in ?A TRANSITIONAL_ACTIVE_STATES \<and>
     str_in ?A [''active'', ''inactive'', ''failed''] \<longleftrightarrow>
     ?A = PStr ''active'' \<or> str_in ?A [''inactive'', ''failed'']"
    by (cases ?A) (auto simp: TRANSITIONAL_ACTIVE_STATES_def)
  have start: "?A = PStr ''active'' \<Longrightarrow> \<not> str_in ?A [''inactive'', ''failed'']"
    by simp
  have unfolded: "lifecycle_applicability c expected = Inr [] \<longleftrightarrow>
     (\<not> unhashable ?T \<and> str_in ?T KNOWN_SERVICE_TYPES \<and>
        (?T = PStr ''oneshot'' \<longrightarrow> get (as_dict (get ?d ''service'')) ''remain_after_exit'' = PBool True)) \<and>
     (\<not> unhashable ?A \<and> \<not> str_in ?A TRANSITIONAL_ACTIVE_STATES \<and>
        str_in ?A [''active'', ''inactive'', ''failed'']) \<and>
     (cx_action c \<noteq> SA_Stop \<longrightarrow> \<not> unhashable (get ?d ''unit_file_state'')) \<and>
     lifecycle_refusals c expected = []"
    by (auto simp: lifecycle_applicability_def lifecycle_refusals_def Let_def is_str_def
        simp del: str_in.simps)
  show ?thesis
    unfolding unfolded types active
    using start types active
    by (cases "cx_action c")
       (auto simp: lifecycle_refusals_def Let_def is_str_def MASKED_UNIT_FILE_STATES_def
         simp del: str_in.simps)
qed

text \<open>A lifecycle action cleared by protection spares the runtime the backend runs in: in a
  context read from any stored document whatsoever, when the assessment is clear and the
  document names a runtime owner, that owner is a resolved one, proven over the direct
  transport with its service process verified, and its unit is on the management path and
  outside the effect closure of the action.\<close>

theorem cleared_action_spares_the_runtime_owner:
  assumes "context_from_dict rd render d = Inr c" and "assess_lifecycle_protection c = Inr p"
    and "pa_status p = PS_Clear"
  shows "case cx_runtime_owner c of None \<Rightarrow> True | Some r \<Rightarrow>
     roc_status r = RO_Resolved \<and> roc_direct_transport_verified r \<and>
     roc_peer_service_main_verified r \<and> roc_gaps r = [] \<and>
     (case roc_owner_unit_id r of None \<Rightarrow> False
      | Some u \<Rightarrow> u \<in> set (cx_management_units c) \<and> u \<notin> set (cx_effect_units c))"
proof (cases "cx_runtime_owner c")
  case (Some r)
  from context_from_dict_valid [OF assms(1)] Some
  have post: "context_post_init c = Inr ()" and own: "owner_post_init rd r = Inr ()"
    by (simp_all add: owner_valid_def)
  from assms(2,3) assess_lifecycle_status(1) [OF assms(2)]
  have clear: "set (cx_effect_units c) \<inter> set (cx_management_units c) = {}" "cx_management_complete c"
    by (auto simp: lifecycle_reason_status split: if_splits)
  with post Some have res: "roc_status r = RO_Resolved"
    by (cases "roc_status r") (auto simp: context_post_init_def bindE_Inr)
  with post Some clear have "case roc_owner_unit_id r of None \<Rightarrow> False
      | Some u \<Rightarrow> u \<in> set (cx_management_units c) \<and> u \<notin> set (cx_effect_units c)"
    by (auto simp: context_post_init_def opt_mem_def split: option.splits)
  with own res Some show ?thesis
    by (auto simp: owner_post_init_def bindE_Inr)
qed simp

definition sample_owner :: runtime_owner_correlation where
  "sample_owner = \<lparr>roc_contract_version = DOCKER_DIRECT_UNIX_CONTRACT, roc_method_version = 1,
     roc_provider = ''docker'', roc_status = RO_Resolved,
     roc_attestation_fingerprint = Some (''sha256:'' @ replicate 64 (CHR ''a'')),
     roc_endpoint = Some ''/run/docker.sock'', roc_container_id = Some (replicate 64 (CHR ''b'')),
     roc_container_started_at = Some ''2026-01-01T00:00:00+00:00'',
     roc_engine_id = Some ''engine'', roc_direct_transport_verified = True,
     roc_peer_service_main_verified = True, roc_owner_unit_id = Some ''docker.service'',
     roc_owner_invocation_id = Some (replicate 32 (CHR ''c'')),
     roc_execution_cgroup_relation = Some ''equal'', roc_gaps = []\<rparr>"

definition sample_context :: systemd_lifecycle_context where
  "sample_context = \<lparr>cx_status = ''complete'', cx_observed_at = ''t0'',
     cx_target_unit = ''cron.service'', cx_action = SA_Restart, cx_target_facts = [],
     cx_effect_units = [''cron.service''], cx_effect_edges = [], cx_effect_complete = True,
     cx_active_activation_sources = [], cx_active_upholding_sources = [],
     cx_management_units = [''docker.service''], cx_management_complete = True,
     cx_connection_unit = Some ''docker-1.scope'', cx_connection_unit_type = Some ''scope'',
     cx_agent_unit = Some ''localplane-agent.service'', cx_agent_complete = True,
     cx_agent_unit_type = Some ''service'', cx_gaps = [], cx_evidence = [],
     cx_runtime_owner = Some sample_owner, cx_observation_id = None\<rparr>"

definition sample_iso :: "string \<Rightarrow> (bool \<times> int) option" where
  "sample_iso s = Some (True, 2026)"

lemma sample_endpoint: "endpoint_text ''/run/docker.sock''"
  by (simp add: endpoint_text_def normpath_def initial_slashes_def double_slash_def upt_rec)

lemma sample_owner_valid: "owner_post_init sample_iso sample_owner = Inr ()"
  by (simp add: owner_post_init_def sample_owner_def validate_text_shapes_def absent_or_def
      sample_endpoint sha256_text_def hex_of_length_def lower_hex_def started_text_def
      sample_iso_def unit_text_def endswith_def invocation_text_def present_def
      DOCKER_RUNTIME_OWNER_METHOD_VERSION_def DOCKER_RUNTIME_OWNER_PROVIDER_def
      DOCKER_EXECUTION_CGROUP_RELATIONS_def sorted_set_def list_all_iff)

theorem cleared_action_spares_the_runtime_owner_witness:
  "\<exists>u. roc_owner_unit_id sample_owner = Some u \<and> u \<in> set (cx_management_units sample_context) \<and>
     u \<notin> set (cx_effect_units sample_context)"
proof -
  have "context_from_dict sample_iso (\<lambda>_. []) (context_as_dict sample_context) = Inr sample_context"
    using sample_owner_valid
    by (simp add: context_round_trip_aux context_post_init_def)
       (simp add: sample_context_def opt_mem_def sample_owner_def)
  moreover obtain p where p: "assess_lifecycle_protection sample_context = Inr p"
    using assess_lifecycle_total by blast
  moreover have "pa_status p = PS_Clear"
    using assess_lifecycle_status(1) [OF p]
    by (simp add: lifecycle_reason_status) (simp add: sample_context_def opt_mem_def present_def)
  ultimately show ?thesis
    using cleared_action_spares_the_runtime_owner
      [of sample_iso "\<lambda>_. []" "context_as_dict sample_context" sample_context p]
    by (simp add: sample_context_def split: option.splits)
qed

end
