(* ===== verification/Self_Impact.thy ===== *)
theory Self_Impact
  imports Lifecycle
begin

text \<open>
  Whether a lifecycle operation reaches the backend that serves the request:
  \<open>src/localplane/backend/domain/self_impact.py\<close>. The assessment, the list of reasons that
  keep it from being covered by an operator's authority, and its stored document. The
  properties characterise eligibility over the context alone and the document's round trip.
\<close>

definition SELF_IMPACT_SUBJECT_BACKEND_RUNTIME :: string where
  "SELF_IMPACT_SUBJECT_BACKEND_RUNTIME = ''localplane_backend_runtime''"
definition HOST_SERVICE_UNIT_TYPE :: string where "HOST_SERVICE_UNIT_TYPE = ''service''"

datatype self_impact_status = SI_Not_Detected | SI_Proven | SI_Possible | SI_Unresolved

fun si_str :: "self_impact_status \<Rightarrow> string" where
  "si_str SI_Not_Detected = ''not_detected''"
| "si_str SI_Proven = ''proven''"
| "si_str SI_Possible = ''possible''"
| "si_str SI_Unresolved = ''unresolved''"

definition si_of :: "string \<Rightarrow> py_error + self_impact_status" where
  "si_of s = (if s = ''not_detected'' then Inr SI_Not_Detected
     else if s = ''proven'' then Inr SI_Proven
     else if s = ''possible'' then Inr SI_Possible
     else if s = ''unresolved'' then Inr SI_Unresolved
     else Inl (ValueError ''not a valid SelfImpactStatus''))"

datatype self_impact_outage = SO_None | SO_Temporary_Possible | SO_Indefinite_Possible

fun so_str :: "self_impact_outage \<Rightarrow> string" where
  "so_str SO_None = ''none''"
| "so_str SO_Temporary_Possible = ''temporary_possible''"
| "so_str SO_Indefinite_Possible = ''indefinite_possible''"

definition so_of :: "string \<Rightarrow> py_error + self_impact_outage" where
  "so_of s = (if s = ''none'' then Inr SO_None
     else if s = ''temporary_possible'' then Inr SO_Temporary_Possible
     else if s = ''indefinite_possible'' then Inr SO_Indefinite_Possible
     else Inl (ValueError ''not a valid SelfImpactOutage''))"

record backend_self_impact_assessment =
  si_subject :: string
  si_status :: self_impact_status
  si_outage :: self_impact_outage
  si_override_eligible :: bool
  si_detail :: string
  si_owner_unit_id :: "string option"
  si_envelope :: "string option"
  si_reasons :: "string list"

definition si_as_dict :: "backend_self_impact_assessment \<Rightarrow> facts" where
  "si_as_dict a =
     [(''subject'', PStr (si_subject a)), (''status'', PStr (si_str (si_status a))),
      (''outage'', PStr (so_str (si_outage a))),
      (''override_eligible'', PBool (si_override_eligible a)),
      (''detail'', PStr (si_detail a)), (''owner_unit_id'', opt_text (si_owner_unit_id a)),
      (''envelope'', opt_text (si_envelope a)), (''reasons'', texts (si_reasons a))]"

definition si_from_dict ::
  "(pyval \<Rightarrow> string) \<Rightarrow> facts \<Rightarrow> py_error + backend_self_impact_assessment" where
  "si_from_dict render d =
     bindE (case get d ''override_eligible'' of PBool b \<Rightarrow> Inr b
            | _ \<Rightarrow> Inl (ValueError ''self-impact override_eligible must be a boolean'')) (\<lambda>el.
     bindE (case get_or d ''reasons'' (PList []) of
              PList xs \<Rightarrow> (case str_list xs of Some rs \<Rightarrow> Inr rs
                | None \<Rightarrow> Inl (ValueError ''self-impact reasons must be a string list''))
            | _ \<Rightarrow> Inl (ValueError ''self-impact reasons must be a string list'')) (\<lambda>rs.
     bindE (getitem d ''subject'') (\<lambda>sub.
     bindE (getitem d ''status'') (\<lambda>sv. bindE (si_of (py_str render sv)) (\<lambda>st.
     bindE (getitem d ''outage'') (\<lambda>ov. bindE (so_of (py_str render ov)) (\<lambda>ou.
     bindE (getitem d ''detail'') (\<lambda>de.
       Inr \<lparr>si_subject = py_str render sub, si_status = st, si_outage = ou,
            si_override_eligible = el, si_detail = py_str render de,
            si_owner_unit_id = str_unless_none render (get d ''owner_unit_id''),
            si_envelope = str_unless_none render (get d ''envelope''),
            si_reasons = rs\<rparr>))))))))"

fun OUTAGE :: "systemd_service_action \<Rightarrow> self_impact_outage" where
  "OUTAGE SA_Start = SO_None"
| "OUTAGE SA_Stop = SO_Indefinite_Possible"
| "OUTAGE SA_Restart = SO_Temporary_Possible"

section \<open>The assessment\<close>

definition resolved_owner :: "systemd_lifecycle_context \<Rightarrow> runtime_owner_correlation option" where
  "resolved_owner c = (case cx_runtime_owner c of None \<Rightarrow> None
     | Some r \<Rightarrow> if roc_status r = RO_Resolved then Some r else None)"

definition status_of ::
  "systemd_lifecycle_context \<Rightarrow> self_impact_status \<times> string \<times> string option" where
  "status_of c =
     (case resolved_owner c of
        Some r \<Rightarrow>
          if opt_mem (roc_owner_unit_id r) (cx_effect_units c)
          then (SI_Proven, ''effect_closure_contains_proven_backend_runtime_owner'',
                roc_owner_unit_id r)
          else (SI_Not_Detected, ''effect_closure_disjoint_from_proven_backend_runtime_owner'',
                roc_owner_unit_id r)
      | None \<Rightarrow>
          if RUNTIME_OWNER_UMBRELLA_GAP \<in> set (cx_gaps c)
          then (SI_Possible, ''backend_container_runtime_owner_unproven'', None)
          else if cx_connection_unit c \<noteq> None \<and>
                  cx_connection_unit_type c = Some HOST_SERVICE_UNIT_TYPE \<and>
                  opt_mem (cx_connection_unit c) (cx_effect_units c)
          then (SI_Proven, ''effect_closure_contains_backend_service_unit'', cx_connection_unit c)
          else if cx_connection_unit c \<noteq> None \<and>
                  cx_connection_unit_type c = Some HOST_SERVICE_UNIT_TYPE \<and> cx_effect_complete c
          then (SI_Not_Detected, ''effect_closure_disjoint_from_backend_service_unit'',
                cx_connection_unit c)
          else (SI_Unresolved, ''backend_runtime_containment_not_established'', None))"

definition agent_is_a_proven_host_service :: "systemd_lifecycle_context \<Rightarrow> bool" where
  "agent_is_a_proven_host_service c \<longleftrightarrow>
     cx_agent_complete c \<and> present (cx_agent_unit c) \<and>
     cx_agent_unit_type c = Some HOST_SERVICE_UNIT_TYPE \<and>
     \<not> opt_mem (cx_agent_unit c) (cx_effect_units c) \<and> cx_effect_complete c"

definition reason_is_clear :: "protection_assessment \<Rightarrow> protection_reason \<Rightarrow> bool" where
  "reason_is_clear p reason \<longleftrightarrow>
     list_ex (\<lambda>e. ra_reason e = reason \<and> ra_status e = PS_Clear) (pa_assessed p)"

definition owner_in_envelope :: "systemd_lifecycle_context \<Rightarrow> bool" where
  "owner_in_envelope c =
     (case cx_runtime_owner c of None \<Rightarrow> False
      | Some r \<Rightarrow> roc_status r = RO_Resolved \<and>
          roc_contract_version r = DOCKER_DIRECT_UNIX_CONTRACT \<and>
          roc_method_version r = DOCKER_RUNTIME_OWNER_METHOD_VERSION \<and>
          roc_provider r = DOCKER_RUNTIME_OWNER_PROVIDER \<and> present (roc_owner_unit_id r))"

definition owner_unit :: "systemd_lifecycle_context \<Rightarrow> string option" where
  "owner_unit c = Option.bind (cx_runtime_owner c) roc_owner_unit_id"

definition ineligibility ::
  "systemd_lifecycle_context \<Rightarrow> protection_assessment \<Rightarrow> self_impact_status \<Rightarrow> string list" where
  "ineligibility c p status = fromkeys
     (reason_if (status \<noteq> SI_Proven) (''self_impact_status_not_proven:'' @ si_str status) @
      (if \<not> owner_in_envelope c
       then [''runtime_owner_outside_supported_self_impact_envelope'']
       else reason_if (map Some (management_intersection c) \<noteq> [owner_unit c])
              ''effect_closure_touches_management_path_beyond_backend_runtime'') @
      (if \<not> agent_is_a_proven_host_service c
       then [''localplane_agent_not_proven_outside_closure_as_host_service'']
       else reason_if (\<not> reason_is_clear p PR_Localplane_Agent)
              ''localplane_agent_protection_reason_not_clear'') @
      reason_if (\<not> (cx_effect_complete c \<and> cx_management_complete c \<and> cx_agent_complete c))
        ''lifecycle_context_incomplete'' @
      reason_if (cx_gaps c \<noteq> []) ''lifecycle_context_carries_unresolved_gaps'' @
      (if pa_status p \<noteq> PS_Protected
       then [''protection_status_not_protected:'' @ ps_str (pa_status p)]
       else reason_if (pa_reasons p \<noteq> [PR_Management_Path])
              ''protection_carries_reasons_beyond_the_management_path''))"

definition assess_backend_self_impact ::
  "systemd_lifecycle_context \<Rightarrow> protection_assessment \<Rightarrow> backend_self_impact_assessment" where
  "assess_backend_self_impact c p =
     (let (status, detail, unit) = status_of c;
          outage = (if status = SI_Proven \<or> status = SI_Possible then OUTAGE (cx_action c)
                    else SO_None);
          reasons = ineligibility c p status in
      \<lparr>si_subject = SELF_IMPACT_SUBJECT_BACKEND_RUNTIME, si_status = status, si_outage = outage,
       si_override_eligible = (reasons = []), si_detail = detail, si_owner_unit_id = unit,
       si_envelope = (if reasons = [] then Some DOCKER_DIRECT_UNIX_CONTRACT else None),
       si_reasons = reasons\<rparr>)"

section \<open>Lemmas\<close>

lemma si_of_str [simp]: "si_of (si_str s) = Inr s"
  by (cases s) (simp_all add: si_of_def)

lemma so_of_str [simp]: "so_of (so_str s) = Inr s"
  by (cases s) (simp_all add: so_of_def)

lemma si_sel [simp]:
  "si_status (assess_backend_self_impact c p) = fst (status_of c)"
  "si_override_eligible (assess_backend_self_impact c p) \<longleftrightarrow> ineligibility c p (fst (status_of c)) = []"
  "si_outage (assess_backend_self_impact c p) =
     (if fst (status_of c) = SI_Proven \<or> fst (status_of c) = SI_Possible
      then OUTAGE (cx_action c) else SO_None)"
  by (simp_all add: assess_backend_self_impact_def Let_def split: prod.splits)

lemma ineligibility_Nil:
  "ineligibility c p s = [] \<longleftrightarrow>
     s = SI_Proven \<and> owner_in_envelope c \<and> map Some (management_intersection c) = [owner_unit c] \<and>
     agent_is_a_proven_host_service c \<and> reason_is_clear p PR_Localplane_Agent \<and>
     cx_management_complete c \<and> cx_gaps c = [] \<and>
     pa_status p = PS_Protected \<and> pa_reasons p = [PR_Management_Path]"
  by (auto simp: ineligibility_def agent_is_a_proven_host_service_def)

lemma sorted_set_eq_single: "sorted_set xs = [u] \<longleftrightarrow> xs \<noteq> [] \<and> set xs = {u}"
proof
  assume h: "sorted_set xs = [u]"
  then have "xs \<noteq> []" by (auto simp: sorted_set_def)
  then show "xs \<noteq> [] \<and> set xs = {u}" using h set_sorted_set [of xs] by simp
next
  assume "xs \<noteq> [] \<and> set xs = {u}"
  then show "sorted_set xs = [u]" using sorted_set_cong [of xs "[u]"] by simp
qed

lemma map_Some_eq_single: "map Some xs = [v] \<longleftrightarrow> (\<exists>u. v = Some u \<and> xs = [u])"
  by (cases xs) auto

lemma intersection_single:
  "management_intersection c = [u] \<longleftrightarrow>
     set (cx_effect_units c) \<inter> set (cx_management_units c) = {u}"
  by (auto simp: management_intersection_def sorted_set_eq_single filter_empty_conv)

lemma lifecycle_pa_reasons:
  assumes "assess_lifecycle_protection c = Inr p"
  shows "pa_reasons p = map ra_reason (filter (has_status PS_Protected)
     [management_unit_reason c, agent_unit_reason c])"
  using roll_up_sel(5) [OF assms [unfolded assess_lifecycle_protection_def Let_def]] .

lemma lifecycle_agent_clear:
  assumes "assess_lifecycle_protection c = Inr p"
  shows "reason_is_clear p PR_Localplane_Agent \<longleftrightarrow> ra_status (agent_unit_reason c) = PS_Clear"
  using assess_lifecycle_status(2) [OF assms] by (simp add: reason_is_clear_def)

lemma si_eta:
  "\<lparr>si_subject = si_subject a, si_status = si_status a, si_outage = si_outage a,
    si_override_eligible = si_override_eligible a, si_detail = si_detail a,
    si_owner_unit_id = si_owner_unit_id a, si_envelope = si_envelope a,
    si_reasons = si_reasons a\<rparr> = a"
  by (cases a) simp

section \<open>Properties\<close>

text \<open>The one hazard an operator's authority can cover is exactly this: with protection
  assessed from the same context, the override is eligible just when a resolved runtime owner
  of the supported contract names a unit that is the only unit of the management path the
  effect closure reaches, the agent is a host service, named and completely established,
  outside the closure, all three correlations are complete and no gap remains. In every other
  case a reason is listed and no envelope is claimed.\<close>

theorem override_eligible_iff:
  "case assess_lifecycle_protection c of Inl _ \<Rightarrow> False | Inr p \<Rightarrow>
     (si_override_eligible (assess_backend_self_impact c p) \<longleftrightarrow>
        (\<exists>r u a. cx_runtime_owner c = Some r \<and> roc_status r = RO_Resolved \<and>
           roc_contract_version r = DOCKER_DIRECT_UNIX_CONTRACT \<and> roc_method_version r = 1 \<and>
           roc_provider r = ''docker'' \<and> roc_owner_unit_id r = Some u \<and> u \<noteq> [] \<and>
           set (cx_effect_units c) \<inter> set (cx_management_units c) = {u} \<and>
           cx_agent_unit c = Some a \<and> a \<noteq> [] \<and> cx_agent_unit_type c = Some ''service'' \<and>
           a \<notin> set (cx_effect_units c) \<and>
           cx_effect_complete c \<and> cx_management_complete c \<and> cx_agent_complete c \<and>
           cx_gaps c = [])) \<and>
     (si_override_eligible (assess_backend_self_impact c p) \<longleftrightarrow>
        si_reasons (assess_backend_self_impact c p) = []) \<and>
     (si_override_eligible (assess_backend_self_impact c p) \<longleftrightarrow>
        si_envelope (assess_backend_self_impact c p) \<noteq> None)"
proof -
  obtain p where p: "assess_lifecycle_protection c = Inr p"
    using assess_lifecycle_total by blast
  note clear = lifecycle_agent_clear [OF p] and reasons = lifecycle_pa_reasons [OF p]
    and status = assess_lifecycle_status(1) [OF p]
  let ?el = "si_override_eligible (assess_backend_self_impact c p)"
  let ?rhs = "\<exists>r u a. cx_runtime_owner c = Some r \<and> roc_status r = RO_Resolved \<and>
           roc_contract_version r = DOCKER_DIRECT_UNIX_CONTRACT \<and> roc_method_version r = 1 \<and>
           roc_provider r = ''docker'' \<and> roc_owner_unit_id r = Some u \<and> u \<noteq> [] \<and>
           set (cx_effect_units c) \<inter> set (cx_management_units c) = {u} \<and>
           cx_agent_unit c = Some a \<and> a \<noteq> [] \<and> cx_agent_unit_type c = Some ''service'' \<and>
           a \<notin> set (cx_effect_units c) \<and>
           cx_effect_complete c \<and> cx_management_complete c \<and> cx_agent_complete c \<and>
           cx_gaps c = []"
  have "?el \<Longrightarrow> ?rhs"
    by (auto simp: ineligibility_Nil owner_in_envelope_def map_Some_eq_single intersection_single
        owner_unit_def agent_is_a_proven_host_service_def present_def opt_mem_def
        DOCKER_RUNTIME_OWNER_METHOD_VERSION_def DOCKER_RUNTIME_OWNER_PROVIDER_def
        HOST_SERVICE_UNIT_TYPE_def split: option.splits)
  moreover have "?rhs \<Longrightarrow> ?el"
  proof -
    assume ?rhs
    then obtain r :: runtime_owner_correlation and u a where
      o: "cx_runtime_owner c = Some r" "roc_status r = RO_Resolved"
         "roc_contract_version r = DOCKER_DIRECT_UNIX_CONTRACT" "roc_method_version r = 1"
         "roc_provider r = ''docker''" "roc_owner_unit_id r = Some u" "u \<noteq> []"
      and i: "set (cx_effect_units c) \<inter> set (cx_management_units c) = {u}"
      and a: "cx_agent_unit c = Some a" "a \<noteq> []" "cx_agent_unit_type c = Some ''service''"
         "a \<notin> set (cx_effect_units c)"
      and k: "cx_effect_complete c" "cx_management_complete c" "cx_agent_complete c" "cx_gaps c = []"
      by blast
    have s: "ra_status (management_unit_reason c) = PS_Protected"
      "ra_status (agent_unit_reason c) = PS_Clear"
      using i a k by (simp_all add: lifecycle_reason_status opt_mem_def present_def)
    have "fst (status_of c) = SI_Proven"
      using o i by (auto simp: status_of_def resolved_owner_def opt_mem_def)
    moreover have "pa_reasons p = [PR_Management_Path]" "pa_status p = PS_Protected"
      using reasons status s by (simp_all add: has_status_def)
    ultimately show ?el
      using o i a k s clear
      by (simp add: ineligibility_Nil owner_in_envelope_def map_Some_eq_single intersection_single
          owner_unit_def agent_is_a_proven_host_service_def present_def opt_mem_def
          DOCKER_RUNTIME_OWNER_METHOD_VERSION_def DOCKER_RUNTIME_OWNER_PROVIDER_def
          HOST_SERVICE_UNIT_TYPE_def)
  qed
  ultimately have "?el \<longleftrightarrow> ?rhs" by blast
  moreover have "?el \<longleftrightarrow> si_reasons (assess_backend_self_impact c p) = []"
    "?el \<longleftrightarrow> si_envelope (assess_backend_self_impact c p) \<noteq> None"
    by (simp_all add: assess_backend_self_impact_def Let_def split: prod.splits)
  ultimately show ?thesis using p by simp
qed

text \<open>A stored self-impact assessment reads back exactly, and no outage is ever announced
  unless the backend is proven or possibly reached: a stop then announces an indefinite one and
  a restart a temporary one.\<close>

theorem self_impact_document:
  "si_from_dict render (si_as_dict (assess_backend_self_impact c p)) = Inr (assess_backend_self_impact c p) \<and>
   (si_outage (assess_backend_self_impact c p) \<noteq> SO_None \<longleftrightarrow>
      si_status (assess_backend_self_impact c p) \<in> {SI_Proven, SI_Possible} \<and> cx_action c \<noteq> SA_Start)"
proof
  have "si_from_dict render (si_as_dict a) = Inr a" for a
    by (simp add: si_from_dict_def si_as_dict_def texts_def si_eta)
  then show "si_from_dict render (si_as_dict (assess_backend_self_impact c p)) =
      Inr (assess_backend_self_impact c p)" .
  show "si_outage (assess_backend_self_impact c p) \<noteq> SO_None \<longleftrightarrow>
      si_status (assess_backend_self_impact c p) \<in> {SI_Proven, SI_Possible} \<and> cx_action c \<noteq> SA_Start"
    by (cases "cx_action c") auto
qed

text \<open>A proven runtime owner is reported as not reached even when the effect closure is
  incomplete: there is a context whose closure is not established and whose stored owner passes
  every check, for which the assessment answers \<open>not_detected\<close>. (For a backend contained
  directly by a service the same answer does wait for a complete closure.)\<close>

theorem not_detected_on_incomplete_closure:
  "\<exists>c p. assess_lifecycle_protection c = Inr p \<and> context_post_init c = Inr () \<and>
     owner_valid sample_iso c \<and> \<not> cx_effect_complete c \<and>
     si_status (assess_backend_self_impact c p) = SI_Not_Detected"
proof -
  let ?c = "sample_context\<lparr>cx_effect_complete := False\<rparr>"
  obtain p where "assess_lifecycle_protection ?c = Inr p"
    using assess_lifecycle_total by blast
  moreover have "context_post_init ?c = Inr ()" "owner_valid sample_iso ?c"
    using sample_owner_valid
    by (simp_all add: context_post_init_def owner_valid_def sample_context_def)
       (simp add: sample_owner_def opt_mem_def)
  moreover have "fst (status_of ?c) = SI_Not_Detected"
    by (simp add: status_of_def resolved_owner_def sample_context_def)
       (simp add: sample_owner_def opt_mem_def)
  ultimately show ?thesis by (intro exI [of _ ?c] exI [of _ p]) simp
qed

end
