(* ===== verification/Provenance.thy ===== *)
theory Provenance
  imports States
begin

text \<open>
  Who owns an object: \<open>src/localplane/backend/domain/provenance.py\<close>, over the provider names
  of \<open>src/localplane/protocol/providers.py\<close>. Claims are derived from the kernel's facts and
  the newest reading of each provider; then the policy questions asked of the result (which
  claim blocks a write, whether the object may be adopted). The properties say which evidence
  every claim rests on and when ownership stands in the way.

  Provider records and facts are dynamically typed; \<open>render\<close> is \<open>str\<close> on numbers and
  containers. The derivations return an error where iterating such a value raises.
\<close>

section \<open>Vocabulary\<close>

definition PROVIDER_DOCKER :: string where "PROVIDER_DOCKER = ''docker''"
definition PROVIDER_NETWORKMANAGER :: string where "PROVIDER_NETWORKMANAGER = ''networkmanager''"
definition PROVIDER_TAILSCALE :: string where "PROVIDER_TAILSCALE = ''tailscale''"
definition PROVIDER_KERNEL :: string where "PROVIDER_KERNEL = ''kernel''"
definition PROVIDER_LOCALPLANE :: string where "PROVIDER_LOCALPLANE = ''localplane''"
definition SOURCE_DOCKER_CONTAINERS :: string where "SOURCE_DOCKER_CONTAINERS = ''docker.containers''"
definition SOURCE_KERNEL_INTERFACE :: string where "SOURCE_KERNEL_INTERFACE = ''kernel.interface''"

lemmas provider_defs = PROVIDER_DOCKER_def PROVIDER_NETWORKMANAGER_def PROVIDER_TAILSCALE_def
  PROVIDER_KERNEL_def PROVIDER_LOCALPLANE_def

definition PROVIDER_SOURCES :: "(string \<times> string) list" where
  "PROVIDER_SOURCES = [(PROVIDER_DOCKER, ''docker.networks''),
     (PROVIDER_NETWORKMANAGER, ''networkmanager.devices''),
     (PROVIDER_TAILSCALE, ''tailscale.status'')]"

definition STATUS_OK :: string where "STATUS_OK = ''ok''"
definition STATUS_ABSENT :: string where "STATUS_ABSENT = ''absent''"
definition NEVER_CONSULTED :: string where "NEVER_CONSULTED = ''never_consulted''"

datatype ownership_relation = Created_By | Configured_By

datatype ownership_confidence = OC_Confirmed | OC_Corroborated

datatype ownership_state = OS_Attributed | OS_Unknown

record owner_identity =
  oi_provider :: string
  oi_instance :: pyval
  oi_label :: pyval
  oi_version :: "string option"

definition external :: "owner_identity \<Rightarrow> bool" where
  "external w \<longleftrightarrow> oi_provider w \<notin> set [PROVIDER_KERNEL, PROVIDER_LOCALPLANE]"

record ownership_evidence =
  oe_source :: string
  oe_kind :: string
  oe_detail :: facts
  oe_observed_at :: pyval

record ownership_claim =
  oc_relation :: ownership_relation
  oc_owner :: owner_identity
  oc_confidence :: ownership_confidence
  oc_reason :: string
  oc_evidence :: "ownership_evidence list"

record consulted_source =
  cs_source :: string
  cs_provider :: string
  cs_status :: string
  cs_outcome :: string
  cs_gap :: bool
  cs_observed_at :: pyval
  cs_detail :: facts

record provenance =
  pv_state :: ownership_state
  pv_reason :: string
  pv_claims :: "ownership_claim list"
  pv_sources :: "consulted_source list"

definition gaps :: "provenance \<Rightarrow> string list" where
  "gaps p = map cs_source (filter cs_gap (pv_sources p))"

definition claims_for :: "ownership_relation \<Rightarrow> ownership_claim list \<Rightarrow> ownership_claim list" where
  "claims_for r cs = filter (\<lambda>c. oc_relation c = r) cs"

definition owner_for :: "provenance \<Rightarrow> ownership_relation \<Rightarrow> ownership_claim option" where
  "owner_for p r = (case claims_for r (pv_claims p) of [c] \<Rightarrow> Some c | _ \<Rightarrow> None)"

definition conflicting_relations :: "ownership_claim list \<Rightarrow> ownership_relation list" where
  "conflicting_relations cs = filter
     (\<lambda>r. length (remdups (map (\<lambda>c. oi_provider (oc_owner c)) (claims_for r cs))) > 1)
     [Created_By, Configured_By]"

record provider_reading =
  prd_provider :: string
  prd_source :: string
  prd_status :: string
  prd_observed_at :: string
  prd_reason :: "string option"
  prd_version :: "string option"
  prd_records :: "facts list"
  prd_detail :: facts
  prd_provider_observation_id :: "string option"
  prd_sweep_id :: "string option"

type_synonym provider_evidence = "string \<rightharpoonup> provider_reading"

definition evidence_of :: "provider_reading list \<Rightarrow> provider_evidence" where
  "evidence_of rs = map_of (rev (map (\<lambda>r. (prd_provider r, r)) rs))"

section \<open>Helpers\<close>

definition or_empty :: "pyval \<Rightarrow> pyval" where
  "or_empty v = (if truthy v then v else PList [])"

fun dict_of :: "pyval \<Rightarrow> facts option" where
  "dict_of (PDict d) = Some d"
| "dict_of _ = None"

definition unusable_source :: "string \<Rightarrow> provider_reading option \<Rightarrow> consulted_source option" where
  "unusable_source provider reading =
     (case reading of
        None \<Rightarrow> Some \<lparr>cs_source = (case map_of PROVIDER_SOURCES provider of
                                    None \<Rightarrow> provider | Some s \<Rightarrow> s),
                       cs_provider = provider, cs_status = NEVER_CONSULTED,
                       cs_outcome = ''no_provider_evidence'', cs_gap = True,
                       cs_observed_at = PNone, cs_detail = []\<rparr>
      | Some r \<Rightarrow>
         (let outcome = (\<lambda>d. case prd_reason r of None \<Rightarrow> d | Some s \<Rightarrow> if s = [] then d else s) in
          if prd_status r = STATUS_ABSENT
          then Some \<lparr>cs_source = prd_source r, cs_provider = provider, cs_status = prd_status r,
                     cs_outcome = outcome ''provider_absent'', cs_gap = False,
                     cs_observed_at = PStr (prd_observed_at r), cs_detail = []\<rparr>
          else if prd_status r \<noteq> STATUS_OK
          then Some \<lparr>cs_source = prd_source r, cs_provider = provider, cs_status = prd_status r,
                     cs_outcome = outcome ''provider_unreadable'', cs_gap = True,
                     cs_observed_at = PStr (prd_observed_at r), cs_detail = prd_detail r\<rparr>
          else None))"

fun address_in :: "pyval \<Rightarrow> string list" where
  "address_in (PDict d) = (case get d ''address'' of PStr s \<Rightarrow> [s] | _ \<Rightarrow> [])"
| "address_in _ = []"

text \<open>\<open>None\<close> when the source that lists them failed; an empty list when there are none.\<close>

definition addresses_of :: "facts \<Rightarrow> py_error + string list option" where
  "addresses_of fs =
     (if get fs ''addresses'' = PNone then Inr None
      else bindE (py_iter (get fs ''addresses'')) (\<lambda>xs. Inr (Some (concat (map address_in xs)))))"

definition found_source ::
  "provider_reading \<Rightarrow> string \<Rightarrow> string \<Rightarrow> bool \<Rightarrow> facts \<Rightarrow> consulted_source" where
  "found_source r provider outcome gap detail =
     \<lparr>cs_source = prd_source r, cs_provider = provider, cs_status = prd_status r,
      cs_outcome = outcome, cs_gap = gap, cs_observed_at = PStr (prd_observed_at r),
      cs_detail = detail\<rparr>"

section \<open>The kernel\<close>

definition kernel_source :: "string \<Rightarrow> consulted_source" where
  "kernel_source outcome =
     \<lparr>cs_source = SOURCE_KERNEL_INTERFACE, cs_provider = PROVIDER_KERNEL, cs_status = STATUS_OK,
      cs_outcome = outcome, cs_gap = False, cs_observed_at = PNone, cs_detail = []\<rparr>"

definition kernel_claim :: "pyval \<Rightarrow> string \<Rightarrow> string \<Rightarrow> facts \<Rightarrow> ownership_claim" where
  "kernel_claim inst reason kind detail =
     \<lparr>oc_relation = Created_By,
      oc_owner = \<lparr>oi_provider = PROVIDER_KERNEL, oi_instance = inst, oi_label = PNone,
                  oi_version = None\<rparr>,
      oc_confidence = OC_Confirmed, oc_reason = reason,
      oc_evidence = [\<lparr>oe_source = SOURCE_KERNEL_INTERFACE, oe_kind = kind, oe_detail = detail,
                      oe_observed_at = PNone\<rparr>]\<rparr>"

fun nonempty_text :: "pyval \<Rightarrow> bool" where
  "nonempty_text (PStr s) = (s \<noteq> [])"
| "nonempty_text _ = False"

definition kernel_provenance :: "facts \<Rightarrow> ownership_claim option \<times> consulted_source" where
  "kernel_provenance fs =
     (let kind = get fs ''kind''; device_path = get fs ''device_path'' in
      if is_str kind KIND_LOOPBACK
      then (Some (kernel_claim PNone ''kernel_loopback_device'' ''arphrd_type''
                    [(''arphrd_type'', get fs ''arphrd_type''), (''kind'', kind)]),
            kernel_source ''kernel_loopback_device'')
      else if truthy (get fs ''is_physical'') \<and> nonempty_text device_path
      then (Some (kernel_claim device_path ''kernel_device_backed'' ''device_path''
                    [(''device_path'', device_path), (''is_physical'', PBool True)]),
            kernel_source ''kernel_device_backed'')
      else (None, kernel_source ''virtual_link_no_kernel_claim''))"

section \<open>Docker\<close>

definition both_relations ::
  "owner_identity \<Rightarrow> ownership_confidence \<Rightarrow> string \<Rightarrow> ownership_evidence \<Rightarrow> ownership_claim list" where
  "both_relations owner confidence reason evidence =
     map (\<lambda>rel. \<lparr>oc_relation = rel, oc_owner = owner, oc_confidence = confidence,
                 oc_reason = reason, oc_evidence = [evidence]\<rparr>) [Created_By, Configured_By]"

definition docker_claims ::
  "provider_reading \<Rightarrow> facts \<Rightarrow> ownership_confidence \<Rightarrow> string \<Rightarrow> ownership_evidence \<Rightarrow>
   ownership_claim list" where
  "docker_claims r network confidence reason evidence =
     both_relations \<lparr>oi_provider = PROVIDER_DOCKER, oi_instance = get network ''network_id'',
        oi_label = get network ''name'', oi_version = prd_version r\<rparr> confidence reason evidence"

definition gateways :: "(pyval \<Rightarrow> string) \<Rightarrow> facts \<Rightarrow> py_error + string list" where
  "gateways render network =
     bindE (py_iter (or_empty (get network ''ipam''))) (\<lambda>xs.
       Inr (concat (map (\<lambda>v. case dict_of v of None \<Rightarrow> []
         | Some d \<Rightarrow> if truthy (get d ''gateway'') then [py_str render (get d ''gateway'')] else []) xs)))"

definition subnets :: "facts \<Rightarrow> py_error + pyval list" where
  "subnets network =
     bindE (py_iter (or_empty (get network ''ipam'')))
       (mapE (\<lambda>v. case dict_of v of None \<Rightarrow> Inl (AttributeError ''get'')
                  | Some d \<Rightarrow> Inr (get d ''subnet'')))"

definition ints :: "nat \<Rightarrow> pyval" where "ints n = PInt (int n)"

definition on_link :: "string list \<Rightarrow> string list \<Rightarrow> (facts \<times> string list) \<Rightarrow> (facts \<times> string) list" where
  "on_link declared addresses = (\<lambda>(n, gs).
     map (\<lambda>g. (n, g)) (filter (\<lambda>g. g \<in> set addresses \<and> count_list declared g = 1) gs))"

definition gateway_matches ::
  "string list \<Rightarrow> (facts \<times> string list) list \<Rightarrow> (facts \<times> string) list" where
  "gateway_matches addresses table = concat (map (on_link (concat (map snd table)) addresses) table)"

definition docker_by_gateway ::
  "(pyval \<Rightarrow> string) \<Rightarrow> provider_reading \<Rightarrow> facts list \<Rightarrow> string list \<Rightarrow>
   py_error + ownership_claim list \<times> consulted_source" where
  "docker_by_gateway render r networks addresses =
     bindE (mapE (\<lambda>n. bindE (gateways render n) (\<lambda>gs. Inr (n, gs))) networks) (\<lambda>table.
     (let source = found_source r PROVIDER_DOCKER;
          declared = concat (map snd table);
          matched = gateway_matches addresses table;
          ids = map (\<lambda>(n, _). get n ''network_id'') matched in
      if list_ex unhashable ids then Inl (TypeError ''unhashable type'')
      else if length (remdups ids) > 1
      then Inr ([], source ''ambiguous_gateway_match'' True
             [(''networks'', PList (map PStr (sort (map (py_str render) (remdups ids)))))])
      else (case matched of
         [] \<Rightarrow>
          (let ambiguous = filter (\<lambda>g. g \<in> set addresses) declared in
           if ambiguous \<noteq> []
           then Inr ([], source ''ambiguous_gateway_match'' True
                  [(''gateways'', PList (map PStr (sorted_set ambiguous)))])
           else Inr ([], source ''no_matching_docker_network'' False
                  [(''networks'', ints (length networks))]))
       | (network, gateway) # _ \<Rightarrow>
          bindE (subnets network) (\<lambda>subs.
            Inr (docker_claims r network OC_Corroborated ''docker_ipam_gateway_on_link''
                   \<lparr>oe_source = prd_source r, oe_kind = ''ipam_gateway_address'',
                    oe_detail = [(''network_id'', get network ''network_id''),
                      (''network_name'', get network ''name''), (''gateway'', PStr gateway),
                      (''subnets'', PList subs),
                      (''interface_addresses'', PList (map PStr (sorted_set addresses))),
                      (''compose_project'', get network ''compose_project'')],
                    oe_observed_at = PStr (prd_observed_at r)\<rparr>,
                 source ''matched_ipam_gateway'' False
                   [(''network_id'', get network ''network_id''),
                    (''network_name'', get network ''name''), (''gateway'', PStr gateway)])))))"

definition docker_provenance ::
  "(pyval \<Rightarrow> string) \<Rightarrow> facts \<Rightarrow> provider_evidence \<Rightarrow>
   py_error + ownership_claim list \<times> consulted_source" where
  "docker_provenance render fs evidence =
     (case unusable_source PROVIDER_DOCKER (evidence PROVIDER_DOCKER) of
        Some u \<Rightarrow> Inr ([], u)
      | None \<Rightarrow>
     (case evidence PROVIDER_DOCKER of None \<Rightarrow> Inl (AssertionError []) | Some r \<Rightarrow>
       (let networks = filter (\<lambda>n. is_str (get n ''driver'') ''bridge'') (prd_records r);
            name = get fs ''name''; kind = get fs ''kind'';
            source = found_source r PROVIDER_DOCKER in
        bindE (addresses_of fs) (\<lambda>addresses.
        (let named = filter (\<lambda>n. truthy (get n ''bridge_name'') \<and> get n ''bridge_name'' = name) networks in
         if length named > 1
         then Inr ([], source ''ambiguous_declared_bridge_name'' True
                [(''networks'', ints (length named))])
         else (case named of
           network # _ \<Rightarrow>
             if \<not> is_str kind KIND_BRIDGE
             then Inr ([], source ''declared_bridge_is_not_a_kernel_bridge'' True
                    [(''observed_kind'', kind)])
             else Inr (docker_claims r network OC_Confirmed ''docker_declared_bridge_name''
                   \<lparr>oe_source = prd_source r, oe_kind = ''declared_bridge_name'',
                    oe_detail = [(''network_id'', get network ''network_id''),
                      (''network_name'', get network ''name''),
                      (''declared_bridge_name'', get network ''bridge_name''),
                      (''interface_name'', name),
                      (''default_bridge'', get network ''default_bridge'')],
                    oe_observed_at = PStr (prd_observed_at r)\<rparr>,
                  source ''matched_declared_bridge_name'' False
                    [(''network_id'', get network ''network_id''),
                     (''network_name'', get network ''name'')])
         | [] \<Rightarrow>
             if \<not> is_str kind KIND_BRIDGE
             then Inr ([], source ''not_a_bridge'' False [(''observed_kind'', kind)])
             else (case addresses of
                 None \<Rightarrow> Inr ([], source ''interface_addresses_unavailable'' True [])
               | Some as \<Rightarrow> docker_by_gateway render r networks as)))))))"

section \<open>NetworkManager\<close>

definition networkmanager_provenance ::
  "facts \<Rightarrow> provider_evidence \<Rightarrow> py_error + ownership_claim list \<times> consulted_source" where
  "networkmanager_provenance fs evidence =
     (case unusable_source PROVIDER_NETWORKMANAGER (evidence PROVIDER_NETWORKMANAGER) of
        Some u \<Rightarrow> Inr ([], u)
      | None \<Rightarrow>
     (case evidence PROVIDER_NETWORKMANAGER of None \<Rightarrow> Inl (AssertionError []) | Some r \<Rightarrow>
       (let source = found_source r PROVIDER_NETWORKMANAGER in
        case find (\<lambda>d. get d ''device'' = get fs ''name'') (prd_records r) of
          None \<Rightarrow> Inr ([], source ''device_not_present'' False
                         [(''devices'', ints (length (prd_records r)))])
        | Some d \<Rightarrow>
           if is_str (get d ''state'') ''unmanaged''
           then Inr ([], source ''device_unmanaged'' False [(''state'', get d ''state_raw'')])
           else if truthy (get d ''external'')
           then Inr ([], source ''device_externally_configured'' False
                  [(''state'', get d ''state_raw''), (''connection'', get d ''connection'')])
           else if \<not> is_str (get d ''state'') ''connected'' \<or> \<not> truthy (get d ''connection_uuid'')
           then Inr ([], source ''device_managed_without_active_profile'' False
                  [(''state'', get d ''state_raw'')])
           else Inr ([\<lparr>oc_relation = Configured_By,
                       oc_owner = \<lparr>oi_provider = PROVIDER_NETWORKMANAGER,
                         oi_instance = get d ''connection_uuid'', oi_label = get d ''connection'',
                         oi_version = prd_version r\<rparr>,
                       oc_confidence = OC_Confirmed, oc_reason = ''networkmanager_active_profile'',
                       oc_evidence = [\<lparr>oe_source = prd_source r, oe_kind = ''active_connection'',
                         oe_detail = [(''device'', get d ''device''),
                           (''device_type'', get d ''device_type''), (''state'', get d ''state_raw''),
                           (''connection'', get d ''connection''),
                           (''connection_uuid'', get d ''connection_uuid'')],
                         oe_observed_at = PStr (prd_observed_at r)\<rparr>]\<rparr>],
                     source ''device_actively_configured'' False
                       [(''connection'', get d ''connection''),
                        (''connection_uuid'', get d ''connection_uuid'')]))))"

section \<open>Tailscale\<close>

fun text_in :: "pyval \<Rightarrow> string list" where
  "text_in (PStr s) = [s]"
| "text_in _ = []"

definition or_val :: "pyval \<Rightarrow> pyval \<Rightarrow> pyval" where
  "or_val a b = (if truthy a then a else b)"

definition tailscale_match ::
  "provider_reading \<Rightarrow> facts \<Rightarrow> string list \<Rightarrow> string list \<Rightarrow>
   ownership_claim list \<times> consulted_source" where
  "tailscale_match r daemon daemon_addresses addresses =
     (let source = found_source r PROVIDER_TAILSCALE;
          matched = sorted_set (filter (\<lambda>a. a \<in> set addresses) daemon_addresses) in
      if matched = []
      then ([], source ''daemon_addresses_not_on_link'' False
             [(''daemon_addresses'', PList (map PStr (sorted_set daemon_addresses)))])
      else (both_relations
              \<lparr>oi_provider = PROVIDER_TAILSCALE,
               oi_instance = or_val (get daemon ''dns_name'') (get daemon ''hostname''),
               oi_label = get daemon ''hostname'', oi_version = prd_version r\<rparr>
              OC_Corroborated ''tailscale_daemon_addresses_on_link''
              \<lparr>oe_source = prd_source r, oe_kind = ''daemon_addresses_on_link'',
               oe_detail = [(''matched_addresses'', PList (map PStr matched)),
                 (''daemon_addresses'', PList (map PStr (sorted_set daemon_addresses))),
                 (''backend_state'', get daemon ''backend_state''), (''tun'', get daemon ''tun'')],
               oe_observed_at = PStr (prd_observed_at r)\<rparr>,
            source ''matched_daemon_addresses'' False
              [(''matched'', PList (map PStr matched))]))"

definition tailscale_provenance ::
  "facts \<Rightarrow> provider_evidence \<Rightarrow> py_error + ownership_claim list \<times> consulted_source" where
  "tailscale_provenance fs evidence =
     (case unusable_source PROVIDER_TAILSCALE (evidence PROVIDER_TAILSCALE) of
        Some u \<Rightarrow> Inr ([], u)
      | None \<Rightarrow>
     (case evidence PROVIDER_TAILSCALE of None \<Rightarrow> Inl (AssertionError []) | Some r \<Rightarrow>
       (let source = found_source r PROVIDER_TAILSCALE in
        case prd_records r of
          [] \<Rightarrow> Inr ([], source ''daemon_state_unreadable'' True [])
        | daemon # _ \<Rightarrow>
          (let backend_state = get daemon ''backend_state'' in
           if \<not> is_str (get fs ''kind'') KIND_TUNNEL
           then Inr ([], source ''not_a_tunnel_link'' False [(''observed_kind'', get fs ''kind'')])
           else if get daemon ''tun'' = PBool False
           then Inr ([], source ''userspace_networking'' False [(''backend_state'', backend_state)])
           else if \<not> is_str backend_state ''Running''
           then Inr ([], source ''backend_not_running'' True [(''backend_state'', backend_state)])
           else bindE (addresses_of fs) (\<lambda>addresses.
             (case addresses of
                None \<Rightarrow> Inr ([], source ''interface_addresses_unavailable'' True [])
              | Some as \<Rightarrow>
                 bindE (py_iter (or_empty (get daemon ''tailscale_ips''))) (\<lambda>ips.
                   Inr (tailscale_match r daemon (concat (map text_in ips)) as))))))))"

section \<open>Assembly\<close>

definition assemble :: "ownership_claim list \<Rightarrow> consulted_source list \<Rightarrow> provenance" where
  "assemble claims sources =
     (let pv = (\<lambda>state reason. \<lparr>pv_state = state, pv_reason = reason, pv_claims = claims,
                                pv_sources = sources\<rparr>) in
      if conflicting_relations claims \<noteq> [] then pv OS_Attributed ''conflicting_claims''
      else if list_ex (\<lambda>c. external (oc_owner c)) (claims_for Configured_By claims)
      then pv OS_Attributed ''externally_configured''
      else if list_ex (\<lambda>c. external (oc_owner c)) claims then pv OS_Attributed ''externally_created''
      else if claims \<noteq> [] then pv OS_Attributed ''host_kernel_only''
      else if filter cs_gap sources \<noteq> [] then pv OS_Unknown ''evidence_incomplete''
      else pv OS_Unknown ''no_provider_claim'')"

definition derive_provenance ::
  "(pyval \<Rightarrow> string) \<Rightarrow> facts \<Rightarrow> provider_evidence \<Rightarrow> py_error + provenance" where
  "derive_provenance render fs evidence =
     (let (kc, ks) = kernel_provenance fs in
      bindE (docker_provenance render fs evidence) (\<lambda>(dc, ds).
      bindE (networkmanager_provenance fs evidence) (\<lambda>(nc, ns).
      bindE (tailscale_provenance fs evidence) (\<lambda>(tc, ts).
        Inr (assemble ((case kc of None \<Rightarrow> [] | Some c \<Rightarrow> [c]) @ dc @ nc @ tc) [ks, ds, ns, ts])))))"

definition derive_container_provenance :: "facts \<Rightarrow> provider_evidence \<Rightarrow> provenance" where
  "derive_container_provenance fs evidence =
     (let reading = evidence PROVIDER_DOCKER; container_id = get fs ''container_id'';
          name = get fs ''name'';
          at = (case reading of None \<Rightarrow> PNone | Some r \<Rightarrow> PStr (prd_observed_at r)) in
      if \<not> nonempty_text container_id
      then \<lparr>pv_state = OS_Unknown, pv_reason = ''container_id_unreadable'', pv_claims = [],
            pv_sources = [\<lparr>cs_source = SOURCE_DOCKER_CONTAINERS, cs_provider = PROVIDER_DOCKER,
              cs_status = (case reading of None \<Rightarrow> NEVER_CONSULTED | Some r \<Rightarrow> prd_status r),
              cs_outcome = ''container_id_unreadable'', cs_gap = True, cs_observed_at = at,
              cs_detail = []\<rparr>]\<rparr>
      else
        (let owner = \<lparr>oi_provider = PROVIDER_DOCKER, oi_instance = container_id,
               oi_label = (case name of PStr s \<Rightarrow> PStr s | _ \<Rightarrow> PNone),
               oi_version = Option.bind reading prd_version\<rparr>;
             proof_at = (case reading of None \<Rightarrow> get fs ''observed_at'' | Some _ \<Rightarrow> at);
             evidence_item = \<lparr>oe_source = SOURCE_DOCKER_CONTAINERS,
               oe_kind = ''daemon_declares_container'',
               oe_detail = [(''container_id'', container_id), (''name'', name)],
               oe_observed_at = proof_at\<rparr>;
             claim = (\<lambda>rel reason. \<lparr>oc_relation = rel, oc_owner = owner,
               oc_confidence = OC_Confirmed, oc_reason = reason, oc_evidence = [evidence_item]\<rparr>) in
         \<lparr>pv_state = OS_Attributed, pv_reason = ''docker_declares_this_container'',
          pv_claims = [claim Created_By ''docker_created_this_container'',
                       claim Configured_By ''docker_holds_this_container_s_configuration''],
          pv_sources = [\<lparr>cs_source = SOURCE_DOCKER_CONTAINERS, cs_provider = PROVIDER_DOCKER,
            cs_status = STATUS_OK, cs_outcome = ''container_declared_by_daemon'', cs_gap = False,
            cs_observed_at = proof_at, cs_detail = [(''container_id'', container_id)]\<rparr>]\<rparr>))"

section \<open>What ownership means for management\<close>

record adoption_eligibility =
  ae_eligible :: bool
  ae_reason :: string
  ae_blocked_by :: "owner_identity option"
  ae_evidence_gaps :: "string list"

definition external_owner :: "provenance \<Rightarrow> string option \<Rightarrow> ownership_claim option" where
  "external_owner p ignoring =
     find (\<lambda>c. external (oc_owner c) \<and> Some (oi_provider (oc_owner c)) \<noteq> ignoring)
       (claims_for Configured_By (pv_claims p) @ claims_for Created_By (pv_claims p))"

definition ownership_block ::
  "provenance \<Rightarrow> string option \<Rightarrow> (string \<times> owner_identity option) option" where
  "ownership_block p acting_through =
     (if conflicting_relations (pv_claims p) \<noteq> []
      then Some (''conflicting_ownership_claims'', None)
      else (case external_owner p acting_through of
          None \<Rightarrow> None
        | Some c \<Rightarrow> Some (if oc_relation c = Configured_By then ''externally_configured''
                         else ''externally_created'', Some (oc_owner c))))"

definition derive_adoption_eligibility ::
  "management_state \<Rightarrow> provenance \<Rightarrow> adoption_eligibility" where
  "derive_adoption_eligibility ms p =
     (let answer = (\<lambda>e r w. \<lparr>ae_eligible = e, ae_reason = r, ae_blocked_by = w,
                              ae_evidence_gaps = gaps p\<rparr>) in
      if ms = MS_Observe_Only then answer False ''object_observe_only'' None
      else if ms = MS_Managed then answer False ''already_managed'' None
      else (case ownership_block p None of
          Some (reason, owner) \<Rightarrow> answer False reason owner
        | None \<Rightarrow> answer True ''no_external_owner_proven'' None))"

section \<open>Lemmas\<close>

lemma unusable_None:
  "unusable_source q reading = None \<longleftrightarrow>
     (case reading of None \<Rightarrow> False | Some r \<Rightarrow> prd_status r = STATUS_OK)"
  by (auto simp: unusable_source_def Let_def STATUS_OK_def STATUS_ABSENT_def split: option.splits)

lemma both_relations_sel:
  "c \<in> set (both_relations w k reason e) \<Longrightarrow>
     oc_owner c = w \<and> oc_confidence c = k \<and> oc_evidence c = [e]"
  by (auto simp: both_relations_def)

lemma kernel_claim_sel [simp]:
  "oi_provider (oc_owner (kernel_claim i r k d)) = PROVIDER_KERNEL"
  "oc_relation (kernel_claim i r k d) = Created_By"
  "oc_evidence (kernel_claim i r k d) \<noteq> []"
  by (simp_all add: kernel_claim_def)

text \<open>What has to be on record for a claim by each provider.\<close>

definition kernel_says :: "facts \<Rightarrow> bool" where
  "kernel_says fs \<longleftrightarrow> is_str (get fs ''kind'') KIND_LOOPBACK \<or>
     truthy (get fs ''is_physical'') \<and> nonempty_text (get fs ''device_path'')"

definition bridge_networks :: "provider_reading \<Rightarrow> facts list" where
  "bridge_networks r = filter (\<lambda>n. is_str (get n ''driver'') ''bridge'') (prd_records r)"

definition docker_says ::
  "(pyval \<Rightarrow> string) \<Rightarrow> facts \<Rightarrow> provider_reading \<Rightarrow> ownership_claim \<Rightarrow> bool" where
  "docker_says render fs r c \<longleftrightarrow>
     prd_status r = STATUS_OK \<and> is_str (get fs ''kind'') KIND_BRIDGE \<and>
     (\<exists>n \<in> set (bridge_networks r). get n ''network_id'' = oi_instance (oc_owner c) \<and>
       (oc_confidence c = OC_Confirmed \<and> truthy (get n ''bridge_name'') \<and>
          filter (\<lambda>m. truthy (get m ''bridge_name'') \<and> get m ''bridge_name'' = get fs ''name'')
            (bridge_networks r) = [n] \<or>
        oc_confidence c = OC_Corroborated \<and>
          (\<exists>as gs g. addresses_of fs = Inr (Some as) \<and> gateways render n = Inr gs \<and>
             g \<in> set gs \<and> g \<in> set as)))"

definition networkmanager_says :: "facts \<Rightarrow> provider_reading \<Rightarrow> ownership_claim \<Rightarrow> bool" where
  "networkmanager_says fs r c \<longleftrightarrow>
     prd_status r = STATUS_OK \<and> oc_relation c = Configured_By \<and>
     (\<exists>d \<in> set (prd_records r). get d ''device'' = get fs ''name'' \<and>
        is_str (get d ''state'') ''connected'' \<and> \<not> truthy (get d ''external'') \<and>
        truthy (get d ''connection_uuid'') \<and> get d ''connection_uuid'' = oi_instance (oc_owner c))"

definition tailscale_says :: "facts \<Rightarrow> provider_reading \<Rightarrow> bool" where
  "tailscale_says fs r \<longleftrightarrow>
     prd_status r = STATUS_OK \<and> is_str (get fs ''kind'') KIND_TUNNEL \<and>
     (\<exists>d ds as ips. prd_records r = d # ds \<and> is_str (get d ''backend_state'') ''Running'' \<and>
        get d ''tun'' \<noteq> PBool False \<and> addresses_of fs = Inr (Some as) \<and>
        py_iter (or_empty (get d ''tailscale_ips'')) = Inr ips \<and>
        (\<exists>a \<in> set as. PStr a \<in> set ips))"

definition evidenced ::
  "(pyval \<Rightarrow> string) \<Rightarrow> facts \<Rightarrow> provider_evidence \<Rightarrow> ownership_claim \<Rightarrow> bool" where
  "evidenced render fs evidence c \<longleftrightarrow> oc_evidence c \<noteq> [] \<and>
     (let q = oi_provider (oc_owner c); reading = evidence q in
      if q = PROVIDER_KERNEL then oc_relation c = Created_By \<and> kernel_says fs
      else (case reading of None \<Rightarrow> False | Some r \<Rightarrow>
        if q = PROVIDER_DOCKER then docker_says render fs r c
        else if q = PROVIDER_NETWORKMANAGER then networkmanager_says fs r c
        else q = PROVIDER_TAILSCALE \<and> tailscale_says fs r))"

lemma kernel_evidenced:
  "fst (kernel_provenance fs) = Some c \<Longrightarrow> evidenced render fs evidence c"
  by (auto simp: kernel_provenance_def Let_def evidenced_def kernel_says_def split: if_splits)

lemma mapE_in:
  "mapE f xs = Inr ys \<Longrightarrow> y \<in> set ys \<Longrightarrow> \<exists>x \<in> set xs. f x = Inr y"
proof (induction xs arbitrary: ys)
  case (Cons x xs)
  then show ?case by (auto simp: bindE_Inr)
qed simp

lemma on_link_in:
  assumes "mapE (\<lambda>n. bindE (gateways render n) (\<lambda>gs. Inr (n, gs))) networks = Inr table"
    and "(n, g) \<in> set (gateway_matches addresses table)"
  shows "n \<in> set networks \<and> g \<in> set addresses \<and> (\<exists>gs. gateways render n = Inr gs \<and> g \<in> set gs)"
proof -
  from assms(2) obtain gs where "(n, gs) \<in> set table" "g \<in> set gs" "g \<in> set addresses"
    by (auto simp: gateway_matches_def on_link_def)
  with mapE_in [OF assms(1) this(1)] show ?thesis by (auto simp: bindE_Inr)
qed

lemma docker_by_gateway_claims:
  assumes "docker_by_gateway render r networks addresses = Inr (cs, s)" and "c \<in> set cs"
  shows "\<exists>n gs g. n \<in> set networks \<and> oc_owner c = \<lparr>oi_provider = PROVIDER_DOCKER,
       oi_instance = get n ''network_id'', oi_label = get n ''name'', oi_version = prd_version r\<rparr> \<and>
     oc_confidence c = OC_Corroborated \<and> oc_evidence c \<noteq> [] \<and>
     gateways render n = Inr gs \<and> g \<in> set gs \<and> g \<in> set addresses"
proof -
  obtain table where t: "mapE (\<lambda>n. bindE (gateways render n) (\<lambda>gs. Inr (n, gs))) networks = Inr table"
    using assms(1) by (auto simp: docker_by_gateway_def bindE_Inr)
  let ?m = "gateway_matches addresses table"
  have "?m \<noteq> []" using assms t by (auto simp: docker_by_gateway_def Let_def split: if_splits)
  then obtain n g rest where m: "?m = (n, g) # rest" by (cases ?m) auto
  with assms t have "c \<in> set (both_relations \<lparr>oi_provider = PROVIDER_DOCKER,
       oi_instance = get n ''network_id'', oi_label = get n ''name'', oi_version = prd_version r\<rparr>
       OC_Corroborated ''docker_ipam_gateway_on_link'' (hd (oc_evidence c)))"
    by (auto simp: docker_by_gateway_def Let_def bindE_Inr docker_claims_def both_relations_def
        split: if_splits)
  then have c: "oc_owner c = \<lparr>oi_provider = PROVIDER_DOCKER, oi_instance = get n ''network_id'',
       oi_label = get n ''name'', oi_version = prd_version r\<rparr>" "oc_confidence c = OC_Corroborated"
    "oc_evidence c \<noteq> []"
    using both_relations_sel by (blast, blast, fastforce)
  have "(n, g) \<in> set ?m" using m by simp
  from on_link_in [OF t this] c show ?thesis by blast
qed

lemma docker_evidenced:
  assumes "docker_provenance render fs evidence = Inr (cs, s)" and "c \<in> set cs"
  shows "evidenced render fs evidence c"
proof -
  from assms obtain r where r: "evidence PROVIDER_DOCKER = Some r" "prd_status r = STATUS_OK"
    using unusable_None [of PROVIDER_DOCKER "evidence PROVIDER_DOCKER"]
    by (auto simp: docker_provenance_def split: option.splits)
  have nu: "unusable_source PROVIDER_DOCKER (Some r) = None"
    using r(2) by (simp add: unusable_None)
  let ?named = "filter (\<lambda>n. truthy (get n ''bridge_name'') \<and> get n ''bridge_name'' = get fs ''name'')
    (bridge_networks r)"
  obtain addrs where a: "addresses_of fs = Inr addrs"
    using assms(1) r nu by (auto simp: docker_provenance_def Let_def bindE_Inr)
  have docker: "oi_provider (oc_owner c) = PROVIDER_DOCKER \<Longrightarrow> docker_says render fs r c \<Longrightarrow>
      oc_evidence c \<noteq> [] \<Longrightarrow> evidenced render fs evidence c"
    using r by (simp add: evidenced_def Let_def PROVIDER_DOCKER_def PROVIDER_KERNEL_def)
  show ?thesis
  proof (cases ?named)
    case (Cons n ns)
    with assms r nu a have ns: "ns = []" and k: "is_str (get fs ''kind'') KIND_BRIDGE"
      and c: "oi_provider (oc_owner c) = PROVIDER_DOCKER" "oi_instance (oc_owner c) = get n ''network_id''"
        "oc_confidence c = OC_Confirmed" "oc_evidence c \<noteq> []"
      by (auto simp: docker_provenance_def Let_def bridge_networks_def docker_claims_def
          both_relations_def split: if_splits)
    have "n \<in> set ?named" using Cons by simp
    then have "n \<in> set (bridge_networks r)" "truthy (get n ''bridge_name'')" by auto
    with Cons ns k c r(2) have "docker_says render fs r c"
      unfolding docker_says_def by (intro conjI bexI [of _ n]) auto
    with docker c show ?thesis by blast
  next
    case Nil
    with assms r nu a obtain as where k: "is_str (get fs ''kind'') KIND_BRIDGE" "addrs = Some as"
      and g: "docker_by_gateway render r (bridge_networks r) as = Inr (cs, s)"
      by (auto simp: docker_provenance_def Let_def bridge_networks_def split: if_splits option.splits)
    from docker_by_gateway_claims [OF g assms(2)] k a r(2)
    have "docker_says render fs r c" "oi_provider (oc_owner c) = PROVIDER_DOCKER" "oc_evidence c \<noteq> []"
      by (auto simp: docker_says_def)
    with docker show ?thesis by blast
  qed
qed

lemma networkmanager_evidenced:
  assumes "networkmanager_provenance fs evidence = Inr (cs, s)" and "c \<in> set cs"
  shows "evidenced render fs evidence c"
proof -
  from assms obtain r d where r: "evidence PROVIDER_NETWORKMANAGER = Some r" "prd_status r = STATUS_OK"
    and d: "find (\<lambda>d. get d ''device'' = get fs ''name'') (prd_records r) = Some d"
    using unusable_None [of PROVIDER_NETWORKMANAGER "evidence PROVIDER_NETWORKMANAGER"]
    by (auto simp: networkmanager_provenance_def Let_def split: option.splits)
  with assms have "oi_provider (oc_owner c) = PROVIDER_NETWORKMANAGER" "networkmanager_says fs r c"
    "oc_evidence c \<noteq> []"
    using find_Some_in [OF d]
    by (auto simp: networkmanager_provenance_def Let_def networkmanager_says_def
        split: option.splits if_splits)
  with r(1) show ?thesis by (simp add: evidenced_def Let_def provider_defs)
qed

lemma tailscale_match_claims:
  assumes "c \<in> set (fst (tailscale_match r d das as))"
  shows "oi_provider (oc_owner c) = PROVIDER_TAILSCALE \<and> oc_evidence c \<noteq> [] \<and>
     (\<exists>a \<in> set as. a \<in> set das)"
  using assms both_relations_sel
  by (fastforce simp: tailscale_match_def Let_def filter_empty_conv split: if_splits)

lemma text_in_PStr: "a \<in> set (text_in v) \<longleftrightarrow> v = PStr a"
  by (cases v) auto

lemma tailscale_evidenced:
  assumes "tailscale_provenance fs evidence = Inr (cs, s)" and "c \<in> set cs"
  shows "evidenced render fs evidence c"
proof -
  from assms obtain r d ds as ips where r: "evidence PROVIDER_TAILSCALE = Some r"
    "prd_status r = STATUS_OK" "prd_records r = d # ds" "is_str (get fs ''kind'') KIND_TUNNEL"
    "get d ''tun'' \<noteq> PBool False" "is_str (get d ''backend_state'') ''Running''"
    "addresses_of fs = Inr (Some as)" "py_iter (or_empty (get d ''tailscale_ips'')) = Inr ips"
    and cs: "c \<in> set (fst (tailscale_match r d (concat (map text_in ips)) as))"
    using unusable_None [of PROVIDER_TAILSCALE "evidence PROVIDER_TAILSCALE"]
    by (auto simp: tailscale_provenance_def Let_def bindE_Inr split: option.splits list.splits if_splits)
  from tailscale_match_claims [OF cs] have c: "oi_provider (oc_owner c) = PROVIDER_TAILSCALE"
    "oc_evidence c \<noteq> []" and "\<exists>a \<in> set as. PStr a \<in> set ips"
    by (auto simp: text_in_PStr)
  with r have "tailscale_says fs r" by (auto simp: tailscale_says_def)
  with r(1) c show ?thesis by (simp add: evidenced_def Let_def provider_defs)
qed

lemmas claims_evidenced =
  kernel_evidenced docker_evidenced networkmanager_evidenced tailscale_evidenced

lemma derive_provenance_parts:
  assumes "derive_provenance render fs evidence = Inr p"
  obtains ds ns ts dc nc tc where
    "docker_provenance render fs evidence = Inr (dc, ds)"
    "networkmanager_provenance fs evidence = Inr (nc, ns)"
    "tailscale_provenance fs evidence = Inr (tc, ts)"
    "p = assemble ((case fst (kernel_provenance fs) of None \<Rightarrow> [] | Some c \<Rightarrow> [c]) @ dc @ nc @ tc)
           [snd (kernel_provenance fs), ds, ns, ts]"
  using assms by (auto simp: derive_provenance_def bindE_Inr split: prod.splits)

lemma assemble_sel [simp]:
  "pv_claims (assemble cs ss) = cs" "pv_sources (assemble cs ss) = ss"
  by (simp_all add: assemble_def Let_def)

lemma conflicting_empty [simp]: "conflicting_relations [] = []"
  by (simp add: conflicting_relations_def claims_for_def)

lemma external_owner_None:
  "external_owner p q = None \<longleftrightarrow>
     filter (\<lambda>c. external (oc_owner c) \<and> Some (oi_provider (oc_owner c)) \<noteq> q) (pv_claims p) = []"
proof -
  have "oc_relation c = Configured_By \<or> oc_relation c = Created_By" for c :: ownership_claim
    by (cases "oc_relation c") simp_all
  then show ?thesis
    by (auto simp: external_owner_def find_None_all claims_for_def filter_empty_conv)
qed

section \<open>Properties\<close>

text \<open>C39. Ownership is never guessed: whatever the facts and the providers' readings are, every
  claim the derivation makes carries evidence and rests on it. The kernel claims only a
  loopback device or a link with a device node; Docker only a link the kernel reports as a
  bridge, either named by exactly one bridge network or carrying the gateway of the network
  claimed; NetworkManager only configuration, for a connected device with an active profile
  that is not external; Tailscale only a tunnel carrying an address of a running daemon; and
  all but the kernel only through a reading whose status is ok.\<close>

theorem claims_rest_on_evidence:
  "case derive_provenance render fs evidence of Inl _ \<Rightarrow> True
   | Inr p \<Rightarrow> list_all (evidenced render fs evidence) (pv_claims p)"
proof (cases "derive_provenance render fs evidence")
  case (Inr p)
  from derive_provenance_parts [OF Inr] show ?thesis
  proof cases
    case (1 ds ns ts dc nc tc)
    with Inr show ?thesis
      using kernel_evidenced [of fs _ render evidence] docker_evidenced [OF 1(1)]
        networkmanager_evidenced [OF 1(2)] tailscale_evidenced [OF 1(3)]
      by (auto simp: list_all_iff split: option.splits)
  qed
qed simp

text \<open>Adoption is offered exactly for an observed object no other system is proven to run: it
  needs the state observed, no two providers claiming one relation, and no claim whose owner is
  external (one that is neither the kernel nor LocalPlane); a claim of configuration is
  reported before one of creation, and the open questions travel with the answer unchanged.\<close>

theorem adoption_eligible_iff:
  "(ae_eligible (derive_adoption_eligibility ms p) \<longleftrightarrow>
     ms = MS_Observed \<and> conflicting_relations (pv_claims p) = [] \<and>
     filter (\<lambda>c. external (oc_owner c)) (pv_claims p) = []) \<and>
   ae_evidence_gaps (derive_adoption_eligibility ms p) = gaps p \<and>
   (ae_reason (derive_adoption_eligibility ms p) = ''externally_configured'' \<longleftrightarrow>
     ms = MS_Observed \<and> conflicting_relations (pv_claims p) = [] \<and>
     filter (\<lambda>c. external (oc_owner c)) (claims_for Configured_By (pv_claims p)) \<noteq> [])"
proof (intro conjI)
  show "ae_eligible (derive_adoption_eligibility ms p) \<longleftrightarrow>
     ms = MS_Observed \<and> conflicting_relations (pv_claims p) = [] \<and>
     filter (\<lambda>c. external (oc_owner c)) (pv_claims p) = []"
    using external_owner_None [of p None]
    by (cases ms) (auto simp: derive_adoption_eligibility_def ownership_block_def Let_def
        split: option.splits)
  show "ae_evidence_gaps (derive_adoption_eligibility ms p) = gaps p"
    by (auto simp: derive_adoption_eligibility_def Let_def split: option.splits)
  have first: "(case external_owner p None of None \<Rightarrow> False | Some c \<Rightarrow> oc_relation c = Configured_By) \<longleftrightarrow>
     filter (\<lambda>c. external (oc_owner c)) (claims_for Configured_By (pv_claims p)) \<noteq> []"
  proof -
    let ?P = "\<lambda>c. external (oc_owner c)"
    let ?A = "claims_for Configured_By (pv_claims p)" and ?B = "claims_for Created_By (pv_claims p)"
    have app: "find ?P (xs @ ys) = (case find ?P xs of None \<Rightarrow> find ?P ys | Some c \<Rightarrow> Some c)"
      for xs ys :: "ownership_claim list"
      by (induction xs) auto
    have A: "find ?P ?A = Some c \<Longrightarrow> oc_relation c = Configured_By \<and> filter ?P ?A \<noteq> []" for c
      using find_Some_in [of ?P ?A c] by (auto simp: claims_for_def filter_empty_conv)
    have B: "find ?P ?B = Some c \<Longrightarrow> oc_relation c = Created_By" for c
      using find_Some_in [of ?P ?B c] by (auto simp: claims_for_def)
    have N: "find ?P ?A = None \<longleftrightarrow> filter ?P ?A = []"
      by (simp add: find_None_all filter_empty_conv)
    show ?thesis
      using A B N by (auto simp: external_owner_def app split: option.splits)
  qed
  show "ae_reason (derive_adoption_eligibility ms p) = ''externally_configured'' \<longleftrightarrow>
     ms = MS_Observed \<and> conflicting_relations (pv_claims p) = [] \<and>
     filter (\<lambda>c. external (oc_owner c)) (claims_for Configured_By (pv_claims p)) \<noteq> []"
    unfolding first [symmetric]
    by (cases ms) (auto simp: derive_adoption_eligibility_def ownership_block_def Let_def
        split: option.splits)
qed

text \<open>A container the daemon declared can be operated through Docker and never adopted: when
  its identifier is readable, acting through Docker meets no ownership block while acting
  through any other provider, or through none, is refused in Docker's name, and adoption is
  not offered in any management state; when it is not readable, nothing is claimed and the
  question is reported as open.\<close>

theorem container_acted_on_only_through_docker:
  "if nonempty_text (get fs ''container_id'')
   then ownership_block (derive_container_provenance fs evidence) (Some ''docker'') = None \<and>
     (q \<noteq> Some ''docker'' \<longleftrightarrow>
        ownership_block (derive_container_provenance fs evidence) q \<noteq> None) \<and>
     \<not> ae_eligible (derive_adoption_eligibility ms (derive_container_provenance fs evidence))
   else pv_claims (derive_container_provenance fs evidence) = [] \<and>
     gaps (derive_container_provenance fs evidence) = [''docker.containers'']"
proof (cases "nonempty_text (get fs ''container_id'')")
  case True
  then show ?thesis
    by (auto simp: derive_container_provenance_def ownership_block_def external_owner_def Let_def
        claims_for_def conflicting_relations_def external_def provider_defs
        derive_adoption_eligibility_def)
next
  case False
  then show ?thesis
    by (simp add: derive_container_provenance_def Let_def gaps_def SOURCE_DOCKER_CONTAINERS_def)
qed

end
