(* ===== verification/Changes.thy ===== *)
theory Changes
  imports Prelude
begin

text \<open>
  The vocabulary of the write boundary: \<open>src/localplane/backend/domain/changes.py\<close>. What
  became of a mutation, what a record may claim about the host, what an interrupted change means
  on restart, what a recovery attempt ends as; and the documents exchanged with the component
  that carries a mutation out. The engine that uses them is in \<open>Change_Engine\<close>.
\<close>

section \<open>Outcomes\<close>

datatype mutation_outcome = MO_Not_Written | MO_Written | MO_Write_Unknown

datatype host_effect = HE_None | HE_Written | HE_Write_Unknown

fun host_effect_for :: "mutation_outcome \<Rightarrow> host_effect" where
  "host_effect_for MO_Not_Written = HE_None"
| "host_effect_for MO_Written = HE_Written"
| "host_effect_for MO_Write_Unknown = HE_Write_Unknown"

definition outcome_on_recovery :: "bool \<Rightarrow> mutation_outcome option \<Rightarrow> mutation_outcome" where
  "outcome_on_recovery dispatch_began recorded =
     (case recorded of
        Some r \<Rightarrow> r
      | None \<Rightarrow> if dispatch_began then MO_Write_Unknown else MO_Not_Written)"

datatype verification_outcome =
    VO_Not_Attempted | VO_Verified | VO_Mismatch | VO_Value_Unreadable
  | VO_Observation_Unavailable | VO_Source_Incompatible | VO_Target_Absent

definition vo_proved :: "verification_outcome \<Rightarrow> bool" where
  "vo_proved v \<longleftrightarrow> v = VO_Verified"

datatype change_result =
  CR_In_Flight | CR_Succeeded | CR_Failed | CR_Rolled_Back | CR_Recovery_Required

datatype recovery_reason =
    RR_Apply_Write_Unknown | RR_Apply_Interrupted_After_Write
  | RR_Rollback_Write_Unknown | RR_Rollback_Not_Dispatched | RR_Rollback_Refused
  | RR_Rollback_Verification_Failed | RR_Rollback_Verification_Unavailable
  | RR_Pre_Rollback_Read_Unavailable | RR_Target_Absent_After_Mutation
  | RR_Action_Not_Proven | RR_Action_Verification_Unavailable
  | RR_Guard_Reversal_Unproven | RR_Guard_Lost | RR_Guard_Unreachable
  | RR_Guard_Released_Without_Recorded_Proof

datatype recovery_action_kind = RK_Retry | RK_Resolve

datatype recovery_attempt_outcome =
    RAO_In_Flight | RAO_Proven | RAO_Verified | RAO_Not_Written | RAO_Write_Unknown
  | RAO_Not_Proven | RAO_Refused | RAO_Interrupted | RAO_Resolved

definition rao_settled :: "recovery_attempt_outcome \<Rightarrow> bool" where
  "rao_settled r \<longleftrightarrow> r \<noteq> RAO_In_Flight"

definition RELEASES_HOLD :: "recovery_attempt_outcome list" where
  "RELEASES_HOLD = [RAO_Proven, RAO_Verified, RAO_Resolved]"

definition rao_releases_hold :: "recovery_attempt_outcome \<Rightarrow> bool" where
  "rao_releases_hold r \<longleftrightarrow> r \<in> set RELEASES_HOLD"

datatype recovery_hold_state = RH_Not_Required | RH_Unresolved | RH_Resolved

definition recovery_outcome_for ::
  "mutation_outcome \<Rightarrow> verification_outcome \<Rightarrow> recovery_attempt_outcome" where
  "recovery_outcome_for mutation verification =
     (if mutation = MO_Not_Written then RAO_Not_Written
      else if mutation = MO_Write_Unknown then RAO_Write_Unknown
      else if vo_proved verification then RAO_Verified else RAO_Not_Proven)"

section \<open>The transcript's vocabulary\<close>

datatype run_event =
    Ev_Run_Planned | Ev_Run_Cancelled
  | Ev_Confirmation_Satisfied | Ev_Confirmation_Required | Ev_Confirmation_Consumed
  | Ev_Apply_Refused
  | Ev_Arming_Started | Ev_Checkpoint_Written | Ev_Arming_Failed
  | Ev_Target_Correlated | Ev_Target_Correlation_Failed
  | Ev_Write_Boundary_Crossed | Ev_Mutation_Dispatched | Ev_Mutation_Result
  | Ev_Verification_Started | Ev_Verification_Result
  | Ev_Rollback_Started | Ev_Rollback_Mutation_Dispatched | Ev_Rollback_Mutation_Result
  | Ev_Rollback_Verification_Started | Ev_Rollback_Verification_Result
  | Ev_Guard_Armed | Ev_Guard_Arming_Failed | Ev_Guard_Hold_Started
  | Ev_Guard_Connection_Proved | Ev_Guard_Keep_Refused | Ev_Guard_Settled
  | Ev_Recovery_Required | Ev_Run_Finished
  | Ev_Recovery_Retry_Started | Ev_Recovery_Evidence_Result
  | Ev_Recovery_Confirmation_Satisfied | Ev_Recovery_Confirmation_Consumed
  | Ev_Recovery_Mutation_Dispatched | Ev_Recovery_Mutation_Result
  | Ev_Recovery_Verification_Result | Ev_Recovery_Retry_Finished
  | Ev_Recovery_Resolved | Ev_Recovery_Hold_Released

text \<open>The two shapes of a change, and the aspect an action holds its lock on.\<close>

definition CHANGE_KIND_FIELD :: string where "CHANGE_KIND_FIELD = ''field''"
definition CHANGE_KIND_ACTION :: string where "CHANGE_KIND_ACTION = ''action''"
definition ACTION_LOCK_ASPECT :: string where "ACTION_LOCK_ASPECT = ''lifecycle''"

section \<open>Documents exchanged with an executor\<close>

record mutation_request =
  mr_kind :: string
  mr_attempt_id :: string
  mr_correlation :: facts
  mr_expected_current :: "ivalue option"
  mr_desired :: "ivalue option"
  mr_action :: "string option"

record expectation =
  ex_kind :: string
  ex_correlation :: facts
  ex_field :: "string option"
  ex_value_type :: "string option"
  ex_value :: "ivalue option"
  ex_state :: "string option"

record proof_of_state =
  pos_outcome :: verification_outcome
  pos_value :: "ivalue option"
  pos_state :: "string option"
  pos_reason :: "string option"

record mutation_report =
  rep_outcome :: mutation_outcome
  rep_reason :: string
  rep_attempt_id :: string
  rep_provider :: "string option"
  rep_provider_version :: "string option"
  rep_method :: "string option"
  rep_detail :: facts

record execution_refused =
  xr_code :: string
  xr_detail :: facts

section \<open>Lemmas\<close>

lemma outcome_on_recovery_simps [simp]:
  "outcome_on_recovery d (Some r) = r"
  "outcome_on_recovery True None = MO_Write_Unknown"
  "outcome_on_recovery False None = MO_Not_Written"
  by (simp_all add: outcome_on_recovery_def)

lemma host_effect_injective: "host_effect_for a = host_effect_for b \<longleftrightarrow> a = b"
  by (cases a; cases b) simp_all

lemma host_effect_onto: "\<exists>m. host_effect_for m = e"
  by (cases e) (metis host_effect_for.simps)+

text \<open>
  Settling an interrupted change twice is settling it once: what recovery concludes, once it is
  recorded, is what recovery concludes.
\<close>

lemma recovery_idempotent:
  "outcome_on_recovery d' (Some (outcome_on_recovery d r)) = outcome_on_recovery d r"
  by simp

lemma releases_hold_iff:
  "rao_releases_hold r \<longleftrightarrow> r = RAO_Proven \<or> r = RAO_Verified \<or> r = RAO_Resolved"
  by (auto simp: rao_releases_hold_def RELEASES_HOLD_def)

lemma recovery_outcome_settled: "rao_settled (recovery_outcome_for m v)"
  by (simp add: rao_settled_def recovery_outcome_for_def)

lemma recovery_outcome_releases:
  "rao_releases_hold (recovery_outcome_for m v) \<longleftrightarrow> m = MO_Written \<and> v = VO_Verified"
  by (cases m) (auto simp: releases_hold_iff recovery_outcome_for_def vo_proved_def)

end
