(* ===== verification/Guard_Model.thy ===== *)
theory Guard_Model
  imports Changes
begin

text \<open>
  The connection guard's vocabulary: \<open>src/localplane/backend/domain/guard.py\<close>. What a guard
  is asked to hold, what its holder reports, and what a settled guard means for the run that
  armed it (\<open>settle\<close>). The registry that holds guards on the host is in \<open>Host_Guard\<close>.
\<close>

datatype guard_phase = GP_Arming | GP_Armed | GP_Disarmed | GP_Fired | GP_Lost | GP_Unreachable

definition LIVE_GUARD_PHASES :: "guard_phase list" where
  "LIVE_GUARD_PHASES = [GP_Arming, GP_Armed]"

definition SETTLED_GUARD_PHASES :: "guard_phase list" where
  "SETTLED_GUARD_PHASES = [GP_Disarmed, GP_Fired, GP_Lost, GP_Unreachable]"

datatype guard_availability = GA_Available | GA_Unavailable

datatype guard_prerequisite =
    Operation_Is_Reversible | Target_Is_Proven_Management_Path | Recovery_Material_Is_Armed
  | Guard_Capability_Declared | Host_Side_Guard_Accepted

record guard_plan =
  gpl_availability :: guard_availability
  gpl_reason :: string
  gpl_window_s :: int
  gpl_prerequisites :: "guard_prerequisite list"
  gpl_unmet :: "guard_prerequisite list"
  gpl_guarantee :: string

definition guard_available :: "guard_plan \<Rightarrow> bool" where
  "guard_available p \<longleftrightarrow> gpl_availability p = GA_Available"

definition GUARD_AVAILABLE :: string where "GUARD_AVAILABLE = ''guarded_execution_available''"
definition GUARD_NOT_REQUIRED :: string where "GUARD_NOT_REQUIRED = ''guard_not_required''"
definition GUARD_OPERATION_NOT_REVERSIBLE :: string where
  "GUARD_OPERATION_NOT_REVERSIBLE = ''operation_has_no_unattended_reversal''"
definition GUARD_CAPABILITY_UNDECLARED :: string where
  "GUARD_CAPABILITY_UNDECLARED = ''guard_capability_undeclared''"
definition GUARD_TARGET_UNPROVEN :: string where
  "GUARD_TARGET_UNPROVEN = ''management_path_unproven''"

lemmas guard_code_defs = GUARD_AVAILABLE_def GUARD_NOT_REQUIRED_def
  GUARD_OPERATION_NOT_REVERSIBLE_def GUARD_CAPABILITY_UNDECLARED_def GUARD_TARGET_UNPROVEN_def

record guard_request =
  grq_guard_id :: string
  grq_attempt_id :: string
  grq_correlation :: facts
  grq_guarded_value :: ivalue
  grq_restore_value :: ivalue
  grq_window_s :: int

record guard_armed =
  gar_holder_id :: string
  gar_expires_at :: string
  gar_detail :: facts

record guard_refused =
  grf_code :: string
  grf_detail :: facts

record guard_report =
  grp_phase :: guard_phase
  grp_holder_id :: "string option"
  grp_fired_at :: "string option"
  grp_mutation :: "mutation_report option"
  grp_reason :: "string option"
  grp_detail :: facts

definition grp_settled :: "guard_report \<Rightarrow> bool" where
  "grp_settled r \<longleftrightarrow> grp_phase r \<in> set SETTLED_GUARD_PHASES"

definition grp_reverted :: "guard_report \<Rightarrow> bool" where
  "grp_reverted r \<longleftrightarrow>
     grp_phase r = GP_Fired \<and>
     (case grp_mutation r of None \<Rightarrow> False | Some m \<Rightarrow> rep_outcome m = MO_Written)"

datatype guard_settlement =
  GS_Kept | GS_Reverted | GS_Reversal_Unproven | GS_Guard_Lost | GS_Guard_Unreachable

definition settle :: "guard_report \<Rightarrow> bool \<Rightarrow> guard_settlement" where
  "settle report reversal_proved =
     (if grp_phase report = GP_Disarmed then GS_Kept
      else if grp_phase report = GP_Fired
      then (if grp_reverted report \<and> reversal_proved then GS_Reverted else GS_Reversal_Unproven)
      else if grp_phase report = GP_Lost then GS_Guard_Lost
      else GS_Guard_Unreachable)"

section \<open>Lemmas\<close>

lemma phases_partition:
  "p \<in> set LIVE_GUARD_PHASES \<longleftrightarrow> p \<notin> set SETTLED_GUARD_PHASES"
  by (cases p) (simp_all add: LIVE_GUARD_PHASES_def SETTLED_GUARD_PHASES_def)

lemma grp_settled_iff: "grp_settled r \<longleftrightarrow> grp_phase r \<noteq> GP_Arming \<and> grp_phase r \<noteq> GP_Armed"
  by (cases "grp_phase r") (simp_all add: grp_settled_def SETTLED_GUARD_PHASES_def)

lemma settle_iff:
  "settle r p = GS_Kept \<longleftrightarrow> grp_phase r = GP_Disarmed"
  "settle r p = GS_Reverted \<longleftrightarrow> grp_reverted r \<and> p"
  "settle r p = GS_Reversal_Unproven \<longleftrightarrow> grp_phase r = GP_Fired \<and> \<not> (grp_reverted r \<and> p)"
  "settle r p = GS_Guard_Lost \<longleftrightarrow> grp_phase r = GP_Lost"
  "settle r p = GS_Guard_Unreachable \<longleftrightarrow> grp_phase r \<in> {GP_Unreachable, GP_Arming, GP_Armed}"
  by (cases "grp_phase r"; auto simp: settle_def grp_reverted_def split: option.splits)+

end
