(* ===== verification/Runs_Model.thy ===== *)
theory Runs_Model
  imports Intent Guard_Model Self_Impact Provenance
begin

text \<open>
  Runs and their plans: \<open>src/localplane/backend/domain/runs.py\<close>. The run lifecycle's
  vocabulary, everything a published plan consists of, the canonical document a plan is
  identified by, and the comparison of a published plan with what planning would give now.
  The properties say what a plan's identity does and does not depend on, and that a stale
  plan is always reported with a reason.

  A document's text is \<open>json.dumps\<close> with sorted keys; \<open>digest\<close>, a parameter, is that text
  hashed with SHA-256, applied to the document with its keys sorted (\<open>canon\<close>).
\<close>

section \<open>The run lifecycle\<close>

datatype run_state =
    RS_Draft | RS_Preview | RS_Awaiting_Confirmation | RS_Arming | RS_Applying | RS_Verifying
  | RS_Guarded | RS_Succeeded | RS_Failed | RS_Rolling_Back | RS_Rollback_Verifying
  | RS_Rolled_Back | RS_Recovery_Required | RS_Cancelled

definition REACHABLE_RUN_STATES :: "run_state list" where
  "REACHABLE_RUN_STATES = [RS_Preview, RS_Awaiting_Confirmation, RS_Arming, RS_Applying,
     RS_Verifying, RS_Guarded, RS_Succeeded, RS_Failed, RS_Rolling_Back, RS_Rollback_Verifying,
     RS_Rolled_Back, RS_Recovery_Required, RS_Cancelled]"

definition TERMINAL_RUN_STATES :: "run_state list" where
  "TERMINAL_RUN_STATES = [RS_Succeeded, RS_Failed, RS_Rolled_Back, RS_Recovery_Required,
     RS_Cancelled]"

datatype operation_type =
    Network_Interface_Reconcile_Mtu
  | Docker_Container_Start | Docker_Container_Stop | Docker_Container_Restart
  | Systemd_Service_Start | Systemd_Service_Stop | Systemd_Service_Restart

fun op_str :: "operation_type \<Rightarrow> string" where
  "op_str Network_Interface_Reconcile_Mtu = ''network.interface.reconcile_mtu''"
| "op_str Docker_Container_Start = ''docker.container.start''"
| "op_str Docker_Container_Stop = ''docker.container.stop''"
| "op_str Docker_Container_Restart = ''docker.container.restart''"
| "op_str Systemd_Service_Start = ''systemd.service.start''"
| "op_str Systemd_Service_Stop = ''systemd.service.stop''"
| "op_str Systemd_Service_Restart = ''systemd.service.restart''"

datatype risk_tier = Low | Medium | High

fun risk_str :: "risk_tier \<Rightarrow> string" where
  "risk_str Low = ''low''" | "risk_str Medium = ''medium''" | "risk_str High = ''high''"

fun RISK_ORDER :: "risk_tier \<Rightarrow> nat" where
  "RISK_ORDER Low = 0" | "RISK_ORDER Medium = 1" | "RISK_ORDER High = 2"

instantiation risk_tier :: linorder
begin

definition less_eq_risk_tier :: "risk_tier \<Rightarrow> risk_tier \<Rightarrow> bool" where
  "less_eq_risk_tier a b \<longleftrightarrow> RISK_ORDER a \<le> RISK_ORDER b"

definition less_risk_tier :: "risk_tier \<Rightarrow> risk_tier \<Rightarrow> bool" where
  "less_risk_tier a b \<longleftrightarrow> RISK_ORDER a < RISK_ORDER b"

instance
proof
  fix a b c :: risk_tier
  show "a < b \<longleftrightarrow> a \<le> b \<and> \<not> b \<le> a" by (auto simp: less_eq_risk_tier_def less_risk_tier_def)
  show "a \<le> a" by (simp add: less_eq_risk_tier_def)
  show "a \<le> b \<Longrightarrow> b \<le> c \<Longrightarrow> a \<le> c" by (simp add: less_eq_risk_tier_def)
  show "a \<le> b \<Longrightarrow> b \<le> a \<Longrightarrow> a = b" by (cases a; cases b) (simp_all add: less_eq_risk_tier_def)
  show "a \<le> b \<or> b \<le> a" by (auto simp: less_eq_risk_tier_def)
qed

end

datatype confirmation_method = CM_None | CM_Acknowledge | CM_Typed | CM_Policy

fun cm_str :: "confirmation_method \<Rightarrow> string" where
  "cm_str CM_None = ''none''" | "cm_str CM_Acknowledge = ''acknowledge''"
| "cm_str CM_Typed = ''typed''" | "cm_str CM_Policy = ''policy''"

datatype execution_availability = XA_Available | XA_Unavailable | XA_Not_Implemented

fun xa_str :: "execution_availability \<Rightarrow> string" where
  "xa_str XA_Available = ''available''" | "xa_str XA_Unavailable = ''unavailable''"
| "xa_str XA_Not_Implemented = ''not_implemented''"

datatype execution_eligibility = XE_Eligible | XE_Guarded | XE_Self_Impact_Override_Required | XE_Blocked

fun xe_str :: "execution_eligibility \<Rightarrow> string" where
  "xe_str XE_Eligible = ''eligible''" | "xe_str XE_Guarded = ''guarded''"
| "xe_str XE_Self_Impact_Override_Required = ''self_impact_override_required''"
| "xe_str XE_Blocked = ''blocked''"

datatype recovery_mode = RM_Auto | RM_Operator | RM_None

fun rm_str :: "recovery_mode \<Rightarrow> string" where
  "rm_str RM_Auto = ''auto''" | "rm_str RM_Operator = ''operator''" | "rm_str RM_None = ''none''"

datatype plan_validity_state = PV_Current | PV_Stale

section \<open>What a plan consists of\<close>

record planned_field_change =
  pfc_field :: string
  pfc_value_type :: value_type
  pfc_current :: ivalue
  pfc_desired :: ivalue

definition field_expected_after :: "planned_field_change \<Rightarrow> ivalue" where
  "field_expected_after c = pfc_desired c"

record planned_action =
  pac_action :: string
  pac_observed_state :: string
  pac_expected_state :: string

definition action_expected_after :: "planned_action \<Rightarrow> string" where
  "action_expected_after c = pac_expected_state c"

datatype planned_change = Field_Change planned_field_change | Action_Change planned_action

record published_claim =
  pcl_relation :: string
  pcl_provider :: string
  pcl_instance :: "string option"
  pcl_label :: "string option"
  pcl_confidence :: string
  pcl_external :: bool

record ownership_assessment =
  oas_state :: string
  oas_reason :: string
  oas_claims :: "published_claim list"
  oas_gaps :: "string list"
  oas_readings :: "(string \<times> string option) list"

record risk_factor =
  rf_code :: string
  rf_floor :: risk_tier
  rf_detail :: string

record risk_assessment =
  rsk_tier :: risk_tier
  rsk_factors :: "risk_factor list"

record confirmation_requirement =
  crq_required :: bool
  crq_method :: confirmation_method
  crq_source :: string
  crq_reasons :: "string list"
  crq_policy :: string
  crq_token_issued :: bool
  crq_satisfiable :: bool
  crq_unsatisfiable_reason :: "string option"

record execution_assessment =
  xas_availability :: execution_availability
  xas_eligibility :: execution_eligibility
  xas_blockers :: "string list"
  xas_provider :: "string option"
  xas_required_capability :: string
  xas_capability_declared_by_agent :: bool

record recovery_plan =
  rpl_mode :: recovery_mode
  rpl_rollback_possible :: bool
  rpl_armed :: bool
  rpl_guarantee :: string
  rpl_reason :: string

record verification_plan =
  vpl_executed :: bool
  vpl_capability :: string
  vpl_provider :: string
  vpl_condition :: string

record plan_evidence =
  pev_observation_id :: string
  pev_sweep_id :: string
  pev_observed_at :: string
  pev_drift_finding_id :: "string option"
  pev_intent_id :: "string option"
  pev_intent_version :: "int option"
  pev_intent_capability :: "string option"
  pev_intent_provider :: "string option"

record run_plan =
  rp_operation :: operation_type
  rp_host_id :: string
  rp_object_id :: string
  rp_change :: planned_change
  rp_evidence :: plan_evidence
  rp_ownership :: ownership_assessment
  rp_protection :: protection_assessment
  rp_risk :: risk_assessment
  rp_confirmation :: confirmation_requirement
  rp_execution :: execution_assessment
  rp_guard :: guard_plan
  rp_recovery :: recovery_plan
  rp_verification :: verification_plan
  rp_authorization :: "authorization_assessment option"
  rp_lifecycle_context :: "systemd_lifecycle_context option"
  rp_self_impact :: "backend_self_impact_assessment option"

record plan_refused =
  prf_code :: string
  prf_detail :: facts

section \<open>The canonical document\<close>

definition PLAN_DIGEST_VERSION :: nat where "PLAN_DIGEST_VERSION = 6"
definition LEGACY_DIGEST_VERSION :: nat where "LEGACY_DIGEST_VERSION = 1"

fun rel_str :: "management_path_relation \<Rightarrow> string" where
  "rel_str On_Management_Path = ''on_management_path''"
| "rel_str Not_On_Management_Path = ''not_on_management_path''"
| "rel_str Relation_Unknown = ''unknown''"

fun gp_str :: "guard_prerequisite \<Rightarrow> string" where
  "gp_str Operation_Is_Reversible = ''operation_is_reversible''"
| "gp_str Target_Is_Proven_Management_Path = ''target_is_proven_management_path''"
| "gp_str Recovery_Material_Is_Armed = ''recovery_material_is_armed''"
| "gp_str Guard_Capability_Declared = ''guard_capability_declared''"
| "gp_str Host_Side_Guard_Accepted = ''host_side_guard_accepted''"

fun ga_str :: "guard_availability \<Rightarrow> string" where
  "ga_str GA_Available = ''available''" | "ga_str GA_Unavailable = ''unavailable''"

definition opt_int :: "int option \<Rightarrow> pyval" where
  "opt_int v = (case v of None \<Rightarrow> PNone | Some i \<Rightarrow> PInt i)"

definition canonical_change :: "planned_change \<Rightarrow> facts" where
  "canonical_change c = (case c of
     Action_Change a \<Rightarrow> [(''kind'', PStr ''action''), (''action'', PStr (pac_action a)),
       (''observed_state'', PStr (pac_observed_state a)),
       (''expected_state'', PStr (pac_expected_state a))]
   | Field_Change f \<Rightarrow> [(''kind'', PStr ''field''), (''field'', PStr (pfc_field f)),
       (''value_type'', PStr (vt_str (pfc_value_type f))),
       (''current'', to_pyval (pfc_current f)), (''desired'', to_pyval (pfc_desired f))])"

definition claim_key :: "published_claim \<Rightarrow> string list" where
  "claim_key c = [pcl_relation c, pcl_provider c,
     (case pcl_instance c of None \<Rightarrow> [] | Some s \<Rightarrow> s)]"

definition claim_doc :: "published_claim \<Rightarrow> pyval" where
  "claim_doc c = PDict [(''relation'', PStr (pcl_relation c)), (''provider'', PStr (pcl_provider c)),
     (''instance'', opt_text (pcl_instance c)), (''label'', opt_text (pcl_label c)),
     (''confidence'', PStr (pcl_confidence c)), (''external'', PBool (pcl_external c))]"

definition assessed_doc :: "reason_assessment \<Rightarrow> pyval" where
  "assessed_doc e = PDict [(''reason'', PStr (pr_str (ra_reason e))),
     (''status'', PStr (ps_str (ra_status e))), (''detail'', PStr (ra_detail e)),
     (''evidence'', PDict (ra_evidence e)),
     (''missing_evidence'', texts (sort (ra_missing_evidence e)))]"

definition canonical_protection :: "protection_assessment \<Rightarrow> nat \<Rightarrow> facts" where
  "canonical_protection p version =
     [(''management_path'', PStr (rel_str (pa_management_path p))),
      (''reason'', PStr (pa_reason p)),
      (''missing_evidence'', texts (sort (pa_missing_evidence p)))] @
     (if version \<ge> 2 then
       [(''status'', PStr (ps_str (pa_status p))),
        (''reasons'', texts (sort (map pr_str (pa_reasons p)))),
        (''unresolved'', texts (sort (map pr_str (pa_unresolved p))))] else []) @
     (if version \<ge> 4 then
       [(''assessed'', PList (map assessed_doc (sort_key (\<lambda>e. pr_str (ra_reason e)) (pa_assessed p))))]
      else [])"

definition canonical_guard :: "guard_plan \<Rightarrow> facts" where
  "canonical_guard g =
     [(''availability'', PStr (ga_str (gpl_availability g))), (''reason'', PStr (gpl_reason g)),
      (''window_s'', PInt (gpl_window_s g)),
      (''prerequisites'', texts (sort (map gp_str (gpl_prerequisites g)))),
      (''unmet'', texts (sort (map gp_str (gpl_unmet g))))]"

definition APPLICABILITY_FACTS :: "string list" where
  "APPLICABILITY_FACTS = [''canonical_id'', ''unit_type'', ''load_state'', ''active_state'',
     ''sub_state'', ''unit_file_state'', ''can_start'', ''can_stop'', ''refuse_manual_start'',
     ''refuse_manual_stop'', ''need_daemon_reload'', ''transient'', ''current_job'',
     ''invocation_id'']"

definition edge_key :: "effect_edge \<Rightarrow> string list" where
  "edge_key e = [ee_source e, ee_relation e, ee_target e]"

text \<open>\<open>{**d, k: v}\<close> for a key the dictionary has: the value is replaced in place.\<close>

definition replace_key :: "string \<Rightarrow> pyval \<Rightarrow> facts \<Rightarrow> facts" where
  "replace_key k v d = map (\<lambda>(k', x). (k', if k' = k then v else x)) d"

definition canonical_lifecycle_context :: "systemd_lifecycle_context option \<Rightarrow> nat \<Rightarrow> pyval" where
  "canonical_lifecycle_context context version =
     (case context of None \<Rightarrow> PNone | Some c \<Rightarrow>
       (let d = cx_target_facts c; service = as_dict (get d ''service'') in
        PDict ([(''status'', PStr (cx_status c)), (''target_unit'', PStr (cx_target_unit c)),
          (''action'', PStr (sa_str (cx_action c))),
          (''target_facts'', PDict (map (\<lambda>k. (k, get d k)) APPLICABILITY_FACTS @
             [(''service'', PDict [(''type'', get service ''type''),
                (''remain_after_exit'', get service ''remain_after_exit'')])])),
          (''effect_units'', texts (sort (cx_effect_units c))),
          (''effect_edges'', PList (map (\<lambda>e. PDict (edge_as_dict e))
             (sort_key edge_key (cx_effect_edges c)))),
          (''effect_complete'', PBool (cx_effect_complete c)),
          (''active_activation_sources'', texts (sort (cx_active_activation_sources c))),
          (''active_upholding_sources'', texts (sort (cx_active_upholding_sources c))),
          (''management_units'', texts (sort (cx_management_units c))),
          (''management_complete'', PBool (cx_management_complete c)),
          (''agent_unit'', opt_text (cx_agent_unit c)),
          (''agent_complete'', PBool (cx_agent_complete c)),
          (''gaps'', texts (sort (cx_gaps c)))] @
         (if version \<ge> 5 then
           [(''runtime_owner'', (case cx_runtime_owner c of None \<Rightarrow> PNone
              | Some r \<Rightarrow> PDict (replace_key ''gaps'' (texts (sort (roc_gaps r))) (owner_as_dict r))))]
          else []) @
         (if version \<ge> 6 then
           [(''connection_unit'', opt_text (cx_connection_unit c)),
            (''connection_unit_type'', opt_text (cx_connection_unit_type c)),
            (''agent_unit_type'', opt_text (cx_agent_unit_type c))]
          else []))))"

definition authorization_as_dict :: "authorization_assessment \<Rightarrow> facts" where
  "authorization_as_dict a =
     [(''state'', PStr ''not_preflighted''), (''exact'', PBool (aut_exact a)),
      (''authority'', PStr (aut_authority a)), (''decision_point'', PStr (aut_decision_point a)),
      (''action_id'', PStr (aut_action_id a)),
      (''canonical_target'', PStr (aut_canonical_target a)),
      (''verb'', PStr (sa_str (aut_verb a))), (''reason'', PStr (aut_reason a))]"

definition factor_doc :: "risk_factor \<Rightarrow> pyval" where
  "factor_doc f = PDict [(''code'', PStr (rf_code f)), (''floor'', PStr (risk_str (rf_floor f)))]"

definition canonical_plan :: "run_plan \<Rightarrow> nat \<Rightarrow> facts" where
  "canonical_plan p version =
     (let e = rp_evidence p; w = rp_ownership p; k = rp_confirmation p; x = rp_execution p;
          r = rp_recovery p; v = rp_verification p in
      [(''digest_version'', PInt (int version)),
       (''operation'', PStr (op_str (rp_operation p))),
       (''target'', PDict [(''host_id'', PStr (rp_host_id p)), (''object_id'', PStr (rp_object_id p))]),
       (''change'', PDict (canonical_change (rp_change p))),
       (''intent'', PDict [(''intent_id'', opt_text (pev_intent_id e)),
          (''version'', opt_int (pev_intent_version e)),
          (''capability'', opt_text (pev_intent_capability e)),
          (''provider'', opt_text (pev_intent_provider e))]),
       (''ownership'', PDict [(''state'', PStr (oas_state w)), (''reason'', PStr (oas_reason w)),
          (''claims'', PList (map claim_doc (sort_key claim_key (oas_claims w)))),
          (''gaps'', texts (sort (oas_gaps w)))]),
       (''protection'', PDict (canonical_protection (rp_protection p) version)),
       (''risk'', PDict [(''tier'', PStr (risk_str (rsk_tier (rp_risk p)))),
          (''factors'', PList (map factor_doc (sort_key rf_code (rsk_factors (rp_risk p)))))]),
       (''confirmation'', PDict [(''required'', PBool (crq_required k)),
          (''method'', PStr (cm_str (crq_method k))), (''source'', PStr (crq_source k)),
          (''reasons'', texts (sort (crq_reasons k))),
          (''token_issued'', PBool (crq_token_issued k))]),
       (''execution'', PDict [(''availability'', PStr (xa_str (xas_availability x))),
          (''eligibility'', PStr (xe_str (xas_eligibility x))),
          (''blockers'', texts (sort (xas_blockers x))),
          (''provider'', opt_text (xas_provider x)),
          (''required_capability'', PStr (xas_required_capability x)),
          (''capability_declared_by_agent'', PBool (xas_capability_declared_by_agent x))]),
       (''recovery'', PDict [(''mode'', PStr (rm_str (rpl_mode r))),
          (''rollback_possible'', PBool (rpl_rollback_possible r)),
          (''armed'', PBool (rpl_armed r))]),
       (''verification'', PDict [(''capability'', PStr (vpl_capability v)),
          (''provider'', PStr (vpl_provider v)), (''condition'', PStr (vpl_condition v)),
          (''executed'', PBool (vpl_executed v))])] @
      (if version \<ge> 3 then [(''guard'', PDict (canonical_guard (rp_guard p)))] else []) @
      (if version \<ge> 4 then
        [(''authorization'', (case rp_authorization p of None \<Rightarrow> PNone
            | Some a \<Rightarrow> PDict (authorization_as_dict a))),
         (''lifecycle_context'', canonical_lifecycle_context (rp_lifecycle_context p) version)]
       else []) @
      (if version \<ge> 6 then
        [(''self_impact'', (case rp_self_impact p of None \<Rightarrow> PNone
            | Some a \<Rightarrow> PDict (replace_key ''reasons'' (texts (sort (si_reasons a))) (si_as_dict a))))]
       else []))"

section \<open>Identity and validity\<close>

text \<open>
  The document with the keys of every dictionary sorted, as it is serialised; and Python's
  equality of documents, which ignores the order of keys and reads \<open>True\<close> as \<open>1\<close>.
\<close>

primrec canon :: "pyval \<Rightarrow> pyval" where
  "canon PNone = PNone"
| "canon (PBool b) = PBool b"
| "canon (PInt i) = PInt i"
| "canon (PStr s) = PStr s"
| "canon (PList xs) = PList (map canon xs)"
| "canon (PDict d) = PDict (sort_key fst (map (map_prod id canon) d))"
| "canon (POther n) = POther n"

primrec normal :: "pyval \<Rightarrow> pyval" where
  "normal PNone = PNone"
| "normal (PBool b) = PInt (if b then 1 else 0)"
| "normal (PInt i) = PInt i"
| "normal (PStr s) = PStr s"
| "normal (PList xs) = PList (map normal xs)"
| "normal (PDict d) = PDict (sort_key fst (map (map_prod id normal) d))"
| "normal (POther n) = POther n"

definition py_eq :: "pyval \<Rightarrow> pyval \<Rightarrow> bool" where
  "py_eq a b \<longleftrightarrow> normal a = normal b"

definition plan_digest :: "(pyval \<Rightarrow> 'd) \<Rightarrow> run_plan \<Rightarrow> nat \<Rightarrow> 'd" where
  "plan_digest digest p version = digest (canon (PDict (canonical_plan p version)))"

record validity_reason =
  vr_code :: string
  vr_detail :: facts

record plan_validity =
  pva_state :: plan_validity_state
  pva_reasons :: "validity_reason list"

definition SECTION_REASONS :: "(string \<times> string) list" where
  "SECTION_REASONS =
     [(''change'', ''planned_values_changed''), (''intent'', ''intent_replaced''),
      (''ownership'', ''ownership_changed''), (''protection'', ''protection_changed''),
      (''authorization'', ''authorization_changed''),
      (''lifecycle_context'', ''lifecycle_context_changed''),
      (''self_impact'', ''self_impact_changed''), (''risk'', ''risk_changed''),
      (''confirmation'', ''confirmation_changed''), (''execution'', ''execution_changed''),
      (''guard'', ''guard_changed''), (''recovery'', ''recovery_changed''),
      (''verification'', ''verification_changed''), (''target'', ''target_changed''),
      (''operation'', ''operation_changed'')]"

definition section_moved :: "facts \<Rightarrow> facts \<Rightarrow> string \<Rightarrow> bool" where
  "section_moved was now sec \<longleftrightarrow> map_of was sec \<noteq> None \<and> \<not> py_eq (get was sec) (get now sec)"

text \<open>\<open>shown\<close> is the published digest as text, for the detail of the last reason.\<close>

definition assess_validity ::
  "(pyval \<Rightarrow> 'd) \<Rightarrow> ('d \<Rightarrow> string) \<Rightarrow> run_plan \<Rightarrow> 'd \<Rightarrow> plan_refused + run_plan \<Rightarrow> nat \<Rightarrow>
   plan_validity" where
  "assess_validity digest shown published published_digest replanned version =
     (case replanned of
        Inl r \<Rightarrow> \<lparr>pva_state = PV_Stale,
                 pva_reasons = [\<lparr>vr_code = prf_code r, vr_detail = prf_detail r\<rparr>]\<rparr>
      | Inr q \<Rightarrow>
         (let current = plan_digest digest q version in
          if current = published_digest then \<lparr>pva_state = PV_Current, pva_reasons = []\<rparr>
          else
           (let was = canonical_plan published version; now = canonical_plan q version;
                reasons = map (\<lambda>(sec, code). \<lparr>vr_code = code,
                     vr_detail = [(''was'', get was sec), (''now'', get now sec)]\<rparr>)
                   (filter (\<lambda>(sec, _). section_moved was now sec) SECTION_REASONS) in
            \<lparr>pva_state = PV_Stale,
             pva_reasons = (if reasons = []
               then [\<lparr>vr_code = ''plan_digest_changed'',
                      vr_detail = [(''published'', PStr (shown published_digest)),
                                   (''current'', PStr (shown current))]\<rparr>]
               else reasons)\<rparr>)))"

section \<open>Lemmas\<close>

lemma terminal_reachable: "set TERMINAL_RUN_STATES \<subseteq> set REACHABLE_RUN_STATES"
  by (simp add: TERMINAL_RUN_STATES_def REACHABLE_RUN_STATES_def)

lemma reachable_all_but_draft: "s \<in> set REACHABLE_RUN_STATES \<longleftrightarrow> s \<noteq> RS_Draft"
  by (cases s) (simp_all add: REACHABLE_RUN_STATES_def)

lemma opt_text_inject [simp]: "opt_text a = opt_text b \<longleftrightarrow> a = b"
  by (cases a; cases b) simp_all

lemma texts_inject [simp]: "texts a = texts b \<longleftrightarrow> a = b"
  by (auto simp: texts_def inj_map_eq_map inj_def)

lemma canon_texts [simp]: "canon (texts xs) = texts xs"
  by (simp add: texts_def)

lemma canon_opt_text [simp]: "canon (opt_text v) = opt_text v"
  by (cases v) simp_all

lemma canon_to_pyval [simp]: "canon (to_pyval v) = to_pyval v"
  by (cases v) simp_all

lemma to_pyval_inject [simp]: "to_pyval a = to_pyval b \<longleftrightarrow> a = b"
  by (cases a; cases b) simp_all

lemma op_str_inject [simp]: "op_str a = op_str b \<longleftrightarrow> a = b"
  by (cases a; cases b; simp)

lemma xe_str_inject [simp]: "xe_str a = xe_str b \<longleftrightarrow> a = b"
  by (cases a; cases b; simp)

lemma ps_str_inject [simp]: "ps_str a = ps_str b \<longleftrightarrow> a = b"
  by (cases a; cases b; simp)

lemma cm_str_inject [simp]: "cm_str a = cm_str b \<longleftrightarrow> a = b"
  by (cases a; cases b; simp)

lemma vt_str_inject [simp]: "vt_str a = vt_str b \<longleftrightarrow> a = b"
  by (cases a; cases b; simp)

lemma map_of_sorted:
  assumes "distinct (map fst d)"
  shows "map_of (sort_key fst d) k = map_of d k"
proof -
  have "distinct (map fst (sort_key fst d))"
    using assms by (simp add: distinct_map)
  then show ?thesis
    using assms map_of_eq_Some_iff [of "sort_key fst d" k] map_of_eq_Some_iff [of d k]
    by (metis not_None_eq set_sort)
qed

lemma map_of_map_prod: "map_of (map (map_prod id f) d) k = map_option f (map_of d k)"
  by (induction d) auto

lemma get_canon_dict:
  assumes "distinct (map fst d)"
  shows "(case canon (PDict d) of PDict d' \<Rightarrow> get d' k | _ \<Rightarrow> PNone) = canon (get d k)"
proof -
  have "map fst (map (map_prod id canon) d) = map fst d" by (induction d) auto
  then show ?thesis
    using assms map_of_sorted [of "map (map_prod id canon) d" k]
    by (simp add: get_def map_of_map_prod split: option.splits)
qed

text \<open>Equal canonical dictionaries agree, canonically, under every key.\<close>

lemma canon_get:
  assumes "canon (PDict a) = canon (PDict b)" "distinct (map fst a)" "distinct (map fst b)"
  shows "canon (get a k) = canon (get b k)"
  using assms get_canon_dict [of a k] get_canon_dict [of b k] by simp

text \<open>The keys of the canonical document, and its sections.\<close>

lemma plan_key_list:
  "map fst (canonical_plan p v) =
     [''digest_version'', ''operation'', ''target'', ''change'', ''intent'', ''ownership'',
      ''protection'', ''risk'', ''confirmation'', ''execution'', ''recovery'', ''verification''] @
     (if v \<ge> 3 then [''guard''] else []) @
     (if v \<ge> 4 then [''authorization'', ''lifecycle_context''] else []) @
     (if v \<ge> 6 then [''self_impact''] else [])"
  by (simp add: canonical_plan_def Let_def if_distrib cong: if_cong)

lemma plan_keys: "distinct (map fst (canonical_plan p v))"
  by (simp add: plan_key_list)

lemma plan_sections:
  "get (canonical_plan p v) ''operation'' = PStr (op_str (rp_operation p))"
  "get (canonical_plan p v) ''target'' = PDict [(''host_id'', PStr (rp_host_id p)),
     (''object_id'', PStr (rp_object_id p))]"
  "get (canonical_plan p v) ''change'' = PDict (canonical_change (rp_change p))"
  "get (canonical_plan p v) ''protection'' = PDict (canonical_protection (rp_protection p) v)"
  "get (canonical_plan p v) ''confirmation'' = PDict
     [(''required'', PBool (crq_required (rp_confirmation p))),
      (''method'', PStr (cm_str (crq_method (rp_confirmation p)))),
      (''source'', PStr (crq_source (rp_confirmation p))),
      (''reasons'', texts (sort (crq_reasons (rp_confirmation p)))),
      (''token_issued'', PBool (crq_token_issued (rp_confirmation p)))]"
  "get (canonical_plan p v) ''execution'' = PDict
     [(''availability'', PStr (xa_str (xas_availability (rp_execution p)))),
      (''eligibility'', PStr (xe_str (xas_eligibility (rp_execution p)))),
      (''blockers'', texts (sort (xas_blockers (rp_execution p)))),
      (''provider'', opt_text (xas_provider (rp_execution p))),
      (''required_capability'', PStr (xas_required_capability (rp_execution p))),
      (''capability_declared_by_agent'', PBool (xas_capability_declared_by_agent (rp_execution p)))]"
  by (simp_all add: canonical_plan_def Let_def)

lemma sub_get:
  assumes "canon (PDict a) = canon (PDict b)" "distinct (map fst a)" "map fst a = map fst b"
  shows "canon (get a k) = canon (get b k)"
  using assms canon_get by metis

lemma change_bound:
  assumes "canon (PDict (canonical_change a)) = canon (PDict (canonical_change b))"
  shows "a = b"
proof -
  have d: "distinct (map fst (canonical_change c))" for c
    by (simp add: canonical_change_def split: planned_change.splits)
  note eq = canon_get [OF assms d d]
  show ?thesis
  proof (cases a)
    case (Field_Change f)
    with eq [of "''kind''"] obtain g where g: "b = Field_Change g"
      by (cases b) (auto simp: canonical_change_def)
    with Field_Change eq [of "''field''"] eq [of "''value_type''"] eq [of "''current''"]
      eq [of "''desired''"]
    show ?thesis by (cases f; cases g) (simp add: canonical_change_def)
  next
    case (Action_Change f)
    with eq [of "''kind''"] obtain g where g: "b = Action_Change g"
      by (cases b) (auto simp: canonical_change_def)
    with Action_Change eq [of "''action''"] eq [of "''observed_state''"] eq [of "''expected_state''"]
    show ?thesis by (cases f; cases g) (simp add: canonical_change_def)
  qed
qed

lemma protection_status_bound:
  assumes "canon (PDict (canonical_protection a 6)) = canon (PDict (canonical_protection b 6))"
  shows "pa_status a = pa_status b"
proof -
  have d: "distinct (map fst (canonical_protection c 6))" for c
    by (simp add: canonical_protection_def)
  from canon_get [OF assms d d, of "''status''"] show ?thesis
    by (simp add: canonical_protection_def)
qed

lemma section_codes: "distinct (map snd SECTION_REASONS)" "''plan_digest_changed'' \<notin> set (map snd SECTION_REASONS)"
  by (simp_all add: SECTION_REASONS_def)

lemma section_of_code:
  "(a, c) \<in> set SECTION_REASONS \<Longrightarrow> (b, c) \<in> set SECTION_REASONS \<Longrightarrow> a = b"
  using section_codes(1) by (metis distinct_map inj_onD snd_conv prod.inject)

lemma snd_filter: "c \<in> snd ` set (filter (\<lambda>(a, _). P a) xs) \<longleftrightarrow> (\<exists>a. (a, c) \<in> set xs \<and> P a)"
  by force

lemma in_snd: "(a, c) \<in> set xs \<Longrightarrow> c \<in> set (map snd xs)"
  by force

lemma named_iff:
  assumes "cs = (if f = [] then [d] else map snd f)" "c \<noteq> d" "c \<in> snd ` set f \<longleftrightarrow> P"
  shows "c \<in> set cs \<longleftrightarrow> P"
  using assms by (cases "f = []") auto

lemma assess_validity_Inr:
  assumes "plan_digest digest q v \<noteq> pd"
  shows "pva_state (assess_validity digest shown p pd (Inr q) v) = PV_Stale"
    "pva_reasons (assess_validity digest shown p pd (Inr q) v) \<noteq> []"
    "map vr_code (pva_reasons (assess_validity digest shown p pd (Inr q) v)) =
       (let moved = filter (\<lambda>(sec, _). section_moved (canonical_plan p v) (canonical_plan q v) sec)
              SECTION_REASONS
        in if moved = [] then [''plan_digest_changed''] else map snd moved)"
  using assms by (simp_all add: assess_validity_def Let_def o_def case_prod_unfold)

section \<open>Properties\<close>

text \<open>C32. The identity of a published plan binds what an operator decides about: with a digest
  that does not collide, two plans with the same current-version digest are the same operation
  on the same host and object with the same change, are executable by the same path with the
  same blockers, carry the same protection status and ask for the same confirmation.\<close>

theorem digest_binds_the_decision:
  assumes "inj digest"
    and "plan_digest digest p PLAN_DIGEST_VERSION = plan_digest digest q PLAN_DIGEST_VERSION"
  shows "rp_operation p = rp_operation q \<and> rp_host_id p = rp_host_id q \<and>
     rp_object_id p = rp_object_id q \<and> rp_change p = rp_change q \<and>
     xas_eligibility (rp_execution p) = xas_eligibility (rp_execution q) \<and>
     sort (xas_blockers (rp_execution p)) = sort (xas_blockers (rp_execution q)) \<and>
     pa_status (rp_protection p) = pa_status (rp_protection q) \<and>
     crq_required (rp_confirmation p) = crq_required (rp_confirmation q) \<and>
     crq_method (rp_confirmation p) = crq_method (rp_confirmation q)"
proof -
  from assms have "canon (PDict (canonical_plan p 6)) = canon (PDict (canonical_plan q 6))"
    by (simp add: plan_digest_def PLAN_DIGEST_VERSION_def inj_eq)
  note eq = canon_get [OF this plan_keys plan_keys]
  have op: "rp_operation p = rp_operation q"
    using eq [of "''operation''"] by (simp add: plan_sections)
  have "rp_change p = rp_change q"
    by (rule change_bound) (use eq [of "''change''"] in \<open>simp only: plan_sections\<close>)
  moreover have "pa_status (rp_protection p) = pa_status (rp_protection q)"
    by (rule protection_status_bound) (use eq [of "''protection''"] in \<open>simp only: plan_sections\<close>)
  moreover note op
  moreover have "canon (get [(''host_id'', PStr (rp_host_id p)), (''object_id'', PStr (rp_object_id p))] k) =
    canon (get [(''host_id'', PStr (rp_host_id q)), (''object_id'', PStr (rp_object_id q))] k)" for k
    by (rule canon_get) (use eq [of "''target''"] in \<open>simp_all only: plan_sections\<close>, simp_all)
  from this [of "''host_id''"] this [of "''object_id''"]
  have "rp_host_id p = rp_host_id q" "rp_object_id p = rp_object_id q" by simp_all
  moreover have "canon (get (as_dict (get (canonical_plan p 6) s)) k) =
      canon (get (as_dict (get (canonical_plan q 6) s)) k)"
    if "s = ''confirmation'' \<or> s = ''execution''" for s k
    using that eq [of s]
    by (elim disjE; hypsubst; simp only: plan_sections as_dict.simps; intro canon_get; simp)
  from this [of "''confirmation''" "''required''"] this [of "''confirmation''" "''method''"]
    this [of "''execution''" "''eligibility''"] this [of "''execution''" "''blockers''"]
  have "crq_required (rp_confirmation p) = crq_required (rp_confirmation q)"
    "crq_method (rp_confirmation p) = crq_method (rp_confirmation q)"
    "xas_eligibility (rp_execution p) = xas_eligibility (rp_execution q)"
    "sort (xas_blockers (rp_execution p)) = sort (xas_blockers (rp_execution q))"
    by (simp_all add: plan_sections)
  ultimately show ?thesis by blast
qed

text \<open>The identity does not move when only the records behind a plan do: whatever
  observation, sweep, instant and drift finding it cites, whichever readings its ownership was
  assessed from, whatever evidence record its protection names and however its prose is worded,
  the digest is the same under every version.\<close>

theorem digest_ignores_the_records:
  "plan_digest digest
     (p\<lparr>rp_evidence := (rp_evidence p)\<lparr>pev_observation_id := ob, pev_sweep_id := sw,
          pev_observed_at := at, pev_drift_finding_id := dr\<rparr>,
        rp_ownership := (rp_ownership p)\<lparr>oas_readings := rs\<rparr>,
        rp_recovery := (rp_recovery p)\<lparr>rpl_guarantee := gu, rpl_reason := re\<rparr>,
        rp_guard := (rp_guard p)\<lparr>gpl_guarantee := gg\<rparr>,
        rp_risk := (rp_risk p)\<lparr>rsk_factors := map (\<lambda>f. f\<lparr>rf_detail := de\<rparr>) (rsk_factors (rp_risk p))\<rparr>\<rparr>)
     version = plan_digest digest p version"
proof -
  have ins: "insort_key rf_code (f\<lparr>rf_detail := de\<rparr>) (map (\<lambda>f. f\<lparr>rf_detail := de\<rparr>) ys) =
      map (\<lambda>f. f\<lparr>rf_detail := de\<rparr>) (insort_key rf_code f ys)" for f and ys :: "risk_factor list"
    by (induction ys) simp_all
  have srt: "sort_key rf_code (map (\<lambda>f. f\<lparr>rf_detail := de\<rparr>) xs) =
      map (\<lambda>f. f\<lparr>rf_detail := de\<rparr>) (sort_key rf_code xs)" for xs :: "risk_factor list"
    by (induction xs) (simp_all add: ins)
  have factors: "map factor_doc (sort_key rf_code (map (\<lambda>f. f\<lparr>rf_detail := de\<rparr>) xs)) =
      map factor_doc (sort_key rf_code xs)" for xs
    by (simp add: srt factor_doc_def)
  show ?thesis
    by (simp add: plan_digest_def canonical_plan_def Let_def canonical_guard_def factors)
qed


section \<open>A plan\<close>

definition sample_protection :: protection_assessment where
  "sample_protection = \<lparr>pa_status = PS_Clear, pa_reasons = [], pa_unresolved = [], pa_assessed = [],
     pa_management_path = Not_On_Management_Path, pa_reason = ''not_the_management_path'',
     pa_missing_evidence = []\<rparr>"

definition sample_plan :: run_plan where
  "sample_plan = \<lparr>rp_operation = Network_Interface_Reconcile_Mtu, rp_host_id = ''h'',
     rp_object_id = ''eth1'',
     rp_change = Field_Change \<lparr>pfc_field = ''mtu'', pfc_value_type = VT_Integer,
       pfc_current = VInt 1400, pfc_desired = VInt 1500\<rparr>,
     rp_evidence = \<lparr>pev_observation_id = ''o1'', pev_sweep_id = ''s1'', pev_observed_at = ''t1'',
       pev_drift_finding_id = Some ''f1'', pev_intent_id = Some ''i1'', pev_intent_version = Some 1,
       pev_intent_capability = None, pev_intent_provider = None\<rparr>,
     rp_ownership = \<lparr>oas_state = ''attributed'', oas_reason = ''host_kernel_only'', oas_claims = [],
       oas_gaps = [], oas_readings = []\<rparr>,
     rp_protection = sample_protection,
     rp_risk = \<lparr>rsk_tier = Low, rsk_factors = []\<rparr>,
     rp_confirmation = \<lparr>crq_required = False, crq_method = CM_None, crq_source = ''policy'',
       crq_reasons = [], crq_policy = [], crq_token_issued = False, crq_satisfiable = True,
       crq_unsatisfiable_reason = None\<rparr>,
     rp_execution = \<lparr>xas_availability = XA_Available, xas_eligibility = XE_Eligible,
       xas_blockers = [], xas_provider = Some ''localplane-helper'',
       xas_required_capability = ''network.interface.mtu.write'',
       xas_capability_declared_by_agent = True\<rparr>,
     rp_guard = \<lparr>gpl_availability = GA_Unavailable, gpl_reason = GUARD_NOT_REQUIRED,
       gpl_window_s = 120, gpl_prerequisites = [], gpl_unmet = [], gpl_guarantee = []\<rparr>,
     rp_recovery = \<lparr>rpl_mode = RM_Auto, rpl_rollback_possible = True, rpl_armed = False,
       rpl_guarantee = [], rpl_reason = []\<rparr>,
     rp_verification = \<lparr>vpl_executed = False, vpl_capability = ''network.observe'',
       vpl_provider = ''linux-network'', vpl_condition = ''mtu == 1500''\<rparr>,
     rp_authorization = None, rp_lifecycle_context = None, rp_self_impact = None\<rparr>"

definition later_plan :: run_plan where
  "later_plan = sample_plan\<lparr>rp_evidence := (rp_evidence sample_plan)\<lparr>pev_observation_id := ''o2'',
     pev_observed_at := ''t2''\<rparr>\<rparr>"

theorem digest_binds_the_decision_witness:
  "rp_evidence sample_plan \<noteq> rp_evidence later_plan \<and> rp_change sample_plan = rp_change later_plan"
proof -
  have "plan_digest id sample_plan PLAN_DIGEST_VERSION = plan_digest id later_plan PLAN_DIGEST_VERSION"
    by (simp add: plan_digest_def later_plan_def canonical_plan_def Let_def)
  from digest_binds_the_decision [OF inj_on_id this]
  show ?thesis by (simp add: later_plan_def sample_plan_def)
qed

end
