(* ===== verification/Policy.thy ===== *)
theory Policy
  imports Runs_Model
begin

text \<open>
  The one place that decides what may be executed: \<open>src/localplane/backend/domain/policy.py\<close>.
  What an operation declares about itself, and the judgements the policy makes from it and the
  evidence: ownership, protection, the connection guard, risk, confirmation and execution. The
  properties characterise each path to execution by the blockers that stand in the way.

  Prose shown to an operator is written out; a character outside Latin-1 is its UTF-8 bytes.
\<close>

definition em_dash :: string where "em_dash = [CHR 0xE2, CHR 0x80, CHR 0x94]"

definition CONFIRMATION_POLICY :: string where
  "CONFIRMATION_POLICY = ''required for medium and high risk, for anything that can remove the management path, and for anything that cannot be undone''"
definition CONFIRM_FROM_RISK :: risk_tier where "CONFIRM_FROM_RISK = Medium"
definition MANAGEMENT_PATH_TARGET_RISK :: risk_tier where "MANAGEMENT_PATH_TARGET_RISK = High"
definition GUARD_WINDOW_S :: int where "GUARD_WINDOW_S = 120"
definition MANAGEMENT_PATH_UNPROVEN_RISK :: risk_tier where "MANAGEMENT_PATH_UNPROVEN_RISK = Medium"

lemmas policy_risk_defs = CONFIRM_FROM_RISK_def MANAGEMENT_PATH_TARGET_RISK_def
  MANAGEMENT_PATH_UNPROVEN_RISK_def

record operation_definition =
  od_operation :: string
  od_summary :: string
  od_target_kind :: string
  od_base_risk :: risk_tier
  od_destructive :: bool
  od_can_affect_management_path :: bool
  od_recovery_mode :: recovery_mode
  od_rollback_possible :: bool
  od_required_capability :: string
  od_protection_uses_resource_relation :: bool
  od_guarded_execution :: bool
  od_acts_through_provider :: "string option"
  od_confirmation_requested :: bool
  od_confirmation_reason :: "string option"
  od_verification_condition :: string
  od_execution_note :: string
  od_extra_risk_factors :: "risk_factor list"

section \<open>Ownership and protection\<close>

definition ownership_gate ::
  "operation_definition \<Rightarrow> provenance \<Rightarrow> string option \<times> owner_identity option" where
  "ownership_gate d p =
     (case ownership_block p (od_acts_through_provider d) of
        Some (reason, owner) \<Rightarrow> (Some reason, owner)
      | None \<Rightarrow> (None, None))"

definition assess_protection ::
  "operation_definition \<Rightarrow> management_path_verdict \<Rightarrow> string \<Rightarrow> py_error + protection_assessment" where
  "assess_protection d management_path resource_id =
     assess_resource_protection management_path resource_id (od_can_affect_management_path d)"

section \<open>The guard\<close>

definition GUARD_PREREQUISITES :: "guard_prerequisite list" where
  "GUARD_PREREQUISITES = [Operation_Is_Reversible, Target_Is_Proven_Management_Path,
     Guard_Capability_Declared, Recovery_Material_Is_Armed, Host_Side_Guard_Accepted]"

definition GUARD_GUARANTEE :: string where
  "GUARD_GUARANTEE = ''a reversal to the value below, held by the agent on this host with a 120s deadline, dispatched with no further request from anybody if nothing proves within that window that this console can still be reached over this object''"

definition guard_plan_of ::
  "guard_availability \<Rightarrow> string \<Rightarrow> guard_prerequisite list \<Rightarrow> guard_plan" where
  "guard_plan_of availability reason unmet =
     \<lparr>gpl_availability = availability, gpl_reason = reason, gpl_window_s = GUARD_WINDOW_S,
      gpl_prerequisites = GUARD_PREREQUISITES, gpl_unmet = unmet, gpl_guarantee = GUARD_GUARANTEE\<rparr>"

definition assess_guard ::
  "operation_definition \<Rightarrow> protection_assessment \<Rightarrow> bool \<Rightarrow> guard_plan" where
  "assess_guard d protection guard_capability_declared =
     (let refuse = guard_plan_of GA_Unavailable;
          reversible = (od_guarded_execution d \<and> od_rollback_possible d \<and> od_recovery_mode d = RM_Auto) in
      if \<not> od_can_affect_management_path d \<or> pa_management_path protection = Not_On_Management_Path
      then refuse GUARD_NOT_REQUIRED []
      else if \<not> reversible then refuse GUARD_OPERATION_NOT_REVERSIBLE [Operation_Is_Reversible]
      else if pa_management_path protection \<noteq> On_Management_Path
      then refuse GUARD_TARGET_UNPROVEN [Target_Is_Proven_Management_Path]
      else if \<not> guard_capability_declared
      then refuse GUARD_CAPABILITY_UNDECLARED [Guard_Capability_Declared]
      else guard_plan_of GA_Available GUARD_AVAILABLE [])"

section \<open>Risk\<close>

definition factor :: "string \<Rightarrow> risk_tier \<Rightarrow> string \<Rightarrow> risk_factor" where
  "factor code floor detail = \<lparr>rf_code = code, rf_floor = floor, rf_detail = detail\<rparr>"

fun join_with :: "string \<Rightarrow> string list \<Rightarrow> string" where
  "join_with sep [] = []"
| "join_with sep [x] = x"
| "join_with sep (x # y # xs) = x @ sep @ join_with sep (y # xs)"

definition ownership_factors :: "string option \<Rightarrow> string list \<Rightarrow> risk_factor list" where
  "ownership_factors block_reason gs =
     (case block_reason of
        None \<Rightarrow> []
      | Some r \<Rightarrow>
         if r = ''conflicting_ownership_claims''
         then [factor ''conflicting_ownership_claims'' High
                 ''two systems claim the same relation to this object, so LocalPlane cannot say which of them a write would be fighting'']
         else [factor r High
                 ''another system is demonstrably running this object; a write would be a second writer, not a change of owner'']) @
     (if gs = [] then []
      else [factor ''ownership_evidence_incomplete'' Medium
              (''a source that could have claimed this object left the question open: '' @
               join_with '', '' (sort gs))])"

definition protection_factors :: "operation_definition \<Rightarrow> protection_assessment \<Rightarrow> risk_factor list" where
  "protection_factors d protection =
     (if \<not> od_can_affect_management_path d then []
      else if \<not> od_protection_uses_resource_relation d
      then (case pa_status protection of
          PS_Protected \<Rightarrow> map (\<lambda>r. factor (''protected:'' @ pr_str r) MANAGEMENT_PATH_TARGET_RISK
              (''the operation's effect closure intersects the protected '' @ pr_str r @ '' unit''))
            (pa_reasons protection)
        | PS_Unknown \<Rightarrow> [factor ''protection_evidence_incomplete'' MANAGEMENT_PATH_UNPROVEN_RISK
            ''at least one lifecycle protection reason could not be settled'']
        | PS_Clear \<Rightarrow> [])
      else (case pa_management_path protection of
          On_Management_Path \<Rightarrow> [factor ''target_is_management_path'' MANAGEMENT_PATH_TARGET_RISK
            ''this object is proven to carry the path this console is being reached over; a change to it can end the session that is making it'']
        | Relation_Unknown \<Rightarrow> [factor ''management_path_unproven'' MANAGEMENT_PATH_UNPROVEN_RISK
            ''LocalPlane cannot prove this object does not carry the path it is being reached over, and an unproven negative is not a safe one'']
        | Not_On_Management_Path \<Rightarrow> []))"

definition risk_factors ::
  "operation_definition \<Rightarrow> string option \<Rightarrow> string list \<Rightarrow> protection_assessment \<Rightarrow> risk_factor list" where
  "risk_factors d block_reason gs protection =
     factor ''operation_base_risk'' (od_base_risk d)
       (od_operation d @ '' carries '' @ risk_str (od_base_risk d) @
        '' risk before any evidence about the target'') #
     od_extra_risk_factors d @ ownership_factors block_reason gs @
     protection_factors d protection @
     (if od_destructive d
      then [factor ''irreversible_operation'' High ''this operation cannot be undone''] else [])"

definition assess_risk ::
  "operation_definition \<Rightarrow> string option \<Rightarrow> string list \<Rightarrow> protection_assessment \<Rightarrow> risk_assessment" where
  "assess_risk d block_reason gs protection =
     (let factors = risk_factors d block_reason gs protection in
      \<lparr>rsk_tier = Max (set (map rf_floor factors)), rsk_factors = factors\<rparr>)"

section \<open>Confirmation\<close>

definition execution_missing :: "bool \<Rightarrow> string option" where
  "execution_missing available = (if available then None else Some ''execution_not_implemented'')"

definition effective_confirmation ::
  "operation_definition \<Rightarrow> risk_assessment \<Rightarrow> protection_assessment \<Rightarrow> bool \<Rightarrow>
   confirmation_requirement" where
  "effective_confirmation d risk protection execution_available =
     (let required0 = od_confirmation_requested d;
          reasons0 = (if required0 then
              (case od_confirmation_reason d of None \<Rightarrow> [] | Some r \<Rightarrow> if r = [] then [] else [r])
            else []);
          by_risk = (RISK_ORDER (rsk_tier risk) \<ge> RISK_ORDER CONFIRM_FROM_RISK);
          reasons1 = reasons0 @ (if by_risk \<and> \<not> required0
            then [risk_str (rsk_tier risk) @ '' risk '' @ em_dash @
                  '' policy requires confirmation from '' @ risk_str CONFIRM_FROM_RISK] else []);
          required1 = (required0 \<or> by_risk);
          by_path = (od_can_affect_management_path d \<and>
            pa_management_path protection \<noteq> Not_On_Management_Path);
          reasons2 = reasons1 @ (if by_path \<and> \<not> required1
            then [if pa_management_path protection = On_Management_Path
                  then ''this object carries the path this console is reached over''
                  else ''this change could remove the path this console is reached over''] else []);
          required2 = (required1 \<or> by_path);
          reasons3 = reasons2 @ (if od_destructive d \<and> \<not> required2
            then [''this cannot be undone''] else []);
          required = (required2 \<or> od_destructive d);
          typed = (by_path \<or> od_destructive d) in
      if \<not> required
      then \<lparr>crq_required = False, crq_method = CM_None, crq_source = ''policy'',
            crq_reasons = [''low risk, no management-path impact, reversible''],
            crq_policy = CONFIRMATION_POLICY, crq_token_issued = False,
            crq_satisfiable = execution_available,
            crq_unsatisfiable_reason = execution_missing execution_available\<rparr>
      else \<lparr>crq_required = True, crq_method = (if typed then CM_Typed else CM_Acknowledge),
            crq_source = (if od_confirmation_requested d then ''operation'' else ''policy''),
            crq_reasons = (if reasons3 = [] then [''policy''] else reasons3),
            crq_policy = CONFIRMATION_POLICY, crq_token_issued = False,
            crq_satisfiable = execution_available,
            crq_unsatisfiable_reason = execution_missing execution_available\<rparr>)"

section \<open>Execution\<close>

definition EXECUTION_NOT_IMPLEMENTED :: string where
  "EXECUTION_NOT_IMPLEMENTED = ''execution_not_implemented''"
definition TARGET_IS_MANAGEMENT_PATH :: string where
  "TARGET_IS_MANAGEMENT_PATH = ''target_is_management_path''"
definition MANAGEMENT_PATH_UNPROVEN :: string where
  "MANAGEMENT_PATH_UNPROVEN = ''management_path_unproven''"
definition SELF_IMPACT_OVERRIDE_BLOCKER :: string where
  "SELF_IMPACT_OVERRIDE_BLOCKER = ''protected:'' @ pr_str PR_Management_Path"

definition base_blockers ::
  "execution_availability \<Rightarrow> bool \<Rightarrow> string option \<Rightarrow> string list \<Rightarrow> string list" where
  "base_blockers availability capability_declared block_reason gs =
     reason_if (availability \<noteq> XA_Available) EXECUTION_NOT_IMPLEMENTED @
     reason_if (\<not> capability_declared) ''required_capability_undeclared'' @
     (case block_reason of None \<Rightarrow> [] | Some r \<Rightarrow> [r]) @
     reason_if (gs \<noteq> []) ''ownership_evidence_incomplete''"

definition protection_blockers :: "operation_definition \<Rightarrow> protection_assessment \<Rightarrow> string list" where
  "protection_blockers d protection =
     (if \<not> od_can_affect_management_path d then []
      else if \<not> od_protection_uses_resource_relation d
      then (case pa_status protection of
          PS_Protected \<Rightarrow> map (\<lambda>r. ''protected:'' @ pr_str r) (pa_reasons protection)
        | PS_Unknown \<Rightarrow> map (\<lambda>r. ''protection_unresolved:'' @ pr_str r) (pa_unresolved protection)
        | PS_Clear \<Rightarrow> [])
      else (case pa_management_path protection of
          On_Management_Path \<Rightarrow> [TARGET_IS_MANAGEMENT_PATH]
        | Relation_Unknown \<Rightarrow> [MANAGEMENT_PATH_UNPROVEN]
        | Not_On_Management_Path \<Rightarrow> []))"

definition on_the_path :: "operation_definition \<Rightarrow> protection_assessment \<Rightarrow> bool" where
  "on_the_path d protection \<longleftrightarrow> od_can_affect_management_path d \<and>
     od_protection_uses_resource_relation d \<and> pa_management_path protection = On_Management_Path"

definition assess_execution ::
  "operation_definition \<Rightarrow> execution_availability \<Rightarrow> string option \<Rightarrow> bool \<Rightarrow> string option \<Rightarrow>
   string list \<Rightarrow> protection_assessment \<Rightarrow> guard_plan \<Rightarrow> backend_self_impact_assessment option \<Rightarrow>
   execution_assessment" where
  "assess_execution d availability provider capability_declared block_reason gs protection guard
     self_impact =
     (let before = base_blockers availability capability_declared block_reason gs;
          blockers = before @ protection_blockers d protection;
          ordinary_only = fromkeys before;
          protection_only = drop (length ordinary_only) blockers;
          eligibility =
            (if blockers = [] then XE_Eligible
             else if on_the_path d protection \<and> guard_available guard \<and> ordinary_only = []
             then XE_Guarded
             else if (case self_impact of None \<Rightarrow> False | Some s \<Rightarrow> si_override_eligible s) \<and>
                     ordinary_only = [] \<and> protection_only = [SELF_IMPACT_OVERRIDE_BLOCKER]
             then XE_Self_Impact_Override_Required
             else XE_Blocked) in
      \<lparr>xas_availability = availability, xas_eligibility = eligibility,
       xas_blockers = fromkeys blockers, xas_provider = provider,
       xas_required_capability = od_required_capability d,
       xas_capability_declared_by_agent = capability_declared\<rparr>)"

section \<open>Lemmas\<close>

lemma base_blockers_Nil:
  "base_blockers availability declared block_reason gs = [] \<longleftrightarrow>
     availability = XA_Available \<and> declared \<and> block_reason = None \<and> gs = []"
  by (auto simp: base_blockers_def split: option.splits)

lemma guard_available_iff:
  "guard_available (assess_guard d p declared) \<longleftrightarrow>
     od_can_affect_management_path d \<and> od_guarded_execution d \<and> od_rollback_possible d \<and>
     od_recovery_mode d = RM_Auto \<and> pa_management_path p = On_Management_Path \<and> declared"
  by (auto simp: assess_guard_def guard_plan_of_def guard_available_def Let_def)

lemma override_choice:
  fixes b :: "string list"
  shows "(if b @ q = [] then XE_Eligible
          else if path \<and> g \<and> fromkeys b = [] then XE_Guarded
          else if ok \<and> fromkeys b = [] \<and> drop (length (fromkeys b)) (b @ q) = [x]
          then XE_Self_Impact_Override_Required
          else XE_Blocked) = XE_Self_Impact_Override_Required \<longleftrightarrow>
   b = [] \<and> \<not> (path \<and> g) \<and> ok \<and> q = [x]"
  by (cases b) (auto split: if_splits)

lemma eligibility_simps:
  "xas_eligibility (assess_execution d availability provider declared br gs p guard si) = XE_Eligible \<longleftrightarrow>
     base_blockers availability declared br gs = [] \<and> protection_blockers d p = []"
  "xas_eligibility (assess_execution d availability provider declared br gs p guard si) = XE_Guarded \<longleftrightarrow>
     base_blockers availability declared br gs = [] \<and> on_the_path d p \<and> guard_available guard"
  "xas_eligibility (assess_execution d availability provider declared br gs p guard si) =
      XE_Self_Impact_Override_Required \<longleftrightarrow>
     base_blockers availability declared br gs = [] \<and> \<not> (on_the_path d p \<and> guard_available guard) \<and>
     (case si of None \<Rightarrow> False | Some s \<Rightarrow> si_override_eligible s) \<and>
     protection_blockers d p = [SELF_IMPACT_OVERRIDE_BLOCKER]"
  "xas_blockers (assess_execution d availability provider declared br gs p guard si) =
     fromkeys (base_blockers availability declared br gs @ protection_blockers d p)"
proof -
  let ?B = "base_blockers availability declared br gs"
  have path: "on_the_path d p \<Longrightarrow> protection_blockers d p \<noteq> []"
    by (simp add: on_the_path_def protection_blockers_def)
  show "xas_eligibility (assess_execution d availability provider declared br gs p guard si) = XE_Eligible \<longleftrightarrow>
     ?B = [] \<and> protection_blockers d p = []"
    by (simp add: assess_execution_def Let_def)
  show "xas_eligibility (assess_execution d availability provider declared br gs p guard si) = XE_Guarded \<longleftrightarrow>
     ?B = [] \<and> on_the_path d p \<and> guard_available guard"
    using path by (cases "?B = []") (simp_all add: assess_execution_def Let_def)
  show "xas_eligibility (assess_execution d availability provider declared br gs p guard si) =
      XE_Self_Impact_Override_Required \<longleftrightarrow>
     ?B = [] \<and> \<not> (on_the_path d p \<and> guard_available guard) \<and>
     (case si of None \<Rightarrow> False | Some s \<Rightarrow> si_override_eligible s) \<and>
     protection_blockers d p = [SELF_IMPACT_OVERRIDE_BLOCKER]"
    unfolding assess_execution_def Let_def execution_assessment.select_convs
    by (rule override_choice)
  show "xas_blockers (assess_execution d availability provider declared br gs p guard si) =
     fromkeys (?B @ protection_blockers d p)"
    by (simp add: assess_execution_def Let_def)
qed

lemma override_not_target: "TARGET_IS_MANAGEMENT_PATH \<noteq> SELF_IMPACT_OVERRIDE_BLOCKER"
  "MANAGEMENT_PATH_UNPROVEN \<noteq> SELF_IMPACT_OVERRIDE_BLOCKER"
  by (simp_all add: TARGET_IS_MANAGEMENT_PATH_def SELF_IMPACT_OVERRIDE_BLOCKER_def
      MANAGEMENT_PATH_UNPROVEN_def)

lemma rolled_up_lists:
  assumes "roll_up_protection assessed mp missing = Inr p"
  shows "pa_status p = PS_Protected \<Longrightarrow> pa_reasons p \<noteq> []"
    and "pa_status p = PS_Unknown \<Longrightarrow> pa_unresolved p \<noteq> []"
  using roll_up_status [OF assms] roll_up_sel(5,6) [OF assms]
  by (auto simp: filter_empty_conv has_status_def split: if_splits)

lemma risk_tier_max:
  "rsk_tier (assess_risk d br gs p) \<ge> t \<longleftrightarrow> (\<exists>f \<in> set (risk_factors d br gs p). rf_floor f \<ge> t)"
  by (subst assess_risk_def, simp only: Let_def risk_assessment.select_convs, subst Max_ge_iff)
     (auto simp: risk_factors_def)

lemma High_top [simp]: "High \<le> t \<longleftrightarrow> t = High"
  by (cases t) (simp_all add: less_eq_risk_tier_def)

lemma tier_le_simps [simp]:
  "Medium \<le> t \<longleftrightarrow> t \<noteq> Low" "Low \<le> t"
  by (cases t; simp add: less_eq_risk_tier_def)+

lemma factor_floor [simp]: "rf_floor (factor c f x) = f"
  by (simp add: factor_def)

lemma ownership_floor_High:
  "(\<exists>f \<in> set (ownership_factors br gs). rf_floor f = High) \<longleftrightarrow> br \<noteq> None"
  "(\<exists>f \<in> set (ownership_factors br gs). rf_floor f \<noteq> Low) \<longleftrightarrow> br \<noteq> None \<or> gs \<noteq> []"
  by (cases br; cases "gs = []"; simp add: ownership_factors_def)+

lemma lifecycle_relation:
  assumes "assess_lifecycle_protection c = Inr p"
  shows "pa_management_path p = Relation_Unknown"
  using roll_up_sel(3) [OF assms [unfolded assess_lifecycle_protection_def Let_def]] .

lemma lifecycle_rolled:
  assumes "assess_lifecycle_protection c = Inr p"
  shows "pa_status p = PS_Protected \<Longrightarrow> pa_reasons p \<noteq> []"
    and "pa_status p = PS_Unknown \<Longrightarrow> pa_unresolved p \<noteq> []"
  using rolled_up_lists [OF assms [unfolded assess_lifecycle_protection_def Let_def]] by blast+

lemma protection_blockers_typed:
  assumes "roll_up_protection assessed mp missing = Inr p"
    and "od_can_affect_management_path d" "\<not> od_protection_uses_resource_relation d"
  shows "protection_blockers d p = [] \<longleftrightarrow> pa_status p = PS_Clear"
  using rolled_up_lists [OF assms(1)] assms(2,3)
  by (auto simp: protection_blockers_def split: protection_status.splits)

lemma override_reasons:
  assumes "si_override_eligible (assess_backend_self_impact c p)"
  shows "pa_status p = PS_Protected" "pa_reasons p = [PR_Management_Path]"
  using assms by (simp_all add: ineligibility_Nil)

section \<open>Properties\<close>

text \<open>C27. Which paths are open to an operation on an interface that could carry the operator's
  connection, whatever it declares otherwise: with nothing else in the way the ordinary path is
  open exactly when the connection is proven to be carried by another object; the guarded path
  exactly when it is proven to be carried by this one, the operation has an unattended inverse
  it may perform behind a guard and the host says it can hold one; an unproven path opens
  neither; and no self-impact authority ever opens one here. Anything else in the way closes
  them all.\<close>

theorem interface_execution_paths:
  assumes "od_can_affect_management_path d" "od_protection_uses_resource_relation d"
    and "assess_protection d v r = Inr p"
  shows "let x = xas_eligibility (assess_execution d availability provider declared br gs p
           (assess_guard d p guard_declared) si);
         free = (availability = XA_Available \<and> declared \<and> br = None \<and> gs = []) in
     (x = XE_Eligible \<longleftrightarrow> free \<and> mpv_resource_id v \<noteq> None \<and> mpv_resource_id v \<noteq> Some r) \<and>
     (x = XE_Guarded \<longleftrightarrow> free \<and> mpv_resource_id v = Some r \<and> od_guarded_execution d \<and>
        od_rollback_possible d \<and> od_recovery_mode d = RM_Auto \<and> guard_declared) \<and>
     x \<noteq> XE_Self_Impact_Override_Required"
proof -
  have mp: "pa_management_path p = (case mpv_resource_id v of None \<Rightarrow> Relation_Unknown
       | Some r' \<Rightarrow> if r' = r then On_Management_Path else Not_On_Management_Path)"
    using assess_resource_status(2) assms(3) unfolding assess_protection_def by blast
  have blockers: "protection_blockers d p = (case pa_management_path p of
          On_Management_Path \<Rightarrow> [TARGET_IS_MANAGEMENT_PATH]
        | Relation_Unknown \<Rightarrow> [MANAGEMENT_PATH_UNPROVEN]
        | Not_On_Management_Path \<Rightarrow> [])"
    using assms(1,2) by (simp add: protection_blockers_def)
  show ?thesis
    using assms(1,2) override_not_target mp
    by (auto simp: Let_def eligibility_simps base_blockers_Nil guard_available_iff on_the_path_def
        blockers split: option.splits if_splits management_path_relation.splits)
qed

text \<open>C33. Which paths are open to a lifecycle action, judged by its typed protection and the
  self-impact derived from the same context: with nothing else in the way the ordinary path is
  open exactly when protection is clear, and an operator's authority can be asked for exactly
  when the hazard is the one eligible for it; the guarded path never exists for it. Whatever
  the path, every blocker stays published.\<close>

theorem lifecycle_execution_paths:
  assumes "od_can_affect_management_path d" "\<not> od_protection_uses_resource_relation d"
    and "assess_lifecycle_protection c = Inr p"
  shows "let si = assess_backend_self_impact c p;
         x = assess_execution d availability provider declared br gs p
           (assess_guard d p guard_declared) (Some si);
         free = (availability = XA_Available \<and> declared \<and> br = None \<and> gs = []) in
     (xas_eligibility x = XE_Eligible \<longleftrightarrow> free \<and> pa_status p = PS_Clear) \<and>
     (xas_eligibility x = XE_Self_Impact_Override_Required \<longleftrightarrow> free \<and> si_override_eligible si) \<and>
     xas_eligibility x \<noteq> XE_Guarded \<and>
     (xas_blockers x = [] \<longleftrightarrow> free \<and> pa_status p = PS_Clear)"
proof -
  have nil: "protection_blockers d p = [] \<longleftrightarrow> pa_status p = PS_Clear"
    using lifecycle_rolled [OF assms(3)] assms(1,2)
    by (auto simp: protection_blockers_def split: protection_status.splits)
  have one: "protection_blockers d p = [SELF_IMPACT_OVERRIDE_BLOCKER]"
    if "si_override_eligible (assess_backend_self_impact c p)"
    using override_reasons [OF that] assms(1,2)
    by (simp add: protection_blockers_def SELF_IMPACT_OVERRIDE_BLOCKER_def)
  have path: "\<not> on_the_path d p" using assms(2) by (simp add: on_the_path_def)
  show ?thesis
    using nil one path
    by (auto simp: Let_def eligibility_simps base_blockers_Nil simp del: si_sel)
qed

text \<open>The risk tier is exactly what the evidence makes it. It is high exactly when the
  operation starts high or declares a high factor, another system runs the target, the effect
  cannot be undone, or the target (or the action's closure) is proven to touch what is
  protected; and it is low exactly when nothing of that is so, nothing is left open by an
  ownership source or by protection, and neither the operation nor its factors start higher. No
  factor ever lowers it.\<close>

theorem risk_tier_exact:
  "(rsk_tier (assess_risk d br gs p) = High \<longleftrightarrow>
      od_base_risk d = High \<or> list_ex (\<lambda>f. rf_floor f = High) (od_extra_risk_factors d) \<or>
      (\<exists>why. br = Some why) \<or> od_destructive d \<or>
      od_can_affect_management_path d \<and>
        (if od_protection_uses_resource_relation d then pa_management_path p = On_Management_Path
         else pa_status p = PS_Protected \<and> pa_reasons p \<noteq> [])) \<and>
   (rsk_tier (assess_risk d br gs p) = Low \<longleftrightarrow>
      od_base_risk d = Low \<and> list_all (\<lambda>f. rf_floor f = Low) (od_extra_risk_factors d) \<and>
      br = None \<and> gs = [] \<and> \<not> od_destructive d \<and> protection_factors d p = []) \<and>
   list_all (\<lambda>f. rf_floor f \<le> rsk_tier (assess_risk d br gs p)) (risk_factors d br gs p)"
proof (intro conjI)
  have P: "(\<exists>f \<in> set (protection_factors d p). rf_floor f = High) \<longleftrightarrow>
      od_can_affect_management_path d \<and>
        (if od_protection_uses_resource_relation d then pa_management_path p = On_Management_Path
         else pa_status p = PS_Protected \<and> pa_reasons p \<noteq> [])"
    by (cases "pa_reasons p") (auto simp: protection_factors_def policy_risk_defs
        split: protection_status.splits management_path_relation.splits)
  have Q: "(\<exists>f \<in> set (protection_factors d p). rf_floor f \<noteq> Low) \<longleftrightarrow> protection_factors d p \<noteq> []"
    by (cases "pa_reasons p") (auto simp: protection_factors_def policy_risk_defs
        split: protection_status.splits management_path_relation.splits)
  show "rsk_tier (assess_risk d br gs p) = High \<longleftrightarrow>
      od_base_risk d = High \<or> list_ex (\<lambda>f. rf_floor f = High) (od_extra_risk_factors d) \<or>
      (\<exists>why. br = Some why) \<or> od_destructive d \<or>
      od_can_affect_management_path d \<and>
        (if od_protection_uses_resource_relation d then pa_management_path p = On_Management_Path
         else pa_status p = PS_Protected \<and> pa_reasons p \<noteq> [])"
    using risk_tier_max [of High d br gs p]
    by (simp add: risk_factors_def bex_Un ownership_floor_High P list_ex_iff) blast
  have "rsk_tier (assess_risk d br gs p) \<noteq> Low \<longleftrightarrow>
      \<not> (od_base_risk d = Low \<and> list_all (\<lambda>f. rf_floor f = Low) (od_extra_risk_factors d) \<and>
      br = None \<and> gs = [] \<and> \<not> od_destructive d \<and> protection_factors d p = [])"
    using risk_tier_max [of Medium d br gs p]
    by (simp add: risk_factors_def bex_Un ownership_floor_High Q list_all_iff) blast
  then show "rsk_tier (assess_risk d br gs p) = Low \<longleftrightarrow>
      od_base_risk d = Low \<and> list_all (\<lambda>f. rf_floor f = Low) (od_extra_risk_factors d) \<and>
      br = None \<and> gs = [] \<and> \<not> od_destructive d \<and> protection_factors d p = []" by blast
  show "list_all (\<lambda>f. rf_floor f \<le> rsk_tier (assess_risk d br gs p)) (risk_factors d br gs p)"
    unfolding list_all_iff using risk_tier_max by blast
qed

text \<open>What confirming a plan takes: it is required exactly when the operation asks for it, the
  risk is medium or higher, the operation could remove the path and the target is not proven to
  be off it, or the effect cannot be undone; it is typed exactly in the last two cases; a
  reason is always given; it can be satisfied exactly when execution exists; and no token is
  ever issued.\<close>

theorem confirmation_exact:
  "let k = effective_confirmation d risk p available;
       by_path = (od_can_affect_management_path d \<and> pa_management_path p \<noteq> Not_On_Management_Path) in
   (crq_required k \<longleftrightarrow> od_confirmation_requested d \<or> rsk_tier risk \<in> {Medium, High} \<or> by_path \<or> od_destructive d) \<and>
   (crq_method k = CM_Typed \<longleftrightarrow> by_path \<or> od_destructive d) \<and>
   (crq_method k = CM_None \<longleftrightarrow> \<not> crq_required k) \<and>
   (crq_source k = ''operation'' \<longleftrightarrow> od_confirmation_requested d) \<and>
   crq_reasons k \<noteq> [] \<and> crq_satisfiable k = available \<and> crq_token_issued k = False"
proof -
  have tier: "RISK_ORDER t \<ge> RISK_ORDER CONFIRM_FROM_RISK \<longleftrightarrow> t = Medium \<or> t = High" for t
    by (cases t) (simp_all add: CONFIRM_FROM_RISK_def)
  show ?thesis
    by (simp add: effective_confirmation_def Let_def tier)
qed

text \<open>Risk and eligibility never disagree about protection: for every protection roll-up, of
  either safety model, protection raises the risk exactly when it publishes a blocker.\<close>

theorem risk_and_eligibility_agree:
  "case roll_up_protection assessed mp missing of Inl _ \<Rightarrow> assessed = [] | Inr p \<Rightarrow>
     protection_factors d p = [] \<longleftrightarrow> protection_blockers d p = []"
proof (cases "roll_up_protection assessed mp missing")
  case (Inl e)
  then show ?thesis using roll_up_error_iff [of assessed mp missing] by simp
next
  case (Inr p)
  then show ?thesis
    using rolled_up_lists [OF Inr]
    by (auto simp: protection_factors_def protection_blockers_def
        split: protection_status.splits management_path_relation.splits)
qed

section \<open>Concrete plans\<close>

definition sample_definition :: operation_definition where
  "sample_definition = \<lparr>od_operation = ''network.interface.reconcile_mtu'', od_summary = [],
     od_target_kind = ''network_interface'', od_base_risk = Low, od_destructive = False,
     od_can_affect_management_path = True, od_recovery_mode = RM_Auto, od_rollback_possible = True,
     od_required_capability = ''network.interface.mtu.write'',
     od_protection_uses_resource_relation = True, od_guarded_execution = True,
     od_acts_through_provider = None, od_confirmation_requested = False,
     od_confirmation_reason = None, od_verification_condition = [], od_execution_note = [],
     od_extra_risk_factors = []\<rparr>"

definition sample_verdict :: management_path_verdict where
  "sample_verdict = \<lparr>mpv_resource_id = Some ''eth0'', mpv_reason = ''management_path_confirmed'',
     mpv_evidence_id = None, mpv_observed_at = None, mpv_missing_evidence = []\<rparr>"

theorem interface_execution_paths_witness:
  "\<exists>p. assess_protection sample_definition sample_verdict ''eth0'' = Inr p \<and>
     xas_eligibility (assess_execution sample_definition XA_Available None True None [] p
       (assess_guard sample_definition p True) None) = XE_Guarded"
proof -
  obtain p where p: "assess_protection sample_definition sample_verdict ''eth0'' = Inr p"
    using assess_resource_total unfolding assess_protection_def by blast
  have d: "od_can_affect_management_path sample_definition"
    "od_protection_uses_resource_relation sample_definition"
    by (simp_all add: sample_definition_def)
  from interface_execution_paths [OF d p, of XA_Available None True None "[]" True None] p
  show ?thesis by (auto simp: Let_def sample_verdict_def sample_definition_def)
qed

theorem lifecycle_execution_paths_witness:
  "\<exists>p. assess_lifecycle_protection sample_context = Inr p \<and>
     xas_eligibility (assess_execution (sample_definition\<lparr>od_protection_uses_resource_relation := False\<rparr>)
       XA_Available None True None [] p
       (assess_guard (sample_definition\<lparr>od_protection_uses_resource_relation := False\<rparr>) p True)
       (Some (assess_backend_self_impact sample_context p))) = XE_Eligible"
proof -
  obtain p where p: "assess_lifecycle_protection sample_context = Inr p"
    using assess_lifecycle_total by blast
  have d: "od_can_affect_management_path (sample_definition\<lparr>od_protection_uses_resource_relation := False\<rparr>)"
    "\<not> od_protection_uses_resource_relation (sample_definition\<lparr>od_protection_uses_resource_relation := False\<rparr>)"
    by (simp_all add: sample_definition_def)
  have "pa_status p = PS_Clear"
    using assess_lifecycle_status(1) [OF p]
    by (simp add: lifecycle_reason_status) (simp add: sample_context_def opt_mem_def present_def)
  with lifecycle_execution_paths [OF d p, of XA_Available None True None "[]" True] p
  show ?thesis by (auto simp: Let_def)
qed

end
