(* ===== verification/Helper_Mtu.thy ===== *)
theory Helper_Mtu
  imports Changes "HOL-Library.Word"
begin

text \<open>
  The privileged helper's one mutation: \<open>src/localplane/helper/mtu.py\<close>, byte for byte. The
  request frames, the parser of the kernel's datagrams, the correlation of an acknowledgement,
  the checks that come before a mutating frame exists, and the three-valued result. The kernel
  is a parameter (\<open>link_transport\<close>), with what rtnetlink documents as the hypothesis
  \<open>kernel_ok\<close>.

  A byte is an \<open>8 word\<close>. Native byte order is little-endian, as on the platforms the program
  is built for. \<open>strerror\<close> is the C library's text for an error number.
\<close>

unbundle bit_operations_syntax

type_synonym bytes = "8 word list"

section \<open>Packing and unpacking\<close>

fun le_bytes :: "nat \<Rightarrow> nat \<Rightarrow> bytes" where
  "le_bytes 0 n = []"
| "le_bytes (Suc k) n = word_of_nat n # le_bytes k (n div 256)"

fun le_nat :: "bytes \<Rightarrow> nat" where
  "le_nat [] = 0"
| "le_nat (b # bs) = unat b + 256 * le_nat bs"

definition slice_at :: "bytes \<Rightarrow> nat \<Rightarrow> nat \<Rightarrow> bytes" where
  "slice_at bs off len = take len (drop off bs)"

definition u16 :: "bytes \<Rightarrow> nat \<Rightarrow> nat" where "u16 bs off = le_nat (slice_at bs off 2)"
definition u32 :: "bytes \<Rightarrow> nat \<Rightarrow> nat" where "u32 bs off = le_nat (slice_at bs off 4)"

definition i32 :: "bytes \<Rightarrow> nat \<Rightarrow> int" where
  "i32 bs off = sint (word_of_nat (u32 bs off) :: 32 word)"

definition pack_i32 :: "int \<Rightarrow> bytes" where
  "pack_i32 i = le_bytes 4 (nat (i mod 2 ^ 32))"

text \<open>\<open>(n + 3) & ~3\<close> on the lengths of a datagram.\<close>

definition align4 :: "nat \<Rightarrow> nat" where
  "align4 n = (n + 3) div 4 * 4"

section \<open>Constants\<close>

definition MIN_MTU :: int where "MIN_MTU = 68"
definition MAX_MTU :: int where "MAX_MTU = 65536"
definition NLMSG_ERROR :: nat where "NLMSG_ERROR = 2"
definition NLMSG_DONE :: nat where "NLMSG_DONE = 3"
definition RTM_NEWLINK :: nat where "RTM_NEWLINK = 16"
definition RTM_GETLINK :: nat where "RTM_GETLINK = 18"
definition NLM_F_REQUEST :: nat where "NLM_F_REQUEST = 1"
definition NLM_F_ACK :: nat where "NLM_F_ACK = 4"
definition IFLA_IFNAME :: nat where "IFLA_IFNAME = 3"
definition IFLA_MTU :: nat where "IFLA_MTU = 4"
definition ENODEV :: int where "ENODEV = 19"

lemmas netlink_defs = NLMSG_ERROR_def NLMSG_DONE_def RTM_NEWLINK_def RTM_GETLINK_def
  NLM_F_REQUEST_def NLM_F_ACK_def IFLA_IFNAME_def IFLA_MTU_def

definition NLMSGHDR_SIZE :: nat where "NLMSGHDR_SIZE = 16"
definition IFINFOMSG_SIZE :: nat where "IFINFOMSG_SIZE = 16"
definition RTATTR_SIZE :: nat where "RTATTR_SIZE = 4"

lemmas size_defs = NLMSGHDR_SIZE_def IFINFOMSG_SIZE_def RTATTR_SIZE_def

section \<open>Frames\<close>

definition header :: "nat \<Rightarrow> nat \<Rightarrow> nat \<Rightarrow> nat \<Rightarrow> bytes" where
  "header len kind flags sequence =
     le_bytes 4 len @ le_bytes 2 kind @ le_bytes 2 flags @ le_bytes 4 sequence @ le_bytes 4 0"

definition ifinfomsg :: "int \<Rightarrow> bytes" where
  "ifinfomsg ifindex = [0, 0, 0, 0] @ pack_i32 ifindex @ le_bytes 4 0 @ le_bytes 4 0"

definition attribute :: "nat \<Rightarrow> bytes \<Rightarrow> bytes" where
  "attribute kind payload =
     (let raw = le_bytes 2 (RTATTR_SIZE + length payload) @ le_bytes 2 kind @ payload in
      raw @ replicate (align4 (length raw) - length raw) 0)"

text \<open>\<open>struct.pack\<close> raises on a number its field cannot hold.\<close>

definition fits_i32 :: "int \<Rightarrow> bool" where "fits_i32 i \<longleftrightarrow> - (2 ^ 31) \<le> i \<and> i < 2 ^ 31"
definition fits_u32 :: "int \<Rightarrow> bool" where "fits_u32 i \<longleftrightarrow> 0 \<le> i \<and> i < 2 ^ 32"

definition get_link_request :: "int \<Rightarrow> nat \<Rightarrow> py_error + bytes" where
  "get_link_request ifindex sequence =
     (if fits_i32 ifindex \<and> fits_u32 (int sequence)
      then (let body = ifinfomsg ifindex in
        Inr (header (NLMSGHDR_SIZE + length body) RTM_GETLINK NLM_F_REQUEST sequence @ body))
      else Inl (StructError ''argument out of range''))"

definition set_mtu_request :: "int \<Rightarrow> int \<Rightarrow> nat \<Rightarrow> py_error + bytes" where
  "set_mtu_request ifindex mtu sequence =
     (if fits_i32 ifindex \<and> fits_u32 mtu \<and> fits_u32 (int sequence)
      then (let body = ifinfomsg ifindex @ attribute IFLA_MTU (le_bytes 4 (nat mtu)) in
        Inr (header (NLMSGHDR_SIZE + length body) RTM_NEWLINK (NLM_F_REQUEST OR NLM_F_ACK) sequence
             @ body))
      else Inl (StructError ''argument out of range''))"

section \<open>Parsing the kernel's datagrams\<close>

text \<open>
  The messages of a datagram from an offset on, as \<open>(type, sequence, body)\<close>, and the detail of
  the malformation met after them, if one was.
\<close>

function (sequential) messages ::
  "bytes \<Rightarrow> nat \<Rightarrow> (nat \<times> nat \<times> bytes) list \<times> facts option" where
  "messages reply offset =
     (if offset + NLMSGHDR_SIZE \<le> length reply
      then (let len = u32 reply offset; kind = u16 reply (offset + 4);
                sequence = u32 reply (offset + 8) in
            if len < NLMSGHDR_SIZE \<or> offset + len > length reply
            then ([], Some [(''declared_length'', PInt (int len)),
                            (''remaining'', PInt (int (length reply) - int offset))])
            else if kind = NLMSG_DONE then ([], None)
            else (let (ms, e) = messages reply (offset + align4 len) in
                  ((kind, sequence,
                    slice_at reply (offset + NLMSGHDR_SIZE) (len - NLMSGHDR_SIZE)) # ms, e)))
      else ([], None))"
  by pat_completeness auto

lemma align4_ge: "n \<le> align4 n"
  by (simp add: align4_def)

lemma align4_advances:
  "0 < n \<Longrightarrow> offset + n \<le> l \<Longrightarrow> l - (offset + align4 n) < l - offset"
  using align4_ge [of n] by linarith

termination messages
  by (relation "measure (\<lambda>(reply, offset). length reply - offset)")
     (auto simp: size_defs not_less intro: align4_advances)

function (sequential) attributes :: "bytes \<Rightarrow> nat \<Rightarrow> (nat \<times> bytes) list" where
  "attributes body offset =
     (if offset + RTATTR_SIZE \<le> length body
      then (let len = u16 body offset; kind = u16 body (offset + 2) in
            if len < RTATTR_SIZE \<or> offset + len > length body then []
            else (kind, slice_at body (offset + RTATTR_SIZE) (len - RTATTR_SIZE)) #
                 attributes body (offset + align4 len))
      else [])"
  by pat_completeness auto

termination attributes
  by (relation "measure (\<lambda>(body, offset). length body - offset)")
     (auto simp: size_defs not_less intro: align4_advances)

declare messages.simps [simp del] attributes.simps [simp del]

text \<open>A later attribute of the same kind replaces an earlier one in the dictionary.\<close>

definition attribute_of :: "(nat \<times> bytes) list \<Rightarrow> nat \<Rightarrow> bytes option" where
  "attribute_of as k = map_of (rev as) k"

record link_facts =
  lk_ifindex :: int
  lk_name :: "string option"
  lk_mtu :: "nat option"

definition uint32_of :: "bytes option \<Rightarrow> nat option" where
  "uint32_of p = (case p of None \<Rightarrow> None | Some bs \<Rightarrow> if length bs < 4 then None else Some (u32 bs 0))"

text \<open>\<open>decode\<close> is UTF-8 decoding, \<open>None\<close> where it raises.\<close>

definition string_of :: "(bytes \<Rightarrow> string option) \<Rightarrow> bytes option \<Rightarrow> string option" where
  "string_of decode p = Option.bind p (\<lambda>bs. decode (takeWhile (\<lambda>b. b \<noteq> 0) bs))"

definition read_link_facts :: "(bytes \<Rightarrow> string option) \<Rightarrow> bytes \<Rightarrow> link_facts option" where
  "read_link_facts decode body =
     (if length body < IFINFOMSG_SIZE then None
      else (let as = attributes body IFINFOMSG_SIZE in
        Some \<lparr>lk_ifindex = i32 body 4, lk_name = string_of decode (attribute_of as IFLA_IFNAME),
              lk_mtu = uint32_of (attribute_of as IFLA_MTU)\<rparr>))"

text \<open>How the helper's code leaves a check: a typed refusal, or an exception it does not catch.\<close>

datatype link_error = Refused string facts | Raised py_error

record netlink_failure =
  nf_reason :: string
  nf_detail :: facts
  nf_dispatched :: bool

definition int_fact :: "string \<Rightarrow> int \<Rightarrow> string \<times> pyval" where
  "int_fact k i = (k, PInt i)"

fun interpret_messages ::
  "(bytes \<Rightarrow> string option) \<Rightarrow> (int \<Rightarrow> string) \<Rightarrow> int \<Rightarrow> nat \<Rightarrow>
   (nat \<times> nat \<times> bytes) list \<Rightarrow> facts option \<Rightarrow> link_error + link_facts" where
  "interpret_messages decode strerror ifindex sequence [] malformed =
     (case malformed of
        Some d \<Rightarrow> Inl (Refused ''malformed_netlink_response'' d)
      | None \<Rightarrow> Inl (Refused ''no_link_in_reply'' [int_fact ''ifindex'' ifindex]))"
| "interpret_messages decode strerror ifindex sequence ((kind, s, body) # ms) malformed =
     (if kind = NLMSG_ERROR then
        (if length body < 4 then Inl (Raised (StructError ''unpack_from requires a buffer''))
         else (let code = i32 body 0; number = - code in
           if code = 0 then interpret_messages decode strerror ifindex sequence ms malformed
           else Inl (Refused
             (if number = ENODEV then ''interface_not_found'' else ''link_query_rejected'')
             [int_fact ''kernel_errno'' number, (''kernel_error'', PStr (strerror number)),
              int_fact ''ifindex'' ifindex])))
      else if kind = RTM_NEWLINK then
        (if s \<noteq> sequence
         then Inl (Refused ''link_reply_uncorrelated''
                [int_fact ''expected_sequence'' (int sequence), int_fact ''received_sequence'' (int s)])
         else (case read_link_facts decode body of
             None \<Rightarrow> Inl (Refused ''no_link_in_reply'' [int_fact ''ifindex'' ifindex])
           | Some f \<Rightarrow>
              if lk_ifindex f \<noteq> ifindex
              then Inl (Refused ''link_reply_wrong_interface''
                     [int_fact ''requested_ifindex'' ifindex, int_fact ''reply_ifindex'' (lk_ifindex f)])
              else Inr f))
      else interpret_messages decode strerror ifindex sequence ms malformed)"

definition interpret_link ::
  "(bytes \<Rightarrow> string option) \<Rightarrow> (int \<Rightarrow> string) \<Rightarrow> bytes \<Rightarrow> int \<Rightarrow> nat \<Rightarrow> link_error + link_facts" where
  "interpret_link decode strerror reply ifindex sequence =
     (case messages reply 0 of (ms, e) \<Rightarrow> interpret_messages decode strerror ifindex sequence ms e)"

definition echoed_request :: "bytes \<Rightarrow> (nat \<times> nat) option" where
  "echoed_request body =
     (if length body < 4 + NLMSGHDR_SIZE then None else Some (u16 body 8, u32 body 12))"

datatype ack_error = Uncorrelated string facts | Ack_Raised py_error

definition acknowledgement :: "bytes \<Rightarrow> nat \<Rightarrow> ack_error + int" where
  "acknowledgement reply sequence =
     (case messages reply 0 of
        (_, Some d) \<Rightarrow> Inl (Uncorrelated ''malformed_netlink_response'' d)
      | (ms, None) \<Rightarrow>
         (case find (\<lambda>(kind, _, _). kind = NLMSG_ERROR) ms of
            None \<Rightarrow> Inl (Uncorrelated ''no_acknowledgement_in_reply''
                      [(''message_types'', PList (map (\<lambda>k. PInt (int k))
                         (sort (remdups (map fst ms)))))])
          | Some (_, s, body) \<Rightarrow>
              if s \<noteq> sequence
              then Inl (Uncorrelated ''acknowledgement_uncorrelated''
                     [int_fact ''expected_sequence'' (int sequence),
                      int_fact ''received_sequence'' (int s)])
              else if echoed_request body \<noteq> None \<and> echoed_request body \<noteq> Some (RTM_NEWLINK, sequence)
              then Inl (Uncorrelated ''acknowledgement_echoes_another_request''
                     [(''expected'', PList [PInt (int RTM_NEWLINK), PInt (int sequence)]),
                      int_fact ''echoed_type'' (int (fst (the (echoed_request body)))),
                      int_fact ''echoed_sequence'' (int (snd (the (echoed_request body))))])
              else if length body < 4
              then Inl (Ack_Raised (StructError ''unpack_from requires a buffer''))
              else Inr (- i32 body 0)))"

section \<open>The transport and the kernel\<close>

text \<open>
  One exchange over a netlink socket, as the operating system decides it: the socket could not
  be opened, the request could not be sent, no answer came, or one did from a sender port.
\<close>

datatype socket_event =
    Socket_Unavailable string | Send_Failed string | Receive_Timeout | Receive_Failed string
  | Received bytes "int option"

definition exchange :: "int \<Rightarrow> socket_event \<Rightarrow> bool \<Rightarrow> netlink_failure + bytes" where
  "exchange timeout_s ev dispatched_after_send =
     (case ev of
        Socket_Unavailable e \<Rightarrow> Inl \<lparr>nf_reason = ''netlink_unavailable'',
            nf_detail = [(''error'', PStr e)], nf_dispatched = False\<rparr>
      | Send_Failed e \<Rightarrow> Inl \<lparr>nf_reason = ''netlink_send_failed'',
            nf_detail = [(''error'', PStr e)], nf_dispatched = False\<rparr>
      | Receive_Timeout \<Rightarrow> Inl \<lparr>nf_reason = ''acknowledgement_timeout'',
            nf_detail = [int_fact ''timeout_s'' timeout_s], nf_dispatched = dispatched_after_send\<rparr>
      | Receive_Failed e \<Rightarrow> Inl \<lparr>nf_reason = ''acknowledgement_not_received'',
            nf_detail = [(''error'', PStr e)], nf_dispatched = dispatched_after_send\<rparr>
      | Received payload sender \<Rightarrow>
          if sender = Some 0 then Inr payload
          else Inl \<lparr>nf_reason = ''acknowledgement_not_from_kernel'',
            nf_detail = [(''sender_port_id'', case sender of None \<Rightarrow> PNone | Some p \<Rightarrow> PInt p)],
            nf_dispatched = dispatched_after_send\<rparr>)"

text \<open>
  The environment: what the operating system does with each request on a host in state \<open>'h\<close>,
  with the text functions the code uses.
\<close>

record 'h link_env =
  le_socket :: "bytes \<Rightarrow> 'h \<Rightarrow> socket_event \<times> 'h"
  le_decode :: "bytes \<Rightarrow> string option"
  le_strerror :: "int \<Rightarrow> string"
  le_timeout_s :: int

definition transport_query :: "'h link_env \<Rightarrow> bytes \<Rightarrow> 'h \<Rightarrow> (link_error + bytes) \<times> 'h" where
  "transport_query K request h =
     (case le_socket K request h of (ev, h') \<Rightarrow>
        (case exchange (le_timeout_s K) ev False of
           Inl f \<Rightarrow> (Inl (Refused (nf_reason f) (nf_detail f)), h')
         | Inr reply \<Rightarrow> (Inr reply, h')))"

definition transport_mutate :: "'h link_env \<Rightarrow> bytes \<Rightarrow> 'h \<Rightarrow> (netlink_failure + bytes) \<times> 'h" where
  "transport_mutate K request h =
     (case le_socket K request h of (ev, h') \<Rightarrow> (exchange (le_timeout_s K) ev True, h'))"

section \<open>Setting an MTU\<close>

record mutation_result =
  mu_outcome :: mutation_outcome
  mu_reason :: string
  mu_attempt_id :: string
  mu_ifindex :: int
  mu_expected_current_mtu :: int
  mu_desired_mtu :: int
  mu_observed_name :: "string option"
  mu_observed_mtu :: "int option"
  mu_kernel_errno :: "int option"
  mu_kernel_error :: "string option"
  mu_detail :: facts

record mtu_request =
  mq_attempt_id :: string
  mq_ifindex :: int
  mq_expected :: int
  mq_desired :: int
  mq_name :: "string option"

text \<open>The setter's state is its sequence number; \<open>'h\<close> is the host.\<close>

definition read_link ::
  "'h link_env \<Rightarrow> int \<Rightarrow> nat \<Rightarrow> 'h \<Rightarrow> (link_error + link_facts) \<times> nat \<times> 'h" where
  "read_link K ifindex sequence h =
     (case get_link_request ifindex (Suc sequence) of
        Inl e \<Rightarrow> (Inl (Raised e), Suc sequence, h)
      | Inr request \<Rightarrow>
         (case transport_query K request h of
            (Inl e, h') \<Rightarrow> (Inl e, Suc sequence, h')
          | (Inr reply, h') \<Rightarrow>
              (interpret_link (le_decode K) (le_strerror K) reply ifindex (Suc sequence),
               Suc sequence, h')))"

definition opt_str :: "string \<Rightarrow> string option \<Rightarrow> string \<times> pyval" where
  "opt_str k v = (k, opt_text v)"

definition check_link :: "mtu_request \<Rightarrow> link_facts \<Rightarrow> link_error + link_facts" where
  "check_link q link =
     (let at = int_fact ''ifindex'' (mq_ifindex q); seen = opt_str ''observed_name'' (lk_name link) in
      case lk_mtu link of
        None \<Rightarrow> Inl (Refused ''current_mtu_unreadable'' [at, seen])
      | Some m \<Rightarrow>
         if mq_name q \<noteq> None \<and> lk_name link \<noteq> mq_name q
         then Inl (Refused ''interface_identity_mismatch''
                [at, opt_str ''expected_interface_name'' (mq_name q), seen,
                 int_fact ''observed_mtu'' (int m)])
         else if int m \<noteq> mq_expected q
         then Inl (Refused ''mtu_precondition_failed''
                [at, int_fact ''expected_current_mtu'' (mq_expected q),
                 int_fact ''observed_mtu'' (int m), seen])
         else if int m = mq_desired q
         then Inl (Refused ''desired_equals_current''
                [at, int_fact ''observed_mtu'' (int m), int_fact ''desired_mtu'' (mq_desired q)])
         else Inr link)"

definition check ::
  "'h link_env \<Rightarrow> mtu_request \<Rightarrow> nat \<Rightarrow> 'h \<Rightarrow> (link_error + link_facts) \<times> nat \<times> 'h" where
  "check K q sequence h =
     (let range = [int_fact ''minimum'' MIN_MTU, int_fact ''maximum'' MAX_MTU] in
      if \<not> (MIN_MTU \<le> mq_desired q \<and> mq_desired q \<le> MAX_MTU)
      then (Inl (Refused ''mtu_out_of_range'' (int_fact ''desired_mtu'' (mq_desired q) # range)),
            sequence, h)
      else if \<not> (MIN_MTU \<le> mq_expected q \<and> mq_expected q \<le> MAX_MTU)
      then (Inl (Refused ''expected_mtu_out_of_range''
                   (int_fact ''expected_current_mtu'' (mq_expected q) # range)), sequence, h)
      else if mq_desired q = mq_expected q
      then (Inl (Refused ''desired_equals_current''
                   [int_fact ''desired_mtu'' (mq_desired q),
                    int_fact ''expected_current_mtu'' (mq_expected q)]), sequence, h)
      else (case read_link K (mq_ifindex q) sequence h of
          (Inl e, s, h') \<Rightarrow> (Inl e, s, h')
        | (Inr link, s, h') \<Rightarrow> (check_link q link, s, h')))"

definition result_for ::
  "mtu_request \<Rightarrow> mutation_outcome \<Rightarrow> string \<Rightarrow> string option \<Rightarrow> int option \<Rightarrow> int option \<Rightarrow>
   string option \<Rightarrow> facts \<Rightarrow> mutation_result" where
  "result_for q w reason name mtu eno err detail =
     \<lparr>mu_outcome = w, mu_reason = reason, mu_attempt_id = mq_attempt_id q,
      mu_ifindex = mq_ifindex q, mu_expected_current_mtu = mq_expected q,
      mu_desired_mtu = mq_desired q, mu_observed_name = name, mu_observed_mtu = mtu,
      mu_kernel_errno = eno, mu_kernel_error = err, mu_detail = detail\<rparr>"

definition text_fact :: "facts \<Rightarrow> string \<Rightarrow> string option" where
  "text_fact d k = (case get d k of PStr s \<Rightarrow> Some s | _ \<Rightarrow> None)"

definition int_fact_of :: "facts \<Rightarrow> string \<Rightarrow> int option" where
  "int_fact_of d k = (case get d k of PInt i \<Rightarrow> Some i | _ \<Rightarrow> None)"

definition settle_reply ::
  "'h link_env \<Rightarrow> mtu_request \<Rightarrow> link_facts \<Rightarrow> nat \<Rightarrow> bytes \<Rightarrow> py_error + mutation_result" where
  "settle_reply K q link sequence reply =
     (let seen = result_for q in
      case acknowledgement reply sequence of
        Inl (Uncorrelated reason d) \<Rightarrow>
          Inr (seen MO_Write_Unknown reason (lk_name link) (map_option int (lk_mtu link)) None None d)
      | Inl (Ack_Raised e) \<Rightarrow> Inl e
      | Inr code \<Rightarrow>
          if code = 0
          then Inr (seen MO_Written ''kernel_acknowledged'' (lk_name link)
                 (map_option int (lk_mtu link)) None None [])
          else Inr (seen MO_Not_Written ''kernel_rejected'' (lk_name link)
                 (map_option int (lk_mtu link)) (Some code) (Some (le_strerror K code)) []))"

definition set_mtu ::
  "'h link_env \<Rightarrow> mtu_request \<Rightarrow> nat \<Rightarrow> 'h \<Rightarrow> (py_error + mutation_result) \<times> nat \<times> 'h" where
  "set_mtu K q sequence h =
     (case check K q sequence h of
        (Inl (Refused reason d), s, h') \<Rightarrow>
          (Inr (result_for q MO_Not_Written reason (text_fact d ''observed_name'')
             (int_fact_of d ''observed_mtu'') (int_fact_of d ''kernel_errno'')
             (text_fact d ''kernel_error'') d), s, h')
      | (Inl (Raised e), s, h') \<Rightarrow> (Inl e, s, h')
      | (Inr link, s, h') \<Rightarrow>
         (case set_mtu_request (mq_ifindex q) (mq_desired q) (Suc s) of
            Inl e \<Rightarrow> (Inl e, Suc s, h')
          | Inr request \<Rightarrow>
             (case transport_mutate K request h' of
                (Inl f, h'') \<Rightarrow>
                  (Inr (result_for q (if nf_dispatched f then MO_Write_Unknown else MO_Not_Written)
                     (nf_reason f) (lk_name link) (map_option int (lk_mtu link)) None None
                     (nf_detail f)), Suc s, h'')
              | (Inr reply, h'') \<Rightarrow> (settle_reply K q link (Suc s) reply, Suc s, h''))))"

section \<open>Lemmas\<close>

lemma length_le_bytes [simp]: "length (le_bytes k n) = k"
  by (induction k arbitrary: n) simp_all

lemma le_nat_le_bytes: "n < 256 ^ k \<Longrightarrow> le_nat (le_bytes k n) = n"
proof (induction k arbitrary: n)
  case (Suc k)
  have "n div 256 < 256 ^ k" using Suc.prems by (simp add: less_mult_imp_div_less mult.commute)
  moreover have "unat (word_of_nat n :: 8 word) = n mod 256"
    by (simp add: unat_of_nat)
  ultimately show ?case using Suc.IH [of "n div 256"] by simp
qed simp

lemma length_pack_i32 [simp]: "length (pack_i32 i) = 4"
  by (simp add: pack_i32_def)

lemma sint_pack:
  assumes "fits_i32 i"
  shows "sint (word_of_nat (le_nat (pack_i32 i)) :: 32 word) = i"
proof -
  have "nat (i mod 2 ^ 32) < 256 ^ 4" by simp
  then have "le_nat (pack_i32 i) = nat (i mod 2 ^ 32)"
    unfolding pack_i32_def by (rule le_nat_le_bytes)
  then have "(word_of_nat (le_nat (pack_i32 i)) :: 32 word) = word_of_int (i mod 2 ^ 32)"
    by simp
  also have "\<dots> = word_of_int i"
    by (simp add: word_of_int_eq_iff take_bit_eq_mod)
  finally show ?thesis
    using assms by (simp add: fits_i32_def sint_sbintrunc' signed_take_bit_int_eq_self)
qed

lemma align4_simps [simp]: "align4 40 = 40" "align4 24 = 24" "align4 20 = 20" "align4 8 = 8" "align4 16 = 16"
  by (simp_all add: align4_def)

definition mtu_body :: "int \<Rightarrow> int \<Rightarrow> bytes" where
  "mtu_body i m = ifinfomsg i @ attribute IFLA_MTU (le_bytes 4 (nat m))"

lemma attribute_mtu: "attribute IFLA_MTU (le_bytes 4 n) = le_bytes 2 8 @ le_bytes 2 4 @ le_bytes 4 n"
  by (simp add: attribute_def IFLA_MTU_def RTATTR_SIZE_def)

lemma length_mtu_body [simp]: "length (mtu_body i m) = 24"
  by (simp add: mtu_body_def ifinfomsg_def attribute_mtu)

lemma set_mtu_request_Inr:
  "set_mtu_request i m s = Inr req \<longleftrightarrow> fits_i32 i \<and> fits_u32 m \<and> fits_u32 (int s) \<and>
     req = header 40 16 5 s @ mtu_body i m"
proof -
  have len: "length (ifinfomsg i @ attribute IFLA_MTU (le_bytes 4 (nat m))) = 24"
    using length_mtu_body [of i m] by (simp only: mtu_body_def)
  have flags: "NLM_F_REQUEST OR NLM_F_ACK = 5"
    by (simp add: netlink_defs)
  have size: "NLMSGHDR_SIZE + 24 = 40"
    by (simp add: size_defs)
  show ?thesis
    unfolding set_mtu_request_def Let_def mtu_body_def len flags size RTM_NEWLINK_def by auto
qed

lemma header_fields:
  assumes "n < 2 ^ 32" "kind < 2 ^ 16" "flags < 2 ^ 16" "fits_u32 (int s)"
  shows "u32 (header n kind flags s @ b) 0 = n" "u16 (header n kind flags s @ b) 4 = kind"
    "u16 (header n kind flags s @ b) 6 = flags" "u32 (header n kind flags s @ b) 8 = s"
  using assms
  by (simp_all add: header_def u32_def u16_def slice_at_def le_nat_le_bytes fits_u32_def)

lemma length_header [simp]: "length (header a b c d) = 16"
  by (simp add: header_def)

lemma messages_one_frame:
  assumes "n = 16 + length b" "align4 n = n" "n < 2 ^ 32" "kind < 2 ^ 16" "kind \<noteq> NLMSG_DONE"
    "flags < 2 ^ 16" "fits_u32 (int s)"
  shows "messages (header n kind flags s @ b) 0 = ([(kind, s, b)], None)"
proof -
  have "messages (header n kind flags s @ b) n = ([], None)"
    using assms by (subst messages.simps) (simp add: size_defs)
  moreover have "slice_at (header n kind flags s @ b) 16 (n - 16) = b"
    using assms(1) by (simp add: slice_at_def)
  ultimately show ?thesis
    using header_fields [OF assms(3,4,6,7), of b] assms
    by (subst messages.simps) (simp add: size_defs Let_def)
qed

lemma mtu_body_fields:
  assumes "fits_i32 i" "fits_u32 m"
  shows "i32 (mtu_body i m) 4 = i" "u32 (mtu_body i m) 8 = 0" "u32 (mtu_body i m) 12 = 0"
    "attributes (mtu_body i m) 16 = [(4, le_bytes 4 (nat m))]"
proof -
  show "i32 (mtu_body i m) 4 = i"
    using sint_pack [OF assms(1)]
    by (simp add: i32_def u32_def slice_at_def mtu_body_def ifinfomsg_def)
  show "u32 (mtu_body i m) 8 = 0" "u32 (mtu_body i m) 12 = 0"
    by (simp_all add: u32_def slice_at_def mtu_body_def ifinfomsg_def le_nat_le_bytes)
  have f: "u16 (mtu_body i m) 16 = 8" "u16 (mtu_body i m) 18 = 4"
    by (simp_all add: u16_def slice_at_def mtu_body_def ifinfomsg_def attribute_mtu le_nat_le_bytes)
  have "attributes (mtu_body i m) 24 = []" by (subst attributes.simps) (simp add: size_defs)
  moreover have "slice_at (mtu_body i m) 20 4 = le_bytes 4 (nat m)"
    by (simp add: slice_at_def mtu_body_def ifinfomsg_def attribute_mtu)
  ultimately show "attributes (mtu_body i m) 16 = [(4, le_bytes 4 (nat m))]"
    by (subst attributes.simps) (simp add: size_defs f Let_def)
qed

text \<open>
  What rtnetlink documents, over the MTU of each link by index: a link query changes nothing
  and its correlated answer states the link's MTU; the MTU request, when it is sent at all,
  is applied to that link or not at all; an acknowledgement of it says which.
\<close>

definition kernel_ok :: "'h link_env \<Rightarrow> ('h \<Rightarrow> int \<rightharpoonup> nat) \<Rightarrow> bool" where
  "kernel_ok K mtu_of \<longleftrightarrow>
     (\<forall>i s req h ev h'. get_link_request i s = Inr req \<longrightarrow> le_socket K req h = (ev, h') \<longrightarrow>
        mtu_of h' = mtu_of h \<and>
        (\<forall>reply f m. ev = Received reply (Some 0) \<longrightarrow>
           interpret_link (le_decode K) (le_strerror K) reply i s = Inr f \<longrightarrow>
           lk_mtu f = Some m \<longrightarrow> mtu_of h i = Some m)) \<and>
     (\<forall>i n s req h ev h'. set_mtu_request i n s = Inr req \<longrightarrow> le_socket K req h = (ev, h') \<longrightarrow>
        (mtu_of h' = mtu_of h \<or> mtu_of h' = (mtu_of h)(i \<mapsto> nat n)) \<and>
        (\<forall>e. ev = Socket_Unavailable e \<or> ev = Send_Failed e \<longrightarrow> mtu_of h' = mtu_of h) \<and>
        (\<forall>reply c. ev = Received reply (Some 0) \<longrightarrow> acknowledgement reply s = Inr c \<longrightarrow>
           mtu_of h' = (if c = 0 then (mtu_of h)(i \<mapsto> nat n) else mtu_of h)))"

lemma kernel_query:
  assumes "kernel_ok K mtu_of" "read_link K i s h = (r, s', h')"
  shows "mtu_of h' = mtu_of h" "r = Inr f \<Longrightarrow> lk_mtu f = Some m \<Longrightarrow> mtu_of h i = Some m"
proof -
  have "mtu_of h' = mtu_of h \<and> (\<forall>f m. r = Inr f \<longrightarrow> lk_mtu f = Some m \<longrightarrow> mtu_of h i = Some m)"
  proof (cases "get_link_request i (Suc s)")
    case (Inl e)
    then show ?thesis using assms(2) by (auto simp: read_link_def)
  next
    case (Inr req)
    obtain ev h1 where k: "le_socket K req h = (ev, h1)" by (cases "le_socket K req h")
    with assms(1) Inr have same: "mtu_of h1 = mtu_of h" and says: "\<And>reply f m. ev = Received reply (Some 0) \<Longrightarrow>
           interpret_link (le_decode K) (le_strerror K) reply i (Suc s) = Inr f \<Longrightarrow>
           lk_mtu f = Some m \<Longrightarrow> mtu_of h i = Some m"
      unfolding kernel_ok_def by blast+
    have "h' = h1" using assms(2) Inr k
      by (auto simp: read_link_def transport_query_def split: sum.splits)
    moreover have "mtu_of h i = Some m" if "r = Inr f" "lk_mtu f = Some m" for f m
      using assms(2) Inr k that says
      by (auto simp: read_link_def transport_query_def exchange_def
          split: sum.splits socket_event.splits if_splits)
    ultimately show ?thesis using same by blast
  qed
  then show "mtu_of h' = mtu_of h" "r = Inr f \<Longrightarrow> lk_mtu f = Some m \<Longrightarrow> mtu_of h i = Some m"
    by blast+
qed

lemma check_link_Inr:
  "check_link q link = Inr l \<Longrightarrow> l = link \<and> lk_mtu link = Some (nat (mq_expected q)) \<and> 0 \<le> mq_expected q"
  by (auto simp: check_link_def Let_def split: option.splits if_splits)

lemma check_kernel:
  assumes "kernel_ok K mtu_of" "check K q s h = (r, s', h')"
  shows "mtu_of h' = mtu_of h"
    "r = Inr link \<Longrightarrow> mtu_of h (mq_ifindex q) = Some (nat (mq_expected q)) \<and>
       MIN_MTU \<le> mq_desired q \<and> mq_desired q \<le> MAX_MTU"
proof -
  have "mtu_of h' = mtu_of h \<and> (\<forall>link. r = Inr link \<longrightarrow>
      mtu_of h (mq_ifindex q) = Some (nat (mq_expected q)) \<and>
       MIN_MTU \<le> mq_desired q \<and> mq_desired q \<le> MAX_MTU)"
  proof -
    obtain rl s1 h1 where rl: "read_link K (mq_ifindex q) s h = (rl, s1, h1)"
      by (cases "read_link K (mq_ifindex q) s h") auto
    note k = kernel_query [OF assms(1) rl]
    show ?thesis
    proof (cases rl)
      case (Inl e)
      then show ?thesis using assms(2) rl k(1)
        by (auto simp: check_def Let_def split: if_splits)
    next
      case (Inr link)
      then show ?thesis using assms(2) rl k(1) k(2) [OF Inr] check_link_Inr [of q link]
        by (auto simp: check_def Let_def split: if_splits)
    qed
  qed
  then show "mtu_of h' = mtu_of h"
    "r = Inr link \<Longrightarrow> mtu_of h (mq_ifindex q) = Some (nat (mq_expected q)) \<and>
       MIN_MTU \<le> mq_desired q \<and> mq_desired q \<le> MAX_MTU" by blast+
qed

section \<open>A kernel that behaves as documented\<close>

text \<open>
  A host is the MTU of each link; the kernel answers a link query with the link's MTU and
  applies an MTU request to a link that exists, and says so.
\<close>

definition ack_frame :: "nat \<Rightarrow> bytes" where
  "ack_frame s = header 20 2 0 s @ le_bytes 4 0"

definition ideal_socket :: "bytes \<Rightarrow> (int \<rightharpoonup> nat) \<Rightarrow> socket_event \<times> (int \<rightharpoonup> nat)" where
  "ideal_socket request h =
     (case messages request 0 of
        ((kind, s, body) # _, _) \<Rightarrow>
          (let i = i32 body 4 in
           case h i of None \<Rightarrow> (Receive_Timeout, h) | Some m \<Rightarrow>
             if kind = RTM_GETLINK \<and> fits_u32 (int m)
             then (Received (header 40 16 0 s @ mtu_body i (int m)) (Some 0), h)
             else if kind = RTM_NEWLINK
             then (Received (ack_frame s) (Some 0),
                   h(i \<mapsto> u32 (the (attribute_of (attributes body 16) IFLA_MTU)) 0))
             else (Receive_Timeout, h))
      | _ \<Rightarrow> (Receive_Timeout, h))"

definition ideal_env :: "(int \<rightharpoonup> nat) link_env" where
  "ideal_env = \<lparr>le_socket = ideal_socket, le_decode = (\<lambda>_. None), le_strerror = (\<lambda>_. []),
     le_timeout_s = 2\<rparr>"

lemma get_link_request_Inr:
  "get_link_request i s = Inr req \<longleftrightarrow> fits_i32 i \<and> fits_u32 (int s) \<and>
     req = header 32 18 1 s @ ifinfomsg i"
  by (auto simp: get_link_request_def Let_def size_defs netlink_defs ifinfomsg_def)

lemma ifinfomsg_index:
  assumes "fits_i32 i"
  shows "i32 (ifinfomsg i) 4 = i"
  using sint_pack [OF assms] by (simp add: i32_def u32_def slice_at_def ifinfomsg_def)

lemma query_frame:
  assumes "get_link_request i s = Inr req"
  shows "messages req 0 = ([(18, s, ifinfomsg i)], None)"
proof -
  have "length (ifinfomsg i) = 16" by (simp add: ifinfomsg_def)
  then show ?thesis using assms
    by (auto simp: get_link_request_Inr align4_def netlink_defs intro!: messages_one_frame)
qed

lemma mutating_frame:
  assumes "set_mtu_request i m s = Inr req"
  shows "messages req 0 = ([(16, s, mtu_body i m)], None)"
  using assms by (auto simp: set_mtu_request_Inr netlink_defs intro!: messages_one_frame)

lemma ack_of_ack_frame:
  assumes "fits_u32 (int s)"
  shows "acknowledgement (ack_frame s) s = Inr 0"
proof -
  have "messages (ack_frame s) 0 = ([(2, s, le_bytes 4 0)], None)"
    using assms unfolding ack_frame_def by (intro messages_one_frame) (simp_all add: netlink_defs)
  moreover have "i32 (le_bytes 4 0) 0 = 0"
    using le_nat_le_bytes [of 0 4] by (simp add: i32_def u32_def slice_at_def)
  ultimately show ?thesis
    by (simp add: acknowledgement_def netlink_defs echoed_request_def size_defs)
qed

lemma link_reply:
  assumes "fits_i32 i" "fits_u32 (int m)" "fits_u32 (int s)"
  shows "interpret_link decode strerror (header 40 16 0 s @ mtu_body i (int m)) i s =
     Inr \<lparr>lk_ifindex = i, lk_name = None, lk_mtu = Some m\<rparr>"
proof -
  have "messages (header 40 16 0 s @ mtu_body i (int m)) 0 = ([(16, s, mtu_body i (int m))], None)"
    using assms by (intro messages_one_frame) (simp_all add: netlink_defs)
  moreover have "u32 (le_bytes 4 m) 0 = m"
    using le_nat_le_bytes [of m 4] assms(2) by (simp add: u32_def slice_at_def fits_u32_def)
  ultimately show ?thesis
    using mtu_body_fields [OF assms(1,2)]
    by (simp add: interpret_link_def netlink_defs read_link_facts_def size_defs Let_def
        attribute_of_def string_of_def uint32_of_def)
qed

lemma ideal_query:
  assumes "get_link_request i s = Inr req"
  shows "ideal_socket req h = (case h i of None \<Rightarrow> (Receive_Timeout, h) | Some m \<Rightarrow>
     if fits_u32 (int m) then (Received (header 40 16 0 s @ mtu_body i (int m)) (Some 0), h)
     else (Receive_Timeout, h))"
  using query_frame [OF assms] assms
  by (auto simp: ideal_socket_def Let_def get_link_request_Inr ifinfomsg_index netlink_defs
      split: option.splits)

lemma ideal_mutate:
  assumes "set_mtu_request i m s = Inr req"
  shows "ideal_socket req h = (case h i of None \<Rightarrow> (Receive_Timeout, h)
     | Some _ \<Rightarrow> (Received (ack_frame s) (Some 0), h(i \<mapsto> nat m)))"
proof -
  from assms have fit: "fits_i32 i" "fits_u32 m" by (simp_all add: set_mtu_request_Inr)
  have "nat m < 256 ^ 4" using fit(2) by (simp add: fits_u32_def nat_less_iff)
  then have "u32 (le_bytes 4 (nat m)) 0 = nat m"
    using le_nat_le_bytes [of "nat m" 4] by (simp add: u32_def slice_at_def)
  then show ?thesis
    using mutating_frame [OF assms] mtu_body_fields [OF fit]
    by (simp add: ideal_socket_def Let_def netlink_defs attribute_of_def split: option.splits)
qed

lemma ideal_kernel_ok: "kernel_ok ideal_env id"
proof -
  have q: "h' = h \<and> (ev = Received reply (Some 0) \<longrightarrow>
      interpret_link (\<lambda>_. None) (\<lambda>_. []) reply i s = Inr f \<longrightarrow> lk_mtu f = Some m \<longrightarrow> h i = Some m)"
    if "get_link_request i s = Inr req" "ideal_socket req h = (ev, h')" for i s req h ev h' reply f m
    using that ideal_query [OF that(1)] link_reply [of i _ s "\<lambda>_. None" "\<lambda>_. []"]
    by (auto simp: get_link_request_Inr split: option.splits if_splits)
  have w: "(h' = h \<or> h' = h(i \<mapsto> nat n)) \<and>
      (\<forall>e. ev = Socket_Unavailable e \<or> ev = Send_Failed e \<longrightarrow> h' = h) \<and>
      (\<forall>reply c. ev = Received reply (Some 0) \<longrightarrow> acknowledgement reply s = Inr c \<longrightarrow>
         h' = (if c = 0 then h(i \<mapsto> nat n) else h))"
    if "set_mtu_request i n s = Inr req" "ideal_socket req h = (ev, h')" for i n s req h ev h'
    using that ideal_mutate [OF that(1), of h] ack_of_ack_frame [of s]
    by (auto simp: set_mtu_request_Inr split: option.splits)
  show ?thesis
    unfolding kernel_ok_def using q w by (auto simp: ideal_env_def)
qed

section \<open>Properties\<close>

lemma set_mtu_cases:
  assumes "set_mtu K q s h = (r, s', h')"
  obtains (refused) e s1 where "check K q s h = (Inl e, s1, h')" "s' = s1"
      "r = (case e of Raised x \<Rightarrow> Inl x | Refused reason d \<Rightarrow>
         Inr (result_for q MO_Not_Written reason (text_fact d ''observed_name'')
             (int_fact_of d ''observed_mtu'') (int_fact_of d ''kernel_errno'')
             (text_fact d ''kernel_error'') d))"
  | (unbuilt) link s1 x where "check K q s h = (Inr link, s1, h')" "r = Inl x"
      "set_mtu_request (mq_ifindex q) (mq_desired q) (Suc s1) = Inl x"
  | (failed) link s1 h1 req f where "check K q s h = (Inr link, s1, h1)"
      "set_mtu_request (mq_ifindex q) (mq_desired q) (Suc s1) = Inr req"
      "transport_mutate K req h1 = (Inl f, h')"
      "r = Inr (result_for q (if nf_dispatched f then MO_Write_Unknown else MO_Not_Written)
             (nf_reason f) (lk_name link) (map_option int (lk_mtu link)) None None (nf_detail f))"
  | (answered) link s1 h1 req reply where "check K q s h = (Inr link, s1, h1)"
      "set_mtu_request (mq_ifindex q) (mq_desired q) (Suc s1) = Inr req"
      "transport_mutate K req h1 = (Inr reply, h')" "r = settle_reply K q link (Suc s1) reply"
proof -
  obtain c s1 h1 where c: "check K q s h = (c, s1, h1)" by (cases "check K q s h") auto
  show thesis
  proof (cases c)
    case (Inl e)
    with assms c show ?thesis by (cases e) (auto simp: set_mtu_def intro: refused)
  next
    case (Inr link)
    show ?thesis
    proof (cases "set_mtu_request (mq_ifindex q) (mq_desired q) (Suc s1)")
      case (Inl x)
      with assms c Inr show ?thesis by (auto simp: set_mtu_def intro: unbuilt)
    next
      case req: (Inr req)
      obtain w h2 where w: "transport_mutate K req h1 = (w, h2)" by (cases "transport_mutate K req h1")
      with assms c Inr req show ?thesis
        by (cases w) (auto simp: set_mtu_def intro: failed answered)
    qed
  qed
qed

lemma kernel_write:
  assumes "kernel_ok K mtu_of" "set_mtu_request i n s = Inr req" "le_socket K req h = (ev, h')"
  shows "mtu_of h' = mtu_of h \<or> mtu_of h' = (mtu_of h)(i \<mapsto> nat n)"
    "ev = Socket_Unavailable e \<or> ev = Send_Failed e \<Longrightarrow> mtu_of h' = mtu_of h"
    "ev = Received reply (Some 0) \<Longrightarrow> acknowledgement reply s = Inr c \<Longrightarrow>
       mtu_of h' = (if c = 0 then (mtu_of h)(i \<mapsto> nat n) else mtu_of h)"
proof -
  note w = conjunct2 [OF assms(1) [unfolded kernel_ok_def], rule_format, OF assms(2,3)]
  show "mtu_of h' = mtu_of h \<or> mtu_of h' = (mtu_of h)(i \<mapsto> nat n)"
    by (rule conjunct1 [OF w])
  show "ev = Socket_Unavailable e \<or> ev = Send_Failed e \<Longrightarrow> mtu_of h' = mtu_of h"
    by (rule conjunct1 [OF conjunct2 [OF w], rule_format])
  show "ev = Received reply (Some 0) \<Longrightarrow> acknowledgement reply s = Inr c \<Longrightarrow>
       mtu_of h' = (if c = 0 then (mtu_of h)(i \<mapsto> nat n) else mtu_of h)"
    by (rule conjunct2 [OF conjunct2 [OF w], rule_format])
qed

text \<open>What an outcome claims about the one link it names, and the rest of the host.\<close>

definition outcome_true ::
  "mutation_outcome \<Rightarrow> mtu_request \<Rightarrow> (int \<rightharpoonup> nat) \<Rightarrow> (int \<rightharpoonup> nat) \<Rightarrow> bool" where
  "outcome_true w q before after =
     (let written = (before (mq_ifindex q) = Some (nat (mq_expected q)) \<and>
                     after = before(mq_ifindex q \<mapsto> nat (mq_desired q)) \<and>
                     MIN_MTU \<le> mq_desired q \<and> mq_desired q \<le> MAX_MTU) in
      case w of
        MO_Not_Written \<Rightarrow> after = before
      | MO_Written \<Rightarrow> written
      | MO_Write_Unknown \<Rightarrow> after = before \<or> written)"

lemma settle_reply_outcome:
  assumes "settle_reply K q link s reply = Inr r"
  shows "mu_outcome r = (case acknowledgement reply s of Inl _ \<Rightarrow> MO_Write_Unknown
     | Inr c \<Rightarrow> if c = 0 then MO_Written else MO_Not_Written)"
  using assms by (auto simp: settle_reply_def result_for_def Let_def split: sum.splits ack_error.splits if_splits)

text \<open>An attempt that raises has the standing of a write nobody can speak for.\<close>

definition stated_outcome :: "py_error + mutation_result \<Rightarrow> mutation_outcome" where
  "stated_outcome r = (case r of Inl _ \<Rightarrow> MO_Write_Unknown | Inr m \<Rightarrow> mu_outcome m)"

lemma set_mtu_outcome_true:
  assumes "kernel_ok K mtu_of" and "set_mtu K q s h = (r, s', h')"
  shows "outcome_true (stated_outcome r) q (mtu_of h) (mtu_of h')"
  using assms(2)
proof (cases rule: set_mtu_cases)
  case (refused e s1)
  with check_kernel(1) [OF assms(1) refused(1)] show ?thesis
    by (auto simp: outcome_true_def stated_outcome_def result_for_def split: link_error.splits)
next
  case (unbuilt link s1 x)
  with check_kernel(1) [OF assms(1) unbuilt(1)] show ?thesis
    by (simp add: outcome_true_def stated_outcome_def Let_def)
next
  case (failed link s1 h1 req f)
  note c = check_kernel [OF assms(1) failed(1)]
  obtain ev where ev: "le_socket K req h1 = (ev, h')" and x: "exchange (le_timeout_s K) ev True = Inl f"
    using failed(3) by (auto simp: transport_mutate_def split: prod.splits)
  have "mtu_of h' = mtu_of h1 \<or> mtu_of h' = (mtu_of h1)(mq_ifindex q \<mapsto> nat (mq_desired q))"
    by (rule kernel_write(1) [OF assms(1) failed(2) ev])
  moreover have "\<exists>e. ev = Socket_Unavailable e \<or> ev = Send_Failed e \<Longrightarrow> mtu_of h' = mtu_of h1"
    using kernel_write(2) [OF assms(1) failed(2) ev] by blast
  moreover have "nf_dispatched f \<longleftrightarrow> \<not> (\<exists>e. ev = Socket_Unavailable e \<or> ev = Send_Failed e)"
    using x by (auto simp: exchange_def split: socket_event.splits if_splits)
  ultimately show ?thesis
    using c(1) c(2) [OF refl] failed(4) by (auto simp: outcome_true_def stated_outcome_def result_for_def Let_def)
next
  case (answered link s1 h1 req reply)
  note c = check_kernel [OF assms(1) answered(1)]
  obtain ev where ev: "le_socket K req h1 = (ev, h')" and x: "exchange (le_timeout_s K) ev True = Inr reply"
    using answered(3) by (auto simp: transport_mutate_def split: prod.splits)
  from x have rec: "ev = Received reply (Some 0)"
    by (auto simp: exchange_def split: socket_event.splits if_splits)
  have "mtu_of h' = mtu_of h1 \<or> mtu_of h' = (mtu_of h1)(mq_ifindex q \<mapsto> nat (mq_desired q))"
    by (rule kernel_write(1) [OF assms(1) answered(2) ev])
  moreover note kernel_write(3) [OF assms(1) answered(2) ev rec]
  ultimately show ?thesis
    using c(1) c(2) [OF refl] settle_reply_outcome [of K q link "Suc s1" reply] answered(4)
    by (cases r) (auto simp: outcome_true_def stated_outcome_def Let_def split: sum.splits if_splits)
qed

text \<open>The one mutating frame says exactly what was asked and nothing else: it is built just
  when the numbers fit the fields they are packed into, and the parser of netlink datagrams
  reads it back as a single \<open>RTM_NEWLINK\<close> message with the given sequence number, for the
  given interface index, changing no flag, with the MTU as its only attribute.\<close>

theorem mutating_frame_round_trip:
  "case set_mtu_request i m s of
     Inl _ \<Rightarrow> \<not> (fits_i32 i \<and> fits_u32 m \<and> fits_u32 (int s))
   | Inr req \<Rightarrow> fits_i32 i \<and> fits_u32 m \<and> fits_u32 (int s) \<and> length req = 40 \<and>
       messages req 0 = ([(RTM_NEWLINK, s, mtu_body i m)], None) \<and>
       i32 (mtu_body i m) 4 = i \<and> u32 (mtu_body i m) 8 = 0 \<and> u32 (mtu_body i m) 12 = 0 \<and>
       map fst (attributes (mtu_body i m) 16) = [IFLA_MTU] \<and>
       uint32_of (attribute_of (attributes (mtu_body i m) 16) IFLA_MTU) = Some (nat m)"
proof (cases "set_mtu_request i m s")
  case (Inl e)
  then have "\<not> (fits_i32 i \<and> fits_u32 m \<and> fits_u32 (int s))"
    using set_mtu_request_Inr [of i m s "header 40 16 5 s @ mtu_body i m"] by auto
  with Inl show ?thesis by simp
next
  case (Inr req)
  then have fit: "fits_i32 i" "fits_u32 m" "fits_u32 (int s)" "req = header 40 16 5 s @ mtu_body i m"
    by (simp_all add: set_mtu_request_Inr)
  have "nat m < 256 ^ 4" using fit(2) by (simp add: fits_u32_def nat_less_iff)
  then have "u32 (le_bytes 4 (nat m)) 0 = nat m"
    using le_nat_le_bytes [of "nat m" 4] by (simp add: u32_def slice_at_def)
  with Inr fit mutating_frame [OF Inr] mtu_body_fields [OF fit(1,2)] show ?thesis
    by (simp add: netlink_defs attribute_of_def uint32_of_def)
qed

text \<open>C30. The helper's three-valued answer is true of the host. Against a kernel that behaves as
  rtnetlink documents, whatever an attempt answers holds: not written means that no link's MTU
  moved; written means that the link held exactly the expected value, and that it alone now
  holds the desired one, within the bounds; and write-unknown means one of those two.\<close>

theorem set_mtu_truthful:
  assumes "kernel_ok K mtu_of" and "set_mtu K q s h = (Inr r, s', h')"
  shows "outcome_true (mu_outcome r) q (mtu_of h) (mtu_of h')"
  using set_mtu_outcome_true [OF assms] by (simp add: stated_outcome_def)

text \<open>A write on a host whose link 2 has MTU 1400, through the documented kernel.\<close>

definition sample_request :: mtu_request where
  "sample_request = \<lparr>mq_attempt_id = ''attempt-1'', mq_ifindex = 2, mq_expected = 1400,
     mq_desired = 1500, mq_name = None\<rparr>"

lemma sample_fits: "fits_i32 2" "fits_u32 1400" "fits_u32 1500" "fits_u32 1" "fits_u32 2"
  by (simp_all add: fits_i32_def fits_u32_def)

lemma sample_check:
  "check ideal_env sample_request 0 [2 \<mapsto> 1400] =
     (Inr \<lparr>lk_ifindex = 2, lk_name = None, lk_mtu = Some 1400\<rparr>, 1, [2 \<mapsto> 1400])"
proof -
  obtain req where req: "get_link_request 2 1 = Inr req"
    using sample_fits get_link_request_Inr [of 2 1] by simp
  have "read_link ideal_env 2 0 [2 \<mapsto> 1400] =
      (Inr \<lparr>lk_ifindex = 2, lk_name = None, lk_mtu = Some 1400\<rparr>, 1, [2 \<mapsto> 1400])"
    using req ideal_query [OF req, of "[2 \<mapsto> 1400]"] link_reply [of 2 1400 1 "\<lambda>_. None" "\<lambda>_. []"] sample_fits
    by (simp add: read_link_def transport_query_def ideal_env_def exchange_def)
  then show ?thesis
    by (simp add: check_def sample_request_def MIN_MTU_def MAX_MTU_def check_link_def Let_def)
qed

lemma sample_write:
  "\<exists>r. set_mtu ideal_env sample_request 0 [2 \<mapsto> 1400] = (Inr r, 2, [2 \<mapsto> 1500]) \<and>
     mu_outcome r = MO_Written"
proof -
  obtain req where req: "set_mtu_request 2 1500 2 = Inr req"
    using sample_fits set_mtu_request_Inr [of 2 1500 2] by simp
  have "transport_mutate ideal_env req [2 \<mapsto> 1400] = (Inr (ack_frame 2), [2 \<mapsto> 1500])"
    using ideal_mutate [OF req, of "[2 \<mapsto> 1400]"]
    by (simp add: transport_mutate_def ideal_env_def exchange_def)
  moreover have "settle_reply ideal_env sample_request \<lparr>lk_ifindex = 2, lk_name = None, lk_mtu = Some 1400\<rparr> 2
      (ack_frame 2) = Inr (result_for sample_request MO_Written ''kernel_acknowledged'' None (Some 1400)
        None None [])"
    using ack_of_ack_frame [of 2] sample_fits by (simp add: settle_reply_def)
  ultimately show ?thesis
    using req sample_check
    by (simp add: set_mtu_def numeral_2_eq_2) (simp add: sample_request_def result_for_def)
qed

theorem set_mtu_truthful_witness:
  "\<exists>r s' h'. set_mtu ideal_env sample_request 0 [2 \<mapsto> 1400] = (Inr r, s', h') \<and>
     mu_outcome r = MO_Written \<and> outcome_true MO_Written sample_request [2 \<mapsto> 1400] h'"
proof -
  obtain r where r: "set_mtu ideal_env sample_request 0 [2 \<mapsto> 1400] = (Inr r, 2, [2 \<mapsto> 1500])"
    "mu_outcome r = MO_Written"
    using sample_write by blast
  from set_mtu_truthful [OF ideal_kernel_ok r(1)] r show ?thesis by auto
qed

end
