(* ===== verification/Helper_Service.thy ===== *)
theory Helper_Service
  imports Helper_Mtu
begin

text \<open>
  The helper's mutating method and the agent's use of it: \<open>src/localplane/helper/service.py\<close>
  (the typed parameters, the memory of completed attempts) and \<open>_set_interface_mtu\<close> of
  \<open>src/localplane/agent/service.py\<close>, which turns a transport failure into one of the three
  outcomes. The contract a compare-and-set writer promises is the locale \<open>cas_writer\<close>; it is
  interpreted on both the helper's service and the agent's write.
\<close>

section \<open>The helper's service\<close>

definition ATTEMPT_MEMORY :: nat where "ATTEMPT_MEMORY = 256"
definition MAX_IFINDEX :: int where "MAX_IFINDEX = 2 ^ 31 - 1"

record helper_state =
  hs_sequence :: nat
  hs_attempts :: "(string \<times> mutation_result) list"

datatype helper_exn = Protocol_Exn string string facts | Py_Exn py_error

definition INVALID_PARAMS :: string where "INVALID_PARAMS = ''invalid_params''"

definition attempt_char :: "char \<Rightarrow> bool" where
  "attempt_char c \<longleftrightarrow> (let n = (of_char c :: nat) in
     (65 \<le> n \<and> n \<le> 90) \<or> (97 \<le> n \<and> n \<le> 122) \<or> (48 \<le> n \<and> n \<le> 57) \<or>
     c \<in> set ''_.:-'')"

definition attempt_chars :: "string \<Rightarrow> bool" where
  "attempt_chars s \<longleftrightarrow> 1 \<le> length s \<and> length s \<le> 128 \<and> list_all attempt_char s"

text \<open>\<open>$\<close> in the pattern also matches before a final newline.\<close>

definition attempt_id_matches :: "string \<Rightarrow> bool" where
  "attempt_id_matches s \<longleftrightarrow> attempt_chars s \<or>
     (s \<noteq> [] \<and> last s = CHR 0x0A \<and> attempt_chars (butlast s))"

definition require_attempt_id :: "pyval \<Rightarrow> helper_exn + string" where
  "require_attempt_id v =
     (let refuse = Inl (Protocol_Exn INVALID_PARAMS ''attempt_id must be a short opaque identifier''
        [(''pattern'', PStr ''^[A-Za-z0-9_.:-]{1,128}$'')]) in
      case v of PStr s \<Rightarrow> if attempt_id_matches s then Inr s else refuse | _ \<Rightarrow> refuse)"

definition require_int :: "pyval \<Rightarrow> string \<Rightarrow> int \<Rightarrow> int \<Rightarrow> helper_exn + int" where
  "require_int v name minimum maximum =
     (case v of
        PInt i \<Rightarrow>
          if minimum \<le> i \<and> i \<le> maximum then Inr i
          else Inl (Protocol_Exn INVALID_PARAMS (name @ '' is outside the range this helper accepts'')
            [(''parameter'', PStr name), (''value'', PInt i), (''minimum'', PInt minimum),
             (''maximum'', PInt maximum)])
      | _ \<Rightarrow> Inl (Protocol_Exn INVALID_PARAMS (name @ '' must be an integer'')
            [(''parameter'', PStr name)]))"

definition optional_name :: "pyval \<Rightarrow> helper_exn + string option" where
  "optional_name v =
     (let refuse = Inl (Protocol_Exn INVALID_PARAMS
        ''expected_interface_name must be a kernel interface name''
        [(''parameter'', PStr ''expected_interface_name'')]) in
      case v of
        PNone \<Rightarrow> Inr None
      | PStr s \<Rightarrow> if 1 \<le> length s \<and> length s \<le> 15 then Inr (Some s) else refuse
      | _ \<Rightarrow> refuse)"

fun mo_str :: "mutation_outcome \<Rightarrow> string" where
  "mo_str MO_Not_Written = ''not_written''"
| "mo_str MO_Written = ''written''"
| "mo_str MO_Write_Unknown = ''write_unknown''"

definition oint :: "int option \<Rightarrow> pyval" where
  "oint v = (case v of None \<Rightarrow> PNone | Some i \<Rightarrow> PInt i)"

definition mutation_as_dict :: "mutation_result \<Rightarrow> facts" where
  "mutation_as_dict r =
     [(''outcome'', PStr (mo_str (mu_outcome r))), (''reason'', PStr (mu_reason r)),
      (''attempt_id'', PStr (mu_attempt_id r)), (''ifindex'', PInt (mu_ifindex r)),
      (''expected_current_mtu'', PInt (mu_expected_current_mtu r)),
      (''desired_mtu'', PInt (mu_desired_mtu r)), (''provider'', PStr ''linux.link''),
      (''provider_version'', PStr ''1''), (''source'', PStr ''rtnetlink''),
      (''method'', PStr ''netlink_rtm_newlink_mtu''),
      (''observed_name'', opt_text (mu_observed_name r)),
      (''observed_mtu'', oint (mu_observed_mtu r)), (''kernel_errno'', oint (mu_kernel_errno r)),
      (''kernel_error'', opt_text (mu_kernel_error r)), (''detail'', PDict (mu_detail r))]"

text \<open>The oldest attempts are forgotten once more than the bound are remembered.\<close>

definition remember ::
  "string \<Rightarrow> mutation_result \<Rightarrow> (string \<times> mutation_result) list \<Rightarrow> (string \<times> mutation_result) list" where
  "remember k r xs =
     (let ys = (if map_of xs k = None then xs @ [(k, r)]
                else map (\<lambda>(k', r'). (k', if k' = k then r else r')) xs) in
      drop (length ys - ATTEMPT_MEMORY) ys)"

definition read_params :: "facts \<Rightarrow> helper_exn + mtu_request" where
  "read_params params =
     bindE (require_attempt_id (get params ''attempt_id'')) (\<lambda>a.
     bindE (require_int (get params ''ifindex'') ''ifindex'' 1 MAX_IFINDEX) (\<lambda>i.
     bindE (require_int (get params ''expected_current_mtu'') ''expected_current_mtu'' 0 MAX_MTU) (\<lambda>e.
     bindE (require_int (get params ''desired_mtu'') ''desired_mtu'' 0 MAX_MTU) (\<lambda>d.
     bindE (optional_name (get params ''expected_interface_name'')) (\<lambda>n.
       Inr \<lparr>mq_attempt_id = a, mq_ifindex = i, mq_expected = e, mq_desired = d, mq_name = n\<rparr>)))))"

definition service_set_mtu ::
  "'h link_env \<Rightarrow> facts \<Rightarrow> helper_state \<times> 'h \<Rightarrow> (helper_exn + facts) \<times> helper_state \<times> 'h" where
  "service_set_mtu K params st =
     (case st of (hs, h) \<Rightarrow>
     (case read_params params of
        Inl e \<Rightarrow> (Inl e, hs, h)
      | Inr q \<Rightarrow>
         (case map_of (hs_attempts hs) (mq_attempt_id q) of
            Some r \<Rightarrow> (Inr (mutation_as_dict r @ [(''replayed'', PBool True)]), hs, h)
          | None \<Rightarrow>
             (case set_mtu K q (hs_sequence hs) h of
                (Inl e, s', h') \<Rightarrow> (Inl (Py_Exn e), hs\<lparr>hs_sequence := s'\<rparr>, h')
              | (Inr r, s', h') \<Rightarrow>
                  (Inr (mutation_as_dict r @ [(''replayed'', PBool False)]),
                   \<lparr>hs_sequence = s',
                    hs_attempts = remember (mq_attempt_id q) r (hs_attempts hs)\<rparr>, h')))))"

section \<open>The agent's write\<close>

text \<open>
  What becomes of one call to the helper: the request never left this process, it left and was
  never acted on, it was acted on and the answer did not arrive, or it was answered.
\<close>

datatype delivery = Not_Sent string | Sent_Unread string | Answer_Lost string | Answered

record helper_error =
  he_code :: string
  he_message :: string
  he_detail :: facts
  he_dispatched :: bool

definition call_helper ::
  "delivery \<Rightarrow> 'h link_env \<Rightarrow> facts \<Rightarrow> helper_state \<times> 'h \<Rightarrow> (helper_error + facts) \<times> helper_state \<times> 'h" where
  "call_helper dl K params st =
     (let failed = (\<lambda>code dispatched. Inl \<lparr>he_code = code, he_message = [], he_detail = [],
                                            he_dispatched = dispatched\<rparr>) in
      case dl of
        Not_Sent code \<Rightarrow> (failed code False, st)
      | Sent_Unread code \<Rightarrow> (failed code True, st)
      | Answer_Lost code \<Rightarrow> (failed code True, snd (service_set_mtu K params st))
      | Answered \<Rightarrow>
         (case service_set_mtu K params st of
            (Inr d, st') \<Rightarrow> (Inr d, st')
          | (Inl (Protocol_Exn code message detail), st') \<Rightarrow>
              (Inl \<lparr>he_code = code, he_message = message, he_detail = detail, he_dispatched = True\<rparr>, st')
          | (Inl (Py_Exn _), st') \<Rightarrow> (failed ''internal_error'' True, st')))"

definition client_params :: "mtu_request \<Rightarrow> facts" where
  "client_params q =
     [(''attempt_id'', PStr (mq_attempt_id q)), (''ifindex'', PInt (mq_ifindex q)),
      (''expected_current_mtu'', PInt (mq_expected q)), (''desired_mtu'', PInt (mq_desired q))] @
     (case mq_name q of None \<Rightarrow> [] | Some n \<Rightarrow> [(''expected_interface_name'', PStr n)])"

definition agent_set_interface_mtu ::
  "delivery \<Rightarrow> 'h link_env \<Rightarrow> string \<Rightarrow> mtu_request \<Rightarrow> helper_state \<times> 'h \<Rightarrow> facts \<times> helper_state \<times> 'h" where
  "agent_set_interface_mtu dl K sock q st =
     (case call_helper dl K (client_params q) st of
        (Inr d, st') \<Rightarrow> (d, st')
      | (Inl e, st') \<Rightarrow>
         (let outcome = (if he_dispatched e then MO_Write_Unknown else MO_Not_Written) in
          ([(''outcome'', PStr (mo_str outcome)), (''reason'', PStr (he_code e)),
            (''attempt_id'', PStr (mq_attempt_id q)), (''ifindex'', PInt (mq_ifindex q)),
            (''expected_current_mtu'', PInt (mq_expected q)), (''desired_mtu'', PInt (mq_desired q)),
            (''provider'', PNone), (''provider_version'', PNone),
            (''method'', PStr ''network.interface.set_mtu''), (''observed_name'', PNone),
            (''observed_mtu'', PNone), (''kernel_errno'', PNone), (''kernel_error'', PNone),
            (''detail'', PDict [(''helper_error'', PDict [(''code'', PStr (he_code e)),
                 (''message'', PStr (he_message e)), (''detail'', PDict (he_detail e))]),
               (''helper_socket'', PStr sock), (''dispatched'', PBool (he_dispatched e))])], st')))"

text \<open>The outcome a mutation's document states.\<close>

definition states_outcome :: "facts \<Rightarrow> mutation_outcome \<Rightarrow> bool" where
  "states_outcome d w \<longleftrightarrow> get d ''outcome'' = PStr (mo_str w)"

section \<open>The contract of a compare-and-set writer\<close>

text \<open>
  \<open>run k q s\<close> attempts request \<open>q\<close> in environment \<open>k\<close> and answers with a document; an attempt
  whose identifier is \<open>fresh\<close> states an outcome that is true of the host.
\<close>

locale cas_writer =
  fixes run :: "'k \<Rightarrow> mtu_request \<Rightarrow> 's \<Rightarrow> facts \<times> 's"
    and ok :: "'k \<Rightarrow> ('s \<Rightarrow> int \<rightharpoonup> nat) \<Rightarrow> bool"
    and fresh :: "mtu_request \<Rightarrow> 's \<Rightarrow> bool"
  assumes truthful: "ok k mtu_of \<Longrightarrow> fresh q s \<Longrightarrow> run k q s = (d, s') \<Longrightarrow>
      \<exists>w. states_outcome d w \<and> outcome_true w q (mtu_of s) (mtu_of s')"
begin

lemma at_most_two_values:
  assumes "ok k mtu_of" "fresh q s" "run k q s = (d, s')"
  shows "mtu_of s' = mtu_of s \<or>
    mtu_of s (mq_ifindex q) = Some (nat (mq_expected q)) \<and>
    mtu_of s' = (mtu_of s)(mq_ifindex q \<mapsto> nat (mq_desired q)) \<and>
    MIN_MTU \<le> mq_desired q \<and> mq_desired q \<le> MAX_MTU"
proof -
  obtain w where w: "outcome_true w q (mtu_of s) (mtu_of s')"
    using truthful [OF assms] by blast
  then show ?thesis by (cases w) (auto simp: outcome_true_def Let_def)
qed

lemma others_untouched:
  assumes "ok k mtu_of" "fresh q s" "run k q s = (d, s')" "j \<noteq> mq_ifindex q"
  shows "mtu_of s' j = mtu_of s j"
  using at_most_two_values [OF assms(1-3)] assms(4) by auto

lemma only_from_expected:
  assumes "ok k mtu_of" "fresh q s" "run k q s = (d, s')"
    and "mtu_of s (mq_ifindex q) \<noteq> Some (nat (mq_expected q))"
  shows "mtu_of s' = mtu_of s"
  using at_most_two_values [OF assms(1-3)] assms(4) by auto

lemma stated:
  assumes "ok k mtu_of" "fresh q s" "run k q s = (d, s')" "states_outcome d w"
  shows "outcome_true w q (mtu_of s) (mtu_of s')"
proof -
  obtain v where v: "states_outcome d v" "outcome_true v q (mtu_of s) (mtu_of s')"
    using truthful [OF assms(1-3)] by blast
  with assms(4) have "w = v" by (cases v; cases w) (auto simp: states_outcome_def)
  with v(2) show ?thesis by simp
qed

text \<open>A reversal restores the value it was made to restore: writing and then undoing leaves the
  host as it was.\<close>

lemma undo:
  assumes "ok k mtu_of" "fresh q s" "run k q s = (d, s1)" "states_outcome d MO_Written"
    and "ok k' mtu_of" "fresh q' s1" "run k' q' s1 = (d', s2)" "states_outcome d' MO_Written"
    and "mq_ifindex q' = mq_ifindex q" "mq_desired q' = mq_expected q"
  shows "mtu_of s2 = mtu_of s"
  using stated [OF assms(1-4)] stated [OF assms(5-8)] assms(9,10)
  by (simp add: outcome_true_def Let_def fun_upd_idem)

end

section \<open>The contract on the agent's write\<close>

lemma get_client_params:
  "get (client_params q) ''attempt_id'' = PStr (mq_attempt_id q)"
  "get (client_params q) ''ifindex'' = PInt (mq_ifindex q)"
  "get (client_params q) ''expected_current_mtu'' = PInt (mq_expected q)"
  "get (client_params q) ''desired_mtu'' = PInt (mq_desired q)"
  "get (client_params q) ''expected_interface_name'' =
     (case mq_name q of None \<Rightarrow> PNone | Some n \<Rightarrow> PStr n)"
  by (simp_all add: client_params_def get_def split: option.split)

lemma require_simps:
  "require_attempt_id v = Inr a \<longleftrightarrow> v = PStr a \<and> attempt_id_matches a"
  "require_int v name lo hi = Inr i \<longleftrightarrow> v = PInt i \<and> lo \<le> i \<and> i \<le> hi"
  "optional_name v = Inr n \<longleftrightarrow> (case n of None \<Rightarrow> v = PNone
     | Some s \<Rightarrow> v = PStr s \<and> 1 \<le> length s \<and> length s \<le> 15)"
  by (cases v; auto simp: require_attempt_id_def require_int_def optional_name_def Let_def
      split: option.splits)+

text \<open>What the client packs, the service reads back.\<close>

lemma optional_name_read_back:
  "optional_name (case n of None \<Rightarrow> PNone | Some s \<Rightarrow> PStr s) = Inr n' \<Longrightarrow> n' = n"
  by (cases n; cases n') (simp_all add: require_simps)

lemma params_read_back:
  assumes "read_params (client_params q) = Inr q'"
  shows "q' = q"
proof -
  from assms [unfolded read_params_def get_client_params, unfolded bindE_Inr]
  obtain a i e d n where parts: "require_attempt_id (PStr (mq_attempt_id q)) = Inr a"
    "require_int (PInt (mq_ifindex q)) ''ifindex'' 1 MAX_IFINDEX = Inr i"
    "require_int (PInt (mq_expected q)) ''expected_current_mtu'' 0 MAX_MTU = Inr e"
    "require_int (PInt (mq_desired q)) ''desired_mtu'' 0 MAX_MTU = Inr d"
    "optional_name (case mq_name q of None \<Rightarrow> PNone | Some s \<Rightarrow> PStr s) = Inr n"
    and q': "Inr \<lparr>mq_attempt_id = a, mq_ifindex = i, mq_expected = e, mq_desired = d, mq_name = n\<rparr>
      = (Inr q' :: helper_exn + mtu_request)"
    by (elim exE conjE) (rule that)
  have "a = mq_attempt_id q" "i = mq_ifindex q" "e = mq_expected q" "d = mq_desired q"
    using parts(1-4) [unfolded require_simps(1,2) pyval.inject] by simp_all
  with optional_name_read_back [OF parts(5)] q' show ?thesis by (cases q) simp
qed

definition agent_fresh :: "mtu_request \<Rightarrow> helper_state \<times> 'h \<Rightarrow> bool" where
  "agent_fresh q st \<longleftrightarrow> map_of (hs_attempts (fst st)) (mq_attempt_id q) = None"

definition agent_ok ::
  "delivery \<times> 'h link_env \<times> string \<Rightarrow> (helper_state \<times> 'h \<Rightarrow> int \<rightharpoonup> nat) \<Rightarrow> bool" where
  "agent_ok k mtu_of \<longleftrightarrow> (\<exists>m. kernel_ok (fst (snd k)) m \<and> mtu_of = m \<circ> snd)"

definition agent_run ::
  "delivery \<times> 'h link_env \<times> string \<Rightarrow> mtu_request \<Rightarrow> helper_state \<times> 'h \<Rightarrow> facts \<times> helper_state \<times> 'h" where
  "agent_run k q st = (case k of (dl, K, sock) \<Rightarrow> agent_set_interface_mtu dl K sock q st)"

lemma outcome_same: "outcome_true MO_Write_Unknown q m m" "outcome_true MO_Not_Written q m m"
  by (simp_all add: outcome_true_def)

text \<open>What the service's answer, or the exception it raises, stands for.\<close>

definition answer_states :: "helper_exn + facts \<Rightarrow> mutation_outcome \<Rightarrow> bool" where
  "answer_states r w \<longleftrightarrow> (case r of Inl _ \<Rightarrow> w = MO_Write_Unknown | Inr d \<Rightarrow> states_outcome d w)"

lemma mutation_states:
  "mu_outcome r = w \<Longrightarrow> states_outcome (mutation_as_dict r @ [(''replayed'', b)]) w"
  by (simp add: states_outcome_def mutation_as_dict_def get_def)

lemma service_truthful:
  assumes "kernel_ok K m" "map_of (hs_attempts hs) (mq_attempt_id q) = None"
    and "service_set_mtu K (client_params q) (hs, h) = (r, hs', h')"
  shows "\<exists>w. answer_states r w \<and> outcome_true w q (m h) (m h')"
proof (cases "read_params (client_params q)")
  case (Inl e)
  with assms(3) show ?thesis
    by (auto simp: service_set_mtu_def answer_states_def outcome_same)
next
  case (Inr q')
  with params_read_back have q: "q' = q" by blast
  obtain x s1 h1 where x: "set_mtu K q (hs_sequence hs) h = (x, s1, h1)"
    by (cases "set_mtu K q (hs_sequence hs) h") auto
  note t = set_mtu_outcome_true [OF assms(1) x]
  have "answer_states r (stated_outcome x) \<and> h' = h1"
    using assms(2,3) Inr q x
    by (cases x) (auto simp: service_set_mtu_def answer_states_def stated_outcome_def
        intro: mutation_states)
  with t show ?thesis by blast
qed

lemma agent_truthful:
  assumes "kernel_ok K m" "agent_fresh q st" "agent_set_interface_mtu dl K sock q st = (d, st')"
  shows "\<exists>w. states_outcome d w \<and> outcome_true w q (m (snd st)) (m (snd st'))"
proof -
  obtain hs h where st: "st = (hs, h)" by (cases st)
  obtain r hs' h' where r: "service_set_mtu K (client_params q) (hs, h) = (r, hs', h')"
    by (cases "service_set_mtu K (client_params q) (hs, h)") auto
  obtain w where w: "answer_states r w" "outcome_true w q (m h) (m h')"
    using service_truthful [OF assms(1) _ r] assms(2) st by (auto simp: agent_fresh_def)
  from w(2) have unknown: "outcome_true MO_Write_Unknown q (m h) (m h')"
    by (cases w) (auto simp: outcome_true_def Let_def)
  show ?thesis
  proof (cases dl)
    case Answered
    show ?thesis
    proof (cases r)
      case (Inr f)
      with w r assms(3) Answered st show ?thesis
        by (auto simp: agent_set_interface_mtu_def call_helper_def answer_states_def Let_def)
    next
      case (Inl e)
      with unknown r assms(3) Answered st show ?thesis
        by (cases e) (auto simp: agent_set_interface_mtu_def call_helper_def states_outcome_def
            get_def Let_def intro!: exI [of _ MO_Write_Unknown])
    qed
  qed (use assms(3) st r unknown in
      \<open>auto simp: agent_set_interface_mtu_def call_helper_def states_outcome_def get_def Let_def
        outcome_same intro: exI [of _ MO_Write_Unknown] exI [of _ MO_Not_Written]\<close>)
qed

interpretation agent_write: cas_writer agent_run agent_ok agent_fresh
proof unfold_locales
  fix k :: "delivery \<times> 'h link_env \<times> string" and mtu_of q s d s'
  assume a: "agent_ok k mtu_of" "agent_fresh q s" "agent_run k q s = (d, s')"
  obtain dl K sock where k: "k = (dl, K, sock)" by (cases k) auto
  from a(1) k obtain m where m: "kernel_ok K m" "mtu_of = m \<circ> snd" by (auto simp: agent_ok_def)
  from a(3) k have "agent_set_interface_mtu dl K sock q s = (d, s')" by (simp add: agent_run_def)
  from agent_truthful [OF m(1) a(2) this] m(2)
  show "\<exists>w. states_outcome d w \<and> outcome_true w q (mtu_of s) (mtu_of s')" by simp
qed

section \<open>Properties\<close>

text \<open>C26. What the agent says of a write is true of the host, whichever way the call to the helper
  went. For an attempt the helper has not seen, against a kernel that behaves as rtnetlink
  documents: the document names one outcome and it holds, no other link's MTU moved, a link that
  did not hold the expected value kept its MTU, and one that moved holds the desired value,
  within the helper's bounds.\<close>

theorem agent_write_truthful:
  assumes "kernel_ok K m" and "map_of (hs_attempts hs) (mq_attempt_id q) = None"
    and "agent_set_interface_mtu dl K sock q (hs, h) = (d, hs', h')"
  shows "(\<exists>w. states_outcome d w \<and> outcome_true w q (m h) (m h')) \<and>
    (\<forall>j. m h' j \<noteq> m h j \<longrightarrow> j = mq_ifindex q \<and> m h j = Some (nat (mq_expected q)) \<and>
      m h' j = Some (nat (mq_desired q)) \<and> MIN_MTU \<le> mq_desired q \<and> mq_desired q \<le> MAX_MTU)"
proof (intro conjI allI impI)
  have k: "agent_ok (dl, K, sock) (m \<circ> snd)" "agent_fresh q (hs, h)"
    "agent_run (dl, K, sock) q (hs, h) = (d, hs', h')"
    using assms by (auto simp: agent_ok_def agent_fresh_def agent_run_def)
  show "\<exists>w. states_outcome d w \<and> outcome_true w q (m h) (m h')"
    using agent_write.truthful [OF k] by simp
  note two = agent_write.at_most_two_values [OF k]
  fix j assume "m h' j \<noteq> m h j"
  with two show "j = mq_ifindex q" "m h j = Some (nat (mq_expected q))" "m h' j = Some (nat (mq_desired q))"
    "MIN_MTU \<le> mq_desired q" "mq_desired q \<le> MAX_MTU"
    by (auto split: if_splits)
qed

lemma sample_service:
  "\<exists>r. service_set_mtu ideal_env (client_params sample_request) (\<lparr>hs_sequence = 0, hs_attempts = []\<rparr>, [2 \<mapsto> 1400])
     = (Inr (mutation_as_dict r @ [(''replayed'', PBool False)]),
        \<lparr>hs_sequence = 2, hs_attempts = [(''attempt-1'', r)]\<rparr>, [2 \<mapsto> 1500]) \<and> mu_outcome r = MO_Written"
proof -
  obtain r where r: "set_mtu ideal_env sample_request 0 [2 \<mapsto> 1400] = (Inr r, 2, [2 \<mapsto> 1500])"
    "mu_outcome r = MO_Written"
    using sample_write by blast
  have "attempt_id_matches ''attempt-1''"
    by (simp add: attempt_id_matches_def attempt_chars_def attempt_char_def)
  then have "read_params (client_params sample_request) = Inr sample_request"
    unfolding read_params_def get_client_params
    by (simp add: sample_request_def require_attempt_id_def require_int_def optional_name_def
        MAX_IFINDEX_def MAX_MTU_def)
  then show ?thesis
    using r by (simp add: service_set_mtu_def remember_def ATTEMPT_MEMORY_def) (simp add: sample_request_def)
qed

theorem agent_write_truthful_witness:
  "\<exists>d st w. agent_set_interface_mtu (Answer_Lost ''gone'') ideal_env ''s'' sample_request
       (\<lparr>hs_sequence = 0, hs_attempts = []\<rparr>, [2 \<mapsto> 1400]) = (d, st) \<and>
     states_outcome d w \<and> outcome_true w sample_request [2 \<mapsto> 1400] (snd st) \<and> snd st 2 = Some 1500"
proof -
  obtain r where r: "service_set_mtu ideal_env (client_params sample_request) (\<lparr>hs_sequence = 0, hs_attempts = []\<rparr>, [2 \<mapsto> 1400])
     = (Inr (mutation_as_dict r @ [(''replayed'', PBool False)]),
        \<lparr>hs_sequence = 2, hs_attempts = [(''attempt-1'', r)]\<rparr>, [2 \<mapsto> 1500])"
    using sample_service by blast
  then obtain d where d: "agent_set_interface_mtu (Answer_Lost ''gone'') ideal_env ''s'' sample_request
       (\<lparr>hs_sequence = 0, hs_attempts = []\<rparr>, [2 \<mapsto> 1400]) =
       (d, \<lparr>hs_sequence = 2, hs_attempts = [(''attempt-1'', r)]\<rparr>, [2 \<mapsto> 1500])"
    by (simp add: agent_set_interface_mtu_def call_helper_def Let_def)
  from agent_write_truthful [OF ideal_kernel_ok _ d] d show ?thesis by auto
qed

text \<open>The memory after a series of further calls, each on its own kernel, host and parameters.\<close>

fun service_calls :: "('h link_env \<times> facts \<times> 'h) list \<Rightarrow> helper_state \<Rightarrow> helper_state" where
  "service_calls [] hs = hs"
| "service_calls ((K, p, h) # cs) hs = service_calls cs (fst (snd (service_set_mtu K p (hs, h))))"

text \<open>An attempt is remembered with at most \<open>n\<close> newer ones behind it.\<close>

definition remembered_behind :: "nat \<Rightarrow> string \<Rightarrow> mutation_result \<Rightarrow> helper_state \<Rightarrow> bool" where
  "remembered_behind n k r hs \<longleftrightarrow>
     (\<exists>ys zs. hs_attempts hs = ys @ (k, r) # zs \<and> k \<notin> fst ` set ys \<and> length zs \<le> n)"

lemma map_of_remembered:
  assumes "remembered_behind n k r hs"
  shows "map_of (hs_attempts hs) k = Some r"
proof -
  obtain ys zs where "hs_attempts hs = ys @ (k, r) # zs" "map_of ys k = None"
    using assms by (auto simp: remembered_behind_def map_of_eq_None_iff)
  then show ?thesis by (simp add: map_add_def)
qed

lemma remember_keeps:
  assumes "xs = ys @ (k, r) # zs" "k \<notin> fst ` set ys" "length zs \<le> n" "Suc n < ATTEMPT_MEMORY"
    and "map_of xs k' = None"
  shows "\<exists>ys zs. remember k' r' xs = ys @ (k, r) # zs \<and> k \<notin> fst ` set ys \<and> length zs \<le> Suc n"
proof -
  define m where "m = length (xs @ [(k', r')]) - ATTEMPT_MEMORY"
  have "m \<le> length ys" using assms(1,3,4) by (simp add: m_def)
  then have "remember k' r' xs = drop m ys @ (k, r) # zs @ [(k', r')]"
    using assms(1,5) by (simp add: remember_def m_def)
  moreover have "k \<notin> fst ` set (drop m ys)" using assms(2) in_set_dropD by fastforce
  ultimately show ?thesis using assms(3) by (intro exI [of _ "drop m ys"] exI) auto
qed

lemma service_keeps:
  assumes "remembered_behind n k r hs" "Suc n < ATTEMPT_MEMORY"
  shows "remembered_behind (Suc n) k r (fst (snd (service_set_mtu K p (hs, h))))"
proof -
  obtain ys zs where xs: "hs_attempts hs = ys @ (k, r) # zs" "k \<notin> fst ` set ys" "length zs \<le> n"
    using assms(1) by (auto simp: remembered_behind_def)
  note keep = remember_keeps [OF xs assms(2)]
  have weaker: "remembered_behind (Suc n) k r hs'" if "hs_attempts hs' = hs_attempts hs" for hs'
    using xs that le_SucI unfolding remembered_behind_def by metis
  show ?thesis
    by (auto simp: service_set_mtu_def weaker split: sum.splits option.splits prod.splits)
      (use keep in \<open>auto simp: remembered_behind_def\<close>)
qed

lemma calls_keep:
  "remembered_behind n k r hs \<Longrightarrow> n + length cs < ATTEMPT_MEMORY \<Longrightarrow>
   remembered_behind (n + length cs) k r (service_calls cs hs)"
proof (induction cs arbitrary: n hs)
  case (Cons c cs)
  obtain K p h where c: "c = (K, p, h)" by (cases c) auto
  show ?case
    using Cons.IH [OF service_keeps [OF Cons.prems(1)]] Cons.prems(2) c by simp
qed simp

text \<open>C35. An attempt is dispatched at most once. After an attempt has been answered, and however
  many further calls up to 255 the helper served since, with any parameters on any hosts, asking
  for the same attempt again, even with different parameters, leaves the host as it is and
  answers with the outcome that was recorded, marked as replayed.\<close>

theorem attempt_dispatched_once:
  assumes "service_set_mtu K p (hs, h) = (Inr d, hs', h')" "length cs < ATTEMPT_MEMORY"
    and "read_params p = Inr q" "read_params p' = Inr q'" "mq_attempt_id q' = mq_attempt_id q"
    and "map_of (hs_attempts hs) (mq_attempt_id q) = None"
  shows "\<exists>r. d = mutation_as_dict r @ [(''replayed'', PBool False)] \<and>
    service_set_mtu K' p' (service_calls cs hs', g) =
      (Inr (mutation_as_dict r @ [(''replayed'', PBool True)]), service_calls cs hs', g)"
proof -
  obtain r where r: "d = mutation_as_dict r @ [(''replayed'', PBool False)]"
    "hs_attempts hs' = remember (mq_attempt_id q) r (hs_attempts hs)"
    using assms(1,3,6) by (auto simp: service_set_mtu_def split: sum.splits prod.splits)
  have "remembered_behind 0 (mq_attempt_id q) r hs'"
  proof -
    have "remember (mq_attempt_id q) r (hs_attempts hs) =
        drop (length (hs_attempts hs) + 1 - ATTEMPT_MEMORY) (hs_attempts hs) @ [(mq_attempt_id q, r)]"
      using assms(6) by (simp add: remember_def ATTEMPT_MEMORY_def)
    moreover have "mq_attempt_id q \<notin> fst ` set (drop n (hs_attempts hs))" for n
      using assms(6) in_set_dropD unfolding map_of_eq_None_iff by fastforce
    ultimately show ?thesis using r(2) by (auto simp: remembered_behind_def)
  qed
  then have "map_of (hs_attempts (service_calls cs hs')) (mq_attempt_id q) = Some r"
    using calls_keep [of 0] assms(2) map_of_remembered by fastforce
  with assms(4,5) r(1) show ?thesis by (intro exI [of _ r]) (simp add: service_set_mtu_def)
qed

theorem attempt_dispatched_once_witness:
  "\<exists>d hs h r. service_set_mtu ideal_env (client_params sample_request)
      (\<lparr>hs_sequence = 0, hs_attempts = []\<rparr>, [2 \<mapsto> 1400]) = (Inr d, hs, h) \<and>
    service_set_mtu ideal_env (client_params sample_request) (hs, [2 \<mapsto> 1400]) =
      (Inr (mutation_as_dict r @ [(''replayed'', PBool True)]), hs, [2 \<mapsto> 1400])"
proof -
  obtain r where r: "service_set_mtu ideal_env (client_params sample_request) (\<lparr>hs_sequence = 0, hs_attempts = []\<rparr>, [2 \<mapsto> 1400])
     = (Inr (mutation_as_dict r @ [(''replayed'', PBool False)]),
        \<lparr>hs_sequence = 2, hs_attempts = [(''attempt-1'', r)]\<rparr>, [2 \<mapsto> 1500])"
    using sample_service by blast
  have q: "read_params (client_params sample_request) = Inr sample_request"
  proof (cases "read_params (client_params sample_request)")
    case (Inl e) with r show ?thesis by (simp add: service_set_mtu_def)
  next
    case (Inr q) with params_read_back show ?thesis by blast
  qed
  from attempt_dispatched_once [OF r _ q q refl, where cs = "[]" and g = "[2 \<mapsto> 1400]" and K' = ideal_env]
  show ?thesis using r by (simp add: ATTEMPT_MEMORY_def) blast
qed

end
