(* ===== verification/Host_Guard.thy ===== *)
theory Host_Guard
  imports Helper_Service Guard_Model
begin

text \<open>
  The host side of the connection guard: \<open>src/localplane/agent/guard.py\<close>. The registry's
  operations (arm, disarm, status, fire, shutdown) are functions on its state; the guarded write
  is a parameter, as it is in the code, and the timers that call \<open>_fire\<close> are the steps of a
  transition system. Moments are microseconds, and \<open>stamp\<close> renders one, as \<open>_stamp\<close> does.
\<close>

section \<open>State\<close>

definition MAX_WINDOW_S :: int where "MAX_WINDOW_S = 600"
definition MIN_WINDOW_S :: int where "MIN_WINDOW_S = 5"
definition SETTLED_MEMORY :: nat where "SETTLED_MEMORY = 64"
definition LOST :: string where "LOST = ''lost''"

lemmas guard_bounds = MAX_WINDOW_S_def MIN_WINDOW_S_def SETTLED_MEMORY_def

definition ARMING_REFUSED_WINDOW :: string where
  "ARMING_REFUSED_WINDOW = ''guard_window_out_of_range''"
definition ARMING_REFUSED_TARGET_HELD :: string where
  "ARMING_REFUSED_TARGET_HELD = ''guard_already_armed_for_target''"
definition ARMING_REFUSED_DUPLICATE :: string where
  "ARMING_REFUSED_DUPLICATE = ''guard_already_armed''"
definition ARMING_REFUSED_NOTHING_TO_REVERT :: string where
  "ARMING_REFUSED_NOTHING_TO_REVERT = ''guard_reversal_would_change_nothing''"

datatype held_phase = Phase_Armed | Phase_Disarmed | Phase_Fired

fun held_phase_str :: "held_phase \<Rightarrow> string" where
  "held_phase_str Phase_Armed = ''armed''"
| "held_phase_str Phase_Disarmed = ''disarmed''"
| "held_phase_str Phase_Fired = ''fired''"

record guard =
  gu_guard_id :: string
  gu_attempt_id :: string
  gu_ifindex :: int
  gu_name :: "string option"
  gu_guarded_mtu :: int
  gu_restore_mtu :: int
  gu_window_s :: int
  gu_armed_at :: int
  gu_expires_at :: int
  gu_phase :: held_phase
  gu_fired_at :: "int option"
  gu_mutation :: "facts option"
  gu_timer :: bool

record registry =
  gr_holder_id :: string
  gr_armed :: "(string \<times> guard) list"
  gr_settled :: "(string \<times> guard) list"

datatype guard_refusal = Guard_Refusal string facts

text \<open>What a caller asks the registry to hold.\<close>

record arming =
  am_guard_id :: string
  am_attempt_id :: string
  am_ifindex :: int
  am_name :: "string option"
  am_guarded_mtu :: int
  am_restore_mtu :: int
  am_window_s :: int

definition guard_report_of :: "(int \<Rightarrow> string) \<Rightarrow> string \<Rightarrow> guard \<Rightarrow> facts" where
  "guard_report_of stamp holder g =
     [(''guard_id'', PStr (gu_guard_id g)), (''phase'', PStr (held_phase_str (gu_phase g))),
      (''holder_id'', PStr holder), (''attempt_id'', PStr (gu_attempt_id g)),
      (''ifindex'', PInt (gu_ifindex g)), (''guarded_mtu'', PInt (gu_guarded_mtu g)),
      (''restore_mtu'', PInt (gu_restore_mtu g)), (''window_s'', PInt (gu_window_s g)),
      (''armed_at'', PStr (stamp (gu_armed_at g))),
      (''expires_at'', PStr (stamp (gu_expires_at g))),
      (''fired_at'', opt_text (map_option stamp (gu_fired_at g))),
      (''mutation'', (case gu_mutation g of None \<Rightarrow> PNone | Some d \<Rightarrow> PDict d))]"

definition lost_report :: "string \<Rightarrow> string \<Rightarrow> facts" where
  "lost_report guard_id holder =
     [(''guard_id'', PStr guard_id), (''phase'', PStr LOST), (''holder_id'', PStr holder),
      (''attempt_id'', PNone), (''ifindex'', PNone), (''guarded_mtu'', PNone),
      (''restore_mtu'', PNone), (''window_s'', PNone), (''armed_at'', PNone),
      (''expires_at'', PNone), (''fired_at'', PNone), (''mutation'', PNone)]"

section \<open>Operations\<close>

definition without :: "string \<Rightarrow> (string \<times> 'a) list \<Rightarrow> (string \<times> 'a) list" where
  "without k xs = filter (\<lambda>(k', _). k' \<noteq> k) xs"

text \<open>Assigning to a key of a dict keeps its place, or adds it at the end.\<close>

definition dict_set :: "string \<Rightarrow> 'a \<Rightarrow> (string \<times> 'a) list \<Rightarrow> (string \<times> 'a) list" where
  "dict_set k v xs =
     (if map_of xs k = None then xs @ [(k, v)]
      else map (\<lambda>(k', v'). (k', if k' = k then v else v')) xs)"

definition settle_guard :: "guard \<Rightarrow> registry \<Rightarrow> registry" where
  "settle_guard g r =
     (let ys = dict_set (gu_guard_id g) g (gr_settled r) in
      r\<lparr>gr_armed := without (gu_guard_id g) (gr_armed r),
        gr_settled := drop (length ys - SETTLED_MEMORY) ys\<rparr>)"

text \<open>When a window opened now closes.\<close>

definition deadline :: "int \<Rightarrow> arming \<Rightarrow> int" where
  "deadline now a = now + am_window_s a * 1000000"

definition new_guard :: "int \<Rightarrow> arming \<Rightarrow> guard" where
  "new_guard now a =
     \<lparr>gu_guard_id = am_guard_id a, gu_attempt_id = am_attempt_id a, gu_ifindex = am_ifindex a,
      gu_name = am_name a, gu_guarded_mtu = am_guarded_mtu a, gu_restore_mtu = am_restore_mtu a,
      gu_window_s = am_window_s a, gu_armed_at = now, gu_expires_at = deadline now a,
      gu_phase = Phase_Armed, gu_fired_at = None, gu_mutation = None, gu_timer = True\<rparr>"

definition guard_arm ::
  "(int \<Rightarrow> string) \<Rightarrow> int \<Rightarrow> arming \<Rightarrow> registry \<Rightarrow> (guard_refusal + facts) \<times> registry" where
  "guard_arm stamp now a r =
     (if \<not> (MIN_WINDOW_S \<le> am_window_s a \<and> am_window_s a \<le> MAX_WINDOW_S)
      then (Inl (Guard_Refusal ARMING_REFUSED_WINDOW
              [(''window_s'', PInt (am_window_s a)), (''min_s'', PInt MIN_WINDOW_S),
               (''max_s'', PInt MAX_WINDOW_S)]), r)
      else if am_guarded_mtu a = am_restore_mtu a
      then (Inl (Guard_Refusal ARMING_REFUSED_NOTHING_TO_REVERT
              [(''guarded_mtu'', PInt (am_guarded_mtu a)),
               (''restore_mtu'', PInt (am_restore_mtu a))]), r)
      else if map_of (gr_armed r) (am_guard_id a) \<noteq> None \<or> map_of (gr_settled r) (am_guard_id a) \<noteq> None
      then (Inl (Guard_Refusal ARMING_REFUSED_DUPLICATE [(''guard_id'', PStr (am_guard_id a))]), r)
      else (case find (\<lambda>g. gu_ifindex g = am_ifindex a) (map snd (gr_armed r)) of
          Some held \<Rightarrow>
            (Inl (Guard_Refusal ARMING_REFUSED_TARGET_HELD
               [(''ifindex'', PInt (am_ifindex a)), (''held_by_guard_id'', PStr (gu_guard_id held))]), r)
        | None \<Rightarrow>
            (let g = new_guard now a in
             (Inr (guard_report_of stamp (gr_holder_id r) g),
              r\<lparr>gr_armed := dict_set (am_guard_id a) g (gr_armed r)\<rparr>))))"

definition guard_disarm :: "(int \<Rightarrow> string) \<Rightarrow> string \<Rightarrow> registry \<Rightarrow> facts \<times> registry" where
  "guard_disarm stamp guard_id r =
     (case map_of (gr_armed r) guard_id of
        Some g \<Rightarrow>
          (let g' = g\<lparr>gu_timer := False, gu_phase := Phase_Disarmed\<rparr> in
           (guard_report_of stamp (gr_holder_id r) g', settle_guard g' r))
      | None \<Rightarrow>
          (case map_of (gr_settled r) guard_id of
             Some g \<Rightarrow> (guard_report_of stamp (gr_holder_id r) g, r)
           | None \<Rightarrow> (lost_report guard_id (gr_holder_id r), r)))"

definition guard_status :: "(int \<Rightarrow> string) \<Rightarrow> string \<Rightarrow> registry \<Rightarrow> facts" where
  "guard_status stamp guard_id r =
     (case map_of (gr_armed r) guard_id of
        Some g \<Rightarrow> guard_report_of stamp (gr_holder_id r) g
      | None \<Rightarrow>
          (case map_of (gr_settled r) guard_id of
             Some g \<Rightarrow> guard_report_of stamp (gr_holder_id r) g
           | None \<Rightarrow> lost_report guard_id (gr_holder_id r)))"

text \<open>The reversal a guard holds, as the request it dispatches.\<close>

definition reversal :: "guard \<Rightarrow> mtu_request" where
  "reversal g = \<lparr>mq_attempt_id = gu_attempt_id g, mq_ifindex = gu_ifindex g,
     mq_expected = gu_guarded_mtu g, mq_desired = gu_restore_mtu g, mq_name = gu_name g\<rparr>"

type_synonym 'w mutator = "mtu_request \<Rightarrow> 'w \<Rightarrow> (py_error + facts) \<times> 'w"

text \<open>A write that raises leaves the guard held, in the phase it was given before.\<close>

definition guard_fire ::
  "'w mutator \<Rightarrow> int \<Rightarrow> string \<Rightarrow> registry \<times> 'w \<Rightarrow> (py_error + unit) \<times> registry \<times> 'w" where
  "guard_fire mutate now guard_id st =
     (case st of (r, w) \<Rightarrow>
     (case map_of (gr_armed r) guard_id of
        None \<Rightarrow> (Inr (), r, w)
      | Some g \<Rightarrow>
          (let g' = g\<lparr>gu_timer := False, gu_phase := Phase_Fired, gu_fired_at := Some now\<rparr> in
           case mutate (reversal g) w of
             (Inl e, w') \<Rightarrow> (Inl e, r\<lparr>gr_armed := dict_set guard_id g' (gr_armed r)\<rparr>, w')
           | (Inr d, w') \<Rightarrow> (Inr (), settle_guard (g'\<lparr>gu_mutation := Some d\<rparr>) r, w'))))"

definition guard_shutdown :: "registry \<Rightarrow> registry" where
  "guard_shutdown r = r\<lparr>gr_armed := map (\<lambda>(k, g). (k, g\<lparr>gu_timer := False\<rparr>)) (gr_armed r)\<rparr>"

definition empty_registry :: "string \<Rightarrow> registry" where
  "empty_registry holder = \<lparr>gr_holder_id = holder, gr_armed = [], gr_settled = []\<rparr>"

section \<open>The registry's invariant\<close>

definition guard_ok :: "string \<times> guard \<Rightarrow> bool" where
  "guard_ok kg \<longleftrightarrow> (case kg of (k, g) \<Rightarrow>
     gu_guard_id g = k \<and> MIN_WINDOW_S \<le> gu_window_s g \<and> gu_window_s g \<le> MAX_WINDOW_S \<and>
     gu_guarded_mtu g \<noteq> gu_restore_mtu g \<and>
     gu_expires_at g = gu_armed_at g + gu_window_s g * 1000000)"

definition registry_inv :: "registry \<Rightarrow> bool" where
  "registry_inv r \<longleftrightarrow>
     list_all guard_ok (gr_armed r) \<and> list_all guard_ok (gr_settled r) \<and>
     distinct (map fst (gr_armed r @ gr_settled r)) \<and>
     distinct (map (gu_ifindex \<circ> snd) (gr_armed r)) \<and>
     length (gr_settled r) \<le> SETTLED_MEMORY \<and>
     list_all (\<lambda>(k, g). gu_phase g \<noteq> Phase_Disarmed \<and> gu_mutation g = None) (gr_armed r) \<and>
     list_all (\<lambda>(k, g). gu_phase g = Phase_Disarmed \<and> gu_mutation g = None \<or>
        gu_phase g = Phase_Fired \<and> gu_mutation g \<noteq> None) (gr_settled r)"

section \<open>The registry, its timers and the host\<close>

text \<open>
  A state of the holding process: the registry, the host it may write to, the moment, the timers
  that have been started and have not run, and, for the statements, what has been accepted
  (with its deadline) and what has been dispatched (with the moment).
\<close>

record 'w guard_system =
  sy_registry :: registry
  sy_world :: 'w
  sy_now :: int
  sy_timers :: "(string \<times> int) list"
  sy_accepted :: "(arming \<times> int) list"
  sy_dispatched :: "(string \<times> mtu_request \<times> int) list"

definition guard_start :: "string \<Rightarrow> 'w \<Rightarrow> int \<Rightarrow> 'w guard_system" where
  "guard_start holder w now = \<lparr>sy_registry = empty_registry holder, sy_world = w, sy_now = now,
     sy_timers = [], sy_accepted = [], sy_dispatched = []\<rparr>"

text \<open>
  Cancelling the timers of some guards. A timer whose deadline has passed may already be
  waiting for the registry's lock, and then it still runs (\<open>late\<close>).
\<close>

definition cancel_timers :: "(string \<Rightarrow> bool) \<Rightarrow> bool \<Rightarrow> int \<Rightarrow> (string \<times> int) list \<Rightarrow> (string \<times> int) list" where
  "cancel_timers held late now ts = filter (\<lambda>(k, t). \<not> held k \<or> late \<and> t \<le> now) ts"

definition has_timer :: "registry \<Rightarrow> string \<Rightarrow> bool" where
  "has_timer r k \<longleftrightarrow> (case map_of (gr_armed r) k of None \<Rightarrow> False | Some g \<Rightarrow> gu_timer g)"

inductive guard_step :: "(int \<Rightarrow> string) \<Rightarrow> 'w mutator \<Rightarrow> 'w guard_system \<Rightarrow> 'w guard_system \<Rightarrow> bool"
  for stamp mutate where
  pass: "sy_now s \<le> t \<Longrightarrow> guard_step stamp mutate s (s\<lparr>sy_now := t\<rparr>)"
| world: "guard_step stamp mutate s (s\<lparr>sy_world := w\<rparr>)"
| arm: "guard_arm stamp (sy_now s) a (sy_registry s) = (Inr rep, r) \<Longrightarrow>
    guard_step stamp mutate s (s\<lparr>sy_registry := r,
      sy_timers := sy_timers s @ [(am_guard_id a, deadline (sy_now s) a)],
      sy_accepted := sy_accepted s @ [(a, deadline (sy_now s) a)]\<rparr>)"
| refuse: "guard_arm stamp (sy_now s) a (sy_registry s) = (Inl e, r) \<Longrightarrow>
    guard_step stamp mutate s (s\<lparr>sy_registry := r\<rparr>)"
| disarm: "guard_disarm stamp k (sy_registry s) = (rep, r) \<Longrightarrow>
    guard_step stamp mutate s (s\<lparr>sy_registry := r,
      sy_timers := cancel_timers (\<lambda>k'. k' = k \<and> has_timer (sy_registry s) k) late (sy_now s) (sy_timers s)\<rparr>)"
| shutdown: "guard_step stamp mutate s (s\<lparr>sy_registry := guard_shutdown (sy_registry s),
      sy_timers := cancel_timers (has_timer (sy_registry s)) late (sy_now s) (sy_timers s)\<rparr>)"
| fire: "(k, t) \<in> set (sy_timers s) \<Longrightarrow> t \<le> sy_now s \<Longrightarrow>
    guard_fire mutate (sy_now s) k (sy_registry s, sy_world s) = (x, r, w) \<Longrightarrow>
    guard_step stamp mutate s (s\<lparr>sy_registry := r, sy_world := w,
      sy_timers := remove1 (k, t) (sy_timers s),
      sy_dispatched := sy_dispatched s @
        (case map_of (gr_armed (sy_registry s)) k of None \<Rightarrow> [] | Some g \<Rightarrow> [(k, reversal g, sy_now s)])\<rparr>)"

inductive guard_reach :: "(int \<Rightarrow> string) \<Rightarrow> 'w mutator \<Rightarrow> 'w guard_system \<Rightarrow> bool"
  for stamp mutate where
  start: "guard_reach stamp mutate (guard_start holder w now)"
| next_step: "guard_reach stamp mutate s \<Longrightarrow> guard_step stamp mutate s s' \<Longrightarrow> guard_reach stamp mutate s'"

section \<open>Lemmas on the registry\<close>

lemma without_simps [simp]:
  "without k [] = []" "without k ((k', v) # xs) = (if k' = k then without k xs else (k', v) # without k xs)"
  by (simp_all add: without_def)

lemma set_without: "set (without k xs) = {(k', v) \<in> set xs. k' \<noteq> k}"
  by (auto simp: without_def)

lemma map_of_without: "map_of (without k xs) k' = (if k' = k then None else map_of xs k')"
  by (induction xs) auto

lemma set_dict_set: "set (dict_set k v xs) \<subseteq> insert (k, v) (set xs)"
  by (auto simp: dict_set_def split: if_splits)

lemma map_of_dict_set: "map_of (dict_set k v xs) k' = (if k' = k then Some v else map_of xs k')"
proof -
  have "map_of (map (\<lambda>(k', v'). (k', if k' = k then v else v')) xs) k' =
      (if k' = k then map_option (\<lambda>_. v) (map_of xs k) else map_of xs k')"
    by (induction xs) auto
  then show ?thesis by (auto simp: dict_set_def map_add_def split: option.splits)
qed

lemma keys_dict_set:
  "map fst (dict_set k v xs) = (if map_of xs k = None then map fst xs @ [k] else map fst xs)"
  by (simp add: dict_set_def case_prod_unfold comp_def)

lemma list_all_without: "list_all P xs \<Longrightarrow> list_all P (without k xs)"
  by (auto simp: list_all_iff set_without)

lemma list_all_dict_set: "list_all P xs \<Longrightarrow> P (k, v) \<Longrightarrow> list_all P (dict_set k v xs)"
  using set_dict_set [of k v xs] by (auto simp: list_all_iff)

lemma list_all_drop: "list_all P xs \<Longrightarrow> list_all P (drop n xs)"
  by (auto simp: list_all_iff dest: in_set_dropD)

lemma keys_without: "map fst (without k xs) = filter (\<lambda>k'. k' \<noteq> k) (map fst xs)"
  by (induction xs) auto

lemma distinct_ifindex_without:
  "distinct (map (gu_ifindex \<circ> snd) xs) \<Longrightarrow> distinct (map (gu_ifindex \<circ> snd) (without k xs))"
  by (induction xs) (auto simp: set_without)

lemma inv_armed:
  assumes "registry_inv r" "map_of (gr_armed r) k = Some g"
  shows "guard_ok (k, g)" "gu_guard_id g = k" "map_of (gr_settled r) k = None"
    "gu_phase g \<noteq> Phase_Disarmed" "gu_mutation g = None"
proof -
  from assms(2) have m: "(k, g) \<in> set (gr_armed r)" by (rule map_of_SomeD)
  with assms(1) show ok: "guard_ok (k, g)" and "gu_phase g \<noteq> Phase_Disarmed" "gu_mutation g = None"
    by (auto simp: registry_inv_def list_all_iff)
  from ok show "gu_guard_id g = k" by (simp add: guard_ok_def)
  have "k \<in> fst ` set (gr_armed r)" using m by force
  with assms(1) show "map_of (gr_settled r) k = None"
    by (auto simp: registry_inv_def map_of_eq_None_iff)
qed

text \<open>Settling a held guard, in whichever settled phase, keeps the invariant.\<close>

lemma settle_inv:
  assumes "registry_inv r" "map_of (gr_armed r) k = Some g"
    and "guard_ok (k, g')" "gu_phase g' = Phase_Disarmed \<and> gu_mutation g' = None \<or>
        gu_phase g' = Phase_Fired \<and> gu_mutation g' \<noteq> None"
  shows "registry_inv (settle_guard g' r)"
proof -
  have id: "gu_guard_id g' = k" using assms(3) by (simp add: guard_ok_def)
  note a = inv_armed [OF assms(1,2)]
  define n where "n = Suc (length (gr_settled r)) - SETTLED_MEMORY"
  have ys: "dict_set k g' (gr_settled r) = gr_settled r @ [(k, g')]"
    using a(3) by (simp add: dict_set_def)
  define ds where "ds = drop n (gr_settled r)"
  have sub: "set ds \<subseteq> set (gr_settled r)" unfolding ds_def by (rule set_drop_subset)
  have len: "length ds < SETTLED_MEMORY" "n \<le> length (gr_settled r)"
    by (simp_all add: ds_def n_def SETTLED_MEMORY_def)
  have dist: "distinct (map fst ds)" "distinct (map fst (gr_armed r))"
      "fst ` set (gr_armed r) \<inter> fst ` set ds = {}"
    using assms(1) sub by (auto simp: registry_inv_def ds_def drop_map [symmetric])
  have k: "k \<notin> fst ` set ds" using a(3) sub unfolding map_of_eq_None_iff by blast
  have "settle_guard g' r = r\<lparr>gr_armed := without k (gr_armed r), gr_settled := ds @ [(k, g')]\<rparr>"
    using len(2) by (simp add: settle_guard_def id ys ds_def n_def Let_def)
  moreover have "list_all P ds" if "list_all P (gr_settled r)" for P
    using that sub by (auto simp: list_all_iff)
  moreover have "distinct (map fst (without k (gr_armed r) @ ds @ [(k, g')]))"
    using dist k by (auto simp: keys_without set_without)
  ultimately show ?thesis
    using assms len(1) by (simp add: registry_inv_def list_all_without distinct_ifindex_without)
qed

lemma guard_arm_Inr:
  assumes "guard_arm stamp now a r = (Inr rep, r')"
  shows "MIN_WINDOW_S \<le> am_window_s a" "am_window_s a \<le> MAX_WINDOW_S"
    "am_guarded_mtu a \<noteq> am_restore_mtu a" "map_of (gr_armed r) (am_guard_id a) = None"
    "map_of (gr_settled r) (am_guard_id a) = None" "am_ifindex a \<notin> (gu_ifindex \<circ> snd) ` set (gr_armed r)"
    "r' = r\<lparr>gr_armed := gr_armed r @ [(am_guard_id a, new_guard now a)]\<rparr>"
    "rep = guard_report_of stamp (gr_holder_id r) (new_guard now a)"
  using assms
  by (auto simp: guard_arm_def Let_def dict_set_def find_None_iff split: if_splits option.splits)

lemma guard_arm_Inl: "guard_arm stamp now a r = (Inl e, r') \<Longrightarrow> r' = r"
  by (auto simp: guard_arm_def Let_def split: if_splits option.splits)

lemma arm_inv:
  assumes "registry_inv r" "guard_arm stamp now a r = (Inr rep, r')"
  shows "registry_inv r'"
proof -
  note g = guard_arm_Inr [OF assms(2)]
  have "am_guard_id a \<notin> fst ` set (gr_armed r)" "am_guard_id a \<notin> fst ` set (gr_settled r)"
    using g by (simp_all add: map_of_eq_None_iff)
  with g assms(1) show ?thesis
    by (auto simp: registry_inv_def guard_ok_def new_guard_def deadline_def)
qed

lemma guard_disarm_cases:
  assumes "guard_disarm stamp k r = (rep, r')"
  obtains (held) g where "map_of (gr_armed r) k = Some g"
      "r' = settle_guard (g\<lparr>gu_timer := False, gu_phase := Phase_Disarmed\<rparr>) r"
      "rep = guard_report_of stamp (gr_holder_id r) (g\<lparr>gu_timer := False, gu_phase := Phase_Disarmed\<rparr>)"
  | (not_held) "map_of (gr_armed r) k = None" "r' = r"
      "rep = (case map_of (gr_settled r) k of Some g \<Rightarrow> guard_report_of stamp (gr_holder_id r) g
         | None \<Rightarrow> lost_report k (gr_holder_id r))"
  using assms by (auto simp: guard_disarm_def Let_def split: option.splits)

lemma disarm_inv:
  assumes "registry_inv r" "guard_disarm stamp k r = (rep, r')"
  shows "registry_inv r'"
  using assms(2)
proof (cases rule: guard_disarm_cases)
  case (held g)
  show ?thesis unfolding held(2)
    using inv_armed [OF assms(1) held(1)] by (intro settle_inv [OF assms(1) held(1)]) (auto simp: guard_ok_def)
qed (use assms(1) in simp)

lemma guard_fire_cases:
  assumes "guard_fire mutate now k (r, w) = (x, r', w')"
  obtains (nothing) "map_of (gr_armed r) k = None" "x = Inr ()" "r' = r" "w' = w"
  | (raised) g e where "map_of (gr_armed r) k = Some g" "mutate (reversal g) w = (Inl e, w')" "x = Inl e"
      "r' = r\<lparr>gr_armed := dict_set k
         (g\<lparr>gu_timer := False, gu_phase := Phase_Fired, gu_fired_at := Some now\<rparr>) (gr_armed r)\<rparr>"
  | (answered) g d where "map_of (gr_armed r) k = Some g" "mutate (reversal g) w = (Inr d, w')" "x = Inr ()"
      "r' = settle_guard (g\<lparr>gu_timer := False, gu_phase := Phase_Fired, gu_fired_at := Some now,
         gu_mutation := Some d\<rparr>) r"
  using assms by (auto simp: guard_fire_def Let_def split: option.splits sum.splits prod.splits)

text \<open>Replacing a held guard by one for the same link.\<close>

lemma ifindex_dict_set:
  "map_of xs k = Some g \<Longrightarrow> gu_ifindex g' = gu_ifindex g \<Longrightarrow> distinct (map fst xs) \<Longrightarrow>
   map (gu_ifindex \<circ> snd) (dict_set k g' xs) = map (gu_ifindex \<circ> snd) xs"
  by (auto simp: dict_set_def dest!: map_of_SomeD dest: eq_key_imp_eq_value)

lemma fire_inv:
  assumes "registry_inv r" "guard_fire mutate now k (r, w) = (x, r', w')"
  shows "registry_inv r'"
  using assms(2)
proof (cases rule: guard_fire_cases)
  case nothing
  with assms(1) show ?thesis by simp
next
  case (raised g e)
  note a = inv_armed [OF assms(1) raised(1)]
  define g' where "g' = g\<lparr>gu_timer := False, gu_phase := Phase_Fired, gu_fired_at := Some now\<rparr>"
  have "distinct (map fst (gr_armed r))" using assms(1) by (simp add: registry_inv_def)
  note i = ifindex_dict_set [OF raised(1) _ this, of g']
  have "guard_ok (k, g')" "gu_ifindex g' = gu_ifindex g"
    using a by (auto simp: guard_ok_def g'_def)
  moreover have "map fst (dict_set k g' (gr_armed r)) = map fst (gr_armed r)"
    using raised(1) by (simp add: keys_dict_set)
  moreover have "fst ` set (dict_set k g' (gr_armed r)) = fst ` set (gr_armed r)"
    using calculation(3) by (metis list.set_map)
  ultimately show ?thesis
    using assms(1) i a unfolding raised(4) g'_def [symmetric]
    by (simp add: registry_inv_def list_all_dict_set) (simp add: g'_def list_all_dict_set)
next
  case (answered g d)
  show ?thesis unfolding answered(4)
    using inv_armed [OF assms(1) answered(1)]
    by (intro settle_inv [OF assms(1) answered(1)]) (auto simp: guard_ok_def)
qed

lemma shutdown_inv: "registry_inv r \<Longrightarrow> registry_inv (guard_shutdown r)"
  by (auto simp: registry_inv_def guard_shutdown_def list_all_iff guard_ok_def comp_def
      case_prod_unfold)

lemma empty_inv: "registry_inv (empty_registry holder)"
  by (simp add: registry_inv_def empty_registry_def)

section \<open>What every reachable state satisfies\<close>

text \<open>The write an accepted arming asked to be held.\<close>

definition request_of :: "arming \<Rightarrow> mtu_request" where
  "request_of a = \<lparr>mq_attempt_id = am_attempt_id a, mq_ifindex = am_ifindex a,
     mq_expected = am_guarded_mtu a, mq_desired = am_restore_mtu a, mq_name = am_name a\<rparr>"

definition tally :: "string \<Rightarrow> (string \<times> 'a) list \<Rightarrow> nat" where
  "tally k xs = length (filter (\<lambda>x. fst x = k) xs)"

definition accepted_ids :: "'w guard_system \<Rightarrow> (string \<times> int) list" where
  "accepted_ids s = map (\<lambda>(a, t). (am_guard_id a, t)) (sy_accepted s)"

definition backed :: "(arming \<times> int) list \<Rightarrow> string \<Rightarrow> mtu_request \<Rightarrow> bool" where
  "backed accepted k q \<longleftrightarrow> (\<exists>(a, t) \<in> set accepted. am_guard_id a = k \<and> q = request_of a)"

definition trace_inv :: "'w guard_system \<Rightarrow> bool" where
  "trace_inv s \<longleftrightarrow>
     registry_inv (sy_registry s) \<and>
     set (sy_timers s) \<subseteq> set (accepted_ids s) \<and>
     (\<forall>(k, g) \<in> set (gr_armed (sy_registry s)). backed (sy_accepted s) k (reversal g)) \<and>
     (\<forall>(k, q, m) \<in> set (sy_dispatched s).
        backed (sy_accepted s) k q \<and> (\<exists>t \<le> m. (k, t) \<in> set (accepted_ids s))) \<and>
     (\<forall>k. tally k (sy_dispatched s) + tally k (sy_timers s) \<le> tally k (accepted_ids s))"

lemma tally_simps [simp]:
  "tally k [] = 0" "tally k (xs @ ys) = tally k xs + tally k ys"
  "tally k (x # xs) = (if fst x = k then Suc (tally k xs) else tally k xs)"
  by (simp_all add: tally_def)

lemma tally_filter: "tally k (filter P xs) \<le> tally k xs"
  by (induction xs) auto

lemma tally_remove1:
  "x \<in> set xs \<Longrightarrow> tally k xs = tally k (remove1 x xs) + (if fst x = k then 1 else 0)"
  by (induction xs) auto

lemma tally_0: "tally k xs = 0 \<longleftrightarrow> k \<notin> fst ` set xs"
  by (induction xs) auto

lemma distinct_tally: "distinct (map fst xs) \<longleftrightarrow> (\<forall>k. tally k xs \<le> 1)"
proof (induction xs)
  case (Cons x xs)
  have x: "tally (fst x) (x # xs) \<le> 1 \<longleftrightarrow> fst x \<notin> fst ` set xs" by (simp add: tally_0)
  have y: "tally k (x # xs) = tally k xs" if "k \<noteq> fst x" for k using that by simp
  have z: "tally k xs \<le> tally k (x # xs)" for k by simp
  have "(\<forall>k. tally k (x # xs) \<le> 1) \<longleftrightarrow> tally (fst x) (x # xs) \<le> 1 \<and> (\<forall>k. tally k xs \<le> 1)"
    using y z le_trans by metis
  then show ?case using Cons.IH x by simp
qed simp

lemma reversal_new_guard: "reversal (new_guard now a) = request_of a"
  by (simp add: reversal_def new_guard_def request_of_def)

lemma set_armed_settle: "set (gr_armed (settle_guard g r)) \<subseteq> set (gr_armed r)"
  by (auto simp: settle_guard_def set_without Let_def)

lemma reversal_updates [simp]:
  "reversal (g\<lparr>gu_timer := b, gu_phase := p, gu_fired_at := f\<rparr>) = reversal g"
  "reversal (g\<lparr>gu_timer := b\<rparr>) = reversal g"
  by (simp_all add: reversal_def)

text \<open>Every held guard of the registry after a firing was held before it, with the same reversal.\<close>

lemma fire_held:
  assumes "guard_fire mutate now k (r, w) = (x, r', w')" "(j, g) \<in> set (gr_armed r')"
  shows "\<exists>g'. (j, g') \<in> set (gr_armed r) \<and> reversal g = reversal g'"
  using assms(1)
proof (cases rule: guard_fire_cases)
  case nothing
  with assms(2) show ?thesis by blast
next
  case (raised h e)
  have "(k, h) \<in> set (gr_armed r)" using raised(1) by (rule map_of_SomeD)
  moreover have "(j, g) = (k, h\<lparr>gu_timer := False, gu_phase := Phase_Fired, gu_fired_at := Some now\<rparr>) \<or>
      (j, g) \<in> set (gr_armed r)"
    using assms(2) raised(4) set_dict_set by fastforce
  ultimately show ?thesis by (metis Pair_inject reversal_updates(1))
next
  case (answered h d)
  with assms(2) set_armed_settle show ?thesis by blast
qed

lemma trace_inv_cong:
  "trace_inv s \<Longrightarrow> sy_registry s' = sy_registry s \<Longrightarrow> sy_timers s' = sy_timers s \<Longrightarrow>
   sy_accepted s' = sy_accepted s \<Longrightarrow> sy_dispatched s' = sy_dispatched s \<Longrightarrow> trace_inv s'"
  by (simp add: trace_inv_def accepted_ids_def)

text \<open>Replacing the registry by one that holds no other reversal, and dropping timers.\<close>

lemma trace_inv_shrink:
  assumes "trace_inv s" "registry_inv r"
    and "\<And>k g. (k, g) \<in> set (gr_armed r) \<Longrightarrow> \<exists>g'. (k, g') \<in> set (gr_armed (sy_registry s)) \<and> reversal g = reversal g'"
  shows "trace_inv (s\<lparr>sy_registry := r, sy_timers := filter P (sy_timers s)\<rparr>)"
proof -
  have "tally k (sy_dispatched s) + tally k (filter P (sy_timers s)) \<le> tally k (accepted_ids s)" for k
    using assms(1) tally_filter [of k P "sy_timers s"] unfolding trace_inv_def
    by (meson add_left_mono le_trans)
  moreover have "\<forall>(k, g) \<in> set (gr_armed r). backed (sy_accepted s) k (reversal g)"
    using assms(1,3) unfolding trace_inv_def by fastforce
  ultimately show ?thesis
    using assms(1,2) by (auto simp: trace_inv_def accepted_ids_def)
qed

lemma trace_inv_arm:
  assumes "trace_inv s" "guard_arm stamp (sy_now s) a (sy_registry s) = (Inr rep, r)"
  shows "trace_inv (s\<lparr>sy_registry := r,
      sy_timers := sy_timers s @ [(am_guard_id a, deadline (sy_now s) a)],
      sy_accepted := sy_accepted s @ [(a, deadline (sy_now s) a)]\<rparr>)"
proof -
  let ?s' = "s\<lparr>sy_registry := r, sy_timers := sy_timers s @ [(am_guard_id a, deadline (sy_now s) a)],
      sy_accepted := sy_accepted s @ [(a, deadline (sy_now s) a)]\<rparr>"
  have ids: "accepted_ids ?s' = accepted_ids s @ [(am_guard_id a, deadline (sy_now s) a)]"
    by (simp add: accepted_ids_def)
  have more: "backed (sy_accepted s) k q \<Longrightarrow> backed (sy_accepted ?s') k q" for k q
    by (auto simp: backed_def)
  have "registry_inv r" using arm_inv assms by (auto simp: trace_inv_def)
  moreover have "\<forall>(k, g) \<in> set (gr_armed r). backed (sy_accepted ?s') k (reversal g)"
    using assms(1) more unfolding guard_arm_Inr(7) [OF assms(2)] trace_inv_def
    by (auto simp: reversal_new_guard backed_def)
  moreover have "\<forall>(k, q, m) \<in> set (sy_dispatched s). backed (sy_accepted ?s') k q \<and>
      (\<exists>t \<le> m. (k, t) \<in> set (accepted_ids ?s'))"
    using assms(1) more unfolding ids trace_inv_def by fastforce
  ultimately show ?thesis
    using assms(1) ids unfolding trace_inv_def by auto
qed

lemma trace_inv_fire:
  assumes "trace_inv s" "(k, t) \<in> set (sy_timers s)" "t \<le> sy_now s"
    and "guard_fire mutate (sy_now s) k (sy_registry s, sy_world s) = (x, r, w)"
  shows "trace_inv (s\<lparr>sy_registry := r, sy_world := w, sy_timers := remove1 (k, t) (sy_timers s),
      sy_dispatched := sy_dispatched s @ (case map_of (gr_armed (sy_registry s)) k of None \<Rightarrow> []
         | Some g \<Rightarrow> [(k, reversal g, sy_now s)])\<rparr>)"
    (is "trace_inv (s\<lparr>sy_registry := r, sy_world := w, sy_timers := ?ts, sy_dispatched := sy_dispatched s @ ?new\<rparr>)")
proof -
  have inv: "registry_inv r" using assms(1,4) fire_inv by (auto simp: trace_inv_def)
  have held: "\<forall>(k, g) \<in> set (gr_armed r). backed (sy_accepted s) k (reversal g)"
    using assms(1) fire_held [OF assms(4)] unfolding trace_inv_def by fastforce
  have t: "(k, t) \<in> set (accepted_ids s)" using assms(1,2) by (auto simp: trace_inv_def)
  have new: "\<forall>(k, q, m) \<in> set ?new. backed (sy_accepted s) k q \<and> (\<exists>t \<le> m. (k, t) \<in> set (accepted_ids s))"
  proof (cases "map_of (gr_armed (sy_registry s)) k")
    case (Some g)
    then have "(k, g) \<in> set (gr_armed (sy_registry s))" by (rule map_of_SomeD)
    with assms(1) have "backed (sy_accepted s) k (reversal g)"
      unfolding trace_inv_def by blast
    with Some t assms(3) show ?thesis by auto
  qed simp
  have count: "tally j (sy_dispatched s @ ?new) + tally j ?ts \<le> tally j (accepted_ids s)" for j
  proof -
    have "tally j (sy_dispatched s) + tally j (sy_timers s) \<le> tally j (accepted_ids s)"
      using assms(1) by (simp add: trace_inv_def)
    with tally_remove1 [OF assms(2), of j] show ?thesis
      by (auto split: option.splits if_splits)
  qed
  have "set ?ts \<subseteq> set (accepted_ids s)"
    using assms(1) set_remove1_subset [of "(k, t)" "sy_timers s"] by (auto simp: trace_inv_def)
  with assms(1) inv held new count show ?thesis
    unfolding trace_inv_def by (simp add: accepted_ids_def ball_Un del: tally_simps)
qed

lemma disarm_held:
  assumes "guard_disarm stamp k r = (rep, r')"
  shows "set (gr_armed r') \<subseteq> set (gr_armed r)"
  using assms by (cases rule: guard_disarm_cases) (use set_armed_settle in auto)

lemma shutdown_held:
  "(k, g) \<in> set (gr_armed (guard_shutdown r)) \<Longrightarrow> \<exists>g'. (k, g') \<in> set (gr_armed r) \<and> reversal g = reversal g'"
  by (auto simp: guard_shutdown_def)

lemma reach_trace_inv: "guard_reach stamp mutate s \<Longrightarrow> trace_inv s"
proof (induction rule: guard_reach.induct)
  case (start holder w now)
  show ?case
    by (simp add: trace_inv_def guard_start_def empty_inv accepted_ids_def) (simp add: empty_registry_def)
next
  case (next_step s s')
  from next_step.hyps(2) next_step.IH show ?case
  proof cases
    case (refuse a e r)
    with next_step.IH guard_arm_Inl [OF refuse(2)] show ?thesis by (auto elim: trace_inv_cong)
  next
    case (arm a rep r)
    with next_step.IH show ?thesis by (auto intro: trace_inv_arm)
  next
    case (disarm k rep r late)
    have "registry_inv r"
      using next_step.IH disarm_inv [OF _ disarm(2)] by (auto simp: trace_inv_def)
    moreover have "\<exists>g'. (j, g') \<in> set (gr_armed (sy_registry s)) \<and> reversal g = reversal g'"
      if "(j, g) \<in> set (gr_armed r)" for j g
      using that disarm_held [OF disarm(2)] by blast
    ultimately show ?thesis
      unfolding disarm(1) cancel_timers_def by (intro trace_inv_shrink [OF next_step.IH]) blast+
  next
    case (shutdown late)
    have "registry_inv (guard_shutdown (sy_registry s))"
      using next_step.IH shutdown_inv by (auto simp: trace_inv_def)
    then show ?thesis
      unfolding shutdown cancel_timers_def
      by (intro trace_inv_shrink [OF next_step.IH] shutdown_held)
  next
    case (fire k t x r w)
    then show ?thesis using trace_inv_fire [OF next_step.IH fire(2-4)] by simp
  qed (auto elim: trace_inv_cong)
qed

text \<open>A guard the registry released has written nothing: neither held nor as disarmed is a guard
  whose reversal was dispatched, when the write always answers.\<close>

definition unfired :: "registry \<Rightarrow> string \<Rightarrow> bool" where
  "unfired r k \<longleftrightarrow> map_of (gr_armed r) k \<noteq> None \<or>
     (case map_of (gr_settled r) k of None \<Rightarrow> False | Some g \<Rightarrow> gu_phase g = Phase_Disarmed)"

definition quiet_inv :: "'w guard_system \<Rightarrow> bool" where
  "quiet_inv s \<longleftrightarrow> (distinct (map (am_guard_id \<circ> fst) (sy_accepted s)) \<longrightarrow>
     (\<forall>k. unfired (sy_registry s) k \<longrightarrow> k \<notin> fst ` set (sy_dispatched s)))"

lemma map_of_drop:
  assumes "distinct (map fst xs)" "map_of (drop n xs) k = Some v"
  shows "map_of xs k = Some v"
  using assms in_set_dropD by (metis map_of_SomeD map_of_is_SomeI)

lemma settled_of_settle:
  "gr_settled (settle_guard g r) =
     drop (length (dict_set (gu_guard_id g) g (gr_settled r)) - SETTLED_MEMORY)
       (dict_set (gu_guard_id g) g (gr_settled r))"
  by (simp add: settle_guard_def Let_def)

lemma settled_lookup:
  assumes "registry_inv r" "map_of (gr_settled (settle_guard g r)) k = Some h"
    and "map_of (gr_settled r) (gu_guard_id g) = None"
  shows "if k = gu_guard_id g then h = g else map_of (gr_settled r) k = Some h"
proof -
  let ?ys = "gr_settled r @ [(gu_guard_id g, g)]"
  have d: "dict_set (gu_guard_id g) g (gr_settled r) = ?ys"
    using assms(3) by (simp add: dict_set_def)
  have "distinct (map fst ?ys)"
    using assms(1,3) by (auto simp: registry_inv_def map_of_eq_None_iff)
  moreover have "map_of (drop (length ?ys - SETTLED_MEMORY) ?ys) k = Some h"
    using assms(2) by (simp only: settled_of_settle d)
  ultimately have "map_of ?ys k = Some h" by (rule map_of_drop)
  with assms(3) show ?thesis by (auto simp: map_add_def split: option.splits if_splits)
qed

lemma unfired_settle:
  assumes "registry_inv r" "map_of (gr_armed r) k = Some g" "gu_guard_id g' = k"
    and "unfired (settle_guard g' r) j"
  shows "if j = k then gu_phase g' = Phase_Disarmed else unfired r j"
proof -
  have s: "map_of (gr_settled r) k = None" by (rule inv_armed(3) [OF assms(1,2)])
  show ?thesis
    using assms(3,4) s settled_lookup [OF assms(1), of g' j]
    by (auto simp: unfired_def settle_guard_def map_of_without Let_def split: option.splits if_splits)
qed

lemma unfired_arm:
  "guard_arm stamp now a r = (Inr rep, r') \<Longrightarrow> unfired r' j \<Longrightarrow> j = am_guard_id a \<or> unfired r j"
  by (auto dest!: guard_arm_Inr(7) simp: unfired_def map_add_def split: option.splits if_splits)

lemma unfired_disarm:
  assumes "registry_inv r" "guard_disarm stamp k r = (rep, r')" "unfired r' j"
  shows "unfired r j"
  using assms(2)
proof (cases rule: guard_disarm_cases)
  case (held g)
  have "gu_guard_id (g\<lparr>gu_timer := False, gu_phase := Phase_Disarmed\<rparr>) = k"
    using inv_armed(2) [OF assms(1) held(1)] by simp
  from unfired_settle [OF assms(1) held(1) this, of j] assms(3) held show ?thesis
    by (auto simp: unfired_def split: if_splits)
qed (use assms(3) in simp)

lemma unfired_fire:
  assumes "registry_inv r" "guard_fire mutate now k (r, w) = (Inr u, r', w')" "unfired r' j"
  shows "unfired r j \<and> (map_of (gr_armed r) k = None \<or> j \<noteq> k)"
  using assms(2)
proof (cases rule: guard_fire_cases)
  case (answered g d)
  let ?g = "g\<lparr>gu_timer := False, gu_phase := Phase_Fired, gu_fired_at := Some now, gu_mutation := Some d\<rparr>"
  have "gu_guard_id ?g = k" using inv_armed(2) [OF assms(1) answered(1)] by simp
  from unfired_settle [OF assms(1) answered(1) this, of j] assms(3) answered show ?thesis
    by (auto split: if_splits)
qed (use assms(3) in auto)

lemma unfired_shutdown: "unfired (guard_shutdown r) j = unfired r j"
proof -
  have "map_of (map (\<lambda>(k, g). (k, g\<lparr>gu_timer := False\<rparr>)) xs) j = map_option (gu_timer_update (\<lambda>_. False)) (map_of xs j)" for xs
    by (induction xs) auto
  from this [of "gr_armed r"] show ?thesis
    by (cases "map_of (gr_armed r) j") (simp_all add: unfired_def guard_shutdown_def)
qed

lemma dispatched_accepted:
  assumes "trace_inv s" "k \<in> fst ` set (sy_dispatched s)"
  shows "k \<in> set (map (am_guard_id \<circ> fst) (sy_accepted s))"
proof -
  obtain q m where "(k, q, m) \<in> set (sy_dispatched s)" using assms(2) by auto
  with assms(1) have "backed (sy_accepted s) k q" by (auto simp: trace_inv_def)
  then show ?thesis by (force simp: backed_def)
qed

lemma reach_quiet_inv:
  assumes answers: "\<And>q w. \<exists>d w'. mutate q w = (Inr d, w')"
  shows "guard_reach stamp mutate s \<Longrightarrow> quiet_inv s"
proof (induction rule: guard_reach.induct)
  case (start holder w now)
  show ?case by (simp add: quiet_inv_def guard_start_def)
next
  case (next_step s s')
  have t: "trace_inv s" by (rule reach_trace_inv [OF next_step.hyps(1)])
  then have inv: "registry_inv (sy_registry s)" by (simp add: trace_inv_def)
  from next_step.hyps(2) show ?case
  proof cases
    case (refuse a e r)
    with next_step.IH guard_arm_Inl [OF refuse(2)] show ?thesis by (simp add: quiet_inv_def)
  next
    case (arm a rep r)
    have "j \<noteq> am_guard_id a" if "j \<in> fst ` set (sy_dispatched s)"
      "distinct (map (am_guard_id \<circ> fst) (sy_accepted s) @ [am_guard_id a])" for j
      using dispatched_accepted [OF t that(1)] that(2) by (auto simp del: set_map)
    moreover have "distinct (map (am_guard_id \<circ> fst) (sy_accepted s))" if
      "distinct (map (am_guard_id \<circ> fst) (sy_accepted s) @ [am_guard_id a])" using that by simp
    ultimately show ?thesis
      using next_step.IH unfired_arm [OF arm(2)] unfolding arm(1) quiet_inv_def
      by (simp del: set_map) blast
  next
    case (disarm k rep r late)
    with next_step.IH unfired_disarm [OF inv disarm(2)] show ?thesis by (auto simp: quiet_inv_def)
  next
    case (shutdown late)
    with next_step.IH show ?thesis by (simp add: quiet_inv_def unfired_shutdown)
  next
    case (fire k t x r w)
    have "\<exists>u. x = Inr u"
      using fire(4)
    proof (cases rule: guard_fire_cases)
      case (raised g e)
      obtain d w1 where "mutate (reversal g) (sy_world s) = (Inr d, w1)" using answers by blast
      with raised(2) show ?thesis by simp
    qed simp_all
    then obtain u where "guard_fire mutate (sy_now s) k (sy_registry s, sy_world s) = (Inr u, r, w)"
      using fire(4) by blast
    from unfired_fire [OF inv this] next_step.IH show ?thesis
      unfolding fire(1) by (fastforce simp: quiet_inv_def split: option.splits)
  qed (use next_step.IH in \<open>simp_all add: quiet_inv_def\<close>)
qed

section \<open>Properties\<close>


text \<open>A guard that is armed at the start, for the shortest window, and fires when it closes.\<close>

definition sample_arming :: arming where
  "sample_arming = \<lparr>am_guard_id = ''g'', am_attempt_id = ''g-reversal'', am_ifindex = 2,
     am_name = None, am_guarded_mtu = 1500, am_restore_mtu = 1400, am_window_s = 5\<rparr>"

definition sample_mutator :: "nat mutator" where
  "sample_mutator q w = (Inr [(''outcome'', PStr ''written'')], Suc w)"

definition sample_registry :: registry where
  "sample_registry = \<lparr>gr_holder_id = ''h'', gr_armed = [(''g'', new_guard 0 sample_arming)], gr_settled = []\<rparr>"

definition sample_state :: "'w \<Rightarrow> int \<Rightarrow> 'w guard_system" where
  "sample_state w now = \<lparr>sy_registry = sample_registry, sy_world = w, sy_now = now,
     sy_timers = [(''g'', 5000000)], sy_accepted = [(sample_arming, 5000000)], sy_dispatched = []\<rparr>"

lemma sample_deadline: "deadline 0 sample_arming = 5000000" "am_guard_id sample_arming = ''g''"
  by (simp_all add: deadline_def sample_arming_def)

lemma sample_arm:
  "guard_arm stamp 0 sample_arming (empty_registry ''h'') =
     (Inr (guard_report_of stamp ''h'' (new_guard 0 sample_arming)), sample_registry)"
  by (simp add: empty_registry_def sample_registry_def guard_arm_def guard_bounds dict_set_def
      Let_def sample_deadline) (simp add: sample_arming_def)

lemma sample_reach: "0 \<le> now \<Longrightarrow> guard_reach stamp mutate (sample_state w now)"
proof -
  assume now: "0 \<le> now"
  have 0: "guard_reach stamp mutate (guard_start ''h'' w 0)" by (rule start)
  have "guard_step stamp mutate (guard_start ''h'' w 0) (sample_state w 0)"
    using arm [of stamp "guard_start ''h'' w 0" sample_arming, where mutate = mutate] sample_arm [of stamp]
    by (simp add: guard_start_def sample_state_def sample_deadline)
  from next_step [OF 0 this] have 1: "guard_reach stamp mutate (sample_state w 0)" .
  have "guard_step stamp mutate (sample_state w 0) (sample_state w now)"
    using pass [of "sample_state w 0" now] now by (simp add: sample_state_def)
  from next_step [OF 1 this] show ?thesis .
qed

lemma sample_fired:
  "\<exists>s. guard_reach stamp sample_mutator s \<and> sy_accepted s = [(sample_arming, 5000000)] \<and>
     sy_dispatched s = [(''g'', request_of sample_arming, 5000000)]"
proof -
  let ?s = "sample_state (0 :: nat) 5000000"
  obtain x r w where f: "guard_fire sample_mutator (sy_now ?s) ''g'' (sy_registry ?s, sy_world ?s) = (x, r, w)"
    by (rule prod_cases3)
  have "guard_step stamp sample_mutator ?s (?s\<lparr>sy_registry := r, sy_world := w,
      sy_timers := remove1 (''g'', 5000000) (sy_timers ?s), sy_dispatched := sy_dispatched ?s @
        (case map_of (gr_armed (sy_registry ?s)) ''g'' of None \<Rightarrow> [] | Some g \<Rightarrow> [(''g'', reversal g, sy_now ?s)])\<rparr>)"
    by (rule fire [OF _ _ f]) (simp_all add: sample_state_def)
  from next_step [OF sample_reach this] show ?thesis
    by (intro exI conjI, simp) (simp_all add: sample_state_def sample_registry_def reversal_new_guard)
qed


text \<open>A guard reported as released has written nothing. When the guarded write always
  answers and guards were given distinct identifiers, if the registry answers a release with the
  phase disarmed, no reversal of that guard was dispatched before, and none is dispatched by a
  timer that was already waiting: the release leaves nothing held under that identifier.\<close>

theorem released_guard_wrote_nothing:
  assumes "\<And>q w. \<exists>d w'. mutate q w = (Inr d, w')"
    and "guard_reach stamp mutate s" "distinct (map (am_guard_id \<circ> fst) (sy_accepted s))"
    and "guard_disarm stamp k (sy_registry s) = (rep, r)" "get rep ''phase'' = PStr ''disarmed''"
  shows "k \<notin> fst ` set (sy_dispatched s) \<and> guard_fire mutate now k (r, w) = (Inr (), r, w)"
proof -
  have q: "quiet_inv s" by (rule reach_quiet_inv [OF assms(1,2)])
  have inv: "registry_inv (sy_registry s)" using reach_trace_inv [OF assms(2)] by (simp add: trace_inv_def)
  have phase: "get (guard_report_of stamp h g) ''phase'' = PStr (held_phase_str (gu_phase g))" for h g
    by (simp add: guard_report_of_def get_def)
  have "unfired (sy_registry s) k \<and> map_of (gr_armed r) k = None"
    using assms(4)
  proof (cases rule: guard_disarm_cases)
    case (held g)
    then show ?thesis using inv_armed(2) [OF inv held(1)]
      by (simp add: unfired_def settle_guard_def map_of_without Let_def)
  next
    case not_held
    show ?thesis
    proof (cases "map_of (gr_settled (sy_registry s)) k")
      case None
      with not_held assms(5) show ?thesis by (simp add: lost_report_def get_def LOST_def)
    next
      case (Some g)
      with not_held assms(5) have "held_phase_str (gu_phase g) = ''disarmed''" by (simp add: phase)
      then have "gu_phase g = Phase_Disarmed" by (cases "gu_phase g") simp_all
      with Some not_held show ?thesis by (simp add: unfired_def)
    qed
  qed
  with q assms(3) show ?thesis by (simp add: quiet_inv_def guard_fire_def)
qed

theorem released_guard_wrote_nothing_witness:
  "\<exists>rep r. guard_disarm (\<lambda>_. ''t'') ''g'' sample_registry = (rep, r) \<and> get rep ''phase'' = PStr ''disarmed'' \<and>
     ''g'' \<notin> fst ` set (sy_dispatched (sample_state (0 :: nat) 1)) \<and>
     guard_fire sample_mutator 7000000 ''g'' (r, 3) = (Inr (), r, 3)"
proof -
  obtain rep r where d: "guard_disarm (\<lambda>_. ''t'') ''g'' (sy_registry (sample_state (0 :: nat) 1)) = (rep, r)"
    by (rule prod.exhaust)
  then have phase: "get rep ''phase'' = PStr ''disarmed''"
    by (auto simp: sample_state_def sample_registry_def guard_disarm_def guard_report_of_def get_def Let_def)
  have ans: "\<And>q w. \<exists>d w'. sample_mutator q w = (Inr d, w')" by (simp add: sample_mutator_def)
  have dist: "distinct (map (am_guard_id \<circ> fst) (sy_accepted (sample_state (0 :: nat) 1)))" by (simp add: sample_state_def)
  from released_guard_wrote_nothing [OF ans sample_reach dist d phase] d phase show ?thesis
    by (simp add: sample_state_def)
qed

text \<open>C40. The registry keeps its bounds. In every reachable state at most one guard is held per link
  and one entry is kept per identifier, at most 64 settled guards are remembered, every guard has
  a window of 5 to 600 seconds, closes that long after it was armed and would write a value that
  differs from the one it expects; what is held has no result, and what is settled was either
  released without one or fired with one.\<close>

theorem registry_bounds:
  assumes "guard_reach stamp mutate s"
  shows "distinct (map (gu_ifindex \<circ> snd) (gr_armed (sy_registry s))) \<and>
    distinct (map fst (gr_armed (sy_registry s) @ gr_settled (sy_registry s))) \<and>
    length (gr_settled (sy_registry s)) \<le> 64 \<and>
    (\<forall>(k, g) \<in> set (gr_armed (sy_registry s) @ gr_settled (sy_registry s)).
       gu_guard_id g = k \<and> 5 \<le> gu_window_s g \<and> gu_window_s g \<le> 600 \<and>
       gu_expires_at g = gu_armed_at g + gu_window_s g * 1000000 \<and>
       gu_guarded_mtu g \<noteq> gu_restore_mtu g) \<and>
    (\<forall>(k, g) \<in> set (gr_armed (sy_registry s)). gu_phase g \<noteq> Phase_Disarmed \<and> gu_mutation g = None) \<and>
    (\<forall>(k, g) \<in> set (gr_settled (sy_registry s)).
       gu_phase g = (if gu_mutation g = None then Phase_Disarmed else Phase_Fired))"
proof -
  have inv: "registry_inv (sy_registry s)" using reach_trace_inv [OF assms] by (simp add: trace_inv_def)
  have "\<forall>(k, g) \<in> set (gr_settled (sy_registry s)).
       gu_phase g = (if gu_mutation g = None then Phase_Disarmed else Phase_Fired)"
    using inv by (auto simp: registry_inv_def list_all_iff)
  moreover have "length (gr_settled (sy_registry s)) \<le> 64"
    using inv by (simp add: registry_inv_def SETTLED_MEMORY_def)
  ultimately show ?thesis
    using inv unfolding registry_inv_def guard_ok_def guard_bounds list_all_iff by auto
qed

theorem registry_bounds_witness:
  "gr_armed (sy_registry (sample_state () 1)) \<noteq> [] \<and>
   distinct (map (gu_ifindex \<circ> snd) (gr_armed (sy_registry (sample_state () 1)))) \<and>
   length (gr_settled (sy_registry (sample_state () 1))) \<le> 64"
proof -
  have "gr_armed (sy_registry (sample_state () 1)) \<noteq> []"
    by (simp add: sample_state_def sample_registry_def)
  moreover note registry_bounds [OF sample_reach [of 1 "\<lambda>_. ''t''" "\<lambda>_ w. (Inr [], w)" "()"]]
  ultimately show ?thesis by (simp only: not_False_eq_True simp_thms)
qed

text \<open>Arming refuses rather than adjusts. The registry holds a new guard exactly when the
  window is within bounds, the reversal would change something, the identifier is unknown and no
  guard is held for the link; what it holds is what was asked, last in the registry, and a
  refusal changes nothing.\<close>

theorem arming_exact:
  "case guard_arm stamp now a r of
     (Inr rep, r') \<Rightarrow> 5 \<le> am_window_s a \<and> am_window_s a \<le> 600 \<and> am_guarded_mtu a \<noteq> am_restore_mtu a \<and>
       map_of (gr_armed r @ gr_settled r) (am_guard_id a) = None \<and>
       am_ifindex a \<notin> set (map (gu_ifindex \<circ> snd) (gr_armed r)) \<and>
       rep = guard_report_of stamp (gr_holder_id r) (new_guard now a) \<and>
       r' = r\<lparr>gr_armed := gr_armed r @ [(am_guard_id a, new_guard now a)]\<rparr>
   | (Inl _, r') \<Rightarrow> r' = r \<and>
       \<not> (5 \<le> am_window_s a \<and> am_window_s a \<le> 600 \<and> am_guarded_mtu a \<noteq> am_restore_mtu a \<and>
         map_of (gr_armed r @ gr_settled r) (am_guard_id a) = None \<and>
         am_ifindex a \<notin> set (map (gu_ifindex \<circ> snd) (gr_armed r)))"
proof -
  obtain x r' where x: "guard_arm stamp now a r = (x, r')" by (rule prod.exhaust)
  show ?thesis
  proof (cases x)
    case (Inr rep)
    then show ?thesis using x guard_arm_Inr [of stamp now a r rep r'] by (simp add: guard_bounds)
  next
    case (Inl e)
    then show ?thesis using x guard_arm_Inl [of stamp now a r e r']
      by (auto simp: guard_arm_def Let_def guard_bounds find_Some_iff map_add_None
          split: if_splits option.splits) (metis image_eqI nth_mem length_map nth_map)+
  qed
qed

text \<open>The write a registry on the agent is given.\<close>

definition agent_mutator :: "delivery \<times> 'h link_env \<times> string \<Rightarrow> (helper_state \<times> 'h) mutator" where
  "agent_mutator k q w = (case agent_run k q w of (d, w') \<Rightarrow> (Inr d, w'))"

lemma settled_has:
  assumes "map_of (gr_settled r) (gu_guard_id g) = None"
  shows "map_of (gr_settled (settle_guard g r)) (gu_guard_id g) = Some g"
proof -
  let ?n = "length (gr_settled r @ [(gu_guard_id g, g)]) - SETTLED_MEMORY"
  have "map_of (drop ?n (gr_settled r)) (gu_guard_id g) = None"
    using assms in_set_dropD unfolding map_of_eq_None_iff by fastforce
  moreover have "?n \<le> length (gr_settled r)" by (simp add: SETTLED_MEMORY_def)
  ultimately show ?thesis
    using assms by (simp add: settled_of_settle dict_set_def map_add_def)
qed

text \<open>C31. A guard can only undo the change it was armed for. When the timer of a held guard
  runs, for an attempt the helper has not seen and against a kernel that behaves as documented,
  the guard settles as fired with a result that is true of the host; no MTU moves but that of its
  own link, and that one only from the value the guarded change was to leave to the value that
  was there before.\<close>

theorem firing_only_undoes:
  assumes "kernel_ok K m" "guard_reach stamp (agent_mutator (dl, K, sock)) s"
    and "map_of (gr_armed (sy_registry s)) k = Some g" "sy_world s = (hs, h)"
    and "map_of (hs_attempts hs) (gu_attempt_id g) = None"
    and "guard_fire (agent_mutator (dl, K, sock)) now k (sy_registry s, sy_world s) = (x, r', hs', h')"
  shows "(\<exists>g' d w. map_of (gr_settled r') k = Some g' \<and> gu_phase g' = Phase_Fired \<and>
      gu_fired_at g' = Some now \<and> gu_mutation g' = Some d \<and> states_outcome d w \<and>
      outcome_true w (reversal g) (m h) (m h')) \<and>
    map_of (gr_armed r') k = None \<and>
    (\<forall>j. m h' j \<noteq> m h j \<longrightarrow> j = gu_ifindex g \<and> m h j = Some (nat (gu_guarded_mtu g)) \<and>
       m h' j = Some (nat (gu_restore_mtu g)))"
proof -
  have inv: "registry_inv (sy_registry s)" using reach_trace_inv [OF assms(2)] by (simp add: trace_inv_def)
  note a = inv_armed [OF inv assms(3)]
  obtain d where d: "agent_run (dl, K, sock) (reversal g) (hs, h) = (d, hs', h')"
      and r': "r' = settle_guard (g\<lparr>gu_timer := False, gu_phase := Phase_Fired, gu_fired_at := Some now,
         gu_mutation := Some d\<rparr>) (sy_registry s)"
    using assms(3,4,6) by (auto simp: guard_fire_def agent_mutator_def Let_def split: prod.splits)
  let ?g = "g\<lparr>gu_timer := False, gu_phase := Phase_Fired, gu_fired_at := Some now, gu_mutation := Some d\<rparr>"
  have ok: "agent_ok (dl, K, sock) (m \<circ> snd)" using assms(1) by (auto simp: agent_ok_def)
  have fresh: "agent_fresh (reversal g) (hs, h)" using assms(5) by (simp add: agent_fresh_def reversal_def)
  obtain w where w: "states_outcome d w" "outcome_true w (reversal g) (m h) (m h')"
    using agent_write.truthful [OF ok fresh d] by auto
  have "map_of (gr_settled r') k = Some ?g"
    using settled_has [of "sy_registry s" ?g] a(2,3) r' by simp
  moreover have "map_of (gr_armed r') k = None"
    using a(2) unfolding r' by (simp add: settle_guard_def map_of_without Let_def)
  moreover have "\<forall>j. m h' j \<noteq> m h j \<longrightarrow> j = gu_ifindex g \<and> m h j = Some (nat (gu_guarded_mtu g)) \<and>
       m h' j = Some (nat (gu_restore_mtu g))"
    using agent_write.at_most_two_values [OF ok fresh d] by (auto simp: reversal_def split: if_splits)
  ultimately show ?thesis using w by (intro conjI exI [of _ ?g] exI [of _ d] exI [of _ w]) simp_all
qed

theorem firing_only_undoes_witness:
  "\<exists>x r' hs' h'. guard_fire (agent_mutator (Answered, ideal_env, ''s'')) 5000000 ''g''
       (sample_registry, \<lparr>hs_sequence = 0, hs_attempts = []\<rparr>, [2 \<mapsto> 1500, 3 \<mapsto> 9000]) = (x, r', hs', h') \<and>
     map_of (gr_settled r') ''g'' \<noteq> None \<and> h' 3 = Some 9000"
proof -
  define w :: "helper_state \<times> (int \<rightharpoonup> nat)" where "w = (\<lparr>hs_sequence = 0, hs_attempts = []\<rparr>, [2 \<mapsto> 1500, 3 \<mapsto> 9000])"
  obtain x r' hs' h' where f: "guard_fire (agent_mutator (Answered, ideal_env, ''s'')) 5000000 ''g''
      (sy_registry (sample_state w 5000000), sy_world (sample_state w 5000000)) = (x, r', hs', h')"
    by (rule prod_cases4)
  have reach: "guard_reach (\<lambda>_. ''t'') (agent_mutator (Answered, ideal_env, ''s'')) (sample_state w 5000000)"
    by (rule sample_reach) simp
  have held: "map_of (gr_armed (sy_registry (sample_state w 5000000))) ''g'' = Some (new_guard 0 sample_arming)"
    by (simp add: sample_state_def sample_registry_def)
  have world: "sy_world (sample_state w 5000000) = (\<lparr>hs_sequence = 0, hs_attempts = []\<rparr>, [2 \<mapsto> 1500, 3 \<mapsto> 9000])"
    by (simp add: sample_state_def w_def)
  have none: "map_of (hs_attempts \<lparr>hs_sequence = 0, hs_attempts = []\<rparr>) (gu_attempt_id (new_guard 0 sample_arming)) = None"
    by simp
  note t = firing_only_undoes [OF ideal_kernel_ok reach held world none f]
  have "gu_ifindex (new_guard 0 sample_arming) = 2" by (simp add: new_guard_def sample_arming_def)
  with conjunct2 [OF conjunct2 [OF t], rule_format, of 3] have "h' 3 = Some 9000" by fastforce
  moreover have "map_of (gr_settled r') ''g'' \<noteq> None" using conjunct1 [OF t] by blast
  moreover from f have "guard_fire (agent_mutator (Answered, ideal_env, ''s'')) 5000000 ''g''
       (sample_registry, \<lparr>hs_sequence = 0, hs_attempts = []\<rparr>, [2 \<mapsto> 1500, 3 \<mapsto> 9000]) = (x, r', hs', h')"
    by (simp only: sample_state_def w_def guard_system.select_convs)
  ultimately show ?thesis by blast
qed

end
