(* ===== verification/Store.thy ===== *)
theory Store
  imports Runs_Model
begin

text \<open>
  The tables the change engine keeps its truth in, and the repository methods it reads and
  writes them with: \<open>src/localplane/backend/db/repositories.py\<close>. A table is the list of its rows
  in the order they were inserted (SQLite's rowid order). A row is the record the repository
  returns: a column of enumerated text is the enumeration, a stored value is read back typed
  (\<open>typed_column\<close>, whose round trip is that of \<open>Intent\<close>), and an instant is the natural number
  that \<open>ORDER BY\<close> compares. The primary keys and unique indexes of the schema are checked by the
  inserts (\<open>Integrity_Error\<close>); its CHECK constraints and triggers, which can only refuse more,
  are not part of the model. JSON \<open>detail\<close> columns that only readers of the transcript use are
  left out.
\<close>

section \<open>Errors and values\<close>

datatype engine_error =
    Refused string            \<comment> \<open>RunRefused, by its code\<close>
  | Execution_Refused string  \<comment> \<open>ExecutionRefused, by its code\<close>
  | Integrity_Error           \<comment> \<open>sqlite3.IntegrityError\<close>
  | Raised py_error

type_synonym instant = nat

definition is_refusal :: "engine_error \<Rightarrow> bool" where
  "is_refusal e \<longleftrightarrow> (case e of Refused _ \<Rightarrow> True | _ \<Rightarrow> False)"

text \<open>Writing a value with \<open>encode\<close> and reading it back with \<open>_typed\<close>.\<close>

definition typed_column ::
  "value_type option \<Rightarrow> ivalue option \<Rightarrow> engine_error + ivalue option" where
  "typed_column vt v = (case v of
     None \<Rightarrow> Inr None
   | Some x \<Rightarrow> (case vt of
       None \<Rightarrow> Inl (Raised (ValueError ''not a valid ValueType''))
     | Some t \<Rightarrow> Inr (Some (decode t (encode t x)))))"

definition required_column ::
  "value_type option \<Rightarrow> ivalue option \<Rightarrow> engine_error + ivalue" where
  "required_column vt v = (case vt of
     None \<Rightarrow> Inl (Raised (ValueError ''not a valid ValueType''))
   | Some t \<Rightarrow> (case v of
       None \<Rightarrow> Inl (Raised (TypeError ''int() argument must not be None''))
     | Some x \<Rightarrow> Inr (decode t (encode t x))))"

definition update_where :: "('a \<Rightarrow> bool) \<Rightarrow> ('a \<Rightarrow> 'a) \<Rightarrow> 'a list \<Rightarrow> 'a list" where
  "update_where P f t = map (\<lambda>r. if P r then f r else r) t"

section \<open>Runs\<close>

text \<open>Of a published preview, the columns the engine reads.\<close>

record run_preview =
  rv_preview_id :: string
  rv_preview_digest :: string
  rv_digest_version :: nat
  rv_operation :: string
  rv_change_kind :: string
  rv_field :: "string option"
  rv_value_type :: "value_type option"
  rv_current_value :: "ivalue option"
  rv_desired_value :: "ivalue option"
  rv_action :: "string option"
  rv_observed_state :: "string option"
  rv_expected_state :: "string option"
  rv_intent_id :: "string option"
  rv_intent_version :: "int option"
  rv_observation_id :: string
  rv_observed_at :: string
  rv_protection_management_path :: management_path_relation
  rv_protection_evidence_id :: "string option"
  rv_confirmation_method :: confirmation_method
  rv_confirmation_policy :: string
  rv_execution_availability :: execution_availability
  rv_execution_eligibility :: execution_eligibility
  rv_guard_window_s :: int
  rv_verification_capability :: string
  rv_verification_provider :: string

record run_record =
  rn_run_id :: string
  rn_host_id :: string
  rn_object_id :: string
  rn_operation :: string
  rn_state :: run_state
  rn_host_effect :: host_effect
  rn_created_at :: instant
  rn_cancelled_at :: "instant option"
  rn_finished_at :: "instant option"
  rn_preview :: run_preview

definition runs_get :: "string \<Rightarrow> run_record list \<Rightarrow> run_record option" where
  "runs_get rid t = find (\<lambda>r. rn_run_id r = rid) t"

definition runs_set_state ::
  "string \<Rightarrow> run_state option \<Rightarrow> host_effect option \<Rightarrow> instant option \<Rightarrow> run_record list \<Rightarrow>
   run_record list" where
  "runs_set_state rid st eff fin t =
     update_where (\<lambda>r. rn_run_id r = rid)
       (\<lambda>r. r\<lparr>rn_state := (case st of None \<Rightarrow> rn_state r | Some x \<Rightarrow> x),
              rn_host_effect := (case eff of None \<Rightarrow> rn_host_effect r | Some x \<Rightarrow> x),
              rn_finished_at := (case fin of None \<Rightarrow> rn_finished_at r | Some x \<Rightarrow> Some x)\<rparr>) t"

definition runs_cancel :: "string \<Rightarrow> instant \<Rightarrow> run_record list \<Rightarrow> run_record list" where
  "runs_cancel rid now t =
     update_where (\<lambda>r. rn_run_id r = rid)
       (\<lambda>r. r\<lparr>rn_state := RS_Cancelled, rn_cancelled_at := Some now, rn_finished_at := Some now\<rparr>) t"

section \<open>Confirmations\<close>

datatype confirmation_purpose = CP_Apply | CP_Recovery_Retry | CP_Self_Impact_Override

definition CONFIRMATION_SOURCE_AUTHENTICATED :: string where
  "CONFIRMATION_SOURCE_AUTHENTICATED = ''authenticated_request''"

record confirmation_record =
  cn_confirmation_id :: string
  cn_run_id :: string
  cn_purpose :: confirmation_purpose
  cn_preview_id :: string
  cn_preview_digest :: string
  cn_digest_version :: nat
  cn_required_method :: confirmation_method
  cn_method :: confirmation_method
  cn_typed_statement :: "string option"
  cn_policy :: string
  cn_source :: string
  cn_satisfied_at :: instant
  cn_consumed_at :: "instant option"
  cn_consumed_by_attempt_id :: "string option"

definition cn_consumed :: "confirmation_record \<Rightarrow> bool" where
  "cn_consumed c \<longleftrightarrow> cn_consumed_at c \<noteq> None"

text \<open>
  One apply confirmation and one override per run, one unspent recovery confirmation per run.
\<close>

definition confirmation_clashes :: "confirmation_record \<Rightarrow> confirmation_record \<Rightarrow> bool" where
  "confirmation_clashes c x \<longleftrightarrow>
     cn_confirmation_id x = cn_confirmation_id c \<or>
     (cn_run_id x = cn_run_id c \<and> cn_purpose x = cn_purpose c \<and>
      (cn_purpose c = CP_Recovery_Retry \<longrightarrow> \<not> cn_consumed x \<and> \<not> cn_consumed c))"

definition confirmations_insert ::
  "confirmation_record \<Rightarrow> confirmation_record list \<Rightarrow> engine_error + confirmation_record list" where
  "confirmations_insert c t =
     (if list_ex (confirmation_clashes c) t then Inl Integrity_Error else Inr (t @ [c]))"

definition confirmations_for_run ::
  "string \<Rightarrow> confirmation_purpose \<Rightarrow> confirmation_record list \<Rightarrow> confirmation_record option" where
  "confirmations_for_run rid p t =
     (let rows = filter (\<lambda>c. cn_run_id c = rid \<and> cn_purpose c = p) t in
      if rows = [] then None else Some (last (sort_key cn_satisfied_at rows)))"

definition confirmations_outstanding ::
  "string \<Rightarrow> confirmation_purpose \<Rightarrow> confirmation_record list \<Rightarrow> confirmation_record option" where
  "confirmations_outstanding rid p t =
     find (\<lambda>c. cn_run_id c = rid \<and> cn_purpose c = p \<and> cn_consumed_at c = None) t"

definition confirmations_for_run_all ::
  "string \<Rightarrow> confirmation_record list \<Rightarrow> confirmation_record list" where
  "confirmations_for_run_all rid t = sort_key cn_satisfied_at (filter (\<lambda>c. cn_run_id c = rid) t)"

definition confirmations_consume ::
  "string \<Rightarrow> string \<Rightarrow> instant \<Rightarrow> confirmation_record list \<Rightarrow> bool \<times> confirmation_record list" where
  "confirmations_consume cid attempt now t =
     (let hit = (\<lambda>c. cn_confirmation_id c = cid \<and> cn_consumed_at c = None) in
      (length (filter hit t) = 1,
       update_where hit
         (\<lambda>c. c\<lparr>cn_consumed_at := Some now, cn_consumed_by_attempt_id := Some attempt\<rparr>) t))"

section \<open>Checkpoints\<close>

record checkpoint_record =
  ck_checkpoint_id :: string
  ck_run_id :: string
  ck_preview_id :: string
  ck_host_id :: string
  ck_object_id :: string
  ck_intent_id :: "string option"
  ck_intent_version :: "int option"
  ck_field :: "string option"
  ck_value_type :: "value_type option"
  ck_before_value :: ivalue
  ck_desired_value :: ivalue
  ck_observation_id :: string
  ck_observed_at :: string
  ck_protection_management_path :: management_path_relation
  ck_protection_evidence_id :: "string option"
  ck_execution_correlation :: facts
  ck_armed_at :: instant

definition checkpoints_insert ::
  "checkpoint_record \<Rightarrow> checkpoint_record list \<Rightarrow> engine_error + checkpoint_record list" where
  "checkpoints_insert c t =
     (if list_ex (\<lambda>x. ck_checkpoint_id x = ck_checkpoint_id c \<or> ck_run_id x = ck_run_id c) t
      then Inl Integrity_Error else Inr (t @ [c]))"

definition checkpoints_for_run ::
  "string \<Rightarrow> checkpoint_record list \<Rightarrow> checkpoint_record option" where
  "checkpoints_for_run rid t = find (\<lambda>c. ck_run_id c = rid) t"

definition checkpoints_get :: "string \<Rightarrow> checkpoint_record list \<Rightarrow> checkpoint_record option" where
  "checkpoints_get cid t = find (\<lambda>c. ck_checkpoint_id c = cid) t"

section \<open>Changes\<close>

record change_record =
  ch_change_id :: string
  ch_run_id :: string
  ch_preview_id :: string
  ch_checkpoint_id :: "string option"
  ch_host_id :: string
  ch_object_id :: string
  ch_operation :: string
  ch_change_kind :: string
  ch_field :: "string option"
  ch_value_type :: "value_type option"
  ch_before_value :: "ivalue option"
  ch_desired_value :: "ivalue option"
  ch_action :: "string option"
  ch_observed_state :: "string option"
  ch_expected_state :: "string option"
  ch_execution_correlation :: facts
  ch_created_at :: instant
  ch_apply_attempt_id :: string
  ch_dispatch_began_at :: "instant option"
  ch_mutation_outcome :: "mutation_outcome option"
  ch_mutation_reason :: "string option"
  ch_mutation_provider :: "string option"
  ch_mutation_method :: "string option"
  ch_mutation_detail :: facts
  ch_settled_at :: "instant option"
  ch_host_effect :: host_effect
  ch_verification_outcome :: verification_outcome
  ch_verification_observation_id :: "string option"
  ch_verification_observed_value :: "ivalue option"
  ch_verification_observed_state :: "string option"
  ch_verification_reason :: "string option"
  ch_rollback_required :: bool
  ch_rollback_attempt_id :: "string option"
  ch_rollback_dispatch_began_at :: "instant option"
  ch_rollback_outcome :: "mutation_outcome option"
  ch_rollback_reason :: "string option"
  ch_rollback_detail :: facts
  ch_rollback_verification_outcome :: verification_outcome
  ch_rollback_verification_observation_id :: "string option"
  ch_rollback_verification_observed_value :: "ivalue option"
  ch_result :: change_result
  ch_recovery_reason :: "recovery_reason option"
  ch_finished_at :: "instant option"

definition ch_dispatch_began :: "change_record \<Rightarrow> bool" where
  "ch_dispatch_began c \<longleftrightarrow> ch_dispatch_began_at c \<noteq> None"

definition ch_recovery_required :: "change_record \<Rightarrow> bool" where
  "ch_recovery_required c \<longleftrightarrow> ch_result c = CR_Recovery_Required"

definition changes_insert ::
  "change_record \<Rightarrow> change_record list \<Rightarrow> engine_error + change_record list" where
  "changes_insert c t =
     (if list_ex (\<lambda>x. ch_change_id x = ch_change_id c \<or> ch_run_id x = ch_run_id c \<or>
                     ch_apply_attempt_id x = ch_apply_attempt_id c) t
      then Inl Integrity_Error else Inr (t @ [c]))"

definition changes_update ::
  "string \<Rightarrow> (change_record \<Rightarrow> change_record) \<Rightarrow> change_record list \<Rightarrow> change_record list" where
  "changes_update cid f t = update_where (\<lambda>c. ch_change_id c = cid) f t"

definition changes_get :: "string \<Rightarrow> change_record list \<Rightarrow> change_record option" where
  "changes_get cid t = find (\<lambda>c. ch_change_id c = cid) t"

definition changes_for_run :: "string \<Rightarrow> change_record list \<Rightarrow> change_record option" where
  "changes_for_run rid t = find (\<lambda>c. ch_run_id c = rid) t"

definition of_host :: "string option \<Rightarrow> string \<Rightarrow> bool" where
  "of_host h x \<longleftrightarrow> (case h of None \<Rightarrow> True | Some y \<Rightarrow> x = y)"

definition changes_unsettled :: "string option \<Rightarrow> change_record list \<Rightarrow> change_record list" where
  "changes_unsettled h t =
     sort_key ch_created_at (filter (\<lambda>c. ch_result c = CR_In_Flight \<and> of_host h (ch_host_id c)) t)"

section \<open>Recovery attempts\<close>

record recovery_attempt_record =
  at_attempt_id :: string
  at_change_id :: string
  at_run_id :: string
  at_host_id :: string
  at_object_id :: string
  at_sequence :: nat
  at_kind :: recovery_action_kind
  at_started_at :: instant
  at_protection_management_path :: management_path_relation
  at_protection_evidence_id :: "string option"
  at_evidence_outcome :: verification_outcome
  at_evidence_observation_id :: "string option"
  at_evidence_observed_value :: "ivalue option"
  at_evidence_observed_state :: "string option"
  at_evidence_reason :: "string option"
  at_confirmation_id :: "string option"
  at_execution_correlation :: "facts option"
  at_mutation_attempt_id :: "string option"
  at_dispatch_began_at :: "instant option"
  at_mutation_outcome :: "mutation_outcome option"
  at_mutation_reason :: "string option"
  at_mutation_provider :: "string option"
  at_mutation_method :: "string option"
  at_mutation_detail :: facts
  at_host_effect :: host_effect
  at_verification_outcome :: verification_outcome
  at_verification_observation_id :: "string option"
  at_verification_observed_value :: "ivalue option"
  at_verification_observed_state :: "string option"
  at_verification_reason :: "string option"
  at_outcome :: recovery_attempt_outcome
  at_refusal_code :: "string option"
  at_releases_hold :: bool
  at_finished_at :: "instant option"
  at_operator_statement :: "string option"
  at_note :: "string option"

definition at_dispatch_began :: "recovery_attempt_record \<Rightarrow> bool" where
  "at_dispatch_began a \<longleftrightarrow> at_dispatch_began_at a \<noteq> None"

definition at_wrote :: "recovery_attempt_record \<Rightarrow> bool" where
  "at_wrote a \<longleftrightarrow> at_host_effect a \<noteq> HE_None"

text \<open>One attempt in flight and one release per change.\<close>

definition attempt_clashes :: "recovery_attempt_record \<Rightarrow> recovery_attempt_record \<Rightarrow> bool" where
  "attempt_clashes a x \<longleftrightarrow>
     at_attempt_id x = at_attempt_id a \<or>
     (at_change_id x = at_change_id a \<and>
      (at_sequence x = at_sequence a \<or>
       at_outcome x = RAO_In_Flight \<and> at_outcome a = RAO_In_Flight \<or>
       at_releases_hold x \<and> at_releases_hold a))"

definition attempts_insert ::
  "recovery_attempt_record \<Rightarrow> recovery_attempt_record list \<Rightarrow>
   engine_error + recovery_attempt_record list" where
  "attempts_insert a t =
     (if list_ex (attempt_clashes a) t then Inl Integrity_Error else Inr (t @ [a]))"

definition attempts_update ::
  "string \<Rightarrow> (recovery_attempt_record \<Rightarrow> recovery_attempt_record) \<Rightarrow>
   recovery_attempt_record list \<Rightarrow> recovery_attempt_record list" where
  "attempts_update aid f t = update_where (\<lambda>a. at_attempt_id a = aid) f t"

definition attempts_next_sequence :: "string \<Rightarrow> recovery_attempt_record list \<Rightarrow> nat" where
  "attempts_next_sequence cid t =
     foldr max (map at_sequence (filter (\<lambda>a. at_change_id a = cid) t)) 0 + 1"

definition attempts_get ::
  "string \<Rightarrow> recovery_attempt_record list \<Rightarrow> recovery_attempt_record option" where
  "attempts_get aid t = find (\<lambda>a. at_attempt_id a = aid) t"

definition attempts_for_change ::
  "string \<Rightarrow> recovery_attempt_record list \<Rightarrow> recovery_attempt_record list" where
  "attempts_for_change cid t = sort_key at_sequence (filter (\<lambda>a. at_change_id a = cid) t)"

definition attempts_in_flight ::
  "string \<Rightarrow> recovery_attempt_record list \<Rightarrow> recovery_attempt_record option" where
  "attempts_in_flight cid t = find (\<lambda>a. at_change_id a = cid \<and> at_outcome a = RAO_In_Flight) t"

definition attempts_released_change_ids ::
  "string list \<Rightarrow> recovery_attempt_record list \<Rightarrow> string set" where
  "attempts_released_change_ids ids t =
     at_change_id ` {a \<in> set t. at_releases_hold a \<and> at_change_id a \<in> set ids}"

definition attempts_release_of ::
  "string \<Rightarrow> recovery_attempt_record list \<Rightarrow> recovery_attempt_record option" where
  "attempts_release_of cid t = find (\<lambda>a. at_change_id a = cid \<and> at_releases_hold a) t"

definition attempts_unsettled ::
  "string option \<Rightarrow> recovery_attempt_record list \<Rightarrow> recovery_attempt_record list" where
  "attempts_unsettled h t =
     sort_key at_started_at (filter (\<lambda>a. at_outcome a = RAO_In_Flight \<and> of_host h (at_host_id a)) t)"

section \<open>The transcript\<close>

record run_event_record =
  re_event_id :: string
  re_run_id :: string
  re_change_id :: "string option"
  re_sequence :: nat
  re_event :: run_event
  re_state_from :: "run_state option"
  re_state_to :: "run_state option"
  re_occurred_at :: instant

definition events_append ::
  "string \<Rightarrow> string \<Rightarrow> run_event \<Rightarrow> instant \<Rightarrow> string option \<Rightarrow> run_state option \<Rightarrow>
   run_state option \<Rightarrow> run_event_record list \<Rightarrow> run_event_record list" where
  "events_append eid rid ev now cid st_from st_to t =
     t @ [\<lparr>re_event_id = eid, re_run_id = rid, re_change_id = cid,
           re_sequence = foldr max (map re_sequence (filter (\<lambda>e. re_run_id e = rid) t)) 0 + 1,
           re_event = ev, re_state_from = st_from, re_state_to = st_to, re_occurred_at = now\<rparr>]"

definition events_for_run :: "string \<Rightarrow> run_event_record list \<Rightarrow> run_event_record list" where
  "events_for_run rid t = sort_key re_sequence (filter (\<lambda>e. re_run_id e = rid) t)"

definition events_for_change :: "string \<Rightarrow> run_event_record list \<Rightarrow> run_event_record list" where
  "events_for_change cid t = sort_key re_sequence (filter (\<lambda>e. re_change_id e = Some cid) t)"

section \<open>Connection guards\<close>

record run_guard_record =
  gd_guard_id :: string
  gd_run_id :: string
  gd_preview_id :: string
  gd_checkpoint_id :: string
  gd_host_id :: string
  gd_object_id :: string
  gd_protection_management_path :: management_path_relation
  gd_protection_evidence_id :: "string option"
  gd_confirmation_id :: string
  gd_window_s :: int
  gd_arm_began_at :: instant
  gd_armed_at :: "instant option"
  gd_expires_at :: "string option"
  gd_holder_id :: "string option"
  gd_reversal_attempt_id :: string
  gd_kept_at :: "instant option"
  gd_kept_evidence_id :: "string option"
  gd_settled_at :: "instant option"
  gd_settled_phase :: "guard_phase option"
  gd_settled_reason :: "string option"
  gd_fired_at :: "string option"
  gd_reversal_outcome :: "mutation_outcome option"
  gd_reversal_reason :: "string option"

definition gd_armed :: "run_guard_record \<Rightarrow> bool" where
  "gd_armed g \<longleftrightarrow> gd_armed_at g \<noteq> None"

definition gd_settled :: "run_guard_record \<Rightarrow> bool" where
  "gd_settled g \<longleftrightarrow> gd_settled_at g \<noteq> None"

definition guards_insert ::
  "run_guard_record \<Rightarrow> run_guard_record list \<Rightarrow> engine_error + run_guard_record list" where
  "guards_insert g t =
     (if list_ex (\<lambda>x. gd_guard_id x = gd_guard_id g \<or> gd_run_id x = gd_run_id g) t
      then Inl Integrity_Error else Inr (t @ [g]))"

definition guards_update ::
  "string \<Rightarrow> (run_guard_record \<Rightarrow> run_guard_record) \<Rightarrow> run_guard_record list \<Rightarrow>
   run_guard_record list" where
  "guards_update gid f t = update_where (\<lambda>g. gd_guard_id g = gid) f t"

definition guards_get :: "string \<Rightarrow> run_guard_record list \<Rightarrow> run_guard_record option" where
  "guards_get gid t = find (\<lambda>g. gd_guard_id g = gid) t"

definition guards_for_run :: "string \<Rightarrow> run_guard_record list \<Rightarrow> run_guard_record option" where
  "guards_for_run rid t = find (\<lambda>g. gd_run_id g = rid) t"

definition guards_unsettled :: "string option \<Rightarrow> run_guard_record list \<Rightarrow> run_guard_record list" where
  "guards_unsettled h t =
     sort_key gd_arm_began_at
       (filter (\<lambda>g. gd_settled_at g = None \<and> of_host h (gd_host_id g)) t)"

section \<open>Object write locks\<close>

record write_lock_record =
  wl_lock_key :: string
  wl_host_id :: string
  wl_object_id :: string
  wl_field :: string
  wl_run_id :: string
  wl_acquired_at :: instant

definition write_lock_key :: "string \<Rightarrow> string \<Rightarrow> string \<Rightarrow> string" where
  "write_lock_key host obj fld = host @ ''|'' @ obj @ ''|'' @ fld"

definition locks_acquire ::
  "string \<Rightarrow> string \<Rightarrow> string \<Rightarrow> string \<Rightarrow> instant \<Rightarrow> write_lock_record list \<Rightarrow>
   bool \<times> write_lock_record list" where
  "locks_acquire host obj fld rid now t =
     (let key = write_lock_key host obj fld in
      if list_ex (\<lambda>l. wl_lock_key l = key \<or> wl_run_id l = rid \<or>
                      wl_object_id l = obj \<and> wl_field l = fld) t
      then (False, t)
      else (True, t @ [\<lparr>wl_lock_key = key, wl_host_id = host, wl_object_id = obj, wl_field = fld,
                        wl_run_id = rid, wl_acquired_at = now\<rparr>]))"

definition locks_held ::
  "string \<Rightarrow> string \<Rightarrow> string \<Rightarrow> write_lock_record list \<Rightarrow> write_lock_record option" where
  "locks_held host obj fld t = find (\<lambda>l. wl_lock_key l = write_lock_key host obj fld) t"

definition locks_for_run :: "string \<Rightarrow> write_lock_record list \<Rightarrow> write_lock_record option" where
  "locks_for_run rid t = find (\<lambda>l. wl_run_id l = rid) t"

definition locks_release :: "string \<Rightarrow> write_lock_record list \<Rightarrow> write_lock_record list" where
  "locks_release rid t = filter (\<lambda>l. wl_run_id l \<noteq> rid) t"

section \<open>The store\<close>

record database =
  db_runs :: "run_record list"
  db_confirmations :: "confirmation_record list"
  db_checkpoints :: "checkpoint_record list"
  db_changes :: "change_record list"
  db_attempts :: "recovery_attempt_record list"
  db_events :: "run_event_record list"
  db_guards :: "run_guard_record list"
  db_locks :: "write_lock_record list"

end
