(* ===== verification/Engine_Base.thy ===== *)
theory Engine_Base
  imports Store Policy
begin

text \<open>
  What the change engine runs on: the executor interface and the services it calls
  (\<open>src/localplane/backend/runs.py\<close>), transactions (\<open>src/localplane/backend/db/database.py\<close>), and
  the way its methods are written here.

  A method is a function of the engine's state that returns a value or an error and the state it
  leaves. The state is the store, the world (the host, the agent, the inventory tables: whatever
  the services read and change), the number of random identifiers drawn so far, and a journal. The journal is not in the code: it records what was
  committed and which questions were put to the executor, with the store as it stood, so that
  properties can speak of every point at which the process may stop. The clock and the random
  identifiers are parameters; the clock reads the world, so a step sees one instant.
\<close>

section \<open>The inventory's records\<close>

record observation_record =
  ob_observation_id :: string
  ob_sweep_id :: string
  ob_capability :: string
  ob_provider :: string
  ob_provider_version :: string
  ob_method :: string
  ob_fidelity :: string
  ob_observed_at :: string
  ob_received_at :: string
  ob_health_state :: string
  ob_health_reason :: string
  ob_gaps :: "string list"
  ob_facts :: facts

record object_record =
  oj_object_id :: string
  oj_host_id :: string
  oj_kind :: string
  oj_identity_basis :: string
  oj_identity_value :: string
  oj_identity_confidence :: string
  oj_display_name :: string
  oj_management_state :: string
  oj_management_reason :: string
  oj_active_intent_id :: "string option"
  oj_first_seen_at :: string
  oj_last_seen_at :: string
  oj_observation :: "observation_record option"

record observation_attempt =
  oa_record :: "object_record option"
  oa_failure :: "string option"
  oa_detail :: facts

definition oa_taken :: "observation_attempt \<Rightarrow> bool" where
  "oa_taken a \<longleftrightarrow> oa_failure a = None"

section \<open>The executor and the services\<close>

text \<open>
  One executor per operation. \<open>correlate\<close> may raise \<open>ExecutionRefused\<close> or anything else; the
  others never raise, \<open>arm_guard\<close> apart, whose refusal is a value here.
\<close>

record 'w operation_executor =
  xc_correlate :: "object_record \<Rightarrow> 'w \<Rightarrow> (engine_error + facts) \<times> 'w"
  xc_mutate :: "mutation_request \<Rightarrow> 'w \<Rightarrow> mutation_report \<times> 'w"
  xc_observe :: "object_record \<Rightarrow> 'w \<Rightarrow> observation_attempt \<times> 'w"
  xc_prove :: "facts \<Rightarrow> expectation \<Rightarrow> proof_of_state"
  xc_arm_guard :: "guard_request \<Rightarrow> 'w \<Rightarrow> (guard_refused + guard_armed) \<times> 'w"
  xc_disarm_guard :: "string \<Rightarrow> 'w \<Rightarrow> guard_report \<times> 'w"
  xc_guard_status :: "string \<Rightarrow> 'w \<Rightarrow> guard_report \<times> 'w"

record 'w engine_env =
  ev_now :: "'w \<Rightarrow> instant"
  ev_text :: "instant \<Rightarrow> string"
  ev_instant :: "string \<Rightarrow> instant"
  ev_uuid :: "nat \<Rightarrow> string"
  ev_object :: "'w \<Rightarrow> string \<Rightarrow> object_record option"
  ev_replan :: "'w \<Rightarrow> operation_type \<Rightarrow> object_record \<Rightarrow> management_path_verdict \<Rightarrow>
      systemd_lifecycle_context option \<Rightarrow> plan_refused + run_plan"
  ev_published_plan :: "run_record \<Rightarrow> run_plan"
  ev_definition :: "operation_type \<Rightarrow> operation_definition"
  ev_digest :: "pyval \<Rightarrow> string"
  ev_executors :: "operation_type \<Rightarrow> 'w operation_executor option"

section \<open>Methods\<close>

datatype entry =
    Committed database
  | Mutated database mutation_request mutation_report
  | Arm_Asked database guard_request "guard_refused + guard_armed"
  | Disarm_Asked database string guard_report
  | Status_Asked database string guard_report

record 'w engine_state =
  es_db :: database
  es_world :: 'w
  es_ids :: nat
  es_journal :: "entry list"

type_synonym ('w, 'a) engine = "'w engine_state \<Rightarrow> (engine_error + 'a) \<times> 'w engine_state"

definition ret :: "'a \<Rightarrow> ('w, 'a) engine" where
  "ret x s = (Inr x, s)"

definition fail :: "engine_error \<Rightarrow> ('w, 'a) engine" where
  "fail e s = (Inl e, s)"

definition bindM :: "('w, 'a) engine \<Rightarrow> ('a \<Rightarrow> ('w, 'b) engine) \<Rightarrow> ('w, 'b) engine" where
  "bindM m f s = (case m s of (Inl e, s') \<Rightarrow> (Inl e, s') | (Inr x, s') \<Rightarrow> f x s')"

definition thenM :: "('w, 'a) engine \<Rightarrow> ('w, 'b) engine \<Rightarrow> ('w, 'b) engine" where
  "thenM m n = bindM m (\<lambda>_. n)"

definition demand :: "bool \<Rightarrow> string \<Rightarrow> ('w, unit) engine" where
  "demand b code = (if b then ret () else fail (Refused code))"

definition assertM :: "'a option \<Rightarrow> ('w, 'a) engine" where
  "assertM v = (case v of None \<Rightarrow> fail (Raised (AssertionError [])) | Some x \<Rightarrow> ret x)"

definition lift :: "engine_error + 'a \<Rightarrow> ('w, 'a) engine" where
  "lift r s = (r, s)"

definition look :: "(database \<Rightarrow> 'a) \<Rightarrow> ('w, 'a) engine" where
  "look f s = (Inr (f (es_db s)), s)"

definition world :: "('w \<Rightarrow> 'a) \<Rightarrow> ('w, 'a) engine" where
  "world f s = (Inr (f (es_world s)), s)"

definition modify :: "(database \<Rightarrow> database) \<Rightarrow> ('w, unit) engine" where
  "modify f s = (Inr (), s\<lparr>es_db := f (es_db s)\<rparr>)"

definition put :: "(database \<Rightarrow> 'a \<times> database) \<Rightarrow> ('w, 'a) engine" where
  "put f s = (case f (es_db s) of (x, d) \<Rightarrow> (Inr x, s\<lparr>es_db := d\<rparr>))"

definition insert_row :: "(database \<Rightarrow> engine_error + database) \<Rightarrow> ('w, unit) engine" where
  "insert_row f s = (case f (es_db s) of Inl e \<Rightarrow> (Inl e, s) | Inr d \<Rightarrow> (Inr (), s\<lparr>es_db := d\<rparr>))"

definition new_id :: "'w engine_env \<Rightarrow> string \<Rightarrow> ('w, string) engine" where
  "new_id E prefix s = (Inr (prefix @ ev_uuid E (es_ids s)), s\<lparr>es_ids := Suc (es_ids s)\<rparr>)"

definition now :: "'w engine_env \<Rightarrow> ('w, instant) engine" where
  "now E = world (ev_now E)"

text \<open>A question put to the executor, and one the journal keeps.\<close>

definition ask :: "('w \<Rightarrow> 'a \<times> 'w) \<Rightarrow> ('w, 'a) engine" where
  "ask f s = (case f (es_world s) of (x, w) \<Rightarrow> (Inr x, s\<lparr>es_world := w\<rparr>))"

definition ask_logged :: "(database \<Rightarrow> 'a \<Rightarrow> entry) \<Rightarrow> ('w \<Rightarrow> 'a \<times> 'w) \<Rightarrow> ('w, 'a) engine" where
  "ask_logged e f s = (case f (es_world s) of (x, w) \<Rightarrow>
     (Inr x, s\<lparr>es_world := w, es_journal := es_journal s @ [e (es_db s) x]\<rparr>))"

text \<open>One transaction: an exception rolls the store back, and only the store.\<close>

definition transaction :: "('w, 'a) engine \<Rightarrow> ('w, 'a) engine" where
  "transaction m s = (case m s of
     (Inl e, s') \<Rightarrow> (Inl e, s'\<lparr>es_db := es_db s\<rparr>)
   | (Inr x, s') \<Rightarrow> (Inr x, s'\<lparr>es_journal := es_journal s' @ [Committed (es_db s')]\<rparr>))"

text \<open>\<open>try ... except RunRefused\<close>, and \<open>except Exception\<close>.\<close>

definition catch_refusal :: "('w, 'a) engine \<Rightarrow> (string \<Rightarrow> ('w, 'a) engine) \<Rightarrow> ('w, 'a) engine" where
  "catch_refusal m h s = (case m s of
     (Inl (Refused code), s') \<Rightarrow> h code s' | r \<Rightarrow> r)"

definition catch_all :: "('w, 'a) engine \<Rightarrow> (engine_error \<Rightarrow> ('w, 'a) engine) \<Rightarrow> ('w, 'a) engine" where
  "catch_all m h s = (case m s of (Inl e, s') \<Rightarrow> h e s' | r \<Rightarrow> r)"

section \<open>Reasoning about methods\<close>

text \<open>
  \<open>spec P m Q E\<close>: from a state with \<open>P\<close>, \<open>m\<close> ends in \<open>Q\<close> with its value or in \<open>E\<close> with its error.
\<close>

definition spec ::
  "('w engine_state \<Rightarrow> bool) \<Rightarrow> ('w, 'a) engine \<Rightarrow> ('a \<Rightarrow> 'w engine_state \<Rightarrow> bool) \<Rightarrow>
   (engine_error \<Rightarrow> 'w engine_state \<Rightarrow> bool) \<Rightarrow> bool" where
  "spec P m Q E \<longleftrightarrow>
     (\<forall>s. P s \<longrightarrow> (case m s of (Inl e, s') \<Rightarrow> E e s' | (Inr x, s') \<Rightarrow> Q x s'))"

lemma specI:
  "(\<And>s e s'. P s \<Longrightarrow> m s = (Inl e, s') \<Longrightarrow> E e s') \<Longrightarrow>
   (\<And>s x s'. P s \<Longrightarrow> m s = (Inr x, s') \<Longrightarrow> Q x s') \<Longrightarrow> spec P m Q E"
  unfolding spec_def by (auto split: prod.splits sum.splits)

lemma specD_Inr: "spec P m Q E \<Longrightarrow> P s \<Longrightarrow> m s = (Inr x, s') \<Longrightarrow> Q x s'"
  unfolding spec_def by force

lemma specD_Inl: "spec P m Q E \<Longrightarrow> P s \<Longrightarrow> m s = (Inl e, s') \<Longrightarrow> E e s'"
  unfolding spec_def by force

lemma spec_weaken:
  "spec P' m Q' E' \<Longrightarrow> (\<And>s. P s \<Longrightarrow> P' s) \<Longrightarrow> (\<And>x s. Q' x s \<Longrightarrow> Q x s) \<Longrightarrow>
   (\<And>e s. E' e s \<Longrightarrow> E e s) \<Longrightarrow> spec P m Q E"
  unfolding spec_def by (fastforce split: prod.splits sum.splits)

lemma spec_pre: "spec P' m Q E \<Longrightarrow> (\<And>s. P s \<Longrightarrow> P' s) \<Longrightarrow> spec P m Q E"
  by (rule spec_weaken)

lemma spec_bind:
  assumes "spec P m R E" "\<And>x. spec (R x) (f x) Q E"
  shows "spec P (bindM m f) Q E"
  using assms unfolding spec_def bindM_def by (fastforce split: prod.splits sum.splits)

lemma spec_then:
  "spec P m (\<lambda>_. R) E \<Longrightarrow> spec R n Q E \<Longrightarrow> spec P (thenM m n) Q E"
  unfolding thenM_def by (rule spec_bind)

lemma spec_ret: "spec (Q x) (ret x) Q E"
  by (simp add: spec_def ret_def)

lemma spec_fail: "spec (E e) (fail e) Q E"
  by (simp add: spec_def fail_def)

lemma spec_demand: "spec (\<lambda>s. if b then Q () s else E (Refused code) s) (demand b code) Q E"
  by (simp add: spec_def demand_def ret_def fail_def)

lemma spec_assert:
  "spec (\<lambda>s. case v of None \<Rightarrow> E (Raised (AssertionError [])) s | Some x \<Rightarrow> Q x s) (assertM v) Q E"
  by (cases v) (simp_all add: spec_def assertM_def ret_def fail_def)

lemma spec_lift: "spec (\<lambda>s. case r of Inl e \<Rightarrow> E e s | Inr x \<Rightarrow> Q x s) (lift r) Q E"
  by (cases r) (simp_all add: spec_def lift_def)

lemma spec_look: "spec (\<lambda>s. Q (f (es_db s)) s) (look f) Q E"
  by (simp add: spec_def look_def)

lemma spec_world: "spec (\<lambda>s. Q (f (es_world s)) s) (world f) Q E"
  by (simp add: spec_def world_def)

lemma spec_modify: "spec (\<lambda>s. Q () (s\<lparr>es_db := f (es_db s)\<rparr>)) (modify f) Q E"
  by (simp add: spec_def modify_def)

lemma spec_insert_row:
  "spec (\<lambda>s. case f (es_db s) of Inl e \<Rightarrow> E e s | Inr d \<Rightarrow> Q () (s\<lparr>es_db := d\<rparr>)) (insert_row f) Q E"
  by (auto simp: spec_def insert_row_def split: sum.splits)

lemma spec_new_id: "spec (\<lambda>s. \<forall>i. Q i (s\<lparr>es_ids := Suc (es_ids s)\<rparr>)) (new_id C p) Q E"
  by (simp add: spec_def new_id_def)

lemma spec_now: "spec (\<lambda>s. \<forall>t. Q t s) (now C) Q E"
  by (simp add: spec_def now_def world_def)

lemma spec_ask: "spec (\<lambda>s. \<forall>x w. Q x (s\<lparr>es_world := w\<rparr>)) (ask f) Q E"
  by (simp add: spec_def ask_def split: prod.splits)

lemma spec_ask_logged:
  "spec (\<lambda>s. \<forall>x w. Q x (s\<lparr>es_world := w, es_journal := es_journal s @ [e (es_db s) x]\<rparr>))
     (ask_logged e f) Q E"
  by (simp add: spec_def ask_logged_def split: prod.splits)

lemma spec_transaction:
  assumes "\<And>d. spec (\<lambda>s. P s \<and> es_db s = d) m
       (\<lambda>x s. Q x (s\<lparr>es_journal := es_journal s @ [Committed (es_db s)]\<rparr>))
       (\<lambda>e s. E e (s\<lparr>es_db := d\<rparr>))"
  shows "spec P (transaction m) Q E"
  using assms unfolding spec_def transaction_def by (fastforce split: prod.splits sum.splits)

lemma spec_catch_all:
  assumes "spec P m Q (\<lambda>e. R e)" "\<And>e. spec (R e) (h e) Q E"
  shows "spec P (catch_all m h) Q E"
  using assms unfolding spec_def catch_all_def by (fastforce split: prod.splits sum.splits)

lemma catch_refusal_cases:
  "catch_refusal m h s =
     (case m s of (r, t) \<Rightarrow> (case r of
        Inr x \<Rightarrow> (Inr x, t)
      | Inl e \<Rightarrow> (case e of Refused c \<Rightarrow> h c t | _ \<Rightarrow> (Inl e, t))))"
  by (simp add: catch_refusal_def split: prod.splits sum.splits engine_error.splits)

lemma spec_catch_refusal:
  assumes m: "spec P m Q (\<lambda>e s. case e of Refused c \<Rightarrow> R c s | _ \<Rightarrow> E e s)"
    and h: "\<And>c. spec (R c) (h c) Q E"
  shows "spec P (catch_refusal m h) Q E"
  unfolding spec_def
proof (intro allI impI)
  fix s assume p: "P s"
  obtain r t where r: "m s = (r, t)" by (cases "m s")
  show "case catch_refusal m h s of (Inl e, s') \<Rightarrow> E e s' | (Inr x, s') \<Rightarrow> Q x s'"
  proof (cases r)
    case (Inl e)
    have e: "case e of Refused c \<Rightarrow> R c t | _ \<Rightarrow> E e t"
      using specD_Inl [OF m p] r Inl by simp
    show ?thesis
    proof (cases e)
      case (Refused c)
      then have "R c t" using e by simp
      then have "case h c t of (Inl e, s') \<Rightarrow> E e s' | (Inr x, s') \<Rightarrow> Q x s'"
        by (rule h [unfolded spec_def, rule_format])
      then show ?thesis using r Inl Refused by (simp add: catch_refusal_cases)
    qed (use e r Inl in \<open>simp_all add: catch_refusal_cases\<close>)
  next
    case (Inr x)
    then show ?thesis using specD_Inr [OF m p] r by (simp add: catch_refusal_cases)
  qed
qed

end
