(* ===== verification/Change_Engine.thy ===== *)
theory Change_Engine
  imports Engine_Base
begin

text \<open>
  The change engine, up to a change's end: \<open>src/localplane/backend/changes.py\<close>, \<open>ChangeService\<close>.
  Confirming a run, granting the self-impact override, and \<open>apply\<close>: acquiring the object's write
  lock, spending the confirmation, arming recovery and the connection guard, crossing the write
  boundary, dispatching the mutation, verifying it, rolling back what could not be proved, and
  finishing. Refusals are kept by their code; the details and log lines they carry are not.
\<close>

section \<open>What a run is\<close>

definition CANCELLABLE_STATES :: "run_state list" where
  "CANCELLABLE_STATES = [RS_Preview, RS_Awaiting_Confirmation]"

definition appliable :: "run_record \<Rightarrow> bool" where
  "appliable r \<longleftrightarrow> rn_state r \<in> set CANCELLABLE_STATES"

definition OPERATIONS :: "operation_type list" where
  "OPERATIONS = [Network_Interface_Reconcile_Mtu, Docker_Container_Start, Docker_Container_Stop,
     Docker_Container_Restart, Systemd_Service_Start, Systemd_Service_Stop, Systemd_Service_Restart]"

definition operation_of :: "string \<Rightarrow> operation_type option" where
  "operation_of s = find (\<lambda>x. op_str x = s) OPERATIONS"

definition known_operation :: "string \<Rightarrow> bool" where
  "known_operation s \<longleftrightarrow> operation_of s \<noteq> None"

definition is_action :: "run_preview \<Rightarrow> bool" where
  "is_action p \<longleftrightarrow> rv_change_kind p = CHANGE_KIND_ACTION"

definition lock_aspect :: "run_record \<Rightarrow> string" where
  "lock_aspect r =
     (if rv_change_kind (rn_preview r) = CHANGE_KIND_ACTION then ACTION_LOCK_ASPECT
      else case rv_field (rn_preview r) of None \<Rightarrow> [] | Some f \<Rightarrow> f)"

definition requires_self_impact_override :: "run_record \<Rightarrow> bool" where
  "requires_self_impact_override r \<longleftrightarrow>
     rv_execution_eligibility (rn_preview r) = XE_Self_Impact_Override_Required"

definition is_guarded :: "run_record \<Rightarrow> bool" where
  "is_guarded r \<longleftrightarrow> rv_execution_eligibility (rn_preview r) = XE_Guarded"

definition arms_recovery :: "run_record \<Rightarrow> bool" where
  "arms_recovery r \<longleftrightarrow> rv_change_kind (rn_preview r) = CHANGE_KIND_FIELD"

section \<open>Steps of the transcript\<close>

definition append_event ::
  "'w engine_env \<Rightarrow> string \<Rightarrow> run_event \<Rightarrow> string option \<Rightarrow> run_state option \<Rightarrow> run_state option \<Rightarrow>
   ('w, unit) engine" where
  "append_event E rid ev cid st_from st_to =
     bindM (new_id E ''evt_'') (\<lambda>eid.
     bindM (now E) (\<lambda>t.
     modify (\<lambda>d. d\<lparr>db_events := events_append eid rid ev t cid st_from st_to (db_events d)\<rparr>)))"

definition reread :: "string \<Rightarrow> ('w, run_record) engine" where
  "reread rid = bindM (look (\<lambda>d. runs_get rid (db_runs d)))
     (\<lambda>r. case r of None \<Rightarrow> fail (Refused ''run_not_found'') | Some x \<Rightarrow> ret x)"

definition require_change :: "string \<Rightarrow> ('w, change_record) engine" where
  "require_change cid = bindM (look (\<lambda>d. changes_get cid (db_changes d))) assertM"

definition state_of :: "string \<Rightarrow> ('w, run_state) engine" where
  "state_of rid = bindM (bindM (look (\<lambda>d. runs_get rid (db_runs d))) assertM) (\<lambda>r. ret (rn_state r))"

definition set_state ::
  "string \<Rightarrow> run_state option \<Rightarrow> host_effect option \<Rightarrow> instant option \<Rightarrow> ('w, unit) engine" where
  "set_state rid st eff fin =
     modify (\<lambda>d. d\<lparr>db_runs := runs_set_state rid st eff fin (db_runs d)\<rparr>)"

definition update_change ::
  "string \<Rightarrow> (change_record \<Rightarrow> change_record) \<Rightarrow> ('w, unit) engine" where
  "update_change cid f = modify (\<lambda>d. d\<lparr>db_changes := changes_update cid f (db_changes d)\<rparr>)"

definition release_lock :: "string \<Rightarrow> ('w, unit) engine" where
  "release_lock rid = modify (\<lambda>d. d\<lparr>db_locks := locks_release rid (db_locks d)\<rparr>)"

text \<open>
  One step: the run's new state, the change's new columns, the event, and the lock's release,
  in one transaction. \<open>fin\<close> says whether the step finishes the run; \<open>upd\<close> writes the columns,
  given the instant of the step.
\<close>

definition step ::
  "'w engine_env \<Rightarrow> string \<Rightarrow> run_event \<Rightarrow> string option \<Rightarrow> run_state option \<Rightarrow> run_state option \<Rightarrow>
   host_effect option \<Rightarrow> bool \<Rightarrow> (instant \<Rightarrow> change_record \<Rightarrow> change_record) option \<Rightarrow> bool \<Rightarrow>
   ('w, unit) engine" where
  "step E rid ev cid st st_from eff fin upd rel = transaction (
     bindM (now E) (\<lambda>t.
     thenM (if st \<noteq> None \<or> eff \<noteq> None \<or> fin
            then bindM (case st of Some x \<Rightarrow> ret x | None \<Rightarrow> state_of rid)
                   (\<lambda>x. set_state rid (Some x) eff (if fin then Some t else None))
            else ret ())
     (thenM (case (upd, cid) of (Some u, Some c) \<Rightarrow> update_change c (u t) | _ \<Rightarrow> ret ())
     (thenM (append_event E rid ev cid st_from st)
            (if rel then release_lock rid else ret ())))))"

section \<open>What the run is asked about\<close>

definition executor_of :: "'w engine_env \<Rightarrow> run_record \<Rightarrow> ('w, 'w operation_executor) engine" where
  "executor_of E r =
     (case operation_of (rn_operation r) of
        None \<Rightarrow> fail (Refused ''unsupported_operation'')
      | Some x \<Rightarrow> (case ev_executors E x of
          None \<Rightarrow> fail (Refused ''execution_not_implemented'')
        | Some y \<Rightarrow> ret y))"

definition operation_type_of :: "run_record \<Rightarrow> ('w, operation_type) engine" where
  "operation_type_of r =
     (case operation_of (rn_operation r) of
        None \<Rightarrow> fail (Raised (ValueError ''not a valid OperationType''))
      | Some x \<Rightarrow> ret x)"

definition require_target :: "'w engine_env \<Rightarrow> run_record \<Rightarrow> ('w, object_record) engine" where
  "require_target E r = bindM (world (\<lambda>w. ev_object E w (rn_object_id r)))
     (\<lambda>x. case x of None \<Rightarrow> fail (Refused ''object_not_found'') | Some y \<Rightarrow> ret y)"

definition preview_executable :: "run_preview \<Rightarrow> bool" where
  "preview_executable p \<longleftrightarrow>
     rv_execution_availability p = XA_Available \<and>
     rv_execution_eligibility p \<in> set [XE_Eligible, XE_Guarded, XE_Self_Impact_Override_Required]"

definition require_executable_preview :: "run_record \<Rightarrow> ('w, unit) engine" where
  "require_executable_preview r =
     demand (preview_executable (rn_preview r)) ''preview_not_executable''"

definition require_self_impact_override :: "run_record \<Rightarrow> ('w, unit) engine" where
  "require_self_impact_override r =
     demand (rv_execution_eligibility (rn_preview r) = XE_Self_Impact_Override_Required)
       ''self_impact_override_not_applicable''"

definition required_relation :: "run_record \<Rightarrow> management_path_relation" where
  "required_relation r = (if is_guarded r then On_Management_Path else Not_On_Management_Path)"

definition permitted_eligibility :: "run_record \<Rightarrow> execution_eligibility" where
  "permitted_eligibility r =
     (if requires_self_impact_override r then XE_Self_Impact_Override_Required
      else if is_guarded r then XE_Guarded else XE_Eligible)"

definition plan_now ::
  "'w engine_env \<Rightarrow> run_record \<Rightarrow> management_path_verdict \<Rightarrow> object_record option \<Rightarrow>
   systemd_lifecycle_context option \<Rightarrow> ('w, run_plan) engine" where
  "plan_now E r mp given ctx =
     bindM (case given of None \<Rightarrow> require_target E r | Some x \<Rightarrow> ret x) (\<lambda>record.
     bindM (operation_type_of r) (\<lambda>op.
     bindM (world (\<lambda>w. ev_replan E w op record mp ctx)) (\<lambda>replanned.
     case replanned of
       Inl _ \<Rightarrow> fail (Refused ''preview_stale'')
     | Inr plan \<Rightarrow>
       let validity = assess_validity (ev_digest E) (\<lambda>x. x) (ev_published_plan E r)
             (rv_preview_digest (rn_preview r)) (Inr plan) (rv_digest_version (rn_preview r));
           relation = pa_management_path (rp_protection plan);
           def = ev_definition E op in
       thenM (demand (pva_state validity \<noteq> PV_Stale) ''preview_stale'')
       (thenM (demand (\<not> (od_can_affect_management_path def \<and>
                          od_protection_uses_resource_relation def \<and>
                          relation \<noteq> required_relation r))
                (if relation = Relation_Unknown then ''management_path_unproven''
                 else if required_relation r = Not_On_Management_Path
                 then ''target_is_management_path'' else ''target_is_not_management_path''))
       (thenM (demand (xas_eligibility (rp_execution plan) = permitted_eligibility r)
                ''execution_blocked'')
              (ret plan))))))"

section \<open>Confirming\<close>

definition preview_checks ::
  "run_record \<Rightarrow> string \<Rightarrow> string option \<Rightarrow> ('w, unit) engine" where
  "preview_checks r preview_id expected =
     thenM (demand (preview_id = rv_preview_id (rn_preview r)) ''confirmation_preview_mismatch'')
           (demand (expected = None \<or> expected = Some (rv_preview_digest (rn_preview r)))
              ''preview_digest_mismatch'')"

definition insert_confirmation :: "confirmation_record \<Rightarrow> ('w, unit) engine" where
  "insert_confirmation c = insert_row (\<lambda>d.
     case confirmations_insert c (db_confirmations d) of
       Inl e \<Rightarrow> Inl e | Inr t \<Rightarrow> Inr (d\<lparr>db_confirmations := t\<rparr>))"

definition typed_requirement ::
  "'w engine_env \<Rightarrow> run_record \<Rightarrow> confirmation_method \<Rightarrow> string option \<Rightarrow>
   ('w, string option) engine" where
  "typed_requirement E r required typed =
     (if required = CM_Typed
      then bindM (require_target E r) (\<lambda>record.
           thenM (demand (typed \<noteq> None) ''confirmation_object_required'')
           (thenM (demand (typed = Some (oj_display_name record)) ''confirmation_object_mismatch'')
                  (ret typed)))
      else thenM (demand (typed = None) ''confirmation_object_not_required'') (ret None))"

text \<open>
  The transaction all three confirmations end in: nothing of the kind may be recorded already
  (\<open>existing\<close>), and the row names the preview its run published.
\<close>

definition confirmation_row ::
  "run_record \<Rightarrow> string \<Rightarrow> confirmation_purpose \<Rightarrow> confirmation_method \<Rightarrow> confirmation_method \<Rightarrow>
   string option \<Rightarrow> instant \<Rightarrow> confirmation_record" where
  "confirmation_row r cid purpose required method typed t =
     \<lparr>cn_confirmation_id = cid, cn_run_id = rn_run_id r, cn_purpose = purpose,
      cn_preview_id = rv_preview_id (rn_preview r),
      cn_preview_digest = rv_preview_digest (rn_preview r),
      cn_digest_version = rv_digest_version (rn_preview r),
      cn_required_method = required, cn_method = method, cn_typed_statement = typed,
      cn_policy = rv_confirmation_policy (rn_preview r),
      cn_source = CONFIRMATION_SOURCE_AUTHENTICATED, cn_satisfied_at = t,
      cn_consumed_at = None, cn_consumed_by_attempt_id = None\<rparr>"

definition record_confirmation ::
  "'w engine_env \<Rightarrow> run_record \<Rightarrow> confirmation_purpose \<Rightarrow> confirmation_method \<Rightarrow>
   confirmation_method \<Rightarrow> string option \<Rightarrow> (database \<Rightarrow> confirmation_record option) \<Rightarrow> string \<Rightarrow>
   run_event \<Rightarrow> string option \<Rightarrow> ('w, confirmation_record) engine" where
  "record_confirmation E r purpose required method typed existing taken ev change_id =
     bindM (new_id E ''cnf_'') (\<lambda>cid. transaction (
       bindM (look existing) (\<lambda>old.
       thenM (demand (old = None) taken)
       (bindM (now E) (\<lambda>t.
        thenM (insert_confirmation (confirmation_row r cid purpose required method typed t))
       (thenM (append_event E (rn_run_id r) ev change_id None None)
       (bindM (look existing) assertM)))))))"

definition confirm ::
  "'w engine_env \<Rightarrow> string \<Rightarrow> string \<Rightarrow> bool \<Rightarrow> string option \<Rightarrow> management_path_verdict \<Rightarrow>
   string option \<Rightarrow> systemd_lifecycle_context option \<Rightarrow> ('w, confirmation_record) engine" where
  "confirm E rid preview_id acknowledge expected mp acknowledge_object ctx =
     bindM (reread rid) (\<lambda>r.
     let plan = ev_published_plan E r; required = crq_method (rp_confirmation plan) in
     thenM (demand (appliable r) ''run_not_confirmable'')
     (thenM (preview_checks r preview_id expected)
     (thenM (demand (crq_required (rp_confirmation plan)) ''confirmation_not_required'')
     (thenM (require_executable_preview r)
     (thenM (demand (required = CM_Acknowledge \<or> required = CM_Typed)
               ''confirmation_method_unsupported'')
     (thenM (demand acknowledge ''confirmation_not_acknowledged'')
     (bindM (typed_requirement E r required acknowledge_object) (\<lambda>typed.
      thenM (plan_now E r mp None ctx)
            (record_confirmation E r CP_Apply required required typed
               (\<lambda>d. confirmations_for_run rid CP_Apply (db_confirmations d))
               ''confirmation_already_satisfied'' Ev_Confirmation_Satisfied None)))))))))"

definition grant_self_impact_override ::
  "'w engine_env \<Rightarrow> string \<Rightarrow> string \<Rightarrow> bool \<Rightarrow> string option \<Rightarrow> management_path_verdict \<Rightarrow>
   systemd_lifecycle_context option \<Rightarrow> ('w, confirmation_record) engine" where
  "grant_self_impact_override E rid preview_id acknowledge expected mp ctx =
     bindM (reread rid) (\<lambda>r.
     thenM (demand (appliable r) ''run_not_confirmable'')
     (thenM (preview_checks r preview_id expected)
     (thenM (require_self_impact_override r)
     (thenM (demand acknowledge ''confirmation_not_acknowledged'')
     (thenM (plan_now E r mp None ctx)
            (record_confirmation E r CP_Self_Impact_Override CM_Acknowledge CM_Acknowledge None
               (\<lambda>d. confirmations_for_run rid CP_Self_Impact_Override (db_confirmations d))
               ''self_impact_override_already_granted'' Ev_Confirmation_Satisfied None))))))"

section \<open>Acquiring, and spending the confirmation\<close>

definition acquire_lock :: "run_record \<Rightarrow> instant \<Rightarrow> ('w, bool) engine" where
  "acquire_lock r t = put (\<lambda>d.
     (case locks_acquire (rn_host_id r) (rn_object_id r) (lock_aspect r) (rn_run_id r) t (db_locks d) of
        (taken, l) \<Rightarrow> (taken, d\<lparr>db_locks := l\<rparr>)))"

definition acquire :: "'w engine_env \<Rightarrow> string \<Rightarrow> ('w, run_record) engine" where
  "acquire E rid = transaction (
     bindM (reread rid) (\<lambda>r.
     thenM (demand (appliable r) ''run_not_appliable'')
     (bindM (look (\<lambda>d. locks_for_run rid (db_locks d))) (\<lambda>own.
      if own \<noteq> None then ret r
      else bindM (now E) (\<lambda>t.
           bindM (acquire_lock r t) (\<lambda>taken.
           thenM (demand taken ''object_write_locked'') (ret r)))))))"

definition consume :: "'w engine_env \<Rightarrow> string \<Rightarrow> string \<Rightarrow> ('w, bool) engine" where
  "consume E confirmation_id attempt_id =
     bindM (now E) (\<lambda>t. put (\<lambda>d.
       (case confirmations_consume confirmation_id attempt_id t (db_confirmations d) of
          (done, c) \<Rightarrow> (done, d\<lparr>db_confirmations := c\<rparr>))))"

definition spend ::
  "'w engine_env \<Rightarrow> run_record \<Rightarrow> confirmation_purpose \<Rightarrow> string \<Rightarrow> string \<Rightarrow> string \<Rightarrow>
   ('w, unit) engine" where
  "spend E r purpose attempt_id missing spent =
     bindM (look (\<lambda>d. confirmations_for_run (rn_run_id r) purpose (db_confirmations d))) (\<lambda>found.
     case found of
       None \<Rightarrow> fail (Refused missing)
     | Some c \<Rightarrow>
       thenM (demand (\<not> cn_consumed c) spent)
       (thenM (demand (cn_preview_digest c = rv_preview_digest (rn_preview r))
                 ''preview_digest_mismatch'')
       (bindM (consume E (cn_confirmation_id c) attempt_id) (\<lambda>done.
        thenM (demand done spent)
              (append_event E (rn_run_id r) Ev_Confirmation_Consumed None None None)))))"

definition consume_self_impact_override ::
  "'w engine_env \<Rightarrow> run_record \<Rightarrow> string \<Rightarrow> ('w, unit) engine" where
  "consume_self_impact_override E r attempt_id =
     spend E r CP_Self_Impact_Override attempt_id ''self_impact_override_required''
       ''self_impact_override_already_consumed''"

definition consume_confirmation ::
  "'w engine_env \<Rightarrow> run_record \<Rightarrow> string \<Rightarrow> ('w, run_record) engine" where
  "consume_confirmation E r0 attempt_id =
     bindM (if rn_state r0 = RS_Preview
            then thenM (step E (rn_run_id r0) Ev_Confirmation_Required None
                          (Some RS_Awaiting_Confirmation) (Some (rn_state r0)) None False None False)
                       (reread (rn_run_id r0))
            else ret r0) (\<lambda>r.
     thenM (transaction (
        thenM (spend E r CP_Apply attempt_id ''confirmation_required''
                 ''confirmation_already_consumed'')
       (thenM (if requires_self_impact_override r then consume_self_impact_override E r attempt_id
               else ret ())
              (if arms_recovery r
               then thenM (set_state (rn_run_id r) (Some RS_Arming) None None)
                      (append_event E (rn_run_id r) Ev_Arming_Started None (Some (rn_state r))
                         (Some RS_Arming))
               else ret ()))))
     (reread (rn_run_id r)))"

section \<open>Identifying the target, and arming recovery\<close>

text \<open>
  The run fails without a change. A refusal of the executor's keeps its code; any other failure
  is reported with the code of the step that failed.
\<close>

definition failure_code :: "engine_error \<Rightarrow> string \<Rightarrow> string" where
  "failure_code e other = (case e of Execution_Refused c \<Rightarrow> c | _ \<Rightarrow> other)"

definition fail_before_boundary ::
  "'w engine_env \<Rightarrow> run_record \<Rightarrow> run_event \<Rightarrow> run_state \<Rightarrow> string \<Rightarrow> ('w, 'a) engine" where
  "fail_before_boundary E r ev st_from code =
     thenM (step E (rn_run_id r) ev None (Some RS_Failed) (Some st_from) (Some HE_None) True None True)
           (fail (Refused code))"

definition ask_correlation ::
  "'w operation_executor \<Rightarrow> object_record \<Rightarrow> ('w, facts) engine" where
  "ask_correlation x record = bindM (ask (xc_correlate x record)) lift"

definition correlate ::
  "'w engine_env \<Rightarrow> run_record \<Rightarrow> object_record \<Rightarrow> 'w operation_executor \<Rightarrow> ('w, facts) engine" where
  "correlate E r record x =
     bindM (catch_all (ask_correlation x record)
              (\<lambda>e. fail_before_boundary E r Ev_Target_Correlation_Failed (rn_state r)
                     (failure_code e ''target_not_correlated''))) (\<lambda>correlation.
     thenM (transaction (append_event E (rn_run_id r) Ev_Target_Correlated None None None))
           (ret correlation))"

definition checkpoint_row ::
  "run_record \<Rightarrow> string \<Rightarrow> facts \<Rightarrow> ivalue \<Rightarrow> ivalue \<Rightarrow> instant \<Rightarrow> checkpoint_record" where
  "checkpoint_row r cid correlation before desired t =
     (let p = rn_preview r in
      \<lparr>ck_checkpoint_id = cid, ck_run_id = rn_run_id r, ck_preview_id = rv_preview_id p,
       ck_host_id = rn_host_id r, ck_object_id = rn_object_id r,
       ck_intent_id = rv_intent_id p, ck_intent_version = rv_intent_version p,
       ck_field = rv_field p, ck_value_type = rv_value_type p,
       ck_before_value = before, ck_desired_value = desired,
       ck_observation_id = rv_observation_id p, ck_observed_at = rv_observed_at p,
       ck_protection_management_path = rv_protection_management_path p,
       ck_protection_evidence_id = rv_protection_evidence_id p,
       ck_execution_correlation = correlation, ck_armed_at = t\<rparr>)"

definition write_checkpoint ::
  "'w engine_env \<Rightarrow> run_record \<Rightarrow> object_record \<Rightarrow> 'w operation_executor \<Rightarrow> string \<Rightarrow>
   ('w, unit) engine" where
  "write_checkpoint E r record x cid =
     bindM (ask_correlation x record) (\<lambda>correlation.
     transaction (
       bindM (lift (required_column (rv_value_type (rn_preview r)) (rv_current_value (rn_preview r))))
         (\<lambda>before.
       bindM (lift (required_column (rv_value_type (rn_preview r)) (rv_desired_value (rn_preview r))))
         (\<lambda>desired.
       bindM (now E) (\<lambda>t.
       thenM (insert_row (\<lambda>d.
          case checkpoints_insert (checkpoint_row r cid correlation before desired t)
                 (db_checkpoints d) of
            Inl e \<Rightarrow> Inl e | Inr k \<Rightarrow> Inr (d\<lparr>db_checkpoints := k\<rparr>)))
         (append_event E (rn_run_id r) Ev_Checkpoint_Written None None None))))))"

definition arm ::
  "'w engine_env \<Rightarrow> run_record \<Rightarrow> object_record \<Rightarrow> 'w operation_executor \<Rightarrow>
   ('w, checkpoint_record) engine" where
  "arm E r record x =
     bindM (new_id E ''ckp_'') (\<lambda>cid.
     thenM (catch_all (write_checkpoint E r record x cid)
              (\<lambda>e. fail_before_boundary E r Ev_Arming_Failed RS_Arming
                     (failure_code e ''checkpoint_not_written'')))
     (bindM (look (\<lambda>d. checkpoints_for_run (rn_run_id r) (db_checkpoints d))) assertM))"

definition prepare ::
  "'w engine_env \<Rightarrow> run_record \<Rightarrow> object_record \<Rightarrow> 'w operation_executor \<Rightarrow>
   ('w, checkpoint_record option \<times> facts) engine" where
  "prepare E r record x =
     (if arms_recovery r
      then bindM (arm E r record x) (\<lambda>k. ret (Some k, ck_execution_correlation k))
      else bindM (correlate E r record x) (\<lambda>c. ret (None, c)))"

section \<open>The connection guard\<close>

definition update_guard ::
  "string \<Rightarrow> (run_guard_record \<Rightarrow> run_guard_record) \<Rightarrow> ('w, unit) engine" where
  "update_guard gid f = modify (\<lambda>d. d\<lparr>db_guards := guards_update gid f (db_guards d)\<rparr>)"

definition ask_disarm ::
  "'w operation_executor \<Rightarrow> string \<Rightarrow> ('w, guard_report) engine" where
  "ask_disarm x gid = ask_logged (\<lambda>d. Disarm_Asked d gid) (xc_disarm_guard x gid)"

definition ask_status ::
  "'w operation_executor \<Rightarrow> string \<Rightarrow> ('w, guard_report) engine" where
  "ask_status x gid = ask_logged (\<lambda>d. Status_Asked d gid) (xc_guard_status x gid)"

text \<open>
  A fired guard's reversal, as a settled guard records it; a report without one is unknown.
  \<open>now_text\<close> is the clock's reading as text, for a report that names no instant.
\<close>

definition reversal_outcome :: "guard_report \<Rightarrow> mutation_outcome" where
  "reversal_outcome rep =
     (case grp_mutation rep of None \<Rightarrow> MO_Write_Unknown | Some m \<Rightarrow> rep_outcome m)"

definition or_text :: "string option \<Rightarrow> string \<Rightarrow> string" where
  "or_text v other = (case v of None \<Rightarrow> other | Some s \<Rightarrow> if s = [] then other else s)"

definition fired_columns :: "string \<Rightarrow> guard_report \<Rightarrow> run_guard_record \<Rightarrow> run_guard_record" where
  "fired_columns now_text rep g =
     (if grp_phase rep = GP_Fired
      then g\<lparr>gd_fired_at := Some (or_text (grp_fired_at rep) now_text),
             gd_reversal_outcome := Some (reversal_outcome rep),
             gd_reversal_reason := map_option rep_reason (grp_mutation rep)\<rparr>
      else g)"

definition expires_detail :: "string \<Rightarrow> guard_report \<Rightarrow> string" where
  "expires_detail now_text rep =
     (case get (grp_detail rep) ''expires_at'' of
        PStr s \<Rightarrow> or_text (Some s) now_text | _ \<Rightarrow> now_text)"

definition abandoned_columns ::
  "string \<Rightarrow> guard_refused \<Rightarrow> guard_report \<Rightarrow> instant \<Rightarrow> run_guard_record \<Rightarrow> run_guard_record" where
  "abandoned_columns now_text refusal rep t g =
     (let g1 = g\<lparr>gd_settled_at := Some t, gd_settled_phase := Some (grp_phase rep),
                 gd_settled_reason := Some (grf_code refusal)\<rparr>;
          g2 = (if grp_phase rep = GP_Disarmed \<and>
                   grp_holder_id rep \<noteq> None \<and> grp_holder_id rep \<noteq> Some []
                then g1\<lparr>gd_armed_at := Some t, gd_expires_at := Some (expires_detail now_text rep),
                        gd_holder_id := grp_holder_id rep\<rparr> else g1) in
      if grp_phase rep = GP_Fired
      then (fired_columns now_text rep g2)\<lparr>gd_armed_at := Some t,
              gd_expires_at := Some (expires_detail now_text rep),
              gd_holder_id := Some (or_text (grp_holder_id rep) ''unknown'')\<rparr>
      else g2)"

definition abandon_guard ::
  "'w engine_env \<Rightarrow> run_record \<Rightarrow> string \<Rightarrow> 'w operation_executor \<Rightarrow> guard_refused \<Rightarrow>
   ('w, unit) engine" where
  "abandon_guard E r gid x refusal =
     bindM (ask_disarm x gid) (\<lambda>rep.
     bindM (now E) (\<lambda>t.
     thenM (transaction (update_guard gid (abandoned_columns (ev_text E t) refusal rep t)))
           (step E (rn_run_id r) Ev_Guard_Arming_Failed None (Some RS_Failed) (Some (rn_state r))
              (Some HE_None) True None True)))"

definition guard_row ::
  "run_record \<Rightarrow> checkpoint_record \<Rightarrow> string \<Rightarrow> string \<Rightarrow> string \<Rightarrow> instant \<Rightarrow> run_guard_record" where
  "guard_row r k gid reversal confirmation_id t =
     \<lparr>gd_guard_id = gid, gd_run_id = rn_run_id r, gd_preview_id = rv_preview_id (rn_preview r),
      gd_checkpoint_id = ck_checkpoint_id k, gd_host_id = rn_host_id r,
      gd_object_id = rn_object_id r,
      gd_protection_management_path = ck_protection_management_path k,
      gd_protection_evidence_id = ck_protection_evidence_id k,
      gd_confirmation_id = confirmation_id, gd_window_s = rv_guard_window_s (rn_preview r),
      gd_arm_began_at = t, gd_armed_at = None, gd_expires_at = None, gd_holder_id = None,
      gd_reversal_attempt_id = reversal, gd_kept_at = None, gd_kept_evidence_id = None,
      gd_settled_at = None, gd_settled_phase = None, gd_settled_reason = None,
      gd_fired_at = None, gd_reversal_outcome = None, gd_reversal_reason = None\<rparr>"

definition arm_request :: "run_record \<Rightarrow> checkpoint_record \<Rightarrow> string \<Rightarrow> string \<Rightarrow> guard_request" where
  "arm_request r k gid reversal =
     \<lparr>grq_guard_id = gid, grq_attempt_id = reversal,
      grq_correlation = ck_execution_correlation k,
      grq_guarded_value = ck_desired_value k, grq_restore_value = ck_before_value k,
      grq_window_s = rv_guard_window_s (rn_preview r)\<rparr>"

definition arm_guard ::
  "'w engine_env \<Rightarrow> run_record \<Rightarrow> checkpoint_record option \<Rightarrow> 'w operation_executor \<Rightarrow>
   ('w, run_guard_record) engine" where
  "arm_guard E r checkpoint x =
     bindM (assertM checkpoint) (\<lambda>k.
     bindM (look (\<lambda>d. confirmations_for_run (rn_run_id r) CP_Apply (db_confirmations d))) (\<lambda>found.
     case found of
       None \<Rightarrow> fail (Refused ''confirmation_required'')
     | Some c \<Rightarrow>
       thenM (demand (cn_consumed c) ''confirmation_required'')
       (bindM (new_id E ''grd_'') (\<lambda>gid.
        bindM (new_id E ''rev_'') (\<lambda>reversal.
        bindM (now E) (\<lambda>t.
        thenM (transaction (insert_row (\<lambda>d.
           case guards_insert (guard_row r k gid reversal (cn_confirmation_id c) t) (db_guards d) of
             Inl e \<Rightarrow> Inl e | Inr g \<Rightarrow> Inr (d\<lparr>db_guards := g\<rparr>))))
        (bindM (ask_logged (\<lambda>d. Arm_Asked d (arm_request r k gid reversal))
                  (xc_arm_guard x (arm_request r k gid reversal))) (\<lambda>armed.
        case armed of
          Inl refusal \<Rightarrow>
            thenM (abandon_guard E r gid x refusal) (fail (Refused (grf_code refusal)))
        | Inr a \<Rightarrow>
            bindM (now E) (\<lambda>t'.
            thenM (transaction (thenM
               (update_guard gid (\<lambda>g. g\<lparr>gd_armed_at := Some t',
                  gd_expires_at := Some (gar_expires_at a), gd_holder_id := Some (gar_holder_id a)\<rparr>))
               (append_event E (rn_run_id r) Ev_Guard_Armed None None None)))
            (bindM (look (\<lambda>d. guards_get gid (db_guards d))) assertM))))))))))"

definition settled_columns ::
  "string \<Rightarrow> guard_report \<Rightarrow> string \<Rightarrow> instant \<Rightarrow> run_guard_record \<Rightarrow> run_guard_record" where
  "settled_columns now_text rep reason t g =
     fired_columns now_text rep (g\<lparr>gd_settled_at := Some t, gd_settled_phase := Some (grp_phase rep),
       gd_settled_reason := Some (or_text (grp_reason rep) reason)\<rparr>)"

definition record_guard_settlement ::
  "'w engine_env \<Rightarrow> run_record \<Rightarrow> run_guard_record \<Rightarrow> guard_report \<Rightarrow> string \<Rightarrow> string option \<Rightarrow>
   ('w, unit) engine" where
  "record_guard_settlement E r g rep reason change_id =
     bindM (now E) (\<lambda>t.
     transaction (thenM
       (update_guard (gd_guard_id g) (settled_columns (ev_text E t) rep reason t))
       (append_event E (rn_run_id r) Ev_Guard_Settled change_id None None)))"

definition release_guard ::
  "'w engine_env \<Rightarrow> run_record \<Rightarrow> run_guard_record option \<Rightarrow> 'w operation_executor \<Rightarrow> string \<Rightarrow>
   string option \<Rightarrow> ('w, guard_report option) engine" where
  "release_guard E r guard x reason change_id =
     (case guard of
        None \<Rightarrow> ret None
      | Some g \<Rightarrow> bindM (ask_disarm x (gd_guard_id g)) (\<lambda>rep.
          thenM (record_guard_settlement E r g rep reason change_id) (ret (Some rep))))"

section \<open>Crossing the write boundary, and dispatching\<close>

text \<open>What the change is about, read from the preview: a field's value or an action.\<close>

definition change_row ::
  "run_record \<Rightarrow> string \<Rightarrow> string \<Rightarrow> checkpoint_record option \<Rightarrow> facts \<Rightarrow> instant \<Rightarrow> change_record" where
  "change_row r cid attempt checkpoint correlation t =
     (let p = rn_preview r in
      \<lparr>ch_change_id = cid, ch_run_id = rn_run_id r, ch_preview_id = rv_preview_id p,
       ch_checkpoint_id = map_option ck_checkpoint_id checkpoint,
       ch_host_id = rn_host_id r, ch_object_id = rn_object_id r, ch_operation = rn_operation r,
       ch_change_kind = CHANGE_KIND_FIELD, ch_field = None, ch_value_type = None,
       ch_before_value = None, ch_desired_value = None, ch_action = None,
       ch_observed_state = None, ch_expected_state = None,
       ch_execution_correlation = correlation, ch_created_at = t,
       ch_apply_attempt_id = attempt, ch_dispatch_began_at = None,
       ch_mutation_outcome = None, ch_mutation_reason = None, ch_mutation_provider = None,
       ch_mutation_method = None, ch_mutation_detail = [], ch_settled_at = None,
       ch_host_effect = HE_None, ch_verification_outcome = VO_Not_Attempted,
       ch_verification_observation_id = None, ch_verification_observed_value = None,
       ch_verification_observed_state = None, ch_verification_reason = None,
       ch_rollback_required = False, ch_rollback_attempt_id = None,
       ch_rollback_dispatch_began_at = None, ch_rollback_outcome = None,
       ch_rollback_reason = None, ch_rollback_detail = [],
       ch_rollback_verification_outcome = VO_Not_Attempted,
       ch_rollback_verification_observation_id = None,
       ch_rollback_verification_observed_value = None,
       ch_result = CR_In_Flight, ch_recovery_reason = None, ch_finished_at = None\<rparr>)"

definition change_identity_columns ::
  "run_preview \<Rightarrow> change_record \<Rightarrow> engine_error + change_record" where
  "change_identity_columns p c =
     (if rv_change_kind p = CHANGE_KIND_ACTION
      then Inr (c\<lparr>ch_change_kind := CHANGE_KIND_ACTION, ch_action := rv_action p,
             ch_observed_state := rv_observed_state p, ch_expected_state := rv_expected_state p\<rparr>)
      else bindE (required_column (rv_value_type p) (rv_current_value p)) (\<lambda>before.
           bindE (required_column (rv_value_type p) (rv_desired_value p)) (\<lambda>desired.
           Inr (c\<lparr>ch_change_kind := CHANGE_KIND_FIELD, ch_field := rv_field p,
                  ch_value_type := rv_value_type p, ch_before_value := Some before,
                  ch_desired_value := Some desired\<rparr>))))"

definition cross ::
  "'w engine_env \<Rightarrow> run_record \<Rightarrow> checkpoint_record option \<Rightarrow> facts \<Rightarrow> ('w, change_record) engine" where
  "cross E r checkpoint correlation =
     bindM (new_id E ''chg_'') (\<lambda>cid.
     bindM (new_id E ''apl_'') (\<lambda>attempt.
     thenM (transaction (
       thenM (set_state (rn_run_id r) (Some RS_Applying) None None)
       (bindM (now E) (\<lambda>t.
        bindM (lift (change_identity_columns (rn_preview r)
                       (change_row r cid attempt checkpoint correlation t))) (\<lambda>c.
        thenM (insert_row (\<lambda>d. case changes_insert c (db_changes d) of
                 Inl e \<Rightarrow> Inl e | Inr x \<Rightarrow> Inr (d\<lparr>db_changes := x\<rparr>)))
              (append_event E (rn_run_id r) Ev_Write_Boundary_Crossed (Some cid)
                 (Some (rn_state r)) (Some RS_Applying)))))))
     (require_change cid)))"

definition apply_request :: "change_record \<Rightarrow> mutation_request" where
  "apply_request c =
     (if ch_change_kind c = CHANGE_KIND_ACTION
      then \<lparr>mr_kind = CHANGE_KIND_ACTION, mr_attempt_id = ch_apply_attempt_id c,
            mr_correlation = ch_execution_correlation c, mr_expected_current = None,
            mr_desired = None, mr_action = ch_action c\<rparr>
      else \<lparr>mr_kind = CHANGE_KIND_FIELD, mr_attempt_id = ch_apply_attempt_id c,
            mr_correlation = ch_execution_correlation c,
            mr_expected_current = ch_before_value c, mr_desired = ch_desired_value c,
            mr_action = None\<rparr>)"

definition ask_mutate ::
  "'w operation_executor \<Rightarrow> mutation_request \<Rightarrow> ('w, mutation_report) engine" where
  "ask_mutate x q = ask_logged (\<lambda>d. Mutated d q) (xc_mutate x q)"

definition dispatch ::
  "'w engine_env \<Rightarrow> run_record \<Rightarrow> change_record \<Rightarrow> 'w operation_executor \<Rightarrow>
   ('w, mutation_report) engine" where
  "dispatch E r c x =
     thenM (step E (rn_run_id r) Ev_Mutation_Dispatched (Some (ch_change_id c)) None None None False
              (Some (\<lambda>t c. c\<lparr>ch_dispatch_began_at := Some t\<rparr>)) False)
           (ask_mutate x (apply_request c))"

definition outcome_columns ::
  "mutation_report \<Rightarrow> instant \<Rightarrow> change_record \<Rightarrow> change_record" where
  "outcome_columns rep t c =
     c\<lparr>ch_mutation_outcome := Some (rep_outcome rep), ch_mutation_reason := Some (rep_reason rep),
       ch_mutation_provider := rep_provider rep, ch_mutation_method := rep_method rep,
       ch_mutation_detail := rep_detail rep, ch_settled_at := Some t,
       ch_host_effect := host_effect_for (rep_outcome rep)\<rparr>"

definition settle_change ::
  "'w engine_env \<Rightarrow> run_record \<Rightarrow> change_record \<Rightarrow> mutation_report \<Rightarrow> ('w, change_record) engine" where
  "settle_change E r c rep =
     thenM (step E (rn_run_id r) Ev_Mutation_Result (Some (ch_change_id c)) None None
              (Some (host_effect_for (rep_outcome rep))) False (Some (outcome_columns rep)) False)
           (require_change (ch_change_id c))"

section \<open>Reading back\<close>

record read_back_result =
  rb_outcome :: verification_outcome
  rb_observation_id :: "string option"
  rb_value :: "ivalue option"
  rb_state :: "string option"
  rb_reason :: "string option"

definition rb_observed :: "read_back_result \<Rightarrow> pyval" where
  "rb_observed r = (case rb_value r of Some v \<Rightarrow> to_pyval v | None \<Rightarrow> opt_text (rb_state r))"

definition applied_expectation :: "change_record \<Rightarrow> facts option \<Rightarrow> expectation" where
  "applied_expectation c correlation =
     (let material = (case correlation of None \<Rightarrow> ch_execution_correlation c | Some m \<Rightarrow> m) in
      if ch_change_kind c = CHANGE_KIND_ACTION
      then \<lparr>ex_kind = CHANGE_KIND_ACTION, ex_correlation = material, ex_field = None,
            ex_value_type = None, ex_value = None, ex_state = ch_expected_state c\<rparr>
      else \<lparr>ex_kind = CHANGE_KIND_FIELD, ex_correlation = material, ex_field = ch_field c,
            ex_value_type = map_option vt_str (ch_value_type c), ex_value = ch_desired_value c,
            ex_state = None\<rparr>)"

definition restored_expectation :: "change_record \<Rightarrow> expectation" where
  "restored_expectation c =
     \<lparr>ex_kind = CHANGE_KIND_FIELD, ex_correlation = ch_execution_correlation c,
      ex_field = ch_field c, ex_value_type = map_option vt_str (ch_value_type c),
      ex_value = ch_before_value c, ex_state = None\<rparr>"

definition unread :: "verification_outcome \<Rightarrow> string option \<Rightarrow> string \<Rightarrow> read_back_result" where
  "unread v obs reason = \<lparr>rb_outcome = v, rb_observation_id = obs, rb_value = None,
     rb_state = None, rb_reason = Some reason\<rparr>"

definition read_back ::
  "'w engine_env \<Rightarrow> run_record \<Rightarrow> 'w operation_executor \<Rightarrow> expectation \<Rightarrow>
   ('w, read_back_result) engine" where
  "read_back E r x expected =
     bindM (world (\<lambda>w. ev_object E w (rn_object_id r))) (\<lambda>record.
     bindM (case record of
              None \<Rightarrow> ret \<lparr>oa_record = None, oa_failure = Some ''target_absent'', oa_detail = []\<rparr>
            | Some y \<Rightarrow> ask (xc_observe x y)) (\<lambda>attempt.
     if \<not> oa_taken attempt
     then (let failure = or_text (oa_failure attempt) ''observation_unavailable'' in
           ret (unread (if failure = ''target_absent'' then VO_Target_Absent
                        else VO_Observation_Unavailable) None failure))
     else bindM (assertM (Option.bind (oa_record attempt) oj_observation)) (\<lambda>ob.
       if ob_capability ob \<noteq> rv_verification_capability (rn_preview r) \<or>
          ob_provider ob \<noteq> rv_verification_provider (rn_preview r)
       then ret (unread VO_Source_Incompatible (Some (ob_observation_id ob))
                   ''observation_source_incompatible'')
       else (let p = xc_prove x (ob_facts ob) expected in
             ret \<lparr>rb_outcome = pos_outcome p, rb_observation_id = Some (ob_observation_id ob),
                  rb_value = pos_value p, rb_state = pos_state p, rb_reason = pos_reason p\<rparr>))))"

definition verification_columns ::
  "change_record \<Rightarrow> read_back_result \<Rightarrow>
   engine_error + (change_record \<Rightarrow> change_record)" where
  "verification_columns change read =
     bindE (typed_column (ch_value_type change) (rb_value read)) (\<lambda>v.
     Inr (\<lambda>c. c\<lparr>ch_verification_outcome := rb_outcome read,
                ch_verification_observation_id := rb_observation_id read,
                ch_verification_observed_value := v,
                ch_verification_reason := rb_reason read,
                ch_verification_observed_state :=
                  (if ch_change_kind change = CHANGE_KIND_ACTION then rb_state read
                   else ch_verification_observed_state c)\<rparr>))"

definition rollback_verification_columns ::
  "change_record \<Rightarrow> read_back_result \<Rightarrow>
   engine_error + (change_record \<Rightarrow> change_record)" where
  "rollback_verification_columns change read =
     bindE (typed_column (ch_value_type change) (rb_value read)) (\<lambda>v.
     Inr (\<lambda>c. c\<lparr>ch_rollback_verification_outcome := rb_outcome read,
                ch_rollback_verification_observation_id := rb_observation_id read,
                ch_rollback_verification_observed_value := v\<rparr>))"

text \<open>Every method that moves a run on ends by reading the run and the change again.\<close>

definition reread_both :: "string \<Rightarrow> string \<Rightarrow> ('w, run_record \<times> change_record) engine" where
  "reread_both rid cid =
     bindM (reread rid) (\<lambda>r. bindM (require_change cid) (\<lambda>c. ret (r, c)))"

definition verify ::
  "'w engine_env \<Rightarrow> run_record \<Rightarrow> change_record \<Rightarrow> 'w operation_executor \<Rightarrow>
   ('w, (run_record \<times> change_record) \<times> read_back_result) engine" where
  "verify E r c x =
     thenM (step E (rn_run_id r) Ev_Verification_Started (Some (ch_change_id c)) (Some RS_Verifying)
              (Some RS_Applying) None False None False)
     (bindM (read_back E r x (applied_expectation c None)) (\<lambda>read.
      bindM (lift (verification_columns c read)) (\<lambda>cols.
      thenM (step E (rn_run_id r) Ev_Verification_Result (Some (ch_change_id c)) None None None False
               (Some (\<lambda>_. cols)) False)
      (bindM (reread_both (rn_run_id r) (ch_change_id c)) (\<lambda>rc. ret (rc, read))))))"

section \<open>Ending\<close>

definition finish ::
  "'w engine_env \<Rightarrow> run_record \<Rightarrow> change_record \<Rightarrow> run_state \<Rightarrow> change_result \<Rightarrow>
   recovery_reason option \<Rightarrow> ('w, run_record \<times> change_record) engine" where
  "finish E r c st res recovery =
     bindM (require_change (ch_change_id c)) (\<lambda>settled.
     thenM (step E (rn_run_id r) Ev_Run_Finished (Some (ch_change_id c)) (Some st) (Some (rn_state r))
              (Some (ch_host_effect settled)) True
              (Some (\<lambda>t c. c\<lparr>ch_result := res, ch_recovery_reason := recovery,
                             ch_finished_at := Some t\<rparr>))
              (recovery = None))
           (reread_both (rn_run_id r) (ch_change_id c)))"

definition recover ::
  "'w engine_env \<Rightarrow> run_record \<Rightarrow> change_record \<Rightarrow> recovery_reason \<Rightarrow>
   ('w, run_record \<times> change_record) engine" where
  "recover E r c reason =
     thenM (step E (rn_run_id r) Ev_Recovery_Required (Some (ch_change_id c)) None None None False
              None False)
           (finish E r c RS_Recovery_Required CR_Recovery_Required (Some reason))"

definition hold ::
  "'w engine_env \<Rightarrow> run_record \<Rightarrow> change_record \<Rightarrow> ('w, run_record \<times> change_record) engine" where
  "hold E r c =
     thenM (step E (rn_run_id r) Ev_Guard_Hold_Started (Some (ch_change_id c)) (Some RS_Guarded)
              (Some (rn_state r)) None False None False)
           (reread_both (rn_run_id r) (ch_change_id c))"

definition recovery_reason_for :: "verification_outcome \<Rightarrow> mutation_report \<Rightarrow> recovery_reason" where
  "recovery_reason_for v rep =
     (if v = VO_Target_Absent then RR_Target_Absent_After_Mutation
      else if v \<noteq> VO_Mismatch then RR_Rollback_Verification_Unavailable
      else if rep_outcome rep = MO_Not_Written
      then (if rep_provider rep = None then RR_Rollback_Not_Dispatched else RR_Rollback_Refused)
      else RR_Rollback_Verification_Failed)"

definition rollback_request ::
  "change_record \<Rightarrow> checkpoint_record \<Rightarrow> string \<Rightarrow> ivalue \<Rightarrow> mutation_request" where
  "rollback_request c k attempt current =
     \<lparr>mr_kind = CHANGE_KIND_FIELD, mr_attempt_id = attempt,
      mr_correlation = ch_execution_correlation c, mr_expected_current = Some current,
      mr_desired = Some (ck_before_value k), mr_action = None\<rparr>"

definition prove_restored ::
  "'w engine_env \<Rightarrow> string \<Rightarrow> change_record \<Rightarrow> run_state \<Rightarrow> 'w operation_executor \<Rightarrow>
   ('w, (run_record \<times> change_record) \<times> read_back_result) engine" where
  "prove_restored E rid c st_from x =
     thenM (step E rid Ev_Rollback_Verification_Started (Some (ch_change_id c))
              (Some RS_Rollback_Verifying) (Some st_from) None False None False)
    (bindM (reread rid) (\<lambda>r.
     bindM (read_back E r x (restored_expectation c)) (\<lambda>read.
     bindM (lift (rollback_verification_columns c read)) (\<lambda>cols.
     thenM (step E rid Ev_Rollback_Verification_Result (Some (ch_change_id c)) None None None False
              (Some (\<lambda>_. cols)) False)
    (bindM (reread_both rid (ch_change_id c)) (\<lambda>rc. ret (rc, read)))))))"

definition roll_back ::
  "'w engine_env \<Rightarrow> run_record \<Rightarrow> change_record \<Rightarrow> checkpoint_record \<Rightarrow> 'w operation_executor \<Rightarrow>
   ('w, run_record \<times> change_record) engine" where
  "roll_back E r0 c0 k x =
     (let rid = rn_run_id r0; cid = ch_change_id c0 in
      thenM (step E rid Ev_Rollback_Started (Some cid) (Some RS_Rolling_Back) (Some (rn_state r0))
               None False (Some (\<lambda>_ c. c\<lparr>ch_rollback_required := True\<rparr>)) False)
     (bindM (reread rid) (\<lambda>r1.
      bindM (read_back E r1 x (restored_expectation c0)) (\<lambda>current.
      case rb_value current of
        None \<Rightarrow> recover E r1 c0
          (if rb_outcome current = VO_Target_Absent then RR_Target_Absent_After_Mutation
           else RR_Pre_Rollback_Read_Unavailable)
      | Some v \<Rightarrow>
        bindM (new_id E ''rbk_'') (\<lambda>attempt.
        thenM (step E rid Ev_Rollback_Mutation_Dispatched (Some cid) None None None False
                 (Some (\<lambda>t c. c\<lparr>ch_rollback_attempt_id := Some attempt,
                                ch_rollback_dispatch_began_at := Some t\<rparr>)) False)
        (bindM (ask_mutate x (rollback_request c0 k attempt v)) (\<lambda>rep.
         thenM (step E rid Ev_Rollback_Mutation_Result (Some cid) None None None False
                  (Some (\<lambda>_ c. c\<lparr>ch_rollback_outcome := Some (rep_outcome rep),
                                 ch_rollback_reason := Some (rep_reason rep),
                                 ch_rollback_detail := rep_detail rep\<rparr>)) False)
        (bindM (require_change cid) (\<lambda>c1.
         if rep_outcome rep = MO_Write_Unknown then recover E r1 c1 RR_Rollback_Write_Unknown
         else
           bindM (prove_restored E rid c1 RS_Rolling_Back x) (\<lambda>((r3, c3), read).
           if vo_proved (rb_outcome read)
           then finish E r3 c3 RS_Rolled_Back CR_Rolled_Back None
           else recover E r3 c3 (recovery_reason_for (rb_outcome read) rep)))))))))))"

definition unproven_reason :: "verification_outcome \<Rightarrow> recovery_reason" where
  "unproven_reason v =
     (if v = VO_Mismatch then RR_Action_Not_Proven
      else if v = VO_Target_Absent then RR_Target_Absent_After_Mutation
      else RR_Action_Verification_Unavailable)"

definition unproven ::
  "'w engine_env \<Rightarrow> run_record \<Rightarrow> change_record \<Rightarrow> checkpoint_record option \<Rightarrow>
   'w operation_executor \<Rightarrow> read_back_result option \<Rightarrow> ('w, run_record \<times> change_record) engine" where
  "unproven E r c checkpoint x read =
     (case checkpoint of
        Some k \<Rightarrow> roll_back E r c k x
      | None \<Rightarrow> recover E r c (case read of None \<Rightarrow> RR_Apply_Write_Unknown
                                 | Some rb \<Rightarrow> unproven_reason (rb_outcome rb)))"

section \<open>Applying\<close>

definition refuse_apply :: "'w engine_env \<Rightarrow> string \<Rightarrow> string \<Rightarrow> ('w, 'a) engine" where
  "refuse_apply E rid code =
     thenM (transaction (thenM (append_event E rid Ev_Apply_Refused None None None)
                               (release_lock rid)))
           (fail (Refused code))"

definition admit ::
  "'w engine_env \<Rightarrow> run_record \<Rightarrow> management_path_verdict \<Rightarrow> systemd_lifecycle_context option \<Rightarrow>
   ('w, object_record \<times> run_record) engine" where
  "admit E r mp ctx =
     bindM (require_target E r) (\<lambda>record.
     thenM (require_executable_preview r)
     (thenM (plan_now E r mp (Some record) ctx)
     (bindM (new_id E ''att_'') (\<lambda>attempt.
      bindM (consume_confirmation E r attempt) (\<lambda>r'. ret (record, r'))))))"

definition conclude ::
  "'w engine_env \<Rightarrow> run_record \<Rightarrow> change_record \<Rightarrow> checkpoint_record option \<Rightarrow>
   run_guard_record option \<Rightarrow> 'w operation_executor \<Rightarrow> mutation_report \<Rightarrow>
   ('w, run_record \<times> change_record) engine" where
  "conclude E r c checkpoint guard x rep =
     (let after = (\<lambda>ended reason. thenM (release_guard E (fst ended) guard x reason
                      (Some (ch_change_id c))) (ret ended)) in
      case rep_outcome rep of
        MO_Not_Written \<Rightarrow>
          bindM (finish E r c RS_Failed CR_Failed None) (\<lambda>ended. after ended ''mutation_not_written'')
      | MO_Written \<Rightarrow>
          bindM (verify E r c x) (\<lambda>((r1, c1), read).
          if vo_proved (rb_outcome read)
          then (if guard \<noteq> None then hold E r1 c1
                else finish E r1 c1 RS_Succeeded CR_Succeeded None)
          else bindM (unproven E r1 c1 checkpoint x (Some read))
                 (\<lambda>ended. after ended ''verification_did_not_prove''))
      | MO_Write_Unknown \<Rightarrow>
          bindM (unproven E r c checkpoint x None)
            (\<lambda>ended. after ended ''mutation_outcome_unknown''))"

definition apply_run ::
  "'w engine_env \<Rightarrow> run_record \<Rightarrow> management_path_verdict \<Rightarrow> systemd_lifecycle_context option \<Rightarrow>
   ('w, run_record \<times> change_record) engine" where
  "apply_run E run mp ctx =
     bindM (executor_of E run) (\<lambda>x.
     bindM (acquire E (rn_run_id run)) (\<lambda>r0.
     bindM (catch_refusal (admit E r0 mp ctx) (refuse_apply E (rn_run_id r0))) (\<lambda>(record, r1).
     bindM (prepare E r1 record x) (\<lambda>(checkpoint, correlation).
     bindM (if is_guarded r1 then bindM (arm_guard E r1 checkpoint x) (\<lambda>g. ret (Some g))
            else ret None) (\<lambda>guard.
     bindM (cross E r1 checkpoint correlation) (\<lambda>c0.
     bindM (reread (rn_run_id r1)) (\<lambda>r2.
     bindM (dispatch E r2 c0 x) (\<lambda>rep.
     bindM (settle_change E r2 c0 rep) (\<lambda>c1.
     bindM (reread (rn_run_id r2)) (\<lambda>r3.
     conclude E r3 c1 checkpoint guard x rep))))))))))"

end
