(* ===== verification/Change_Settlement.thy ===== *)
theory Change_Settlement
  imports Change_Engine
begin

text \<open>
  How a change that outlived the request that made it is settled:
  \<open>src/localplane/backend/changes.py\<close>, \<open>ChangeService\<close>. Keeping a guarded change on proof of the
  connection (\<open>guard_keep\<close>), settling one whose window lapsed, and, when the process starts again,
  settling the guards and the changes the last one left in flight.
\<close>

text \<open>A loop that collects what its body returns; the body may skip an element.\<close>

primrec each :: "('a \<Rightarrow> ('w, 'b option) engine) \<Rightarrow> 'a list \<Rightarrow> ('w, 'b list) engine" where
  "each f [] = ret []"
| "each f (x # xs) =
     bindM (f x) (\<lambda>y. bindM (each f xs) (\<lambda>ys. ret (case y of None \<Rightarrow> ys | Some z \<Rightarrow> z # ys)))"

section \<open>Keeping a guarded change\<close>

definition kept_columns ::
  "management_path_verdict \<Rightarrow> instant \<Rightarrow> run_guard_record \<Rightarrow> run_guard_record" where
  "kept_columns mp t g =
     g\<lparr>gd_kept_at := Some t, gd_kept_evidence_id := mpv_evidence_id mp, gd_settled_at := Some t,
       gd_settled_phase := Some GP_Disarmed, gd_settled_reason := Some ''connection_proved''\<rparr>"

definition keep ::
  "'w engine_env \<Rightarrow> run_record \<Rightarrow> change_record \<Rightarrow> run_guard_record \<Rightarrow> management_path_verdict \<Rightarrow>
   ('w, run_record \<times> change_record) engine" where
  "keep E r c g mp =
     thenM (transaction (
       bindM (now E) (\<lambda>t.
       thenM (update_guard (gd_guard_id g) (kept_columns mp t))
      (thenM (append_event E (rn_run_id r) Ev_Guard_Connection_Proved (Some (ch_change_id c)) None None)
             (append_event E (rn_run_id r) Ev_Guard_Settled (Some (ch_change_id c)) None None)))))
     (bindM (reread_both (rn_run_id r) (ch_change_id c)) (\<lambda>(r', c').
      finish E r' c' RS_Succeeded CR_Succeeded None))"

text \<open>A guard that fired: what its reversal did is the change's rollback.\<close>

definition reversal_columns ::
  "run_guard_record \<Rightarrow> mutation_report \<Rightarrow> instant \<Rightarrow> change_record \<Rightarrow> change_record" where
  "reversal_columns g m fired c =
     c\<lparr>ch_rollback_attempt_id := Some (gd_reversal_attempt_id g),
       ch_rollback_dispatch_began_at := Some fired,
       ch_rollback_outcome := Some (rep_outcome m), ch_rollback_reason := Some (rep_reason m),
       ch_rollback_detail := (''performed_by'', PStr ''connection_guard'') #
         (''guard_id'', PStr (gd_guard_id g)) #
         filter (\<lambda>(k, _). k \<noteq> ''performed_by'' \<and> k \<noteq> ''guard_id'') (rep_detail m)\<rparr>"

definition fired_instant :: "'w engine_env \<Rightarrow> guard_report \<Rightarrow> instant \<Rightarrow> instant" where
  "fired_instant E rep t =
     (case grp_fired_at rep of None \<Rightarrow> t | Some s \<Rightarrow> if s = [] then t else ev_instant E s)"

definition record_reversal ::
  "'w engine_env \<Rightarrow> run_record \<Rightarrow> change_record \<Rightarrow> run_guard_record \<Rightarrow> guard_report \<Rightarrow>
   mutation_report \<Rightarrow> ('w, run_record \<times> change_record) engine" where
  "record_reversal E r c g rep m =
     thenM (step E (rn_run_id r) Ev_Rollback_Started (Some (ch_change_id c)) (Some RS_Rolling_Back)
              (Some (rn_state r)) None False (Some (\<lambda>_ c. c\<lparr>ch_rollback_required := True\<rparr>)) False)
    (thenM (step E (rn_run_id r) Ev_Rollback_Mutation_Result (Some (ch_change_id c)) None None None
              False (Some (\<lambda>t. reversal_columns g m (fired_instant E rep t))) False)
           (reread_both (rn_run_id r) (ch_change_id c)))"

definition settle_lapsed ::
  "'w engine_env \<Rightarrow> run_record \<Rightarrow> change_record \<Rightarrow> run_guard_record \<Rightarrow> guard_report \<Rightarrow>
   'w operation_executor \<Rightarrow> ('w, run_record \<times> change_record) engine" where
  "settle_lapsed E r0 c0 g rep x =
     (let rid = rn_run_id r0; cid = ch_change_id c0 in
      bindM (bindM (look (\<lambda>d. checkpoints_for_run rid (db_checkpoints d))) assertM) (\<lambda>k.
      bindM (case (grp_phase rep, grp_mutation rep) of
               (GP_Fired, Some m) \<Rightarrow> record_reversal E r0 c0 g rep m
             | _ \<Rightarrow> ret (r0, c0)) (\<lambda>(r1, c1).
      thenM (record_guard_settlement E r1 g rep ''window_lapsed_without_proof'' (Some cid))
     (bindM (reread rid) (\<lambda>r2.
      if grp_phase rep = GP_Lost then recover E r2 c1 RR_Guard_Lost
      else if grp_phase rep = GP_Disarmed
      then recover E r2 c1 RR_Guard_Released_Without_Recorded_Proof
      else if grp_phase rep \<noteq> GP_Fired then recover E r2 c1 RR_Guard_Unreachable
      else if \<not> grp_reverted rep then recover E r2 c1 RR_Guard_Reversal_Unproven
      else
        bindM (prove_restored E rid c1 (rn_state r2) x) (\<lambda>((r4, c4), read).
        bindM (assertM (grp_mutation rep)) (\<lambda>m.
        if settle rep (vo_proved (rb_outcome read)) = GS_Reverted
        then finish E r4 c4 RS_Rolled_Back CR_Rolled_Back None
        else recover E r4 c4 (recovery_reason_for (rb_outcome read) m))))))))"

definition refuse_keep ::
  "'w engine_env \<Rightarrow> run_record \<Rightarrow> change_record \<Rightarrow> string \<Rightarrow> ('w, 'a) engine" where
  "refuse_keep E r c code =
     thenM (step E (rn_run_id r) Ev_Guard_Keep_Refused (Some (ch_change_id c)) None None None False
              None False)
           (fail (Refused code))"

definition guard_keep ::
  "'w engine_env \<Rightarrow> run_record \<Rightarrow> management_path_verdict \<Rightarrow> bool \<Rightarrow>
   ('w, run_record \<times> change_record) engine" where
  "guard_keep E run mp acknowledge =
     bindM (executor_of E run) (\<lambda>x.
     bindM (reread (rn_run_id run)) (\<lambda>r.
     thenM (demand (rn_state r = RS_Guarded) ''run_not_guarded'')
    (bindM (look (\<lambda>d. guards_for_run (rn_run_id r) (db_guards d))) (\<lambda>found.
     case found of
       None \<Rightarrow> fail (Refused ''guard_already_settled'')
     | Some g \<Rightarrow>
       thenM (demand (\<not> gd_settled g) ''guard_already_settled'')
      (bindM (bindM (look (\<lambda>d. changes_for_run (rn_run_id r) (db_changes d))) assertM) (\<lambda>c.
       if \<not> acknowledge then refuse_keep E r c ''keep_not_acknowledged''
       else
        (let proved = (snd (assess_management_path_reason mp (rn_object_id r) True)
                         = On_Management_Path) in
         bindM (if proved then ask_disarm x (gd_guard_id g) else ask_status x (gd_guard_id g))
           (\<lambda>rep.
         if grp_phase rep = GP_Armed then refuse_keep E r c ''guard_connection_not_proved''
         else if proved \<and> grp_phase rep = GP_Disarmed then keep E r c g mp
         else settle_lapsed E r c g rep x))))))))"

section \<open>After a restart\<close>

definition settle_interrupted_guard ::
  "'w engine_env \<Rightarrow> run_guard_record \<Rightarrow> ('w, run_guard_record option) engine" where
  "settle_interrupted_guard E g =
     bindM (bindM (look (\<lambda>d. runs_get (gd_run_id g) (db_runs d))) assertM) (\<lambda>r.
     case Option.bind (operation_of (rn_operation r)) (ev_executors E) of
       None \<Rightarrow> ret None
     | Some x \<Rightarrow>
       bindM (ask_status x (gd_guard_id g)) (\<lambda>rep.
       if grp_phase rep \<in> set [GP_Arming, GP_Armed, GP_Unreachable] then ret None
       else
        bindM (look (\<lambda>d. changes_for_run (rn_run_id r) (db_changes d))) (\<lambda>c.
        thenM (case c of
                 Some c' \<Rightarrow>
                   if rn_state r = RS_Guarded
                   then bindM (settle_lapsed E r c' g rep x) (\<lambda>_. ret ())
                   else record_guard_settlement E r g rep ''settled_on_restart''
                          (Some (ch_change_id c'))
               | None \<Rightarrow> record_guard_settlement E r g rep ''settled_on_restart'' None)
              (bindM (bindM (look (\<lambda>d. guards_get (gd_guard_id g) (db_guards d))) assertM)
                 (\<lambda>g'. ret (Some g'))))))"

definition settle_interrupted_guards ::
  "'w engine_env \<Rightarrow> string option \<Rightarrow> ('w, run_guard_record list) engine" where
  "settle_interrupted_guards E host =
     bindM (look (\<lambda>d. guards_unsettled host (db_guards d))) (each (settle_interrupted_guard E))"

text \<open>
  What an interrupted change means is what its record shows: a recorded outcome is kept, an
  unrecorded one is unknown once dispatch began and not written before.
\<close>

definition interrupted_columns ::
  "mutation_outcome \<Rightarrow> instant \<Rightarrow> change_record \<Rightarrow> change_record" where
  "interrupted_columns m t c =
     c\<lparr>ch_mutation_outcome := Some m,
       ch_mutation_reason := Some ''interrupted_before_a_result_was_recorded'',
       ch_mutation_detail := [(''settled_by'', PStr ''recovery_on_restart'')],
       ch_settled_at := Some t, ch_host_effect := host_effect_for m\<rparr>"

definition settle_interrupted_change ::
  "'w engine_env \<Rightarrow> change_record \<Rightarrow> ('w, change_record option) engine" where
  "settle_interrupted_change E c =
     bindM (bindM (look (\<lambda>d. runs_get (ch_run_id c) (db_runs d))) assertM) (\<lambda>r.
     if rn_state r = RS_Guarded then ret None
     else
      (let recorded = ch_mutation_outcome c;
           outcome = outcome_on_recovery (ch_dispatch_began c) recorded;
           guarded = is_guarded r in
       bindM (if recorded = None
              then thenM (step E (rn_run_id r) Ev_Mutation_Result (Some (ch_change_id c)) None None
                            (Some (host_effect_for outcome)) False
                            (Some (interrupted_columns outcome)) False)
                         (reread_both (rn_run_id r) (ch_change_id c))
              else ret (r, c)) (\<lambda>(r', c').
       thenM (if outcome = MO_Not_Written then finish E r' c' RS_Failed CR_Failed None
              else if outcome = MO_Written \<and> ch_verification_outcome c' = VO_Verified \<and> \<not> guarded
              then finish E r' c' RS_Succeeded CR_Succeeded None
              else recover E r' c'
                     (if outcome = MO_Write_Unknown then RR_Apply_Write_Unknown
                      else RR_Apply_Interrupted_After_Write))
             (bindM (require_change (ch_change_id c')) (\<lambda>settled. ret (Some settled))))))"

definition settle_interrupted ::
  "'w engine_env \<Rightarrow> string option \<Rightarrow> ('w, change_record list) engine" where
  "settle_interrupted E host =
     bindM (look (\<lambda>d. changes_unsettled host (db_changes d))) (each (settle_interrupted_change E))"

end
