(* ===== verification/Change_Recovery.thy ===== *)
theory Change_Recovery
  imports Change_Settlement
begin

text \<open>
  Recovery of a change that ended without proof: \<open>src/localplane/backend/changes.py\<close>,
  \<open>ChangeService\<close>. The hold such a change keeps on its object, the confirmation a retry spends,
  the retry (evidence first, a second write only under fresh authority), the operator's
  resolution, and what becomes of an attempt that a restart interrupted.
\<close>

section \<open>The hold\<close>

record recovery_hold_record =
  rh_state :: recovery_hold_state
  rh_reason :: "recovery_reason option"
  rh_object_write_locked :: bool
  rh_released_at :: "instant option"
  rh_released_by :: "recovery_action_kind option"
  rh_released_by_attempt_id :: "string option"
  rh_released_outcome :: "recovery_attempt_outcome option"

definition rh_unresolved :: "recovery_hold_record \<Rightarrow> bool" where
  "rh_unresolved h \<longleftrightarrow> rh_state h = RH_Unresolved"

record recovery_result =
  rr_change :: change_record
  rr_attempt :: recovery_attempt_record
  rr_hold :: recovery_hold_record

definition recovery_hold :: "change_record \<Rightarrow> database \<Rightarrow> recovery_hold_record" where
  "recovery_hold c d =
     (let locked = (locks_for_run (ch_run_id c) (db_locks d) \<noteq> None) in
      if \<not> ch_recovery_required c
      then \<lparr>rh_state = RH_Not_Required, rh_reason = None, rh_object_write_locked = locked,
            rh_released_at = None, rh_released_by = None, rh_released_by_attempt_id = None,
            rh_released_outcome = None\<rparr>
      else (let release = attempts_release_of (ch_change_id c) (db_attempts d) in
        \<lparr>rh_state = (if release \<noteq> None then RH_Resolved else RH_Unresolved),
         rh_reason = ch_recovery_reason c, rh_object_write_locked = locked,
         rh_released_at = Option.bind release at_finished_at,
         rh_released_by = map_option at_kind release,
         rh_released_by_attempt_id = map_option at_attempt_id release,
         rh_released_outcome = map_option at_outcome release\<rparr>))"

definition recovery_states :: "change_record list \<Rightarrow> database \<Rightarrow> (string \<times> recovery_hold_state) list" where
  "recovery_states cs d =
     (let released = attempts_released_change_ids
            (map ch_change_id (filter ch_recovery_required cs)) (db_attempts d) in
      map (\<lambda>c. (ch_change_id c,
         if \<not> ch_recovery_required c then RH_Not_Required
         else if ch_change_id c \<in> released then RH_Resolved else RH_Unresolved)) cs)"

definition recovery_run :: "change_record \<Rightarrow> ('w, run_record) engine" where
  "recovery_run c = reread (ch_run_id c)"

definition require_open_hold ::
  "change_record \<Rightarrow> run_record \<Rightarrow> string option \<Rightarrow> ('w, write_lock_record) engine" where
  "require_open_hold c r ignored =
     thenM (demand (ch_recovery_required c) ''change_not_in_recovery'')
    (bindM (look (\<lambda>d. attempts_release_of (ch_change_id c) (db_attempts d))) (\<lambda>released.
     thenM (demand (released = None) ''recovery_already_resolved'')
    (bindM (look (\<lambda>d. locks_for_run (rn_run_id r) (db_locks d))) (\<lambda>lock.
     case lock of
       None \<Rightarrow> fail (Refused ''recovery_hold_not_held'')
     | Some l \<Rightarrow>
       thenM (demand (wl_object_id l = ch_object_id c) ''recovery_hold_not_held'')
      (bindM (look (\<lambda>d. attempts_in_flight (ch_change_id c) (db_attempts d))) (\<lambda>flying.
       thenM (demand (case flying of None \<Rightarrow> True | Some a \<Rightarrow> Some (at_attempt_id a) = ignored)
                ''recovery_attempt_in_flight'')
             (ret l)))))))"

definition require_open_hold_locked ::
  "change_record \<Rightarrow> run_record \<Rightarrow> string option \<Rightarrow> ('w, unit) engine" where
  "require_open_hold_locked c r ignored =
     bindM (require_change (ch_change_id c)) (\<lambda>c'.
     bindM (require_open_hold c' r ignored) (\<lambda>_. ret ()))"

definition require_path_evidence ::
  "run_record \<Rightarrow> operation_definition \<Rightarrow> management_path_verdict \<Rightarrow>
   ('w, management_path_relation) engine" where
  "require_path_evidence r def mp =
     (let relation = snd (assess_management_path_reason mp (rn_object_id r)
                            (od_can_affect_management_path def)) in
      thenM (demand (\<not> (od_can_affect_management_path def \<and>
                         od_protection_uses_resource_relation def \<and>
                         relation \<noteq> Not_On_Management_Path))
               (if relation = On_Management_Path then ''target_is_management_path''
                else ''management_path_unproven''))
            (ret relation))"

section \<open>Confirming a retry\<close>

definition recovery_confirmation_for ::
  "change_record \<Rightarrow> database \<Rightarrow> confirmation_record option" where
  "recovery_confirmation_for c d =
     confirmations_outstanding (ch_run_id c) CP_Recovery_Retry (db_confirmations d)"

definition recovery_confirm ::
  "'w engine_env \<Rightarrow> change_record \<Rightarrow> bool \<Rightarrow> recovery_reason option \<Rightarrow>
   management_path_verdict \<Rightarrow> ('w, confirmation_record) engine" where
  "recovery_confirm E c acknowledge expected mp =
     bindM (recovery_run c) (\<lambda>r.
     thenM (require_open_hold c r None)
    (thenM (demand (expected = None \<or> expected = ch_recovery_reason c) ''recovery_reason_mismatch'')
    (thenM (require_executable_preview r)
    (bindM (operation_type_of r) (\<lambda>op.
     thenM (require_path_evidence r (ev_definition E op) mp)
    (thenM (demand (rv_confirmation_method (rn_preview r) = CM_Acknowledge)
              ''confirmation_method_unsupported'')
    (thenM (demand acknowledge ''confirmation_not_acknowledged'')
           (record_confirmation E r CP_Recovery_Retry (rv_confirmation_method (rn_preview r))
              CM_Acknowledge None
              (\<lambda>d. confirmations_outstanding (rn_run_id r) CP_Recovery_Retry (db_confirmations d))
              ''recovery_confirmation_already_satisfied'' Ev_Recovery_Confirmation_Satisfied
              (Some (ch_change_id c))))))))))"

section \<open>Attempts\<close>

definition attempt_row ::
  "change_record \<Rightarrow> run_record \<Rightarrow> string \<Rightarrow> nat \<Rightarrow> recovery_action_kind \<Rightarrow> instant \<Rightarrow>
   management_path_relation \<Rightarrow> string option \<Rightarrow> recovery_attempt_record" where
  "attempt_row c r aid sequence kind t relation evidence =
     \<lparr>at_attempt_id = aid, at_change_id = ch_change_id c, at_run_id = rn_run_id r,
      at_host_id = ch_host_id c, at_object_id = ch_object_id c, at_sequence = sequence,
      at_kind = kind, at_started_at = t, at_protection_management_path = relation,
      at_protection_evidence_id = evidence, at_evidence_outcome = VO_Not_Attempted,
      at_evidence_observation_id = None, at_evidence_observed_value = None,
      at_evidence_observed_state = None, at_evidence_reason = None, at_confirmation_id = None,
      at_execution_correlation = None, at_mutation_attempt_id = None,
      at_dispatch_began_at = None, at_mutation_outcome = None, at_mutation_reason = None,
      at_mutation_provider = None, at_mutation_method = None, at_mutation_detail = [],
      at_host_effect = HE_None, at_verification_outcome = VO_Not_Attempted,
      at_verification_observation_id = None, at_verification_observed_value = None,
      at_verification_observed_state = None, at_verification_reason = None,
      at_outcome = RAO_In_Flight, at_refusal_code = None, at_releases_hold = False,
      at_finished_at = None, at_operator_statement = None, at_note = None\<rparr>"

definition insert_attempt :: "recovery_attempt_record \<Rightarrow> ('w, unit) engine" where
  "insert_attempt a = insert_row (\<lambda>d. case attempts_insert a (db_attempts d) of
     Inl e \<Rightarrow> Inl e | Inr t \<Rightarrow> Inr (d\<lparr>db_attempts := t\<rparr>))"

definition update_attempt ::
  "string \<Rightarrow> (recovery_attempt_record \<Rightarrow> recovery_attempt_record) \<Rightarrow> ('w, unit) engine" where
  "update_attempt aid f = modify (\<lambda>d. d\<lparr>db_attempts := attempts_update aid f (db_attempts d)\<rparr>)"

definition require_attempt :: "string \<Rightarrow> ('w, recovery_attempt_record) engine" where
  "require_attempt aid = bindM (look (\<lambda>d. attempts_get aid (db_attempts d))) assertM"

definition recovery_outcome ::
  "change_record \<Rightarrow> string \<Rightarrow> ('w, recovery_result) engine" where
  "recovery_outcome c aid =
     bindM (require_change (ch_change_id c)) (\<lambda>settled.
     bindM (require_attempt aid) (\<lambda>a.
     bindM (look (recovery_hold settled)) (\<lambda>h.
     ret \<lparr>rr_change = settled, rr_attempt = a, rr_hold = h\<rparr>)))"

definition open_recovery_attempt ::
  "'w engine_env \<Rightarrow> change_record \<Rightarrow> run_record \<Rightarrow> recovery_action_kind \<Rightarrow>
   management_path_relation \<Rightarrow> management_path_verdict \<Rightarrow> ('w, recovery_attempt_record) engine" where
  "open_recovery_attempt E c r kind relation mp =
     bindM (new_id E ''rcv_'') (\<lambda>aid.
     bindM (now E) (\<lambda>t.
     thenM (catch_all (transaction (
        thenM (require_open_hold_locked c r None)
       (bindM (look (\<lambda>d. attempts_next_sequence (ch_change_id c) (db_attempts d))) (\<lambda>n.
        thenM (insert_attempt (attempt_row c r aid n kind t relation (mpv_evidence_id mp)))
              (append_event E (rn_run_id r) Ev_Recovery_Retry_Started (Some (ch_change_id c))
                 None None)))))
        (\<lambda>e. if e = Integrity_Error then fail (Refused ''recovery_attempt_in_flight'') else fail e))
     (require_attempt aid)))"

definition recovery_step ::
  "'w engine_env \<Rightarrow> run_record \<Rightarrow> change_record \<Rightarrow> string \<Rightarrow> run_event \<Rightarrow>
   (instant \<Rightarrow> recovery_attempt_record \<Rightarrow> recovery_attempt_record) \<Rightarrow> ('w, unit) engine" where
  "recovery_step E r c aid ev f =
     bindM (now E) (\<lambda>t. transaction (
       thenM (update_attempt aid (f t))
             (append_event E (rn_run_id r) ev (Some (ch_change_id c)) None None)))"

definition recovery_evidence_columns ::
  "change_record \<Rightarrow> read_back_result \<Rightarrow>
   engine_error + (recovery_attempt_record \<Rightarrow> recovery_attempt_record)" where
  "recovery_evidence_columns c read =
     bindE (typed_column (ch_value_type c) (rb_value read)) (\<lambda>v.
     Inr (\<lambda>a. a\<lparr>at_evidence_outcome := rb_outcome read,
                at_evidence_observation_id := rb_observation_id read,
                at_evidence_observed_value := v, at_evidence_observed_state := rb_state read,
                at_evidence_reason := rb_reason read\<rparr>))"

definition recovery_verification_columns ::
  "change_record \<Rightarrow> read_back_result \<Rightarrow>
   engine_error + (recovery_attempt_record \<Rightarrow> recovery_attempt_record)" where
  "recovery_verification_columns c read =
     bindE (typed_column (ch_value_type c) (rb_value read)) (\<lambda>v.
     Inr (\<lambda>a. a\<lparr>at_verification_outcome := rb_outcome read,
                at_verification_observation_id := rb_observation_id read,
                at_verification_observed_value := v,
                at_verification_observed_state := rb_state read,
                at_verification_reason := rb_reason read\<rparr>))"

definition recovery_evidence ::
  "'w engine_env \<Rightarrow> run_record \<Rightarrow> change_record \<Rightarrow> string \<Rightarrow> read_back_result \<Rightarrow>
   ('w, recovery_attempt_record) engine" where
  "recovery_evidence E r c aid read =
     bindM (lift (recovery_evidence_columns c read)) (\<lambda>cols.
     thenM (recovery_step E r c aid Ev_Recovery_Evidence_Result (\<lambda>_. cols)) (require_attempt aid))"

definition recovery_verification ::
  "'w engine_env \<Rightarrow> run_record \<Rightarrow> change_record \<Rightarrow> string \<Rightarrow> read_back_result \<Rightarrow>
   ('w, recovery_attempt_record) engine" where
  "recovery_verification E r c aid read =
     bindM (lift (recovery_verification_columns c read)) (\<lambda>cols.
     thenM (recovery_step E r c aid Ev_Recovery_Verification_Result (\<lambda>_. cols))
           (require_attempt aid))"

definition attempt_outcome_columns ::
  "mutation_report \<Rightarrow> recovery_attempt_record \<Rightarrow> recovery_attempt_record" where
  "attempt_outcome_columns rep a =
     a\<lparr>at_mutation_outcome := Some (rep_outcome rep), at_mutation_reason := Some (rep_reason rep),
       at_mutation_provider := rep_provider rep, at_mutation_method := rep_method rep,
       at_mutation_detail := rep_detail rep,
       at_host_effect := host_effect_for (rep_outcome rep)\<rparr>"

definition recovery_mutation_result ::
  "'w engine_env \<Rightarrow> run_record \<Rightarrow> change_record \<Rightarrow> string \<Rightarrow> mutation_report \<Rightarrow>
   ('w, recovery_attempt_record) engine" where
  "recovery_mutation_result E r c aid rep =
     thenM (recovery_step E r c aid Ev_Recovery_Mutation_Result (\<lambda>_. attempt_outcome_columns rep))
           (require_attempt aid)"

section \<open>Retrying\<close>

definition same_intended_outcome :: "change_record \<Rightarrow> planned_change \<Rightarrow> bool" where
  "same_intended_outcome c planned \<longleftrightarrow> (case planned of
     Field_Change p \<Rightarrow>
       ch_change_kind c = CHANGE_KIND_FIELD \<and> Some (pfc_field p) = ch_field c \<and>
       Some (pfc_value_type p) = ch_value_type c \<and>
       (case ch_desired_value c of None \<Rightarrow> False | Some v \<Rightarrow> val_eq (pfc_desired p) v)
   | Action_Change p \<Rightarrow>
       ch_change_kind c = CHANGE_KIND_ACTION \<and> Some (pac_action p) = ch_action c \<and>
       Some (pac_expected_state p) = ch_expected_state c)"

definition recovery_plan_now ::
  "'w engine_env \<Rightarrow> run_record \<Rightarrow> object_record \<Rightarrow> management_path_verdict \<Rightarrow> change_record \<Rightarrow>
   systemd_lifecycle_context option \<Rightarrow> ('w, run_plan) engine" where
  "recovery_plan_now E r record mp c ctx =
     bindM (operation_type_of r) (\<lambda>op.
     bindM (world (\<lambda>w. ev_replan E w op record mp ctx)) (\<lambda>replanned.
     case replanned of
       Inl _ \<Rightarrow> fail (Refused ''recovery_operation_not_applicable'')
     | Inr plan \<Rightarrow>
       thenM (demand (same_intended_outcome c (rp_change plan)) ''recovery_intent_changed'')
      (thenM (demand (xas_eligibility (rp_execution plan) = XE_Eligible) ''execution_blocked'')
      (thenM (demand (crq_method (rp_confirmation plan) = CM_Acknowledge)
                ''confirmation_method_unsupported'')
             (ret plan)))))"

definition recovery_request ::
  "'w engine_env \<Rightarrow> change_record \<Rightarrow> object_record \<Rightarrow> 'w operation_executor \<Rightarrow>
   read_back_result \<Rightarrow> ('w, mutation_request) engine" where
  "recovery_request E c record x read =
     bindM (catch_all (ask_correlation x record)
              (\<lambda>e. fail (Refused (failure_code e ''target_not_correlated'')))) (\<lambda>correlation.
     if ch_change_kind c = CHANGE_KIND_ACTION
     then bindM (new_id E ''rat_'') (\<lambda>q.
          ret \<lparr>mr_kind = CHANGE_KIND_ACTION, mr_attempt_id = q, mr_correlation = correlation,
               mr_expected_current = None, mr_desired = None, mr_action = ch_action c\<rparr>)
     else case rb_value read of
         None \<Rightarrow> fail (Refused ''current_value_unreadable'')
       | Some v \<Rightarrow>
         thenM (demand (case ch_desired_value c of None \<Rightarrow> True | Some u \<Rightarrow> \<not> val_eq v u)
                  ''already_reconciled'')
        (bindM (new_id E ''rat_'') (\<lambda>q.
          ret \<lparr>mr_kind = CHANGE_KIND_FIELD, mr_attempt_id = q, mr_correlation = correlation,
               mr_expected_current = Some v, mr_desired = ch_desired_value c, mr_action = None\<rparr>)))"

definition recovery_dispatch_marker ::
  "'w engine_env \<Rightarrow> run_record \<Rightarrow> change_record \<Rightarrow> string \<Rightarrow> mutation_request \<Rightarrow>
   ('w, unit) engine" where
  "recovery_dispatch_marker E r c aid q =
     bindM (now E) (\<lambda>t. transaction (
       thenM (require_open_hold_locked c r (Some aid))
      (bindM (look (\<lambda>d. confirmations_outstanding (rn_run_id r) CP_Recovery_Retry
                          (db_confirmations d))) (\<lambda>found.
       case found of
         None \<Rightarrow> fail (Refused ''recovery_confirmation_required'')
       | Some k \<Rightarrow>
         bindM (consume E (cn_confirmation_id k) (mr_attempt_id q)) (\<lambda>done.
         thenM (demand done ''recovery_confirmation_already_consumed'')
        (thenM (update_attempt aid (\<lambda>a. a\<lparr>at_confirmation_id := Some (cn_confirmation_id k),
                  at_execution_correlation := Some (mr_correlation q),
                  at_mutation_attempt_id := Some (mr_attempt_id q),
                  at_dispatch_began_at := Some t\<rparr>))
        (thenM (append_event E (rn_run_id r) Ev_Recovery_Confirmation_Consumed
                  (Some (ch_change_id c)) None None)
               (append_event E (rn_run_id r) Ev_Recovery_Mutation_Dispatched
                  (Some (ch_change_id c)) None None))))))))"

definition complete_recovery ::
  "'w engine_env \<Rightarrow> run_record \<Rightarrow> change_record \<Rightarrow> string \<Rightarrow> recovery_attempt_outcome \<Rightarrow>
   ('w, recovery_result) engine" where
  "complete_recovery E r c aid outcome =
     bindM (now E) (\<lambda>t.
     thenM (transaction (
       thenM (require_open_hold_locked c r (Some aid))
      (thenM (update_attempt aid (\<lambda>a. a\<lparr>at_outcome := outcome, at_releases_hold := True,
                at_finished_at := Some t\<rparr>))
      (thenM (append_event E (rn_run_id r) Ev_Recovery_Retry_Finished (Some (ch_change_id c)) None None)
      (thenM (append_event E (rn_run_id r) Ev_Recovery_Hold_Released (Some (ch_change_id c)) None None)
             (release_lock (rn_run_id r)))))))
     (recovery_outcome c aid))"

definition settle_retry ::
  "'w engine_env \<Rightarrow> run_record \<Rightarrow> change_record \<Rightarrow> string \<Rightarrow> recovery_attempt_outcome \<Rightarrow>
   ('w, recovery_result) engine" where
  "settle_retry E r c aid outcome =
     thenM (recovery_step E r c aid Ev_Recovery_Retry_Finished
              (\<lambda>t a. a\<lparr>at_outcome := outcome, at_finished_at := Some t\<rparr>))
           (recovery_outcome c aid)"

definition refuse_recovery ::
  "'w engine_env \<Rightarrow> run_record \<Rightarrow> change_record \<Rightarrow> string \<Rightarrow> string \<Rightarrow> ('w, 'a) engine" where
  "refuse_recovery E r c aid code =
     thenM (recovery_step E r c aid Ev_Recovery_Retry_Finished
              (\<lambda>t a. a\<lparr>at_outcome := RAO_Refused, at_refusal_code := Some code,
                       at_finished_at := Some t\<rparr>))
           (fail (Refused code))"

definition authorise_retry ::
  "'w engine_env \<Rightarrow> run_record \<Rightarrow> change_record \<Rightarrow> string \<Rightarrow> object_record \<Rightarrow>
   'w operation_executor \<Rightarrow> read_back_result \<Rightarrow> management_path_verdict \<Rightarrow>
   systemd_lifecycle_context option \<Rightarrow> ('w, mutation_request) engine" where
  "authorise_retry E r c aid record x read mp ctx =
     thenM (recovery_plan_now E r record mp c ctx)
    (bindM (recovery_request E c record x read) (\<lambda>q.
     thenM (recovery_dispatch_marker E r c aid q) (ret q)))"

definition recovery_retry ::
  "'w engine_env \<Rightarrow> change_record \<Rightarrow> management_path_verdict \<Rightarrow>
   systemd_lifecycle_context option \<Rightarrow> ('w, recovery_result) engine" where
  "recovery_retry E c mp ctx =
     bindM (recovery_run c) (\<lambda>r.
     bindM (executor_of E r) (\<lambda>x.
     thenM (require_open_hold c r None)
    (thenM (require_target E r)
    (thenM (require_executable_preview r)
    (bindM (operation_type_of r) (\<lambda>op.
     bindM (require_path_evidence r (ev_definition E op) mp) (\<lambda>relation.
     bindM (open_recovery_attempt E c r RK_Retry relation mp) (\<lambda>a.
     let aid = at_attempt_id a in
     bindM (read_back E r x (applied_expectation c None)) (\<lambda>read.
     thenM (recovery_evidence E r c aid read)
    (if vo_proved (rb_outcome read) then complete_recovery E r c aid RAO_Proven
     else
      bindM (require_target E r) (\<lambda>record.
      bindM (catch_refusal (authorise_retry E r c aid record x read mp ctx)
               (refuse_recovery E r c aid)) (\<lambda>q.
      bindM (ask_mutate x q) (\<lambda>rep.
      thenM (recovery_mutation_result E r c aid rep)
     (if rep_outcome rep \<noteq> MO_Written
      then settle_retry E r c aid (recovery_outcome_for (rep_outcome rep) VO_Not_Attempted)
      else
       bindM (read_back E r x (applied_expectation c (Some (mr_correlation q)))) (\<lambda>verified.
       thenM (recovery_verification E r c aid verified)
      (let outcome = recovery_outcome_for MO_Written (rb_outcome verified) in
       if outcome = RAO_Verified then complete_recovery E r c aid outcome
       else settle_retry E r c aid outcome))))))))))))))))"

section \<open>Resolving\<close>

text \<open>\<open>str.strip()\<close>, over the characters Python counts as white space.\<close>

definition whitespace :: "char \<Rightarrow> bool" where
  "whitespace c \<longleftrightarrow> of_char c \<in> set [9, 10, 11, 12, 13, 28, 29, 30, 31, 32, 133, 160 :: nat]"

definition strip :: "string \<Rightarrow> string" where
  "strip s = rev (dropWhile whitespace (rev (dropWhile whitespace s)))"

definition observe_for_recovery ::
  "'w engine_env \<Rightarrow> run_record \<Rightarrow> change_record \<Rightarrow> ('w, read_back_result) engine" where
  "observe_for_recovery E r c =
     (case Option.bind (operation_of (rn_operation r)) (ev_executors E) of
        None \<Rightarrow> ret (unread VO_Observation_Unavailable None ''execution_not_implemented'')
      | Some x \<Rightarrow> read_back E r x (applied_expectation c None))"

definition recovery_resolve ::
  "'w engine_env \<Rightarrow> change_record \<Rightarrow> bool \<Rightarrow> string \<Rightarrow> string \<Rightarrow> string option \<Rightarrow>
   recovery_reason option \<Rightarrow> ('w, recovery_result) engine" where
  "recovery_resolve E c acknowledge operator_statement object_name note expected =
     bindM (recovery_run c) (\<lambda>r.
     thenM (require_open_hold c r None)
    (thenM (demand (expected = None \<or> expected = ch_recovery_reason c) ''recovery_reason_mismatch'')
    (thenM (demand acknowledge ''recovery_resolution_not_acknowledged'')
    (thenM (demand (strip operator_statement = object_name) ''recovery_resolution_object_mismatch'')
    (bindM (observe_for_recovery E r c) (\<lambda>read.
     bindM (new_id E ''rcv_'') (\<lambda>aid.
     bindM (now E) (\<lambda>t.
     thenM (transaction (
       thenM (require_open_hold_locked c r None)
      (bindM (look (\<lambda>d. attempts_next_sequence (ch_change_id c) (db_attempts d))) (\<lambda>n.
       bindM (lift (recovery_evidence_columns c read)) (\<lambda>cols.
       thenM (insert_attempt ((cols (attempt_row c r aid n RK_Resolve t Relation_Unknown None))
                \<lparr>at_outcome := RAO_Resolved, at_releases_hold := True, at_finished_at := Some t,
                 at_operator_statement := Some (strip operator_statement), at_note := note\<rparr>))
      (thenM (append_event E (rn_run_id r) Ev_Recovery_Resolved (Some (ch_change_id c)) None None)
      (thenM (append_event E (rn_run_id r) Ev_Recovery_Hold_Released (Some (ch_change_id c)) None None)
             (release_lock (rn_run_id r)))))))))
     (recovery_outcome c aid)))))))))"

section \<open>After a restart\<close>

definition interrupted_attempt ::
  "instant \<Rightarrow> recovery_attempt_record \<Rightarrow> recovery_attempt_record \<Rightarrow> recovery_attempt_record" where
  "interrupted_attempt t read a =
     (let a1 = a\<lparr>at_outcome := RAO_Interrupted, at_refusal_code := None,
                 at_finished_at := Some t\<rparr> in
      if at_mutation_outcome read = None \<and> at_dispatch_began read
      then (let outcome = outcome_on_recovery True None in
        a1\<lparr>at_mutation_outcome := Some outcome,
           at_mutation_reason := Some ''interrupted_before_a_result_was_recorded'',
           at_mutation_detail := [(''settled_by'', PStr ''recovery_on_restart'')],
           at_host_effect := host_effect_for outcome\<rparr>)
      else a1)"

definition settle_interrupted_attempt ::
  "'w engine_env \<Rightarrow> recovery_attempt_record \<Rightarrow> ('w, recovery_attempt_record option) engine" where
  "settle_interrupted_attempt E a =
     bindM (now E) (\<lambda>t.
     thenM (transaction (
       thenM (update_attempt (at_attempt_id a) (interrupted_attempt t a))
             (append_event E (at_run_id a) Ev_Recovery_Retry_Finished (Some (at_change_id a))
                None None)))
     (bindM (require_attempt (at_attempt_id a)) (\<lambda>a'. ret (Some a'))))"

definition settle_interrupted_recovery ::
  "'w engine_env \<Rightarrow> string option \<Rightarrow> ('w, recovery_attempt_record list) engine" where
  "settle_interrupted_recovery E host =
     bindM (look (\<lambda>d. attempts_unsettled host (db_attempts d))) (each (settle_interrupted_attempt E))"

end
