(* ===== verification/Engine_Logic.thy ===== *)
theory Engine_Logic
  imports Change_Recovery
begin

text \<open>
  Reasoning about the change engine one run at a time. What the store, the lock table and the
  journal say of one run is its \<open>snapshot\<close>; every method is described by what it does to the
  snapshot, and \<open>holds\<close> carries along what never changes: the tables' keys stay unique, the rows
  of other runs are untouched, and every commit and every mutation in the journal was made in a
  snapshot fit for it.
\<close>

section \<open>Tables\<close>

lemma update_where_simps [simp]:
  "update_where P f [] = []"
  "update_where P f (x # xs) = (if P x then f x else x) # update_where P f xs"
  by (simp_all add: update_where_def)

lemma find_update_where:
  assumes "\<And>x. Q x \<Longrightarrow> P (f x) = P x"
  shows "find P (update_where Q f t) = map_option (\<lambda>x. if Q x then f x else x) (find P t)"
  using assms by (induction t) auto

lemma map_update_where:
  "(\<And>x. Q x \<Longrightarrow> g (f x) = g x) \<Longrightarrow> map g (update_where Q f t) = map g t"
  by (induction t) auto

lemma find_append: "find P (xs @ ys) = (case find P xs of None \<Rightarrow> find P ys | Some x \<Rightarrow> Some x)"
  by (induction xs) auto

lemma find_key:
  assumes "distinct (map g t)" "find P t = Some x" "g x = k"
  shows "find (\<lambda>y. g y = k) t = Some x"
  using assms by (induction t) (auto split: if_splits simp: find_Some_iff image_iff)

lemma find_other_key:
  assumes "distinct (map g t)" "find P t = Some x" "find Q t = Some y" "\<not> Q x"
  shows "g x \<noteq> g y"
proof
  assume eq: "g x = g y"
  have "x \<in> set t" "y \<in> set t" using assms by (auto simp: find_Some_iff)
  then have "x = y" using assms(1) eq by (auto simp: distinct_map dest: inj_onD)
  moreover have "Q y" using assms(3) by (auto simp: find_Some_iff)
  ultimately show False using assms(4) by simp
qed

definition unique_rows :: "database \<Rightarrow> bool" where
  "unique_rows d \<longleftrightarrow>
     distinct (map rn_run_id (db_runs d)) \<and>
     distinct (map ch_change_id (db_changes d)) \<and> distinct (map ch_run_id (db_changes d)) \<and>
     distinct (map ck_run_id (db_checkpoints d)) \<and>
     distinct (map gd_guard_id (db_guards d)) \<and> distinct (map gd_run_id (db_guards d)) \<and>
     distinct (map wl_run_id (db_locks d)) \<and>
     distinct (map cn_confirmation_id (db_confirmations d)) \<and>
     distinct (map (\<lambda>c. (cn_run_id c, cn_purpose c))
       (filter (\<lambda>c. cn_purpose c \<noteq> CP_Recovery_Retry) (db_confirmations d)))"

text \<open>One-per-run confirmations: the newest is the only one.\<close>

lemma one_confirmation:
  assumes "distinct (map (\<lambda>c. (cn_run_id c, cn_purpose c))
       (filter (\<lambda>c. cn_purpose c \<noteq> CP_Recovery_Retry) t))" "p \<noteq> CP_Recovery_Retry"
  shows "confirmations_for_run rid p t = find (\<lambda>c. cn_run_id c = rid \<and> cn_purpose c = p) t"
proof -
  let ?P = "\<lambda>c. cn_run_id c = rid \<and> cn_purpose c = p"
  have "length (filter ?P t) \<le> 1"
    using assms
  proof (induction t)
    case (Cons c t)
    show ?case
    proof (cases "?P c")
      case True
      then have "filter ?P t = []" using Cons.prems
        by (auto simp: filter_empty_conv image_iff) metis
      then show ?thesis using True by simp
    next
      case False
      then show ?thesis using Cons by (cases "cn_purpose c = CP_Recovery_Retry") auto
    qed
  qed simp
  moreover have "find ?P t = (case filter ?P t of [] \<Rightarrow> None | x # _ \<Rightarrow> Some x)"
    by (induction t) auto
  ultimately show ?thesis
    by (cases "filter ?P t") (auto simp: confirmations_for_run_def Let_def)
qed

section \<open>Snapshots\<close>

record snapshot =
  sn_run :: "run_record option"
  sn_change :: "change_record option"
  sn_checkpoint :: "checkpoint_record option"
  sn_guard :: "run_guard_record option"
  sn_lock :: "write_lock_record option"
  sn_apply :: "confirmation_record option"
  sn_override :: "confirmation_record option"
  sn_muts :: "(mutation_request \<times> mutation_report) list"

fun muts :: "entry list \<Rightarrow> (mutation_request \<times> mutation_report) list" where
  "muts [] = []"
| "muts (Mutated _ q rep # js) = (q, rep) # muts js"
| "muts (_ # js) = muts js"

lemma muts_append [simp]: "muts (a @ b) = muts a @ muts b"
  by (induction a rule: muts.induct) auto

definition snapshot_of :: "string \<Rightarrow> database \<Rightarrow> entry list \<Rightarrow> snapshot" where
  "snapshot_of rid d js =
     \<lparr>sn_run = runs_get rid (db_runs d), sn_change = changes_for_run rid (db_changes d),
      sn_checkpoint = checkpoints_for_run rid (db_checkpoints d),
      sn_guard = guards_for_run rid (db_guards d), sn_lock = locks_for_run rid (db_locks d),
      sn_apply = confirmations_for_run rid CP_Apply (db_confirmations d),
      sn_override = confirmations_for_run rid CP_Self_Impact_Override (db_confirmations d),
      sn_muts = muts js\<rparr>"

text \<open>The rows of the other runs.\<close>

definition same_elsewhere :: "string \<Rightarrow> database \<Rightarrow> database \<Rightarrow> bool" where
  "same_elsewhere rid d d' \<longleftrightarrow>
     (\<forall>x. x \<noteq> rid \<longrightarrow> (\<forall>js. snapshot_of x d' js = snapshot_of x d js))"

lemma same_elsewhere_refl [simp]: "same_elsewhere rid d d"
  by (simp add: same_elsewhere_def)

lemma same_elsewhere_trans:
  "same_elsewhere rid a b \<Longrightarrow> same_elsewhere rid b c \<Longrightarrow> same_elsewhere rid a c"
  by (simp add: same_elsewhere_def)

section \<open>What a commit and a mutation must satisfy\<close>

text \<open>
  \<open>truthful\<close>: what a committed row says of the host is what happened. Nothing was dispatched
  before the row says dispatch began; the recorded outcome is the executor's, or, where a restart
  recorded it, never more than what happened (\<open>claimed\<close>); a second mutation is a roll back the row announces; and an ending is one its evidence allows, with the lock
  released exactly when the ending is not an open recovery.
\<close>

definition ended :: "change_record \<Rightarrow> run_record \<Rightarrow> bool" where
  "ended c r \<longleftrightarrow>
     (case ch_result c of
        CR_In_Flight \<Rightarrow> rn_state r \<notin> set TERMINAL_RUN_STATES \<and> ch_recovery_reason c = None
      | CR_Failed \<Rightarrow> rn_state r = RS_Failed \<and> ch_mutation_outcome c = Some MO_Not_Written
      | CR_Succeeded \<Rightarrow> rn_state r = RS_Succeeded \<and> ch_mutation_outcome c = Some MO_Written \<and>
          ch_verification_outcome c = VO_Verified
      | CR_Rolled_Back \<Rightarrow> rn_state r = RS_Rolled_Back \<and> ch_rollback_required c \<and>
          ch_rollback_verification_outcome c = VO_Verified
      | CR_Recovery_Required \<Rightarrow> rn_state r = RS_Recovery_Required \<and> ch_recovery_reason c \<noteq> None)"

definition holds_lock :: "change_result \<Rightarrow> bool" where
  "holds_lock x \<longleftrightarrow> x = CR_In_Flight \<or> x = CR_Recovery_Required"

definition guard_kept :: "run_guard_record option \<Rightarrow> bool" where
  "guard_kept g \<longleftrightarrow>
     (case g of None \<Rightarrow> False
      | Some x \<Rightarrow> gd_kept_at x \<noteq> None \<and> gd_settled_phase x = Some GP_Disarmed)"

definition INTERRUPTED :: string where
  "INTERRUPTED = ''interrupted_before_a_result_was_recorded''"

definition claimed ::
  "mutation_outcome \<Rightarrow> (mutation_request \<times> mutation_report) list \<Rightarrow> bool" where
  "claimed m ms \<longleftrightarrow>
     (case m of
        MO_Not_Written \<Rightarrow> (case ms of [] \<Rightarrow> True | x # _ \<Rightarrow> rep_outcome (snd x) = MO_Not_Written)
      | MO_Written \<Rightarrow> (case ms of [] \<Rightarrow> False | x # _ \<Rightarrow> rep_outcome (snd x) = MO_Written)
      | MO_Write_Unknown \<Rightarrow> True)"

lemma claimed_exact: "ms \<noteq> [] \<Longrightarrow> rep_outcome (snd (hd ms)) = m \<Longrightarrow> claimed m ms"
  by (cases ms; cases m) (simp_all add: claimed_def)

definition truthful :: "snapshot \<Rightarrow> bool" where
  "truthful v \<longleftrightarrow>
     (case sn_change v of
        None \<Rightarrow> sn_muts v = []
      | Some c \<Rightarrow>
         (ch_dispatch_began c \<or> sn_muts v = []) \<and>
         (case ch_mutation_outcome c of
            None \<Rightarrow> length (sn_muts v) \<le> 1 \<and> ch_host_effect c = HE_None
          | Some m \<Rightarrow> claimed m (sn_muts v) \<and> ch_host_effect c = host_effect_for m \<and>
                      (if ch_mutation_reason c = Some INTERRUPTED then True
                       else sn_muts v \<noteq> [] \<and> rep_outcome (snd (hd (sn_muts v))) = m)) \<and>
         (length (sn_muts v) \<le> 1 \<or> length (sn_muts v) = 2 \<and>
            ch_rollback_attempt_id c = Some (mr_attempt_id (fst (sn_muts v ! 1)))) \<and>
         (case sn_run v of
            None \<Rightarrow> False
          | Some r \<Rightarrow> ended c r \<and>
             (if ch_result c = CR_Succeeded \<and> is_guarded r then guard_kept (sn_guard v) else True)) \<and>
         (sn_lock v \<noteq> None) = holds_lock (ch_result c))"

text \<open>
  \<open>authorised\<close>: a mutation is dispatched only with the object's lock held, the run's confirmation
  of the very plan it published spent, the override spent where the plan rests on one, a guard
  armed and not settled where the plan is guarded, and the dispatch on record: as the change's
  own request, or as the roll back to the value the change found.
\<close>

definition spent_for :: "run_record \<Rightarrow> confirmation_record option \<Rightarrow> bool" where
  "spent_for r k \<longleftrightarrow>
     (case k of None \<Rightarrow> False
      | Some c \<Rightarrow> cn_consumed c \<and> cn_preview_digest c = rv_preview_digest (rn_preview r))"

definition guard_holds :: "run_guard_record option \<Rightarrow> bool" where
  "guard_holds g \<longleftrightarrow> (case g of None \<Rightarrow> False | Some x \<Rightarrow> gd_armed x \<and> \<not> gd_settled x)"

definition authorised :: "snapshot \<Rightarrow> mutation_request \<Rightarrow> bool" where
  "authorised v q \<longleftrightarrow>
     (case (sn_run v, sn_change v) of
        (Some r, Some c) \<Rightarrow>
          sn_lock v \<noteq> None \<and> spent_for r (sn_apply v) \<and>
          (if requires_self_impact_override r then spent_for r (sn_override v) else True) \<and>
          (if is_guarded r then guard_holds (sn_guard v) else True) \<and>
          (q = apply_request c \<and> ch_dispatch_began c \<and> ch_mutation_outcome c = None \<and>
             sn_muts v = [] \<or>
           arms_recovery r \<and> ch_rollback_attempt_id c = Some (mr_attempt_id q) \<and>
             mr_correlation q = ch_execution_correlation c \<and>
             mr_desired q = ch_before_value c \<and>
             ch_mutation_outcome c \<in> {Some MO_Written, Some MO_Write_Unknown} \<and>
             length (sn_muts v) = 1)
      | _ \<Rightarrow> False)"

definition entry_ok :: "string \<Rightarrow> entry list \<Rightarrow> entry \<Rightarrow> bool" where
  "entry_ok rid js e \<longleftrightarrow>
     (case e of
        Committed d \<Rightarrow> unique_rows d \<and> truthful (snapshot_of rid d js)
      | Mutated d q _ \<Rightarrow> unique_rows d \<and> truthful (snapshot_of rid d js) \<and> authorised (snapshot_of rid d js) q
      | _ \<Rightarrow> True)"

definition journal_ok :: "string \<Rightarrow> entry list \<Rightarrow> bool" where
  "journal_ok rid js \<longleftrightarrow>
     (\<forall>i < length js. entry_ok rid (take i js) (js ! i))"

lemma journal_ok_Nil [simp]: "journal_ok rid []"
  by (simp add: journal_ok_def)

lemma journal_ok_snoc [simp]:
  "journal_ok rid (js @ [e]) \<longleftrightarrow> journal_ok rid js \<and> entry_ok rid js e"
  by (auto simp: journal_ok_def nth_append less_Suc_eq)

text \<open>Whatever the point at which the process stops, the last store is truthful.\<close>

fun stopped_at :: "entry \<Rightarrow> database option" where
  "stopped_at (Committed d) = Some d"
| "stopped_at (Mutated d _ _) = Some d"
| "stopped_at _ = None"

lemma authorised_truthful:
  assumes "truthful v" "authorised v q"
  shows "truthful (v\<lparr>sn_muts := sn_muts v @ [(q, rep)]\<rparr>)"
proof -
  obtain r c where rc: "sn_run v = Some r" "sn_change v = Some c"
    using assms(2) by (auto simp: authorised_def split: option.splits)
  have h: "sn_muts v \<noteq> [] \<Longrightarrow> hd (sn_muts v @ [(q, rep)]) = hd (sn_muts v)" by simp
  have cl: "claimed m (sn_muts v @ [(q, rep)]) = claimed m (sn_muts v)" if "sn_muts v \<noteq> []" for m
    using that by (cases "sn_muts v"; cases m) (simp_all add: claimed_def)
  show ?thesis
  proof (cases "sn_muts v")
    case Nil
    then show ?thesis using assms rc unfolding truthful_def authorised_def by auto
  next
    case (Cons x xs)
    then have "length (sn_muts v) = 1" "ch_rollback_attempt_id c = Some (mr_attempt_id q)"
      "ch_mutation_outcome c \<noteq> None" "sn_muts v \<noteq> []"
      using assms(2) rc unfolding authorised_def by auto
    moreover obtain y where "sn_muts v = [y]" using calculation(1) by (cases "sn_muts v") auto
    moreover obtain m where "ch_mutation_outcome c = Some m" using calculation(3) by blast
    ultimately show ?thesis
      using assms(1) rc h cl [of m] unfolding truthful_def by (auto split: if_splits)
  qed
qed

lemma journal_ok_take: "journal_ok rid js \<Longrightarrow> journal_ok rid (take n js)"
  by (simp add: journal_ok_def min_def split: if_splits)

lemma stopped_unique:
  assumes "journal_ok rid js" "i < length js" "stopped_at (js ! i) = Some d"
  shows "unique_rows d"
  using assms unfolding journal_ok_def by (cases "js ! i") (auto simp: entry_ok_def)

lemma stopped_truthful:
  assumes "journal_ok rid js" "i < length js" "stopped_at (js ! i) = Some d"
  shows "truthful (snapshot_of rid d (take (Suc i) js))"
proof -
  have ok: "entry_ok rid (take i js) (js ! i)" using assms by (simp add: journal_ok_def)
  have t: "take (Suc i) js = take i js @ [js ! i]" using assms(2) by (rule take_Suc_conv_app_nth)
  show ?thesis
  proof (cases "js ! i")
    case (Committed d')
    then show ?thesis using ok assms(3) t by (simp add: entry_ok_def snapshot_of_def)
  next
    case (Mutated d' q rep)
    then have m: "truthful (snapshot_of rid d (take i js))" "authorised (snapshot_of rid d (take i js)) q"
      using ok assms(3) by (simp_all add: entry_ok_def)
    have "snapshot_of rid d (take (Suc i) js) = (snapshot_of rid d (take i js))
        \<lparr>sn_muts := sn_muts (snapshot_of rid d (take i js)) @ [(q, rep)]\<rparr>"
      using t Mutated by (simp add: snapshot_of_def)
    then show ?thesis using authorised_truthful [OF m] by simp
  qed (use assms(3) in simp_all)
qed

text \<open>
  \<open>holds rid d0 js0 P s\<close>: a method on run \<open>rid\<close> that started from store \<open>d0\<close> and journal \<open>js0\<close>
  is at \<open>s\<close>, in a snapshot with \<open>P\<close>.
\<close>

definition holds ::
  "string \<Rightarrow> database \<Rightarrow> entry list \<Rightarrow> (snapshot \<Rightarrow> bool) \<Rightarrow> 'w engine_state \<Rightarrow> bool" where
  "holds rid d0 js0 P s \<longleftrightarrow>
     unique_rows (es_db s) \<and> same_elsewhere rid d0 (es_db s) \<and>
     (\<exists>js. es_journal s = js0 @ js \<and> journal_ok rid js \<and> P (snapshot_of rid (es_db s) js))"


section \<open>Rules\<close>

definition sp ::
  "string \<times> database \<times> entry list \<Rightarrow> (snapshot \<Rightarrow> bool) \<Rightarrow> ('w, 'a) engine \<Rightarrow>
   ('a \<Rightarrow> snapshot \<Rightarrow> bool) \<Rightarrow> (engine_error \<Rightarrow> snapshot \<Rightarrow> bool) \<Rightarrow> bool" where
  "sp K P m Q Er \<longleftrightarrow>
     (case K of (rid, d0, js0) \<Rightarrow>
        spec (holds rid d0 js0 P) m (\<lambda>x. holds rid d0 js0 (Q x)) (\<lambda>e. holds rid d0 js0 (Er e)))"

lemma holds_mono: "holds rid d0 js0 P s \<Longrightarrow> (\<And>v. P v \<Longrightarrow> Q v) \<Longrightarrow> holds rid d0 js0 Q s"
  unfolding holds_def by blast

lemma sp_weaken:
  "sp K P' m Q' Er' \<Longrightarrow> (\<And>v. P v \<Longrightarrow> P' v) \<Longrightarrow> (\<And>x v. Q' x v \<Longrightarrow> Q x v) \<Longrightarrow>
   (\<And>e v. Er' e v \<Longrightarrow> Er e v) \<Longrightarrow> sp K P m Q Er"
  unfolding sp_def by (auto elim!: spec_weaken elim: holds_mono split: prod.splits)

lemma sp_pre: "sp K P' m Q Er \<Longrightarrow> (\<And>v. P v \<Longrightarrow> P' v) \<Longrightarrow> sp K P m Q Er"
  by (rule sp_weaken)

lemma sp_bind:
  "(\<And>x. sp K (R x) (f x) Q Er) \<Longrightarrow> sp K P m R Er \<Longrightarrow> sp K P (bindM m f) Q Er"
  unfolding sp_def by (auto intro: spec_bind split: prod.splits)

lemma sp_then:
  "sp K R n Q Er \<Longrightarrow> sp K P m (\<lambda>_. R) Er \<Longrightarrow> sp K P (thenM m n) Q Er"
  unfolding sp_def by (auto intro: spec_then split: prod.splits)

lemma sp_ret: "sp K (Q x) (ret x) Q Er"
  unfolding sp_def by (simp add: spec_def ret_def split: prod.splits)

lemma sp_fail: "sp K (Er e) (fail e) Q Er"
  unfolding sp_def by (simp add: spec_def fail_def split: prod.splits)

lemma sp_demand: "sp K (\<lambda>v. if b then Q () v else Er (Refused code) v) (demand b code) Q Er"
  unfolding sp_def by (simp add: spec_def demand_def fail_def ret_def split: prod.splits)

lemma sp_assert:
  "sp K (\<lambda>v. case z of None \<Rightarrow> Er (Raised (AssertionError [])) v | Some x \<Rightarrow> Q x v) (assertM z) Q Er"
  unfolding sp_def by (cases z) (simp_all add: spec_def assertM_def fail_def ret_def split: prod.splits)

lemma sp_lift: "sp K (\<lambda>v. case r of Inl e \<Rightarrow> Er e v | Inr x \<Rightarrow> Q x v) (lift r) Q Er"
  unfolding sp_def by (cases r) (simp_all add: spec_def lift_def split: prod.splits)

lemma sp_if:
  "(b \<Longrightarrow> sp K P m Q Er) \<Longrightarrow> (\<not> b \<Longrightarrow> sp K P' n Q Er) \<Longrightarrow>
   sp K (\<lambda>v. if b then P v else P' v) (if b then m else n) Q Er"
  by simp

lemma sp_option:
  "sp K P m Q Er \<Longrightarrow> (\<And>y. sp K (P' y) (f y) Q Er) \<Longrightarrow>
   sp K (\<lambda>v. case z of None \<Rightarrow> P v | Some y \<Rightarrow> P' y v) (case z of None \<Rightarrow> m | Some y \<Rightarrow> f y) Q Er"
  by (cases z) simp_all

lemma sp_sum:
  "(\<And>y. sp K (P y) (f y) Q Er) \<Longrightarrow> (\<And>y. sp K (P' y) (g y) Q Er) \<Longrightarrow>
   sp K (\<lambda>v. case z of Inl y \<Rightarrow> P y v | Inr y \<Rightarrow> P' y v)
     (case z of Inl y \<Rightarrow> f y | Inr y \<Rightarrow> g y) Q Er"
  by (cases z) simp_all

lemma sp_prod:
  "(\<And>a b. sp K (P a b) (f a b) Q Er) \<Longrightarrow>
   sp K (\<lambda>v. P (fst z) (snd z) v) (case z of (a, b) \<Rightarrow> f a b) Q Er"
  by (cases z) simp

lemma sp_world: "sp K (\<lambda>v. \<forall>x. Q x v) (world f) Q Er"
  unfolding sp_def spec_def world_def holds_def by (auto split: prod.splits)

lemma sp_now: "sp K (\<lambda>v. \<forall>t. Q t v) (now E) Q Er"
  unfolding now_def by (rule sp_world)

lemma sp_new_id: "sp K (\<lambda>v. \<forall>i. Q i v) (new_id E p) Q Er"
  unfolding sp_def spec_def new_id_def holds_def by (auto split: prod.splits)

lemma sp_ask: "sp K (\<lambda>v. \<forall>x. Q x v) (ask f) Q Er"
  unfolding sp_def spec_def ask_def holds_def by (auto split: prod.splits)

lemma sp_catch_all:
  "(\<And>e. sp K (R e) (h e) Q Er) \<Longrightarrow> sp K P m Q R \<Longrightarrow> sp K P (catch_all m h) Q Er"
  unfolding sp_def by (auto intro: spec_catch_all split: prod.splits)

lemma holds_case:
  "holds rid d0 js0 (\<lambda>v. case e of Refused c \<Rightarrow> R c v | _ \<Rightarrow> Er e v) s =
   (case e of Refused c \<Rightarrow> holds rid d0 js0 (R c) s | _ \<Rightarrow> holds rid d0 js0 (Er e) s)"
  by (cases e) simp_all

lemma sp_catch_refusal:
  "(\<And>c. sp K (R c) (h c) Q Er) \<Longrightarrow>
   sp K P m Q (\<lambda>e v. case e of Refused c \<Rightarrow> R c v | _ \<Rightarrow> Er e v) \<Longrightarrow>
   sp K P (catch_refusal m h) Q Er"
  unfolding sp_def holds_case by (auto intro: spec_catch_refusal split: prod.splits)

section \<open>Questions to the executor\<close>

lemma snapshot_muts:
  "snapshot_of rid d (js @ [e]) = (snapshot_of rid d js)
     \<lparr>sn_muts := sn_muts (snapshot_of rid d js) @ muts [e]\<rparr>"
  by (simp add: snapshot_of_def)

lemma sp_ask_mutate:
  "sp K (\<lambda>v. truthful v \<and> authorised v q \<and> (\<forall>rep. Q rep (v\<lparr>sn_muts := sn_muts v @ [(q, rep)]\<rparr>)))
     (ask_mutate x q) Q Er"
proof -
  have *: "holds rid d0 js0 (Q rep) (s\<lparr>es_world := w, es_journal := es_journal s @ [Mutated (es_db s) q rep]\<rparr>)"
    if h: "holds rid d0 js0 (\<lambda>v. truthful v \<and> authorised v q \<and> (\<forall>rep. Q rep (v\<lparr>sn_muts := sn_muts v @ [(q, rep)]\<rparr>))) s"
    for rid d0 js0 s w rep
  proof -
    obtain js where js: "es_journal s = js0 @ js" "journal_ok rid js"
      "truthful (snapshot_of rid (es_db s) js)" "authorised (snapshot_of rid (es_db s) js) q"
      "Q rep ((snapshot_of rid (es_db s) js)\<lparr>sn_muts := muts js @ [(q, rep)]\<rparr>)"
      using h unfolding holds_def by (auto simp: snapshot_of_def)
    have "journal_ok rid (js @ [Mutated (es_db s) q rep])"
      using js h by (simp add: entry_ok_def holds_def)
    moreover have "Q rep (snapshot_of rid (es_db s) (js @ [Mutated (es_db s) q rep]))"
      using js by (simp add: snapshot_of_def)
    ultimately show ?thesis using h js(1) unfolding holds_def by auto
  qed
  show ?thesis
    unfolding sp_def spec_def ask_mutate_def ask_logged_def
    by (auto split: prod.splits intro: *)
qed

lemma holds_neutral:
  assumes "holds rid d0 js0 P s" "muts [e] = []" "entry_ok rid (drop (length js0) (es_journal s)) e"
  shows "holds rid d0 js0 P (s\<lparr>es_world := w, es_journal := es_journal s @ [e]\<rparr>)"
proof -
  obtain js where js: "es_journal s = js0 @ js" "journal_ok rid js" "P (snapshot_of rid (es_db s) js)"
    using assms(1) unfolding holds_def by auto
  have "journal_ok rid (js @ [e])" using js assms(3) by simp
  moreover have "P (snapshot_of rid (es_db s) (js @ [e]))"
    using js(3) assms(2) by (simp add: snapshot_of_def)
  ultimately show ?thesis using assms(1) js(1) unfolding holds_def by auto
qed

lemma sp_ask_guard:
  "sp K (\<lambda>v. \<forall>rep. Q rep v) (ask_disarm x gid) Q Er"
  "sp K (\<lambda>v. \<forall>rep. Q rep v) (ask_status x gid) Q Er"
  unfolding sp_def spec_def ask_disarm_def ask_status_def ask_logged_def
  by (auto split: prod.splits intro!: holds_neutral simp: entry_ok_def elim: holds_mono)

lemma sp_ask_arm:
  "sp K (\<lambda>v. \<forall>rep. Q rep v) (ask_logged (\<lambda>d. Arm_Asked d q) f) Q Er"
  unfolding sp_def spec_def ask_logged_def
  by (auto split: prod.splits intro!: holds_neutral simp: entry_ok_def elim: holds_mono)

section \<open>Writing to the store\<close>

lemma sp_modify:
  assumes "\<And>d js. unique_rows d \<Longrightarrow> C (snapshot_of rid d js) \<Longrightarrow>
      unique_rows (f d) \<and> same_elsewhere rid d (f d) \<and>
      snapshot_of rid (f d) js = g (snapshot_of rid d js)"
  shows "sp (rid, d0, js0) (\<lambda>v. C v \<and> Q () (g v)) (modify f) Q Er"
  unfolding sp_def spec_def modify_def
proof (simp, intro allI impI)
  fix s :: "'w engine_state"
  assume h: "holds rid d0 js0 (\<lambda>v. C v \<and> Q () (g v)) s"
  then obtain js where js: "es_journal s = js0 @ js" "journal_ok rid js" "unique_rows (es_db s)"
    "same_elsewhere rid d0 (es_db s)" "C (snapshot_of rid (es_db s) js)"
    "Q () (g (snapshot_of rid (es_db s) js))"
    unfolding holds_def by auto
  then show "holds rid d0 js0 (Q ()) (s\<lparr>es_db := f (es_db s)\<rparr>)"
    unfolding holds_def using assms [OF js(3,5)] same_elsewhere_trans [OF js(4)] by auto
qed

lemma sp_insert_row:
  assumes "\<And>d d' js. unique_rows d \<Longrightarrow> C (snapshot_of rid d js) \<Longrightarrow> f d = Inr d' \<Longrightarrow>
      unique_rows d' \<and> same_elsewhere rid d d' \<and> free (snapshot_of rid d js) \<and>
      snapshot_of rid d' js = g (snapshot_of rid d js)"
    and "\<And>d e. f d = Inl e \<Longrightarrow> e = Integrity_Error"
  shows "sp (rid, d0, js0)
     (\<lambda>v. C v \<and> Er Integrity_Error v \<and> (free v \<longrightarrow> Q () (g v))) (insert_row f) Q Er"
  unfolding sp_def spec_def insert_row_def
proof (simp, intro allI impI)
  fix s :: "'w engine_state"
  assume h: "holds rid d0 js0 (\<lambda>v. C v \<and> Er Integrity_Error v \<and> (free v \<longrightarrow> Q () (g v))) s"
  then obtain js where js: "es_journal s = js0 @ js" "journal_ok rid js" "unique_rows (es_db s)"
    "same_elsewhere rid d0 (es_db s)" "C (snapshot_of rid (es_db s) js)"
    "Er Integrity_Error (snapshot_of rid (es_db s) js)"
    "free (snapshot_of rid (es_db s) js) \<longrightarrow> Q () (g (snapshot_of rid (es_db s) js))"
    unfolding holds_def by auto
  show "case case f (es_db s) of Inl e \<Rightarrow> (Inl e, s) | Inr d \<Rightarrow> (Inr (), s\<lparr>es_db := d\<rparr>) of
      (Inl e, s') \<Rightarrow> holds rid d0 js0 (Er e) s' | (Inr x, s') \<Rightarrow> holds rid d0 js0 (Q x) s'"
  proof (cases "f (es_db s)")
    case (Inl e)
    then show ?thesis using js assms(2) [OF Inl] unfolding holds_def by auto
  next
    case (Inr d)
    then show ?thesis using js assms(1) [OF js(3,5) Inr] same_elsewhere_trans [OF js(4)]
      unfolding holds_def by auto
  qed
qed

lemma sp_look:
  assumes "\<And>d js. unique_rows d \<Longrightarrow> f d = g (snapshot_of rid d js)"
  shows "sp (rid, d0, js0) (\<lambda>v. Q (g v) v) (look f) Q Er"
  unfolding sp_def spec_def look_def holds_def using assms by auto

lemma sp_transaction:
  assumes "\<And>v0. sp K (W v0) m (\<lambda>x v. truthful v \<and> Q x v) (\<lambda>e v. sn_muts v = sn_muts v0 \<and> Er e v0)"
  shows "sp K (\<lambda>v. W v v) (transaction m) Q Er"
proof (cases K)
  case (fields rid d0 js0)
  have "case transaction m s of (Inl e, s') \<Rightarrow> holds rid d0 js0 (Er e) s'
      | (Inr x, s') \<Rightarrow> holds rid d0 js0 (Q x) s'"
    if h: "holds rid d0 js0 (\<lambda>v. W v v) s" for s
  proof -
    obtain js where js: "es_journal s = js0 @ js" "journal_ok rid js" "unique_rows (es_db s)"
      "same_elsewhere rid d0 (es_db s)"
      "W (snapshot_of rid (es_db s) js) (snapshot_of rid (es_db s) js)"
      using h unfolding holds_def by auto
    let ?v0 = "snapshot_of rid (es_db s) js"
    have w: "holds rid d0 js0 (W ?v0) s" using js unfolding holds_def by auto
    obtain res s' where r: "m s = (res, s')" by (cases "m s")
    have body: "spec (holds rid d0 js0 (W ?v0)) m
        (\<lambda>x. holds rid d0 js0 (\<lambda>v. truthful v \<and> Q x v))
        (\<lambda>e. holds rid d0 js0 (\<lambda>v. sn_muts v = sn_muts ?v0 \<and> Er e ?v0))"
      using assms [of ?v0] fields unfolding sp_def by simp
    show ?thesis
    proof (cases res)
      case (Inl e)
      then have "holds rid d0 js0 (\<lambda>v. sn_muts v = sn_muts ?v0 \<and> Er e ?v0) s'"
        using specD_Inl [OF body w] r by simp
      then obtain js' where js': "es_journal s' = js0 @ js'" "journal_ok rid js'"
        "muts js' = muts js" "Er e ?v0"
        unfolding holds_def by (auto simp: snapshot_of_def)
      then have "snapshot_of rid (es_db s) js' = ?v0" by (simp add: snapshot_of_def)
      then have "holds rid d0 js0 (Er e) (s'\<lparr>es_db := es_db s\<rparr>)"
        using js js' unfolding holds_def by auto
      then show ?thesis using r Inl by (simp add: transaction_def)
    next
      case (Inr x)
      then have "holds rid d0 js0 (\<lambda>v. truthful v \<and> Q x v) s'"
        using specD_Inr [OF body w] r by simp
      then obtain js' where js': "es_journal s' = js0 @ js'" "journal_ok rid js'"
        "unique_rows (es_db s')" "same_elsewhere rid d0 (es_db s')"
        "truthful (snapshot_of rid (es_db s') js')" "Q x (snapshot_of rid (es_db s') js')"
        unfolding holds_def by auto
      then have "journal_ok rid (js' @ [Committed (es_db s')])"
        by (simp add: entry_ok_def)
      moreover have "snapshot_of rid (es_db s') (js' @ [Committed (es_db s')]) =
          snapshot_of rid (es_db s') js'"
        by (simp add: snapshot_of_def)
      ultimately have "holds rid d0 js0 (Q x)
          (s'\<lparr>es_journal := es_journal s' @ [Committed (es_db s')]\<rparr>)"
        using js' unfolding holds_def by auto
      then show ?thesis using r Inr by (simp add: transaction_def)
    qed
  qed
  then show ?thesis using fields unfolding sp_def spec_def by simp
qed

text \<open>What each write does to the tables.\<close>

lemma runs_get_set_state:
  "runs_get x (runs_set_state rid st eff fin t) =
     (if x = rid then map_option (\<lambda>r. r\<lparr>rn_state := (case st of None \<Rightarrow> rn_state r | Some y \<Rightarrow> y),
         rn_host_effect := (case eff of None \<Rightarrow> rn_host_effect r | Some y \<Rightarrow> y),
         rn_finished_at := (case fin of None \<Rightarrow> rn_finished_at r | Some y \<Rightarrow> Some y)\<rparr>) (runs_get x t)
      else runs_get x t)"
  unfolding runs_get_def runs_set_state_def by (induction t) auto

lemma keys_runs_set_state:
  "map rn_run_id (runs_set_state rid st eff fin t) = map rn_run_id t"
  unfolding runs_set_state_def by (rule map_update_where) simp

definition run_moved ::
  "run_state option \<Rightarrow> host_effect option \<Rightarrow> instant option \<Rightarrow> run_record \<Rightarrow> run_record" where
  "run_moved st eff fin r = r\<lparr>rn_state := (case st of None \<Rightarrow> rn_state r | Some y \<Rightarrow> y),
     rn_host_effect := (case eff of None \<Rightarrow> rn_host_effect r | Some y \<Rightarrow> y),
     rn_finished_at := (case fin of None \<Rightarrow> rn_finished_at r | Some y \<Rightarrow> Some y)\<rparr>"

lemma sp_set_state:
  "sp (rid, d0, js0) (\<lambda>v. Q () (v\<lparr>sn_run := map_option (run_moved st eff fin) (sn_run v)\<rparr>))
     (set_state rid st eff fin) Q Er"
  unfolding set_state_def
  by (rule sp_pre, rule sp_modify [where C = "\<lambda>_. True" and
        g = "\<lambda>v. v\<lparr>sn_run := map_option (run_moved st eff fin) (sn_run v)\<rparr>"])
     (auto simp: unique_rows_def keys_runs_set_state same_elsewhere_def snapshot_of_def
        runs_get_set_state run_moved_def [abs_def])

lemma changes_for_run_update:
  assumes "\<And>c. ch_run_id (f c) = ch_run_id c"
  shows "changes_for_run x (changes_update cid f t) =
    map_option (\<lambda>c. if ch_change_id c = cid then f c else c) (changes_for_run x t)"
  unfolding changes_for_run_def changes_update_def by (rule find_update_where) (simp add: assms)

lemma sp_update_change:
  assumes f: "\<And>c. ch_change_id (f c) = ch_change_id c" "\<And>c. ch_run_id (f c) = ch_run_id c"
  shows "sp (rid, d0, js0)
     (\<lambda>v. map_option ch_change_id (sn_change v) = Some cid \<and>
          Q () (v\<lparr>sn_change := map_option f (sn_change v)\<rparr>))
     (update_change cid f) Q Er"
  unfolding update_change_def
proof (rule sp_modify)
  fix d js
  assume u: "unique_rows d" and c: "map_option ch_change_id (sn_change (snapshot_of rid d js)) = Some cid"
  then obtain c where c: "changes_for_run rid (db_changes d) = Some c" "ch_change_id c = cid"
    by (auto simp: snapshot_of_def)
  have keys: "map ch_change_id (changes_update cid f t) = map ch_change_id t"
    "map ch_run_id (changes_update cid f t) = map ch_run_id t" for t
    unfolding changes_update_def using f by (auto intro: map_update_where)
  have other: "changes_for_run x (changes_update cid f (db_changes d)) = changes_for_run x (db_changes d)"
    if x: "x \<noteq> rid" for x
  proof (cases "changes_for_run x (db_changes d)")
    case (Some y)
    have "ch_change_id y \<noteq> ch_change_id c"
      using u c(1) Some x unfolding unique_rows_def changes_for_run_def
      by (intro find_other_key [of ch_change_id _ "\<lambda>c. ch_run_id c = x" _ "\<lambda>c. ch_run_id c = rid"])
         (auto simp: find_Some_iff)
    then show ?thesis using c(2) Some by (simp add: changes_for_run_update f)
  qed (simp add: changes_for_run_update f)
  show "unique_rows (d\<lparr>db_changes := changes_update cid f (db_changes d)\<rparr>) \<and>
      same_elsewhere rid d (d\<lparr>db_changes := changes_update cid f (db_changes d)\<rparr>) \<and>
      snapshot_of rid (d\<lparr>db_changes := changes_update cid f (db_changes d)\<rparr>) js =
      (snapshot_of rid d js)\<lparr>sn_change := map_option f (sn_change (snapshot_of rid d js))\<rparr>"
    using u c other by (simp add: unique_rows_def keys same_elsewhere_def snapshot_of_def
        changes_for_run_update f)
qed

lemma locks_release_other: "x \<noteq> rid \<Longrightarrow> locks_for_run x (locks_release rid t) = locks_for_run x t"
  unfolding locks_for_run_def locks_release_def by (induction t) auto

lemma locks_release_own [simp]: "locks_for_run rid (locks_release rid t) = None"
  unfolding locks_for_run_def locks_release_def by (auto simp: find_None_iff)

lemma keys_locks_release: "distinct (map f t) \<Longrightarrow> distinct (map f (locks_release rid t))"
  unfolding locks_release_def by (rule distinct_map_filter)

lemma sp_release_lock:
  "sp (rid, d0, js0) (\<lambda>v. Q () (v\<lparr>sn_lock := None\<rparr>)) (release_lock rid) Q Er"
  unfolding release_lock_def
  by (rule sp_pre, rule sp_modify [where C = "\<lambda>_. True" and g = "\<lambda>v. v\<lparr>sn_lock := None\<rparr>"])
     (auto simp: unique_rows_def same_elsewhere_def snapshot_of_def locks_release_other
        keys_locks_release)

lemma sp_append_event:
  "sp K (\<lambda>v. Q () v) (append_event E rid' ev cid sf st) Q Er"
  unfolding append_event_def
proof (rule sp_bind, rule sp_bind)
  fix i t
  show "sp K (Q ()) (modify (\<lambda>d. d\<lparr>db_events := events_append i rid' ev t cid sf st (db_events d)\<rparr>)) Q Er"
    by (cases K) (auto simp: sp_def spec_def modify_def holds_def unique_rows_def same_elsewhere_def
        snapshot_of_def)
  show "sp K (Q ()) (now E) (\<lambda>_. Q ()) Er" for i by (rule sp_pre, rule sp_now) simp
  show "sp K (Q ()) (new_id E ''evt_'') (\<lambda>_. Q ()) Er" by (rule sp_pre, rule sp_new_id) simp
qed

lemma sp_put:
  assumes "\<And>d d' x js. unique_rows d \<Longrightarrow> C (snapshot_of rid d js) \<Longrightarrow> f d = (x, d') \<Longrightarrow>
      unique_rows d' \<and> same_elsewhere rid d d' \<and> R x (snapshot_of rid d js) (snapshot_of rid d' js)"
  shows "sp (rid, d0, js0) (\<lambda>v. C v \<and> (\<forall>x v'. R x v v' \<longrightarrow> Q x v')) (put f) Q Er"
  unfolding sp_def spec_def put_def
proof (simp, intro allI impI)
  fix s :: "'w engine_state"
  assume h: "holds rid d0 js0 (\<lambda>v. C v \<and> (\<forall>x v'. R x v v' \<longrightarrow> Q x v')) s"
  obtain x d where f: "f (es_db s) = (x, d)" by (cases "f (es_db s)")
  obtain js where js: "es_journal s = js0 @ js" "journal_ok rid js" "unique_rows (es_db s)"
    "same_elsewhere rid d0 (es_db s)" "C (snapshot_of rid (es_db s) js)"
    "\<forall>x v'. R x (snapshot_of rid (es_db s) js) v' \<longrightarrow> Q x v'"
    using h unfolding holds_def by auto
  have "holds rid d0 js0 (Q x) (s\<lparr>es_db := d\<rparr>)"
    unfolding holds_def using js assms [OF js(3,5) f] same_elsewhere_trans [OF js(4)] by auto
  then show "case case f (es_db s) of (x, d) \<Rightarrow> (Inr x, s\<lparr>es_db := d\<rparr>) of
      (Inl e, s') \<Rightarrow> holds rid d0 js0 (Er e) s' | (Inr x, s') \<Rightarrow> holds rid d0 js0 (Q x) s'"
    using f by simp
qed

text \<open>Lookups, as the snapshot shows them.\<close>

lemma sp_look_run:
  "sp (rid, d0, js0) (\<lambda>v. Q (sn_run v) v) (look (\<lambda>d. runs_get rid (db_runs d))) Q Er"
  by (rule sp_look) (simp add: snapshot_of_def)

lemma sp_look_lock:
  "sp (rid, d0, js0) (\<lambda>v. Q (sn_lock v) v) (look (\<lambda>d. locks_for_run rid (db_locks d))) Q Er"
  by (rule sp_look) (simp add: snapshot_of_def)

lemma sp_look_guard:
  "sp (rid, d0, js0) (\<lambda>v. Q (sn_guard v) v) (look (\<lambda>d. guards_for_run rid (db_guards d))) Q Er"
  by (rule sp_look) (simp add: snapshot_of_def)

lemma sp_look_change:
  "sp (rid, d0, js0) (\<lambda>v. Q (sn_change v) v) (look (\<lambda>d. changes_for_run rid (db_changes d))) Q Er"
  by (rule sp_look) (simp add: snapshot_of_def)

lemma sp_look_checkpoint:
  "sp (rid, d0, js0) (\<lambda>v. Q (sn_checkpoint v) v)
     (look (\<lambda>d. checkpoints_for_run rid (db_checkpoints d))) Q Er"
  by (rule sp_look) (simp add: snapshot_of_def)

lemma sp_look_apply:
  "sp (rid, d0, js0) (\<lambda>v. Q (sn_apply v) v)
     (look (\<lambda>d. confirmations_for_run rid CP_Apply (db_confirmations d))) Q Er"
  by (rule sp_look) (simp add: snapshot_of_def)

lemma sp_look_override:
  "sp (rid, d0, js0) (\<lambda>v. Q (sn_override v) v)
     (look (\<lambda>d. confirmations_for_run rid CP_Self_Impact_Override (db_confirmations d))) Q Er"
  by (rule sp_look) (simp add: snapshot_of_def)

lemma sp_reread:
  "sp (rid, d0, js0)
     (\<lambda>v. case sn_run v of None \<Rightarrow> Er (Refused ''run_not_found'') v | Some r \<Rightarrow> Q r v)
     (reread rid) Q Er"
  unfolding reread_def
  by (rule sp_bind, rule sp_option, rule sp_fail, rule sp_ret, rule sp_look_run)

lemma sp_state_of:
  "sp (rid, d0, js0) (\<lambda>v. case sn_run v of None \<Rightarrow> Er (Raised (AssertionError [])) v
                       | Some r \<Rightarrow> Q (rn_state r) v) (state_of rid) Q Er"
  unfolding state_of_def
  by (rule sp_bind, rule sp_ret, rule sp_bind, rule sp_assert, rule sp_look_run)

lemma changes_get_own:
  assumes "unique_rows d" "changes_for_run rid (db_changes d) = Some c" "ch_change_id c = cid"
  shows "changes_get cid (db_changes d) = Some c"
  using assms unfolding unique_rows_def changes_for_run_def changes_get_def by (intro find_key) auto

lemma sp_require_change:
  "sp (rid, d0, js0)
     (\<lambda>v. map_option ch_change_id (sn_change v) = Some cid \<and> (\<forall>c. sn_change v = Some c \<longrightarrow> Q c v))
     (require_change cid) Q Er"
  unfolding sp_def spec_def
proof (simp, intro allI impI)
  fix s :: "'w engine_state"
  assume h: "holds rid d0 js0 (\<lambda>v. (\<exists>c. sn_change v = Some c \<and> ch_change_id c = cid) \<and>
      (\<forall>c. sn_change v = Some c \<longrightarrow> Q c v)) s"
  then obtain c where c: "changes_for_run rid (db_changes (es_db s)) = Some c" "ch_change_id c = cid"
    and u: "unique_rows (es_db s)"
    unfolding holds_def by (auto simp: snapshot_of_def)
  have "require_change cid s = (Inr c, s)"
    using changes_get_own [OF u c]
    by (simp add: require_change_def bindM_def look_def assertM_def ret_def)
  moreover have "holds rid d0 js0 (Q c) s"
    using h c unfolding holds_def by (auto simp: snapshot_of_def)
  ultimately show "case require_change cid s of (Inl e, s') \<Rightarrow> holds rid d0 js0 (Er e) s'
      | (Inr x, s') \<Rightarrow> holds rid d0 js0 (Q x) s'" by simp
qed

lemma sp_reread_both:
  "sp (rid, d0, js0)
     (\<lambda>v. (case sn_run v of None \<Rightarrow> Er (Refused ''run_not_found'') v
           | Some r \<Rightarrow> map_option ch_change_id (sn_change v) = Some cid \<and>
               (\<forall>c. sn_change v = Some c \<longrightarrow> Q (r, c) v)))
     (reread_both rid cid) Q Er"
  unfolding reread_both_def
  by (rule sp_bind, rule sp_bind, rule sp_ret, rule sp_require_change, rule sp_reread)

section \<open>A step\<close>

definition step_effect ::
  "run_state option \<Rightarrow> host_effect option \<Rightarrow> instant option \<Rightarrow>
   (change_record \<Rightarrow> change_record) option \<Rightarrow> bool \<Rightarrow> snapshot \<Rightarrow> snapshot" where
  "step_effect st eff fin upd rel v =
     v\<lparr>sn_run := map_option (run_moved st eff fin) (sn_run v),
       sn_change := (case upd of None \<Rightarrow> sn_change v | Some f \<Rightarrow> map_option f (sn_change v)),
       sn_lock := (if rel then None else sn_lock v)\<rparr>"

lemma run_moved_none [simp]: "run_moved None None None r = r"
  by (simp add: run_moved_def)

lemma map_run_moved_none [simp]: "map_option (run_moved None None None) z = z"
  by (cases z) simp_all

lemma snapshot_same [simp]:
  "(v :: snapshot)\<lparr>sn_lock := sn_lock v\<rparr> = v"
  "(v :: snapshot)\<lparr>sn_run := sn_run v\<rparr> = v"
  "(v :: snapshot)\<lparr>sn_change := sn_change v\<rparr> = v"
  "(v :: snapshot)\<lparr>sn_change := x, sn_lock := sn_lock v\<rparr> = v\<lparr>sn_change := x\<rparr>"
  "(v :: snapshot)\<lparr>sn_run := y, sn_lock := sn_lock v\<rparr> = v\<lparr>sn_run := y\<rparr>"
  "(v :: snapshot)\<lparr>sn_run := y, sn_change := sn_change v\<rparr> = v\<lparr>sn_run := y\<rparr>"
  "(v :: snapshot)\<lparr>sn_run := y, sn_change := x, sn_lock := sn_lock v\<rparr> = v\<lparr>sn_run := y, sn_change := x\<rparr>"
  "(v :: snapshot)\<lparr>sn_run := y, sn_change := sn_change v, sn_lock := z\<rparr> = v\<lparr>sn_run := y, sn_lock := z\<rparr>"
  by (cases v; simp)+

definition keeps_keys :: "(instant \<Rightarrow> change_record \<Rightarrow> change_record) option \<Rightarrow> bool" where
  "keeps_keys upd \<longleftrightarrow>
     (case upd of None \<Rightarrow> True
      | Some u \<Rightarrow> (\<forall>t c. ch_change_id (u t c) = ch_change_id c \<and> ch_run_id (u t c) = ch_run_id c))"

lemma sp_step:
  assumes k: "keeps_keys upd"
  shows "sp (rid, d0, js0)
     (\<lambda>v. sn_run v \<noteq> None \<and>
          (upd \<noteq> None \<longrightarrow> map_option ch_change_id (sn_change v) = cid \<and> cid \<noteq> None) \<and>
          (\<forall>t. let v' = step_effect st eff (if fin then Some t else None)
                          (map_option (\<lambda>u. u t) upd) rel v in truthful v' \<and> Q () v'))
     (step E rid ev cid st sf eff fin upd rel) Q Er"
proof -
  have f: "ch_change_id (u t c) = ch_change_id c" "ch_run_id (u t c) = ch_run_id c"
    if "upd = Some u" for u t c
    using k that by (simp_all add: keeps_keys_def)
  have tail: "sp (rid, d0, js0) (\<lambda>v. truthful (v\<lparr>sn_lock := if rel then None else sn_lock v\<rparr>) \<and>
        Q () (v\<lparr>sn_lock := if rel then None else sn_lock v\<rparr>))
      (thenM (append_event E rid ev cid sf st) (if rel then release_lock rid else ret ()))
      (\<lambda>x v. truthful v \<and> Q x v) Er'" for Er'
    by (rule sp_pre, rule sp_then, rule sp_if, rule sp_release_lock, rule sp_ret, rule sp_append_event)
       (cases rel; simp)
  have mid: "sp (rid, d0, js0)
      (\<lambda>v. (upd \<noteq> None \<longrightarrow> map_option ch_change_id (sn_change v) = cid \<and> cid \<noteq> None) \<and>
         (let v' = step_effect None None None (map_option (\<lambda>u. u t) upd) rel v in
            truthful v' \<and> Q () v'))
      (thenM (case (upd, cid) of (Some u, Some c) \<Rightarrow> update_change c (u t) | _ \<Rightarrow> ret ())
         (thenM (append_event E rid ev cid sf st) (if rel then release_lock rid else ret ())))
      (\<lambda>x v. truthful v \<and> Q x v) Er'" for t Er'
  proof (cases upd)
    case None
    have "sp (rid, d0, js0)
       (\<lambda>v. let v' = step_effect None None None None rel v in truthful v' \<and> Q () v')
       (thenM (ret ())
         (thenM (append_event E rid ev cid sf st) (if rel then release_lock rid else ret ())))
       (\<lambda>x v. truthful v \<and> Q x v) Er'"
      by (rule sp_pre, rule sp_then, rule tail, rule sp_ret) (cases rel; simp add: step_effect_def Let_def)
    then show ?thesis by (simp only: None option.case prod.case option.map simp_thms)
  next
    case (Some u)
    then show ?thesis
    proof (cases cid)
      case None
      show ?thesis using Some None by (auto simp: sp_def spec_def holds_def split: prod.splits)
    next
      case c: (Some c)
      have "sp (rid, d0, js0)
         (\<lambda>v. map_option ch_change_id (sn_change v) = Some c \<and>
           (let v' = v\<lparr>sn_change := map_option (u t) (sn_change v)\<rparr> in
            truthful (v'\<lparr>sn_lock := if rel then None else sn_lock v'\<rparr>) \<and>
            Q () (v'\<lparr>sn_lock := if rel then None else sn_lock v'\<rparr>)))
         (thenM (update_change c (u t))
            (thenM (append_event E rid ev (Some c) sf st) (if rel then release_lock rid else ret ())))
         (\<lambda>x v. truthful v \<and> Q x v) Er'"
        by (rule sp_pre, rule sp_then, rule tail [unfolded c], rule sp_update_change)
           (cases rel; simp add: f Some Let_def)+
      then show ?thesis
        unfolding Some c option.case prod.case
        by (rule sp_pre) (cases rel; simp add: step_effect_def Let_def)
    qed
  qed
  have whole: "sp (rid, d0, js0)
     (\<lambda>v. sn_run v \<noteq> None \<and>
          (upd \<noteq> None \<longrightarrow> map_option ch_change_id (sn_change v) = cid \<and> cid \<noteq> None) \<and>
          (\<forall>t. let v' = step_effect st eff (if fin then Some t else None)
                          (map_option (\<lambda>u. u t) upd) rel v in truthful v' \<and> Q () v'))
     (bindM (now E) (\<lambda>t.
        thenM (if st \<noteq> None \<or> eff \<noteq> None \<or> fin
            then bindM (case st of Some x \<Rightarrow> ret x | None \<Rightarrow> state_of rid)
                   (\<lambda>x. set_state rid (Some x) eff (if fin then Some t else None))
            else ret ())
        (thenM (case (upd, cid) of (Some u, Some c) \<Rightarrow> update_change c (u t) | _ \<Rightarrow> ret ())
           (thenM (append_event E rid ev cid sf st) (if rel then release_lock rid else ret ())))))
     (\<lambda>x v. truthful v \<and> Q x v) Er'" for Er'
  proof (cases "st \<noteq> None \<or> eff \<noteq> None \<or> fin")
    case True
    show ?thesis
    proof (cases st)
      case None
      show ?thesis
        unfolding if_P [OF True] unfolding None option.case
        by (rule sp_pre, rule sp_bind, rule sp_then, rule mid [unfolded None], rule sp_bind, rule sp_set_state,
            rule sp_state_of, rule sp_now) (cases rel; cases upd; auto simp: step_effect_def run_moved_def Let_def)
    next
      case (Some x)
      show ?thesis
        unfolding if_P [OF True] unfolding Some option.case
        by (rule sp_pre, rule sp_bind, rule sp_then, rule mid [unfolded Some], rule sp_bind, rule sp_set_state,
            rule sp_ret, rule sp_now) (cases rel; cases upd; auto simp: step_effect_def run_moved_def Let_def)
    qed
  next
    case False
    then show ?thesis
      unfolding if_not_P [OF False]
      by (intro sp_pre [OF sp_bind [OF sp_then [OF mid sp_ret] sp_now]])
         (auto simp: step_effect_def Let_def)
  qed
  show ?thesis
    unfolding step_def
    by (rule sp_pre, rule sp_transaction, rule whole) auto
qed

section \<open>Rows of the run\<close>

lemma sp_insert_change:
  assumes r: "ch_run_id c = rid"
  shows "sp (rid, d0, js0)
     (\<lambda>v. Er Integrity_Error v \<and> (sn_change v = None \<longrightarrow> Q () (v\<lparr>sn_change := Some c\<rparr>)))
     (insert_row (\<lambda>d. case changes_insert c (db_changes d) of
        Inl e \<Rightarrow> Inl e | Inr x \<Rightarrow> Inr (d\<lparr>db_changes := x\<rparr>))) Q Er"
proof (rule sp_pre, rule sp_insert_row [where C = "\<lambda>_. True" and free = "\<lambda>v. sn_change v = None" and
      g = "\<lambda>v. v\<lparr>sn_change := Some c\<rparr>"])
  fix d d' js
  assume u: "unique_rows d" and i: "(case changes_insert c (db_changes d) of
      Inl e \<Rightarrow> Inl e | Inr x \<Rightarrow> Inr (d\<lparr>db_changes := x\<rparr>)) = Inr d'"
  have new: "\<forall>x \<in> set (db_changes d). ch_change_id x \<noteq> ch_change_id c \<and> ch_run_id x \<noteq> rid"
    and d': "d' = d\<lparr>db_changes := db_changes d @ [c]\<rparr>"
    using i r by (auto simp: changes_insert_def list_ex_iff split: if_splits)
  have none: "find (\<lambda>x. ch_run_id x = rid) (db_changes d) = None"
    using new by (simp add: find_None_iff)
  have run: "changes_for_run x (db_changes d @ [c]) =
      (if x = rid then Some c else changes_for_run x (db_changes d))" for x
    using none r by (auto simp: changes_for_run_def find_append split: option.split)
  show "unique_rows d' \<and> same_elsewhere rid d d' \<and> sn_change (snapshot_of rid d js) = None \<and>
      snapshot_of rid d' js = (snapshot_of rid d js)\<lparr>sn_change := Some c\<rparr>"
    using u d' new none r run
    by (auto simp: unique_rows_def same_elsewhere_def snapshot_of_def changes_for_run_def)
qed (auto simp: changes_insert_def split: if_splits)

lemma sp_insert_checkpoint:
  assumes r: "ck_run_id k = rid"
  shows "sp (rid, d0, js0)
     (\<lambda>v. Er Integrity_Error v \<and> (sn_checkpoint v = None \<longrightarrow> Q () (v\<lparr>sn_checkpoint := Some k\<rparr>)))
     (insert_row (\<lambda>d. case checkpoints_insert k (db_checkpoints d) of
        Inl e \<Rightarrow> Inl e | Inr x \<Rightarrow> Inr (d\<lparr>db_checkpoints := x\<rparr>))) Q Er"
proof (rule sp_pre, rule sp_insert_row [where C = "\<lambda>_. True" and free = "\<lambda>v. sn_checkpoint v = None" and
      g = "\<lambda>v. v\<lparr>sn_checkpoint := Some k\<rparr>"])
  fix d d' js
  assume u: "unique_rows d" and i: "(case checkpoints_insert k (db_checkpoints d) of
      Inl e \<Rightarrow> Inl e | Inr x \<Rightarrow> Inr (d\<lparr>db_checkpoints := x\<rparr>)) = Inr d'"
  have new: "\<forall>x \<in> set (db_checkpoints d). ck_checkpoint_id x \<noteq> ck_checkpoint_id k \<and> ck_run_id x \<noteq> rid"
    and d': "d' = d\<lparr>db_checkpoints := db_checkpoints d @ [k]\<rparr>"
    using i r by (auto simp: checkpoints_insert_def list_ex_iff split: if_splits)
  have none: "find (\<lambda>x. ck_run_id x = rid) (db_checkpoints d) = None"
    using new by (simp add: find_None_iff)
  have run: "checkpoints_for_run x (db_checkpoints d @ [k]) =
      (if x = rid then Some k else checkpoints_for_run x (db_checkpoints d))" for x
    using none r by (auto simp: checkpoints_for_run_def find_append split: option.split)
  show "unique_rows d' \<and> same_elsewhere rid d d' \<and> sn_checkpoint (snapshot_of rid d js) = None \<and>
      snapshot_of rid d' js = (snapshot_of rid d js)\<lparr>sn_checkpoint := Some k\<rparr>"
    using u d' new none r run
    by (auto simp: unique_rows_def same_elsewhere_def snapshot_of_def checkpoints_for_run_def)
qed (auto simp: checkpoints_insert_def split: if_splits)

lemma sp_insert_guard:
  assumes r: "gd_run_id g = rid"
  shows "sp (rid, d0, js0)
     (\<lambda>v. Er Integrity_Error v \<and> (sn_guard v = None \<longrightarrow> Q () (v\<lparr>sn_guard := Some g\<rparr>)))
     (insert_row (\<lambda>d. case guards_insert g (db_guards d) of
        Inl e \<Rightarrow> Inl e | Inr x \<Rightarrow> Inr (d\<lparr>db_guards := x\<rparr>))) Q Er"
proof (rule sp_pre, rule sp_insert_row [where C = "\<lambda>_. True" and free = "\<lambda>v. sn_guard v = None" and
      g = "\<lambda>v. v\<lparr>sn_guard := Some g\<rparr>"])
  fix d d' js
  assume u: "unique_rows d" and i: "(case guards_insert g (db_guards d) of
      Inl e \<Rightarrow> Inl e | Inr x \<Rightarrow> Inr (d\<lparr>db_guards := x\<rparr>)) = Inr d'"
  have new: "\<forall>x \<in> set (db_guards d). gd_guard_id x \<noteq> gd_guard_id g \<and> gd_run_id x \<noteq> rid"
    and d': "d' = d\<lparr>db_guards := db_guards d @ [g]\<rparr>"
    using i r by (auto simp: guards_insert_def list_ex_iff split: if_splits)
  have none: "find (\<lambda>x. gd_run_id x = rid) (db_guards d) = None"
    using new by (simp add: find_None_iff)
  have run: "guards_for_run x (db_guards d @ [g]) =
      (if x = rid then Some g else guards_for_run x (db_guards d))" for x
    using none r by (auto simp: guards_for_run_def find_append split: option.split)
  show "unique_rows d' \<and> same_elsewhere rid d d' \<and> sn_guard (snapshot_of rid d js) = None \<and>
      snapshot_of rid d' js = (snapshot_of rid d js)\<lparr>sn_guard := Some g\<rparr>"
    using u d' new none r run
    by (auto simp: unique_rows_def same_elsewhere_def snapshot_of_def guards_for_run_def)
qed (auto simp: guards_insert_def split: if_splits)

lemma guards_for_run_update:
  assumes "\<And>g. gd_run_id (f g) = gd_run_id g"
  shows "guards_for_run x (guards_update gid f t) =
    map_option (\<lambda>g. if gd_guard_id g = gid then f g else g) (guards_for_run x t)"
  unfolding guards_for_run_def guards_update_def by (rule find_update_where) (simp add: assms)

lemma sp_update_guard:
  assumes f: "\<And>g. gd_guard_id (f g) = gd_guard_id g" "\<And>g. gd_run_id (f g) = gd_run_id g"
  shows "sp (rid, d0, js0)
     (\<lambda>v. map_option gd_guard_id (sn_guard v) = Some gid \<and>
          Q () (v\<lparr>sn_guard := map_option f (sn_guard v)\<rparr>))
     (update_guard gid f) Q Er"
  unfolding update_guard_def
proof (rule sp_modify)
  fix d js
  assume u: "unique_rows d" and c: "map_option gd_guard_id (sn_guard (snapshot_of rid d js)) = Some gid"
  then obtain c where c: "guards_for_run rid (db_guards d) = Some c" "gd_guard_id c = gid"
    by (auto simp: snapshot_of_def)
  have keys: "map gd_guard_id (guards_update gid f t) = map gd_guard_id t"
    "map gd_run_id (guards_update gid f t) = map gd_run_id t" for t
    unfolding guards_update_def using f by (auto intro: map_update_where)
  have other: "guards_for_run x (guards_update gid f (db_guards d)) = guards_for_run x (db_guards d)"
    if x: "x \<noteq> rid" for x
  proof (cases "guards_for_run x (db_guards d)")
    case (Some y)
    have "gd_guard_id y \<noteq> gd_guard_id c"
      using u c(1) Some x unfolding unique_rows_def guards_for_run_def
      by (intro find_other_key [of gd_guard_id _ "\<lambda>c. gd_run_id c = x" _ "\<lambda>c. gd_run_id c = rid"])
         (auto simp: find_Some_iff)
    then show ?thesis using c(2) Some by (simp add: guards_for_run_update f)
  qed (simp add: guards_for_run_update f)
  show "unique_rows (d\<lparr>db_guards := guards_update gid f (db_guards d)\<rparr>) \<and>
      same_elsewhere rid d (d\<lparr>db_guards := guards_update gid f (db_guards d)\<rparr>) \<and>
      snapshot_of rid (d\<lparr>db_guards := guards_update gid f (db_guards d)\<rparr>) js =
      (snapshot_of rid d js)\<lparr>sn_guard := map_option f (sn_guard (snapshot_of rid d js))\<rparr>"
    using u c other by (simp add: unique_rows_def keys same_elsewhere_def snapshot_of_def
        guards_for_run_update f)
qed

lemma sp_guards_get:
  "sp (rid, d0, js0)
     (\<lambda>v. map_option gd_guard_id (sn_guard v) = Some gid \<and> (\<forall>g. sn_guard v = Some g \<longrightarrow> Q g v))
     (bindM (look (\<lambda>d. guards_get gid (db_guards d))) assertM) Q Er"
  unfolding sp_def spec_def
proof (simp, intro allI impI)
  fix s :: "'w engine_state"
  assume h: "holds rid d0 js0 (\<lambda>v. (\<exists>g. sn_guard v = Some g \<and> gd_guard_id g = gid) \<and>
      (\<forall>g. sn_guard v = Some g \<longrightarrow> Q g v)) s"
  then obtain g where g: "guards_for_run rid (db_guards (es_db s)) = Some g" "gd_guard_id g = gid"
    and u: "unique_rows (es_db s)"
    unfolding holds_def by (auto simp: snapshot_of_def)
  have "guards_get gid (db_guards (es_db s)) = Some g"
    using g u unfolding unique_rows_def guards_for_run_def guards_get_def by (intro find_key) auto
  then have "bindM (look (\<lambda>d. guards_get gid (db_guards d))) assertM s = (Inr g, s)"
    by (simp add: bindM_def look_def assertM_def ret_def)
  moreover have "holds rid d0 js0 (Q g) s"
    using h g unfolding holds_def by (auto simp: snapshot_of_def)
  ultimately show "case bindM (look (\<lambda>d. guards_get gid (db_guards d))) assertM s of
      (Inl e, s') \<Rightarrow> holds rid d0 js0 (Er e) s' | (Inr x, s') \<Rightarrow> holds rid d0 js0 (Q x) s'" by simp
qed

lemma locks_acquired:
  assumes "locks_acquire h ob fld rid tm t = (taken, t')"
  shows "\<not> taken \<Longrightarrow> t' = t"
    and "taken \<Longrightarrow> locks_for_run rid t = None"
    and "taken \<Longrightarrow> \<exists>l. wl_object_id l = ob \<and> locks_for_run rid t' = Some l"
    and "taken \<Longrightarrow> x \<noteq> rid \<Longrightarrow> locks_for_run x t' = locks_for_run x t"
    and "taken \<Longrightarrow> distinct (map wl_run_id t) \<Longrightarrow> distinct (map wl_run_id t')"
proof -
  let ?l = "\<lparr>wl_lock_key = write_lock_key h ob fld, wl_host_id = h, wl_object_id = ob,
      wl_field = fld, wl_run_id = rid, wl_acquired_at = tm\<rparr>"
  let ?clash = "list_ex (\<lambda>l. wl_lock_key l = write_lock_key h ob fld \<or> wl_run_id l = rid \<or>
      wl_object_id l = ob \<and> wl_field l = fld) t"
  have r: "taken = (\<not> ?clash)" "t' = (if ?clash then t else t @ [?l])"
    using assms by (auto simp: locks_acquire_def Let_def split: if_splits)
  show "\<not> taken \<Longrightarrow> t' = t" using r by simp
  assume taken
  then have t': "t' = t @ [?l]" and no: "\<forall>l \<in> set t. wl_run_id l \<noteq> rid"
    using r by (auto simp: list_ex_iff)
  then have none: "locks_for_run rid t = None" by (auto simp: locks_for_run_def find_None_iff)
  then show "locks_for_run rid t = None" .
  show "\<exists>l. wl_object_id l = ob \<and> locks_for_run rid t' = Some l"
    using t' none by (simp add: locks_for_run_def find_append)
  show "x \<noteq> rid \<Longrightarrow> locks_for_run x t' = locks_for_run x t"
    using t' by (auto simp: locks_for_run_def find_append split: option.split)
  show "distinct (map wl_run_id t) \<Longrightarrow> distinct (map wl_run_id t')"
    using t' no by auto
qed

lemma sp_acquire_lock:
  assumes "rn_run_id r = rid"
  shows "sp (rid, d0, js0)
     (\<lambda>v. Q False v \<and>
        (\<forall>l. sn_lock v = None \<longrightarrow> wl_object_id l = rn_object_id r \<longrightarrow> Q True (v\<lparr>sn_lock := Some l\<rparr>)))
     (acquire_lock r t) Q Er"
  unfolding acquire_lock_def
proof (rule sp_pre, rule sp_put [where C = "\<lambda>_. True" and
      R = "\<lambda>taken v v'. if taken then sn_lock v = None \<and>
          (\<exists>l. wl_object_id l = rn_object_id r \<and> v' = v\<lparr>sn_lock := Some l\<rparr>) else v' = v"])
  fix d d' x js
  assume u: "unique_rows d"
    and a: "(case locks_acquire (rn_host_id r) (rn_object_id r) (lock_aspect r) (rn_run_id r) t
        (db_locks d) of (taken, l) \<Rightarrow> (taken, d\<lparr>db_locks := l\<rparr>)) = (x, d')"
  obtain t' where t': "locks_acquire (rn_host_id r) (rn_object_id r) (lock_aspect r) (rn_run_id r) t
      (db_locks d) = (x, t')" "d' = d\<lparr>db_locks := t'\<rparr>"
    using a by (auto split: prod.splits)
  show "unique_rows d' \<and> same_elsewhere rid d d' \<and>
      (if x then sn_lock (snapshot_of rid d js) = None \<and>
          (\<exists>l. wl_object_id l = rn_object_id r \<and>
             snapshot_of rid d' js = (snapshot_of rid d js)\<lparr>sn_lock := Some l\<rparr>)
       else snapshot_of rid d' js = snapshot_of rid d js)"
  proof (cases x)
    case True
    then show ?thesis
      using u t' locks_acquired [OF t'(1)] assms
      by (auto simp: unique_rows_def same_elsewhere_def snapshot_of_def)
  next
    case False
    then have "d' = d" using t' locks_acquired(1) [OF t'(1)] by simp
    then show ?thesis using u False by simp
  qed
qed auto

section \<open>Spending a confirmation\<close>

definition spent_by :: "string \<Rightarrow> instant \<Rightarrow> confirmation_record \<Rightarrow> confirmation_record" where
  "spent_by attempt t k = k\<lparr>cn_consumed_at := Some t, cn_consumed_by_attempt_id := Some attempt\<rparr>"

lemma filter_own: "distinct t \<Longrightarrow> k \<in> set t \<Longrightarrow> filter (\<lambda>x. x = k) t = [k]"
  by (induction t) (auto simp: filter_empty_conv)

lemma consume_row:
  assumes u: "distinct (map cn_confirmation_id t)" and k: "k \<in> set t" "cn_confirmation_id k = cid"
  shows "fst (confirmations_consume cid a tm t) = (\<not> cn_consumed k)"
    and "snd (confirmations_consume cid a tm t) =
           update_where (\<lambda>x. x = k \<and> \<not> cn_consumed k) (spent_by a tm) t"
proof -
  have eq: "(cn_confirmation_id x = cid \<and> cn_consumed_at x = None) = (x = k \<and> \<not> cn_consumed k)"
    if "x \<in> set t" for x
    using u k that by (auto simp: distinct_map cn_consumed_def dest: inj_onD)
  have "filter (\<lambda>c. cn_confirmation_id c = cid \<and> cn_consumed_at c = None) t =
      filter (\<lambda>x. x = k \<and> \<not> cn_consumed k) t"
    by (rule filter_cong [OF refl]) (rule eq)
  moreover have "length (filter (\<lambda>x. x = k) t) = 1"
    using k u by (simp add: filter_own distinct_map)
  ultimately show "fst (confirmations_consume cid a tm t) = (\<not> cn_consumed k)"
    by (cases "cn_consumed k") (simp_all add: confirmations_consume_def Let_def)
  show "snd (confirmations_consume cid a tm t) =
      update_where (\<lambda>x. x = k \<and> \<not> cn_consumed k) (spent_by a tm) t"
    unfolding confirmations_consume_def Let_def update_where_def spent_by_def snd_conv
    by (rule map_cong [OF refl], rule if_cong [OF eq refl refl])
qed

text \<open>Spending a one-per-run confirmation changes that row and nothing else a snapshot shows.\<close>

lemma consume_lookup:
  assumes u: "distinct (map cn_confirmation_id t)"
    "distinct (map (\<lambda>c. (cn_run_id c, cn_purpose c))
       (filter (\<lambda>c. cn_purpose c \<noteq> CP_Recovery_Retry) t))"
    and k: "confirmations_for_run rid p t = Some k" "p \<noteq> CP_Recovery_Retry"
    and q: "q \<noteq> CP_Recovery_Retry"
  shows "confirmations_for_run x q (snd (confirmations_consume (cn_confirmation_id k) a tm t)) =
    (if x = rid \<and> q = p then Some (if cn_consumed k then k else spent_by a tm k)
     else confirmations_for_run x q t)"
    and "fst (confirmations_consume (cn_confirmation_id k) a tm t) = (\<not> cn_consumed k)"
    and "distinct (map cn_confirmation_id (snd (confirmations_consume (cn_confirmation_id k) a tm t)))"
    and "distinct (map (\<lambda>c. (cn_run_id c, cn_purpose c))
       (filter (\<lambda>c. cn_purpose c \<noteq> CP_Recovery_Retry)
          (snd (confirmations_consume (cn_confirmation_id k) a tm t))))"
proof -
  let ?t = "snd (confirmations_consume (cn_confirmation_id k) a tm t)"
  have find_k: "find (\<lambda>c. cn_run_id c = rid \<and> cn_purpose c = p) t = Some k"
    using k one_confirmation [OF u(2)] by simp
  then have mem: "k \<in> set t" and kk: "cn_run_id k = rid" "cn_purpose k = p"
    by (auto simp: find_Some_iff)
  note row = consume_row [OF u(1) mem refl, of a tm]
  show "fst (confirmations_consume (cn_confirmation_id k) a tm t) = (\<not> cn_consumed k)"
    by (rule row(1))
  have keys: "map g ?t = map g t" if "\<And>c. g (spent_by a tm c) = g c" for g :: "_ \<Rightarrow> 'b"
    unfolding row(2) by (rule map_update_where) (simp add: that)
  show "distinct (map cn_confirmation_id ?t)"
    using u(1) keys [of cn_confirmation_id] by (simp add: spent_by_def)
  have flt: "filter (\<lambda>c. cn_purpose c \<noteq> CP_Recovery_Retry) (update_where P (spent_by a tm) l) =
      update_where P (spent_by a tm) (filter (\<lambda>c. cn_purpose c \<noteq> CP_Recovery_Retry) l)" for P l
    by (induction l) (auto simp: spent_by_def)
  show d: "distinct (map (\<lambda>c. (cn_run_id c, cn_purpose c))
      (filter (\<lambda>c. cn_purpose c \<noteq> CP_Recovery_Retry) ?t))"
    unfolding row(2) flt using u(2)
    by (subst map_update_where) (simp_all add: spent_by_def)
  have "find (\<lambda>c. cn_run_id c = x \<and> cn_purpose c = q) ?t =
      map_option (\<lambda>c. if c = k \<and> \<not> cn_consumed k then spent_by a tm c else c)
        (find (\<lambda>c. cn_run_id c = x \<and> cn_purpose c = q) t)"
    unfolding row(2) by (rule find_update_where) (simp add: spent_by_def)
  then have look: "confirmations_for_run x q ?t =
      map_option (\<lambda>c. if c = k \<and> \<not> cn_consumed k then spent_by a tm c else c)
        (confirmations_for_run x q t)"
    using one_confirmation [OF d q] one_confirmation [OF u(2) q] by simp
  show "confirmations_for_run x q ?t =
      (if x = rid \<and> q = p then Some (if cn_consumed k then k else spent_by a tm k)
       else confirmations_for_run x q t)"
  proof (cases "x = rid \<and> q = p")
    case True
    then show ?thesis using look k by simp
  next
    case False
    have "c \<noteq> k" if "confirmations_for_run x q t = Some c" for c
      using that False kk one_confirmation [OF u(2) q] by (auto simp: find_Some_iff)
    then show ?thesis using look False by (cases "confirmations_for_run x q t") auto
  qed
qed

lemma sp_consume_apply:
  "sp (rid, d0, js0)
     (\<lambda>v. map_option cn_confirmation_id (sn_apply v) = Some cid \<and>
          (\<forall>k t. sn_apply v = Some k \<longrightarrow>
             Q (\<not> cn_consumed k)
               (v\<lparr>sn_apply := Some (if cn_consumed k then k else spent_by a t k)\<rparr>)))
     (consume E cid a) Q Er"
  unfolding consume_def
proof (rule sp_pre, rule sp_bind)
  fix t
  show "sp (rid, d0, js0)
     (\<lambda>v. map_option cn_confirmation_id (sn_apply v) = Some cid \<and>
        (\<forall>x v'. (\<exists>k. sn_apply v = Some k \<and> x = (\<not> cn_consumed k) \<and>
            v' = v\<lparr>sn_apply := Some (if cn_consumed k then k else spent_by a t k)\<rparr>) \<longrightarrow> Q x v'))
     (put (\<lambda>d. case confirmations_consume cid a t (db_confirmations d) of
        (done, c) \<Rightarrow> (done, d\<lparr>db_confirmations := c\<rparr>))) Q Er"
  proof (rule sp_put)
    fix d d' x js
    assume u: "unique_rows d" and k: "map_option cn_confirmation_id (sn_apply (snapshot_of rid d js)) = Some cid"
      and c: "(case confirmations_consume cid a t (db_confirmations d) of
        (done, c) \<Rightarrow> (done, d\<lparr>db_confirmations := c\<rparr>)) = (x, d')"
    obtain k where k: "confirmations_for_run rid CP_Apply (db_confirmations d) = Some k"
      "cn_confirmation_id k = cid"
      using k by (auto simp: snapshot_of_def)
    have d': "d' = d\<lparr>db_confirmations := snd (confirmations_consume cid a t (db_confirmations d))\<rparr>"
      "x = fst (confirmations_consume cid a t (db_confirmations d))"
      using c by (auto split: prod.splits)
    note look = consume_lookup [OF _ _ k(1), where a = a and tm = t, unfolded k(2)]
    show "unique_rows d' \<and> same_elsewhere rid d d' \<and>
        (\<exists>k. sn_apply (snapshot_of rid d js) = Some k \<and> x = (\<not> cn_consumed k) \<and>
          snapshot_of rid d' js = (snapshot_of rid d js)
            \<lparr>sn_apply := Some (if cn_consumed k then k else spent_by a t k)\<rparr>)"
      using u k look(1) look(2-4) [where q = CP_Apply] d'
      by (simp add: unique_rows_def same_elsewhere_def snapshot_of_def)
  qed
  show "sp (rid, d0, js0)
     (\<lambda>v. \<forall>t. map_option cn_confirmation_id (sn_apply v) = Some cid \<and>
        (\<forall>x v'. (\<exists>k. sn_apply v = Some k \<and> x = (\<not> cn_consumed k) \<and>
            v' = v\<lparr>sn_apply := Some (if cn_consumed k then k else spent_by a t k)\<rparr>) \<longrightarrow> Q x v'))
     (now E)
     (\<lambda>t v. map_option cn_confirmation_id (sn_apply v) = Some cid \<and>
        (\<forall>x v'. (\<exists>k. sn_apply v = Some k \<and> x = (\<not> cn_consumed k) \<and>
            v' = v\<lparr>sn_apply := Some (if cn_consumed k then k else spent_by a t k)\<rparr>) \<longrightarrow> Q x v')) Er"
    by (rule sp_now)
qed auto

lemma sp_spend_apply:
  assumes "rn_run_id r = rid"
  shows "sp (rid, d0, js0)
     (\<lambda>v. case sn_apply v of
        None \<Rightarrow> Er (Refused missing) v
      | Some k \<Rightarrow>
          if cn_consumed k then Er (Refused spent) v
          else if cn_preview_digest k \<noteq> rv_preview_digest (rn_preview r)
          then Er (Refused ''preview_digest_mismatch'') v
          else \<forall>t. Q () (v\<lparr>sn_apply := Some (spent_by a t k)\<rparr>))
     (spend E r CP_Apply a missing spent) Q Er"
  unfolding spend_def assms
  by (rule sp_pre, rule sp_bind, rule sp_option, rule sp_fail, rule sp_then, rule sp_then,
      rule sp_bind, rule sp_then, rule sp_append_event, rule sp_demand, rule sp_consume_apply,
      rule sp_demand, rule sp_demand, rule sp_look_apply)
     (auto split: option.splits)

lemma sp_consume_override:
  "sp (rid, d0, js0)
     (\<lambda>v. map_option cn_confirmation_id (sn_override v) = Some cid \<and>
          (\<forall>k t. sn_override v = Some k \<longrightarrow>
             Q (\<not> cn_consumed k)
               (v\<lparr>sn_override := Some (if cn_consumed k then k else spent_by a t k)\<rparr>)))
     (consume E cid a) Q Er"
  unfolding consume_def
proof (rule sp_pre, rule sp_bind)
  fix t
  show "sp (rid, d0, js0)
     (\<lambda>v. map_option cn_confirmation_id (sn_override v) = Some cid \<and>
        (\<forall>x v'. (\<exists>k. sn_override v = Some k \<and> x = (\<not> cn_consumed k) \<and>
            v' = v\<lparr>sn_override := Some (if cn_consumed k then k else spent_by a t k)\<rparr>) \<longrightarrow> Q x v'))
     (put (\<lambda>d. case confirmations_consume cid a t (db_confirmations d) of
        (done, c) \<Rightarrow> (done, d\<lparr>db_confirmations := c\<rparr>))) Q Er"
  proof (rule sp_put)
    fix d d' x js
    assume u: "unique_rows d" and k: "map_option cn_confirmation_id (sn_override (snapshot_of rid d js)) = Some cid"
      and c: "(case confirmations_consume cid a t (db_confirmations d) of
        (done, c) \<Rightarrow> (done, d\<lparr>db_confirmations := c\<rparr>)) = (x, d')"
    obtain k where k: "confirmations_for_run rid CP_Self_Impact_Override (db_confirmations d) = Some k"
      "cn_confirmation_id k = cid"
      using k by (auto simp: snapshot_of_def)
    have d': "d' = d\<lparr>db_confirmations := snd (confirmations_consume cid a t (db_confirmations d))\<rparr>"
      "x = fst (confirmations_consume cid a t (db_confirmations d))"
      using c by (auto split: prod.splits)
    note look = consume_lookup [OF _ _ k(1), where a = a and tm = t, unfolded k(2)]
    show "unique_rows d' \<and> same_elsewhere rid d d' \<and>
        (\<exists>k. sn_override (snapshot_of rid d js) = Some k \<and> x = (\<not> cn_consumed k) \<and>
          snapshot_of rid d' js = (snapshot_of rid d js)
            \<lparr>sn_override := Some (if cn_consumed k then k else spent_by a t k)\<rparr>)"
      using u k look(1) look(2-4) [where q = CP_Apply] d'
      by (simp add: unique_rows_def same_elsewhere_def snapshot_of_def)
  qed
  show "sp (rid, d0, js0)
     (\<lambda>v. \<forall>t. map_option cn_confirmation_id (sn_override v) = Some cid \<and>
        (\<forall>x v'. (\<exists>k. sn_override v = Some k \<and> x = (\<not> cn_consumed k) \<and>
            v' = v\<lparr>sn_override := Some (if cn_consumed k then k else spent_by a t k)\<rparr>) \<longrightarrow> Q x v'))
     (now E)
     (\<lambda>t v. map_option cn_confirmation_id (sn_override v) = Some cid \<and>
        (\<forall>x v'. (\<exists>k. sn_override v = Some k \<and> x = (\<not> cn_consumed k) \<and>
            v' = v\<lparr>sn_override := Some (if cn_consumed k then k else spent_by a t k)\<rparr>) \<longrightarrow> Q x v')) Er"
    by (rule sp_now)
qed auto

lemma sp_spend_override:
  assumes "rn_run_id r = rid"
  shows "sp (rid, d0, js0)
     (\<lambda>v. case sn_override v of
        None \<Rightarrow> Er (Refused missing) v
      | Some k \<Rightarrow>
          if cn_consumed k then Er (Refused spent) v
          else if cn_preview_digest k \<noteq> rv_preview_digest (rn_preview r)
          then Er (Refused ''preview_digest_mismatch'') v
          else \<forall>t. Q () (v\<lparr>sn_override := Some (spent_by a t k)\<rparr>))
     (spend E r CP_Self_Impact_Override a missing spent) Q Er"
  unfolding spend_def assms
  by (rule sp_pre, rule sp_bind, rule sp_option, rule sp_fail, rule sp_then, rule sp_then,
      rule sp_bind, rule sp_then, rule sp_append_event, rule sp_demand, rule sp_consume_override,
      rule sp_demand, rule sp_demand, rule sp_look_override)
     (auto split: option.splits)

end
