(* ===== verification/Engine_Apply.thy ===== *)
theory Engine_Apply
  imports Engine_Logic
begin

text \<open>
  The specification of \<open>apply\<close> (\<open>src/localplane/backend/changes.py\<close>, \<open>ChangeService.apply\<close>),
  method by method: what each does to the snapshot of its run, and what holds at every commit and
  every mutation on the way.
\<close>

section \<open>A run in flight\<close>

lemma run_moved_simps [simp]:
  "rn_preview (run_moved st eff fin r) = rn_preview r"
  "rn_run_id (run_moved st eff fin r) = rn_run_id r"
  "rn_object_id (run_moved st eff fin r) = rn_object_id r"
  "rn_operation (run_moved st eff fin r) = rn_operation r"
  "rn_state (run_moved st eff fin r) = (case st of None \<Rightarrow> rn_state r | Some x \<Rightarrow> x)"
  "is_guarded (run_moved st eff fin r) = is_guarded r"
  "requires_self_impact_override (run_moved st eff fin r) = requires_self_impact_override r"
  "arms_recovery (run_moved st eff fin r) = arms_recovery r"
  "spent_for (run_moved st eff fin r) k = spent_for r k"
  by (simp_all add: run_moved_def is_guarded_def requires_self_impact_override_def
      arms_recovery_def spent_for_def split: option.splits)

definition authority :: "run_record \<Rightarrow> snapshot \<Rightarrow> bool" where
  "authority r v \<longleftrightarrow> sn_lock v \<noteq> None \<and> spent_for r (sn_apply v) \<and>
     (if requires_self_impact_override r then spent_for r (sn_override v) else True) \<and>
     (if is_guarded r then guard_holds (sn_guard v) else True)"

text \<open>
  \<open>mid\<close>: after the dispatch's outcome \<open>m\<close> is recorded and before an ending is.
\<close>

definition mid ::
  "string \<Rightarrow> mutation_outcome \<Rightarrow> run_guard_record option \<Rightarrow> nat \<Rightarrow> run_record \<Rightarrow> change_record \<Rightarrow>
   snapshot \<Rightarrow> bool" where
  "mid rid m g n r c v \<longleftrightarrow>
     sn_run v = Some r \<and> rn_run_id r = rid \<and> sn_change v = Some c \<and> ch_run_id c = rid \<and>
     sn_guard v = g \<and> authority r v \<and> ch_dispatch_began c \<and>
     ch_mutation_outcome c = Some m \<and> ch_host_effect c = host_effect_for m \<and>
     ch_result c = CR_In_Flight \<and> ch_recovery_reason c = None \<and>
     rn_state r \<notin> set TERMINAL_RUN_STATES \<and>
     length (sn_muts v) = n \<and> n \<in> {1, 2} \<and> rep_outcome (snd (hd (sn_muts v))) = m \<and>
     (if n = 2 then ch_rollback_attempt_id c = Some (mr_attempt_id (fst (sn_muts v ! 1))) else True)"

lemma mid_claimed: "mid rid m g n r c v \<Longrightarrow> claimed m (sn_muts v)"
  unfolding mid_def by (auto intro: claimed_exact)

lemma mid_truthful: "mid rid m g n r c v \<Longrightarrow> truthful v"
  using mid_claimed [of rid m g n r c v]
  unfolding mid_def truthful_def authority_def ended_def holds_lock_def
  by (auto split: option.splits)

text \<open>\<open>final\<close>: the run ended, or is held by its guard.\<close>

definition final ::
  "string \<Rightarrow> run_guard_record option \<Rightarrow> run_record \<Rightarrow> change_record \<Rightarrow> snapshot \<Rightarrow> bool" where
  "final rid g r c v \<longleftrightarrow>
     sn_run v = Some r \<and> rn_run_id r = rid \<and> sn_change v = Some c \<and> ch_run_id c = rid \<and>
     sn_guard v = g \<and> truthful v"

text \<open>Columns that say nothing of the mutation or the ending.\<close>

definition neutral :: "(change_record \<Rightarrow> change_record) \<Rightarrow> bool" where
  "neutral u \<longleftrightarrow> (\<forall>c.
     ch_change_id (u c) = ch_change_id c \<and> ch_run_id (u c) = ch_run_id c \<and>
     ch_change_kind (u c) = ch_change_kind c \<and> ch_value_type (u c) = ch_value_type c \<and>
     ch_execution_correlation (u c) = ch_execution_correlation c \<and>
     ch_before_value (u c) = ch_before_value c \<and> ch_desired_value (u c) = ch_desired_value c \<and>
     ch_dispatch_began_at (u c) = ch_dispatch_began_at c \<and>
     ch_mutation_outcome (u c) = ch_mutation_outcome c \<and>
     ch_mutation_reason (u c) = ch_mutation_reason c \<and> ch_host_effect (u c) = ch_host_effect c \<and>
     ch_result (u c) = ch_result c \<and> ch_recovery_reason (u c) = ch_recovery_reason c)"

definition same_about :: "change_record \<Rightarrow> change_record \<Rightarrow> bool" where
  "same_about c c' \<longleftrightarrow> ch_change_id c' = ch_change_id c \<and>
     ch_change_kind c' = ch_change_kind c \<and> ch_value_type c' = ch_value_type c \<and>
     ch_execution_correlation c' = ch_execution_correlation c \<and>
     ch_before_value c' = ch_before_value c \<and> ch_desired_value c' = ch_desired_value c"

lemma same_about_refl [simp]: "same_about c c" by (simp add: same_about_def)

lemma same_about_trans: "same_about a b \<Longrightarrow> same_about b c \<Longrightarrow> same_about a c"
  by (simp add: same_about_def)

lemma neutral_same_about: "neutral u \<Longrightarrow> same_about c (u c)"
  by (simp add: neutral_def same_about_def)

lemma mid_effect:
  assumes m: "mid rid m g n r c v" and u: "neutral u"
    and n: "n = 2 \<Longrightarrow> ch_rollback_attempt_id (u c) = ch_rollback_attempt_id c"
    and st: "\<And>x. st = Some x \<Longrightarrow> x \<notin> set TERMINAL_RUN_STATES"
  shows "mid rid m g n (run_moved st None None r) (u c) (step_effect st None None (Some u) False v)"
  using m u n st unfolding mid_def neutral_def authority_def step_effect_def
  by (auto simp: ch_dispatch_began_def split: option.splits)

lemma mid_effect_none:
  assumes m: "mid rid m g n r c v"
    and st: "\<And>x. st = Some x \<Longrightarrow> x \<notin> set TERMINAL_RUN_STATES"
  shows "mid rid m g n (run_moved st None None r) c (step_effect st None None None False v)"
  using m st unfolding mid_def authority_def step_effect_def
  by (auto simp: ch_dispatch_began_def split: option.splits)

lemma sp_mid_mark:
  assumes c: "cid = ch_change_id c"
    and st: "\<And>x. st = Some x \<Longrightarrow> x \<notin> set TERMINAL_RUN_STATES"
  shows "sp (rid, d0, js0)
     (\<lambda>v. mid rid m g n r c v \<and>
        (\<forall>v'. mid rid m g n (run_moved st None None r) c v' \<longrightarrow> sn_muts v' = sn_muts v \<longrightarrow> Q () v'))
     (step E rid ev (Some cid) st sf None False None False) Q Er"
proof (rule sp_pre, rule sp_step)
  fix v
  assume h: "mid rid m g n r c v \<and>
      (\<forall>v'. mid rid m g n (run_moved st None None r) c v' \<longrightarrow> sn_muts v' = sn_muts v \<longrightarrow> Q () v')"
  have e: "mid rid m g n (run_moved st None None r) c (step_effect st None None None False v)"
    using mid_effect_none [OF conjunct1 [OF h] st] .
  have "sn_muts (step_effect st None None None False v) = sn_muts v"
    by (simp add: step_effect_def)
  then show "sn_run v \<noteq> None \<and>
      (None \<noteq> None \<longrightarrow> map_option ch_change_id (sn_change v) = Some cid \<and> Some cid \<noteq> None) \<and>
      (\<forall>t. let v' = step_effect st None (if False then Some t else None)
                      (map_option (\<lambda>u. u t) None) False v in truthful v' \<and> Q () v')"
    using h e mid_truthful [OF e] c by (auto simp: mid_def Let_def)
qed (simp add: keeps_keys_def)

section \<open>Endings\<close>

definition ending_ok ::
  "mutation_outcome \<Rightarrow> run_guard_record option \<Rightarrow> run_record \<Rightarrow> change_record \<Rightarrow> run_state \<Rightarrow>
   change_result \<Rightarrow> recovery_reason option \<Rightarrow> bool" where
  "ending_ok m g r c st res recovery \<longleftrightarrow>
     (case res of
        CR_In_Flight \<Rightarrow> False
      | CR_Failed \<Rightarrow> st = RS_Failed \<and> recovery = None \<and> m = MO_Not_Written
      | CR_Succeeded \<Rightarrow> st = RS_Succeeded \<and> recovery = None \<and> m = MO_Written \<and>
          ch_verification_outcome c = VO_Verified \<and> (is_guarded r \<longrightarrow> guard_kept g)
      | CR_Rolled_Back \<Rightarrow> st = RS_Rolled_Back \<and> recovery = None \<and> ch_rollback_required c \<and>
          ch_rollback_verification_outcome c = VO_Verified
      | CR_Recovery_Required \<Rightarrow> st = RS_Recovery_Required \<and> recovery \<noteq> None)"

definition ended_from ::
  "string \<Rightarrow> mutation_outcome \<Rightarrow> run_guard_record option \<Rightarrow> run_record \<Rightarrow> change_record \<Rightarrow>
   (mutation_request \<times> mutation_report) list \<Rightarrow> change_result \<Rightarrow> run_record \<Rightarrow> change_record \<Rightarrow>
   snapshot \<Rightarrow> bool" where
  "ended_from rid m g r c ms res r' c' v' \<longleftrightarrow>
     final rid g r' c' v' \<and> rn_preview r' = rn_preview r \<and> same_about c c' \<and>
     ch_mutation_outcome c' = Some m \<and> ch_result c' = res \<and> sn_muts v' = ms"

lemma sp_finish:
  assumes i: "rn_run_id r1 = rid" "ch_change_id c1 = ch_change_id c"
    and ok: "ending_ok m g r c st res recovery"
  shows "sp (rid, d0, js0)
     (\<lambda>v. mid rid m g n r c v \<and>
        (\<forall>r' c' v'. ended_from rid m g r c (sn_muts v) res r' c' v' \<longrightarrow> Q (r', c') v'))
     (finish E r1 c1 st res recovery) Q Er"
proof -
  let ?u = "\<lambda>t c. c\<lparr>ch_result := res, ch_recovery_reason := recovery, ch_finished_at := Some (t :: instant)\<rparr>"
  let ?v = "\<lambda>t v. step_effect (Some st) (Some (host_effect_for m)) (Some t) (Some (?u t)) (recovery = None) v"
  have eff: "truthful (?v t v) \<and> ended_from rid m g r c (sn_muts v) res
      (run_moved (Some st) (Some (host_effect_for m)) (Some t) r) (?u t c) (?v t v) \<and>
      sn_run (?v t v) = Some (run_moved (Some st) (Some (host_effect_for m)) (Some t) r) \<and>
      sn_change (?v t v) = Some (?u t c)"
    if h: "mid rid m g n r c v" for t v
  proof -
    have tr: "truthful (?v t v)"
      using h ok mid_claimed [OF h] unfolding mid_def truthful_def step_effect_def ending_ok_def ended_def holds_lock_def
        authority_def
      by (cases res) (auto simp: ch_dispatch_began_def TERMINAL_RUN_STATES_def split: option.splits)
    then show ?thesis
      using h unfolding ended_from_def final_def mid_def same_about_def by (simp add: step_effect_def)
  qed
  show ?thesis
    unfolding finish_def i
    by (rule sp_pre, rule sp_bind, rule sp_then, rule sp_reread_both, rule sp_step,
        simp add: keeps_keys_def, rule sp_require_change)
       (use eff in \<open>auto simp: mid_def Let_def\<close>)
qed

lemma sp_recover:
  assumes i: "rn_run_id r1 = rid" "ch_change_id c1 = ch_change_id c"
  shows "sp (rid, d0, js0)
     (\<lambda>v. mid rid m g n r c v \<and>
        (\<forall>r' c' v'. ended_from rid m g r c (sn_muts v) CR_Recovery_Required r' c' v' \<longrightarrow> Q (r', c') v'))
     (recover E r1 c1 reason) Q Er"
  unfolding recover_def i
  by (rule sp_pre, rule sp_then,
      rule sp_finish [where r = "run_moved None None None r" and c = c and m = m and g = g and n = n],
      rule i, rule i, simp add: ending_ok_def, rule sp_mid_mark [where st = None], simp, simp)
     (auto simp: ended_from_def)

lemma sp_read_back:
  "sp K (\<lambda>v. (\<forall>rb. Q rb v) \<and> Er (Raised (AssertionError [])) v) (read_back E r x ex) Q Er"
  unfolding read_back_def Let_def
  by (rule sp_pre, rule sp_bind, rule sp_bind, rule sp_if, rule sp_ret, rule sp_bind, rule sp_if,
      rule sp_ret, rule sp_ret, rule sp_assert, rule sp_option, rule sp_ret, rule sp_ask, rule sp_world)
     (auto split: option.splits)

section \<open>Forwards\<close>

text \<open>
  The rules read forwards: from what holds before a method to what holds after it. \<open>flying\<close> is
  \<open>mid\<close> of some run with the preview \<open>p\<close>; \<open>quiet\<close> is what a refusal leaves: no change, no
  mutation, no lock.
\<close>

definition quiet :: "engine_error \<Rightarrow> snapshot \<Rightarrow> bool" where
  "quiet e v \<longleftrightarrow> (is_refusal e \<longrightarrow> sn_change v = None \<and> sn_muts v = [] \<and> sn_lock v = None)"

lemma quiet_other [simp]: "\<not> is_refusal e \<Longrightarrow> quiet e v"
  by (simp add: quiet_def)

lemma is_refusal_simps [simp]:
  "is_refusal (Refused c)" "\<not> is_refusal (Execution_Refused c)" "\<not> is_refusal Integrity_Error"
  "\<not> is_refusal (Raised e)"
  by (simp_all add: is_refusal_def)

definition flying ::
  "string \<Rightarrow> run_preview \<Rightarrow> mutation_outcome \<Rightarrow> run_guard_record option \<Rightarrow> nat \<Rightarrow> change_record \<Rightarrow>
   snapshot \<Rightarrow> bool" where
  "flying rid p m g n c v \<longleftrightarrow> (\<exists>r. mid rid m g n r c v \<and> rn_preview r = p)"

lemma bind_fwd:
  "sp K P m R Er \<Longrightarrow> (\<And>x. sp K (R x) (f x) Q Er) \<Longrightarrow> sp K P (bindM m f) Q Er"
  by (rule sp_bind)

lemma then_fwd: "sp K P m (\<lambda>_. R) Er \<Longrightarrow> sp K R n Q Er \<Longrightarrow> sp K P (thenM m n) Q Er"
  by (rule sp_then)

lemma holds_ex: "holds rid d0 js0 (\<lambda>v. \<exists>t. P t v) s \<longleftrightarrow> (\<exists>t. holds rid d0 js0 (P t) s)"
  unfolding holds_def by blast

lemma sp_ex:
  assumes "\<And>t. sp K (P t) m Q Er"
  shows "sp K (\<lambda>v. \<exists>t. P t v) m Q Er"
proof (cases K)
  case (fields rid d0 js0)
  have "case m s of (Inl e, s') \<Rightarrow> holds rid d0 js0 (Er e) s' | (Inr x, s') \<Rightarrow> holds rid d0 js0 (Q x) s'"
    if "holds rid d0 js0 (\<lambda>v. \<exists>t. P t v) s" for s
  proof -
    obtain t where "holds rid d0 js0 (P t) s" using \<open>holds rid d0 js0 (\<lambda>v. \<exists>t. P t v) s\<close>
      unfolding holds_ex by blast
    then show ?thesis using assms [of t] fields by (simp add: sp_def spec_def)
  qed
  then show ?thesis using fields by (simp add: sp_def spec_def)
qed

lemma sp_conj: "(b \<Longrightarrow> sp K P m Q Er) \<Longrightarrow> sp K (\<lambda>v. b \<and> P v) m Q Er"
  by (cases b) (simp_all add: sp_def spec_def holds_def split: prod.splits)

lemma if_fwd:
  "(b \<Longrightarrow> sp K P m Q Er) \<Longrightarrow> (\<not> b \<Longrightarrow> sp K P n Q Er) \<Longrightarrow> sp K P (if b then m else n) Q Er"
  by simp

lemma option_fwd:
  "(z = None \<Longrightarrow> sp K P m Q Er) \<Longrightarrow> (\<And>y. z = Some y \<Longrightarrow> sp K P (f y) Q Er) \<Longrightarrow>
   sp K P (case z of None \<Rightarrow> m | Some y \<Rightarrow> f y) Q Er"
  by (cases z) simp_all

lemma prod_fwd:
  "(\<And>a b. z = (a, b) \<Longrightarrow> sp K P (f a b) Q Er) \<Longrightarrow> sp K P (case z of (a, b) \<Rightarrow> f a b) Q Er"
  by (cases z) simp

lemma ret_fwd: "(\<And>v. P v \<Longrightarrow> Q x v) \<Longrightarrow> sp K P (ret x) Q Er"
  by (rule sp_pre, rule sp_ret)

lemma flyingI: "mid rid m g n r c v \<Longrightarrow> rn_preview r = p \<Longrightarrow> flying rid p m g n c v"
  unfolding flying_def by blast

lemma flying_moved:
  "mid rid m g n (run_moved st eff fin r) c v \<Longrightarrow> rn_preview r = p \<Longrightarrow> flying rid p m g n c v"
  by (erule flyingI) simp

lemma flying_ex: "flying rid p m g n c = (\<lambda>v. \<exists>r. rn_preview r = p \<and> mid rid m g n r c v)"
  by (auto simp: flying_def fun_eq_iff)

definition live_state :: "run_state option \<Rightarrow> bool" where
  "live_state st \<longleftrightarrow> (case st of None \<Rightarrow> True | Some x \<Rightarrow> x \<notin> set TERMINAL_RUN_STATES)"

text \<open>
  What a property of a change in flight must satisfy for the methods between the dispatch and the
  ending to keep it. \<open>n\<close> counts the mutations: once the roll back was sent its attempt is fixed.
\<close>

locale in_flight =
  fixes rid :: string and p :: run_preview and n :: nat
    and F :: "change_record \<Rightarrow> snapshot \<Rightarrow> bool"
  assumes sees: "F c v \<Longrightarrow> sn_change v = Some c \<and>
      (\<exists>r. sn_run v = Some r \<and> rn_run_id r = rid \<and> rn_preview r = p)"
    and tells: "F c v \<Longrightarrow> truthful v"
    and moved: "F c v \<Longrightarrow> live_state st \<Longrightarrow> neutral u \<Longrightarrow>
      (n = 2 \<longrightarrow> ch_rollback_attempt_id (u c) = ch_rollback_attempt_id c) \<Longrightarrow>
      F (u c) (step_effect st None None (Some u) False v)"
    and marked: "F c v \<Longrightarrow> live_state st \<Longrightarrow> F c (step_effect st None None None False v)"
begin

lemma step_fwd:
  assumes "cid = ch_change_id c" "\<And>t. neutral (u t)"
    and "\<And>t. n = 2 \<Longrightarrow> ch_rollback_attempt_id (u t c) = ch_rollback_attempt_id c"
    and "live_state st"
  shows "sp (rid, d0, js0) (F c) (step E rid ev (Some cid) st sf None False (Some u) False)
     (\<lambda>_ v. \<exists>t. F (u t c) v) Er"
proof (rule sp_pre, rule sp_step)
  fix v assume v: "F c v"
  have e: "F (u t c) (step_effect st None None (Some (u t)) False v)" for t
    using moved [OF v assms(4,2)] assms(3) by blast
  then show "sn_run v \<noteq> None \<and>
      (Some u \<noteq> None \<longrightarrow> map_option ch_change_id (sn_change v) = Some cid \<and> Some cid \<noteq> None) \<and>
      (\<forall>t. let v' = step_effect st None (if False then Some t else None)
                      (map_option (\<lambda>u. u t) (Some u)) False v in truthful v' \<and> (\<exists>t. F (u t c) v'))"
    using sees [OF v] tells [OF e] assms(1) by (auto simp: Let_def)
qed (use assms(2) in \<open>simp add: neutral_def keeps_keys_def\<close>)

lemma mark_fwd:
  assumes "cid = ch_change_id c" "live_state st"
  shows "sp (rid, d0, js0) (F c) (step E rid ev (Some cid) st sf None False None False) (\<lambda>_. F c) Er"
proof (rule sp_pre, rule sp_step)
  fix v assume v: "F c v"
  have e: "F c (step_effect st None None None False v)" using marked [OF v assms(2)] .
  then show "sn_run v \<noteq> None \<and>
      (None \<noteq> None \<longrightarrow> map_option ch_change_id (sn_change v) = Some cid \<and> Some cid \<noteq> None) \<and>
      (\<forall>t. let v' = step_effect st None (if False then Some t else None)
                      (map_option (\<lambda>u. u t) None) False v in truthful v' \<and> F c v')"
    using sees [OF v] tells [OF e] by (auto simp: Let_def)
qed (simp add: keeps_keys_def)

lemma reread_fwd:
  "sp (rid, d0, js0) (F c) (reread rid) (\<lambda>r v. (rn_run_id r = rid \<and> rn_preview r = p) \<and> F c v) Er"
  by (rule sp_pre, rule sp_reread) (frule sees, auto)

lemma require_change_fwd:
  "cid = ch_change_id c \<Longrightarrow> sp (rid, d0, js0) (F c) (require_change cid) (\<lambda>c' v. c' = c \<and> F c v) Er"
  by (rule sp_pre, rule sp_require_change) (frule sees, auto)

lemma reread_both_fwd:
  "cid = ch_change_id c \<Longrightarrow> sp (rid, d0, js0) (F c) (reread_both rid cid)
     (\<lambda>z v. (rn_run_id (fst z) = rid \<and> rn_preview (fst z) = p \<and> snd z = c) \<and> F c v) Er"
  by (rule sp_pre, rule sp_reread_both) (frule sees, auto)

end

lemma flying_moved_effect:
  assumes "flying rid p m g n c v" "live_state st" "neutral u"
    "n = 2 \<longrightarrow> ch_rollback_attempt_id (u c) = ch_rollback_attempt_id c"
  shows "flying rid p m g n (u c) (step_effect st None None (Some u) False v)"
proof -
  obtain r where r: "mid rid m g n r c v" "rn_preview r = p" using assms(1) by (auto simp: flying_def)
  have "mid rid m g n (run_moved st None None r) (u c) (step_effect st None None (Some u) False v)"
    by (rule mid_effect [OF r(1) assms(3)])
       (use assms(2,4) in \<open>auto simp: live_state_def split: option.splits\<close>)
  then show ?thesis by (rule flying_moved) (rule r)
qed

lemma flying_marked_effect:
  assumes "flying rid p m g n c v" "live_state st"
  shows "flying rid p m g n c (step_effect st None None None False v)"
proof -
  obtain r where r: "mid rid m g n r c v" "rn_preview r = p" using assms(1) by (auto simp: flying_def)
  have "mid rid m g n (run_moved st None None r) c (step_effect st None None None False v)"
    by (rule mid_effect_none [OF r(1)])
       (use assms(2) in \<open>auto simp: live_state_def split: option.splits\<close>)
  then show ?thesis by (rule flying_moved) (rule r)
qed

interpretation flying: in_flight rid p n "flying rid p m g n" for rid p m g n
proof unfold_locales
  show "sn_change v = Some c \<and> (\<exists>r. sn_run v = Some r \<and> rn_run_id r = rid \<and> rn_preview r = p)"
    if "flying rid p m g n c v" for c v
    using that by (auto simp: flying_def mid_def)
  show "truthful v" if "flying rid p m g n c v" for c v
    using that mid_truthful by (auto simp: flying_def)
qed (rule flying_moved_effect flying_marked_effect; assumption)+

definition sound :: "(engine_error \<Rightarrow> snapshot \<Rightarrow> bool) \<Rightarrow> bool" where
  "sound Er \<longleftrightarrow> (\<forall>e v. \<not> is_refusal e \<longrightarrow> Er e v)"

lemma sound_quiet: "sound quiet"
  and sound_other: "sound (\<lambda>e _. \<not> is_refusal e)"
  by (simp_all add: sound_def)

lemma read_back_sound: "sound Er \<Longrightarrow> sp K P (read_back E r x ex) (\<lambda>_. P) Er"
  by (rule sp_pre, rule sp_read_back) (simp add: sound_def)

lemmas read_back_fwd = read_back_sound [OF sound_quiet]

lemma new_id_fwd: "sp K P (new_id E i) (\<lambda>_. P) Er"
  by (rule sp_pre, rule sp_new_id) simp

lemma now_fwd: "sp K P (now E) (\<lambda>_. P) Er"
  by (rule sp_pre, rule sp_now) simp

lemma lift_sound:
  "sound Er \<Longrightarrow> (\<And>e. z = Inl e \<Longrightarrow> \<not> is_refusal e) \<Longrightarrow>
   sp K P (lift z) (\<lambda>x v. z = Inr x \<and> P v) Er"
  by (rule sp_pre, rule sp_lift) (auto simp: sound_def split: sum.split)

lemma assert_sound: "sound Er \<Longrightarrow> sp K P (assertM z) (\<lambda>x v. z = Some x \<and> P v) Er"
  by (rule sp_pre, rule sp_assert) (auto simp: sound_def split: option.split)

lemmas lift_fwd = lift_sound [OF sound_quiet]
lemmas assert_fwd = assert_sound [OF sound_quiet]

text \<open>How a method in flight ends.\<close>

definition landed ::
  "string \<Rightarrow> run_preview \<Rightarrow> mutation_outcome \<Rightarrow> run_guard_record option \<Rightarrow> change_record \<Rightarrow>
   change_result set \<Rightarrow> run_record \<times> change_record \<Rightarrow> snapshot \<Rightarrow> bool" where
  "landed rid p m g c R z v \<longleftrightarrow>
     final rid g (fst z) (snd z) v \<and> rn_preview (fst z) = p \<and> same_about c (snd z) \<and>
     ch_mutation_outcome (snd z) = Some m \<and> ch_result (snd z) \<in> R"

lemma finish_fwd:
  assumes "rn_run_id r1 = rid" "ch_change_id c1 = ch_change_id c"
    and "\<And>r. rn_preview r = p \<Longrightarrow> ending_ok m g r c st res recovery"
  shows "sp (rid, d0, js0) (flying rid p m g n c) (finish E r1 c1 st res recovery)
     (landed rid p m g c {res}) Er"
proof (subst flying_ex, intro sp_ex sp_conj, rule sp_pre, rule sp_finish)
  show "mid rid m g n r c v \<and> (\<forall>r' c' v'. ended_from rid m g r c (sn_muts v) res r' c' v' \<longrightarrow>
      landed rid p m g c {res} (r', c') v')"
    if "rn_preview r = p" "mid rid m g n r c v" for r v
    using that by (auto simp: ended_from_def landed_def)
qed (use assms in auto)

lemma recover_fwd:
  assumes "rn_run_id r1 = rid" "ch_change_id c1 = ch_change_id c"
  shows "sp (rid, d0, js0) (flying rid p m g n c) (recover E r1 c1 reason)
     (landed rid p m g c {CR_Recovery_Required}) Er"
proof (subst flying_ex, intro sp_ex sp_conj, rule sp_pre, rule sp_recover)
  show "mid rid m g n r c v \<and> (\<forall>r' c' v'.
      ended_from rid m g r c (sn_muts v) CR_Recovery_Required r' c' v' \<longrightarrow>
      landed rid p m g c {CR_Recovery_Required} (r', c') v')"
    if "rn_preview r = p" "mid rid m g n r c v" for r v
    using that by (auto simp: ended_from_def landed_def)
qed (use assms in auto)

lemma landed_mono:
  "landed rid p m g c R z v \<Longrightarrow> R \<subseteq> R' \<Longrightarrow> same_about c0 c \<Longrightarrow> landed rid p m g c0 R' z v"
  unfolding landed_def by (auto intro: same_about_trans)

lemma landed_post:
  "sp K P m' (landed rid p m g c R) Er \<Longrightarrow> R \<subseteq> R' \<Longrightarrow> same_about c0 c \<Longrightarrow>
   sp K P m' (landed rid p m g c0 R') Er"
  by (erule sp_weaken) (auto intro: landed_mono)

section \<open>Rolling back\<close>

lemma mutate_back_fwd:
  assumes "rv_change_kind p = CHANGE_KIND_FIELD" "m \<noteq> MO_Not_Written"
    "mr_correlation q = ch_execution_correlation c" "mr_desired q = ch_before_value c"
    "ch_rollback_attempt_id c = Some (mr_attempt_id q)"
  shows "sp (rid, d0, js0) (flying rid p m g 1 c) (ask_mutate x q)
     (\<lambda>rep. flying rid p m g 2 c) Er"
proof (rule sp_pre, rule sp_ask_mutate)
  fix v
  assume "flying rid p m g 1 c v"
  then obtain r where r: "mid rid m g 1 r c v" "rn_preview r = p" by (auto simp: flying_def)
  have "authorised v q"
    using r assms unfolding mid_def authorised_def authority_def
    by (cases m) (auto simp: arms_recovery_def)
  moreover have "mid rid m g 2 r c (v\<lparr>sn_muts := sn_muts v @ [(q, rep)]\<rparr>)" for rep
    using r assms unfolding mid_def authority_def by (auto simp: length_Suc_conv)
  ultimately show "truthful v \<and> authorised v q \<and>
      (\<forall>rep. flying rid p m g 2 c (v\<lparr>sn_muts := sn_muts v @ [(q, rep)]\<rparr>))"
    using r(2) mid_truthful [OF r(1)] by (auto intro: flyingI)
qed

lemma typed_column_error: "typed_column vt v = Inl e \<Longrightarrow> \<not> is_refusal e"
  by (auto simp: typed_column_def split: option.splits)

lemma required_column_error: "required_column vt v = Inl e \<Longrightarrow> \<not> is_refusal e"
  by (auto simp: required_column_def split: option.splits)

lemma rollback_columns:
  assumes "rollback_verification_columns c read = z"
  shows "z = Inl e \<Longrightarrow> \<not> is_refusal e"
    and "z = Inr u \<Longrightarrow> neutral u"
    and "z = Inr u \<Longrightarrow> ch_rollback_attempt_id (u c') = ch_rollback_attempt_id c'"
    and "z = Inr u \<Longrightarrow> ch_rollback_required (u c') = ch_rollback_required c'"
    and "z = Inr u \<Longrightarrow> ch_rollback_verification_outcome (u c') = rb_outcome read"
  using assms by (auto simp: rollback_verification_columns_def bindE_def neutral_def
      typed_column_error split: sum.splits)

lemma landed_from:
  "sp K P m' (landed rid p m g c R) Er \<Longrightarrow> R \<subseteq> R' \<and> same_about c0 c \<Longrightarrow>
   sp K P m' (landed rid p m g c0 R') Er"
  by (blast intro: landed_post)

named_theorems step_simps \<open>what discharges the side conditions of a step\<close>

lemmas [step_simps] = neutral_def live_state_def TERMINAL_RUN_STATES_def same_about_def

context in_flight begin

lemma prove_restored_fwd:
  assumes "cid = ch_change_id c" "sound Er"
  shows "sp (rid, d0, js0) (F c) (prove_restored E rid c st_from x)
     (\<lambda>z v. \<exists>c'. (rn_run_id (fst (fst z)) = rid \<and> snd (fst z) = c' \<and> same_about c c' \<and>
          ch_rollback_required c' = ch_rollback_required c \<and>
          ch_rollback_verification_outcome c' = rb_outcome (snd z)) \<and>
        F c' v) Er"
  unfolding prove_restored_def
  apply (rule then_fwd, (rule mark_fwd; simp add: step_simps assms)[1])
  apply (rule bind_fwd, rule reread_fwd, rule sp_conj)
  apply (rule bind_fwd, rule read_back_sound, rule assms)
  apply (rule bind_fwd, rule lift_sound, rule assms)
   apply (erule rollback_columns(1), simp)
  apply (rule sp_conj)
  apply (frule rollback_columns(2) [OF refl])
  apply (rule then_fwd, (rule step_fwd; simp add: live_state_def assms(1) rollback_columns(3) [OF refl])[1])
  apply (rule sp_ex, rule bind_fwd, rule reread_both_fwd, simp add: neutral_def assms(1))
  apply (rule ret_fwd)
  apply (auto simp: neutral_same_about rollback_columns(4,5) [OF refl])
  done

end

lemma roll_back_fwd:
  assumes "rn_run_id r0 = rid" "rv_change_kind p = CHANGE_KIND_FIELD" "m \<noteq> MO_Not_Written"
    "ch_before_value c = Some (ck_before_value k)"
  shows "sp (rid, d0, js0) (flying rid p m g 1 c) (roll_back E r0 c k x)
     (landed rid p m g c {CR_Rolled_Back, CR_Recovery_Required}) quiet"
  unfolding roll_back_def Let_def assms(1)
  apply (rule then_fwd, (rule flying.step_fwd; simp add: step_simps)[1])
  apply (rule sp_ex, rule bind_fwd, rule flying.reread_fwd, rule sp_conj)
  apply (rule bind_fwd, rule read_back_fwd)
  apply (rule option_fwd)
   apply (rule landed_from, (rule recover_fwd; simp add: step_simps)[1], simp add: step_simps)
  apply (rule bind_fwd, rule new_id_fwd)
  apply (rule then_fwd, (rule flying.step_fwd; simp add: step_simps)[1])
  apply (rule sp_ex, rule bind_fwd, (rule mutate_back_fwd; simp add: assms rollback_request_def)[1])
  apply (rule then_fwd, (rule flying.step_fwd; simp add: step_simps)[1])
  apply (rule sp_ex, rule bind_fwd, rule flying.require_change_fwd, simp)
  apply (rule sp_conj, hypsubst, rule if_fwd)
   apply (rule landed_from, (rule recover_fwd; simp add: step_simps)[1], simp add: step_simps)
  apply (rule bind_fwd, rule flying.prove_restored_fwd, rule refl, rule sound_quiet)
  apply (rule sp_ex, rule sp_conj, simp only: case_prod_beta, rule if_fwd)
   apply (rule landed_from, (rule finish_fwd; simp add: step_simps ending_ok_def vo_proved_def)[1], simp add: step_simps)
  apply (rule landed_from, (rule recover_fwd; simp add: step_simps)[1], simp add: step_simps)
  done

section \<open>Verifying, holding, releasing\<close>

lemma verification_columns_facts:
  assumes "verification_columns c read = z"
  shows "z = Inl e \<Longrightarrow> \<not> is_refusal e"
    and "z = Inr u \<Longrightarrow> neutral u"
    and "z = Inr u \<Longrightarrow> ch_rollback_attempt_id (u c') = ch_rollback_attempt_id c'"
    and "z = Inr u \<Longrightarrow> ch_verification_outcome (u c') = rb_outcome read"
  using assms by (auto simp: verification_columns_def bindE_def neutral_def
      typed_column_error split: sum.splits)

lemma verify_fwd:
  assumes "rn_run_id r = rid"
  shows "sp (rid, d0, js0) (flying rid p m g n c) (verify E r c x)
     (\<lambda>z v. \<exists>c'. (rn_run_id (fst (fst z)) = rid \<and> snd (fst z) = c' \<and> same_about c c' \<and>
          ch_verification_outcome c' = rb_outcome (snd z)) \<and>
        flying rid p m g n c' v) quiet"
  unfolding verify_def assms
  apply (rule then_fwd, (rule flying.mark_fwd; simp add: step_simps)[1])
  apply (rule bind_fwd, rule read_back_fwd)
  apply (rule bind_fwd, rule lift_fwd)
   apply (erule verification_columns_facts(1), simp)
  apply (rule sp_conj)
  apply (frule verification_columns_facts(2) [OF refl])
  apply (rule then_fwd,
      (rule flying.step_fwd; simp add: live_state_def verification_columns_facts(3) [OF refl])[1])
  apply (rule sp_ex, rule bind_fwd, rule flying.reread_both_fwd, simp add: neutral_def)
  apply (rule ret_fwd)
  apply (auto simp: neutral_same_about verification_columns_facts(4) [OF refl])
  done

lemma sp_record_guard_settlement:
  assumes "rn_run_id r = rid"
  shows "sp (rid, d0, js0)
     (\<lambda>v. map_option gd_guard_id (sn_guard v) = Some (gd_guard_id gd) \<and>
        (\<forall>t. truthful (v\<lparr>sn_guard := map_option (settled_columns (ev_text E t) rep reason t) (sn_guard v)\<rparr>) \<and>
           Q () (v\<lparr>sn_guard := map_option (settled_columns (ev_text E t) rep reason t) (sn_guard v)\<rparr>)))
     (record_guard_settlement E r gd rep reason cid) Q Er"
proof -
  have keys: "gd_guard_id (settled_columns a rep reason t g) = gd_guard_id g"
    "gd_run_id (settled_columns a rep reason t g) = gd_run_id g" for a t g
    by (simp_all add: settled_columns_def fired_columns_def)
  show ?thesis
    unfolding record_guard_settlement_def assms
    by (rule sp_pre, rule sp_bind, rule sp_transaction, rule sp_then, rule sp_append_event,
        rule sp_update_guard, rule keys, rule keys, rule sp_now) simp
qed

text \<open>What the guard's row says does not matter to a change that did not succeed.\<close>

lemma truthful_guard:
  assumes "truthful v" "sn_change v = Some c" "ch_result c \<noteq> CR_Succeeded"
  shows "truthful (v\<lparr>sn_guard := g\<rparr>)"
  using assms unfolding truthful_def by (simp split: option.splits)

lemma release_guard_fwd:
  assumes "rn_run_id r = rid" "CR_Succeeded \<notin> R" "guard \<noteq> None \<longrightarrow> g = guard"
  shows "sp (rid, d0, js0) (landed rid p m g c R z) (release_guard E r guard x reason cid)
     (\<lambda>_ v. \<exists>g'. landed rid p m g' c R z v) Er"
proof (cases guard)
  case None
  then show ?thesis by (simp add: release_guard_def) (rule ret_fwd, blast)
next
  case (Some gd)
  show ?thesis
    unfolding release_guard_def Some option.case
  proof (rule sp_pre, rule sp_bind, rule sp_then, rule sp_ret, rule sp_record_guard_settlement,
      rule assms(1), rule sp_ask_guard(1))
    fix v
    assume l: "landed rid p m g c R z v"
    then have v: "sn_change v = Some (snd z)" "ch_result (snd z) \<noteq> CR_Succeeded" "truthful v"
      "sn_guard v = Some gd"
      using assms Some by (auto simp: landed_def final_def)
    have "landed rid p m (map_option f g) c R z (v\<lparr>sn_guard := map_option f (sn_guard v)\<rparr>)" for f
      using l truthful_guard [OF v(3,1,2)] by (simp add: landed_def final_def)
    then show "\<forall>rep. map_option gd_guard_id (sn_guard v) = Some (gd_guard_id gd) \<and>
        (\<forall>t. truthful (v\<lparr>sn_guard := map_option (settled_columns (ev_text E t) rep reason t) (sn_guard v)\<rparr>) \<and>
           (\<exists>g'. landed rid p m g' c R z
              (v\<lparr>sn_guard := map_option (settled_columns (ev_text E t) rep reason t) (sn_guard v)\<rparr>)))"
      using v truthful_guard [OF v(3,1,2)] by auto
  qed
qed

section \<open>From the outcome to the end\<close>

text \<open>What \<open>apply\<close> leaves when it returns.\<close>

definition concluded ::
  "string \<Rightarrow> run_preview \<Rightarrow> run_record \<times> change_record \<Rightarrow> snapshot \<Rightarrow> bool" where
  "concluded rid p z v \<longleftrightarrow>
     (\<exists>g. final rid g (fst z) (snd z) v) \<and> rn_preview (fst z) = p \<and>
     ch_mutation_outcome (snd z) \<noteq> None \<and>
     (ch_result (snd z) = CR_Succeeded \<longrightarrow> \<not> is_guarded (fst z)) \<and>
     (ch_result (snd z) = CR_In_Flight \<longrightarrow>
        is_guarded (fst z) \<and> rn_state (fst z) = RS_Guarded \<and>
        ch_mutation_outcome (snd z) = Some MO_Written \<and>
        ch_verification_outcome (snd z) = VO_Verified \<and> guard_holds (sn_guard v) \<and>
        length (sn_muts v) = 1)"

definition restores :: "run_preview \<Rightarrow> checkpoint_record option \<Rightarrow> change_record \<Rightarrow> bool" where
  "restores p checkpoint c \<longleftrightarrow>
     (case checkpoint of
        None \<Rightarrow> True
      | Some k \<Rightarrow> rv_change_kind p = CHANGE_KIND_FIELD \<and> ch_before_value c = Some (ck_before_value k))"

lemma restores_same: "same_about c c' \<Longrightarrow> restores p k c' = restores p k c"
  by (simp add: restores_def same_about_def split: option.split)

lemma unproven_fwd:
  assumes "rn_run_id r = rid" "restores p checkpoint c" "m \<noteq> MO_Not_Written"
  shows "sp (rid, d0, js0) (flying rid p m g 1 c) (unproven E r c checkpoint x read)
     (landed rid p m g c {CR_Rolled_Back, CR_Recovery_Required}) quiet"
proof (cases checkpoint)
  case None
  show ?thesis
    unfolding unproven_def None option.case
    by (rule landed_from, rule recover_fwd) (use assms in simp_all)
next
  case (Some k)
  show ?thesis
    unfolding unproven_def Some option.case
    by (rule roll_back_fwd) (use assms Some in \<open>auto simp: restores_def\<close>)
qed

lemma landed_concluded:
  "landed rid p m g c R z v \<Longrightarrow> CR_In_Flight \<notin> R \<Longrightarrow> CR_Succeeded \<notin> R \<Longrightarrow> concluded rid p z v"
  unfolding landed_def concluded_def by auto

lemma landed_run_id: "landed rid p m g c R z v \<Longrightarrow> rn_run_id (fst z) = rid"
  by (simp add: landed_def final_def)

text \<open>The guard is let go once the run ended, whatever came of it.\<close>

lemma after_fwd:
  assumes "CR_Succeeded \<notin> R" "CR_In_Flight \<notin> R" "guard \<noteq> None \<longrightarrow> g = guard"
  shows "sp (rid, d0, js0) (landed rid p m g c R z)
     (thenM (release_guard E (fst z) guard x reason cid) (ret z)) (concluded rid p) Er"
proof -
  have "sp (rid, d0, js0) (\<lambda>v. rn_run_id (fst z) = rid \<and> landed rid p m g c R z v)
     (thenM (release_guard E (fst z) guard x reason cid) (ret z)) (concluded rid p) Er"
    by (rule sp_conj, rule then_fwd, rule release_guard_fwd, assumption, rule assms, rule assms,
        rule sp_ex, rule ret_fwd) (use assms in \<open>auto intro: landed_concluded\<close>)
  then show ?thesis by (rule sp_pre) (simp add: landed_run_id)
qed

lemma mid_look:
  "mid rid m g n r c v \<Longrightarrow> sn_run v = Some r \<and> sn_change v = Some c"
  by (simp add: mid_def)

lemma hold_fwd:
  assumes "rn_run_id r1 = rid" "ch_change_id c1 = ch_change_id c"
  shows "sp (rid, d0, js0) (flying rid p m g n c) (hold E r1 c1)
     (\<lambda>z v. mid rid m g n (fst z) c v \<and> rn_preview (fst z) = p \<and> snd z = c \<and>
            rn_state (fst z) = RS_Guarded) Er"
  unfolding hold_def assms
proof (subst flying_ex, intro sp_ex sp_conj)
  fix r :: run_record assume r: "rn_preview r = p"
  show "sp (rid, d0, js0) (mid rid m g n r c)
     (thenM (step E rid Ev_Guard_Hold_Started (Some (ch_change_id c)) (Some RS_Guarded)
        (Some (rn_state r1)) None False None False) (reread_both rid (ch_change_id c)))
     (\<lambda>z v. mid rid m g n (fst z) c v \<and> rn_preview (fst z) = p \<and> snd z = c \<and>
            rn_state (fst z) = RS_Guarded) Er"
  proof (rule sp_pre, rule sp_then, rule sp_reread_both,
      rule sp_mid_mark [where r = r and c = c and m = m and g = g and n = n], rule refl)
    show "mid rid m g n r c v \<and> (\<forall>v'. mid rid m g n (run_moved (Some RS_Guarded) None None r) c v' \<longrightarrow>
        sn_muts v' = sn_muts v \<longrightarrow>
        (case sn_run v' of None \<Rightarrow> Er (Refused ''run_not_found'') v'
         | Some r \<Rightarrow> map_option ch_change_id (sn_change v') = Some (ch_change_id c) \<and>
             (\<forall>c'. sn_change v' = Some c' \<longrightarrow>
               mid rid m g n (fst (r, c')) c v' \<and> rn_preview (fst (r, c')) = p \<and>
               snd (r, c') = c \<and> rn_state (fst (r, c')) = RS_Guarded)))"
      if "mid rid m g n r c v" for v
      using that r mid_look by auto
  qed (simp add: TERMINAL_RUN_STATES_def)
qed

lemma mid_concluded:
  assumes "mid rid MO_Written g 1 (fst z) c v" "rn_preview (fst z) = p" "snd z = c"
    "rn_state (fst z) = RS_Guarded" "is_guarded (fst z)" "ch_verification_outcome c = VO_Verified"
  shows "concluded rid p z v"
proof -
  have "final rid g (fst z) (snd z) v"
    using assms mid_truthful [OF assms(1)] by (auto simp: final_def mid_def)
  then show ?thesis using assms by (auto simp: concluded_def mid_def authority_def)
qed

lemma guarded_preview: "is_guarded r \<longleftrightarrow> rv_execution_eligibility (rn_preview r) = XE_Guarded"
  by (simp add: is_guarded_def)

lemma conclude_fwd:
  assumes r: "rn_run_id r = rid" and k: "restores p checkpoint c"
    and g: "guard \<noteq> None \<longrightarrow> g = guard"
    and e: "(rv_execution_eligibility p = XE_Guarded) = (guard \<noteq> None)" and m: "rep_outcome rep = m"
  shows "sp (rid, d0, js0) (flying rid p m g 1 c) (conclude E r c checkpoint guard x rep)
     (concluded rid p) quiet"
proof (cases m)
  case MO_Not_Written
  show ?thesis
    unfolding conclude_def Let_def m MO_Not_Written mutation_outcome.case
    by (rule bind_fwd, rule finish_fwd, rule r, rule refl, simp add: ending_ok_def, rule after_fwd)
       (use g in simp_all)
next
  case MO_Write_Unknown
  show ?thesis
    unfolding conclude_def Let_def m MO_Write_Unknown mutation_outcome.case
    by (rule bind_fwd, rule unproven_fwd, rule r, rule k, simp, rule after_fwd) (use g in simp_all)
next
  case MO_Written
  have tail: "sp (rid, d0, js0) (flying rid p MO_Written g 1 c')
     (if vo_proved (rb_outcome (snd z))
      then if guard \<noteq> None then hold E (fst (fst z)) (snd (fst z))
           else finish E (fst (fst z)) (snd (fst z)) RS_Succeeded CR_Succeeded None
      else bindM (unproven E (fst (fst z)) (snd (fst z)) checkpoint x (Some (snd z)))
             (\<lambda>ended. thenM (release_guard E (fst ended) guard x ''verification_did_not_prove''
                (Some (ch_change_id c))) (ret ended)))
     (concluded rid p) quiet"
    if z: "rn_run_id (fst (fst z)) = rid \<and> snd (fst z) = c' \<and> same_about c c' \<and>
        ch_verification_outcome c' = rb_outcome (snd z)" for z c'
  proof (intro if_fwd)
    assume v: "vo_proved (rb_outcome (snd z))"
    show "sp (rid, d0, js0) (flying rid p MO_Written g 1 c') (hold E (fst (fst z)) (snd (fst z)))
        (concluded rid p) quiet" if "guard \<noteq> None"
      by (rule sp_weaken, rule hold_fwd [where c = c' and p = p and m = MO_Written and g = g and n = 1])
         (use z v that e in \<open>auto simp: vo_proved_def guarded_preview intro: mid_concluded\<close>)
    show "sp (rid, d0, js0) (flying rid p MO_Written g 1 c')
        (finish E (fst (fst z)) (snd (fst z)) RS_Succeeded CR_Succeeded None) (concluded rid p) quiet"
      if "\<not> guard \<noteq> None"
      by (rule sp_weaken, rule finish_fwd [where c = c' and p = p and m = MO_Written and g = g and n = 1])
         (use z v that e in \<open>auto simp: vo_proved_def guarded_preview ending_ok_def landed_def concluded_def\<close>)
  next
    show "sp (rid, d0, js0) (flying rid p MO_Written g 1 c')
       (bindM (unproven E (fst (fst z)) (snd (fst z)) checkpoint x (Some (snd z)))
         (\<lambda>ended. thenM (release_guard E (fst ended) guard x ''verification_did_not_prove''
            (Some (ch_change_id c))) (ret ended))) (concluded rid p) quiet"
      unfolding conjunct1 [OF conjunct2 [OF z]]
      by (rule bind_fwd, rule unproven_fwd, rule conjunct1 [OF z])
         (use z k g restores_same in \<open>auto intro: after_fwd\<close>)
  qed
  show ?thesis
    unfolding conclude_def Let_def m MO_Written mutation_outcome.case case_prod_beta
    by (rule bind_fwd, rule verify_fwd, rule r, rule sp_ex, rule sp_conj, rule tail)
qed

section \<open>Before the boundary\<close>

definition before :: "string \<Rightarrow> run_record \<Rightarrow> snapshot \<Rightarrow> bool" where
  "before rid r v \<longleftrightarrow> sn_run v = Some r \<and> rn_run_id r = rid \<and> sn_change v = None \<and> sn_muts v = []"

definition ready :: "string \<Rightarrow> run_record \<Rightarrow> snapshot \<Rightarrow> bool" where
  "ready rid r v \<longleftrightarrow> before rid r v \<and> sn_lock v \<noteq> None \<and> spent_for r (sn_apply v) \<and>
     (if requires_self_impact_override r then spent_for r (sn_override v) else True)"

lemma before_truthful: "before rid r v \<Longrightarrow> truthful v"
  by (simp add: before_def truthful_def)

text \<open>Methods that only read, and may refuse.\<close>

definition reads :: "('w, 'a) engine \<Rightarrow> bool" where
  "reads m \<longleftrightarrow> (\<forall>s. \<exists>x. m s = (x, s))"

lemma reads_fwd:
  assumes "reads m"
  shows "sp K P m (\<lambda>_. P) (\<lambda>_. P)"
proof (cases K)
  case (fields rid d0 js0)
  have "case m s of (Inl e, s') \<Rightarrow> holds rid d0 js0 P s' | (Inr x, s') \<Rightarrow> holds rid d0 js0 P s'"
    if "holds rid d0 js0 P s" for s
  proof -
    obtain x where "m s = (x, s)" using assms by (auto simp: reads_def)
    then show ?thesis using that by (cases x) simp_all
  qed
  then show ?thesis using fields by (simp add: sp_def spec_def)
qed

lemma reads_bind: "reads m \<Longrightarrow> (\<And>x. reads (f x)) \<Longrightarrow> reads (bindM m f)"
  unfolding reads_def bindM_def by (metis (no_types, lifting) case_prod_conv sum.case_eq_if)

lemma reads_then: "reads m \<Longrightarrow> reads n \<Longrightarrow> reads (thenM m n)"
  unfolding thenM_def by (rule reads_bind)

lemma reads_basic:
  "reads (ret x)" "reads (fail e)" "reads (demand b c)" "reads (world f)" "reads (assertM z)"
  "reads (lift y)" "reads (look g)" "reads (now E)"
  by (auto simp: reads_def ret_def fail_def demand_def world_def assertM_def lift_def look_def now_def
      split: option.split)

lemmas reads_rules = reads_bind reads_then reads_basic

lemma reads_option: "reads m \<Longrightarrow> (\<And>y. reads (f y)) \<Longrightarrow> reads (case z of None \<Rightarrow> m | Some y \<Rightarrow> f y)"
  by (cases z) simp_all

lemma reads_sum:
  "(\<And>y. reads (f y)) \<Longrightarrow> (\<And>y. reads (g y)) \<Longrightarrow> reads (case z of Inl y \<Rightarrow> f y | Inr y \<Rightarrow> g y)"
  by (cases z) simp_all

lemma reads_executor_of: "reads (executor_of E r)"
  unfolding executor_of_def by (intro reads_option reads_rules)

lemma reads_operation_type_of: "reads (operation_type_of r)"
  unfolding operation_type_of_def by (intro reads_option reads_rules)

lemma reads_require_target: "reads (require_target E r)"
  unfolding require_target_def by (intro reads_rules reads_option)

lemma reads_require_executable_preview: "reads (require_executable_preview r)"
  unfolding require_executable_preview_def by (intro reads_rules)

lemma reads_reread: "reads (reread rid)"
  unfolding reread_def by (intro reads_rules reads_option)

lemma reads_plan_now: "reads (plan_now E r mp given ctx)"
  unfolding plan_now_def Let_def
  by (intro reads_rules reads_option reads_sum reads_require_target reads_operation_type_of)

lemma reads_to:
  "reads m \<Longrightarrow> (\<And>v e. P v \<Longrightarrow> Er e v) \<Longrightarrow> sp K P m (\<lambda>_. P) Er"
  by (rule sp_weaken [OF reads_fwd [of m K P]]) auto

section \<open>Acquiring and admitting\<close>

lemma acquire_fwd:
  "sp (rid, d0, js0) (\<lambda>v. before rid r v \<and> sn_lock v = None) (acquire E rid)
     (\<lambda>r' v. r' = r \<and> before rid r v \<and> sn_lock v \<noteq> None) quiet"
  unfolding acquire_def
proof (rule sp_pre, rule sp_transaction, rule sp_bind)
  fix v0 x
  show "sp (rid, d0, js0) (\<lambda>v. x = r \<and> before rid r v \<and> sn_lock v = None \<and> v = v0)
     (thenM (demand (appliable x) ''run_not_appliable'')
       (bindM (look (\<lambda>d. locks_for_run rid (db_locks d))) (\<lambda>own.
          if own \<noteq> None then ret x
          else bindM (now E) (\<lambda>t. bindM (acquire_lock x t) (\<lambda>taken.
                 thenM (demand taken ''object_write_locked'') (ret x))))))
     (\<lambda>y v. truthful v \<and> y = r \<and> before rid r v \<and> sn_lock v \<noteq> None)
     (\<lambda>e v. sn_muts v = sn_muts v0 \<and> quiet e v0)"
  proof (rule sp_conj [of "x = r"])
    assume x: "x = r"
    show "sp (rid, d0, js0) (\<lambda>v. before rid r v \<and> sn_lock v = None \<and> v = v0)
       (thenM (demand (appliable x) ''run_not_appliable'')
         (bindM (look (\<lambda>d. locks_for_run rid (db_locks d))) (\<lambda>own.
            if own \<noteq> None then ret x
            else bindM (now E) (\<lambda>t. bindM (acquire_lock x t) (\<lambda>taken.
                   thenM (demand taken ''object_write_locked'') (ret x))))))
       (\<lambda>y v. truthful v \<and> y = r \<and> before rid r v \<and> sn_lock v \<noteq> None)
       (\<lambda>e v. sn_muts v = sn_muts v0 \<and> quiet e v0)"
    proof (cases "rn_run_id r = rid")
      case True
      show ?thesis
        by (rule sp_pre, rule sp_then, rule sp_bind, rule sp_if, rule sp_ret, rule sp_bind, rule sp_bind,
            rule sp_then, rule sp_ret, rule sp_demand, rule sp_acquire_lock, simp add: x True,
            rule sp_now, rule sp_look_lock, rule sp_demand)
           (auto simp: x before_def quiet_def truthful_def)
    next
      case False
      then show ?thesis by (simp add: before_def sp_def spec_def holds_def)
    qed
  qed
  show "sp (rid, d0, js0) (\<lambda>v. before rid r v \<and> sn_lock v = None \<and> v = v0) (reread rid)
      (\<lambda>x v. x = r \<and> before rid r v \<and> sn_lock v = None \<and> v = v0)
      (\<lambda>e v. sn_muts v = sn_muts v0 \<and> quiet e v0)" for v0
    by (rule sp_pre, rule sp_reread) (auto simp: before_def)
qed simp

text \<open>
  \<open>held\<close>: the run holds its lock and nothing was written. \<open>unspent\<close> is what a refusal finds
  before the lock is let go.
\<close>

definition held :: "string \<Rightarrow> run_preview \<Rightarrow> snapshot \<Rightarrow> bool" where
  "held rid p v \<longleftrightarrow> (\<exists>r. before rid r v \<and> rn_preview r = p) \<and> sn_lock v \<noteq> None"

definition unspent :: "engine_error \<Rightarrow> snapshot \<Rightarrow> bool" where
  "unspent e v \<longleftrightarrow> (is_refusal e \<longrightarrow> sn_change v = None \<and> sn_muts v = [])"

lemma held_unspent: "held rid p v \<Longrightarrow> unspent e v"
  by (auto simp: held_def before_def unspent_def)

lemma before_moved:
  "before rid r v \<Longrightarrow> before rid (run_moved st eff fin r) (step_effect st eff fin None rel v)"
  by (simp add: before_def step_effect_def)

lemma held_reread:
  "sp (rid, d0, js0) (held rid p) (reread rid)
     (\<lambda>r v. (rn_run_id r = rid \<and> rn_preview r = p) \<and> held rid p v) Er"
  by (rule sp_pre, rule sp_reread) (auto simp: held_def before_def)

lemma held_step:
  "sp (rid, d0, js0) (held rid p) (step E rid ev None st sf None False None False)
     (\<lambda>_. held rid p) Er"
proof (rule sp_pre, rule sp_step)
  fix v assume h: "held rid p v"
  then obtain r where r: "before rid r v" "rn_preview r = p" "sn_lock v \<noteq> None"
    by (auto simp: held_def)
  have b: "before rid (run_moved st None None r) (step_effect st None None None False v)"
    by (rule before_moved [OF r(1)])
  moreover have "sn_lock (step_effect st None None None False v) = sn_lock v"
    by (simp add: step_effect_def)
  ultimately have "held rid p (step_effect st None None None False v)"
    using r by (auto simp: held_def intro: exI [of _ "run_moved st None None r"])
  then show "sn_run v \<noteq> None \<and> (None \<noteq> None \<longrightarrow> map_option ch_change_id (sn_change v) = None \<and> None \<noteq> None) \<and>
      (\<forall>t. let v' = step_effect st None (if False then Some t else None) (map_option (\<lambda>u. u t) None) False v
           in truthful v' \<and> held rid p v')"
    using r(1) before_truthful [OF b] by (simp add: Let_def before_def)
qed (simp add: keeps_keys_def)

text \<open>The spending of the two confirmations, in the transaction they share.\<close>

definition paid :: "run_record \<Rightarrow> snapshot \<Rightarrow> bool" where
  "paid r v \<longleftrightarrow> spent_for r (sn_apply v) \<and>
     (if requires_self_impact_override r then spent_for r (sn_override v) else True)"

lemma spent_by_spent:
  "cn_preview_digest k = rv_preview_digest (rn_preview r) \<Longrightarrow> spent_for r (Some (spent_by a t k))"
  by (simp add: spent_for_def spent_by_def cn_consumed_def)

lemma same_terms:
  "rn_preview r = rn_preview r' \<Longrightarrow> spent_for r k = spent_for r' k \<and>
     requires_self_impact_override r = requires_self_impact_override r' \<and>
     is_guarded r = is_guarded r' \<and> arms_recovery r = arms_recovery r'"
  by (simp add: spent_for_def requires_self_impact_override_def is_guarded_def arms_recovery_def
      split: option.split)

lemma held_truthful: "held rid p v \<Longrightarrow> truthful v"
  by (auto simp: held_def before_truthful)

lemma held_transaction:
  assumes "sp K (held rid p) m (\<lambda>x v. held rid p v \<and> Q x v) (\<lambda>_. held rid p)"
  shows "sp K (held rid p) (transaction m) (\<lambda>x v. held rid p v \<and> Q x v) unspent"
proof (rule sp_pre, rule sp_transaction, rule sp_conj)
  fix v0 assume v0: "held rid p v0"
  show "sp K (held rid p) m (\<lambda>x v. truthful v \<and> held rid p v \<and> Q x v)
      (\<lambda>e v. sn_muts v = sn_muts v0 \<and> unspent e v0)"
    by (rule sp_weaken [OF assms])
       (use v0 in \<open>auto simp: held_truthful held_unspent\<close>, auto simp: held_def before_def)
qed simp

lemma held_apply: "held rid p v \<Longrightarrow> held rid p (v\<lparr>sn_apply := k\<rparr>)"
  and held_override: "held rid p v \<Longrightarrow> held rid p (v\<lparr>sn_override := k\<rparr>)"
  by (auto simp: held_def before_def)

lemma spend_apply_fwd:
  assumes "rn_run_id r = rid"
  shows "sp (rid, d0, js0) (held rid p) (spend E r CP_Apply a m1 s1)
     (\<lambda>_ v. held rid p v \<and> spent_for r (sn_apply v)) (\<lambda>_. held rid p)"
  by (rule sp_pre, rule sp_spend_apply, rule assms)
     (auto simp: held_apply spent_by_spent split: option.split)

lemma spend_override_fwd:
  assumes "rn_run_id r = rid"
  shows "sp (rid, d0, js0) (\<lambda>v. held rid p v \<and> spent_for r (sn_apply v))
     (consume_self_impact_override E r a)
     (\<lambda>_ v. held rid p v \<and> spent_for r (sn_apply v) \<and> spent_for r (sn_override v)) (\<lambda>_. held rid p)"
  unfolding consume_self_impact_override_def
  by (rule sp_pre, rule sp_spend_override, rule assms)
     (auto simp: held_override spent_by_spent split: option.split)

lemma held_moved:
  "held rid p v \<Longrightarrow> held rid p (v\<lparr>sn_run := map_option (run_moved st eff fin) (sn_run v)\<rparr>)"
  by (auto simp: held_def before_def)

lemma consume_fwd:
  assumes "rn_run_id r = rid"
  shows "sp (rid, d0, js0) (held rid p)
     (transaction (
        thenM (spend E r CP_Apply a m1 s1)
       (thenM (if requires_self_impact_override r then consume_self_impact_override E r a
               else ret ())
              (if arms_recovery r
               then thenM (set_state rid (Some RS_Arming) None None)
                      (append_event E rid ev None sf st)
               else ret ()))))
     (\<lambda>_ v. held rid p v \<and> paid r v) unspent"
proof (rule held_transaction, rule then_fwd, rule spend_apply_fwd, rule assms, rule then_fwd)
  show "sp (rid, d0, js0) (\<lambda>v. held rid p v \<and> spent_for r (sn_apply v))
     (if requires_self_impact_override r then consume_self_impact_override E r a else ret ())
     (\<lambda>_ v. held rid p v \<and> paid r v) (\<lambda>_. held rid p)"
  proof (rule if_fwd)
    assume "requires_self_impact_override r"
    then show "sp (rid, d0, js0) (\<lambda>v. held rid p v \<and> spent_for r (sn_apply v))
        (consume_self_impact_override E r a) (\<lambda>_ v. held rid p v \<and> paid r v) (\<lambda>_. held rid p)"
      by (intro sp_weaken [OF spend_override_fwd [OF assms]]) (auto simp: paid_def)
  qed (rule ret_fwd, simp add: paid_def)
  show "sp (rid, d0, js0) (\<lambda>v. held rid p v \<and> paid r v)
     (if arms_recovery r then thenM (set_state rid (Some RS_Arming) None None)
        (append_event E rid ev None sf st) else ret ())
     (\<lambda>_ v. held rid p v \<and> paid r v) (\<lambda>_. held rid p)"
  proof (rule if_fwd)
    show "sp (rid, d0, js0) (\<lambda>v. held rid p v \<and> paid r v)
        (thenM (set_state rid (Some RS_Arming) None None) (append_event E rid ev None sf st))
        (\<lambda>_ v. held rid p v \<and> paid r v) (\<lambda>_. held rid p)"
      by (rule sp_pre, rule sp_then, rule sp_append_event, rule sp_set_state)
         (simp add: held_moved paid_def)
  qed (rule ret_fwd, simp)
qed

lemma consume_confirmation_fwd:
  assumes "rn_run_id r0 = rid" "rn_preview r0 = p"
  shows "sp (rid, d0, js0) (held rid p) (consume_confirmation E r0 a)
     (\<lambda>r v. ready rid r v \<and> rn_preview r = p) unspent"
  unfolding consume_confirmation_def assms(1)
proof (rule bind_fwd)
  show "sp (rid, d0, js0) (held rid p)
      (if rn_state r0 = RS_Preview
       then thenM (step E rid Ev_Confirmation_Required None (Some RS_Awaiting_Confirmation)
              (Some (rn_state r0)) None False None False) (reread rid)
       else ret r0)
      (\<lambda>r v. (rn_run_id r = rid \<and> rn_preview r = p) \<and> held rid p v) unspent"
    by (rule if_fwd, rule then_fwd, rule held_step, rule held_reread, rule ret_fwd, simp add: assms)
  fix r :: run_record
  show "sp (rid, d0, js0) (\<lambda>v. (rn_run_id r = rid \<and> rn_preview r = p) \<and> held rid p v)
      (thenM (transaction (
        thenM (spend E r CP_Apply a ''confirmation_required'' ''confirmation_already_consumed'')
       (thenM (if requires_self_impact_override r then consume_self_impact_override E r a
               else ret ())
              (if arms_recovery r
               then thenM (set_state (rn_run_id r) (Some RS_Arming) None None)
                      (append_event E (rn_run_id r) Ev_Arming_Started None (Some (rn_state r))
                         (Some RS_Arming))
               else ret ())))) (reread (rn_run_id r)))
      (\<lambda>r v. ready rid r v \<and> rn_preview r = p) unspent"
  proof (rule sp_conj)
    assume r: "rn_run_id r = rid \<and> rn_preview r = p"
    have "ready rid r' v \<and> rn_preview r' = p"
      if "sn_run v = Some r'" "held rid p v" "paid r v" for r' v
      using that r same_terms [of r' r] by (auto simp: held_def paid_def ready_def before_def)
    then have *: "case sn_run v of None \<Rightarrow> unspent (Refused ''run_not_found'') v
        | Some r' \<Rightarrow> ready rid r' v \<and> rn_preview r' = p"
      if "held rid p v \<and> paid r v" for v
      using that by (auto simp: held_def before_def)
    show "sp (rid, d0, js0) (held rid p)
      (thenM (transaction (
        thenM (spend E r CP_Apply a ''confirmation_required'' ''confirmation_already_consumed'')
       (thenM (if requires_self_impact_override r then consume_self_impact_override E r a
               else ret ())
              (if arms_recovery r
               then thenM (set_state (rn_run_id r) (Some RS_Arming) None None)
                      (append_event E (rn_run_id r) Ev_Arming_Started None (Some (rn_state r))
                         (Some RS_Arming))
               else ret ())))) (reread (rn_run_id r)))
      (\<lambda>r v. ready rid r v \<and> rn_preview r = p) unspent"
      unfolding conjunct1 [OF r]
      by (rule then_fwd, rule consume_fwd, rule conjunct1 [OF r], rule sp_pre, rule sp_reread, rule *)
  qed
qed

lemma refuse_apply_fwd:
  "sp (rid, d0, js0) (unspent (Refused c)) (refuse_apply E rid c) Q quiet"
proof -
  have "sp (rid, d0, js0) (unspent (Refused c))
      (transaction (thenM (append_event E rid ev None sf st) (release_lock rid)))
      (\<lambda>_ v. sn_change v = None \<and> sn_muts v = [] \<and> sn_lock v = None) Er" for ev sf st Er
    by (rule sp_pre, rule sp_transaction, rule sp_then, rule sp_release_lock, rule sp_append_event)
       (simp add: unspent_def truthful_def)
  then show ?thesis
    unfolding refuse_apply_def
    by (rule then_fwd) (rule sp_pre, rule sp_fail, simp add: quiet_def)
qed

lemma admit_fwd:
  assumes "rn_run_id r = rid" "rn_preview r = p"
  shows "sp (rid, d0, js0) (held rid p) (admit E r mp ctx)
     (\<lambda>z v. ready rid (snd z) v \<and> rn_preview (snd z) = p) unspent"
  unfolding admit_def
  apply (rule bind_fwd, rule reads_to, rule reads_require_target, erule held_unspent)
  apply (rule then_fwd, rule reads_to, rule reads_require_executable_preview, erule held_unspent)
  apply (rule then_fwd, rule reads_to, rule reads_plan_now, erule held_unspent)
  apply (rule bind_fwd, rule new_id_fwd)
  apply (rule bind_fwd, rule consume_confirmation_fwd, rule assms, rule assms, rule ret_fwd, simp)
  done

lemma admitted_fwd:
  assumes "rn_run_id r = rid" "rn_preview r = p"
  shows "sp (rid, d0, js0) (held rid p) (catch_refusal (admit E r mp ctx) (refuse_apply E (rn_run_id r)))
     (\<lambda>z v. ready rid (snd z) v \<and> rn_preview (snd z) = p) quiet"
  unfolding assms(1)
  by (rule sp_catch_refusal [where R = "\<lambda>c. unspent (Refused c)"], rule refuse_apply_fwd,
      rule sp_weaken [OF admit_fwd [OF assms]]) (auto split: engine_error.split)

section \<open>Preparing\<close>

text \<open>A failure before the boundary ends the run, lets the lock go, and leaves no change.\<close>

lemma fail_before_fwd:
  assumes "rn_run_id r = rid"
  shows "sp (rid, d0, js0) (\<lambda>v. \<exists>r. before rid r v) (fail_before_boundary E r ev st_from code) Q quiet"
  unfolding fail_before_boundary_def assms
  by (rule sp_pre, rule sp_then, rule sp_fail, rule sp_step)
     (auto simp: keeps_keys_def before_def step_effect_def truthful_def quiet_def Let_def)

lemma ready_before: "ready rid r v \<Longrightarrow> before rid r v"
  by (simp add: ready_def)

lemma ready_truthful: "ready rid r v \<Longrightarrow> truthful v"
  by (rule before_truthful [OF ready_before])

lemma ready_checkpoint: "ready rid r v \<Longrightarrow> ready rid r (v\<lparr>sn_checkpoint := k\<rparr>)"
  and ready_guard: "ready rid r v \<Longrightarrow> ready rid r (v\<lparr>sn_guard := g\<rparr>)"
  by (simp_all add: ready_def before_def)

lemma ask_correlation_fwd: "sp K P (ask_correlation x record) (\<lambda>_. P) (\<lambda>_. P)"
  unfolding ask_correlation_def
  by (rule sp_pre, rule sp_bind, rule sp_lift, rule sp_ask) (auto split: sum.split)

lemma correlate_fwd:
  assumes "rn_run_id r = rid"
  shows "sp (rid, d0, js0) (ready rid r) (correlate E r record x) (\<lambda>_. ready rid r) quiet"
  unfolding correlate_def
proof (rule bind_fwd, rule sp_catch_all)
  show "sp (rid, d0, js0) (ready rid r) (ask_correlation x record) (\<lambda>_. ready rid r) (\<lambda>_. ready rid r)"
    by (rule ask_correlation_fwd)
  show "sp (rid, d0, js0) (ready rid r)
      (fail_before_boundary E r Ev_Target_Correlation_Failed (rn_state r)
         (failure_code e ''target_not_correlated'')) (\<lambda>_. ready rid r) quiet" for e
    by (rule sp_pre, rule fail_before_fwd, rule assms) (auto dest: ready_before)
  show "sp (rid, d0, js0) (ready rid r)
      (thenM (transaction (append_event E (rn_run_id r) Ev_Target_Correlated None None None)) (ret y))
      (\<lambda>_. ready rid r) quiet" for y
    by (rule sp_pre, rule sp_then, rule sp_ret, rule sp_transaction, rule sp_append_event)
       (simp add: ready_truthful)
qed

text \<open>The checkpoint holds the value the preview says the object has.\<close>

definition keeps_current :: "run_preview \<Rightarrow> checkpoint_record \<Rightarrow> bool" where
  "keeps_current p k \<longleftrightarrow> required_column (rv_value_type p) (rv_current_value p) = Inr (ck_before_value k)"

lemma checkpoint_row_simps [simp]:
  "ck_run_id (checkpoint_row r cid cor b d t) = rn_run_id r"
  "ck_before_value (checkpoint_row r cid cor b d t) = b"
  "ck_desired_value (checkpoint_row r cid cor b d t) = d"
  by (simp_all add: checkpoint_row_def Let_def)

lemma write_checkpoint_fwd:
  assumes "rn_run_id r = rid"
  shows "sp (rid, d0, js0) (ready rid r) (write_checkpoint E r record x cid)
     (\<lambda>_ v. ready rid r v \<and> (\<exists>k. sn_checkpoint v = Some k \<and> keeps_current (rn_preview r) k))
     (\<lambda>_. ready rid r)"
  unfolding write_checkpoint_def assms
proof (rule bind_fwd, rule ask_correlation_fwd)
  fix cor
  show "sp (rid, d0, js0) (ready rid r)
     (transaction (
       bindM (lift (required_column (rv_value_type (rn_preview r)) (rv_current_value (rn_preview r))))
         (\<lambda>before.
       bindM (lift (required_column (rv_value_type (rn_preview r)) (rv_desired_value (rn_preview r))))
         (\<lambda>desired.
       bindM (now E) (\<lambda>t.
       thenM (insert_row (\<lambda>d.
          case checkpoints_insert (checkpoint_row r cid cor before desired t) (db_checkpoints d) of
            Inl e \<Rightarrow> Inl e | Inr k \<Rightarrow> Inr (d\<lparr>db_checkpoints := k\<rparr>)))
         (append_event E rid Ev_Checkpoint_Written None None None))))))
     (\<lambda>_ v. ready rid r v \<and> (\<exists>k. sn_checkpoint v = Some k \<and> keeps_current (rn_preview r) k))
     (\<lambda>_. ready rid r)"
  proof (rule sp_pre, rule sp_transaction, rule sp_bind, rule sp_bind, rule sp_bind, rule sp_then,
      rule sp_append_event, rule sp_insert_checkpoint, simp add: assms, rule sp_now, rule sp_lift,
      rule sp_lift)
    fix v assume v: "ready rid r v"
    show "case required_column (rv_value_type (rn_preview r)) (rv_current_value (rn_preview r)) of
        Inl e \<Rightarrow> sn_muts v = sn_muts v \<and> ready rid r v
      | Inr b \<Rightarrow> (case required_column (rv_value_type (rn_preview r)) (rv_desired_value (rn_preview r)) of
          Inl e \<Rightarrow> sn_muts v = sn_muts v \<and> ready rid r v
        | Inr d \<Rightarrow> \<forall>t. (sn_muts v = sn_muts v \<and> ready rid r v) \<and>
            (sn_checkpoint v = None \<longrightarrow>
              truthful (v\<lparr>sn_checkpoint := Some (checkpoint_row r cid cor b d t)\<rparr>) \<and>
              ready rid r (v\<lparr>sn_checkpoint := Some (checkpoint_row r cid cor b d t)\<rparr>) \<and>
              (\<exists>k. sn_checkpoint (v\<lparr>sn_checkpoint := Some (checkpoint_row r cid cor b d t)\<rparr>) = Some k \<and>
                   keeps_current (rn_preview r) k)))"
      using v ready_checkpoint [OF v] ready_truthful [OF ready_checkpoint [OF v]]
      by (simp add: keeps_current_def split: sum.split)
  qed
qed

lemma arm_fwd:
  assumes "rn_run_id r = rid"
  shows "sp (rid, d0, js0) (ready rid r) (arm E r record x)
     (\<lambda>k v. keeps_current (rn_preview r) k \<and> ready rid r v) quiet"
  unfolding arm_def assms
  apply (rule bind_fwd, rule new_id_fwd)
  apply (rule then_fwd, rule sp_catch_all [where R = "\<lambda>_. ready rid r"])
    apply (rule sp_pre, rule fail_before_fwd, rule assms, blast dest: ready_before)
   apply (rule write_checkpoint_fwd, rule assms)
  apply (rule sp_pre, rule sp_bind, rule sp_assert, rule sp_look_checkpoint)
  apply auto
  done

definition prepared :: "run_record \<Rightarrow> checkpoint_record option \<Rightarrow> bool" where
  "prepared r k \<longleftrightarrow>
     (case k of None \<Rightarrow> \<not> arms_recovery r
      | Some y \<Rightarrow> arms_recovery r \<and> keeps_current (rn_preview r) y)"

lemma prepare_fwd:
  assumes "rn_run_id r = rid"
  shows "sp (rid, d0, js0) (ready rid r) (prepare E r record x)
     (\<lambda>z v. prepared r (fst z) \<and> ready rid r v) quiet"
  unfolding prepare_def
  by (rule if_fwd, rule bind_fwd, rule arm_fwd, rule assms, rule ret_fwd, simp add: prepared_def,
      rule bind_fwd, rule correlate_fwd, rule assms, rule ret_fwd, simp add: prepared_def)

section \<open>Arming the guard\<close>

lemma guard_columns_keys:
  "gd_guard_id (abandoned_columns a refusal rep t g) = gd_guard_id g"
  "gd_run_id (abandoned_columns a refusal rep t g) = gd_run_id g"
  by (simp_all add: abandoned_columns_def fired_columns_def Let_def)

lemma abandon_fwd:
  assumes "rn_run_id r = rid"
  shows "sp (rid, d0, js0) (\<lambda>v. (\<exists>r. before rid r v) \<and> map_option gd_guard_id (sn_guard v) = Some gid)
     (thenM (abandon_guard E r gid x refusal) (fail (Refused code))) Q quiet"
proof -
  have b: "before rid r' (v\<lparr>sn_guard := g\<rparr>)" if "before rid r' v" for r' v g
    using that by (simp add: before_def)
  have q: "quiet (Refused code) (step_effect (Some RS_Failed) (Some HE_None) (Some t) None True v)"
    "truthful (step_effect (Some RS_Failed) (Some HE_None) (Some t) None True v)"
    if "before rid r' v" for r' v t
    using that by (simp_all add: quiet_def step_effect_def before_def truthful_def)
  show ?thesis
    unfolding abandon_guard_def assms
    by (rule sp_pre, rule sp_then, rule sp_fail, rule sp_bind, rule sp_bind, rule sp_then, rule sp_step,
        simp add: keeps_keys_def, rule sp_transaction, rule sp_update_guard, rule guard_columns_keys,
        rule guard_columns_keys, rule sp_now, rule sp_ask_guard(1))
       (auto simp: Let_def intro: b q before_truthful, auto simp: before_def)
qed

lemma guard_row_simps [simp]:
  "gd_guard_id (guard_row r k gid reversal cid t) = gid"
  "gd_run_id (guard_row r k gid reversal cid t) = rn_run_id r"
  "gd_settled_at (guard_row r k gid reversal cid t) = None"
  by (simp_all add: guard_row_def)

lemma sum_fwd:
  "(\<And>y. z = Inl y \<Longrightarrow> sp K P (f y) Q Er) \<Longrightarrow> (\<And>y. z = Inr y \<Longrightarrow> sp K P (g y) Q Er) \<Longrightarrow>
   sp K P (case z of Inl y \<Rightarrow> f y | Inr y \<Rightarrow> g y) Q Er"
  by (cases z) simp_all

lemma demand_fwd: "b \<Longrightarrow> sp K P (demand b c) (\<lambda>_. P) Er"
  by (rule sp_pre, rule sp_demand) simp

lemma found_fwd:
  "sp (rid, d0, js0) (ready rid r)
     (look (\<lambda>d. confirmations_for_run rid CP_Apply (db_confirmations d)))
     (\<lambda>found v. (\<exists>c. found = Some c \<and> cn_consumed c) \<and> ready rid r v) Er"
  by (rule sp_pre, rule sp_look_apply) (auto simp: ready_def spent_for_def split: option.splits)

definition guard_at :: "run_record \<Rightarrow> string \<Rightarrow> bool \<Rightarrow> snapshot \<Rightarrow> bool" where
  "guard_at r gid armed v \<longleftrightarrow>
     (\<exists>g. sn_guard v = Some g \<and> gd_guard_id g = gid \<and> gd_settled_at g = None \<and>
        (armed \<longrightarrow> gd_armed g))"

lemma insert_guard_fwd:
  assumes "rn_run_id r = rid"
  shows "sp (rid, d0, js0) (ready rid r)
     (transaction (insert_row (\<lambda>d.
        case guards_insert (guard_row r k gid reversal cid t) (db_guards d) of
          Inl e \<Rightarrow> Inl e | Inr g \<Rightarrow> Inr (d\<lparr>db_guards := g\<rparr>))))
     (\<lambda>_ v. ready rid r v \<and> guard_at r gid False v) quiet"
proof (rule sp_pre, rule sp_transaction, rule sp_insert_guard, simp add: assms)
  fix v assume v: "ready rid r v"
  show "(sn_muts v = sn_muts v \<and> quiet Integrity_Error v) \<and>
      (sn_guard v = None \<longrightarrow> truthful (v\<lparr>sn_guard := Some (guard_row r k gid reversal cid t)\<rparr>) \<and>
        ready rid r (v\<lparr>sn_guard := Some (guard_row r k gid reversal cid t)\<rparr>) \<and>
        guard_at r gid False (v\<lparr>sn_guard := Some (guard_row r k gid reversal cid t)\<rparr>))"
    using ready_guard [OF v] ready_truthful [OF ready_guard [OF v]] by (simp add: guard_at_def)
qed

lemma arm_asked_fwd: "sp K P (ask_logged (\<lambda>d. Arm_Asked d q) f) (\<lambda>_. P) Er"
  by (rule sp_pre, rule sp_ask_arm) simp

lemma armed_fwd:
  assumes "rn_run_id r = rid"
  shows "sp (rid, d0, js0) (\<lambda>v. ready rid r v \<and> guard_at r gid False v)
     (thenM (transaction (thenM
         (update_guard gid (\<lambda>g. g\<lparr>gd_armed_at := Some t, gd_expires_at := Some a, gd_holder_id := Some b\<rparr>))
         (append_event E rid ev None None None)))
       (bindM (look (\<lambda>d. guards_get gid (db_guards d))) assertM))
     (\<lambda>g v. ready rid r v \<and> sn_guard v = Some g \<and> guard_holds (Some g)) quiet"
proof (rule sp_pre, rule sp_then, rule sp_guards_get, rule sp_transaction, rule sp_then,
    rule sp_append_event, rule sp_update_guard)
  let ?u = "\<lambda>g. g\<lparr>gd_armed_at := Some t, gd_expires_at := Some a, gd_holder_id := Some b\<rparr>"
  fix v assume v: "ready rid r v \<and> guard_at r gid False v"
  then obtain g where g: "sn_guard v = Some g" "gd_guard_id g = gid" "gd_settled_at g = None"
    by (auto simp: guard_at_def)
  show "map_option gd_guard_id (sn_guard v) = Some gid \<and>
      truthful (v\<lparr>sn_guard := map_option ?u (sn_guard v)\<rparr>) \<and>
      map_option gd_guard_id (sn_guard (v\<lparr>sn_guard := map_option ?u (sn_guard v)\<rparr>)) = Some gid \<and>
      (\<forall>g. sn_guard (v\<lparr>sn_guard := map_option ?u (sn_guard v)\<rparr>) = Some g \<longrightarrow>
        ready rid r (v\<lparr>sn_guard := map_option ?u (sn_guard v)\<rparr>) \<and>
        sn_guard (v\<lparr>sn_guard := map_option ?u (sn_guard v)\<rparr>) = Some g \<and> guard_holds (Some g))"
    using g ready_guard [OF conjunct1 [OF v]] ready_truthful [OF ready_guard [OF conjunct1 [OF v]]]
    by (auto simp: guard_holds_def gd_armed_def gd_settled_def)
qed simp_all

lemma arm_guard_fwd:
  assumes "rn_run_id r = rid"
  shows "sp (rid, d0, js0) (ready rid r) (arm_guard E r checkpoint x)
     (\<lambda>g v. ready rid r v \<and> sn_guard v = Some g \<and> guard_holds (Some g)) quiet"
  unfolding arm_guard_def assms
  apply (rule bind_fwd, rule assert_fwd, rule sp_conj)
  apply (rule bind_fwd, rule found_fwd, rule sp_conj, elim exE conjE, simp only: option.case)
  apply (rule then_fwd, rule demand_fwd, rule TrueI)
  apply (rule bind_fwd, rule new_id_fwd, rule bind_fwd, rule new_id_fwd, rule bind_fwd, rule now_fwd)
  apply (rule then_fwd, rule insert_guard_fwd, rule assms)
  apply (rule bind_fwd, rule arm_asked_fwd)
  apply (rule sum_fwd)
   apply (rule sp_pre, rule abandon_fwd, rule assms)
   apply (auto simp: guard_at_def dest: ready_before)[1]
  apply (rule bind_fwd, rule now_fwd, rule armed_fwd, rule assms)
  done

definition guarding :: "run_record \<Rightarrow> run_guard_record option \<Rightarrow> snapshot \<Rightarrow> bool" where
  "guarding r g v \<longleftrightarrow> (if is_guarded r then g \<noteq> None \<and> sn_guard v = g \<and> guard_holds g else g = None)"

lemma guard_fwd:
  assumes "rn_run_id r = rid"
  shows "sp (rid, d0, js0) (ready rid r)
     (if is_guarded r then bindM (arm_guard E r checkpoint x) (\<lambda>g. ret (Some g)) else ret None)
     (\<lambda>g v. ready rid r v \<and> guarding r g v) quiet"
  by (rule if_fwd, rule bind_fwd, rule arm_guard_fwd, rule assms, rule ret_fwd, simp add: guarding_def,
      rule ret_fwd, simp add: guarding_def)

section \<open>Crossing and dispatching\<close>

definition crossed ::
  "string \<Rightarrow> run_preview \<Rightarrow> run_guard_record option \<Rightarrow> bool \<Rightarrow> nat \<Rightarrow> change_record \<Rightarrow> snapshot \<Rightarrow> bool" where
  "crossed rid p g began n c v \<longleftrightarrow>
     (\<exists>r. sn_run v = Some r \<and> rn_run_id r = rid \<and> rn_preview r = p \<and>
        rn_state r \<notin> set TERMINAL_RUN_STATES \<and> sn_lock v \<noteq> None \<and> paid r v \<and> guarding r g v) \<and>
     sn_change v = Some c \<and> ch_run_id c = rid \<and> ch_mutation_outcome c = None \<and>
     ch_host_effect c = HE_None \<and> ch_result c = CR_In_Flight \<and> ch_recovery_reason c = None \<and>
     ch_dispatch_began c = began \<and> length (sn_muts v) = n \<and> (if began then n \<le> 1 else n = 0)"

lemma crossed_truthful: "crossed rid p g began n c v \<Longrightarrow> truthful v"
  unfolding crossed_def truthful_def ended_def holds_lock_def by auto

lemma change_row_simps:
  assumes "change_identity_columns p (change_row r cid a k cor t) = Inr c"
  shows "ch_change_id c = cid \<and> ch_run_id c = rn_run_id r \<and> ch_mutation_outcome c = None \<and>
    ch_host_effect c = HE_None \<and> ch_result c = CR_In_Flight \<and> ch_recovery_reason c = None \<and>
    \<not> ch_dispatch_began c"
    and "rv_change_kind p \<noteq> CHANGE_KIND_ACTION \<Longrightarrow> ch_before_value c \<noteq> None \<and>
      required_column (rv_value_type p) (rv_current_value p) = Inr (the (ch_before_value c))"
  using assms by (auto simp: change_identity_columns_def change_row_def Let_def bindE_def
      ch_dispatch_began_def split: if_splits sum.splits)

lemma identity_error: "change_identity_columns p c = Inl e \<Longrightarrow> \<not> is_refusal e"
  by (auto simp: change_identity_columns_def bindE_def required_column_error split: if_splits sum.splits)

lemma prepared_restores:
  assumes "prepared r k"
    "change_identity_columns (rn_preview r) (change_row r cid a k' cor t) = Inr c"
  shows "restores (rn_preview r) k c"
  using assms change_row_simps(2) [OF assms(2)]
  by (auto simp: prepared_def restores_def keeps_current_def arms_recovery_def
      CHANGE_KIND_FIELD_def CHANGE_KIND_ACTION_def split: option.splits)

lemma ready_crossed:
  assumes v: "ready rid r v" "guarding r g v"
    and c: "change_identity_columns (rn_preview r) (change_row r cid a k cor t) = Inr c"
  shows "crossed rid (rn_preview r) g False 0 c
    (v\<lparr>sn_run := map_option (run_moved (Some RS_Applying) None None) (sn_run v), sn_change := Some c\<rparr>)"
proof -
  let ?r = "run_moved (Some RS_Applying) None None r"
  have p: "rn_preview ?r = rn_preview r" by simp
  show ?thesis
    using v change_row_simps(1) [OF c] same_terms [OF p]
    unfolding crossed_def ready_def before_def
    by (auto simp: TERMINAL_RUN_STATES_def paid_def guarding_def)
qed

lemma transaction_fwd:
  assumes "\<And>v0. P v0 \<Longrightarrow> sp K (\<lambda>v. v = v0) m (\<lambda>x v. truthful v \<and> Q x v)
      (\<lambda>e v. sn_muts v = sn_muts v0 \<and> Er e v0)"
  shows "sp K P (transaction m) Q Er"
proof (rule sp_pre, rule sp_transaction)
  show "sp K (\<lambda>v. P v0 \<and> v = v0) m (\<lambda>x v. truthful v \<and> Q x v)
      (\<lambda>e v. sn_muts v = sn_muts v0 \<and> Er e v0)" for v0
    by (rule sp_conj, rule assms)
qed simp

lemma lift_cases_fwd:
  assumes "\<And>e v. z = Inl e \<Longrightarrow> P v \<Longrightarrow> Er e v" "\<And>x. z = Inr x \<Longrightarrow> sp K P (f x) Q Er"
  shows "sp K P (bindM (lift z) f) Q Er"
proof (cases z)
  case (Inl e)
  have "bindM (lift z) f = fail e" using Inl by (simp add: bindM_def lift_def fail_def fun_eq_iff)
  then show ?thesis using assms(1) [OF Inl] by (simp add: sp_pre [OF sp_fail])
next
  case (Inr x)
  have "bindM (lift z) f = f x" using Inr by (simp add: bindM_def lift_def fun_eq_iff)
  then show ?thesis using assms(2) [OF Inr] by simp
qed

lemma set_state_fwd:
  "sp (rid, d0, js0) (\<lambda>v. v = v0) (set_state rid st eff fin)
     (\<lambda>_ v. v = v0\<lparr>sn_run := map_option (run_moved st eff fin) (sn_run v0)\<rparr>) Er"
  by (rule sp_pre, rule sp_set_state) simp

lemma crossing_fwd:
  assumes "rn_run_id r = rid" "prepared r k"
  shows "sp (rid, d0, js0) (\<lambda>v. ready rid r v \<and> guarding r g v)
     (transaction (
       thenM (set_state rid (Some RS_Applying) None None)
       (bindM (now E) (\<lambda>t.
        bindM (lift (change_identity_columns (rn_preview r) (change_row r cid a k cor t))) (\<lambda>c.
        thenM (insert_row (\<lambda>d. case changes_insert c (db_changes d) of
                 Inl e \<Rightarrow> Inl e | Inr x \<Rightarrow> Inr (d\<lparr>db_changes := x\<rparr>)))
              (append_event E rid ev cd sf st))))))
     (\<lambda>_ v. \<exists>c. (ch_change_id c = cid \<and> restores (rn_preview r) k c) \<and>
        crossed rid (rn_preview r) g False 0 c v) quiet"
proof (rule transaction_fwd, rule then_fwd, rule set_state_fwd, rule bind_fwd, rule now_fwd,
    rule lift_cases_fwd)
  fix v0 :: snapshot and t c
  let ?v = "v0\<lparr>sn_run := map_option (run_moved (Some RS_Applying) None None) (sn_run v0)\<rparr>"
  assume v0: "ready rid r v0 \<and> guarding r g v0"
    and c: "change_identity_columns (rn_preview r) (change_row r cid a k cor t) = Inr c"
  have run: "ch_run_id c = rid" using change_row_simps(1) [OF c] assms by simp
  have x: "crossed rid (rn_preview r) g False 0 c (?v\<lparr>sn_change := Some c\<rparr>)"
    using ready_crossed [OF conjunct1 [OF v0] conjunct2 [OF v0] c] by simp
  show "sp (rid, d0, js0) (\<lambda>v. v = ?v)
      (thenM (insert_row (\<lambda>d. case changes_insert c (db_changes d) of
                 Inl e \<Rightarrow> Inl e | Inr x \<Rightarrow> Inr (d\<lparr>db_changes := x\<rparr>)))
              (append_event E rid ev cd sf st))
      (\<lambda>_ v. truthful v \<and> (\<exists>c. (ch_change_id c = cid \<and> restores (rn_preview r) k c) \<and>
        crossed rid (rn_preview r) g False 0 c v))
      (\<lambda>e v. sn_muts v = sn_muts v0 \<and> quiet e v0)"
    by (rule sp_pre, rule sp_then, rule sp_append_event, rule sp_insert_change, rule run)
       (use x crossed_truthful [OF x] prepared_restores [OF assms(2) c] change_row_simps(1) [OF c]
        in auto)
qed (auto simp: identity_error)

lemma cross_fwd:
  assumes "rn_run_id r = rid" "prepared r k"
  shows "sp (rid, d0, js0) (\<lambda>v. ready rid r v \<and> guarding r g v) (cross E r k cor)
     (\<lambda>c v. restores (rn_preview r) k c \<and> crossed rid (rn_preview r) g False 0 c v) quiet"
  unfolding cross_def assms(1)
  apply (rule bind_fwd, rule new_id_fwd, rule bind_fwd, rule new_id_fwd)
  apply (rule then_fwd, rule crossing_fwd, rule assms, rule assms)
  apply (rule sp_ex, rule sp_conj)
  apply (rule sp_pre, rule sp_require_change)
  apply (auto simp: crossed_def)
  done

lemma crossed_reread:
  "sp (rid, d0, js0) (crossed rid p g b n c) (reread rid)
     (\<lambda>r v. (rn_run_id r = rid \<and> rn_preview r = p) \<and> crossed rid p g b n c v) Er"
  by (rule sp_pre, rule sp_reread) (auto simp: crossed_def)

lemma stamped:
  assumes "crossed rid p g False 0 c v"
  shows "crossed rid p g True 0 (c\<lparr>ch_dispatch_began_at := Some t\<rparr>)
     (step_effect None None None (Some (\<lambda>c. c\<lparr>ch_dispatch_began_at := Some t\<rparr>)) False v)"
  using assms unfolding crossed_def step_effect_def paid_def guarding_def
  by (auto simp: ch_dispatch_began_def)

lemma crossed_authorised:
  assumes "crossed rid p g True 0 c v" "q = apply_request c"
  shows "authorised v q"
  using assms unfolding crossed_def authorised_def paid_def guarding_def
  by auto

lemma dispatch_fwd:
  assumes "rn_run_id r = rid"
  shows "sp (rid, d0, js0) (crossed rid p g False 0 c) (dispatch E r c x)
     (\<lambda>rep v. \<exists>t. crossed rid p g True 1 (c\<lparr>ch_dispatch_began_at := Some t\<rparr>) v \<and>
        rep_outcome (snd (hd (sn_muts v))) = rep_outcome rep) Er"
  unfolding dispatch_def assms
proof (rule then_fwd)
  show "sp (rid, d0, js0) (crossed rid p g False 0 c)
      (step E rid Ev_Mutation_Dispatched (Some (ch_change_id c)) None None None False
         (Some (\<lambda>t c. c\<lparr>ch_dispatch_began_at := Some t\<rparr>)) False)
      (\<lambda>_ v. \<exists>t. crossed rid p g True 0 (c\<lparr>ch_dispatch_began_at := Some t\<rparr>) v) Er"
  proof (rule sp_pre, rule sp_step)
    fix v assume v: "crossed rid p g False 0 c v"
    show "sn_run v \<noteq> None \<and>
      (Some (\<lambda>t c. c\<lparr>ch_dispatch_began_at := Some t\<rparr>) \<noteq> None \<longrightarrow>
        map_option ch_change_id (sn_change v) = Some (ch_change_id c) \<and> Some (ch_change_id c) \<noteq> None) \<and>
      (\<forall>t. let v' = step_effect None None (if False then Some t else None)
              (map_option (\<lambda>u. u t) (Some (\<lambda>t c. c\<lparr>ch_dispatch_began_at := Some t\<rparr>))) False v
           in truthful v' \<and> (\<exists>t. crossed rid p g True 0 (c\<lparr>ch_dispatch_began_at := Some t\<rparr>) v'))"
      using v stamped [OF v] crossed_truthful [OF stamped [OF v]]
      by (auto simp: Let_def crossed_def)
  qed (simp add: keeps_keys_def)
  show "sp (rid, d0, js0) (\<lambda>v. \<exists>t. crossed rid p g True 0 (c\<lparr>ch_dispatch_began_at := Some t\<rparr>) v)
      (ask_mutate x (apply_request c))
      (\<lambda>rep v. \<exists>t. crossed rid p g True 1 (c\<lparr>ch_dispatch_began_at := Some t\<rparr>) v \<and>
        rep_outcome (snd (hd (sn_muts v))) = rep_outcome rep) Er"
  proof (rule sp_ex, rule sp_pre, rule sp_ask_mutate)
    fix t v assume v: "crossed rid p g True 0 (c\<lparr>ch_dispatch_began_at := Some t\<rparr>) v"
    have "apply_request c = apply_request (c\<lparr>ch_dispatch_began_at := Some t\<rparr>)"
      by (simp add: apply_request_def)
    moreover have "crossed rid p g True 1 (c\<lparr>ch_dispatch_began_at := Some t\<rparr>)
        (v\<lparr>sn_muts := sn_muts v @ [(apply_request c, rep)]\<rparr>)" for rep
      using v unfolding crossed_def paid_def guarding_def by auto
    moreover have "sn_muts v = []" using v by (simp add: crossed_def)
    ultimately show "truthful v \<and> authorised v (apply_request c) \<and> (\<forall>rep. \<exists>t.
        crossed rid p g True 1 (c\<lparr>ch_dispatch_began_at := Some t\<rparr>)
          (v\<lparr>sn_muts := sn_muts v @ [(apply_request c, rep)]\<rparr>) \<and>
        rep_outcome (snd (hd (sn_muts (v\<lparr>sn_muts := sn_muts v @ [(apply_request c, rep)]\<rparr>)))) =
        rep_outcome rep)"
      using crossed_authorised [OF v] crossed_truthful [OF v] by auto
  qed
qed

lemma settled_mid:
  assumes "crossed rid p g True 1 c v" "rep_outcome (snd (hd (sn_muts v))) = rep_outcome rep"
  shows "flying rid p (rep_outcome rep) (sn_guard v) 1 (outcome_columns rep t c)
     (step_effect None (Some (host_effect_for (rep_outcome rep))) None (Some (outcome_columns rep t))
        False v)"
proof -
  obtain r where r: "sn_run v = Some r" "rn_run_id r = rid" "rn_preview r = p"
    "rn_state r \<notin> set TERMINAL_RUN_STATES" "paid r v" "guarding r g v"
    using assms(1) by (auto simp: crossed_def)
  let ?r = "run_moved None (Some (host_effect_for (rep_outcome rep))) None r"
  have "mid rid (rep_outcome rep) (sn_guard v) 1 ?r (outcome_columns rep t c)
     (step_effect None (Some (host_effect_for (rep_outcome rep))) None (Some (outcome_columns rep t))
        False v)"
    using r assms unfolding mid_def crossed_def step_effect_def outcome_columns_def authority_def
      paid_def guarding_def
    by (auto simp: ch_dispatch_began_def split: if_splits)
  then show ?thesis by (rule flying_moved) (rule r)
qed

lemma settled_fwd:
  assumes "cid = ch_change_id c"
  shows "sp (rid, d0, js0)
     (\<lambda>v. crossed rid p g True 1 c v \<and> rep_outcome (snd (hd (sn_muts v))) = rep_outcome rep)
     (thenM (step E rid Ev_Mutation_Result (Some cid) None None
              (Some (host_effect_for (rep_outcome rep))) False (Some (outcome_columns rep)) False)
           (require_change cid))
     (\<lambda>c' v. \<exists>g'. (same_about c c' \<and> (g \<noteq> None \<longrightarrow> g' = g)) \<and>
        flying rid p (rep_outcome rep) g' 1 c' v) Er"
proof (rule then_fwd)
  show "sp (rid, d0, js0)
     (\<lambda>v. crossed rid p g True 1 c v \<and> rep_outcome (snd (hd (sn_muts v))) = rep_outcome rep)
     (step E rid Ev_Mutation_Result (Some cid) None None
              (Some (host_effect_for (rep_outcome rep))) False (Some (outcome_columns rep)) False)
     (\<lambda>_ v. \<exists>g' c'. ((same_about c c' \<and> ch_change_id c' = cid) \<and> (g \<noteq> None \<longrightarrow> g' = g)) \<and>
        flying rid p (rep_outcome rep) g' 1 c' v) Er"
  proof (rule sp_pre, rule sp_step)
    fix v assume v: "crossed rid p g True 1 c v \<and> rep_outcome (snd (hd (sn_muts v))) = rep_outcome rep"
    have g: "g \<noteq> None \<longrightarrow> sn_guard v = g"
      using v by (auto simp: crossed_def guarding_def split: if_splits)
    have m: "flying rid p (rep_outcome rep) (sn_guard v) 1 (outcome_columns rep t c)
     (step_effect None (Some (host_effect_for (rep_outcome rep))) None (Some (outcome_columns rep t))
        False v)" for t
      by (rule settled_mid) (use v in auto)
    have t: "truthful (step_effect None (Some (host_effect_for (rep_outcome rep))) None
        (Some (outcome_columns rep t)) False v)" for t
      using m [of t] mid_truthful by (auto simp: flying_def)
    have s: "same_about c (outcome_columns rep t c)" "ch_change_id (outcome_columns rep t c) = cid" for t
      using assms by (simp_all add: same_about_def outcome_columns_def)
    have ex: "\<exists>g' c'. ((same_about c c' \<and> ch_change_id c' = cid) \<and> (g \<noteq> None \<longrightarrow> g' = g)) \<and>
        flying rid p (rep_outcome rep) g' 1 c'
          (step_effect None (Some (host_effect_for (rep_outcome rep))) None
            (Some (outcome_columns rep t)) False v)" for t
      using m [of t] s [of t] g by blast
    show "sn_run v \<noteq> None \<and>
      (Some (outcome_columns rep) \<noteq> None \<longrightarrow>
        map_option ch_change_id (sn_change v) = Some cid \<and> Some cid \<noteq> None) \<and>
      (\<forall>t. let v' = step_effect None (Some (host_effect_for (rep_outcome rep)))
              (if False then Some t else None) (map_option (\<lambda>u. u t) (Some (outcome_columns rep))) False v
           in truthful v' \<and> (\<exists>g' c'. ((same_about c c' \<and> ch_change_id c' = cid) \<and>
              (g \<noteq> None \<longrightarrow> g' = g)) \<and> flying rid p (rep_outcome rep) g' 1 c' v'))"
      using v t ex assms by (simp add: Let_def) (auto simp: crossed_def)
  qed (simp add: keeps_keys_def outcome_columns_def)
  show "sp (rid, d0, js0) (\<lambda>v. \<exists>g' c'. ((same_about c c' \<and> ch_change_id c' = cid) \<and>
      (g \<noteq> None \<longrightarrow> g' = g)) \<and> flying rid p (rep_outcome rep) g' 1 c' v) (require_change cid)
     (\<lambda>c' v. \<exists>g'. (same_about c c' \<and> (g \<noteq> None \<longrightarrow> g' = g)) \<and>
        flying rid p (rep_outcome rep) g' 1 c' v) Er"
    by (intro sp_ex sp_conj, rule sp_weaken, rule flying.require_change_fwd [where c = c' for c']) auto
qed

lemma crossed_guard:
  "crossed rid p g b n c v \<Longrightarrow> (rv_execution_eligibility p = XE_Guarded) = (g \<noteq> None)"
  by (auto simp: crossed_def guarding_def guarded_preview split: if_splits)

lemma settle_fwd:
  assumes "rn_run_id r = rid"
  shows "sp (rid, d0, js0)
     (\<lambda>v. \<exists>t. crossed rid p g True 1 (c\<lparr>ch_dispatch_began_at := Some t\<rparr>) v \<and>
        rep_outcome (snd (hd (sn_muts v))) = rep_outcome rep)
     (settle_change E r c rep)
     (\<lambda>c' v. \<exists>g'. (same_about c c' \<and> (g \<noteq> None \<longrightarrow> g' = g) \<and>
           (rv_execution_eligibility p = XE_Guarded) = (g \<noteq> None)) \<and>
        flying rid p (rep_outcome rep) g' 1 c' v) Er"
  unfolding settle_change_def assms
proof (rule sp_ex)
  fix t
  let ?c = "c\<lparr>ch_dispatch_began_at := Some t\<rparr>"
  let ?m = "thenM (step E rid Ev_Mutation_Result (Some (ch_change_id c)) None None
      (Some (host_effect_for (rep_outcome rep))) False (Some (outcome_columns rep)) False)
      (require_change (ch_change_id c))"
  have "sp (rid, d0, js0) (\<lambda>v. (rv_execution_eligibility p = XE_Guarded) = (g \<noteq> None) \<and>
        crossed rid p g True 1 ?c v \<and> rep_outcome (snd (hd (sn_muts v))) = rep_outcome rep) ?m
     (\<lambda>c' v. \<exists>g'. (same_about c c' \<and> (g \<noteq> None \<longrightarrow> g' = g) \<and>
           (rv_execution_eligibility p = XE_Guarded) = (g \<noteq> None)) \<and>
        flying rid p (rep_outcome rep) g' 1 c' v) Er"
    by (rule sp_conj, rule sp_weaken, rule settled_fwd [where c = ?c and p = p and g = g])
       (auto simp: same_about_def)
  then show "sp (rid, d0, js0) (\<lambda>v. crossed rid p g True 1 ?c v \<and>
        rep_outcome (snd (hd (sn_muts v))) = rep_outcome rep) ?m
     (\<lambda>c' v. \<exists>g'. (same_about c c' \<and> (g \<noteq> None \<longrightarrow> g' = g) \<and>
           (rv_execution_eligibility p = XE_Guarded) = (g \<noteq> None)) \<and>
        flying rid p (rep_outcome rep) g' 1 c' v) Er"
    by (rule sp_pre) (auto simp: crossed_guard)
qed

section \<open>The whole of apply\<close>

lemma acquired_fwd:
  "sp (rid, d0, js0) (\<lambda>v. before rid run v \<and> sn_lock v = None) (acquire E rid)
     (\<lambda>r v. (r = run \<and> rn_run_id r = rid \<and> rn_preview r = rn_preview run) \<and>
        held rid (rn_preview run) v) quiet"
  by (rule sp_weaken [OF acquire_fwd]) (auto simp: held_def before_def)

lemma admission_fwd:
  assumes "rn_run_id r = rid" "rn_preview r = p"
  shows "sp (rid, d0, js0) (held rid p) (catch_refusal (admit E r mp ctx) (refuse_apply E (rn_run_id r)))
     (\<lambda>z v. (rn_run_id (snd z) = rid \<and> rn_preview (snd z) = p) \<and> ready rid (snd z) v) quiet"
  by (rule sp_weaken, rule admitted_fwd [OF assms]) (auto simp: ready_def before_def)

lemma apply_fwd:
  assumes "rn_run_id run = rid"
  shows "sp (rid, d0, js0) (\<lambda>v. before rid run v \<and> sn_lock v = None) (apply_run E run mp ctx)
     (concluded rid (rn_preview run)) quiet"
  unfolding apply_run_def assms
  apply (rule bind_fwd, rule reads_to, rule reads_executor_of, simp add: quiet_def before_def)
  apply (rule bind_fwd, rule acquired_fwd, rule sp_conj)
  apply (rule bind_fwd, rule admission_fwd, simp, simp)
  apply (rule sp_conj, simp only: case_prod_beta, elim conjE)
  apply (rule bind_fwd, rule prepare_fwd, assumption)
  apply (rule sp_conj, simp only: case_prod_beta, rule bind_fwd, rule guard_fwd, assumption)
  apply (rule bind_fwd, rule cross_fwd, assumption, assumption)
  apply (rule sp_conj, rule bind_fwd)
  apply (simp only:)
  apply (rule crossed_reread)
  apply (rule sp_conj, elim conjE)
  apply (rule bind_fwd, rule dispatch_fwd, assumption)
  apply (rule bind_fwd, rule settle_fwd, assumption)
  apply (rule sp_ex, rule sp_conj, elim conjE)
  apply (rule bind_fwd)
  apply (simp only:)
  apply (rule flying.reread_fwd)
  apply (rule sp_conj, elim conjE)
  apply (hypsubst, rule conclude_fwd)
  apply (assumption | simp add: restores_same)+
  done

end
