(* ===== verification/Engine_Rest.thy ===== *)
theory Engine_Rest
  imports Engine_Apply
begin

text \<open>
  The specification of what settles a change once its request is gone
  (\<open>src/localplane/backend/changes.py\<close>): keeping a guarded change, settling a lapsed one, and
  settling the changes and guards a restart finds. None of it dispatches a mutation, so all of it
  works from \<open>resting\<close>: the change in flight, with the mutations already sent.
\<close>

section \<open>A change at rest\<close>

lemma sp_post:
  "sp K P m Q' Er \<Longrightarrow> (\<And>x v. Q' x v \<Longrightarrow> Q x v) \<Longrightarrow> sp K P m Q Er"
  by (rule sp_weaken)

definition resting ::
  "string \<Rightarrow> run_preview \<Rightarrow> run_guard_record option \<Rightarrow> (mutation_request \<times> mutation_report) list \<Rightarrow>
   change_record \<Rightarrow> snapshot \<Rightarrow> bool" where
  "resting rid p g ms c v \<longleftrightarrow>
     sn_change v = Some c \<and> ch_run_id c = rid \<and> ch_result c = CR_In_Flight \<and>
     (\<exists>r. sn_run v = Some r \<and> rn_run_id r = rid \<and> rn_preview r = p) \<and>
     sn_guard v = g \<and> sn_muts v = ms \<and> truthful v"

lemma resting_moved:
  assumes "resting rid p g ms c v" "live_state st" "neutral u"
    "length ms = 2 \<longrightarrow> ch_rollback_attempt_id (u c) = ch_rollback_attempt_id c"
  shows "resting rid p g ms (u c) (step_effect st None None (Some u) False v)"
proof -
  have "truthful (step_effect st None None (Some u) False v)"
    using assms unfolding resting_def truthful_def step_effect_def neutral_def live_state_def ended_def
    by (auto simp: ch_dispatch_began_def split: option.splits)
  then show ?thesis
    using assms unfolding resting_def neutral_def by (auto simp: step_effect_def)
qed

lemma resting_marked:
  assumes "resting rid p g ms c v" "live_state st"
  shows "resting rid p g ms c (step_effect st None None None False v)"
proof -
  have "truthful (step_effect st None None None False v)"
    using assms unfolding resting_def truthful_def step_effect_def live_state_def ended_def
    by (auto split: option.splits)
  then show ?thesis
    using assms unfolding resting_def by (auto simp: step_effect_def)
qed

interpretation resting: in_flight rid p "length ms" "resting rid p g ms" for rid p g ms
proof unfold_locales
  show "sn_change v = Some c \<and> (\<exists>r. sn_run v = Some r \<and> rn_run_id r = rid \<and> rn_preview r = p)"
    if "resting rid p g ms c v" for c v
    using that by (simp add: resting_def)
  show "truthful v" if "resting rid p g ms c v" for c v
    using that by (simp add: resting_def)
qed (rule resting_moved resting_marked; assumption)+

lemma resting_guard:
  "resting rid p g ms c v \<Longrightarrow> resting rid p g' ms c (v\<lparr>sn_guard := g'\<rparr>)"
  using truthful_guard [of v c g'] by (auto simp: resting_def)

section \<open>Endings\<close>

definition fits ::
  "run_preview \<Rightarrow> run_guard_record option \<Rightarrow> change_record \<Rightarrow> run_state \<Rightarrow> change_result \<Rightarrow>
   recovery_reason option \<Rightarrow> bool" where
  "fits p g c st res recovery \<longleftrightarrow>
     (case res of
        CR_In_Flight \<Rightarrow> False
      | CR_Failed \<Rightarrow> st = RS_Failed \<and> recovery = None \<and> ch_mutation_outcome c = Some MO_Not_Written
      | CR_Succeeded \<Rightarrow> st = RS_Succeeded \<and> recovery = None \<and>
          ch_mutation_outcome c = Some MO_Written \<and> ch_verification_outcome c = VO_Verified \<and>
          (rv_execution_eligibility p = XE_Guarded \<longrightarrow> guard_kept g)
      | CR_Rolled_Back \<Rightarrow> st = RS_Rolled_Back \<and> recovery = None \<and> ch_rollback_required c \<and>
          ch_rollback_verification_outcome c = VO_Verified
      | CR_Recovery_Required \<Rightarrow> st = RS_Recovery_Required \<and> recovery \<noteq> None)"

definition rested ::
  "string \<Rightarrow> run_preview \<Rightarrow> (mutation_request \<times> mutation_report) list \<Rightarrow> change_result set \<Rightarrow>
   run_record \<times> change_record \<Rightarrow> snapshot \<Rightarrow> bool" where
  "rested rid p ms R z v \<longleftrightarrow>
     sn_run v = Some (fst z) \<and> rn_run_id (fst z) = rid \<and> rn_preview (fst z) = p \<and>
     sn_change v = Some (snd z) \<and> ch_run_id (snd z) = rid \<and> ch_result (snd z) \<in> R \<and>
     sn_muts v = ms \<and> truthful v"

lemma rested_mono: "rested rid p ms R z v \<Longrightarrow> R \<subseteq> R' \<Longrightarrow> rested rid p ms R' z v"
  by (auto simp: rested_def)

lemma finish_rest:
  assumes i: "rn_run_id r1 = rid" "ch_change_id c1 = ch_change_id c"
    and ok: "fits p g c st res recovery" "res \<in> R"
  shows "sp (rid, d0, js0) (resting rid p g ms c) (finish E r1 c1 st res recovery)
     (\<lambda>z v. rested rid p ms R z v \<and> ch_change_id (snd z) = ch_change_id c) Er"
proof -
  let ?u = "\<lambda>t c. c\<lparr>ch_result := res, ch_recovery_reason := recovery, ch_finished_at := Some (t :: instant)\<rparr>"
  let ?v = "\<lambda>t v. step_effect (Some st) (Some (ch_host_effect c)) (Some t) (Some (?u t)) (recovery = None) v"
  have eff: "truthful (?v t v) \<and> (\<exists>r. sn_run (?v t v) = Some r \<and>
      rested rid p ms R (r, ?u t c) (?v t v)) \<and> sn_change (?v t v) = Some (?u t c)"
    if h: "resting rid p g ms c v" for t v
  proof -
    have tr: "truthful (?v t v)"
      using h ok unfolding resting_def truthful_def step_effect_def fits_def ended_def holds_lock_def
      by (cases res) (auto simp: ch_dispatch_began_def TERMINAL_RUN_STATES_def guarded_preview
          split: option.splits if_splits)
    then show ?thesis
      using h ok unfolding rested_def resting_def by (auto simp: step_effect_def)
  qed
  have step: "sp (rid, d0, js0) (resting rid p g ms c)
      (step E rid Ev_Run_Finished (Some (ch_change_id c)) (Some st) (Some (rn_state r1))
         (Some (ch_host_effect c)) True (Some ?u) (recovery = None))
      (\<lambda>_ v. \<exists>r t. sn_run v = Some r \<and> sn_change v = Some (?u t c) \<and>
         rested rid p ms R (r, ?u t c) v) Er"
  proof (rule sp_pre, rule sp_step)
    fix v assume v: "resting rid p g ms c v"
    have "\<exists>r t'. sn_run (?v t v) = Some r \<and> sn_change (?v t v) = Some (?u t' c) \<and>
        rested rid p ms R (r, ?u t' c) (?v t v)" for t
      using eff [OF v, of t] by blast
    then show "sn_run v \<noteq> None \<and>
      (Some ?u \<noteq> None \<longrightarrow> map_option ch_change_id (sn_change v) = Some (ch_change_id c) \<and>
        Some (ch_change_id c) \<noteq> None) \<and>
      (\<forall>t. let v' = step_effect (Some st) (Some (ch_host_effect c)) (if True then Some t else None)
              (map_option (\<lambda>u. u t) (Some ?u)) (recovery = None) v
           in truthful v' \<and> (\<exists>r t. sn_run v' = Some r \<and> sn_change v' = Some (?u t c) \<and>
              rested rid p ms R (r, ?u t c) v'))"
      using conjunct1 [OF eff [OF v]] v by (simp add: Let_def) (auto simp: resting_def)
  qed (simp add: keeps_keys_def)
  show ?thesis
    unfolding finish_def i
  proof (rule bind_fwd, rule resting.require_change_fwd, rule refl, rule sp_conj)
    fix c' assume c': "c' = c"
    show "sp (rid, d0, js0) (resting rid p g ms c)
      (thenM (step E rid Ev_Run_Finished (Some (ch_change_id c)) (Some st) (Some (rn_state r1))
            (Some (ch_host_effect c')) True (Some ?u) (recovery = None))
          (reread_both rid (ch_change_id c)))
      (\<lambda>z v. rested rid p ms R z v \<and> ch_change_id (snd z) = ch_change_id c) Er"
      unfolding c'
      by (rule then_fwd, rule step, rule sp_pre, rule sp_reread_both) (auto simp: rested_def)
  qed
qed

lemma recover_rest:
  assumes "rn_run_id r1 = rid" "ch_change_id c1 = ch_change_id c" "CR_Recovery_Required \<in> R"
  shows "sp (rid, d0, js0) (resting rid p g ms c) (recover E r1 c1 reason)
     (\<lambda>z v. rested rid p ms R z v \<and> ch_change_id (snd z) = ch_change_id c) Er"
  unfolding recover_def assms
  by (rule then_fwd, rule resting.mark_fwd, rule refl, simp add: live_state_def,
      rule finish_rest, rule assms, rule assms, simp add: fits_def, rule assms)

section \<open>Lapsing\<close>

lemma record_settlement_rest:
  assumes "rn_run_id r = rid" "gd_guard_id gd = gd_guard_id g"
  shows "sp (rid, d0, js0) (resting rid p (Some g) ms c) (record_guard_settlement E r gd rep reason cid)
     (\<lambda>_ v. \<exists>g'. resting rid p g' ms c v) Er"
proof (rule sp_pre, rule sp_record_guard_settlement, rule assms(1))
  fix v assume v: "resting rid p (Some g) ms c v"
  have "resting rid p (map_option f (Some g)) ms c (v\<lparr>sn_guard := map_option f (sn_guard v)\<rparr>)" for f
    using resting_guard [OF v] v by (simp add: resting_def)
  then show "map_option gd_guard_id (sn_guard v) = Some (gd_guard_id gd) \<and>
      (\<forall>t. truthful (v\<lparr>sn_guard := map_option (settled_columns (ev_text E t) rep reason t) (sn_guard v)\<rparr>) \<and>
         (\<exists>g'. resting rid p g' ms c
            (v\<lparr>sn_guard := map_option (settled_columns (ev_text E t) rep reason t) (sn_guard v)\<rparr>)))"
    using v assms(2) resting.tells by (auto simp: resting_def)
qed

lemma reversal_rest:
  assumes "rn_run_id r = rid" "length ms = 1"
  shows "sp (rid, d0, js0) (resting rid p g ms c) (record_reversal E r c gd rep m)
     (\<lambda>z v. \<exists>c'. (rn_run_id (fst z) = rid \<and> snd z = c' \<and> ch_change_id c' = ch_change_id c \<and>
          ch_rollback_required c') \<and> resting rid p g ms c' v) Er"
  unfolding record_reversal_def assms(1)
  apply (rule then_fwd, (rule resting.step_fwd; simp add: step_simps)[1])
  apply (rule sp_ex)
  apply (rule then_fwd, (rule resting.step_fwd; simp add: step_simps reversal_columns_def assms(2))[1])
  apply (rule sp_ex, rule sp_post, rule resting.reread_both_fwd)
   apply (simp add: reversal_columns_def)
  apply (auto simp: reversal_columns_def)
  done

text \<open>The reversal's columns, where the guard fired and said what it did.\<close>

lemma fired_rest:
  assumes "rn_run_id r = rid" "length ms = 1"
  shows "sp (rid, d0, js0) (resting rid p g ms c)
     (case (grp_phase rep, grp_mutation rep) of
        (GP_Fired, Some m) \<Rightarrow> record_reversal E r c gd rep m | _ \<Rightarrow> ret (r, c))
     (\<lambda>z v. \<exists>c'. (rn_run_id (fst z) = rid \<and> snd z = c' \<and> ch_change_id c' = ch_change_id c \<and>
          (grp_reverted rep \<longrightarrow> ch_rollback_required c')) \<and> resting rid p g ms c' v) Er"
proof -
  have keep: "sp (rid, d0, js0) (resting rid p g ms c) (ret (r, c))
     (\<lambda>z v. \<exists>c'. (rn_run_id (fst z) = rid \<and> snd z = c' \<and> ch_change_id c' = ch_change_id c \<and>
          (grp_reverted rep \<longrightarrow> ch_rollback_required c')) \<and> resting rid p g ms c' v) Er"
    if "\<not> grp_reverted rep"
    by (rule ret_fwd) (use that assms in auto)
  show ?thesis
  proof (cases "grp_phase rep = GP_Fired \<and> grp_mutation rep \<noteq> None")
    case True
    then obtain m where m: "grp_phase rep = GP_Fired" "grp_mutation rep = Some m" by auto
    show ?thesis unfolding m by (simp, rule sp_weaken, rule reversal_rest [OF assms]) auto
  next
    case False
    then have "\<not> grp_reverted rep" by (auto simp: grp_reverted_def split: option.splits)
    from keep [OF this] False show ?thesis
      by (cases "grp_phase rep"; cases "grp_mutation rep") simp_all
  qed
qed

definition lapses :: "change_result set" where
  "lapses = {CR_Rolled_Back, CR_Recovery_Required}"

lemma recover_lapse:
  assumes "rn_run_id r1 = rid" "ch_change_id c1 = ch_change_id c" "ch_change_id c = cid"
  shows "sp (rid, d0, js0) (resting rid p g ms c) (recover E r1 c1 reason)
     (\<lambda>z v. rested rid p ms lapses z v \<and> ch_change_id (snd z) = cid) Er"
  by (rule sp_post, rule recover_rest [where c = c and R = lapses])
     (use assms in \<open>auto simp: lapses_def\<close>)

lemma finish_lapse:
  assumes "rn_run_id r1 = rid" "ch_change_id c1 = ch_change_id c" "ch_change_id c = cid"
    "ch_rollback_required c" "ch_rollback_verification_outcome c = VO_Verified"
  shows "sp (rid, d0, js0) (resting rid p g ms c) (finish E r1 c1 RS_Rolled_Back CR_Rolled_Back None)
     (\<lambda>z v. rested rid p ms lapses z v \<and> ch_change_id (snd z) = cid) Er"
  by (rule sp_post, rule finish_rest [where c = c and R = lapses])
     (use assms in \<open>auto simp: lapses_def fits_def\<close>)

lemma settled_reverted: "settle rep b = GS_Reverted \<longleftrightarrow> grp_reverted rep \<and> b"
  by (auto simp: settle_def grp_reverted_def)

lemma settle_lapsed_fwd:
  assumes "rn_run_id r = rid" "length ms = 1" "gd_guard_id gd = gd_guard_id g"
  shows "sp (rid, d0, js0) (resting rid p (Some g) ms c) (settle_lapsed E r c gd rep x)
     (\<lambda>z v. rested rid p ms lapses z v \<and> ch_change_id (snd z) = ch_change_id c)
     (\<lambda>e _. \<not> is_refusal e)"
  unfolding settle_lapsed_def Let_def assms(1)
  apply (rule bind_fwd [where R = "\<lambda>_. resting rid p (Some g) ms c"])
   apply (rule sp_pre, rule sp_bind, rule sp_assert, rule sp_look_checkpoint)
   apply (simp split: option.split)
  apply (rule bind_fwd, rule fired_rest, rule assms, rule assms)
  apply (rule sp_ex, rule sp_conj, simp only: case_prod_beta, elim conjE)
  apply (rule then_fwd, rule record_settlement_rest, assumption, rule assms)
  apply (rule sp_ex, rule bind_fwd, rule resting.reread_fwd, rule sp_conj)
  apply (rule if_fwd, (rule recover_lapse; simp)[1])
  apply (rule if_fwd, (rule recover_lapse; simp)[1])
  apply (rule if_fwd, (rule recover_lapse; simp)[1])
  apply (rule if_fwd, (rule recover_lapse; simp)[1])
  apply (rule bind_fwd, rule resting.prove_restored_fwd, simp, rule sound_other)
  apply (rule sp_ex, rule sp_conj, simp only: case_prod_beta, elim conjE)
  apply (rule bind_fwd, rule assert_sound, rule sound_other, rule sp_conj)
  apply (rule if_fwd)
   apply (simp only: settled_reverted, (rule finish_lapse; simp add: same_about_def vo_proved_def)[1])
  apply (rule recover_lapse; simp add: same_about_def)
  done

section \<open>Keeping\<close>

text \<open>A refused \<open>guard_keep\<close> leaves the change in flight under its guard.\<close>

definition still ::
  "string \<Rightarrow> run_preview \<Rightarrow> run_guard_record \<Rightarrow> (mutation_request \<times> mutation_report) list \<Rightarrow>
   change_record \<Rightarrow> engine_error \<Rightarrow> snapshot \<Rightarrow> bool" where
  "still rid p g ms c e v \<longleftrightarrow> (is_refusal e \<longrightarrow> resting rid p (Some g) ms c v)"

lemma sound_still: "sound (still rid p g ms c)"
  by (simp add: sound_def still_def)

lemma still_weaken:
  "sp K P m Q (\<lambda>e _. \<not> is_refusal e) \<Longrightarrow> sp K P m Q (still rid p g ms c)"
  by (erule sp_weaken) (simp_all add: still_def)

lemma refuse_keep_fwd:
  assumes "rn_run_id r = rid"
  shows "sp (rid, d0, js0) (resting rid p (Some g) ms c) (refuse_keep E r c code) Q (still rid p g ms c)"
  unfolding refuse_keep_def assms
  by (rule then_fwd, rule resting.mark_fwd, rule refl, simp add: live_state_def, rule sp_pre,
      rule sp_fail, simp add: still_def)

lemma kept_keys: "gd_guard_id (kept_columns mp t g) = gd_guard_id g"
  "gd_run_id (kept_columns mp t g) = gd_run_id g"
  by (simp_all add: kept_columns_def)

lemma keep_fwd:
  assumes "rn_run_id r = rid" "ch_mutation_outcome c = Some MO_Written"
    "ch_verification_outcome c = VO_Verified"
  shows "sp (rid, d0, js0) (resting rid p (Some g) ms c) (keep E r c g mp)
     (\<lambda>z v. rested rid p ms {CR_Succeeded} z v \<and> ch_change_id (snd z) = ch_change_id c) Er"
  unfolding keep_def assms(1)
proof (rule then_fwd)
  show "sp (rid, d0, js0) (resting rid p (Some g) ms c)
     (transaction (bindM (now E) (\<lambda>t. thenM (update_guard (gd_guard_id g) (kept_columns mp t))
      (thenM (append_event E rid Ev_Guard_Connection_Proved (Some (ch_change_id c)) None None)
             (append_event E rid Ev_Guard_Settled (Some (ch_change_id c)) None None)))))
     (\<lambda>_ v. \<exists>t. resting rid p (Some (kept_columns mp t g)) ms c v) Er"
  proof (rule transaction_fwd)
    fix v0 assume v: "resting rid p (Some g) ms c v0"
    have k: "resting rid p (Some (kept_columns mp t g)) ms c
        (v0\<lparr>sn_guard := Some (kept_columns mp t g)\<rparr>)" for t
      by (rule resting_guard [OF v])
    show "sp (rid, d0, js0) (\<lambda>v. v = v0)
       (bindM (now E) (\<lambda>t. thenM (update_guard (gd_guard_id g) (kept_columns mp t))
        (thenM (append_event E rid Ev_Guard_Connection_Proved (Some (ch_change_id c)) None None)
               (append_event E rid Ev_Guard_Settled (Some (ch_change_id c)) None None))))
       (\<lambda>_ v. truthful v \<and> (\<exists>t. resting rid p (Some (kept_columns mp t g)) ms c v))
       (\<lambda>e v. sn_muts v = sn_muts v0 \<and> Er e v0)"
      by (rule sp_pre, rule sp_bind, rule sp_then, rule sp_then, rule sp_append_event,
          rule sp_append_event, rule sp_update_guard, rule kept_keys, rule kept_keys, rule sp_now)
         (use v k resting.tells [OF k] in \<open>auto simp: resting_def\<close>)
  qed
  show "sp (rid, d0, js0) (\<lambda>v. \<exists>t. resting rid p (Some (kept_columns mp t g)) ms c v)
     (bindM (reread_both rid (ch_change_id c))
       (\<lambda>(r', c'). finish E r' c' RS_Succeeded CR_Succeeded None))
     (\<lambda>z v. rested rid p ms {CR_Succeeded} z v \<and> ch_change_id (snd z) = ch_change_id c) Er"
    apply (rule sp_ex, rule bind_fwd, rule resting.reread_both_fwd, rule refl)
    apply (rule sp_conj, simp only: case_prod_beta, elim conjE)
    apply (rule finish_rest)
       apply (use assms in \<open>simp_all add: fits_def guard_kept_def kept_columns_def\<close>)
    done
qed

definition connection_proved :: "management_path_verdict \<Rightarrow> string \<Rightarrow> bool" where
  "connection_proved mp ob \<longleftrightarrow> snd (assess_management_path_reason mp ob True) = On_Management_Path"

lemma guard_answer_fwd:
  "sp K P (if b then ask_disarm x gid else ask_status x gid) (\<lambda>_. P) Er"
  by (rule if_fwd; rule sp_pre, rule sp_ask_guard) simp_all

lemma guard_keep_fwd:
  assumes "rn_run_id run = rid" "length ms = 1" "ch_mutation_outcome c = Some MO_Written"
    "ch_verification_outcome c = VO_Verified"
  shows "sp (rid, d0, js0) (\<lambda>v. sn_run v = Some run \<and> resting rid p (Some g) ms c v)
     (guard_keep E run mp acknowledge)
     (\<lambda>z v. rested rid p ms {CR_Succeeded, CR_Rolled_Back, CR_Recovery_Required} z v \<and>
        ch_change_id (snd z) = ch_change_id c \<and>
        (ch_result (snd z) = CR_Succeeded \<longrightarrow>
           connection_proved mp (rn_object_id run) \<and> acknowledge \<and> rn_state run = RS_Guarded))
     (still rid p g ms c)"
  unfolding guard_keep_def assms(1)
  apply (rule bind_fwd, rule reads_to, rule reads_executor_of, simp add: still_def)
  apply (rule bind_fwd [where R = "\<lambda>r v. r = run \<and> resting rid p (Some g) ms c v"])
   apply (rule sp_pre, rule sp_reread, simp)
  apply (rule sp_conj, simp only: assms(1))
  apply (rule then_fwd [where R = "\<lambda>v. rn_state run = RS_Guarded \<and> resting rid p (Some g) ms c v"])
   apply (rule sp_pre, rule sp_demand, simp add: still_def)
  apply (rule sp_conj)
  apply (rule bind_fwd [where R = "\<lambda>found v. found = Some g \<and> resting rid p (Some g) ms c v"])
   apply (rule sp_pre, rule sp_look_guard, simp add: resting_def)
  apply (rule sp_conj, simp only: option.case)
  apply (rule then_fwd [where R = "resting rid p (Some g) ms c"])
   apply (rule sp_pre, rule sp_demand, simp add: still_def)
  apply (rule bind_fwd [where R = "\<lambda>c' v. c' = c \<and> resting rid p (Some g) ms c v"])
   apply (rule sp_pre, rule sp_bind, rule sp_assert, rule sp_look_change, simp add: resting_def)
  apply (rule sp_conj, simp only: Let_def)
  apply (rule if_fwd, rule refuse_keep_fwd, rule assms)
  apply (rule bind_fwd, rule guard_answer_fwd)
  apply (rule if_fwd, rule refuse_keep_fwd, rule assms)
  apply (rule if_fwd)
   apply (rule sp_post, rule keep_fwd, rule assms, rule assms, rule assms)
   apply (auto simp: rested_def connection_proved_def)[1]
  apply (rule still_weaken, rule sp_post, rule settle_lapsed_fwd, rule assms, rule assms, rule refl)
  apply (auto simp: rested_def lapses_def)
  done

section \<open>After a restart\<close>

lemma interrupted_effect:
  assumes "resting rid p g ms c v" "ch_mutation_outcome c = None"
    "m = outcome_on_recovery (ch_dispatch_began c) None"
  shows "resting rid p g ms (interrupted_columns m t c)
     (step_effect None (Some (host_effect_for m)) None (Some (interrupted_columns m t)) False v)"
proof -
  have "truthful (step_effect None (Some (host_effect_for m)) None (Some (interrupted_columns m t)) False v)"
    using assms unfolding resting_def truthful_def step_effect_def ended_def
    by (auto simp: interrupted_columns_def INTERRUPTED_def claimed_def outcome_on_recovery_def
        ch_dispatch_began_def split: option.splits)
  then show ?thesis
    using assms unfolding resting_def by (auto simp: step_effect_def interrupted_columns_def)
qed

lemma interrupted_fwd:
  assumes "rn_run_id r = rid" "rn_preview r = p" "m = outcome_on_recovery (ch_dispatch_began c) (ch_mutation_outcome c)"
  shows "sp (rid, d0, js0) (resting rid p g ms c)
     (if ch_mutation_outcome c = None
      then thenM (step E rid Ev_Mutation_Result (Some (ch_change_id c)) None None
                    (Some (host_effect_for m)) False (Some (interrupted_columns m)) False)
                 (reread_both rid (ch_change_id c))
      else ret (r, c))
     (\<lambda>z v. \<exists>c'. (rn_run_id (fst z) = rid \<and> snd z = c' \<and> ch_change_id c' = ch_change_id c \<and>
          ch_mutation_outcome c' = Some m) \<and> resting rid p g ms c' v) Er"
proof (rule if_fwd)
  assume n: "ch_mutation_outcome c = None"
  have e: "resting rid p g ms (interrupted_columns m t c)
     (step_effect None (Some (host_effect_for m)) None (Some (interrupted_columns m t)) False v)"
    if "resting rid p g ms c v" for t v
    by (rule interrupted_effect [OF that n]) (use assms(3) n in simp)
  have id: "ch_change_id (interrupted_columns m t c) = ch_change_id c"
    "ch_mutation_outcome (interrupted_columns m t c) = Some m" for t
    by (simp_all add: interrupted_columns_def)
  have step: "sp (rid, d0, js0) (resting rid p g ms c)
      (step E rid Ev_Mutation_Result (Some (ch_change_id c)) None None
         (Some (host_effect_for m)) False (Some (interrupted_columns m)) False)
      (\<lambda>_ v. \<exists>t. resting rid p g ms (interrupted_columns m t c) v) Er"
  proof (rule sp_pre, rule sp_step)
    fix v assume v: "resting rid p g ms c v"
    have x: "\<exists>t'. resting rid p g ms (interrupted_columns m t' c)
     (step_effect None (Some (host_effect_for m)) None (Some (interrupted_columns m t)) False v)" for t
      using e [OF v] by blast
    show "sn_run v \<noteq> None \<and>
      (Some (interrupted_columns m) \<noteq> None \<longrightarrow>
        map_option ch_change_id (sn_change v) = Some (ch_change_id c) \<and> Some (ch_change_id c) \<noteq> None) \<and>
      (\<forall>t. let v' = step_effect None (Some (host_effect_for m)) (if False then Some t else None)
              (map_option (\<lambda>u. u t) (Some (interrupted_columns m))) False v
           in truthful v' \<and> (\<exists>t. resting rid p g ms (interrupted_columns m t c) v'))"
      using v x resting.tells [OF e [OF v]] by (simp add: Let_def) (auto simp: resting_def)
  qed (simp add: keeps_keys_def interrupted_columns_def)
  show "sp (rid, d0, js0) (resting rid p g ms c)
      (thenM (step E rid Ev_Mutation_Result (Some (ch_change_id c)) None None
                    (Some (host_effect_for m)) False (Some (interrupted_columns m)) False)
             (reread_both rid (ch_change_id c)))
     (\<lambda>z v. \<exists>c'. (rn_run_id (fst z) = rid \<and> snd z = c' \<and> ch_change_id c' = ch_change_id c \<and>
          ch_mutation_outcome c' = Some m) \<and> resting rid p g ms c' v) Er"
    by (rule then_fwd, rule step, rule sp_ex, rule sp_post, rule resting.reread_both_fwd, simp add: id)
       (auto simp: id)
next
  assume n: "ch_mutation_outcome c \<noteq> None"
  show "sp (rid, d0, js0) (resting rid p g ms c) (ret (r, c))
     (\<lambda>z v. \<exists>c'. (rn_run_id (fst z) = rid \<and> snd z = c' \<and> ch_change_id c' = ch_change_id c \<and>
          ch_mutation_outcome c' = Some m) \<and> resting rid p g ms c' v) Er"
    by (rule ret_fwd) (use n assms in \<open>auto simp: outcome_on_recovery_def\<close>)
qed

definition settled :: "change_result set" where
  "settled = {CR_Failed, CR_Succeeded, CR_Recovery_Required}"

lemma settle_interrupted_fwd:
  "sp (ch_run_id c, d0, js0) (resting (ch_run_id c) p g ms c) (settle_interrupted_change E c)
     (\<lambda>x v. case x of
        None \<Rightarrow> resting (ch_run_id c) p g ms c v \<and> map_option rn_state (sn_run v) = Some RS_Guarded
      | Some c' \<Rightarrow> ch_change_id c' = ch_change_id c \<and>
          (\<exists>r. rested (ch_run_id c) p ms settled (r, c') v)) (\<lambda>_ _. False)"
  unfolding settle_interrupted_change_def
  apply (rule bind_fwd [where R = "\<lambda>r v. (rn_run_id r = ch_run_id c \<and> rn_preview r = p) \<and>
      (sn_run v = Some r \<and> resting (ch_run_id c) p g ms c v)"])
   apply (rule sp_pre, rule sp_bind, rule sp_assert, rule sp_look_run)
   apply (auto simp: resting_def)[1]
  apply (rule sp_conj, elim conjE, rule if_fwd)
   apply (rule ret_fwd, simp)
  apply (rule sp_pre [where P' = "resting (ch_run_id c) p g ms c"])
   apply (simp only: Let_def)
   apply (rule bind_fwd, rule interrupted_fwd, assumption, assumption, rule refl)
   apply (rule sp_ex, rule sp_conj, simp only: case_prod_beta, elim conjE)
   apply (rule then_fwd [where R = "\<lambda>v. \<exists>z. rested (ch_run_id c) p ms settled z v \<and>
        ch_change_id (snd z) = ch_change_id c"])
    apply (rule if_fwd)
     apply (rule sp_post, (rule finish_rest [where R = settled]; simp add: fits_def settled_def)[1], force)
    apply (rule if_fwd)
     apply (rule sp_post,
        (rule finish_rest [where R = settled]; simp add: fits_def settled_def guarded_preview)[1], force)
    apply (rule sp_post, (rule recover_rest [where R = settled]; simp add: settled_def)[1], force)
   apply (rule sp_pre, rule sp_bind, rule sp_ret, rule sp_require_change)
   apply (auto simp: rested_def)
  done

end
