(* ===== verification/Sample_System.thy ===== *)
theory Sample_System
  imports Change_Engine
begin

text \<open>
  A small system the properties of the change engine are instantiated on: one host, one interface
  with MTU 1400 whose intent wants 1500, and a run whose plan was published and confirmed. The
  world says whether the object is in the inventory.
\<close>

definition sample_object :: object_record where
  "sample_object = \<lparr>oj_object_id = ''eth1'', oj_host_id = ''h'', oj_kind = ''network_interface'',
     oj_identity_basis = ''mac'', oj_identity_value = ''m'', oj_identity_confidence = ''high'',
     oj_display_name = ''eth1'', oj_management_state = ''managed'', oj_management_reason = [],
     oj_active_intent_id = Some ''i1'', oj_first_seen_at = ''t0'', oj_last_seen_at = ''t1'',
     oj_observation = Some \<lparr>ob_observation_id = ''o2'', ob_sweep_id = ''s2'',
       ob_capability = ''network.observe'', ob_provider = ''linux-network'',
       ob_provider_version = ''1'', ob_method = ''netlink'', ob_fidelity = ''full'',
       ob_observed_at = ''t2'', ob_received_at = ''t2'', ob_health_state = ''healthy'',
       ob_health_reason = [], ob_gaps = [], ob_facts = []\<rparr>\<rparr>"

definition sample_report :: "mutation_outcome \<Rightarrow> string \<Rightarrow> mutation_report" where
  "sample_report m attempt = \<lparr>rep_outcome = m, rep_reason = ''sample'', rep_attempt_id = attempt,
     rep_provider = Some ''localplane-helper'', rep_provider_version = None, rep_method = None,
     rep_detail = []\<rparr>"

definition sample_guard_report :: "guard_phase \<Rightarrow> guard_report" where
  "sample_guard_report ph = \<lparr>grp_phase = ph, grp_holder_id = Some ''holder'', grp_fired_at = None,
     grp_mutation = None, grp_reason = None, grp_detail = []\<rparr>"

text \<open>
  An executor that answers \<open>m\<close> to every mutation and \<open>v\<close> to every question of proof; an
  observation leaves the world as \<open>after\<close> says.
\<close>

definition sample_executor ::
  "mutation_outcome \<Rightarrow> verification_outcome \<Rightarrow> (bool \<Rightarrow> bool) \<Rightarrow> bool operation_executor" where
  "sample_executor m v after =
     \<lparr>xc_correlate = \<lambda>_ w. (Inr [], w),
      xc_mutate = \<lambda>q w. (sample_report m (mr_attempt_id q), w),
      xc_observe = \<lambda>y w. (\<lparr>oa_record = Some y, oa_failure = None, oa_detail = []\<rparr>, after w),
      xc_prove = \<lambda>_ _. \<lparr>pos_outcome = v, pos_value = Some (VInt 1400), pos_state = None, pos_reason = None\<rparr>,
      xc_arm_guard = \<lambda>_ w. (Inr \<lparr>gar_holder_id = ''holder'', gar_expires_at = ''t9'', gar_detail = []\<rparr>, w),
      xc_disarm_guard = \<lambda>_ w. (sample_guard_report GP_Disarmed, w),
      xc_guard_status = \<lambda>_ w. (sample_guard_report GP_Armed, w)\<rparr>"

primrec sample_uuid :: "nat \<Rightarrow> string" where
  "sample_uuid 0 = []"
| "sample_uuid (Suc n) = CHR ''i'' # sample_uuid n"

definition sample_env ::
  "mutation_outcome \<Rightarrow> verification_outcome \<Rightarrow> (bool \<Rightarrow> bool) \<Rightarrow> bool engine_env" where
  "sample_env m v after =
     \<lparr>ev_now = \<lambda>_. 7, ev_text = \<lambda>_. ''now'', ev_instant = \<lambda>_. 7, ev_uuid = sample_uuid,
      ev_object = \<lambda>w i. if w \<and> i = ''eth1'' then Some sample_object else None,
      ev_replan = \<lambda>_ _ _ _ _. Inr sample_plan, ev_published_plan = \<lambda>_. sample_plan,
      ev_definition = \<lambda>_. sample_definition, ev_digest = \<lambda>_. ''digest'',
      ev_executors = \<lambda>_. Some (sample_executor m v after)\<rparr>"

definition sample_preview :: run_preview where
  "sample_preview = \<lparr>rv_preview_id = ''prv_1'', rv_preview_digest = ''digest'', rv_digest_version = 6,
     rv_operation = ''network.interface.reconcile_mtu'', rv_change_kind = CHANGE_KIND_FIELD,
     rv_field = Some ''mtu'', rv_value_type = Some VT_Integer, rv_current_value = Some (VInt 1400),
     rv_desired_value = Some (VInt 1500), rv_action = None, rv_observed_state = None,
     rv_expected_state = None, rv_intent_id = Some ''i1'', rv_intent_version = Some 1,
     rv_observation_id = ''o1'', rv_observed_at = ''t1'',
     rv_protection_management_path = Not_On_Management_Path, rv_protection_evidence_id = None,
     rv_confirmation_method = CM_Acknowledge, rv_confirmation_policy = [],
     rv_execution_availability = XA_Available, rv_execution_eligibility = XE_Eligible,
     rv_guard_window_s = 120, rv_verification_capability = ''network.observe'',
     rv_verification_provider = ''linux-network''\<rparr>"

definition sample_run :: run_record where
  "sample_run = \<lparr>rn_run_id = ''run_1'', rn_host_id = ''h'', rn_object_id = ''eth1'',
     rn_operation = ''network.interface.reconcile_mtu'', rn_state = RS_Preview,
     rn_host_effect = HE_None, rn_created_at = 1, rn_cancelled_at = None, rn_finished_at = None,
     rn_preview = sample_preview\<rparr>"

definition sample_confirmation :: confirmation_record where
  "sample_confirmation = confirmation_row sample_run ''cnf_1'' CP_Apply CM_Acknowledge CM_Acknowledge None 2"

definition sample_db :: database where
  "sample_db = \<lparr>db_runs = [sample_run], db_confirmations = [sample_confirmation], db_checkpoints = [],
     db_changes = [], db_attempts = [], db_events = [], db_guards = [], db_locks = []\<rparr>"

definition sample_state :: "bool engine_state" where
  "sample_state = \<lparr>es_db = sample_db, es_world = True, es_ids = 0, es_journal = []\<rparr>"

section \<open>Reading it\<close>

lemma sample_env_simps:
  "ev_now (sample_env m v after) w = 7" "ev_text (sample_env m v after) t = ''now''"
  "ev_uuid (sample_env m v after) n = sample_uuid n"
  "ev_object (sample_env m v after) w i = (if w \<and> i = ''eth1'' then Some sample_object else None)"
  "ev_executors (sample_env m v after) x = Some (sample_executor m v after)"
  "ev_definition (sample_env m v after) x = sample_definition"
  "xc_correlate (sample_executor m v after) ob w = (Inr [], w)"
  "xc_mutate (sample_executor m v after) q w = (sample_report m (mr_attempt_id q), w)"
  "xc_observe (sample_executor m v after) ob w =
     (\<lparr>oa_record = Some ob, oa_failure = None, oa_detail = []\<rparr>, after w)"
  "xc_prove (sample_executor m v after) fs ex =
     \<lparr>pos_outcome = v, pos_value = Some (VInt 1400), pos_state = None, pos_reason = None\<rparr>"
  by (simp_all add: sample_env_def sample_executor_def)

end
