(* ===== verification/Engine_Sample.thy ===== *)
theory Engine_Sample
  imports Engine_Rest Sample_System
begin

text \<open>
  The methods of the change engine evaluated on the system of \<open>Sample_System\<close>: the applies and
  retries the witnesses of the engine's properties rest on.
\<close>

section \<open>Evaluating it\<close>

lemma sample_plan_now:
  assumes "rn_operation r = ''network.interface.reconcile_mtu''" "rn_preview r = sample_preview"
  shows "plan_now (sample_env m v after) r mp (Some ob) ctx s = (Inr sample_plan, s)"
  using assms
  by (simp add: plan_now_def operation_type_of_def operation_of_def OPERATIONS_def bindM_def
      thenM_def ret_def world_def sample_env_def assess_validity_def plan_digest_def demand_def
      sample_preview_def sample_plan_def sample_protection_def requires_self_impact_override_def
      is_guarded_def required_relation_def permitted_eligibility_def)

lemmas run_monad = bindM_def thenM_def ret_def fail_def demand_def assertM_def lift_def look_def
  world_def modify_def put_def insert_row_def new_id_def now_def ask_def ask_logged_def
  transaction_def catch_refusal_def catch_all_def

lemmas run_methods = append_event_def reread_def require_change_def state_of_def set_state_def
  update_change_def release_lock_def step_def executor_of_def operation_type_of_def
  require_target_def require_executable_preview_def acquire_lock_def acquire_def consume_def
  spend_def consume_confirmation_def admit_def refuse_apply_def ask_correlation_def
  write_checkpoint_def arm_def prepare_def cross_def ask_mutate_def dispatch_def settle_change_def
  read_back_def reread_both_def verify_def finish_def conclude_def release_guard_def

lemmas run_tables = runs_get_def runs_set_state_def locks_for_run_def locks_acquire_def
  locks_release_def confirmations_for_run_def confirmations_consume_def checkpoints_insert_def
  checkpoints_for_run_def changes_insert_def changes_get_def changes_update_def events_append_def
  update_where_simps

lemmas run_columns = checkpoint_row_def change_row_def change_identity_columns_def
  outcome_columns_def verification_columns_def apply_request_def applied_expectation_def
  required_column_def typed_column_def bindE_def vo_proved_def sample_report_def
  requires_self_impact_override_def is_guarded_def arms_recovery_def appliable_def
  CANCELLABLE_STATES_def lock_aspect_def operation_of_def OPERATIONS_def write_lock_key_def
  oa_taken_def or_text_def preview_executable_def cn_consumed_def CHANGE_KIND_FIELD_def
  CHANGE_KIND_ACTION_def Let_def

lemmas sample_values = sample_state_def sample_db_def sample_run_def sample_preview_def
  sample_confirmation_def confirmation_row_def sample_object_def

text \<open>Where a journal entry is a mutation, how the change stood in the store it left from.\<close>

fun mark :: "entry \<Rightarrow> change_result option option" where
  "mark (Mutated d _ _) = Some (map_option ch_result (changes_for_run ''run_1'' (db_changes d)))"
| "mark _ = None"

abbreviation "sample_trace \<equiv>
  (\<lambda>(res, t). (map_sum id (\<lambda>(r, c). (rn_state r, ch_result c)) res, map mark (es_journal t)))"

text \<open>An apply that succeeds: its ending, and the journal it leaves.\<close>

lemma sample_apply_run:
  "sample_trace
     (apply_run (sample_env MO_Written VO_Verified id) sample_run sample_verdict None sample_state) =
   (Inr (RS_Succeeded, CR_Succeeded),
    [None, None, None, None, None, None, Some (Some CR_In_Flight), None, None, None, None])"
  apply (simp add: apply_run_def executor_of_def)
  apply (simp add: sample_run_def operation_of_def OPERATIONS_def sample_env_simps run_monad)
  apply (simp add: sample_values sample_env_simps run_monad run_methods run_tables run_columns
      changes_for_run_def sample_plan_now)
  done

section \<open>The guarded run\<close>

text \<open>The same interface carrying the operator's connection: the plan is guarded.\<close>

definition guarded_plan :: run_plan where
  "guarded_plan = sample_plan
     \<lparr>rp_protection := sample_protection\<lparr>pa_management_path := On_Management_Path\<rparr>,
      rp_execution := (rp_execution sample_plan)\<lparr>xas_eligibility := XE_Guarded\<rparr>\<rparr>"

definition guarded_env ::
  "mutation_outcome \<Rightarrow> verification_outcome \<Rightarrow> (bool \<Rightarrow> bool) \<Rightarrow> bool engine_env" where
  "guarded_env m v after = (sample_env m v after)
     \<lparr>ev_replan := \<lambda>_ _ _ _ _. Inr guarded_plan, ev_published_plan := \<lambda>_. guarded_plan\<rparr>"

definition guarded_run :: run_record where
  "guarded_run = sample_run\<lparr>rn_preview := sample_preview
     \<lparr>rv_protection_management_path := On_Management_Path,
      rv_execution_eligibility := XE_Guarded\<rparr>\<rparr>"

definition guarded_state :: "bool engine_state" where
  "guarded_state = sample_state\<lparr>es_db := sample_db\<lparr>db_runs := [guarded_run]\<rparr>\<rparr>"

lemma guarded_env_simps:
  "ev_now (guarded_env m v after) w = 7" "ev_text (guarded_env m v after) t = ''now''"
  "ev_uuid (guarded_env m v after) n = sample_uuid n"
  "ev_object (guarded_env m v after) w i = (if w \<and> i = ''eth1'' then Some sample_object else None)"
  "ev_executors (guarded_env m v after) x = Some (sample_executor m v after)"
  "xc_arm_guard (sample_executor m v after) g w =
     (Inr \<lparr>gar_holder_id = ''holder'', gar_expires_at = ''t9'', gar_detail = []\<rparr>, w)"
  by (simp_all add: guarded_env_def sample_env_simps, simp_all add: sample_executor_def)

lemma guarded_plan_now:
  assumes "rn_operation r = ''network.interface.reconcile_mtu''"
    "rn_preview r = rn_preview guarded_run"
  shows "plan_now (guarded_env m v after) r mp (Some ob) ctx s = (Inr guarded_plan, s)"
  using assms
  by (simp add: plan_now_def operation_type_of_def operation_of_def OPERATIONS_def bindM_def
      thenM_def ret_def world_def guarded_env_def sample_env_def assess_validity_def plan_digest_def
      demand_def guarded_run_def sample_preview_def sample_plan_def guarded_plan_def
      sample_protection_def requires_self_impact_override_def is_guarded_def required_relation_def
      permitted_eligibility_def)

lemma guarded_apply_run:
  "sample_trace
     (apply_run (guarded_env MO_Written VO_Verified id) guarded_run sample_verdict None guarded_state) =
   (Inr (RS_Guarded, CR_In_Flight),
    [None, None, None, None, None, None, None, None, None, Some (Some CR_In_Flight),
     None, None, None, None])"
  apply (simp add: apply_run_def executor_of_def)
  apply (simp add: guarded_run_def sample_run_def operation_of_def OPERATIONS_def
      guarded_env_simps run_monad)
  apply (simp add: guarded_state_def guarded_run_def sample_values sample_env_simps
      guarded_env_simps run_monad run_methods run_tables run_columns changes_for_run_def
      guarded_plan_now arm_guard_def guards_insert_def guards_update_def guards_get_def guard_row_def
      hold_def update_guard_def)
  done

text \<open>The change a marked entry of the journal holds.\<close>

lemma mark_mutated:
  assumes "mark e = Some (Some x)"
  obtains d q rep c where "e = Mutated d q rep" "changes_for_run ''run_1'' (db_changes d) = Some c"
    "ch_result c = x"
  using assms that by (cases e) auto

lemma marked_at:
  assumes "map mark js = ms" "i < length ms" "ms ! i = Some (Some x)"
  obtains d q rep c where "js ! i = Mutated d q rep"
    "changes_for_run ''run_1'' (db_changes d) = Some c" "ch_result c = x" "i < length js"
proof -
  have l: "i < length js" using assms(1,2) by auto
  have "mark (js ! i) = Some (Some x)" using assms l by auto
  then show ?thesis by (rule mark_mutated) (use that l in blast)
qed

end
