(* ===== verification/Engine_Properties.thy ===== *)
theory Engine_Properties
  imports Engine_Sample
begin

text \<open>
  What the change engine promises (\<open>src/localplane/backend/changes.py\<close>), over its methods as they
  run: from a state, to a result and a state. \<open>journal_since\<close> is what a call added to the
  journal; \<open>snapshot_of\<close> reads the store about one run.
\<close>

section \<open>From the specifications to runs\<close>

definition journal_since :: "'w engine_state \<Rightarrow> 'w engine_state \<Rightarrow> entry list" where
  "journal_since s s' = drop (length (es_journal s)) (es_journal s')"

definition seen :: "string \<Rightarrow> 'w engine_state \<Rightarrow> 'w engine_state \<Rightarrow> snapshot" where
  "seen rid s s' = snapshot_of rid (es_db s') (journal_since s s')"

lemma sp_from:
  assumes "sp (rid, es_db s, js0) P m Q Er" "unique_rows (es_db s)" "es_journal s = js0 @ jp"
    "journal_ok rid jp" "P (snapshot_of rid (es_db s) jp)" "m s = (res, s')"
  obtains js where "es_journal s' = js0 @ js" "journal_ok rid js" "unique_rows (es_db s')"
    "same_elsewhere rid (es_db s) (es_db s')"
    "case res of Inl e \<Rightarrow> Er e (snapshot_of rid (es_db s') js)
       | Inr x \<Rightarrow> Q x (snapshot_of rid (es_db s') js)"
proof -
  have h: "holds rid (es_db s) js0 P s"
    using assms(2-5) by (auto simp: holds_def)
  have "case res of Inl e \<Rightarrow> holds rid (es_db s) js0 (Er e) s'
      | Inr x \<Rightarrow> holds rid (es_db s) js0 (Q x) s'"
    using assms(1) h assms(6) unfolding sp_def spec_def
    by (auto split: prod.splits sum.splits dest!: spec [of _ s])
  then obtain R where "holds rid (es_db s) js0 R s'"
    "R = (case res of Inl e \<Rightarrow> Er e | Inr x \<Rightarrow> Q x)"
    by (cases res) auto
  then show ?thesis using that by (cases res) (auto simp: holds_def)
qed

lemma sp_run:
  assumes "sp (rid, es_db s, es_journal s) P m Q Er" "unique_rows (es_db s)"
    "P (snapshot_of rid (es_db s) [])" "m s = (res, s')"
  shows "es_journal s' = es_journal s @ journal_since s s'" "journal_ok rid (journal_since s s')"
    "unique_rows (es_db s')" "same_elsewhere rid (es_db s) (es_db s')"
    "case res of Inl e \<Rightarrow> Er e (seen rid s s') | Inr x \<Rightarrow> Q x (seen rid s s')"
proof -
  obtain js where js: "es_journal s' = es_journal s @ js" "journal_ok rid js" "unique_rows (es_db s')"
    "same_elsewhere rid (es_db s) (es_db s')"
    "case res of Inl e \<Rightarrow> Er e (snapshot_of rid (es_db s') js)
       | Inr x \<Rightarrow> Q x (snapshot_of rid (es_db s') js)"
    by (rule sp_from [OF assms(1,2) _ _ _ assms(4), of "[]"]) (use assms(3) in simp_all)
  moreover have "js = journal_since s s'" using js(1) by (simp add: journal_since_def)
  ultimately show "es_journal s' = es_journal s @ journal_since s s'"
    "journal_ok rid (journal_since s s')" "unique_rows (es_db s')"
    "same_elsewhere rid (es_db s) (es_db s')"
    "case res of Inl e \<Rightarrow> Er e (seen rid s s') | Inr x \<Rightarrow> Q x (seen rid s s')"
    by (auto simp: seen_def split: sum.splits)
qed

text \<open>A run that may be applied: it wrote nothing yet and holds no lock.\<close>

definition startable :: "run_record \<Rightarrow> 'w engine_state \<Rightarrow> bool" where
  "startable run s \<longleftrightarrow>
     unique_rows (es_db s) \<and> runs_get (rn_run_id run) (db_runs (es_db s)) = Some run \<and>
     changes_for_run (rn_run_id run) (db_changes (es_db s)) = None \<and>
     locks_for_run (rn_run_id run) (db_locks (es_db s)) = None"

lemma startable_before:
  "startable run s \<Longrightarrow> before (rn_run_id run) run (snapshot_of (rn_run_id run) (es_db s) []) \<and>
     sn_lock (snapshot_of (rn_run_id run) (es_db s) []) = None"
  by (simp add: startable_def before_def snapshot_of_def)

lemmas apply_sp = sp_run [OF apply_fwd [OF refl] _ startable_before]

lemma startable_unique: "startable run s \<Longrightarrow> unique_rows (es_db s)"
  by (simp add: startable_def)

lemmas applied = apply_sp [OF startable_unique]

lemma sample_startable: "startable sample_run sample_state"
  by (simp add: startable_def sample_values unique_rows_def runs_get_def changes_for_run_def
      locks_for_run_def)

text \<open>The journal of the sample's apply, and the mutation in it.\<close>

lemma sample_journal:
  obtains r c t d q rep k where
    "apply_run (sample_env MO_Written VO_Verified id) sample_run sample_verdict None sample_state =
       (Inr (r, c), t)"
    "rn_state r = RS_Succeeded" "ch_result c = CR_Succeeded"
    "journal_since sample_state t = es_journal t" "6 < length (es_journal t)"
    "es_journal t ! 6 = Mutated d q rep" "changes_for_run ''run_1'' (db_changes d) = Some k"
    "ch_result k = CR_In_Flight"
proof -
  obtain res t where a: "apply_run (sample_env MO_Written VO_Verified id) sample_run sample_verdict
      None sample_state = (res, t)" by (cases "apply_run (sample_env MO_Written VO_Verified id)
      sample_run sample_verdict None sample_state")
  have m: "map mark (es_journal t) =
      [None, None, None, None, None, None, Some (Some CR_In_Flight), None, None, None, None]"
    and r: "map_sum id (\<lambda>(r, c). (rn_state r, ch_result c)) res = Inr (RS_Succeeded, CR_Succeeded)"
    using sample_apply_run a by simp_all
  obtain d q rep k where "es_journal t ! 6 = Mutated d q rep"
    "changes_for_run ''run_1'' (db_changes d) = Some k" "ch_result k = CR_In_Flight"
    "6 < length (es_journal t)"
    by (rule marked_at [OF m, of 6 CR_In_Flight]) simp_all
  then show ?thesis using that a r by (cases res) (auto simp: journal_since_def sample_state_def)
qed

section \<open>Applying\<close>



text \<open>
  C2. Wherever \<open>apply\<close> stops, at any commit or right after any mutation, the store it leaves tells
  the truth about the host: the outcome it records is the executor's, nothing was sent that it
  does not announce, an ending is one its evidence allows, and the lock is held exactly while the
  change is in flight or in recovery.
\<close>

theorem apply_truthful_wherever_it_stops:
  assumes "startable run s" "apply_run E run mp ctx s = (res, s')"
    and "i < length (journal_since s s')" "stopped_at (journal_since s s' ! i) = Some d"
  shows "truthful (snapshot_of (rn_run_id run) d (take (Suc i) (journal_since s s')))"
  using stopped_truthful [OF applied(2) [OF assms(1,1,2)] assms(3,4)] .

theorem apply_truthful_wherever_it_stops_witness:
  "\<exists>(s' :: bool engine_state) d q rep. es_journal s' ! 6 = Mutated d q rep \<and>
     truthful (snapshot_of ''run_1'' d (take 7 (es_journal s')))"
proof (rule sample_journal)
  fix r c t d q rep
  assume a: "apply_run (sample_env MO_Written VO_Verified id) sample_run sample_verdict None
      sample_state = (Inr (r, c), t)"
    and j: "journal_since sample_state t = es_journal t" "6 < length (es_journal t)"
    and e: "es_journal t ! 6 = Mutated d q rep"
  have "truthful (snapshot_of (rn_run_id sample_run) d (take (Suc 6) (journal_since sample_state t)))"
    by (rule apply_truthful_wherever_it_stops [OF sample_startable a]) (use j e in simp_all)
  then show ?thesis using e j by (simp add: sample_run_def) blast
qed

text \<open>What the result of a change means, in the store and of the mutations sent.\<close>

definition result_means ::
  "run_record \<Rightarrow> change_record \<Rightarrow> snapshot \<Rightarrow> bool" where
  "result_means r c v \<longleftrightarrow>
     sn_run v = Some r \<and> sn_change v = Some c \<and> length (sn_muts v) \<le> 2 \<and>
     (case ch_result c of
        CR_In_Flight \<Rightarrow> rn_state r = RS_Guarded \<and> is_guarded r \<and> guard_holds (sn_guard v) \<and>
          claimed MO_Written (sn_muts v) \<and> ch_verification_outcome c = VO_Verified \<and>
          sn_lock v \<noteq> None
      | CR_Failed \<Rightarrow> rn_state r = RS_Failed \<and> claimed MO_Not_Written (sn_muts v) \<and> sn_lock v = None
      | CR_Succeeded \<Rightarrow> rn_state r = RS_Succeeded \<and> \<not> is_guarded r \<and>
          claimed MO_Written (sn_muts v) \<and> ch_verification_outcome c = VO_Verified \<and>
          sn_lock v = None
      | CR_Rolled_Back \<Rightarrow> rn_state r = RS_Rolled_Back \<and>
          ch_rollback_verification_outcome c = VO_Verified \<and> sn_lock v = None
      | CR_Recovery_Required \<Rightarrow> rn_state r = RS_Recovery_Required \<and>
          ch_recovery_reason c \<noteq> None \<and> sn_lock v \<noteq> None)"

lemma concluded_means:
  assumes "concluded rid p (r, c) v"
  shows "result_means r c v"
proof -
  have t: "truthful v" "sn_run v = Some r" "sn_change v = Some c"
    using assms by (auto simp: concluded_def final_def)
  then show ?thesis
    using assms unfolding concluded_def result_means_def truthful_def ended_def holds_lock_def
    by (auto split: option.splits change_result.splits)
qed

text \<open>
  C6. An \<open>apply\<close> that returns has settled the run for good or left it to its guard, and what the
  result says is so: succeeded means written and verified, failed means nothing was written, rolled
  back means the value found was read back, and anything less certain is an open recovery that
  keeps the object locked.
\<close>

theorem apply_result_means_what_it_says:
  assumes "startable run s" "apply_run E run mp ctx s = (Inr (r, c), s')"
  shows "result_means r c (seen (rn_run_id run) s s')"
proof -
  have "concluded (rn_run_id run) (rn_preview run) (r, c) (seen (rn_run_id run) s s')"
    using applied(5) [OF assms(1,1,2)] by simp
  then show ?thesis by (rule concluded_means)
qed

theorem apply_result_means_what_it_says_witness:
  "\<exists>r c v. ch_result c = CR_Succeeded \<and> rn_state r = RS_Succeeded \<and> result_means r c v"
proof (rule sample_journal)
  fix r c t
  assume a: "apply_run (sample_env MO_Written VO_Verified id) sample_run sample_verdict None
      sample_state = (Inr (r, c), t)" "rn_state r = RS_Succeeded" "ch_result c = CR_Succeeded"
  show ?thesis
    using apply_result_means_what_it_says [OF sample_startable a(1)] a(2,3) by blast
qed

text \<open>
  C8. A refused \<open>apply\<close> did nothing: no change was created, no mutation sent, and the run holds no
  lock.
\<close>

theorem refused_apply_did_nothing:
  assumes "startable run s" "apply_run E run mp ctx s = (Inl (Refused code), s')"
  shows "changes_for_run (rn_run_id run) (db_changes (es_db s')) = None \<and>
    muts (journal_since s s') = [] \<and> locks_for_run (rn_run_id run) (db_locks (es_db s')) = None"
  using applied(5) [OF assms(1,1,2)] by (simp add: quiet_def seen_def snapshot_of_def)

text \<open>A world without the object: the run is refused after it took the lock.\<close>

lemma sample_refusal:
  "(\<lambda>(res, t). (res, map mark (es_journal t)))
     (apply_run (sample_env MO_Written VO_Verified id) sample_run sample_verdict None
        (sample_state\<lparr>es_world := False\<rparr>)) =
   (Inl (Refused ''object_not_found''), [None, None])"
  apply (simp add: apply_run_def executor_of_def)
  apply (simp add: sample_run_def operation_of_def OPERATIONS_def sample_env_simps run_monad)
  apply (simp add: sample_values sample_env_simps run_monad run_methods run_tables run_columns)
  done

theorem refused_apply_did_nothing_witness:
  "\<exists>s'. apply_run (sample_env MO_Written VO_Verified id) sample_run sample_verdict None
        (sample_state\<lparr>es_world := False\<rparr>) = (Inl (Refused ''object_not_found''), s') \<and>
     locks_for_run ''run_1'' (db_locks (es_db s')) = None"
proof -
  obtain res t where a: "apply_run (sample_env MO_Written VO_Verified id) sample_run sample_verdict
      None (sample_state\<lparr>es_world := False\<rparr>) = (res, t)"
    by (cases "apply_run (sample_env MO_Written VO_Verified id) sample_run sample_verdict
      None (sample_state\<lparr>es_world := False\<rparr>)")
  then have r: "res = Inl (Refused ''object_not_found'')" using sample_refusal by simp
  have "startable sample_run (sample_state\<lparr>es_world := False\<rparr>)"
    using sample_startable by (simp add: startable_def)
  from refused_apply_did_nothing [OF this a [unfolded r]] show ?thesis
    using a r by (simp add: sample_run_def)
qed



section \<open>After a restart\<close>

lemma in_flight_resting:
  assumes "truthful v" "v = snapshot_of rid d js" "changes_for_run rid (db_changes d) = Some c"
    "ch_result c = CR_In_Flight"
  shows "\<exists>p. ch_run_id c = rid \<and> resting (ch_run_id c) p (sn_guard v) (muts js) c v"
proof -
  have c: "sn_change v = Some c" "ch_run_id c = rid" "sn_muts v = muts js"
    using assms by (auto simp: snapshot_of_def changes_for_run_def find_Some_iff)
  then obtain r where r: "sn_run v = Some r"
    using assms(1) unfolding truthful_def by (auto split: option.splits)
  then have "rn_run_id r = rid"
    using assms(2) by (auto simp: snapshot_of_def runs_get_def find_Some_iff)
  then show ?thesis using c r assms(1,4) by (auto simp: resting_def)
qed

lemma settled_means:
  assumes "truthful v" "sn_change v = Some c" "ch_result c \<in> settled"
  shows "ch_result c = CR_Failed \<and> claimed MO_Not_Written (sn_muts v) \<and> sn_lock v = None \<or>
    ch_result c = CR_Succeeded \<and> claimed MO_Written (sn_muts v) \<and>
      ch_verification_outcome c = VO_Verified \<and> sn_lock v = None \<or>
    ch_result c = CR_Recovery_Required \<and> ch_recovery_reason c \<noteq> None \<and> sn_lock v \<noteq> None"
proof -
  obtain r where r: "sn_run v = Some r" "ended c r" "(sn_lock v \<noteq> None) = holds_lock (ch_result c)"
    using assms(1,2) unfolding truthful_def by (auto split: option.splits)
  have m: "ch_mutation_outcome c = Some m \<Longrightarrow> claimed m (sn_muts v)" for m
    using assms(1,2) unfolding truthful_def by simp
  from assms(3) r(2,3) m show ?thesis
    unfolding settled_def ended_def holds_lock_def by auto
qed



section \<open>Keeping a guarded change\<close>

lemma guarded_startable: "startable guarded_run guarded_state"
  by (simp add: startable_def guarded_state_def guarded_run_def sample_values unique_rows_def
      runs_get_def changes_for_run_def locks_for_run_def)

lemma truthful_lock:
  assumes "truthful v" "sn_change v = Some c"
  shows "(sn_lock v \<noteq> None) = holds_lock (ch_result c)"
  using assms by (auto simp: truthful_def)

lemma kept_means:
  assumes "rested rid p ms {CR_Succeeded, CR_Rolled_Back, CR_Recovery_Required} (r, c) v"
    "rv_execution_eligibility p = XE_Guarded"
  shows "ch_result c = CR_Succeeded \<and> guard_kept (sn_guard v) \<and> sn_lock v = None \<or>
    ch_result c = CR_Rolled_Back \<and> ch_rollback_verification_outcome c = VO_Verified \<and>
      sn_lock v = None \<or>
    ch_result c = CR_Recovery_Required \<and> sn_lock v \<noteq> None"
proof -
  have v: "truthful v" "sn_change v = Some c" "sn_run v = Some r" "is_guarded r"
    "ch_result c \<in> {CR_Succeeded, CR_Rolled_Back, CR_Recovery_Required}"
    using assms by (auto simp: rested_def guarded_preview)
  then have "ended c r" "ch_result c = CR_Succeeded \<Longrightarrow> guard_kept (sn_guard v)"
    by (auto simp: truthful_def)
  then show ?thesis using v(5) truthful_lock [OF v(1,2)] by (auto simp: ended_def holds_lock_def)
qed

lemma held_by_guard:
  assumes "concluded rid p (r, c) v" "ch_result c = CR_In_Flight"
  obtains g where "resting rid p (Some g) (sn_muts v) c v" "length (sn_muts v) = 1"
    "ch_mutation_outcome c = Some MO_Written" "ch_verification_outcome c = VO_Verified"
    "guard_holds (Some g)" "rv_execution_eligibility p = XE_Guarded" "rn_run_id r = rid"
    "sn_run v = Some r"
proof -
  show ?thesis
    using assms that by (auto simp: concluded_def guarded_preview final_def resting_def
        guard_holds_def split: option.splits)
qed


lemma guarded_journal:
  obtains r c t where
    "apply_run (guarded_env MO_Written VO_Verified id) guarded_run sample_verdict None guarded_state =
       (Inr (r, c), t)"
    "rn_state r = RS_Guarded" "ch_result c = CR_In_Flight"
proof -
  obtain res t where a: "apply_run (guarded_env MO_Written VO_Verified id) guarded_run sample_verdict
      None guarded_state = (res, t)" by (cases "apply_run (guarded_env MO_Written VO_Verified id)
      guarded_run sample_verdict None guarded_state")
  then have "map_sum id (\<lambda>(r, c). (rn_state r, ch_result c)) res = Inr (RS_Guarded, CR_In_Flight)"
    using guarded_apply_run by simp
  then show ?thesis using that a by (cases res) auto
qed


section \<open>Refusing\<close>

text \<open>
  C11. Whatever refuses the admission of a run, its own lock is let go; also when it is another
  \<open>apply\<close> of the same run that took the lock and still needs it.
\<close>

theorem refusal_lets_the_lock_go:
  assumes "catch_refusal (admit E r mp ctx) (refuse_apply E (rn_run_id r)) s = (Inl (Refused code), s')"
  shows "locks_for_run (rn_run_id r) (db_locks (es_db s')) = None"
  using assms unfolding catch_refusal_cases
  by (auto simp: refuse_apply_def thenM_def bindM_def transaction_def append_event_def
      release_lock_def modify_def new_id_def now_def world_def fail_def
      split: prod.splits sum.splits engine_error.splits)

text \<open>
  A second \<open>apply\<close> of the run took the lock as its own, spent the confirmation and moved the run to
  arming; the first, which read the run before, is refused and takes the lock away from it.
\<close>

definition racing_state :: "bool engine_state" where
  "racing_state = sample_state\<lparr>es_db := sample_db
     \<lparr>db_runs := [sample_run\<lparr>rn_state := RS_Arming\<rparr>],
      db_confirmations := [sample_confirmation\<lparr>cn_consumed_at := Some 6,
        cn_consumed_by_attempt_id := Some ''att_2''\<rparr>],
      db_locks := [\<lparr>wl_lock_key = ''h|eth1|mtu'', wl_host_id = ''h'', wl_object_id = ''eth1'',
        wl_field = ''mtu'', wl_run_id = ''run_1'', wl_acquired_at = 5\<rparr>]\<rparr>\<rparr>"

lemma sample_race:
  "(\<lambda>(res, t). (map_sum id (\<lambda>_. ()) res, map rn_state (db_runs (es_db t))))
     (catch_refusal (admit (sample_env MO_Written VO_Verified id)
          (sample_run\<lparr>rn_state := RS_Awaiting_Confirmation\<rparr>) sample_verdict None)
        (refuse_apply (sample_env MO_Written VO_Verified id) ''run_1'') racing_state) =
   (Inl (Refused ''confirmation_already_consumed''), [RS_Arming])"
  by (simp add: racing_state_def sample_values sample_env_simps run_monad run_methods run_tables
      run_columns sample_plan_now)

theorem refusal_lets_the_lock_go_witness:
  "\<exists>s'. locks_for_run ''run_1'' (db_locks (es_db racing_state)) \<noteq> None \<and>
     map rn_state (db_runs (es_db (s' :: bool engine_state))) = [RS_Arming] \<and>
     locks_for_run ''run_1'' (db_locks (es_db s')) = None"
proof -
  let ?r = "sample_run\<lparr>rn_state := RS_Awaiting_Confirmation\<rparr>"
  let ?m = "catch_refusal (admit (sample_env MO_Written VO_Verified id) ?r sample_verdict None)
        (refuse_apply (sample_env MO_Written VO_Verified id) (rn_run_id ?r))"
  obtain res t where m: "?m racing_state = (res, t)" by (cases "?m racing_state")
  have i: "rn_run_id ?r = ''run_1''" by (simp add: sample_run_def)
  have r: "res = Inl (Refused ''confirmation_already_consumed'')"
    "map rn_state (db_runs (es_db t)) = [RS_Arming]"
    using sample_race m by (cases res; simp add: i)+
  have "locks_for_run ''run_1'' (db_locks (es_db t)) = None"
    using refusal_lets_the_lock_go [OF m [unfolded r(1)]] i by simp
  moreover have "locks_for_run ''run_1'' (db_locks (es_db racing_state)) \<noteq> None"
    by (simp add: racing_state_def sample_state_def locks_for_run_def)
  ultimately show ?thesis using r(2) by (intro exI [of _ t]) simp
qed

end
