(* ===== verification/Recovery_Properties.thy ===== *)
theory Recovery_Properties
  imports Engine_Sample
begin

text \<open>
  What recovery promises (\<open>src/localplane/backend/changes.py\<close>, \<open>recovery_retry\<close> and what it calls):
  at most one mutation, only under a recovery confirmation spent for it and with the hold in place,
  and a release of the hold only on proof.
\<close>

section \<open>Methods that say nothing\<close>

text \<open>\<open>tame\<close>: the store and the journal stay; \<open>mute\<close>: no mutation is sent.\<close>

definition tame :: "('w, 'a) engine \<Rightarrow> bool" where
  "tame m \<longleftrightarrow> (\<forall>s r s'. m s = (r, s') \<longrightarrow> es_db s' = es_db s \<and> es_journal s' = es_journal s)"

definition mute :: "('w, 'a) engine \<Rightarrow> bool" where
  "mute m \<longleftrightarrow> (\<forall>s r s'. m s = (r, s') \<longrightarrow>
     (\<exists>js. es_journal s' = es_journal s @ js \<and> (\<forall>e \<in> set js. mark e = None)))"

named_theorems tame_intros
named_theorems mute_intros

lemma tame_spec: "tame m \<Longrightarrow> spec (\<lambda>s. P (es_db s)) m (\<lambda>_ s. P (es_db s)) (\<lambda>_ s. P (es_db s))"
  unfolding tame_def spec_def by (auto split: prod.splits sum.splits)

lemma tame_bind [tame_intros]: "tame m \<Longrightarrow> (\<And>x. tame (f x)) \<Longrightarrow> tame (bindM m f)"
  unfolding tame_def bindM_def
  by (clarsimp split: prod.splits sum.splits)

lemma tame_then [tame_intros]: "tame m \<Longrightarrow> tame n \<Longrightarrow> tame (thenM m n)"
  unfolding thenM_def by (rule tame_bind)

lemma tame_basic [tame_intros]:
  "tame (ret x)" "tame (fail e)" "tame (demand b c)" "tame (world f)" "tame (assertM z)"
  "tame (lift y)" "tame (look g)" "tame (now E)" "tame (ask h)" "tame (new_id E i)"
  by (auto simp: tame_def ret_def fail_def demand_def world_def assertM_def lift_def look_def now_def
      ask_def new_id_def split: option.split_asm prod.split_asm if_splits)

lemma tame_cases [tame_intros]:
  "tame m \<Longrightarrow> tame n \<Longrightarrow> tame (if b then m else n)"
  "tame m \<Longrightarrow> (\<And>y. tame (f y)) \<Longrightarrow> tame (case z of None \<Rightarrow> m | Some y \<Rightarrow> f y)"
  "(\<And>u. tame (g u)) \<Longrightarrow> (\<And>u. tame (h u)) \<Longrightarrow> tame (case w of Inl u \<Rightarrow> g u | Inr u \<Rightarrow> h u)"
  by (simp_all split: option.split sum.split)

lemma tame_catch_all [tame_intros]: "tame m \<Longrightarrow> (\<And>e. tame (h e)) \<Longrightarrow> tame (catch_all m h)"
  unfolding tame_def catch_all_def
  by (clarsimp split: prod.splits sum.splits)

lemma mute_tame: "tame m \<Longrightarrow> mute m"
  unfolding tame_def mute_def by fastforce

lemma mute_bind [mute_intros]:
  assumes "mute m" "\<And>x. mute (f x)"
  shows "mute (bindM m f)"
  unfolding mute_def
proof (intro allI impI)
  fix s r s' assume b: "bindM m f s = (r, s')"
  obtain x t where m: "m s = (x, t)" by (cases "m s")
  obtain j1 where j1: "es_journal t = es_journal s @ j1" "\<forall>e \<in> set j1. mark e = None"
    using assms(1) m unfolding mute_def by blast
  show "\<exists>js. es_journal s' = es_journal s @ js \<and> (\<forall>e \<in> set js. mark e = None)"
  proof (cases x)
    case (Inl e)
    then show ?thesis using b m j1 by (auto simp: bindM_def)
  next
    case (Inr y)
    then have "f y t = (r, s')" using b m by (simp add: bindM_def)
    then obtain j2 where "es_journal s' = es_journal t @ j2" "\<forall>e \<in> set j2. mark e = None"
      using assms(2) [of y] unfolding mute_def by blast
    then show ?thesis using j1 by (intro exI [of _ "j1 @ j2"]) auto
  qed
qed

lemma mute_then [mute_intros]: "mute m \<Longrightarrow> mute n \<Longrightarrow> mute (thenM m n)"
  unfolding thenM_def by (rule mute_bind)

lemma mute_basic [mute_intros]:
  "mute (ret x)" "mute (fail e)" "mute (demand b c)" "mute (world f)" "mute (assertM z)"
  "mute (lift y)" "mute (look g)" "mute (now E)" "mute (ask h)" "mute (new_id E i)"
  by (rule mute_tame, rule tame_basic)+

lemma mute_store [mute_intros]: "mute (modify f)" "mute (put g)" "mute (insert_row h)"
  by (auto simp: mute_def modify_def put_def insert_row_def split: prod.split_asm sum.split_asm)

lemma mute_transaction [mute_intros]: "mute m \<Longrightarrow> mute (transaction m)"
  unfolding mute_def transaction_def by (fastforce split: prod.split_asm sum.split_asm)

lemma mute_cases [mute_intros]:
  "mute m \<Longrightarrow> mute n \<Longrightarrow> mute (if b then m else n)"
  "mute m \<Longrightarrow> (\<And>y. mute (f y)) \<Longrightarrow> mute (case z of None \<Rightarrow> m | Some y \<Rightarrow> f y)"
  "(\<And>u. mute (g u)) \<Longrightarrow> (\<And>u. mute (h u)) \<Longrightarrow> mute (case w of Inl u \<Rightarrow> g u | Inr u \<Rightarrow> h u)"
  by (simp_all split: option.split sum.split)

lemma mute_catch [mute_intros]:
  assumes "mute m" "\<And>e. mute (h e)"
  shows "mute (catch_all m h)"
proof -
  have "mute (bindM (\<lambda>s. case m s of (Inl e, t) \<Rightarrow> (Inr (Inl e), t) | (Inr x, t) \<Rightarrow> (Inr (Inr x), t))
      (\<lambda>z. case z of Inl e \<Rightarrow> h e | Inr x \<Rightarrow> ret x))"
    by (rule mute_bind, use assms(1) in \<open>force simp: mute_def split: prod.split_asm sum.split_asm\<close>)
       (use assms(2) mute_basic(1) in \<open>auto split: sum.split\<close>)
  moreover have "bindM (\<lambda>s. case m s of (Inl e, t) \<Rightarrow> (Inr (Inl e), t) | (Inr x, t) \<Rightarrow> (Inr (Inr x), t))
      (\<lambda>z. case z of Inl e \<Rightarrow> h e | Inr x \<Rightarrow> ret x) = catch_all m h"
    by (auto simp: fun_eq_iff bindM_def catch_all_def ret_def split: prod.split sum.split)
  ultimately show ?thesis by simp
qed

lemma catch_refusal_as_catch_all:
  "catch_refusal m h = catch_all m (\<lambda>e. case e of Refused c \<Rightarrow> h c | _ \<Rightarrow> fail e)"
  by (auto simp: fun_eq_iff catch_refusal_cases catch_all_def fail_def
      split: prod.split sum.split engine_error.split)

lemma mute_catch_refusal [mute_intros]:
  "mute m \<Longrightarrow> (\<And>c. mute (h c)) \<Longrightarrow> mute (catch_refusal m h)"
  unfolding catch_refusal_as_catch_all
  by (rule mute_catch) (auto intro: mute_basic split: engine_error.split)

section \<open>The methods of recovery\<close>

lemma tame_methods [tame_intros]:
  "tame (reread rid)" "tame (require_change cid)" "tame (recovery_run c)" "tame (executor_of E r)"
  "tame (operation_type_of r)" "tame (require_target E r)" "tame (require_executable_preview r)"
  "tame (require_attempt aid)" "tame (ask_correlation x ob)"
  unfolding reread_def require_change_def recovery_run_def executor_of_def operation_type_of_def
    require_target_def require_executable_preview_def require_attempt_def ask_correlation_def
  by (intro tame_intros)+

lemma tame_require_open_hold [tame_intros]: "tame (require_open_hold c r aid)"
  unfolding require_open_hold_def by (intro tame_intros)

lemma tame_require_open_hold_locked [tame_intros]: "tame (require_open_hold_locked c r aid)"
  unfolding require_open_hold_locked_def by (intro tame_intros)

lemma tame_require_path_evidence [tame_intros]: "tame (require_path_evidence r df mp)"
  unfolding require_path_evidence_def Let_def by (intro tame_intros)

lemma tame_read_back [tame_intros]: "tame (read_back E r x ex)"
  unfolding read_back_def Let_def by (intro tame_intros)

lemma tame_recovery_plan_now [tame_intros]: "tame (recovery_plan_now E r ob mp c ctx)"
  unfolding recovery_plan_now_def by (intro tame_intros)

lemma tame_recovery_request [tame_intros]: "tame (recovery_request E c ob x read)"
  unfolding recovery_request_def by (intro tame_intros)

lemma tame_recovery_outcome [tame_intros]: "tame (recovery_outcome c aid)"
  unfolding recovery_outcome_def by (intro tame_intros)

lemma mute_methods [mute_intros]:
  "mute (append_event E rid ev cid sf st)" "mute (update_attempt aid f)" "mute (insert_attempt a)"
  "mute (consume E kid att)" "mute (release_lock rid)"
  unfolding append_event_def update_attempt_def insert_attempt_def consume_def release_lock_def
  by (intro mute_intros)+

lemma mute_recovery_step [mute_intros]: "mute (recovery_step E r c aid ev f)"
  unfolding recovery_step_def by (intro mute_intros)

lemma mute_recovery_columns [mute_intros]:
  "mute (recovery_evidence E r c aid read)" "mute (recovery_verification E r c aid read)"
  "mute (recovery_mutation_result E r c aid rep)" "mute (settle_retry E r c aid out)"
  "mute (refuse_recovery E r c aid code)"
  unfolding recovery_evidence_def recovery_verification_def recovery_mutation_result_def
    settle_retry_def refuse_recovery_def
  by (intro mute_intros mute_tame [OF tame_methods(8)] mute_tame [OF tame_recovery_outcome])+

lemma mute_open_recovery_attempt [mute_intros]: "mute (open_recovery_attempt E c r kind rel mp)"
  unfolding open_recovery_attempt_def
  by (intro mute_intros mute_tame [OF tame_methods(8)] mute_tame [OF tame_require_open_hold_locked])

lemma mute_complete_recovery [mute_intros]: "mute (complete_recovery E r c aid out)"
  unfolding complete_recovery_def
  by (intro mute_intros mute_tame [OF tame_recovery_outcome] mute_tame [OF tame_require_open_hold_locked])

lemma mute_marker [mute_intros]: "mute (recovery_dispatch_marker E r c aid q)"
  unfolding recovery_dispatch_marker_def
  by (intro mute_intros mute_tame [OF tame_require_open_hold_locked])

section \<open>The one mutation of a retry\<close>

text \<open>
  \<open>retry_authorised\<close>: what the store holds when a retry's mutation leaves. The change is in an open
  recovery whose hold is the run's lock on the change's object, a confirmation of a recovery retry
  was spent for this very mutation, and the attempt says that dispatch began.
\<close>

definition retry_authorised :: "change_record \<Rightarrow> string \<Rightarrow> string \<Rightarrow> database \<Rightarrow> mutation_request \<Rightarrow> bool" where
  "retry_authorised c rid aid d q \<longleftrightarrow>
     (\<exists>c'. changes_get (ch_change_id c) (db_changes d) = Some c' \<and> ch_recovery_required c' \<and>
        (\<exists>l. locks_for_run rid (db_locks d) = Some l \<and> wl_object_id l = ch_object_id c')) \<and>
     (\<exists>k \<in> set (db_confirmations d). cn_run_id k = rid \<and> cn_purpose k = CP_Recovery_Retry \<and>
        cn_consumed k \<and> cn_consumed_by_attempt_id k = Some (mr_attempt_id q)) \<and>
     (\<exists>a. attempts_get aid (db_attempts d) = Some a \<and> at_dispatch_began a \<and>
        at_mutation_attempt_id a = Some (mr_attempt_id q))"

definition on_record :: "string \<Rightarrow> (recovery_attempt_record \<Rightarrow> bool) \<Rightarrow> database \<Rightarrow> bool" where
  "on_record aid P d \<longleftrightarrow> (\<exists>a. attempts_get aid (db_attempts d) = Some a \<and> P a)"

lemma attempts_get_update:
  assumes "\<And>a. at_attempt_id (f a) = at_attempt_id a"
  shows "attempts_get aid (attempts_update aid f t) = map_option f (attempts_get aid t)"
  unfolding attempts_get_def attempts_update_def
  by (induction t) (auto simp: assms)

lemma consume_spends:
  assumes "confirmations_outstanding rid p t = Some k" "confirmations_consume (cn_confirmation_id k) att tm t = (True, t')"
  shows "\<exists>k' \<in> set t'. cn_run_id k' = rid \<and> cn_purpose k' = p \<and> cn_consumed k' \<and>
    cn_consumed_by_attempt_id k' = Some att"
proof -
  have k: "k \<in> set t" "cn_run_id k = rid" "cn_purpose k = p" "cn_consumed_at k = None"
    using assms(1) by (auto simp: confirmations_outstanding_def find_Some_iff)
  let ?f = "\<lambda>c. c\<lparr>cn_consumed_at := Some tm, cn_consumed_by_attempt_id := Some att\<rparr>"
  have "t' = update_where (\<lambda>c. cn_confirmation_id c = cn_confirmation_id k \<and> cn_consumed_at c = None) ?f t"
    using assms(2) by (simp add: confirmations_consume_def Let_def)
  then have "?f k \<in> set t'" using k unfolding update_where_def by (auto intro: rev_image_eqI)
  then show ?thesis using k by (intro bexI [of _ "?f k"]) (simp_all add: cn_consumed_def)
qed

text \<open>The marker leaves the store in which its mutation is authorised.\<close>

lemma hold_checked:
  assumes "require_open_hold_locked c r ig s = (Inr x, s')"
  shows "s' = s \<and> (\<exists>c'. changes_get (ch_change_id c) (db_changes (es_db s)) = Some c' \<and>
    ch_recovery_required c' \<and>
    (\<exists>l. locks_for_run (rn_run_id r) (db_locks (es_db s)) = Some l \<and> wl_object_id l = ch_object_id c'))"
  using assms
  by (auto simp: require_open_hold_locked_def require_open_hold_def require_change_def bindM_def
      thenM_def look_def assertM_def ret_def fail_def demand_def split: option.splits if_splits sum.splits prod.splits)

lemma marker_authorises:
  assumes "recovery_dispatch_marker E r c aid q s = (Inr x, s')" "on_record aid (\<lambda>_. True) (es_db s)"
  shows "retry_authorised c (rn_run_id r) aid (es_db s') q"
proof -
  let ?t = "ev_now E (es_world s)"
  let ?f = "\<lambda>k a. a\<lparr>at_confirmation_id := Some (cn_confirmation_id k),
      at_execution_correlation := Some (mr_correlation q),
      at_mutation_attempt_id := Some (mr_attempt_id q), at_dispatch_began_at := Some ?t\<rparr>"
  have h: "\<exists>y. require_open_hold_locked c r (Some aid) s = (Inr y, s)"
  proof (cases "require_open_hold_locked c r (Some aid) s")
    case (Pair z t)
    then obtain y where "z = Inr y"
      using assms(1) by (cases z) (auto simp: recovery_dispatch_marker_def bindM_def thenM_def
          now_def world_def transaction_def)
    then show ?thesis using Pair hold_checked by blast
  qed
  then obtain y where y: "require_open_hold_locked c r (Some aid) s = (Inr y, s)" by blast
  obtain k cs where k: "confirmations_outstanding (rn_run_id r) CP_Recovery_Retry
        (db_confirmations (es_db s)) = Some k"
    "confirmations_consume (cn_confirmation_id k) (mr_attempt_id q) ?t (db_confirmations (es_db s)) =
       (True, cs)"
    "db_confirmations (es_db s') = cs" "db_changes (es_db s') = db_changes (es_db s)"
    "db_locks (es_db s') = db_locks (es_db s)"
    "db_attempts (es_db s') = attempts_update aid (?f k) (db_attempts (es_db s))"
    using assms(1) y
    by (auto simp: recovery_dispatch_marker_def bindM_def thenM_def now_def world_def
        transaction_def look_def consume_def put_def demand_def ret_def fail_def update_attempt_def
        modify_def append_event_def new_id_def split: prod.splits sum.splits option.splits if_splits)
  obtain a where a: "attempts_get aid (db_attempts (es_db s)) = Some a"
    using assms(2) by (auto simp: on_record_def)
  have "attempts_get aid (db_attempts (es_db s')) = Some (?f k a)"
    using k(6) a by (simp add: attempts_get_update)
  then show ?thesis
    using hold_checked [OF y] consume_spends [OF k(1,2)] k(3-5)
    unfolding retry_authorised_def by (simp add: at_dispatch_began_def)
qed

text \<open>\<open>sent A n\<close>: since \<open>j0\<close>, at most \<open>n\<close> mutations were sent, each in a store with \<open>A\<close>.\<close>

definition sent ::
  "entry list \<Rightarrow> (database \<Rightarrow> mutation_request \<Rightarrow> bool) \<Rightarrow> nat \<Rightarrow> 'w engine_state \<Rightarrow> bool" where
  "sent j0 A n s \<longleftrightarrow> (\<exists>js. es_journal s = j0 @ js \<and> length (muts js) \<le> n \<and>
     (\<forall>d q rep. Mutated d q rep \<in> set js \<longrightarrow> A d q))"

lemma unmarked_muts: "\<forall>e \<in> set js. mark e = None \<Longrightarrow> muts js = [] \<and> Mutated d q rep \<notin> set js"
  by (induction js rule: muts.induct) auto

lemma sent_mute: "mute m \<Longrightarrow> spec (sent j0 A n) m (\<lambda>_. sent j0 A n) (\<lambda>_. sent j0 A n)"
proof (rule specI)
  have *: "sent j0 A n s'" if "mute m" "sent j0 A n s" "m s = (r, s')" for s r s'
  proof -
    obtain js where js: "es_journal s = j0 @ js" "length (muts js) \<le> n"
      "\<forall>d q rep. Mutated d q rep \<in> set js \<longrightarrow> A d q"
      using \<open>sent j0 A n s\<close> by (auto simp: sent_def)
    obtain j where j: "es_journal s' = es_journal s @ j" "\<forall>e \<in> set j. mark e = None"
      using \<open>mute m\<close> \<open>m s = (r, s')\<close> unfolding mute_def by blast
    have u: "muts j = []" "Mutated d q rep \<notin> set j" for d q rep
      using unmarked_muts [OF j(2)] by blast+
    have "es_journal s' = j0 @ (js @ j)" "length (muts (js @ j)) \<le> n"
      "\<forall>d q rep. Mutated d q rep \<in> set (js @ j) \<longrightarrow> A d q"
      using js j(1) u by simp_all
    then show ?thesis unfolding sent_def by blast
  qed
  show "sent j0 A n s'" if "mute m" "sent j0 A n s" "m s = (Inl e, s')" for s e s'
    using * that by blast
  show "sent j0 A n s'" if "mute m" "sent j0 A n s" "m s = (Inr x, s')" for s x s'
    using * that by blast
qed

lemma sent_mutate:
  "spec (\<lambda>s. sent j0 A n s \<and> A (es_db s) q) (ask_mutate x q) (\<lambda>_. sent j0 A (Suc n)) Er"
  unfolding ask_mutate_def
proof (rule spec_pre, rule spec_ask_logged, intro allI)
  fix s rep w assume h: "sent j0 A n s \<and> A (es_db s) q"
  then obtain js where js: "es_journal s = j0 @ js" "length (muts js) \<le> n"
    "\<forall>d q rep. Mutated d q rep \<in> set js \<longrightarrow> A d q"
    by (auto simp: sent_def)
  let ?j = "js @ [Mutated (es_db s) q rep]"
  have "es_journal s @ [Mutated (es_db s) q rep] = j0 @ ?j" "length (muts ?j) \<le> Suc n"
    "\<forall>d q' rep. Mutated d q' rep \<in> set ?j \<longrightarrow> A d q'"
    using js h by auto
  then show "sent j0 A (Suc n) (s\<lparr>es_world := w, es_journal := es_journal s @ [Mutated (es_db s) q rep]\<rparr>)"
    unfolding sent_def by auto
qed

lemma sent_more: "sent j0 A n s \<Longrightarrow> n \<le> m \<Longrightarrow> sent j0 A m s"
  unfolding sent_def by (meson le_trans)

lemma evidence_on_record:
  assumes "recovery_evidence E r c aid read s = (Inr a, s')"
  shows "on_record aid (\<lambda>_. True) (es_db s')"
  using assms
  by (auto simp: recovery_evidence_def thenM_def bindM_def lift_def require_attempt_def look_def
      assertM_def ret_def fail_def on_record_def split: prod.splits sum.splits option.splits)

lemma spec_conj_post:
  assumes "spec P m (\<lambda>x. Q x) Er" "\<And>s x s'. P s \<Longrightarrow> m s = (Inr x, s') \<Longrightarrow> R x s'"
  shows "spec P m (\<lambda>x s. Q x s \<and> R x s) Er"
  using assms unfolding spec_def by (fastforce split: prod.splits sum.splits)

abbreviation retries :: "change_record \<Rightarrow> database \<Rightarrow> mutation_request \<Rightarrow> bool" where
  "retries c \<equiv> \<lambda>d q. \<exists>rid aid. retry_authorised c rid aid d q"

lemma tame_sent:
  "tame m \<Longrightarrow> spec (\<lambda>s. sent j0 A n s \<and> P (es_db s)) m (\<lambda>_ s. sent j0 A n s \<and> P (es_db s))
     (\<lambda>_. sent j0 A n)"
  unfolding tame_def spec_def sent_def by (auto split: prod.splits sum.splits)

lemma authorise_sent:
  "spec (\<lambda>s. sent j0 (retries c) 0 s \<and> on_record aid (\<lambda>_. True) (es_db s))
     (authorise_retry E r c aid ob x read mp ctx)
     (\<lambda>q s. sent j0 (retries c) 0 s \<and> retries c (es_db s) q) (\<lambda>_. sent j0 (retries c) 0)"
proof -
  have m: "spec (\<lambda>s. sent j0 (retries c) 0 s \<and> on_record aid (\<lambda>_. True) (es_db s))
      (recovery_dispatch_marker E r c aid q)
      (\<lambda>_ s. sent j0 (retries c) 0 s \<and> retries c (es_db s) q) (\<lambda>_. sent j0 (retries c) 0)" for q
    by (rule spec_conj_post, rule spec_pre, rule sent_mute, rule mute_marker)
       (auto dest: marker_authorises)
  show ?thesis
    unfolding authorise_retry_def
    by (rule spec_then, rule tame_sent, rule tame_recovery_plan_now, rule spec_bind, rule tame_sent,
        rule tame_recovery_request, rule spec_then, rule m, rule spec_ret)
qed

lemma admitted_sent:
  "spec (\<lambda>s. sent j0 (retries c) 0 s \<and> on_record aid (\<lambda>_. True) (es_db s))
     (catch_refusal (authorise_retry E r c aid ob x read mp ctx) (refuse_recovery E r c aid))
     (\<lambda>q s. sent j0 (retries c) 0 s \<and> retries c (es_db s) q) (\<lambda>_. sent j0 (retries c) 0)"
proof (rule spec_catch_refusal [where R = "\<lambda>_. sent j0 (retries c) 0"])
  show "spec (sent j0 (retries c) 0) (refuse_recovery E r c aid code)
     (\<lambda>q s. sent j0 (retries c) 0 s \<and> retries c (es_db s) q) (\<lambda>_. sent j0 (retries c) 0)" for code
    unfolding refuse_recovery_def
    by (rule spec_then, rule sent_mute, rule mute_recovery_step, rule spec_fail)
  show "spec (\<lambda>s. sent j0 (retries c) 0 s \<and> on_record aid (\<lambda>_. True) (es_db s))
     (authorise_retry E r c aid ob x read mp ctx)
     (\<lambda>q s. sent j0 (retries c) 0 s \<and> retries c (es_db s) q)
     (\<lambda>e s. case e of Refused code \<Rightarrow> sent j0 (retries c) 0 s | _ \<Rightarrow> sent j0 (retries c) 0 s)"
    by (rule spec_weaken [OF authorise_sent]) (auto split: engine_error.split)
qed

lemma sent_up: "spec P m (\<lambda>_. sent j0 A 0) (\<lambda>_. sent j0 A 0) \<Longrightarrow>
    spec P m (\<lambda>_. sent j0 A 1) (\<lambda>_. sent j0 A 1)"
  by (erule spec_weaken) (auto intro: sent_more)

lemma spec_err: "spec P m Q (\<lambda>_. sent j0 A 0) \<Longrightarrow> spec P m Q (\<lambda>_. sent j0 A 1)"
  by (erule spec_weaken) (auto intro: sent_more)

lemma evidence_sent:
  "spec (sent j0 A n) (recovery_evidence E r c aid read)
     (\<lambda>_ s. sent j0 A n s \<and> on_record aid (\<lambda>_. True) (es_db s)) (\<lambda>_. sent j0 A n)"
  by (rule spec_conj_post, rule sent_mute, rule mute_recovery_columns(1)) (rule evidence_on_record)

lemma spec_if: "(b \<Longrightarrow> spec P m Q Er) \<Longrightarrow> (\<not> b \<Longrightarrow> spec P n Q Er) \<Longrightarrow> spec P (if b then m else n) Q Er"
  by simp

lemma sent_one: "mute m \<Longrightarrow> spec (sent j0 A 1) m (\<lambda>_. sent j0 A 1) (\<lambda>_. sent j0 A 1)"
  by (rule sent_mute)

text \<open>What follows the mutation sends nothing more.\<close>

lemma mute_tail:
  "mute (thenM (recovery_mutation_result E r c aid rep)
     (if rep_outcome rep \<noteq> MO_Written
      then settle_retry E r c aid (recovery_outcome_for (rep_outcome rep) VO_Not_Attempted)
      else
       bindM (read_back E r x ex) (\<lambda>verified.
       thenM (recovery_verification E r c aid verified)
      (let outcome = recovery_outcome_for MO_Written (rb_outcome verified) in
       if outcome = RAO_Verified then complete_recovery E r c aid outcome
       else settle_retry E r c aid outcome))))"
  unfolding Let_def by (intro mute_intros mute_tame [OF tame_read_back])

lemma retry_sent:
  "spec (sent j0 (retries c) 0) (recovery_retry E c mp ctx)
     (\<lambda>_. sent j0 (retries c) 1) (\<lambda>_. sent j0 (retries c) 1)"
  unfolding recovery_retry_def Let_def
  apply (rule spec_bind, rule spec_err, rule sent_mute, rule mute_tame, rule tame_intros)
  apply (rule spec_bind, rule spec_err, rule sent_mute, rule mute_tame, rule tame_intros)
  apply (rule spec_then, rule spec_err, rule sent_mute, rule mute_tame, rule tame_intros)
  apply (rule spec_then, rule spec_err, rule sent_mute, rule mute_tame, rule tame_intros)
  apply (rule spec_then, rule spec_err, rule sent_mute, rule mute_tame, rule tame_intros)
  apply (rule spec_bind, rule spec_err, rule sent_mute, rule mute_tame, rule tame_intros)
  apply (rule spec_bind, rule spec_err, rule sent_mute, rule mute_tame, rule tame_intros)
  apply (rule spec_bind, rule spec_err, rule sent_mute, rule mute_open_recovery_attempt)
  apply (rule spec_bind, rule spec_err, rule sent_mute, rule mute_tame, rule tame_intros)
  apply (rule spec_then, rule spec_err, rule evidence_sent)
  apply (rule spec_if)
   apply (rule sent_up, rule spec_pre, rule sent_mute, rule mute_complete_recovery, simp)
  apply (rule spec_bind, rule spec_err, rule tame_sent, rule tame_intros)
  apply (rule spec_bind, rule spec_err, rule admitted_sent)
  apply (rule spec_bind, rule sent_mutate)
  apply (simp only: One_nat_def [symmetric])
  apply (rule sent_one, rule mute_tail [unfolded Let_def])
  done

section \<open>Proof before release\<close>


definition kept :: "string \<Rightarrow> string \<Rightarrow> (recovery_attempt_record \<Rightarrow> bool) \<Rightarrow> 'w engine_state \<Rightarrow> bool" where
  "kept rid aid P s \<longleftrightarrow>
     on_record aid P (es_db s) \<and> locks_for_run rid (db_locks (es_db s)) \<noteq> None"

lemma tame_kept: "tame m \<Longrightarrow> spec (kept rid aid P) m (\<lambda>_. kept rid aid P) (\<lambda>_ _. True)"
  unfolding tame_def spec_def kept_def by (auto split: prod.splits sum.splits)

lemma mutate_kept: "spec (kept rid aid P) (ask_mutate x q) (\<lambda>_. kept rid aid P) (\<lambda>_ _. True)"
  unfolding ask_mutate_def
  by (rule spec_pre, rule spec_ask_logged) (simp add: kept_def)

lemma on_record_update:
  assumes "on_record aid P d" "db_attempts d' = attempts_update aid f (db_attempts d)"
    "\<And>a. at_attempt_id (f a) = at_attempt_id a" "\<And>a. P a \<Longrightarrow> Q (f a)"
  shows "on_record aid Q d'"
  using assms unfolding on_record_def by (auto simp: attempts_get_update)

lemma recovery_step_effect:
  assumes "recovery_step E r c aid ev f s = (Inr x, s')"
  shows "db_attempts (es_db s') = attempts_update aid (f (ev_now E (es_world s))) (db_attempts (es_db s))"
    "db_locks (es_db s') = db_locks (es_db s)"
  using assms
  by (auto simp: recovery_step_def bindM_def thenM_def now_def world_def transaction_def
      update_attempt_def modify_def append_event_def new_id_def split: prod.splits sum.splits)

lemma step_kept:
  assumes "\<And>t a. at_attempt_id (f t a) = at_attempt_id a" "\<And>t a. P a \<Longrightarrow> Q (f t a)"
  shows "spec (kept rid aid P) (recovery_step E r c aid ev f) (\<lambda>_. kept rid aid Q) (\<lambda>_ _. True)"
proof (rule specI)
  fix s x s' assume "kept rid aid P s" "recovery_step E r c aid ev f s = (Inr x, s')"
  then show "kept rid aid Q s'"
    using recovery_step_effect [of E r c aid ev f s x s'] on_record_update [of aid P "es_db s" "es_db s'"] assms
    by (auto simp: kept_def)
qed simp

lemma columns_kept:
  assumes "\<And>u t a. z = Inr u \<Longrightarrow> at_attempt_id (u a) = at_attempt_id a"
    "\<And>u a. z = Inr u \<Longrightarrow> P a \<Longrightarrow> Q (u a)"
  shows "spec (kept rid aid P)
     (bindM (lift z) (\<lambda>cols. thenM (recovery_step E r c aid ev (\<lambda>_. cols)) (require_attempt aid)))
     (\<lambda>_. kept rid aid Q) (\<lambda>_ _. True)"
proof (cases z)
  case (Inl e)
  then show ?thesis by (simp add: spec_def bindM_def lift_def)
next
  case (Inr u)
  have "spec (kept rid aid P) (thenM (recovery_step E r c aid ev (\<lambda>_. u)) (require_attempt aid))
     (\<lambda>_. kept rid aid Q) (\<lambda>_ _. True)"
    by (rule spec_then, rule step_kept [where Q = Q])
       (use assms Inr in \<open>auto intro: tame_kept tame_methods\<close>)
  then show ?thesis using Inr by (simp add: bindM_def lift_def spec_def)
qed

lemma evidence_kept:
  "spec (kept rid aid P) (recovery_evidence E r c aid read)
     (\<lambda>_. kept rid aid (\<lambda>a. at_evidence_outcome a = rb_outcome read)) (\<lambda>_ _. True)"
  unfolding recovery_evidence_def
  by (rule columns_kept) (auto simp: recovery_evidence_columns_def bindE_def split: sum.splits)

lemma verification_kept:
  "spec (kept rid aid (\<lambda>a. at_mutation_outcome a = m)) (recovery_verification E r c aid read)
     (\<lambda>_. kept rid aid (\<lambda>a. at_mutation_outcome a = m \<and> at_verification_outcome a = rb_outcome read))
     (\<lambda>_ _. True)"
  unfolding recovery_verification_def
  by (rule columns_kept) (auto simp: recovery_verification_columns_def bindE_def split: sum.splits)

lemma mutation_result_kept:
  "spec (kept rid aid P) (recovery_mutation_result E r c aid rep)
     (\<lambda>_. kept rid aid (\<lambda>a. at_mutation_outcome a = Some (rep_outcome rep))) (\<lambda>_ _. True)"
  unfolding recovery_mutation_result_def
  by (rule spec_then, rule step_kept [where Q = "\<lambda>a. at_mutation_outcome a = Some (rep_outcome rep)"])
     (auto simp: attempt_outcome_columns_def intro: tame_kept tame_methods)

text \<open>What the result of a retry says, of the attempt and of the hold.\<close>

definition released :: "string \<Rightarrow> recovery_result \<Rightarrow> 'w engine_state \<Rightarrow> bool" where
  "released rid res s \<longleftrightarrow>
     (let a = rr_attempt res; locked = (locks_for_run rid (db_locks (es_db s)) \<noteq> None) in
      case at_outcome a of
        RAO_Proven \<Rightarrow> at_releases_hold a \<and> \<not> locked \<and> at_evidence_outcome a = VO_Verified
      | RAO_Verified \<Rightarrow> at_releases_hold a \<and> \<not> locked \<and> at_mutation_outcome a = Some MO_Written \<and>
          at_verification_outcome a = VO_Verified
      | _ \<Rightarrow> locked)"

lemma recovery_outcome_spec:
  "spec (\<lambda>s. on_record aid P (es_db s) \<and> R s) (recovery_outcome c aid)
     (\<lambda>res s. P (rr_attempt res) \<and> R s) (\<lambda>_ _. True)"
  by (rule specI)
     (auto simp: recovery_outcome_def bindM_def require_change_def require_attempt_def look_def
        assertM_def ret_def fail_def on_record_def split: option.splits prod.splits sum.splits)

lemma settle_kept:
  assumes "out \<noteq> RAO_Proven" "out \<noteq> RAO_Verified"
  shows "spec (kept rid aid P) (settle_retry E r c aid out) (released rid) (\<lambda>_ _. True)"
proof -
  have "spec (kept rid aid P) (settle_retry E r c aid out)
      (\<lambda>res s. at_outcome (rr_attempt res) = out \<and> locks_for_run rid (db_locks (es_db s)) \<noteq> None) (\<lambda>_ _. True)"
    unfolding settle_retry_def
    by (rule spec_then, rule step_kept [where Q = "\<lambda>a. at_outcome a = out"], simp, simp,
        rule spec_pre, rule recovery_outcome_spec) (auto simp: kept_def)
  then show ?thesis
    by (rule spec_weaken) (use assms in \<open>auto simp: released_def Let_def split: recovery_attempt_outcome.split\<close>)
qed

lemma completion_effect:
  assumes "transaction (thenM (require_open_hold_locked c r ig) (thenM (update_attempt aid f)
      (thenM (append_event E rid ev1 cid1 None None) (thenM (append_event E rid ev2 cid2 None None)
        (release_lock rid))))) s = (Inr x, s')"
  shows "db_attempts (es_db s') = attempts_update aid f (db_attempts (es_db s)) \<and>
    locks_for_run rid (db_locks (es_db s')) = None"
proof (cases "require_open_hold_locked c r ig s")
  case (Pair z t)
  then obtain y where z: "z = Inr y"
    using assms by (cases z) (auto simp: bindM_def thenM_def transaction_def)
  then have "t = s" using Pair hold_checked by blast
  then show ?thesis
    using assms Pair z
    by (auto simp: bindM_def thenM_def now_def world_def transaction_def update_attempt_def
        modify_def append_event_def new_id_def release_lock_def)
qed

lemma complete_kept:
  assumes "rn_run_id r = rid" "\<And>a. P a \<Longrightarrow> out = RAO_Proven \<and> at_evidence_outcome a = VO_Verified \<or>
    out = RAO_Verified \<and> at_mutation_outcome a = Some MO_Written \<and> at_verification_outcome a = VO_Verified"
  shows "spec (kept rid aid P) (complete_recovery E r c aid out) (released rid) (\<lambda>_ _. True)"
proof -
  let ?Q = "\<lambda>a. at_outcome a = out \<and> at_releases_hold a \<and> (out = RAO_Proven \<and> at_evidence_outcome a = VO_Verified \<or>
    out = RAO_Verified \<and> at_mutation_outcome a = Some MO_Written \<and> at_verification_outcome a = VO_Verified)"
  have "spec (kept rid aid P) (complete_recovery E r c aid out)
      (\<lambda>res s. ?Q (rr_attempt res) \<and> locks_for_run rid (db_locks (es_db s)) = None) (\<lambda>_ _. True)"
    unfolding complete_recovery_def assms(1)
  proof (rule spec_bind [where R = "\<lambda>_. kept rid aid P"], rule tame_kept, rule tame_basic)
    fix t
    let ?f = "\<lambda>a. a\<lparr>at_outcome := out, at_releases_hold := True, at_finished_at := Some t\<rparr>"
    let ?tx = "transaction (thenM (require_open_hold_locked c r (Some aid)) (thenM (update_attempt aid ?f)
      (thenM (append_event E rid Ev_Recovery_Retry_Finished (Some (ch_change_id c)) None None)
      (thenM (append_event E rid Ev_Recovery_Hold_Released (Some (ch_change_id c)) None None)
        (release_lock rid)))))"
    have "spec (kept rid aid P) ?tx
        (\<lambda>_ s. on_record aid ?Q (es_db s) \<and> locks_for_run rid (db_locks (es_db s)) = None) (\<lambda>_ _. True)"
    proof (rule specI)
      fix s x s' assume k: "kept rid aid P s" and tx: "?tx s = (Inr x, s')"
      have "on_record aid ?Q (es_db s')"
        by (rule on_record_update [where P = P and d = "es_db s" and f = ?f])
           (use k completion_effect [OF tx] assms(2) in \<open>auto simp: kept_def\<close>)
      then show "on_record aid ?Q (es_db s') \<and> locks_for_run rid (db_locks (es_db s')) = None"
        using completion_effect [OF tx] by simp
    qed simp
    then show "spec (kept rid aid P) (thenM ?tx (recovery_outcome c aid))
        (\<lambda>res s. ?Q (rr_attempt res) \<and> locks_for_run rid (db_locks (es_db s)) = None) (\<lambda>_ _. True)"
      by (rule spec_then) (rule recovery_outcome_spec)
  qed
  then show ?thesis
    by (rule spec_weaken) (auto simp: released_def Let_def)
qed

text \<open>From the attempt's opening to the result.\<close>

lemma open_kept:
  assumes "rn_run_id r = rid"
  shows "spec (\<lambda>_. True) (open_recovery_attempt E c r kind rel mp)
     (\<lambda>a s. kept rid (at_attempt_id a) (\<lambda>_. True) s) (\<lambda>_ _. True)"
proof -
  let ?L = "\<lambda>s. locks_for_run rid (db_locks (es_db s)) \<noteq> None"
  let ?tx = "\<lambda>aid t. transaction (
        thenM (require_open_hold_locked c r None)
       (bindM (look (\<lambda>d. attempts_next_sequence (ch_change_id c) (db_attempts d))) (\<lambda>n.
        thenM (insert_attempt (attempt_row c r aid n kind t rel (mpv_evidence_id mp)))
              (append_event E (rn_run_id r) Ev_Recovery_Retry_Started (Some (ch_change_id c))
                 None None))))"
  have L: "spec ?L (look f) (\<lambda>_. ?L) (\<lambda>_ _. True)" "spec ?L (append_event E rd ev cd sf st) (\<lambda>_. ?L) (\<lambda>_ _. True)"
    for f rd ev cd sf st
    by (simp_all add: spec_def look_def append_event_def bindM_def new_id_def now_def world_def modify_def)
  have ins: "spec ?L (insert_attempt a) (\<lambda>_. ?L) (\<lambda>_ _. True)" for a
    by (rule specI) (auto simp: insert_attempt_def insert_row_def split: sum.splits)
  have req: "spec (\<lambda>_. True) (require_open_hold_locked c r None) (\<lambda>_. ?L) (\<lambda>_ _. True)"
    by (rule specI) (use hold_checked assms in \<open>fastforce+\<close>)
  have tx: "spec (\<lambda>_. True) (?tx aid t) (\<lambda>_. ?L) (\<lambda>_ _. True)" for aid t
  proof (rule spec_transaction)
    have "spec (\<lambda>_. True) (thenM (require_open_hold_locked c r None)
       (bindM (look (\<lambda>d. attempts_next_sequence (ch_change_id c) (db_attempts d))) (\<lambda>n.
        thenM (insert_attempt (attempt_row c r aid n kind t rel (mpv_evidence_id mp)))
              (append_event E (rn_run_id r) Ev_Recovery_Retry_Started (Some (ch_change_id c))
                 None None)))) (\<lambda>_. ?L) (\<lambda>_ _. True)"
      by (rule spec_then, rule req, rule spec_bind, rule L, rule spec_then, rule ins, rule L)
    then show "spec (\<lambda>s. True \<and> es_db s = d) (thenM (require_open_hold_locked c r None)
       (bindM (look (\<lambda>d. attempts_next_sequence (ch_change_id c) (db_attempts d))) (\<lambda>n.
        thenM (insert_attempt (attempt_row c r aid n kind t rel (mpv_evidence_id mp)))
              (append_event E (rn_run_id r) Ev_Recovery_Retry_Started (Some (ch_change_id c))
                 None None))))
        (\<lambda>_ s. ?L (s\<lparr>es_journal := es_journal s @ [Committed (es_db s)]\<rparr>)) (\<lambda>_ _. True)" for d
      by (rule spec_weaken) simp_all
  qed
  show ?thesis
    unfolding open_recovery_attempt_def
  proof (rule spec_bind [where R = "\<lambda>_ _. True"], simp add: spec_def split: prod.split sum.split,
      rule spec_bind [where R = "\<lambda>_ _. True"], simp add: spec_def split: prod.split sum.split,
      rule spec_then [where R = ?L], rule spec_catch_all [where R = "\<lambda>_ _. True"], rule tx)
    show "spec (\<lambda>_. True) (if e = Integrity_Error then fail (Refused ''recovery_attempt_in_flight'')
        else fail e) (\<lambda>_. ?L) (\<lambda>_ _. True)" for e
      by (simp add: spec_def fail_def)
    fix aid
    have "on_record (at_attempt_id a) (\<lambda>_. True) (es_db s') \<and> s' = s"
      if "require_attempt aid s = (Inr a, s')" for s a s'
    proof -
      have a: "attempts_get aid (db_attempts (es_db s)) = Some a" "s' = s"
        using that by (auto simp: require_attempt_def bindM_def look_def assertM_def ret_def fail_def
            split: option.splits)
      have "at_attempt_id a = aid" using a(1) by (auto simp: attempts_get_def find_Some_iff)
      then show ?thesis using a by (auto simp: on_record_def)
    qed
    then show "spec ?L (require_attempt aid) (\<lambda>a s. kept rid (at_attempt_id a) (\<lambda>_. True) s) (\<lambda>_ _. True)"
      by (intro specI) (auto simp: kept_def)
  qed
qed

lemma marker_kept:
  assumes "rn_run_id r = rid"
  shows "spec (kept rid aid P) (recovery_dispatch_marker E r c aid q) (\<lambda>_. kept rid aid (\<lambda>_. True)) (\<lambda>_ _. True)"
proof (rule specI)
  fix s x s' assume "kept rid aid P s" "recovery_dispatch_marker E r c aid q s = (Inr x, s')"
  then show "kept rid aid (\<lambda>_. True) s'"
    using marker_authorises [of E r c aid q s x s'] assms
    by (auto simp: kept_def on_record_def retry_authorised_def)
qed simp

lemma authorise_kept:
  assumes "rn_run_id r = rid"
  shows "spec (kept rid aid P)
     (catch_refusal (authorise_retry E r c aid ob x read mp ctx) (refuse_recovery E r c aid))
     (\<lambda>_. kept rid aid (\<lambda>_. True)) (\<lambda>_ _. True)"
proof (rule spec_catch_refusal [where R = "\<lambda>_ _. True"])
  show "spec (kept rid aid P) (authorise_retry E r c aid ob x read mp ctx)
      (\<lambda>_. kept rid aid (\<lambda>_. True)) (\<lambda>e s. case e of Refused code \<Rightarrow> True | _ \<Rightarrow> True)"
    unfolding authorise_retry_def
    by (rule spec_weaken [of _ _ "\<lambda>_. kept rid aid (\<lambda>_. True)" "\<lambda>_ _. True"], rule spec_then,
        rule tame_kept, rule tame_recovery_plan_now, rule spec_bind, rule tame_kept,
        rule tame_recovery_request, rule spec_then, rule marker_kept, rule assms, rule spec_ret)
       (auto split: engine_error.split)
  show "spec (\<lambda>_. True) (refuse_recovery E r c aid code) (\<lambda>_. kept rid aid (\<lambda>_. True)) (\<lambda>_ _. True)" for code
    by (simp add: refuse_recovery_def spec_def thenM_def bindM_def fail_def split: prod.splits sum.splits)
qed

lemma recovery_run_id: "spec (\<lambda>_. True) (recovery_run c) (\<lambda>r _. rn_run_id r = ch_run_id c) (\<lambda>_ _. True)"
  by (rule specI) (auto simp: recovery_run_def reread_def bindM_def look_def ret_def fail_def
      runs_get_def find_Some_iff split: option.splits)

lemma spec_any: "spec (\<lambda>_. True) m (\<lambda>_ _. True) (\<lambda>_ _. True)"
  by (simp add: spec_def split: prod.split sum.split)

lemma spec_when: "(b \<Longrightarrow> spec P m Q Er) \<Longrightarrow> spec (\<lambda>s. b \<and> P s) m Q Er"
  by (cases b) (simp_all add: spec_def)

lemma unproven_outcome:
  "m \<noteq> MO_Written \<Longrightarrow> recovery_outcome_for m v \<noteq> RAO_Proven \<and> recovery_outcome_for m v \<noteq> RAO_Verified"
  by (cases m) (simp_all add: recovery_outcome_for_def)

lemma verified_outcome:
  "recovery_outcome_for MO_Written v = RAO_Verified \<longleftrightarrow> v = VO_Verified"
  "recovery_outcome_for MO_Written v \<noteq> RAO_Proven"
  by (simp_all add: recovery_outcome_for_def vo_proved_def)

lemma verified_tail:
  assumes "rn_run_id r = rid"
  shows "spec (kept rid aid (\<lambda>a. at_mutation_outcome a = Some MO_Written))
     (bindM (read_back E r x ex) (\<lambda>verified.
       thenM (recovery_verification E r c aid verified)
      (if recovery_outcome_for MO_Written (rb_outcome verified) = RAO_Verified
       then complete_recovery E r c aid (recovery_outcome_for MO_Written (rb_outcome verified))
       else settle_retry E r c aid (recovery_outcome_for MO_Written (rb_outcome verified)))))
     (released rid) (\<lambda>_ _. True)"
  apply (rule spec_bind, rule tame_kept, rule tame_read_back)
  apply (rule spec_then, rule verification_kept, rule spec_if)
   apply (rule complete_kept, rule assms, simp add: verified_outcome(1))
  apply (rule settle_kept, rule verified_outcome(2), assumption)
  done

lemma retry_kept:
  "spec (\<lambda>_. True) (recovery_retry E c mp ctx) (released (ch_run_id c)) (\<lambda>_ _. True)"
  unfolding recovery_retry_def Let_def
  apply (rule spec_bind, rule spec_pre, rule recovery_run_id, rule TrueI)
  apply (rule spec_pre [where P' = "\<lambda>s. rn_run_id r = ch_run_id c \<and> True" for r], rule spec_when)
   apply (rule spec_bind, rule spec_any, rule spec_then, rule spec_any, rule spec_then, rule spec_any,
      rule spec_then, rule spec_any, rule spec_bind, rule spec_any, rule spec_bind, rule spec_any)
   apply (rule spec_bind, rule open_kept, assumption)
   apply (rule spec_bind, rule tame_kept, rule tame_read_back)
   apply (rule spec_then, rule evidence_kept, rule spec_if)
    apply (rule complete_kept, assumption, simp add: vo_proved_def)
   apply (rule spec_bind, rule tame_kept, rule tame_methods(6))
   apply (rule spec_bind, rule authorise_kept, assumption)
   apply (rule spec_bind, rule mutate_kept)
   apply (rule spec_then, rule mutation_result_kept, rule spec_if)
    apply (rule settle_kept)
     apply (simp_all add: unproven_outcome)[2]
   apply (rule spec_pre, rule verified_tail [unfolded Let_def], assumption)
   apply simp
  apply simp
  done


section \<open>Resolving\<close>

lemma mute_recovery_resolve: "mute (recovery_resolve E c ack st name nt ex)"
  unfolding recovery_resolve_def observe_for_recovery_def
  by (intro mute_intros mute_tame [OF tame_methods(3)] mute_tame [OF tame_require_open_hold]
      mute_tame [OF tame_require_open_hold_locked] mute_tame [OF tame_read_back]
      mute_tame [OF tame_recovery_outcome])

lemma insert_attempt_effect:
  assumes "insert_attempt a s = (Inr x, s')"
  shows "on_record (at_attempt_id a) (\<lambda>b. b = a) (es_db s')"
proof -
  have "\<not> list_ex (attempt_clashes a) (db_attempts (es_db s))"
    "db_attempts (es_db s') = db_attempts (es_db s) @ [a]"
    using assms by (auto simp: insert_attempt_def insert_row_def attempts_insert_def split: sum.splits if_splits)
  then have "find (\<lambda>b. at_attempt_id b = at_attempt_id a) (db_attempts (es_db s)) = None"
    by (auto simp: find_None_iff list_ex_iff attempt_clashes_def)
  then show ?thesis
    using \<open>db_attempts (es_db s') = _\<close> by (simp add: on_record_def attempts_get_def find_append)
qed

definition resolved_row :: "string \<Rightarrow> recovery_attempt_record \<Rightarrow> bool" where
  "resolved_row st a \<longleftrightarrow> at_outcome a = RAO_Resolved \<and> at_releases_hold a \<and> at_kind a = RK_Resolve \<and>
     at_operator_statement a = Some st \<and> at_mutation_attempt_id a = None"

lemma evidence_columns_keep:
  assumes "recovery_evidence_columns c read = Inr u"
  shows "at_attempt_id (u a) = at_attempt_id a" "at_kind (u a) = at_kind a"
    "at_mutation_attempt_id (u a) = at_mutation_attempt_id a"
  using assms by (auto simp: recovery_evidence_columns_def bindE_def split: sum.splits)

lemma resolve_tx:
  "spec (\<lambda>_. True) (transaction (
       thenM (require_open_hold_locked c r None)
      (bindM (look f) (\<lambda>n.
       bindM (lift (recovery_evidence_columns c read)) (\<lambda>cols.
       thenM (insert_attempt ((cols (attempt_row c r aid n RK_Resolve t rel None))
                \<lparr>at_outcome := RAO_Resolved, at_releases_hold := True, at_finished_at := Some t,
                 at_operator_statement := Some st, at_note := note\<rparr>))
      (thenM (append_event E rid ev1 cid1 None None)
      (thenM (append_event E rid ev2 cid2 None None) (release_lock rid))))))))
     (\<lambda>_ s. on_record aid (resolved_row st) (es_db s) \<and> locks_for_run rid (db_locks (es_db s)) = None)
     (\<lambda>_ _. True)"
proof (rule spec_transaction)
  let ?R = "\<lambda>s. on_record aid (resolved_row st) (es_db s)"
  have ev: "spec ?R (append_event E rid ev cid None None) (\<lambda>_. ?R) (\<lambda>_ _. True)" for ev cid
    by (simp add: spec_def append_event_def bindM_def new_id_def now_def world_def modify_def on_record_def)
  have rel: "spec ?R (release_lock rid)
      (\<lambda>_ s. ?R s \<and> locks_for_run rid (db_locks (es_db s)) = None) (\<lambda>_ _. True)"
    by (simp add: spec_def release_lock_def modify_def on_record_def)
  have ins: "spec (\<lambda>_. True) (insert_attempt ((u (attempt_row c r aid n RK_Resolve t rel None))
                \<lparr>at_outcome := RAO_Resolved, at_releases_hold := True, at_finished_at := Some t,
                 at_operator_statement := Some st, at_note := note\<rparr>)) (\<lambda>_. ?R) (\<lambda>_ _. True)"
    if "recovery_evidence_columns c read = Inr u" for u n
  proof (rule specI)
    fix s x s'
    let ?a = "(u (attempt_row c r aid n RK_Resolve t rel None))
                \<lparr>at_outcome := RAO_Resolved, at_releases_hold := True, at_finished_at := Some t,
                 at_operator_statement := Some st, at_note := note\<rparr>"
    assume "insert_attempt ?a s = (Inr x, s')"
    from insert_attempt_effect [OF this] show "?R s'"
      using evidence_columns_keep [OF that, of "attempt_row c r aid n RK_Resolve t rel None"]
      by (auto simp: on_record_def resolved_row_def attempt_row_def)
  qed simp
  have "spec (\<lambda>_. True) (
       thenM (require_open_hold_locked c r None)
      (bindM (look f) (\<lambda>n.
       bindM (lift (recovery_evidence_columns c read)) (\<lambda>cols.
       thenM (insert_attempt ((cols (attempt_row c r aid n RK_Resolve t rel None))
                \<lparr>at_outcome := RAO_Resolved, at_releases_hold := True, at_finished_at := Some t,
                 at_operator_statement := Some st, at_note := note\<rparr>))
      (thenM (append_event E rid ev1 cid1 None None)
      (thenM (append_event E rid ev2 cid2 None None) (release_lock rid)))))))
     (\<lambda>_ s. ?R s \<and> locks_for_run rid (db_locks (es_db s)) = None) (\<lambda>_ _. True)"
    by (rule spec_then, rule spec_any, rule spec_bind, rule spec_any,
        rule spec_bind [where R = "\<lambda>u _. recovery_evidence_columns c read = Inr u"],
        rule specI, simp, simp add: lift_def, rule spec_pre [where P' = "\<lambda>s. recovery_evidence_columns c read = Inr u \<and> True" for u],
        rule spec_when, rule spec_then, rule ins, assumption, rule spec_then, rule ev,
        rule spec_then, rule ev, rule rel) simp
  then show "spec (\<lambda>s. True \<and> es_db s = d) (
       thenM (require_open_hold_locked c r None)
      (bindM (look f) (\<lambda>n.
       bindM (lift (recovery_evidence_columns c read)) (\<lambda>cols.
       thenM (insert_attempt ((cols (attempt_row c r aid n RK_Resolve t rel None))
                \<lparr>at_outcome := RAO_Resolved, at_releases_hold := True, at_finished_at := Some t,
                 at_operator_statement := Some st, at_note := note\<rparr>))
      (thenM (append_event E rid ev1 cid1 None None)
      (thenM (append_event E rid ev2 cid2 None None) (release_lock rid)))))))
     (\<lambda>_ s. on_record aid (resolved_row st) (es_db (s\<lparr>es_journal := es_journal s @ [Committed (es_db s)]\<rparr>)) \<and>
        locks_for_run rid (db_locks (es_db (s\<lparr>es_journal := es_journal s @ [Committed (es_db s)]\<rparr>))) = None)
     (\<lambda>_ _. True)" for d
    by (rule spec_weaken) simp_all
qed

lemma demanded: "spec (\<lambda>_. True) (demand b code) (\<lambda>_ _. b \<and> True) (\<lambda>_ _. True)"
  by (simp add: spec_def demand_def ret_def fail_def)

lemma resolve_spec:
  "spec (\<lambda>_. True) (recovery_resolve E c ack st name nt ex)
     (\<lambda>res s. (ack \<and> strip st = name \<and> (ex = None \<or> ex = ch_recovery_reason c)) \<and>
        resolved_row (strip st) (rr_attempt res) \<and>
        locks_for_run (ch_run_id c) (db_locks (es_db s)) = None) (\<lambda>_ _. True)"
  unfolding recovery_resolve_def
  apply (rule spec_bind [where R = "\<lambda>r _. rn_run_id r = ch_run_id c \<and> True"])
   apply (rule spec_weaken [OF recovery_run_id]; simp)
  apply (rule spec_when, simp only:)
  apply (rule spec_then, rule spec_any)
  apply (rule spec_then, rule demanded, rule spec_when)
  apply (rule spec_then, rule demanded, rule spec_when)
  apply (rule spec_then, rule demanded, rule spec_when)
  apply (rule spec_bind, rule spec_any, rule spec_bind, rule spec_any, rule spec_bind, rule spec_any)
  apply (rule spec_then, rule resolve_tx)
  apply (rule spec_weaken, rule recovery_outcome_spec)
    apply assumption
   apply simp_all
  done

text \<open>
  C9. An operator's resolution sends nothing. It is recorded as theirs, with the statement that
  named the object, and only then lets the hold go.
\<close>

theorem resolution_is_the_operators:
  assumes "recovery_resolve E c ack st name nt ex s = (Inr res, s')"
  shows "muts (es_journal s') = muts (es_journal s) \<and> ack \<and> strip st = name \<and>
    at_outcome (rr_attempt res) = RAO_Resolved \<and>
    at_operator_statement (rr_attempt res) = Some name \<and>
    at_releases_hold (rr_attempt res) \<and> locks_for_run (ch_run_id c) (db_locks (es_db s')) = None"
proof -
  obtain js where "es_journal s' = es_journal s @ js" "\<forall>e \<in> set js. mark e = None"
    using mute_recovery_resolve [of E c ack st name nt ex] assms unfolding mute_def by blast
  then have "muts (es_journal s') = muts (es_journal s)"
    using unmarked_muts by fastforce
  then show ?thesis
    using specD_Inr [OF resolve_spec _ assms] by (simp add: resolved_row_def)
qed

section \<open>A concrete recovery\<close>

text \<open>
  The sample's change after an apply whose outcome is unknown: an open recovery, its hold, and a
  confirmation for one retry.
\<close>

definition held_change :: change_record where
  "held_change = (change_row sample_run ''chg_1'' ''apl_1'' None [] 3)
     \<lparr>ch_field := Some ''mtu'', ch_value_type := Some VT_Integer,
      ch_before_value := Some (VInt 1400), ch_desired_value := Some (VInt 1500),
      ch_dispatch_began_at := Some 4, ch_mutation_outcome := Some MO_Write_Unknown,
      ch_result := CR_Recovery_Required, ch_recovery_reason := Some RR_Apply_Write_Unknown\<rparr>"

definition retry_plan :: run_plan where
  "retry_plan = sample_plan\<lparr>rp_confirmation := (rp_confirmation sample_plan)
     \<lparr>crq_required := True, crq_method := CM_Acknowledge\<rparr>\<rparr>"

definition recovery_env ::
  "mutation_outcome \<Rightarrow> verification_outcome \<Rightarrow> (bool \<Rightarrow> bool) \<Rightarrow> bool engine_env" where
  "recovery_env m v after = (sample_env m v after)\<lparr>ev_replan := \<lambda>_ _ _ _ _. Inr retry_plan\<rparr>"

definition recovery_state :: "bool engine_state" where
  "recovery_state = sample_state\<lparr>es_db := sample_db
     \<lparr>db_runs := [sample_run\<lparr>rn_state := RS_Recovery_Required\<rparr>], db_changes := [held_change],
      db_confirmations := [confirmation_row sample_run ''cnf_2'' CP_Recovery_Retry CM_Acknowledge
        CM_Acknowledge None 5],
      db_locks := [\<lparr>wl_lock_key = ''h|eth1|mtu'', wl_host_id = ''h'', wl_object_id = ''eth1'',
        wl_field = ''mtu'', wl_run_id = ''run_1'', wl_acquired_at = 2\<rparr>]\<rparr>\<rparr>"

lemma recovery_env_simps:
  "ev_now (recovery_env m v after) w = 7" "ev_uuid (recovery_env m v after) n = sample_uuid n"
  "ev_object (recovery_env m v after) w i = (if w \<and> i = ''eth1'' then Some sample_object else None)"
  "ev_executors (recovery_env m v after) x = Some (sample_executor m v after)"
  "ev_definition (recovery_env m v after) x = sample_definition"
  "ev_replan (recovery_env m v after) w op ob mp ctx = Inr retry_plan"
  by (simp_all add: recovery_env_def sample_env_simps)

lemmas retry_methods = recovery_retry_def recovery_run_def require_open_hold_def
  require_open_hold_locked_def require_path_evidence_def open_recovery_attempt_def
  insert_attempt_def update_attempt_def require_attempt_def recovery_outcome_def
  recovery_step_def recovery_evidence_def recovery_evidence_columns_def recovery_verification_def
  recovery_verification_columns_def recovery_mutation_result_def attempt_outcome_columns_def
  recovery_plan_now_def recovery_request_def recovery_dispatch_marker_def settle_retry_def
  refuse_recovery_def authorise_retry_def same_intended_outcome_def recovery_hold_def
  attempts_insert_def attempts_update_def attempts_next_sequence_def attempts_get_def
  attempts_in_flight_def attempts_release_of_def attempt_clashes_def attempt_row_def
  confirmations_outstanding_def ch_recovery_required_def at_wrote_def

lemma recovery_retry_run:
  "(\<lambda>(res, t). (map_sum id (\<lambda>x. at_outcome (rr_attempt x)) res, map mark (es_journal t)))
     (recovery_retry (recovery_env MO_Written VO_Mismatch id) held_change sample_verdict None
        recovery_state) =
   (Inr RAO_Not_Proven, [None, None, None, Some (Some CR_Recovery_Required), None, None, None])"
  apply (simp add: recovery_state_def held_change_def sample_values recovery_env_simps sample_env_simps
      run_monad run_methods run_tables run_columns retry_methods assess_management_path_reason_def
      sample_verdict_def sample_definition_def retry_plan_def sample_plan_def val_eq_def
      recovery_outcome_for_def changes_for_run_def)
  done



lemma resolution_run:
  "map_sum id (\<lambda>x. at_outcome (rr_attempt x))
     (fst (recovery_resolve (recovery_env MO_Written VO_Mismatch id) held_change True '' eth1 ''
        ''eth1'' None None recovery_state)) = Inr RAO_Resolved"
  by (simp add: recovery_state_def held_change_def sample_values recovery_env_simps sample_env_simps
      run_monad run_methods run_tables run_columns retry_methods recovery_resolve_def
      observe_for_recovery_def strip_def whitespace_def)

theorem resolution_is_the_operators_witness:
  "\<exists>s'. muts (es_journal (s' :: bool engine_state)) = [] \<and>
     locks_for_run (ch_run_id held_change) (db_locks (es_db s')) = None"
proof -
  obtain res t where r: "recovery_resolve (recovery_env MO_Written VO_Mismatch id) held_change True
      '' eth1 '' ''eth1'' None None recovery_state = (res, t)"
    by (cases "recovery_resolve (recovery_env MO_Written VO_Mismatch id) held_change True
      '' eth1 '' ''eth1'' None None recovery_state")
  then obtain x where x: "res = Inr x" using resolution_run by (cases res) auto
  have "muts (es_journal recovery_state) = []" by (simp add: recovery_state_def sample_state_def)
  with resolution_is_the_operators [OF r [unfolded x]] show ?thesis by auto
qed

text \<open>
  A retry whose target leaves the inventory while it is read refuses with its attempt still in
  flight; from then on every retry and every resolution of the change is refused, until a restart
  settles the attempt.
\<close>

theorem vanished_target_blocks_recovery:
  "let E = recovery_env MO_Written VO_Mismatch (\<lambda>_. False);
       (first, s1) = recovery_retry E held_change sample_verdict None recovery_state;
       (second, s2) = recovery_resolve E held_change True ''eth1'' ''eth1'' None None s1
   in first = Inl (Refused ''object_not_found'') \<and>
      map at_outcome (db_attempts (es_db s1)) = [RAO_In_Flight] \<and>
      second = Inl (Refused ''recovery_attempt_in_flight'')"
  by (simp add: recovery_state_def held_change_def sample_values recovery_env_simps sample_env_simps
      run_monad run_methods run_tables run_columns retry_methods assess_management_path_reason_def
      sample_verdict_def sample_definition_def recovery_resolve_def)

end
