(* ===== verification/Docker_Domain.thy ===== *)
theory Docker_Domain
  imports States
begin

text \<open>
  Judgements about Docker containers: \<open>src/localplane/backend/domain/docker.py\<close>. The lifecycle
  states and verbs, a container's health and LocalPlane's stance towards it, whether it is
  running, and the reading of Docker's instants. \<open>render\<close> is Python's \<open>str\<close> of a value that is not
  a text. An instant is the number of microseconds \<open>datetime.fromisoformat\<close> reads from a text,
  with whether the text named an offset (an aware instant); that function is the parameter \<open>rd\<close>.
\<close>

type_synonym reading = "bool \<times> int"

definition OBJECT_KIND_DOCKER_CONTAINER :: string where
  "OBJECT_KIND_DOCKER_CONTAINER = ''docker.container''"

section \<open>States and verbs\<close>

datatype lifecycle_state =
  LS_Created | LS_Running | LS_Paused | LS_Restarting | LS_Removing | LS_Exited | LS_Dead

fun ls_str :: "lifecycle_state \<Rightarrow> string" where
  "ls_str LS_Created = ''created''" | "ls_str LS_Running = ''running''"
| "ls_str LS_Paused = ''paused''" | "ls_str LS_Restarting = ''restarting''"
| "ls_str LS_Removing = ''removing''" | "ls_str LS_Exited = ''exited''"
| "ls_str LS_Dead = ''dead''"

datatype lifecycle_action = LA_Start | LA_Stop | LA_Restart

fun la_str :: "lifecycle_action \<Rightarrow> string" where
  "la_str LA_Start = ''start''" | "la_str LA_Stop = ''stop''" | "la_str LA_Restart = ''restart''"

lemma la_str_inject [simp]: "la_str a = la_str b \<longleftrightarrow> a = b"
  by (cases a; cases b) simp_all

text \<open>A fact that is a text and not the empty one.\<close>

definition named :: "pyval \<Rightarrow> string option" where
  "named v = (case v of PStr s \<Rightarrow> (if s = [] then None else Some s) | _ \<Rightarrow> None)"

lemma named_simps [simp]:
  "named (PStr s) = (if s = [] then None else Some s)" "named PNone = None"
  by (simp_all add: named_def)

lemma named_Some: "named v = Some s \<longleftrightarrow> v = PStr s \<and> s \<noteq> []"
  by (auto simp: named_def split: pyval.splits)

section \<open>Health and management\<close>

definition exited_health :: "(pyval \<Rightarrow> string) \<Rightarrow> pyval \<Rightarrow> health_state verdict" where
  "exited_health render exit_code =
     (let by_code = (\<lambda>n. if n = (0 :: int) then Verdict HS_Inactive ''exited_cleanly''
            else Verdict HS_Failed (''exited_with_code_'' @ py_str render exit_code)) in
      case exit_code of
        PInt n \<Rightarrow> by_code n
      | PBool b \<Rightarrow> by_code (if b then 1 else 0)
      | _ \<Rightarrow> Verdict HS_Unknown ''exited_exit_code_unreadable'')"

definition running_health :: "(pyval \<Rightarrow> string) \<Rightarrow> pyval \<Rightarrow> health_state verdict" where
  "running_health render health =
     (let d = as_dict health; status = get d ''status'' in
      if \<not> truthy (get d ''checked'') \<or> status = PNone
      then Verdict HS_Healthy ''running_no_healthcheck''
      else if status = PStr ''healthy'' then Verdict HS_Healthy ''healthcheck_passing''
      else if status = PStr ''unhealthy'' then Verdict HS_Failed ''healthcheck_failing''
      else if status = PStr ''starting'' then Verdict HS_Unknown ''healthcheck_starting''
      else Verdict HS_Unknown (''unrecognised_health_status:'' @ py_str render status))"

definition derive_container_health :: "(pyval \<Rightarrow> string) \<Rightarrow> facts \<Rightarrow> health_state verdict" where
  "derive_container_health render fs =
     (case named (get fs ''state'') of
        None \<Rightarrow> Verdict HS_Unknown ''state_unreadable''
      | Some state \<Rightarrow>
         if state = ls_str LS_Restarting then Verdict HS_Degraded ''restarting''
         else if state = ls_str LS_Paused then Verdict HS_Inactive ''paused''
         else if state = ls_str LS_Created then Verdict HS_Inactive ''never_started''
         else if state = ls_str LS_Removing then Verdict HS_Inactive ''removing''
         else if state = ls_str LS_Dead then Verdict HS_Failed ''dead''
         else if state = ls_str LS_Exited then exited_health render (get fs ''exit_code'')
         else if state = ls_str LS_Running
         then (if get fs ''running'' = PBool False
               then Verdict HS_Unknown ''state_running_but_not_running''
               else running_health render (get fs ''health''))
         else Verdict HS_Unknown (''unrecognised_state:'' @ state))"

definition classify_container_management :: "facts \<Rightarrow> management_state verdict" where
  "classify_container_management fs = Verdict MS_Observed ''container_lifecycle_candidate''"

definition is_running :: "facts \<Rightarrow> bool option" where
  "is_running fs =
     (let says = map_option (\<lambda>s. s = ls_str LS_Running) (named (get fs ''state'')) in
      case get fs ''running'' of
        PBool r \<Rightarrow> (case says of None \<Rightarrow> Some r | Some n \<Rightarrow> if r = n then Some r else None)
      | _ \<Rightarrow> says)"

section \<open>Docker's instants\<close>

definition decimal :: "char \<Rightarrow> bool" where
  "decimal c \<longleftrightarrow> c \<in> set ''0123456789''"

text \<open>
  Nanoseconds are cut to the six digits \<open>fromisoformat\<close> accepts, a shorter fraction is filled up
  with zeros, and \<open>Z\<close> becomes an offset.
\<close>

definition zulu :: "string \<Rightarrow> string" where
  "zulu s = concat (map (\<lambda>c. if c = CHR ''Z'' then ''+00:00'' else [c]) s)"

definition six_digits :: "string \<Rightarrow> string" where
  "six_digits s = (let f = take 6 s in f @ replicate (6 - length f) (CHR ''0''))"

definition docker_instant_text :: "string \<Rightarrow> string" where
  "docker_instant_text raw =
     (let text = zulu raw; head = takeWhile (\<lambda>c. c \<noteq> CHR ''.'') text;
          rest = dropWhile (\<lambda>c. c \<noteq> CHR ''.'') text in
      case rest of
        [] \<Rightarrow> text
      | _ # tail \<Rightarrow> head @ ''.'' @ six_digits (takeWhile decimal tail) @ dropWhile decimal tail)"

definition NEVER :: string where "NEVER = ''0001-01-01''"

definition parse_docker_instant :: "(string \<Rightarrow> reading option) \<Rightarrow> pyval \<Rightarrow> reading option" where
  "parse_docker_instant rd raw =
     (case named raw of
        None \<Rightarrow> None
      | Some s \<Rightarrow> if take (length NEVER) s = NEVER then None else rd (docker_instant_text s))"

section \<open>Lemmas\<close>

lemma length_six_digits [simp]: "length (six_digits s) = 6"
  by (simp add: six_digits_def Let_def)

lemma six_digits_decimal: "\<forall>c \<in> set s. decimal c \<Longrightarrow> \<forall>c \<in> set (six_digits s). decimal c"
proof -
  assume d: "\<forall>c \<in> set s. decimal c"
  have z: "decimal (CHR ''0'')" by (simp add: decimal_def)
  show ?thesis using d z by (auto simp: six_digits_def Let_def dest: in_set_takeD)
qed

lemma is_running_Some:
  assumes "is_running fs = Some b" "named (get fs ''state'') = Some s"
  shows "b \<longleftrightarrow> s = ''running''"
  using assms by (cases "get fs ''running''") (auto simp: is_running_def split: if_splits)

lemma exited_health_state:
  "v_state (exited_health render x) \<noteq> HS_Healthy"
  "v_state (exited_health render x) = HS_Failed \<longleftrightarrow> x = PBool True \<or> (\<exists>n. n \<noteq> 0 \<and> x = PInt n)"
  by (cases x; simp add: exited_health_def)+

lemma running_health_state:
  "v_state (running_health render h) = HS_Healthy \<longleftrightarrow>
     \<not> truthy (get (as_dict h) ''checked'') \<or>
     get (as_dict h) ''status'' = PNone \<or> get (as_dict h) ''status'' = PStr ''healthy''"
  "v_state (running_health render h) = HS_Failed \<longleftrightarrow>
     truthy (get (as_dict h) ''checked'') \<and> get (as_dict h) ''status'' = PStr ''unhealthy''"
  by (simp_all add: running_health_def Let_def)

text \<open>Healthy is earned: a running container whose own check passes, or that declares none.\<close>

lemma container_healthy_iff:
  "v_state (derive_container_health render fs) = HS_Healthy \<longleftrightarrow>
     get fs ''state'' = PStr ''running'' \<and> get fs ''running'' \<noteq> PBool False \<and>
     (let d = as_dict (get fs ''health'') in
      \<not> truthy (get d ''checked'') \<or> get d ''status'' = PNone \<or> get d ''status'' = PStr ''healthy'')"
  by (cases "get fs ''state''")
    (simp_all add: derive_container_health_def named_def exited_health_state running_health_state Let_def)

lemma container_failed_iff:
  "v_state (derive_container_health render fs) = HS_Failed \<longleftrightarrow>
     get fs ''state'' = PStr ''dead'' \<or>
     get fs ''state'' = PStr ''exited'' \<and>
       (get fs ''exit_code'' = PBool True \<or> (\<exists>n. n \<noteq> 0 \<and> get fs ''exit_code'' = PInt n)) \<or>
     get fs ''state'' = PStr ''running'' \<and> get fs ''running'' \<noteq> PBool False \<and>
       truthy (get (as_dict (get fs ''health'')) ''checked'') \<and>
       get (as_dict (get fs ''health'')) ''status'' = PStr ''unhealthy''"
  by (cases "get fs ''state''")
    (simp_all add: derive_container_health_def named_def exited_health_state running_health_state)

end
