(* ===== verification/Operations.thy ===== *)
theory Operations
  imports Engine_Base Docker_Domain
begin

text \<open>
  The typed operations and how each is planned: \<open>src/localplane/backend/operations.py\<close>,
  \<open>container_operations.py\<close>, \<open>systemd_operations.py\<close>, over the planning context of
  \<open>src/localplane/backend/runs.py\<close>. A planner is a function of its context that publishes a plan,
  refuses with a code and its detail, or raises. \<open>pn_read\<close> is \<open>datetime.fromisoformat\<close>, \<open>pn_wall\<close>
  the clock a freshness judgement falls back to, \<open>pn_render\<close> Python's \<open>str\<close> of a value that is not a
  text. An age in seconds is a float: of it only whether it is zero is kept.
\<close>

section \<open>What a planner sees\<close>

record intent_record =
  in_intent_id :: string
  in_object_id :: string
  in_host_id :: string
  in_version :: int
  in_supersedes :: "string option"
  in_schema_version :: int
  in_origin :: string
  in_capability :: string
  in_provider :: string
  in_provider_version :: string
  in_observation_id :: string
  in_sweep_id :: string
  in_observed_at :: string
  in_created_at :: string
  in_fields :: "captured_field list"

record planning_context =
  pc_now :: string
  pc_freshness_ttl :: int
  pc_object :: object_record
  pc_intent :: "intent_record option"
  pc_provenance :: provenance
  pc_provider_readings :: "(string \<times> string option) list"
  pc_evidence_sources :: "string list"
  pc_open_drift :: "(string \<times> string) list"
  pc_management_path :: management_path_verdict
  pc_systemd_lifecycle_context :: "systemd_lifecycle_context option"

record planning_env =
  pn_read :: "string \<Rightarrow> reading option"
  pn_wall :: int
  pn_render :: "pyval \<Rightarrow> string"

type_synonym planned = "py_error + plan_refused + run_plan"

definition refuse_plan :: "string \<Rightarrow> facts \<Rightarrow> planned" where
  "refuse_plan code detail = Inr (Inl \<lparr>prf_code = code, prf_detail = detail\<rparr>)"

definition publish :: "run_plan \<Rightarrow> planned" where
  "publish p = Inr (Inr p)"

definition INTENT_SCHEMA_VERSION :: int where "INTENT_SCHEMA_VERSION = 1"
definition PROVIDER_SYSTEMD :: string where "PROVIDER_SYSTEMD = ''systemd''"
definition OBJECT_KIND_SYSTEMD_UNIT :: string where "OBJECT_KIND_SYSTEMD_UNIT = ''systemd.unit''"
definition CAPABILITY_SET_MTU :: string where "CAPABILITY_SET_MTU = ''network.interface.set_mtu''"
definition CAPABILITY_MTU_GUARD :: string where
  "CAPABILITY_MTU_GUARD = ''network.interface.mtu_guard''"
definition CAPABILITY_DOCKER_CONTAINERS_OBSERVE :: string where
  "CAPABILITY_DOCKER_CONTAINERS_OBSERVE = ''docker.containers.observe''"
definition CAPABILITY_DOCKER_CONTAINER_LIFECYCLE :: string where
  "CAPABILITY_DOCKER_CONTAINER_LIFECYCLE = ''docker.container.lifecycle''"
definition CAPABILITY_SYSTEMD_UNITS_OBSERVE :: string where
  "CAPABILITY_SYSTEMD_UNITS_OBSERVE = ''systemd.units.observe''"
definition SYSTEMD_SERVICE_LIFECYCLE :: string where
  "SYSTEMD_SERVICE_LIFECYCLE = ''systemd.service.lifecycle''"

text \<open>An instant's freshness; subtracting a naive instant from an aware one raises.\<close>

definition freshness_at ::
  "planning_env \<Rightarrow> reading option \<Rightarrow> int \<Rightarrow> string \<Rightarrow> py_error + freshness \<times> int option" where
  "freshness_at P observed ttl now_text =
     (case observed of
        None \<Rightarrow> Inr (Fr_Never_Observed, None)
      | Some (aware, t) \<Rightarrow>
         (let (aware', n) = (case pn_read P now_text of None \<Rightarrow> (True, pn_wall P) | Some r \<Rightarrow> r) in
          if aware \<noteq> aware'
          then Inl (TypeError ''can't subtract offset-naive and offset-aware datetimes'')
          else Inr (derive_freshness (Some t) ttl n)))"

definition observed_at_dt :: "planning_env \<Rightarrow> observation_record \<Rightarrow> reading option" where
  "observed_at_dt P ob = (if ob_observed_at ob = [] then None else pn_read P (ob_observed_at ob))"

fun fr_str :: "freshness \<Rightarrow> string" where
  "fr_str Fr_Current = ''current''" | "fr_str Fr_Stale = ''stale''"
| "fr_str Fr_Never_Observed = ''never_observed''"

definition seconds :: "int option \<Rightarrow> pyval" where
  "seconds age = (case age of None \<Rightarrow> PNone | Some a \<Rightarrow> POther (if a = 0 then 0 else 1))"

definition stale_detail :: "freshness \<times> int option \<Rightarrow> int \<Rightarrow> facts" where
  "stale_detail fr ttl = [(''freshness'', PStr (fr_str (fst fr))), (''age_seconds'', seconds (snd fr)),
     (''ttl_seconds'', seconds (Some ttl))]"

text \<open>What a plan publishes of an object's ownership.\<close>

fun relation_str :: "ownership_relation \<Rightarrow> string" where
  "relation_str Created_By = ''created_by''" | "relation_str Configured_By = ''configured_by''"

fun confidence_str :: "ownership_confidence \<Rightarrow> string" where
  "confidence_str OC_Confirmed = ''confirmed''" | "confidence_str OC_Corroborated = ''corroborated''"

fun ownership_str :: "ownership_state \<Rightarrow> string" where
  "ownership_str OS_Attributed = ''attributed''" | "ownership_str OS_Unknown = ''unknown''"

definition text_or_none :: "pyval \<Rightarrow> string option" where
  "text_or_none v = (case v of PStr s \<Rightarrow> Some s | _ \<Rightarrow> None)"

definition published :: "ownership_claim \<Rightarrow> published_claim" where
  "published c =
     \<lparr>pcl_relation = relation_str (oc_relation c), pcl_provider = oi_provider (oc_owner c),
      pcl_instance = text_or_none (oi_instance (oc_owner c)),
      pcl_label = text_or_none (oi_label (oc_owner c)),
      pcl_confidence = confidence_str (oc_confidence c), pcl_external = external (oc_owner c)\<rparr>"

definition ownership_of :: "planning_context \<Rightarrow> ownership_assessment" where
  "ownership_of ctx =
     (let p = pc_provenance ctx in
      \<lparr>oas_state = ownership_str (pv_state p), oas_reason = pv_reason p,
       oas_claims = map published (pv_claims p), oas_gaps = gaps p,
       oas_readings = pc_provider_readings ctx\<rparr>)"

section \<open>Reconciling an interface's MTU\<close>

definition MTU :: string where "MTU = ''mtu''"

definition RECONCILE_MTU :: operation_definition where
  "RECONCILE_MTU =
     \<lparr>od_operation = op_str Network_Interface_Reconcile_Mtu,
      od_summary = ''Write the retained intended MTU of a managed interface back to the runtime, so the host carries the value LocalPlane holds for it.'',
      od_target_kind = ''network.interface'', od_base_risk = Medium, od_destructive = False,
      od_can_affect_management_path = True, od_recovery_mode = RM_Auto,
      od_rollback_possible = True, od_required_capability = CAPABILITY_SET_MTU,
      od_protection_uses_resource_relation = True, od_guarded_execution = True,
      od_acts_through_provider = None, od_confirmation_requested = False,
      od_confirmation_reason = None,
      od_verification_condition = ''re-read this interface through the same capability and provider the intent is written against, and require its normalized mtu to equal the desired value'',
      od_execution_note = ''The write is one fixed rtnetlink message '' @ em_dash @ '' RTM_NEWLINK carrying IFLA_MTU '' @ em_dash @ '' built inside a privileged helper that has exactly one mutating method and no way to send another message type. The unprivileged agent forwards a typed request to it over a socket that checks peer credentials; no command, argv or shell exists anywhere on the path, and the desired value comes from the active intent by way of the checkpoint, never from the caller.'',
      od_extra_risk_factors = []\<rparr>"

definition intended_mtu :: "intent_record \<Rightarrow> ivalue option" where
  "intended_mtu i =
     (case find (\<lambda>f. cf_field f = MTU) (in_fields i) of
        None \<Rightarrow> None
      | Some f \<Rightarrow> coerce VT_Integer (to_pyval (cf_value f)))"

definition MTU_RECOVERY_REASON :: string where
  "MTU_RECOVERY_REASON = ''nothing is armed while a plan is only published. Applying this writes a durable checkpoint holding the value below before any mutation becomes possible, and a checkpoint that cannot be written ends the run before the write boundary with no change record and no host write.''"

text \<open>The plan, once its inputs are settled; everything in it is derived from the context.\<close>

definition mtu_plan ::
  "planning_context \<Rightarrow> intent_record \<Rightarrow> observation_record \<Rightarrow> ivalue \<Rightarrow> ivalue \<Rightarrow>
   protection_assessment \<Rightarrow> run_plan" where
  "mtu_plan ctx intent ob current desired protection =
     (let record = pc_object ctx;
          block_reason = fst (ownership_gate RECONCILE_MTU (pc_provenance ctx));
          gs = gaps (pc_provenance ctx);
          risk = assess_risk RECONCILE_MTU block_reason gs protection;
          guard = assess_guard RECONCILE_MTU protection
                    (CAPABILITY_MTU_GUARD \<in> set (pc_evidence_sources ctx)) in
      \<lparr>rp_operation = Network_Interface_Reconcile_Mtu, rp_host_id = oj_host_id record,
       rp_object_id = oj_object_id record,
       rp_change = Field_Change \<lparr>pfc_field = MTU, pfc_value_type = VT_Integer,
          pfc_current = current, pfc_desired = desired\<rparr>,
       rp_evidence = \<lparr>pev_observation_id = ob_observation_id ob, pev_sweep_id = ob_sweep_id ob,
          pev_observed_at = ob_observed_at ob,
          pev_drift_finding_id = map_of (pc_open_drift ctx) MTU,
          pev_intent_id = Some (in_intent_id intent), pev_intent_version = Some (in_version intent),
          pev_intent_capability = Some (in_capability intent),
          pev_intent_provider = Some (in_provider intent)\<rparr>,
       rp_ownership = ownership_of ctx, rp_protection = protection, rp_risk = risk,
       rp_confirmation = effective_confirmation RECONCILE_MTU risk protection True,
       rp_execution = assess_execution RECONCILE_MTU XA_Available (Some ''linux.link'')
          (od_required_capability RECONCILE_MTU \<in> set (pc_evidence_sources ctx))
          block_reason gs protection guard None,
       rp_guard = guard,
       rp_recovery = \<lparr>rpl_mode = od_recovery_mode RECONCILE_MTU, rpl_rollback_possible = True,
          rpl_armed = False, rpl_guarantee = ''none'', rpl_reason = MTU_RECOVERY_REASON\<rparr>,
       rp_verification = \<lparr>vpl_executed = False, vpl_capability = in_capability intent,
          vpl_provider = in_provider intent,
          vpl_condition = od_verification_condition RECONCILE_MTU\<rparr>,
       rp_authorization = None, rp_lifecycle_context = None, rp_self_impact = None\<rparr>)"

definition sorted_fields :: "intent_record \<Rightarrow> pyval" where
  "sorted_fields i = PList (map PStr (sort (map cf_field (in_fields i))))"

text \<open>What is refused of the intent and of the observation, in the code's order.\<close>

definition mtu_intent ::
  "planning_context \<Rightarrow> plan_refused + intent_record \<times> ivalue" where
  "mtu_intent ctx =
     (let record = pc_object ctx; no = (\<lambda>c d. Inl \<lparr>prf_code = c, prf_detail = d\<rparr>) in
      if oj_management_state record = ''observe_only''
      then no ''object_observe_only''
             [(''management_state'', PStr (oj_management_state record)),
              (''reason'', PStr (oj_management_reason record))]
      else if oj_management_state record \<noteq> ''managed''
      then no ''not_managed'' [(''management_state'', PStr (oj_management_state record))]
      else case pc_intent ctx of
        None \<Rightarrow> no ''active_intent_missing'' [(''active_intent_id'', opt_text (oj_active_intent_id record))]
      | Some intent \<Rightarrow>
         if in_object_id intent \<noteq> oj_object_id record
         then no ''active_intent_missing'' [(''active_intent_id'', opt_text (oj_active_intent_id record))]
         else if in_schema_version intent \<noteq> INTENT_SCHEMA_VERSION
         then no ''intent_schema_unsupported'' [(''intent_id'', PStr (in_intent_id intent)),
                (''intent_schema_version'', PInt (in_schema_version intent)),
                (''supported_schema_version'', PInt INTENT_SCHEMA_VERSION)]
         else case intended_mtu intent of
             None \<Rightarrow> no ''field_not_controlled'' [(''field'', PStr MTU),
                (''intent_id'', PStr (in_intent_id intent)), (''controlled_fields'', sorted_fields intent)]
           | Some desired \<Rightarrow> Inr (intent, desired))"

text \<open>The newest observation, when it is current and comes from the expected source.\<close>

definition current_observation ::
  "planning_env \<Rightarrow> planning_context \<Rightarrow> (observation_record \<Rightarrow> planned) \<Rightarrow> planned" where
  "current_observation P ctx k =
     (case oj_observation (pc_object ctx) of
        None \<Rightarrow> refuse_plan ''no_observation'' []
      | Some ob \<Rightarrow>
         bindE (freshness_at P (observed_at_dt P ob) (pc_freshness_ttl ctx) (pc_now ctx)) (\<lambda>fr.
         if fst fr \<noteq> Fr_Current
         then refuse_plan ''observation_stale''
                ((''observation_id'', PStr (ob_observation_id ob)) # stale_detail fr (pc_freshness_ttl ctx))
         else k ob))"

definition plan_interface_mtu_reconciliation :: "planning_env \<Rightarrow> planning_context \<Rightarrow> planned" where
  "plan_interface_mtu_reconciliation P ctx =
     (case mtu_intent ctx of
        Inl r \<Rightarrow> Inr (Inl r)
      | Inr (intent, desired) \<Rightarrow>
         current_observation P ctx (\<lambda>ob.
         if ob_capability ob \<noteq> in_capability intent \<or> ob_provider ob \<noteq> in_provider intent
         then refuse_plan ''observation_source_incompatible''
                [(''intent_capability'', PStr (in_capability intent)),
                 (''intent_provider'', PStr (in_provider intent)),
                 (''observation_capability'', PStr (ob_capability ob)),
                 (''observation_provider'', PStr (ob_provider ob))]
         else case coerce VT_Integer (get (ob_facts ob) MTU) of
             None \<Rightarrow> refuse_plan ''current_value_unreadable''
                [(''field'', PStr MTU), (''observation_id'', PStr (ob_observation_id ob)),
                 (''fidelity'', PStr (ob_fidelity ob)), (''gaps'', PList (map PStr (ob_gaps ob))),
                 (''observed'', get (ob_facts ob) MTU)]
           | Some current \<Rightarrow>
              if val_eq current desired
              then refuse_plan ''already_reconciled''
                     [(''field'', PStr MTU), (''value'', to_pyval current),
                      (''intent_id'', PStr (in_intent_id intent)),
                      (''observation_id'', PStr (ob_observation_id ob))]
              else bindE (assess_protection RECONCILE_MTU (pc_management_path ctx)
                            (oj_object_id (pc_object ctx)))
                     (\<lambda>protection. publish (mtu_plan ctx intent ob current desired protection))))"

section \<open>Container lifecycle actions\<close>

fun container_operation :: "lifecycle_action \<Rightarrow> operation_type" where
  "container_operation LA_Start = Docker_Container_Start"
| "container_operation LA_Stop = Docker_Container_Stop"
| "container_operation LA_Restart = Docker_Container_Restart"

fun container_summary :: "lifecycle_action \<Rightarrow> string" where
  "container_summary LA_Start = ''Ask Docker to start this container, and prove from a fresh observation that it is running afterwards.''"
| "container_summary LA_Stop = ''Ask Docker to stop this container '' @ em_dash @ '' its own grace period, then a kill '' @ em_dash @ '' and prove from a fresh observation that it has exited.''"
| "container_summary LA_Restart = ''Ask Docker to restart this container, and prove from a fresh observation both that it is running and that it started again rather than never having stopped.''"

fun container_verification :: "lifecycle_action \<Rightarrow> string" where
  "container_verification LA_Start = ''re-observe this container through the Docker containers capability and require its lifecycle state to be running''"
| "container_verification LA_Stop = ''re-observe this container through the Docker containers capability and require its lifecycle state to be exited''"
| "container_verification LA_Restart = ''re-observe this container through the Docker containers capability and require both that its lifecycle state is running and that the instant Docker records it as having started is later than the one observed when the change was dispatched '' @ em_dash @ '' which is what tells a restart that happened from a container that never stopped''"

definition container_definition :: "lifecycle_action \<Rightarrow> operation_definition" where
  "container_definition a =
     \<lparr>od_operation = op_str (container_operation a), od_summary = container_summary a,
      od_target_kind = OBJECT_KIND_DOCKER_CONTAINER, od_base_risk = Medium, od_destructive = False,
      od_can_affect_management_path = False, od_recovery_mode = RM_None,
      od_rollback_possible = False, od_required_capability = CAPABILITY_DOCKER_CONTAINER_LIFECYCLE,
      od_protection_uses_resource_relation = False, od_guarded_execution = False,
      od_acts_through_provider = Some PROVIDER_DOCKER, od_confirmation_requested = False,
      od_confirmation_reason = None, od_verification_condition = container_verification a,
      od_execution_note = ''The change is one POST to the Docker daemon's own API '' @ em_dash @
        '' /containers/<id>/'' @ la_str a @ '' '' @ em_dash @ '' with the verb taken from this operation's definition and the id from the observation the plan was made against. There is no path, payload, command, argv, shell, signal or timeout that a caller can supply at any layer between the request and the daemon, and the agent refuses any verb not in the protocol's three-member tuple before a request exists.'',
      od_extra_risk_factors = []\<rparr>"

fun container_expected_state :: "lifecycle_action \<Rightarrow> string" where
  "container_expected_state LA_Start = ls_str LS_Running"
| "container_expected_state LA_Stop = ls_str LS_Exited"
| "container_expected_state LA_Restart = ls_str LS_Running"

fun no_op :: "lifecycle_action \<Rightarrow> string list \<times> string" where
  "no_op LA_Start = ([ls_str LS_Running], ''container_already_running'')"
| "no_op LA_Stop = (map ls_str [LS_Exited, LS_Created, LS_Dead], ''container_already_stopped'')"
| "no_op LA_Restart = ([], [])"

definition TRANSIENT :: "string list" where
  "TRANSIENT = map ls_str [LS_Restarting, LS_Removing]"

definition CONTAINER_RECOVERY_REASON :: string where
  "CONTAINER_RECOVERY_REASON = ''this operation has no inverse LocalPlane may perform. Issuing the opposite verb because a verification failed would be a second change nobody asked for, against a container whose state is already not what was expected, and it can make the situation worse. Nothing is armed, no checkpoint is written, and a change that cannot be proven ends in recovery saying what was asked for and what was observed instead.''"

definition container_plan ::
  "lifecycle_action \<Rightarrow> planning_context \<Rightarrow> observation_record \<Rightarrow> string \<Rightarrow> protection_assessment \<Rightarrow>
   run_plan" where
  "container_plan a ctx ob state protection =
     (let record = pc_object ctx; d = container_definition a;
          block_reason = fst (ownership_gate d (pc_provenance ctx));
          gs = gaps (pc_provenance ctx);
          risk = assess_risk d block_reason gs protection;
          guard = assess_guard d protection False in
      \<lparr>rp_operation = container_operation a, rp_host_id = oj_host_id record,
       rp_object_id = oj_object_id record,
       rp_change = Action_Change \<lparr>pac_action = la_str a, pac_observed_state = state,
          pac_expected_state = container_expected_state a\<rparr>,
       rp_evidence = \<lparr>pev_observation_id = ob_observation_id ob, pev_sweep_id = ob_sweep_id ob,
          pev_observed_at = ob_observed_at ob, pev_drift_finding_id = None, pev_intent_id = None,
          pev_intent_version = None, pev_intent_capability = None, pev_intent_provider = None\<rparr>,
       rp_ownership = ownership_of ctx, rp_protection = protection, rp_risk = risk,
       rp_confirmation = effective_confirmation d risk protection True,
       rp_execution = assess_execution d XA_Available (Some PROVIDER_DOCKER)
          (od_required_capability d \<in> set (pc_evidence_sources ctx)) block_reason gs protection
          guard None,
       rp_guard = guard,
       rp_recovery = \<lparr>rpl_mode = RM_None, rpl_rollback_possible = False, rpl_armed = False,
          rpl_guarantee = ''none'', rpl_reason = CONTAINER_RECOVERY_REASON\<rparr>,
       rp_verification = \<lparr>vpl_executed = False,
          vpl_capability = CAPABILITY_DOCKER_CONTAINERS_OBSERVE, vpl_provider = PROVIDER_DOCKER,
          vpl_condition = od_verification_condition d\<rparr>,
       rp_authorization = None, rp_lifecycle_context = None, rp_self_impact = None\<rparr>)"

definition source_refusal :: "string \<Rightarrow> string \<Rightarrow> observation_record \<Rightarrow> planned" where
  "source_refusal capability provider ob =
     refuse_plan ''observation_source_incompatible''
       [(''expected_capability'', PStr capability), (''expected_provider'', PStr provider),
        (''observation_capability'', PStr (ob_capability ob)),
        (''observation_provider'', PStr (ob_provider ob))]"

definition plan_container_lifecycle ::
  "lifecycle_action \<Rightarrow> planning_env \<Rightarrow> planning_context \<Rightarrow> planned" where
  "plan_container_lifecycle a P ctx =
     (let record = pc_object ctx in
      if oj_management_state record = ''observe_only''
      then refuse_plan ''object_observe_only''
             [(''management_state'', PStr (oj_management_state record)),
              (''reason'', PStr (oj_management_reason record))]
      else current_observation P ctx (\<lambda>ob.
        if ob_capability ob \<noteq> CAPABILITY_DOCKER_CONTAINERS_OBSERVE \<or> ob_provider ob \<noteq> PROVIDER_DOCKER
        then source_refusal CAPABILITY_DOCKER_CONTAINERS_OBSERVE PROVIDER_DOCKER ob
        else if named (get (ob_facts ob) ''container_id'') = None
        then refuse_plan ''container_id_unreadable''
               [(''observation_id'', PStr (ob_observation_id ob))]
        else case named (get (ob_facts ob) ''state'') of
            None \<Rightarrow> refuse_plan ''container_state_unreadable''
               [(''observation_id'', PStr (ob_observation_id ob)),
                (''gaps'', PList (map PStr (ob_gaps ob)))]
          | Some state \<Rightarrow>
             if state \<in> set TRANSIENT
             then refuse_plan ''container_state_transient'' [(''state'', PStr state)]
             else if a = LA_Start \<and> state = ls_str LS_Paused
             then refuse_plan ''container_paused'' [(''state'', PStr state)]
             else if state \<in> set (fst (no_op a))
             then refuse_plan (snd (no_op a)) [(''state'', PStr state),
                    (''observation_id'', PStr (ob_observation_id ob))]
             else bindE (assess_protection (container_definition a) (pc_management_path ctx)
                           (oj_object_id record))
                    (\<lambda>protection. publish (container_plan a ctx ob state protection))))"

section \<open>Service lifecycle actions\<close>

fun service_operation :: "systemd_service_action \<Rightarrow> operation_type" where
  "service_operation SA_Start = Systemd_Service_Start"
| "service_operation SA_Stop = Systemd_Service_Stop"
| "service_operation SA_Restart = Systemd_Service_Restart"

fun service_expected :: "systemd_service_action \<Rightarrow> string" where
  "service_expected SA_Start = ''active''"
| "service_expected SA_Stop = ''inactive''"
| "service_expected SA_Restart = ''active_with_new_invocation_id''"

fun service_summary :: "systemd_service_action \<Rightarrow> string" where
  "service_summary SA_Start = ''Ask the system manager to start one existing canonical service unit and verify the resulting service state from a fresh targeted observation.''"
| "service_summary SA_Stop = ''Ask the system manager to stop one existing canonical service unit and verify the result without treating unit garbage collection as proof by itself.''"
| "service_summary SA_Restart = ''Ask the system manager to restart one active canonical service unit and verify both the final state and a changed execution InvocationID.''"

fun service_verification :: "systemd_service_action \<Rightarrow> string" where
  "service_verification SA_Start = ''fresh targeted systemd observation must prove a supported successful active service shape; job acceptance alone is not success''"
| "service_verification SA_Stop = ''fresh targeted systemd evidence plus the correlated job result must prove the service stopped; GetUnit absence alone is not sufficient''"
| "service_verification SA_Restart = ''fresh targeted systemd observation must prove a supported active service shape and a non-null InvocationID different from the dispatch baseline''"

definition service_definition :: "systemd_service_action \<Rightarrow> operation_definition" where
  "service_definition a =
     \<lparr>od_operation = op_str (service_operation a), od_summary = service_summary a,
      od_target_kind = OBJECT_KIND_SYSTEMD_UNIT, od_base_risk = Medium, od_destructive = False,
      od_can_affect_management_path = True, od_recovery_mode = RM_None,
      od_rollback_possible = False, od_required_capability = SYSTEMD_SERVICE_LIFECYCLE,
      od_protection_uses_resource_relation = False, od_guarded_execution = False,
      od_acts_through_provider = Some PROVIDER_SYSTEMD, od_confirmation_requested = False,
      od_confirmation_reason = None, od_verification_condition = service_verification a,
      od_execution_note = ''One closed systemd D-Bus dispatch against the canonical Unit.Id bound here: Manager.GetUnit resolves it, the Unit object's own Start, Stop or Restart is called with a fixed mode, and the exact returned job is awaited. Callers supply neither a unit name nor any D-Bus field. Authorization is decided by systemd at dispatch and is never preflighted; a refusal is a truthful not_written.'',
      od_extra_risk_factors = []\<rparr>"

definition SERVICE_GUARD :: guard_plan where
  "SERVICE_GUARD =
     \<lparr>gpl_availability = GA_Unavailable, gpl_reason = ''operation_has_no_safe_automatic_inverse'',
      gpl_window_s = 0, gpl_prerequisites = [], gpl_unmet = [],
      gpl_guarantee = ''no connection guard is offered for systemd lifecycle actions''\<rparr>"

definition SERVICE_RECOVERY_REASON :: string where
  "SERVICE_RECOVERY_REASON = ''start, stop and restart have no trustworthy unattended inverse; Connection Guard and automatic rollback do not apply''"

definition service_plan ::
  "planning_env \<Rightarrow> systemd_service_action \<Rightarrow> planning_context \<Rightarrow> observation_record \<Rightarrow>
   systemd_lifecycle_context \<Rightarrow> protection_assessment \<Rightarrow> run_plan" where
  "service_plan P a ctx ob lifecycle protection =
     (let record = pc_object ctx; d = service_definition a;
          self_impact = assess_backend_self_impact lifecycle protection;
          risk = assess_risk d None [] protection;
          active = get (cx_target_facts lifecycle) ''active_state'' in
      \<lparr>rp_operation = service_operation a, rp_host_id = oj_host_id record,
       rp_object_id = oj_object_id record,
       rp_change = Action_Change \<lparr>pac_action = sa_str a,
          pac_observed_state = py_str (pn_render P) (or_val active (PStr ''unknown'')),
          pac_expected_state = service_expected a\<rparr>,
       rp_evidence = \<lparr>pev_observation_id = ob_observation_id ob, pev_sweep_id = ob_sweep_id ob,
          pev_observed_at = ob_observed_at ob, pev_drift_finding_id = None, pev_intent_id = None,
          pev_intent_version = None, pev_intent_capability = None, pev_intent_provider = None\<rparr>,
       rp_ownership = \<lparr>oas_state = ''attributed'',
          oas_reason = ''systemd_is_authoritative_for_loaded_unit_runtime'',
          oas_claims = [\<lparr>pcl_relation = ''configured_by'', pcl_provider = PROVIDER_SYSTEMD,
             pcl_instance = Some (oj_identity_value record),
             pcl_label = Some (oj_display_name record), pcl_confidence = ''confirmed'',
             pcl_external = True\<rparr>],
          oas_gaps = [], oas_readings = pc_provider_readings ctx\<rparr>,
       rp_protection = protection, rp_risk = risk,
       rp_confirmation = effective_confirmation d risk protection True,
       rp_execution = assess_execution d XA_Available (Some PROVIDER_SYSTEMD)
          (od_required_capability d \<in> set (pc_evidence_sources ctx)) None [] protection
          SERVICE_GUARD (Some self_impact),
       rp_guard = SERVICE_GUARD,
       rp_recovery = \<lparr>rpl_mode = RM_None, rpl_rollback_possible = False, rpl_armed = False,
          rpl_guarantee = ''none'', rpl_reason = SERVICE_RECOVERY_REASON\<rparr>,
       rp_verification = \<lparr>vpl_executed = False, vpl_capability = CAPABILITY_SYSTEMD_UNITS_OBSERVE,
          vpl_provider = PROVIDER_SYSTEMD, vpl_condition = od_verification_condition d\<rparr>,
       rp_authorization = Some (not_preflighted (oj_identity_value record) a),
       rp_lifecycle_context = Some lifecycle, rp_self_impact = Some self_impact\<rparr>)"

text \<open>The request's own safety evidence: present, readable, current, and for this verb.\<close>

definition current_context ::
  "planning_env \<Rightarrow> planning_context \<Rightarrow> systemd_service_action \<Rightarrow>
   (systemd_lifecycle_context \<Rightarrow> planned) \<Rightarrow> planned" where
  "current_context P ctx a k =
     (case pc_systemd_lifecycle_context ctx of
        None \<Rightarrow> refuse_plan ''systemd_lifecycle_context_missing'' []
      | Some lifecycle \<Rightarrow>
         (case pn_read P (cx_observed_at lifecycle) of
            None \<Rightarrow> refuse_plan ''systemd_lifecycle_context_unreadable'' []
          | Some t \<Rightarrow>
             bindE (freshness_at P (Some t) (pc_freshness_ttl ctx) (pc_now ctx)) (\<lambda>fr.
             if fst fr \<noteq> Fr_Current
             then refuse_plan ''systemd_lifecycle_context_stale'' (stale_detail fr (pc_freshness_ttl ctx))
             else if cx_action lifecycle \<noteq> a
             then refuse_plan ''systemd_lifecycle_context_action_mismatch''
                    [(''expected'', PStr (sa_str a)), (''observed'', PStr (sa_str (cx_action lifecycle)))]
             else k lifecycle)))"

definition plan_service_lifecycle ::
  "systemd_service_action \<Rightarrow> planning_env \<Rightarrow> planning_context \<Rightarrow> planned" where
  "plan_service_lifecycle a P ctx =
     (let record = pc_object ctx in
      current_observation P ctx (\<lambda>ob.
      if ob_capability ob \<noteq> CAPABILITY_SYSTEMD_UNITS_OBSERVE \<or> ob_provider ob \<noteq> PROVIDER_SYSTEMD
      then source_refusal CAPABILITY_SYSTEMD_UNITS_OBSERVE PROVIDER_SYSTEMD ob
      else if get (ob_facts ob) ''canonical_id'' \<noteq> PStr (oj_identity_value record)
      then refuse_plan ''systemd_canonical_identity_mismatch''
             [(''identity_value'', PStr (oj_identity_value record)),
              (''observed_canonical_id'', get (ob_facts ob) ''canonical_id'')]
      else current_context P ctx a (\<lambda>lifecycle.
        bindE (lifecycle_applicability lifecycle (oj_identity_value record)) (\<lambda>refusals.
        if refusals \<noteq> []
        then refuse_plan ''systemd_service_not_applicable''
               [(''reasons'', PList (map PStr refusals)),
                (''canonical_unit'', PStr (oj_identity_value record))]
        else bindE (assess_lifecycle_protection lifecycle) (\<lambda>protection.
             publish (service_plan P a ctx ob lifecycle protection))))))"

section \<open>The closed vocabulary\<close>

fun definition_of :: "operation_type \<Rightarrow> operation_definition" where
  "definition_of Network_Interface_Reconcile_Mtu = RECONCILE_MTU"
| "definition_of Docker_Container_Start = container_definition LA_Start"
| "definition_of Docker_Container_Stop = container_definition LA_Stop"
| "definition_of Docker_Container_Restart = container_definition LA_Restart"
| "definition_of Systemd_Service_Start = service_definition SA_Start"
| "definition_of Systemd_Service_Stop = service_definition SA_Stop"
| "definition_of Systemd_Service_Restart = service_definition SA_Restart"

fun plan_operation :: "operation_type \<Rightarrow> planning_env \<Rightarrow> planning_context \<Rightarrow> planned" where
  "plan_operation Network_Interface_Reconcile_Mtu = plan_interface_mtu_reconciliation"
| "plan_operation Docker_Container_Start = plan_container_lifecycle LA_Start"
| "plan_operation Docker_Container_Stop = plan_container_lifecycle LA_Stop"
| "plan_operation Docker_Container_Restart = plan_container_lifecycle LA_Restart"
| "plan_operation Systemd_Service_Start = plan_service_lifecycle SA_Start"
| "plan_operation Systemd_Service_Stop = plan_service_lifecycle SA_Stop"
| "plan_operation Systemd_Service_Restart = plan_service_lifecycle SA_Restart"

end
