(* ===== verification/Planner_Properties.thy ===== *)
theory Planner_Properties
  imports Operations
begin

text \<open>
  What the planners promise: a plan is made only of a current observation from the source it will
  be verified against, it is work that remains to be done, an interface's plan restores the
  retained value and no other, and the ways a plan may execute are those the engine can carry out.
\<close>

section \<open>Inversion\<close>

lemma refuse_plan_Inr [simp]: "refuse_plan c d \<noteq> Inr (Inr p)"
  by (simp add: refuse_plan_def)

lemma publish_Inr [simp]: "publish q = Inr (Inr p) \<longleftrightarrow> q = p"
  by (simp add: publish_def)

text \<open>An observation a plan may be made of, at the instant the planner reads the clock.\<close>

definition current_at :: "planning_env \<Rightarrow> planning_context \<Rightarrow> observation_record \<Rightarrow> bool" where
  "current_at P ctx ob \<longleftrightarrow> oj_observation (pc_object ctx) = Some ob \<and>
     (\<exists>age. freshness_at P (observed_at_dt P ob) (pc_freshness_ttl ctx) (pc_now ctx) = Inr (Fr_Current, age))"

lemma current_observation_plans:
  "current_observation P ctx k = Inr (Inr p) \<longleftrightarrow> (\<exists>ob. current_at P ctx ob \<and> k ob = Inr (Inr p))"
proof (cases "oj_observation (pc_object ctx)")
  case None
  then show ?thesis by (simp add: current_observation_def current_at_def)
next
  case (Some ob)
  then show ?thesis
    by (cases "freshness_at P (observed_at_dt P ob) (pc_freshness_ttl ctx) (pc_now ctx)")
      (auto simp: current_observation_def current_at_def)
qed

definition managed_intent :: "planning_context \<Rightarrow> intent_record \<Rightarrow> bool" where
  "managed_intent ctx i \<longleftrightarrow> oj_management_state (pc_object ctx) = ''managed'' \<and>
     pc_intent ctx = Some i \<and> in_object_id i = oj_object_id (pc_object ctx) \<and>
     in_schema_version i = INTENT_SCHEMA_VERSION"

lemma mtu_intent_Inr:
  "mtu_intent ctx = Inr (i, v) \<longleftrightarrow> managed_intent ctx i \<and> intended_mtu i = Some v"
  by (auto simp: mtu_intent_def managed_intent_def Let_def split: option.splits if_splits)

definition mtu_readable :: "intent_record \<Rightarrow> ivalue \<Rightarrow> observation_record \<Rightarrow> ivalue \<Rightarrow> bool" where
  "mtu_readable i desired ob current \<longleftrightarrow>
     ob_capability ob = in_capability i \<and> ob_provider ob = in_provider i \<and>
     coerce VT_Integer (get (ob_facts ob) MTU) = Some current \<and> \<not> val_eq current desired"

lemma mtu_planned:
  "plan_interface_mtu_reconciliation P ctx = Inr (Inr p) \<longleftrightarrow>
     (\<exists>i desired ob current protection.
        managed_intent ctx i \<and> intended_mtu i = Some desired \<and> current_at P ctx ob \<and>
        mtu_readable i desired ob current \<and>
        assess_protection RECONCILE_MTU (pc_management_path ctx) (oj_object_id (pc_object ctx)) =
          Inr protection \<and>
        p = mtu_plan ctx i ob current desired protection)"
proof (cases "mtu_intent ctx")
  case (Inl r)
  then show ?thesis using mtu_intent_Inr [of ctx]
    by (auto simp: plan_interface_mtu_reconciliation_def)
next
  case (Inr x)
  obtain i v where x: "x = (i, v)" by (cases x)
  have m: "managed_intent ctx i" "intended_mtu i = Some v"
    "\<And>j w. managed_intent ctx j \<Longrightarrow> intended_mtu j = Some w \<Longrightarrow> j = i \<and> w = v"
    using Inr x mtu_intent_Inr [of ctx] by (auto simp: managed_intent_def)
  have k: "(if ob_capability ob \<noteq> in_capability i \<or> ob_provider ob \<noteq> in_provider i then X
        else case coerce VT_Integer (get (ob_facts ob) MTU) of
            None \<Rightarrow> Y
          | Some c \<Rightarrow> if val_eq c v then Z c else bindE q (\<lambda>protection. publish (f c protection)))
      = Inr (Inr p) \<longleftrightarrow>
      (\<exists>c protection. mtu_readable i v ob c \<and> q = Inr protection \<and> p = f c protection)"
    if "X \<noteq> Inr (Inr p)" "Y \<noteq> Inr (Inr p)" "\<And>c. Z c \<noteq> Inr (Inr p)" for ob X Y Z q f p
    using that by (cases "coerce VT_Integer (get (ob_facts ob) MTU)") (auto simp: mtu_readable_def bindE_Inr)
  have "plan_interface_mtu_reconciliation P ctx = Inr (Inr p) \<longleftrightarrow>
     (\<exists>ob. current_at P ctx ob \<and> (\<exists>c protection. mtu_readable i v ob c \<and>
        assess_protection RECONCILE_MTU (pc_management_path ctx) (oj_object_id (pc_object ctx)) =
          Inr protection \<and> p = mtu_plan ctx i ob c v protection))"
    by (simp only: plan_interface_mtu_reconciliation_def Inr x sum.case prod.case
        current_observation_plans k refuse_plan_Inr simp_thms)
  then show ?thesis using m by blast
qed

definition container_ready :: "lifecycle_action \<Rightarrow> observation_record \<Rightarrow> string \<Rightarrow> bool" where
  "container_ready a ob state \<longleftrightarrow>
     ob_capability ob = CAPABILITY_DOCKER_CONTAINERS_OBSERVE \<and> ob_provider ob = PROVIDER_DOCKER \<and>
     named (get (ob_facts ob) ''container_id'') \<noteq> None \<and>
     named (get (ob_facts ob) ''state'') = Some state \<and> state \<notin> set TRANSIENT \<and>
     \<not> (a = LA_Start \<and> state = ls_str LS_Paused) \<and> state \<notin> set (fst (no_op a))"

lemma container_planned:
  "plan_container_lifecycle a P ctx = Inr (Inr p) \<longleftrightarrow>
     oj_management_state (pc_object ctx) \<noteq> ''observe_only'' \<and>
     (\<exists>ob state protection. current_at P ctx ob \<and> container_ready a ob state \<and>
        assess_protection (container_definition a) (pc_management_path ctx)
          (oj_object_id (pc_object ctx)) = Inr protection \<and>
        p = container_plan a ctx ob state protection)"
proof -
  have k: "(if ob_capability ob \<noteq> CAPABILITY_DOCKER_CONTAINERS_OBSERVE \<or> ob_provider ob \<noteq> PROVIDER_DOCKER
        then X
        else if named (get (ob_facts ob) ''container_id'') = None then Y
        else case named (get (ob_facts ob) ''state'') of
            None \<Rightarrow> Z
          | Some state \<Rightarrow>
             if state \<in> set TRANSIENT then Z1 state
             else if a = LA_Start \<and> state = ls_str LS_Paused then Z2 state
             else if state \<in> set (fst (no_op a)) then Z3 state
             else bindE q (\<lambda>protection. publish (f state protection))) = Inr (Inr p) \<longleftrightarrow>
      (\<exists>state protection. container_ready a ob state \<and> q = Inr protection \<and> p = f state protection)"
    if "X \<noteq> Inr (Inr p)" "Y \<noteq> Inr (Inr p)" "Z \<noteq> Inr (Inr p)" "\<And>s. Z1 s \<noteq> Inr (Inr p)"
      "\<And>s. Z2 s \<noteq> Inr (Inr p)" "\<And>s. Z3 s \<noteq> Inr (Inr p)"
    for ob X Y Z Z1 Z2 Z3 q f p
  proof (cases "named (get (ob_facts ob) ''state'')")
    case None
    with that show ?thesis by (simp add: container_ready_def)
  next
    case (Some state)
    with that show ?thesis by (auto simp: container_ready_def bindE_Inr)
  qed
  show ?thesis
  proof (cases "oj_management_state (pc_object ctx) = ''observe_only''")
    case True
    then show ?thesis by (simp add: plan_container_lifecycle_def)
  next
    case False
    then show ?thesis
      by (simp only: plan_container_lifecycle_def Let_def if_False current_observation_plans
          source_refusal_def k refuse_plan_Inr simp_thms) auto
  qed
qed

text \<open>The request's own safety evidence.\<close>

definition current_evidence ::
  "planning_env \<Rightarrow> planning_context \<Rightarrow> systemd_service_action \<Rightarrow> systemd_lifecycle_context \<Rightarrow> bool" where
  "current_evidence P ctx a lc \<longleftrightarrow> pc_systemd_lifecycle_context ctx = Some lc \<and> cx_action lc = a \<and>
     (case pn_read P (cx_observed_at lc) of
        None \<Rightarrow> False
      | Some t \<Rightarrow>
         \<exists>age. freshness_at P (Some t) (pc_freshness_ttl ctx) (pc_now ctx) = Inr (Fr_Current, age))"

lemma current_context_plans:
  "current_context P ctx a k = Inr (Inr p) \<longleftrightarrow> (\<exists>lc. current_evidence P ctx a lc \<and> k lc = Inr (Inr p))"
proof (cases "pc_systemd_lifecycle_context ctx")
  case None
  then show ?thesis by (simp add: current_context_def current_evidence_def)
next
  case (Some lc)
  show ?thesis
  proof (cases "pn_read P (cx_observed_at lc)")
    case None
    with Some show ?thesis by (simp add: current_context_def current_evidence_def)
  next
    case t: (Some t)
    with Some show ?thesis
      by (cases "freshness_at P (Some t) (pc_freshness_ttl ctx) (pc_now ctx)")
        (auto simp: current_context_def current_evidence_def)
  qed
qed

lemma service_planned:
  "plan_service_lifecycle a P ctx = Inr (Inr p) \<longleftrightarrow>
     (\<exists>ob lc protection. current_at P ctx ob \<and>
        ob_capability ob = CAPABILITY_SYSTEMD_UNITS_OBSERVE \<and> ob_provider ob = PROVIDER_SYSTEMD \<and>
        get (ob_facts ob) ''canonical_id'' = PStr (oj_identity_value (pc_object ctx)) \<and>
        current_evidence P ctx a lc \<and>
        lifecycle_applicability lc (oj_identity_value (pc_object ctx)) = Inr [] \<and>
        assess_lifecycle_protection lc = Inr protection \<and>
        p = service_plan P a ctx ob lc protection)"
  by (auto simp: plan_service_lifecycle_def source_refusal_def current_observation_plans
      current_context_plans bindE_Inr Let_def split: if_splits)

section \<open>What every plan has\<close>

fun service_action_of :: "operation_type \<Rightarrow> systemd_service_action option" where
  "service_action_of Systemd_Service_Start = Some SA_Start"
| "service_action_of Systemd_Service_Stop = Some SA_Stop"
| "service_action_of Systemd_Service_Restart = Some SA_Restart"
| "service_action_of _ = None"

fun container_action_of :: "operation_type \<Rightarrow> lifecycle_action option" where
  "container_action_of Docker_Container_Start = Some LA_Start"
| "container_action_of Docker_Container_Stop = Some LA_Stop"
| "container_action_of Docker_Container_Restart = Some LA_Restart"
| "container_action_of _ = None"

text \<open>A plan is of one of the three kinds.\<close>

lemma plan_operation_cases:
  assumes "plan_operation op P ctx = Inr (Inr p)"
  obtains (mtu) i desired ob current protection where
      "op = Network_Interface_Reconcile_Mtu" "managed_intent ctx i" "intended_mtu i = Some desired"
      "current_at P ctx ob" "mtu_readable i desired ob current"
      "assess_protection RECONCILE_MTU (pc_management_path ctx) (oj_object_id (pc_object ctx)) = Inr protection"
      "p = mtu_plan ctx i ob current desired protection"
  | (container) a ob state protection where
      "container_action_of op = Some a" "op = container_operation a"
      "current_at P ctx ob" "container_ready a ob state"
      "assess_protection (container_definition a) (pc_management_path ctx) (oj_object_id (pc_object ctx)) = Inr protection"
      "p = container_plan a ctx ob state protection"
  | (service) a ob lc protection where
      "service_action_of op = Some a" "op = service_operation a" "current_at P ctx ob"
      "ob_capability ob = CAPABILITY_SYSTEMD_UNITS_OBSERVE" "ob_provider ob = PROVIDER_SYSTEMD"
      "current_evidence P ctx a lc"
      "lifecycle_applicability lc (oj_identity_value (pc_object ctx)) = Inr []"
      "assess_lifecycle_protection lc = Inr protection"
      "p = service_plan P a ctx ob lc protection"
proof (cases op)
  case Network_Interface_Reconcile_Mtu
  with assms show thesis by (auto simp: mtu_planned intro: mtu)
next
  case Docker_Container_Start
  with assms show thesis by (auto simp: container_planned intro: container)
next
  case Docker_Container_Stop
  with assms show thesis by (auto simp: container_planned intro: container)
next
  case Docker_Container_Restart
  with assms show thesis by (auto simp: container_planned intro: container)
next
  case Systemd_Service_Start
  with assms show thesis by (auto simp: service_planned intro: service)
next
  case Systemd_Service_Stop
  with assms show thesis by (auto simp: service_planned intro: service)
next
  case Systemd_Service_Restart
  with assms show thesis by (auto simp: service_planned intro: service)
qed

lemma reason_if_Nil [simp]: "reason_if b r = [] \<longleftrightarrow> \<not> b"
  by (simp add: reason_if_def)

lemma applicable_refusals:
  "lifecycle_applicability c cid = Inr [] \<Longrightarrow> lifecycle_refusals c cid = []"
  by (simp add: lifecycle_applicability_def Let_def split: if_splits)

text \<open>The state a verb starts from is not the one it is to leave.\<close>

lemma applicable_state:
  assumes "lifecycle_applicability c cid = Inr []"
  shows "case cx_action c of
      SA_Start \<Rightarrow> get (cx_target_facts c) ''active_state'' \<in> {PStr ''inactive'', PStr ''failed''}
    | _ \<Rightarrow> get (cx_target_facts c) ''active_state'' = PStr ''active''"
  using applicable_refusals [OF assms]
  by (cases "get (cx_target_facts c) ''active_state''"; cases "cx_action c")
    (simp_all add: lifecycle_refusals_def Let_def is_str_def)

definition remaining_work :: "operation_type \<Rightarrow> planned_change \<Rightarrow> bool" where
  "remaining_work op c \<longleftrightarrow> (case c of
     Field_Change f \<Rightarrow> op = Network_Interface_Reconcile_Mtu \<and> \<not> val_eq (pfc_current f) (pfc_desired f)
   | Action_Change a \<Rightarrow> op = Docker_Container_Restart \<or> pac_observed_state a \<noteq> pac_expected_state a)"

lemma mtu_plan_sel [simp]:
  "rp_operation (mtu_plan ctx i ob u v q) = Network_Interface_Reconcile_Mtu"
  "rp_object_id (mtu_plan ctx i ob u v q) = oj_object_id (pc_object ctx)"
  "rp_host_id (mtu_plan ctx i ob u v q) = oj_host_id (pc_object ctx)"
  "rp_change (mtu_plan ctx i ob u v q) = Field_Change
     \<lparr>pfc_field = MTU, pfc_value_type = VT_Integer, pfc_current = u, pfc_desired = v\<rparr>"
  "pev_observation_id (rp_evidence (mtu_plan ctx i ob u v q)) = ob_observation_id ob"
  "pev_intent_id (rp_evidence (mtu_plan ctx i ob u v q)) = Some (in_intent_id i)"
  "vpl_capability (rp_verification (mtu_plan ctx i ob u v q)) = in_capability i"
  "vpl_provider (rp_verification (mtu_plan ctx i ob u v q)) = in_provider i"
  "rp_protection (mtu_plan ctx i ob u v q) = q"
  by (simp_all add: mtu_plan_def Let_def)

lemma container_plan_sel [simp]:
  "rp_operation (container_plan a ctx ob st q) = container_operation a"
  "rp_object_id (container_plan a ctx ob st q) = oj_object_id (pc_object ctx)"
  "rp_host_id (container_plan a ctx ob st q) = oj_host_id (pc_object ctx)"
  "rp_change (container_plan a ctx ob st q) = Action_Change
     \<lparr>pac_action = la_str a, pac_observed_state = st, pac_expected_state = container_expected_state a\<rparr>"
  "pev_observation_id (rp_evidence (container_plan a ctx ob st q)) = ob_observation_id ob"
  "vpl_capability (rp_verification (container_plan a ctx ob st q)) = CAPABILITY_DOCKER_CONTAINERS_OBSERVE"
  "vpl_provider (rp_verification (container_plan a ctx ob st q)) = PROVIDER_DOCKER"
  "rp_protection (container_plan a ctx ob st q) = q"
  by (simp_all add: container_plan_def Let_def)

lemma service_plan_sel [simp]:
  "rp_operation (service_plan P a ctx ob lc q) = service_operation a"
  "rp_object_id (service_plan P a ctx ob lc q) = oj_object_id (pc_object ctx)"
  "rp_host_id (service_plan P a ctx ob lc q) = oj_host_id (pc_object ctx)"
  "rp_change (service_plan P a ctx ob lc q) = Action_Change \<lparr>pac_action = sa_str a,
      pac_observed_state = py_str (pn_render P)
        (or_val (get (cx_target_facts lc) ''active_state'') (PStr ''unknown'')),
      pac_expected_state = service_expected a\<rparr>"
  "pev_observation_id (rp_evidence (service_plan P a ctx ob lc q)) = ob_observation_id ob"
  "vpl_capability (rp_verification (service_plan P a ctx ob lc q)) = CAPABILITY_SYSTEMD_UNITS_OBSERVE"
  "vpl_provider (rp_verification (service_plan P a ctx ob lc q)) = PROVIDER_SYSTEMD"
  "rp_protection (service_plan P a ctx ob lc q) = q"
  by (simp_all add: service_plan_def Let_def)

lemma service_starts_elsewhere:
  assumes "lifecycle_applicability lc cid = Inr []" "cx_action lc = a"
  shows "py_str render (or_val (get (cx_target_facts lc) ''active_state'') (PStr ''unknown'')) \<noteq>
    service_expected a"
  using applicable_state [OF assms(1)] assms(2) by (cases a) (auto simp: or_val_def)

lemma container_starts_elsewhere:
  "container_ready a ob state \<Longrightarrow> a \<noteq> LA_Restart \<Longrightarrow> state \<noteq> container_expected_state a"
  by (cases a) (auto simp: container_ready_def)

text \<open>
  C20. A plan is made of a current observation and of work that remains: it is the operation asked
  for, on the object asked about; it names the observation it was made from, which was current when
  the planner read the clock; it will be verified through the very capability and provider that
  observation came from; and what it is to leave differs from what was observed, a container's
  restart apart.
\<close>

theorem plans_are_current_work:
  assumes "plan_operation op P ctx = Inr (Inr p)"
  shows "rp_operation p = op \<and> rp_object_id p = oj_object_id (pc_object ctx) \<and>
    rp_host_id p = oj_host_id (pc_object ctx) \<and> remaining_work op (rp_change p) \<and>
    (\<exists>ob. current_at P ctx ob \<and> pev_observation_id (rp_evidence p) = ob_observation_id ob \<and>
       vpl_capability (rp_verification p) = ob_capability ob \<and>
       vpl_provider (rp_verification p) = ob_provider ob)"
  using assms
proof (cases rule: plan_operation_cases)
  case (mtu i desired ob current protection)
  then show ?thesis by (auto simp: remaining_work_def mtu_readable_def)
next
  case (container a ob state protection)
  then show ?thesis using container_starts_elsewhere [OF container(4)]
    by (cases a) (auto simp: remaining_work_def container_ready_def)
next
  case (service a ob lc protection)
  have "cx_action lc = a" using service(6) by (simp add: current_evidence_def)
  then show ?thesis using service service_starts_elsewhere [OF service(7), of a]
    by (auto simp: remaining_work_def)
qed

text \<open>
  C22. An interface's plan restores the retained value and no other: it exists only for a managed
  object with an active intent of its own, the value it would write is the one that intent holds
  for the MTU, the value it would replace is the one just observed, and the plan cites both.
\<close>

theorem mtu_plan_restores_the_retained_value:
  assumes "plan_operation Network_Interface_Reconcile_Mtu P ctx = Inr (Inr p)"
  shows "\<exists>i ob u v. oj_management_state (pc_object ctx) = ''managed'' \<and>
    pc_intent ctx = Some i \<and> in_object_id i = rp_object_id p \<and>
    pev_intent_id (rp_evidence p) = Some (in_intent_id i) \<and>
    intended_mtu i = Some (VInt v) \<and> v > 0 \<and>
    oj_observation (pc_object ctx) = Some ob \<and>
    pev_observation_id (rp_evidence p) = ob_observation_id ob \<and>
    get (ob_facts ob) MTU = PInt u \<and> u > 0 \<and> u \<noteq> v \<and>
    rp_change p = Field_Change \<lparr>pfc_field = MTU, pfc_value_type = VT_Integer,
      pfc_current = VInt u, pfc_desired = VInt v\<rparr>"
  using assms
proof (cases rule: plan_operation_cases)
  case (mtu i desired ob current protection)
  have "well_typed VT_Integer desired"
    using mtu(3) by (auto simp: intended_mtu_def coerce_iff split: option.splits)
  then obtain v where v: "desired = VInt v" "v > 0" by (cases desired) auto
  have c: "well_typed VT_Integer current" "get (ob_facts ob) MTU = to_pyval current"
    "\<not> val_eq current desired"
    using mtu(5) by (auto simp: mtu_readable_def coerce_iff)
  then obtain u where u: "current = VInt u" "u > 0" by (cases current) auto
  have "u \<noteq> v" using c(3) u v by (auto simp: val_eq_def)
  then show ?thesis using mtu u v c(2) by (auto simp: managed_intent_def current_at_def)
qed simp_all

section \<open>How a plan may execute\<close>

lemma definition_of_sel [simp]:
  "od_base_risk (definition_of op) = Medium" "\<not> od_destructive (definition_of op)"
  "\<not> od_confirmation_requested (definition_of op)"
  "od_can_affect_management_path (definition_of op) \<longleftrightarrow> container_action_of op = None"
  "od_protection_uses_resource_relation (definition_of op) \<longleftrightarrow> op = Network_Interface_Reconcile_Mtu"
  "od_guarded_execution (definition_of op) \<longleftrightarrow> op = Network_Interface_Reconcile_Mtu"
  by (cases op; simp add: RECONCILE_MTU_def container_definition_def service_definition_def)+

lemma base_risk_floor:
  "od_base_risk d \<le> rsk_tier (assess_risk d br gs q)"
  unfolding assess_risk_def Let_def risk_assessment.select_convs
  by (rule Max_ge) (auto simp: risk_factors_def)

lemma planned_confirmation:
  assumes "od_base_risk d = Medium" "\<not> od_destructive d"
  shows "crq_required (effective_confirmation d (assess_risk d br gs q) q True)"
    and "crq_method (effective_confirmation d (assess_risk d br gs q) q True) =
    (if od_can_affect_management_path d \<and> pa_management_path q \<noteq> Not_On_Management_Path
     then CM_Typed else CM_Acknowledge)"
proof -
  have "RISK_ORDER Medium \<le> RISK_ORDER (rsk_tier (assess_risk d br gs q))"
    using base_risk_floor [of d br gs q] assms(1) by (simp add: less_eq_risk_tier_def)
  then show "crq_required (effective_confirmation d (assess_risk d br gs q) q True)"
    and "crq_method (effective_confirmation d (assess_risk d br gs q) q True) =
    (if od_can_affect_management_path d \<and> pa_management_path q \<noteq> Not_On_Management_Path
     then CM_Typed else CM_Acknowledge)"
    using assms(2) by (simp_all add: effective_confirmation_def Let_def CONFIRM_FROM_RISK_def)
qed

text \<open>The policy every plan is judged by, whatever its kind.\<close>

definition judged ::
  "operation_type \<Rightarrow> planning_context \<Rightarrow> run_plan \<Rightarrow> string option \<Rightarrow> string list \<Rightarrow>
   backend_self_impact_assessment option \<Rightarrow> bool" where
  "judged op ctx p br gs si \<longleftrightarrow>
     rp_confirmation p = effective_confirmation (definition_of op)
        (assess_risk (definition_of op) br gs (rp_protection p)) (rp_protection p) True \<and>
     (\<exists>provider. rp_execution p = assess_execution (definition_of op) XA_Available provider
        (od_required_capability (definition_of op) \<in> set (pc_evidence_sources ctx)) br gs
        (rp_protection p) (rp_guard p) si) \<and>
     (guard_available (rp_guard p) \<longleftrightarrow> op = Network_Interface_Reconcile_Mtu \<and>
        pa_management_path (rp_protection p) = On_Management_Path \<and>
        CAPABILITY_MTU_GUARD \<in> set (pc_evidence_sources ctx))"

lemma mtu_judged:
  "judged Network_Interface_Reconcile_Mtu ctx (mtu_plan ctx i ob u v q)
     (fst (ownership_gate RECONCILE_MTU (pc_provenance ctx))) (gaps (pc_provenance ctx)) None"
  by (auto simp: judged_def mtu_plan_def Let_def guard_available_iff RECONCILE_MTU_def)

lemma container_judged:
  "judged (container_operation a) ctx (container_plan a ctx ob st q)
     (fst (ownership_gate (container_definition a) (pc_provenance ctx))) (gaps (pc_provenance ctx)) None"
proof -
  have "definition_of (container_operation a) = container_definition a"
    "container_operation a \<noteq> Network_Interface_Reconcile_Mtu"
    by (cases a; simp)+
  moreover have "\<not> od_guarded_execution (container_definition a)" by (simp add: container_definition_def)
  ultimately show ?thesis by (auto simp: judged_def container_plan_def Let_def guard_available_iff)
qed

lemma service_judged:
  "judged (service_operation a) ctx (service_plan P a ctx ob lc q) None []
     (Some (assess_backend_self_impact lc q))"
proof -
  have "definition_of (service_operation a) = service_definition a"
    "service_operation a \<noteq> Network_Interface_Reconcile_Mtu"
    by (cases a; simp)+
  moreover have "\<not> guard_available SERVICE_GUARD" by (simp add: SERVICE_GUARD_def guard_available_def)
  ultimately show ?thesis by (auto simp: judged_def service_plan_def Let_def)
qed

lemma plan_judged:
  assumes "plan_operation op P ctx = Inr (Inr p)"
  obtains br gs si where "judged op ctx p br gs si"
    "service_action_of op = None \<longrightarrow> si = None \<and> gs = gaps (pc_provenance ctx) \<and>
       br = fst (ownership_gate (definition_of op) (pc_provenance ctx))"
    "service_action_of op \<noteq> None \<longrightarrow> (\<exists>lc. assess_lifecycle_protection lc = Inr (rp_protection p))"
  using assms
proof (cases rule: plan_operation_cases)
  case (mtu i desired ob current protection)
  show ?thesis
    by (rule that [of "fst (ownership_gate RECONCILE_MTU (pc_provenance ctx))" "gaps (pc_provenance ctx)" None])
      (use mtu mtu_judged in auto)
next
  case (container a ob state protection)
  have "definition_of op = container_definition a" unfolding container(2) by (cases a) simp_all
  moreover have "service_action_of op = None" unfolding container(2) by (cases a) simp_all
  ultimately show ?thesis
    using container container_judged
    by (intro that [of "fst (ownership_gate (container_definition a) (pc_provenance ctx))"
          "gaps (pc_provenance ctx)" None]) auto
next
  case (service a ob lc protection)
  show ?thesis
    by (rule that [of None "[]" "Some (assess_backend_self_impact lc protection)"])
      (use service service_judged in auto)
qed

text \<open>
  Every plan can be confirmed, and executes only as its operation can: a confirmation is
  always required, by the typed name exactly where the operator's own path is or may be at stake;
  the ordinary way is open only with the write capability declared, no owner or gap in the way and
  nothing protected reached; the guarded way exactly for an interface proven to carry the
  operator's connection, on a host that declares the guard; and an operator's authority over the
  backend's own interruption is asked for services only.
\<close>

theorem plans_execute_as_they_can:
  assumes "plan_operation op P ctx = Inr (Inr p)"
  shows "crq_required (rp_confirmation p) \<and>
    crq_method (rp_confirmation p) =
      (if service_action_of op \<noteq> None \<or> op = Network_Interface_Reconcile_Mtu \<and>
          pa_management_path (rp_protection p) \<noteq> Not_On_Management_Path
       then CM_Typed else CM_Acknowledge) \<and>
    (xas_eligibility (rp_execution p) = XE_Eligible \<longrightarrow>
       od_required_capability (definition_of op) \<in> set (pc_evidence_sources ctx) \<and>
       (service_action_of op = None \<longrightarrow> gaps (pc_provenance ctx) = [] \<and>
          fst (ownership_gate (definition_of op) (pc_provenance ctx)) = None) \<and>
       (op = Network_Interface_Reconcile_Mtu \<longrightarrow>
          pa_management_path (rp_protection p) = Not_On_Management_Path) \<and>
       (service_action_of op \<noteq> None \<longrightarrow> pa_status (rp_protection p) = PS_Clear)) \<and>
    (xas_eligibility (rp_execution p) = XE_Guarded \<longleftrightarrow>
       op = Network_Interface_Reconcile_Mtu \<and>
       pa_management_path (rp_protection p) = On_Management_Path \<and>
       {CAPABILITY_MTU_GUARD, CAPABILITY_SET_MTU} \<subseteq> set (pc_evidence_sources ctx) \<and>
       gaps (pc_provenance ctx) = [] \<and>
       fst (ownership_gate RECONCILE_MTU (pc_provenance ctx)) = None) \<and>
    (xas_eligibility (rp_execution p) = XE_Self_Impact_Override_Required \<longrightarrow>
       service_action_of op \<noteq> None)"
proof -
  obtain br gs si where j: "judged op ctx p br gs si"
    and n: "service_action_of op = None \<longrightarrow> si = None \<and> gs = gaps (pc_provenance ctx) \<and>
       br = fst (ownership_gate (definition_of op) (pc_provenance ctx))"
    and l: "service_action_of op \<noteq> None \<longrightarrow> (\<exists>lc. assess_lifecycle_protection lc = Inr (rp_protection p))"
    by (rule plan_judged [OF assms])
  obtain provider where x: "rp_execution p = assess_execution (definition_of op) XA_Available provider
        (od_required_capability (definition_of op) \<in> set (pc_evidence_sources ctx)) br gs
        (rp_protection p) (rp_guard p) si"
    using j unfolding judged_def by blast
  have c: "crq_required (rp_confirmation p)" "crq_method (rp_confirmation p) =
      (if container_action_of op = None \<and> pa_management_path (rp_protection p) \<noteq> Not_On_Management_Path
       then CM_Typed else CM_Acknowledge)"
    using j definition_of_sel [of op] by (simp_all add: judged_def planned_confirmation)
  have service: "pa_management_path (rp_protection p) = Relation_Unknown"
    "protection_blockers (definition_of op) (rp_protection p) = [] \<longleftrightarrow> pa_status (rp_protection p) = PS_Clear"
    if s: "service_action_of op \<noteq> None"
  proof -
    obtain lc where lc: "assess_lifecycle_protection lc = Inr (rp_protection p)" using l s by blast
    show "pa_management_path (rp_protection p) = Relation_Unknown" by (rule lifecycle_relation [OF lc])
    have "container_action_of op = None" "op \<noteq> Network_Interface_Reconcile_Mtu" using s by (cases op; simp)+
    then show "protection_blockers (definition_of op) (rp_protection p) = [] \<longleftrightarrow>
        pa_status (rp_protection p) = PS_Clear"
      using lifecycle_rolled [OF lc] definition_of_sel [of op]
      by (auto simp: protection_blockers_def split: protection_status.splits)
  qed
  have kind: "container_action_of op = None \<longleftrightarrow> service_action_of op \<noteq> None \<or> op = Network_Interface_Reconcile_Mtu"
    by (cases op) simp_all
  have mtu: "op = Network_Interface_Reconcile_Mtu \<Longrightarrow> service_action_of op = None" by simp
  have g: "guard_available (rp_guard p) \<longleftrightarrow> op = Network_Interface_Reconcile_Mtu \<and>
        pa_management_path (rp_protection p) = On_Management_Path \<and>
        CAPABILITY_MTU_GUARD \<in> set (pc_evidence_sources ctx)"
    using j by (simp add: judged_def)
  have set_mtu: "od_required_capability RECONCILE_MTU = CAPABILITY_SET_MTU"
    by (simp add: RECONCILE_MTU_def)
  have path: "on_the_path (definition_of op) (rp_protection p) \<longleftrightarrow>
      op = Network_Interface_Reconcile_Mtu \<and> pa_management_path (rp_protection p) = On_Management_Path"
    using definition_of_sel [of op] by (auto simp: on_the_path_def)
  have clear: "op = Network_Interface_Reconcile_Mtu \<Longrightarrow>
      protection_blockers (definition_of op) (rp_protection p) = [] \<longleftrightarrow>
      pa_management_path (rp_protection p) = Not_On_Management_Path"
    using definition_of_sel [of op]
    by (cases "pa_management_path (rp_protection p)") (simp_all add: protection_blockers_def)
  show ?thesis
  proof (intro conjI impI)
    show "crq_required (rp_confirmation p)" by (rule c(1))
    show "crq_method (rp_confirmation p) =
      (if service_action_of op \<noteq> None \<or> op = Network_Interface_Reconcile_Mtu \<and>
          pa_management_path (rp_protection p) \<noteq> Not_On_Management_Path
       then CM_Typed else CM_Acknowledge)"
      using c(2) kind service(1) by auto
  qed (use x n g kind mtu service path clear in \<open>auto simp: eligibility_simps base_blockers_Nil
      set_mtu\<close>)
qed

section \<open>An interface to reconcile\<close>

definition sample_reading :: observation_record where
  "sample_reading = \<lparr>ob_observation_id = ''obs_1'', ob_sweep_id = ''swp_1'',
     ob_capability = ''network.observe'', ob_provider = ''linux'', ob_provider_version = ''1'',
     ob_method = ''rtnetlink'', ob_fidelity = ''full'', ob_observed_at = ''t0'',
     ob_received_at = ''t0'', ob_health_state = ''healthy'', ob_health_reason = ''operstate_up'',
     ob_gaps = [], ob_facts = [(''name'', PStr ''eth0''), (''mtu'', PInt 1400)]\<rparr>"

definition sample_interface :: object_record where
  "sample_interface = \<lparr>oj_object_id = ''obj_1'', oj_host_id = ''host_1'',
     oj_kind = ''network.interface'', oj_identity_basis = ''name'', oj_identity_value = ''eth0'',
     oj_identity_confidence = ''high'', oj_display_name = ''eth0'',
     oj_management_state = ''managed'', oj_management_reason = ''adopted'',
     oj_active_intent_id = Some ''int_1'', oj_first_seen_at = ''t0'', oj_last_seen_at = ''t0'',
     oj_observation = Some sample_reading\<rparr>"

definition sample_intent :: intent_record where
  "sample_intent = \<lparr>in_intent_id = ''int_1'', in_object_id = ''obj_1'', in_host_id = ''host_1'',
     in_version = 1, in_supersedes = None, in_schema_version = 1, in_origin = ''adopt'',
     in_capability = ''network.observe'', in_provider = ''linux'', in_provider_version = ''1'',
     in_observation_id = ''obs_0'', in_sweep_id = ''swp_0'', in_observed_at = ''t'',
     in_created_at = ''t'',
     in_fields = [\<lparr>cf_field = ''mtu'', cf_type = VT_Integer, cf_value = VInt 1500\<rparr>]\<rparr>"

definition sample_planning :: planning_env where
  "sample_planning = \<lparr>pn_read = (\<lambda>_. Some (True, 0)), pn_wall = 0, pn_render = (\<lambda>_. [])\<rparr>"

definition sample_planning_context :: planning_context where
  "sample_planning_context = \<lparr>pc_now = ''t1'', pc_freshness_ttl = 60, pc_object = sample_interface,
     pc_intent = Some sample_intent,
     pc_provenance = \<lparr>pv_state = OS_Unknown, pv_reason = ''no_claim'', pv_claims = [], pv_sources = []\<rparr>,
     pc_provider_readings = [], pc_evidence_sources = [CAPABILITY_SET_MTU, CAPABILITY_MTU_GUARD],
     pc_open_drift = [], pc_management_path = sample_verdict, pc_systemd_lifecycle_context = None\<rparr>"

lemmas sample_planning_defs = sample_reading_def sample_interface_def sample_intent_def
  sample_planning_def sample_planning_context_def

lemma sample_plan_made:
  obtains p where
    "plan_operation Network_Interface_Reconcile_Mtu sample_planning sample_planning_context = Inr (Inr p)"
    "rp_change p = Field_Change \<lparr>pfc_field = ''mtu'', pfc_value_type = VT_Integer,
       pfc_current = VInt 1400, pfc_desired = VInt 1500\<rparr>"
proof -
  obtain q where q: "assess_protection RECONCILE_MTU sample_verdict ''obj_1'' = Inr q"
    unfolding assess_protection_def using assess_resource_total by blast
  let ?p = "mtu_plan sample_planning_context sample_intent sample_reading (VInt 1400) (VInt 1500) q"
  have "managed_intent sample_planning_context sample_intent"
    by (simp add: managed_intent_def sample_planning_defs INTENT_SCHEMA_VERSION_def)
  moreover have "intended_mtu sample_intent = Some (VInt 1500)"
    by (simp add: intended_mtu_def sample_planning_defs MTU_def)
  moreover have "current_at sample_planning sample_planning_context sample_reading"
    by (simp add: current_at_def freshness_at_def observed_at_dt_def derive_freshness_def sample_planning_defs)
  moreover have "mtu_readable sample_intent (VInt 1500) sample_reading (VInt 1400)"
    by (simp add: mtu_readable_def sample_planning_defs MTU_def val_eq_def)
  moreover have "assess_protection RECONCILE_MTU (pc_management_path sample_planning_context)
      (oj_object_id (pc_object sample_planning_context)) = Inr q"
    using q by (simp add: sample_planning_context_def sample_interface_def)
  ultimately have "plan_interface_mtu_reconciliation sample_planning sample_planning_context = Inr (Inr ?p)"
    by (subst mtu_planned) blast
  then show ?thesis by (intro that [of ?p]) (simp_all add: MTU_def)
qed

theorem plans_are_current_work_witness:
  "\<exists>p. plan_operation Network_Interface_Reconcile_Mtu sample_planning sample_planning_context = Inr (Inr p) \<and>
     pev_observation_id (rp_evidence p) = ''obs_1'' \<and> vpl_capability (rp_verification p) = ''network.observe''"
proof -
  obtain p where p: "plan_operation Network_Interface_Reconcile_Mtu sample_planning
      sample_planning_context = Inr (Inr p)" by (rule sample_plan_made)
  show ?thesis using plans_are_current_work [OF p] p
    by (auto simp: current_at_def sample_planning_context_def sample_interface_def sample_reading_def)
qed

theorem mtu_plan_restores_the_retained_value_witness:
  "\<exists>p. plan_operation Network_Interface_Reconcile_Mtu sample_planning sample_planning_context = Inr (Inr p) \<and>
     rp_change p = Field_Change \<lparr>pfc_field = MTU, pfc_value_type = VT_Integer,
       pfc_current = VInt 1400, pfc_desired = VInt 1500\<rparr>"
proof -
  obtain p where p: "plan_operation Network_Interface_Reconcile_Mtu sample_planning
      sample_planning_context = Inr (Inr p)" by (rule sample_plan_made)
  show ?thesis using mtu_plan_restores_the_retained_value [OF p] p
    by (auto simp: intended_mtu_def sample_planning_context_def sample_interface_def
        sample_reading_def sample_intent_def MTU_def)
qed

theorem plans_execute_as_they_can_witness:
  "\<exists>p. plan_operation Network_Interface_Reconcile_Mtu sample_planning sample_planning_context = Inr (Inr p) \<and>
     crq_required (rp_confirmation p)"
proof -
  obtain p where p: "plan_operation Network_Interface_Reconcile_Mtu sample_planning
      sample_planning_context = Inr (Inr p)" by (rule sample_plan_made)
  show ?thesis using plans_execute_as_they_can [OF p] p by blast
qed

end
