(* ===== verification/Ipc.thy ===== *)
theory Ipc
  imports Helper_Service Provenance
begin

text \<open>
  The channel both the backend and the agent speak over: \<open>src/localplane/ipc.py\<close>. The codec
  (framing, the closed vocabulary, the checks of a request and of a response), the server's side
  of one connection, and the client's call with the fact it preserves, whether the request had
  been sent. A message is a string of bytes.

  \<open>jn_dumps\<close> is the compact \<open>json.dumps\<close> encoded as UTF-8 and may raise; \<open>jn_loads\<close> is the decoding,
  \<open>json.loads\<close> included: it gives a value, one of the two errors the codec catches (with its text), or
  raises something else. \<open>jn_repr\<close> is Python's \<open>repr\<close>, \<open>jn_exn\<close> the type and text of an exception.
  The outcome of a call is raised by the channel's own error (\<open>call_error\<close>) or is another exception.
\<close>

section \<open>The codec\<close>

datatype decoded = Decoded pyval | Undecodable string | Decoding_Raised py_error

record json_env =
  jn_dumps :: "pyval \<Rightarrow> py_error + string"
  jn_loads :: "string \<Rightarrow> decoded"
  jn_repr :: "pyval \<Rightarrow> string"
  jn_exn :: "py_error \<Rightarrow> string"

record codec =
  cd_envelope_key :: string
  cd_version :: string
  cd_max_message_bytes :: nat
  cd_methods :: "string list"
  cd_params :: "(string \<times> string list) list option"

definition UNCORRELATED_REQUEST_ID :: string where "UNCORRELATED_REQUEST_ID = ''uncorrelated''"
definition MALFORMED_MESSAGE :: string where "MALFORMED_MESSAGE = ''malformed_message''"
definition UNKNOWN_FIELD :: string where "UNKNOWN_FIELD = ''unknown_field''"
definition UNSUPPORTED_METHOD :: string where "UNSUPPORTED_METHOD = ''unsupported_method''"
definition MESSAGE_TOO_LARGE :: string where "MESSAGE_TOO_LARGE = ''message_too_large''"
definition PROTOCOL_VERSION_UNSUPPORTED :: string where
  "PROTOCOL_VERSION_UNSUPPORTED = ''protocol_version_unsupported''"
definition UNAUTHORIZED_PEER :: string where "UNAUTHORIZED_PEER = ''unauthorized_peer''"
definition INTERNAL_ERROR :: string where "INTERNAL_ERROR = ''internal_error''"

definition refuse :: "string \<Rightarrow> string \<Rightarrow> facts \<Rightarrow> helper_exn + 'a" where
  "refuse code message detail = Inl (Protocol_Exn code message detail)"

definition newline :: char where "newline = CHR 0x0A"

definition texts_of :: "string list \<Rightarrow> pyval" where
  "texts_of xs = PList (map PStr xs)"

definition size_of :: "string \<Rightarrow> pyval" where
  "size_of s = PInt (int (length s))"

definition too_large :: "codec \<Rightarrow> facts \<Rightarrow> string \<Rightarrow> helper_exn + 'a" where
  "too_large C detail message =
     refuse MESSAGE_TOO_LARGE message (detail @ [(''limit'', PInt (int (cd_max_message_bytes C)))])"

definition frame :: "json_env \<Rightarrow> codec \<Rightarrow> facts \<Rightarrow> helper_exn + string" where
  "frame J C payload =
     (case jn_dumps J (PDict payload) of
        Inl e \<Rightarrow> Inl (Py_Exn e)
      | Inr body \<Rightarrow>
         if cd_max_message_bytes C < length body + 1
         then too_large C [(''bytes'', PInt (int (length body + 1)))]
                ''encoded message exceeds the protocol ceiling''
         else Inr (body @ [newline]))"

definition unsupported_method :: "json_env \<Rightarrow> codec \<Rightarrow> string \<Rightarrow> helper_exn + 'a" where
  "unsupported_method J C method =
     refuse UNSUPPORTED_METHOD (''unsupported method: '' @ jn_repr J (PStr method))
       [(''method'', PStr method), (''supported'', texts_of (sort (remdups (cd_methods C))))]"

definition request_payload :: "codec \<Rightarrow> string \<Rightarrow> string \<Rightarrow> facts option \<Rightarrow> facts" where
  "request_payload C request_id method params =
     [(cd_envelope_key C, PStr (cd_version C)), (''request_id'', PStr request_id),
      (''method'', PStr method), (''params'', PDict (case params of None \<Rightarrow> [] | Some p \<Rightarrow> p))]"

definition codec_request ::
  "json_env \<Rightarrow> codec \<Rightarrow> string \<Rightarrow> string \<Rightarrow> facts option \<Rightarrow> helper_exn + string" where
  "codec_request J C request_id method params =
     (if method \<notin> set (cd_methods C) then unsupported_method J C method
      else frame J C (request_payload C request_id method params))"

definition ok_payload :: "codec \<Rightarrow> string \<Rightarrow> facts \<Rightarrow> facts" where
  "ok_payload C request_id result =
     [(cd_envelope_key C, PStr (cd_version C)), (''request_id'', PStr request_id),
      (''ok'', PBool True), (''result'', PDict result)]"

definition codec_ok :: "json_env \<Rightarrow> codec \<Rightarrow> string \<Rightarrow> facts \<Rightarrow> helper_exn + string" where
  "codec_ok J C request_id result = frame J C (ok_payload C request_id result)"

definition failure_payload :: "codec \<Rightarrow> string \<Rightarrow> string \<Rightarrow> string \<Rightarrow> facts \<Rightarrow> facts" where
  "failure_payload C request_id code message detail =
     [(cd_envelope_key C, PStr (cd_version C)), (''request_id'', PStr request_id),
      (''ok'', PBool False),
      (''error'', PDict [(''code'', PStr code), (''message'', PStr message), (''detail'', PDict detail)])]"

definition codec_failure ::
  "json_env \<Rightarrow> codec \<Rightarrow> string \<Rightarrow> string \<Rightarrow> string \<Rightarrow> facts \<Rightarrow> helper_exn + string" where
  "codec_failure J C request_id code message detail =
     frame J C (failure_payload C request_id code message detail)"

subsection \<open>Decoding\<close>

definition decode_object :: "json_env \<Rightarrow> codec \<Rightarrow> string \<Rightarrow> helper_exn + facts" where
  "decode_object J C raw =
     (if cd_max_message_bytes C < length raw
      then too_large C [(''bytes'', size_of raw)] ''message exceeds the protocol ceiling''
      else case jn_loads J raw of
          Undecodable text \<Rightarrow> refuse MALFORMED_MESSAGE (''could not parse frame: '' @ text) []
        | Decoding_Raised e \<Rightarrow> Inl (Py_Exn e)
        | Decoded v \<Rightarrow>
           (case v of PDict d \<Rightarrow> Inr d
            | _ \<Rightarrow> refuse MALFORMED_MESSAGE ''a frame must be a JSON object'' []))"

definition comma_joined :: "string list \<Rightarrow> string" where
  "comma_joined xs = (case xs of [] \<Rightarrow> [] | y # ys \<Rightarrow> y @ concat (map (\<lambda>z. '', '' @ z) ys))"

definition unknown_keys :: "facts \<Rightarrow> string list \<Rightarrow> string list" where
  "unknown_keys payload allowed = sort (filter (\<lambda>k. k \<notin> set allowed) (remdups (map fst payload)))"

definition only_keys :: "facts \<Rightarrow> string list \<Rightarrow> string \<Rightarrow> helper_exn + unit" where
  "only_keys payload allowed what =
     (let unknown = unknown_keys payload allowed in
      if unknown \<noteq> []
      then refuse UNKNOWN_FIELD (''unknown '' @ what @ '' field(s): '' @ comma_joined unknown)
             [(''unknown'', texts_of unknown), (''allowed'', texts_of (sort (remdups allowed)))]
      else Inr ())"

definition require_version :: "json_env \<Rightarrow> codec \<Rightarrow> facts \<Rightarrow> helper_exn + unit" where
  "require_version J C payload =
     (let version = get payload (cd_envelope_key C) in
      if version \<noteq> PStr (cd_version C)
      then refuse PROTOCOL_VERSION_UNSUPPORTED (''unsupported protocol version: '' @ jn_repr J version)
             [(''received'', version), (''supported'', PStr (cd_version C))]
      else Inr ())"

definition read_request_id :: "facts \<Rightarrow> helper_exn + string" where
  "read_request_id payload =
     (case get payload ''request_id'' of
        PStr s \<Rightarrow> if s = [] then refuse MALFORMED_MESSAGE ''request_id must be a non-empty string'' []
                  else Inr s
      | _ \<Rightarrow> refuse MALFORMED_MESSAGE ''request_id must be a non-empty string'' [])"

definition check_params :: "codec \<Rightarrow> string \<Rightarrow> facts \<Rightarrow> helper_exn + unit" where
  "check_params C method params =
     (case cd_params C of
        None \<Rightarrow> Inr ()
      | Some ps \<Rightarrow>
         (case map_of ps method of
            None \<Rightarrow> Inl (Py_Exn (KeyError method))
          | Some allowed \<Rightarrow>
             (let unknown = unknown_keys params allowed in
              if unknown \<noteq> []
              then refuse UNKNOWN_FIELD
                     (''unknown parameter(s) for '' @ method @ '': '' @ comma_joined unknown)
                     [(''method'', PStr method), (''unknown'', texts_of unknown),
                      (''allowed'', texts_of (sort (remdups allowed)))]
              else Inr ())))"

definition decode_request ::
  "json_env \<Rightarrow> codec \<Rightarrow> string \<Rightarrow> helper_exn + string \<times> string \<times> facts" where
  "decode_request J C raw =
     bindE (decode_object J C raw) (\<lambda>payload.
     bindE (only_keys payload [cd_envelope_key C, ''request_id'', ''method'', ''params''] ''request'') (\<lambda>_.
     bindE (require_version J C payload) (\<lambda>_.
     bindE (read_request_id payload) (\<lambda>request_id.
     bindE (case get payload ''method'' of
              PStr m \<Rightarrow> if m \<notin> set (cd_methods C) then unsupported_method J C m else Inr m
            | _ \<Rightarrow> refuse MALFORMED_MESSAGE ''method must be a string'' []) (\<lambda>method.
     bindE (case or_val (get payload ''params'') (PDict []) of
              PDict p \<Rightarrow> Inr p
            | _ \<Rightarrow> refuse INVALID_PARAMS ''params must be an object'' []) (\<lambda>params.
     bindE (check_params C method params) (\<lambda>_.
     Inr (request_id, method, params))))))))"

definition has_key :: "facts \<Rightarrow> string \<Rightarrow> bool" where
  "has_key d k \<longleftrightarrow> map_of d k \<noteq> None"

text \<open>A response: its request, and the result it carries or the error.\<close>

definition decode_response ::
  "json_env \<Rightarrow> codec \<Rightarrow> string \<Rightarrow> helper_exn + string \<times> bool \<times> facts option \<times> facts option" where
  "decode_response J C raw =
     bindE (decode_object J C raw) (\<lambda>payload.
     bindE (only_keys payload [cd_envelope_key C, ''request_id'', ''ok'', ''result'', ''error''] ''response'') (\<lambda>_.
     bindE (require_version J C payload) (\<lambda>_.
     bindE (read_request_id payload) (\<lambda>request_id.
     let has_result = has_key payload ''result''; has_error = has_key payload ''error'' in
     if has_result = has_error
     then refuse MALFORMED_MESSAGE ''a response must carry exactly one of result or error''
            [(''has_result'', PBool has_result), (''has_error'', PBool has_error)]
     else case get payload ''ok'' of
         PBool claimed \<Rightarrow>
           if claimed \<noteq> has_result
           then refuse MALFORMED_MESSAGE ''ok does not agree with the body of the response''
                  [(''ok'', PBool claimed), (''has_result'', PBool has_result)]
           else if has_result
           then (case get payload ''result'' of
                   PDict r \<Rightarrow> Inr (request_id, True, Some r, None)
                 | _ \<Rightarrow> refuse MALFORMED_MESSAGE ''result must be an object'' [])
           else (case get payload ''error'' of
                   PDict err \<Rightarrow>
                     (case get err ''code'' of
                        PStr _ \<Rightarrow> Inr (request_id, False, None, Some err)
                      | _ \<Rightarrow> refuse MALFORMED_MESSAGE ''error must be an object with a code'' [])
                 | _ \<Rightarrow> refuse MALFORMED_MESSAGE ''error must be an object with a code'' [])
       | _ \<Rightarrow> refuse MALFORMED_MESSAGE ''ok must be a boolean'' []))))"

subsection \<open>Framing a stream\<close>

definition readline :: "nat \<Rightarrow> string \<Rightarrow> string" where
  "readline n s = (let t = take n s; u = takeWhile (\<lambda>c. c \<noteq> newline) t in
     if length u < length t then u @ [newline] else t)"

definition read_message :: "codec \<Rightarrow> string \<Rightarrow> helper_exn + string option" where
  "read_message C s =
     (let limit = cd_max_message_bytes C; line = readline (limit + 1) s in
      if line = [] then Inr None
      else if limit < length line then too_large C [] ''message exceeds the protocol ceiling''
      else if last line \<noteq> newline then refuse MALFORMED_MESSAGE ''frame is not newline terminated'' []
      else Inr (Some (butlast line)))"

section \<open>The server's side of a connection\<close>

record peer =
  pe_pid :: int
  pe_uid :: int
  pe_gid :: int

record line_server =
  lv_codec :: codec
  lv_allowed_uids :: "int list"
  lv_allowed_gids :: "int list"

definition authorize :: "line_server \<Rightarrow> peer \<Rightarrow> bool \<times> string" where
  "authorize V p =
     (if pe_uid p \<in> set (lv_allowed_uids V) then (True, ''uid_allowed'')
      else if lv_allowed_gids V \<noteq> [] \<and> pe_gid p \<in> set (lv_allowed_gids V) then (True, ''gid_allowed'')
      else if lv_allowed_uids V = [] \<and> lv_allowed_gids V = [] then (False, ''no_peer_is_allowed'')
      else (False, ''peer_uid_not_allowed''))"

type_synonym 'w handler = "string \<Rightarrow> facts \<Rightarrow> 'w \<Rightarrow> (helper_exn + facts) \<times> 'w"

text \<open>One request: decoded, served, answered. An exception of the last step leaves.\<close>

definition respond ::
  "json_env \<Rightarrow> codec \<Rightarrow> 'w handler \<Rightarrow> string \<Rightarrow> 'w \<Rightarrow> (helper_exn + string) \<times> 'w" where
  "respond J C h raw w =
     (case decode_request J C raw of
        Inl (Protocol_Exn code message detail) \<Rightarrow>
          (codec_failure J C UNCORRELATED_REQUEST_ID code message detail, w)
      | Inl (Py_Exn e) \<Rightarrow> (Inl (Py_Exn e), w)
      | Inr (request_id, method, params) \<Rightarrow>
          (case h method params w of
             (Inl (Protocol_Exn code message detail), w') \<Rightarrow>
               (codec_failure J C request_id code message detail, w')
           | (Inl (Py_Exn e), w') \<Rightarrow>
               (codec_failure J C request_id INTERNAL_ERROR (jn_exn J e) [(''method'', PStr method)], w')
           | (Inr result, w') \<Rightarrow>
               (case codec_ok J C request_id result of
                  Inl (Protocol_Exn code message detail) \<Rightarrow>
                    (codec_failure J C request_id code message detail, w')
                | r \<Rightarrow> (r, w'))))"

text \<open>The loop over one connection's requests: what it writes, and the world it leaves.\<close>

function serve :: "json_env \<Rightarrow> codec \<Rightarrow> 'w handler \<Rightarrow> string \<Rightarrow> 'w \<Rightarrow> string \<times> 'w" where
  "serve J C h s w =
     (case read_message C s of
        Inl (Protocol_Exn code message detail) \<Rightarrow>
          ((case codec_failure J C UNCORRELATED_REQUEST_ID code message detail of
              Inl _ \<Rightarrow> [] | Inr out \<Rightarrow> out), w)
      | Inl (Py_Exn _) \<Rightarrow> ([], w)
      | Inr None \<Rightarrow> ([], w)
      | Inr (Some raw) \<Rightarrow>
          (case respond J C h raw w of
             (Inl _, w') \<Rightarrow> ([], w')
           | (Inr out, w') \<Rightarrow>
               (case serve J C h (drop (length raw + 1) s) w' of (more_out, w'') \<Rightarrow> (out @ more_out, w''))))"
  by pat_completeness auto

lemma read_message_Some:
  assumes "read_message C s = Inr (Some raw)"
  shows "s \<noteq> []"
proof
  assume "s = []"
  with assms show False by (simp add: read_message_def readline_def Let_def)
qed

termination serve
proof (relation "measure (\<lambda>(J, C, h, s, w). length s)", goal_cases)
  case (2 J C h s w)
  then show ?case using read_message_Some by fastforce
qed simp

declare serve.simps [simp del]

definition peer_detail :: "line_server \<Rightarrow> peer \<Rightarrow> string \<Rightarrow> facts" where
  "peer_detail V p reason =
     [(''reason'', PStr reason), (''peer_uid'', PInt (pe_uid p)), (''peer_gid'', PInt (pe_gid p)),
      (''allowed_uids'', PList (map PInt (sort (remdups (lv_allowed_uids V))))),
      (''allowed_gids'', PList (map PInt (sort (remdups (lv_allowed_gids V)))))]"

definition turned_away :: "json_env \<Rightarrow> codec \<Rightarrow> string \<Rightarrow> facts \<Rightarrow> string" where
  "turned_away J C message detail =
     (case codec_failure J C UNCORRELATED_REQUEST_ID UNAUTHORIZED_PEER message detail of
        Inl _ \<Rightarrow> [] | Inr out \<Rightarrow> out)"

definition serve_connection ::
  "json_env \<Rightarrow> line_server \<Rightarrow> 'w handler \<Rightarrow> peer option \<Rightarrow> string \<Rightarrow> 'w \<Rightarrow> string \<times> 'w" where
  "serve_connection J V h p s w =
     (case p of
        None \<Rightarrow> (turned_away J (lv_codec V) ''peer credentials could not be read'' [], w)
      | Some p \<Rightarrow>
         (case authorize V p of
            (True, _) \<Rightarrow> serve J (lv_codec V) h s w
          | (False, reason) \<Rightarrow>
              (turned_away J (lv_codec V) ''peer is not authorized to reach this socket''
                 (peer_detail V p reason), w)))"

section \<open>The client's call\<close>

record call_error =
  ce_code :: string
  ce_message :: pyval
  ce_detail :: pyval
  ce_dispatched :: bool

datatype call_exn = Call_Failed call_error | Call_Raised py_error

text \<open>
  What the socket did: it failed before the frame was written, or after; or the frame was written
  and these bytes are what can be read until the other side closes.
\<close>

datatype socket_exn =
  File_Not_Found | Timed_Out | Connection_Failed string | Os_Failed string "int option"

datatype exchange = Not_Through socket_exn | No_Answer socket_exn | Readable string

record channel =
  ch_socket :: string
  ch_timeout_text :: string
  ch_unavailable :: string
  ch_timeout_code :: string

definition failed :: "string \<Rightarrow> pyval \<Rightarrow> pyval \<Rightarrow> bool \<Rightarrow> call_exn + 'a" where
  "failed code message detail dispatched =
     Inl (Call_Failed \<lparr>ce_code = code, ce_message = message,
        ce_detail = (if truthy detail then detail else PDict []), ce_dispatched = dispatched\<rparr>)"

definition socket_failed :: "channel \<Rightarrow> string \<Rightarrow> socket_exn \<Rightarrow> bool \<Rightarrow> call_exn + 'a" where
  "socket_failed H method x dispatched =
     (let at = (''socket'', PStr (ch_socket H)) in
      case x of
        File_Not_Found \<Rightarrow>
          failed (ch_unavailable H) (PStr (''no socket at '' @ ch_socket H)) (PDict [at]) False
      | Timed_Out \<Rightarrow>
          failed (ch_timeout_code H) (PStr (''no answer within '' @ ch_timeout_text H @ ''s''))
            (PDict [at, (''method'', PStr method)]) dispatched
      | Connection_Failed text \<Rightarrow>
          failed (ch_unavailable H) (PStr (''connection failed: '' @ text)) (PDict [at]) dispatched
      | Os_Failed text errno \<Rightarrow>
          failed (ch_unavailable H) (PStr (''socket error: '' @ text))
            (PDict [at, (''errno'', oint errno)]) dispatched)"

definition line_failed :: "helper_exn \<Rightarrow> bool \<Rightarrow> call_exn + 'a" where
  "line_failed x dispatched =
     (case x of
        Protocol_Exn code message detail \<Rightarrow> failed code (PStr message) (PDict detail) dispatched
      | Py_Exn e \<Rightarrow> Inl (Call_Raised e))"

definition answered_error :: "facts \<Rightarrow> call_exn + 'a" where
  "answered_error err =
     (case get err ''code'' of
        PStr code \<Rightarrow> failed code (get_or err ''message'' (PStr [])) (get_or err ''detail'' (PDict [])) True
      | _ \<Rightarrow> Inl (Call_Raised (KeyError ''code'')))"

definition read_answer ::
  "json_env \<Rightarrow> codec \<Rightarrow> channel \<Rightarrow> string \<Rightarrow> string \<Rightarrow> string \<Rightarrow> call_exn + facts" where
  "read_answer J C H method request_id s =
     (case read_message C s of
        Inl x \<Rightarrow> line_failed x True
      | Inr None \<Rightarrow>
          failed (ch_unavailable H) (PStr ''closed the connection without answering'')
            (PDict [(''method'', PStr method)]) True
      | Inr (Some raw) \<Rightarrow>
          (case decode_response J C raw of
             Inl x \<Rightarrow> line_failed x True
           | Inr (reply_id, ok, result, error) \<Rightarrow>
               if reply_id \<noteq> request_id
               then (if \<not> ok \<and> reply_id = UNCORRELATED_REQUEST_ID
                     then (case error of None \<Rightarrow> Inl (Call_Raised (AssertionError []))
                           | Some err \<Rightarrow> answered_error err)
                     else failed MALFORMED_MESSAGE (PStr ''answered a different request'')
                            (PDict [(''expected'', PStr request_id), (''received'', PStr reply_id)]) True)
               else if \<not> ok
               then (case error of None \<Rightarrow> Inl (Call_Raised (AssertionError []))
                     | Some err \<Rightarrow> answered_error err)
               else (case result of None \<Rightarrow> Inl (Call_Raised (AssertionError []))
                     | Some r \<Rightarrow> Inr r)))"

definition ipc_call ::
  "json_env \<Rightarrow> codec \<Rightarrow> channel \<Rightarrow> (string \<Rightarrow> 'w \<Rightarrow> exchange \<times> 'w) \<Rightarrow> string \<Rightarrow>
   string \<Rightarrow> facts option \<Rightarrow> 'w \<Rightarrow> (call_exn + facts) \<times> 'w" where
  "ipc_call J C H transport request_id method params w =
     (case codec_request J C request_id method params of
        Inl x \<Rightarrow> (line_failed x False, w)
      | Inr out \<Rightarrow>
         (case transport out w of
            (Not_Through x, w') \<Rightarrow> (socket_failed H method x False, w')
          | (No_Answer x, w') \<Rightarrow> (socket_failed H method x True, w')
          | (Readable s, w') \<Rightarrow> (read_answer J C H method request_id s, w')))"

end
