(* ===== verification/Executors.thy ===== *)
theory Executors
  imports Operations Ipc
begin

text \<open>
  The execution half of the typed operations: \<open>InterfaceMtuExecutor\<close> of
  \<open>src/localplane/backend/operations.py\<close>, \<open>ContainerLifecycleExecutor\<close> of
  \<open>container_operations.py\<close>, \<open>SystemdLifecycleExecutor\<close> of \<open>systemd_operations.py\<close>, and the calls
  of \<open>src/localplane/backend/agent_client.py\<close> they make. An executor's method is a function of the
  world, which the agent, the observation sweeps and the object table read and change; it returns
  its value or the Python exception it raises.

  \<open>hv_agent\<close> is \<open>AgentClient.call\<close>, which raises \<open>AgentError\<close> (\<open>Call_Failed\<close>) or something else; \<open>hv_refresh_*\<close> are the coordinator's sweeps, of whose result
  only the sweep's identity is used; \<open>hv_int\<close> is Python's \<open>int\<close> of a value that is no number,
  \<open>hv_render\<close> its \<open>str\<close> of a value that is no text, and \<open>hv_read\<close> is \<open>datetime.fromisoformat\<close>. The
  columns of a report that hold texts hold \<open>None\<close> for a value of another type.
\<close>

section \<open>What an executor reaches\<close>

definition ce_as_dict :: "call_error \<Rightarrow> facts" where
  "ce_as_dict e = [(''code'', PStr (ce_code e)), (''message'', ce_message e), (''detail'', ce_detail e)]"

record 'w host_services =
  hv_agent :: "string \<Rightarrow> facts \<Rightarrow> 'w \<Rightarrow> (call_exn + facts) \<times> 'w"
  hv_refresh_network :: "string list option \<Rightarrow> 'w \<Rightarrow> (call_error + string) \<times> 'w"
  hv_refresh_containers :: "'w \<Rightarrow> (call_error + string) \<times> 'w"
  hv_refresh_unit :: "string \<Rightarrow> 'w \<Rightarrow> (call_error + string) \<times> 'w"
  hv_object :: "'w \<Rightarrow> string \<Rightarrow> object_record option"
  hv_int :: "pyval \<Rightarrow> py_error + int"
  hv_render :: "pyval \<Rightarrow> string"
  hv_read :: "string \<Rightarrow> reading option"

text \<open>The typed calls that can change the host, and the two that ask of a guard.\<close>

definition METHOD_SET_MTU :: string where "METHOD_SET_MTU = ''network.set_interface_mtu''"
definition METHOD_ARM_GUARD :: string where "METHOD_ARM_GUARD = ''network.arm_mtu_guard''"
definition METHOD_DISARM_GUARD :: string where "METHOD_DISARM_GUARD = ''network.disarm_mtu_guard''"
definition METHOD_GUARD_STATUS :: string where "METHOD_GUARD_STATUS = ''network.mtu_guard_status''"
definition METHOD_CONTAINER :: string where "METHOD_CONTAINER = ''docker.container_lifecycle''"
definition METHOD_SERVICE :: string where "METHOD_SERVICE = ''systemd.service_lifecycle''"

definition named_link :: "string option \<Rightarrow> facts" where
  "named_link n = (case n of None \<Rightarrow> [] | Some s \<Rightarrow> [(''expected_interface_name'', PStr s)])"

definition client_set_interface_mtu ::
  "'w host_services \<Rightarrow> string \<Rightarrow> int \<Rightarrow> int \<Rightarrow> int \<Rightarrow> string option \<Rightarrow> 'w \<Rightarrow> (call_exn + facts) \<times> 'w" where
  "client_set_interface_mtu S attempt ifindex expected desired name =
     hv_agent S METHOD_SET_MTU
       ([(''attempt_id'', PStr attempt), (''ifindex'', PInt ifindex),
         (''expected_current_mtu'', PInt expected), (''desired_mtu'', PInt desired)] @ named_link name)"

definition client_arm_mtu_guard ::
  "'w host_services \<Rightarrow> string \<Rightarrow> string \<Rightarrow> int \<Rightarrow> int \<Rightarrow> int \<Rightarrow> int \<Rightarrow> string option \<Rightarrow> 'w \<Rightarrow>
   (call_exn + facts) \<times> 'w" where
  "client_arm_mtu_guard S guard_id attempt ifindex guarded restore window name =
     hv_agent S METHOD_ARM_GUARD
       ([(''guard_id'', PStr guard_id), (''attempt_id'', PStr attempt), (''ifindex'', PInt ifindex),
         (''guarded_mtu'', PInt guarded), (''restore_mtu'', PInt restore),
         (''window_s'', PInt window)] @ named_link name)"

definition client_guard ::
  "'w host_services \<Rightarrow> bool \<Rightarrow> string \<Rightarrow> 'w \<Rightarrow> (call_exn + facts) \<times> 'w" where
  "client_guard S release guard_id =
     hv_agent S (if release then METHOD_DISARM_GUARD else METHOD_GUARD_STATUS)
       [(''guard_id'', PStr guard_id)]"

definition client_container_lifecycle ::
  "'w host_services \<Rightarrow> string \<Rightarrow> string \<Rightarrow> string \<Rightarrow> 'w \<Rightarrow> (call_exn + facts) \<times> 'w" where
  "client_container_lifecycle S attempt container action =
     hv_agent S METHOD_CONTAINER [(''attempt_id'', PStr attempt), (''container_id'', PStr container),
       (''action'', PStr action)]"

definition client_service_lifecycle ::
  "'w host_services \<Rightarrow> string \<Rightarrow> string \<Rightarrow> string \<Rightarrow> 'w \<Rightarrow> (call_exn + facts) \<times> 'w" where
  "client_service_lifecycle S attempt unit action =
     hv_agent S METHOD_SERVICE [(''attempt_id'', PStr attempt), (''unit_id'', PStr unit),
       (''action'', PStr action)]"

section \<open>Reading an answer\<close>

definition outcome_of :: "pyval \<Rightarrow> mutation_outcome option" where
  "outcome_of v = find (\<lambda>m. v = PStr (mo_str m)) [MO_Not_Written, MO_Written, MO_Write_Unknown]"

definition NOT_A_MAPPING :: py_error where
  "NOT_A_MAPPING = AttributeError ''object has no attribute get''"

text \<open>\<open>answer.get(key) or {}\<close>, of which entries are then asked.\<close>

definition part :: "facts \<Rightarrow> string \<Rightarrow> py_error + facts" where
  "part answer key =
     (case or_val (get answer key) (PDict []) of PDict d \<Rightarrow> Inr d | _ \<Rightarrow> Inl NOT_A_MAPPING)"

definition or_unstated :: "(pyval \<Rightarrow> string) \<Rightarrow> pyval \<Rightarrow> string" where
  "or_unstated render v = py_str render (or_val v (PStr ''unstated''))"

text \<open>The report of a call that failed, and of one that was answered.\<close>

definition failed_call :: "string \<Rightarrow> string \<times> pyval \<Rightarrow> call_error \<Rightarrow> mutation_report" where
  "failed_call attempt subject e =
     \<lparr>rep_outcome = (if ce_dispatched e then MO_Write_Unknown else MO_Not_Written),
      rep_reason = ce_code e, rep_attempt_id = attempt, rep_provider = None,
      rep_provider_version = None, rep_method = None,
      rep_detail = [(''agent_error'', PDict (ce_as_dict e)), (''dispatched'', PBool (ce_dispatched e)),
        subject]\<rparr>"

definition answered_call ::
  "(pyval \<Rightarrow> string) \<Rightarrow> string \<Rightarrow> string \<times> pyval \<Rightarrow> (facts \<Rightarrow> facts) \<Rightarrow> facts \<Rightarrow>
   py_error + mutation_report" where
  "answered_call render attempt subject extra answer =
     bindE (part answer ''mutation'') (\<lambda>m.
     Inr (case outcome_of (get m ''outcome'') of
        None \<Rightarrow>
          \<lparr>rep_outcome = MO_Write_Unknown, rep_reason = ''unreadable_mutation_outcome'',
           rep_attempt_id = attempt, rep_provider = None, rep_provider_version = None,
           rep_method = None, rep_detail = [(''mutation'', PDict m), subject]\<rparr>
      | Some w \<Rightarrow>
          \<lparr>rep_outcome = w, rep_reason = or_unstated render (get m ''reason''),
           rep_attempt_id = attempt, rep_provider = text_or_none (get m ''provider''),
           rep_provider_version = text_or_none (get m ''provider_version''),
           rep_method = text_or_none (get m ''method''),
           rep_detail = subject # extra m @
             [(''agent_instance_id'', get answer ''agent_instance_id'')]\<rparr>))"

definition report_of ::
  "(pyval \<Rightarrow> string) \<Rightarrow> string \<Rightarrow> string \<times> pyval \<Rightarrow> (facts \<Rightarrow> facts) \<Rightarrow>
   (call_exn + facts) \<times> 'w \<Rightarrow> (py_error + mutation_report) \<times> 'w" where
  "report_of render attempt subject extra r =
     (case r of
        (Inl (Call_Failed e), w) \<Rightarrow> (Inr (failed_call attempt subject e), w)
      | (Inl (Call_Raised x), w) \<Rightarrow> (Inl x, w)
      | (Inr answer, w) \<Rightarrow> (answered_call render attempt subject extra answer, w))"

text \<open>A change built for one verb, given to the executor of another.\<close>

definition action_mismatch :: "mutation_request \<Rightarrow> string \<Rightarrow> mutation_report" where
  "action_mismatch q verb =
     \<lparr>rep_outcome = MO_Not_Written, rep_reason = ''action_mismatch'',
      rep_attempt_id = mr_attempt_id q, rep_provider = None, rep_provider_version = None,
      rep_method = None,
      rep_detail = [(''recorded'', opt_text (mr_action q)), (''executor'', PStr verb)]\<rparr>"

definition entries :: "string list \<Rightarrow> facts \<Rightarrow> facts" where
  "entries ks m = map (\<lambda>k. (k, get m k)) ks"

text \<open>A reading is one of this sweep, or it is none.\<close>

definition no_reading :: "string \<Rightarrow> facts \<Rightarrow> observation_attempt" where
  "no_reading failure detail = \<lparr>oa_record = None, oa_failure = Some failure, oa_detail = detail\<rparr>"

definition swept ::
  "'w host_services \<Rightarrow> string \<Rightarrow> facts \<Rightarrow> (call_error + string) \<times> 'w \<Rightarrow> observation_attempt \<times> 'w" where
  "swept S object_id detail r =
     (case r of
        (Inl e, w) \<Rightarrow> (no_reading ''observation_unavailable'' (ce_as_dict e), w)
      | (Inr sweep, w) \<Rightarrow>
         ((case hv_object S w object_id of
             None \<Rightarrow> no_reading ''target_absent'' detail
           | Some fresh \<Rightarrow>
              (case oj_observation fresh of
                 None \<Rightarrow> no_reading ''target_absent'' detail
               | Some ob \<Rightarrow>
                  if ob_sweep_id ob \<noteq> sweep
                  then no_reading ''target_absent'' (detail @ [(''sweep_id'', PStr sweep),
                         (''newest_observation_sweep_id'', PStr (ob_sweep_id ob))])
                  else \<lparr>oa_record = Some fresh, oa_failure = None, oa_detail = []\<rparr>)), w))"

section \<open>An interface's MTU\<close>

definition as_int :: "'w host_services \<Rightarrow> pyval \<Rightarrow> py_error + int" where
  "as_int S v = (case v of PInt i \<Rightarrow> Inr i | PBool b \<Rightarrow> Inr (if b then 1 else 0) | _ \<Rightarrow> hv_int S v)"

definition index_of :: "'w host_services \<Rightarrow> facts \<Rightarrow> py_error + int" where
  "index_of S correlation = bindE (getitem correlation ''ifindex'') (as_int S)"

definition correlated_name :: "facts \<Rightarrow> string option" where
  "correlated_name correlation = text_or_none (get correlation ''interface_name'')"

definition or_zero :: "ivalue option \<Rightarrow> int" where
  "or_zero v = (case v of None \<Rightarrow> 0 | Some x \<Rightarrow> val_int x)"

definition correlate_mtu :: "object_record \<Rightarrow> engine_error + facts" where
  "correlate_mtu record =
     (case oj_observation record of
        None \<Rightarrow> Inl (Execution_Refused ''no_observation'')
      | Some ob \<Rightarrow>
         (case coerce VT_Integer (get (ob_facts ob) ''ifindex'') of
            None \<Rightarrow> Inl (Execution_Refused ''execution_identity_unreadable'')
          | Some i \<Rightarrow>
             Inr [(''ifindex'', PInt (val_int i)),
                  (''interface_name'', or_val (get (ob_facts ob) ''name'') (PStr (oj_display_name record))),
                  (''observation_id'', PStr (ob_observation_id ob))]))"

definition mtu_detail :: "facts \<Rightarrow> facts" where
  "mtu_detail m = entries [''observed_name'', ''observed_mtu'', ''kernel_errno'', ''kernel_error'', ''replayed''] m @
     [(''helper_detail'', or_val (get m ''detail'') (PDict []))]"

definition mutate_mtu ::
  "'w host_services \<Rightarrow> mutation_request \<Rightarrow> 'w \<Rightarrow> (py_error + mutation_report) \<times> 'w" where
  "mutate_mtu S q w =
     (case index_of S (mr_correlation q) of
        Inl e \<Rightarrow> (Inl e, w)
      | Inr i \<Rightarrow>
         report_of (hv_render S) (mr_attempt_id q) (''ifindex'', PInt i) mtu_detail
           (client_set_interface_mtu S (mr_attempt_id q) i (or_zero (mr_expected_current q))
              (or_zero (mr_desired q)) (correlated_name (mr_correlation q)) w))"

text \<open>The connection guard.\<close>

fun phase_str :: "guard_phase \<Rightarrow> string" where
  "phase_str GP_Arming = ''arming''" | "phase_str GP_Armed = ''armed''"
| "phase_str GP_Disarmed = ''disarmed''" | "phase_str GP_Fired = ''fired''"
| "phase_str GP_Lost = ''lost''" | "phase_str GP_Unreachable = ''unreachable''"

definition phase_of :: "pyval \<Rightarrow> guard_phase option" where
  "phase_of v = find (\<lambda>p. v = PStr (phase_str p))
     [GP_Arming, GP_Armed, GP_Disarmed, GP_Fired, GP_Lost, GP_Unreachable]"

definition arm_guard_mtu ::
  "'w host_services \<Rightarrow> guard_request \<Rightarrow> 'w \<Rightarrow> (py_error + (guard_refused + guard_armed)) \<times> 'w" where
  "arm_guard_mtu S q w =
     (case index_of S (grq_correlation q) of
        Inl e \<Rightarrow> (Inl e, w)
      | Inr i \<Rightarrow>
         (case client_arm_mtu_guard S (grq_guard_id q) (grq_attempt_id q) i
                 (val_int (grq_guarded_value q)) (val_int (grq_restore_value q)) (grq_window_s q)
                 (correlated_name (grq_correlation q)) w of
            (Inl (Call_Raised x), w') \<Rightarrow> (Inl x, w')
          | (Inl (Call_Failed e), w') \<Rightarrow>
              (Inr (Inl \<lparr>grf_code = ce_code e, grf_detail = [(''agent_error'', PDict (ce_as_dict e))]\<rparr>), w')
          | (Inr answer, w') \<Rightarrow>
              (bindE (part answer ''guard'') (\<lambda>g.
               if get g ''phase'' \<noteq> PStr (phase_str GP_Armed) \<or> \<not> truthy (get g ''expires_at'')
               then Inr (Inl \<lparr>grf_code = ''guard_not_armed'', grf_detail = [(''guard'', PDict g)]\<rparr>)
               else Inr (Inr \<lparr>gar_holder_id = py_str (hv_render S) (get answer ''agent_instance_id''),
                      gar_expires_at = py_str (hv_render S) (get g ''expires_at''),
                      gar_detail = entries [''armed_at'', ''window_s'', ''ifindex'', ''restore_mtu'',
                        ''guarded_mtu''] g\<rparr>)), w')))"

definition reversal_report :: "(pyval \<Rightarrow> string) \<Rightarrow> string \<Rightarrow> pyval \<Rightarrow> mutation_report" where
  "reversal_report render request_id mutation =
     (let unreadable = (\<lambda>attempt.
          \<lparr>rep_outcome = MO_Write_Unknown, rep_reason = ''unreadable_guard_reversal'',
           rep_attempt_id = attempt, rep_provider = None, rep_provider_version = None,
           rep_method = None, rep_detail = [(''mutation'', mutation)]\<rparr>) in
      case mutation of
        PDict m \<Rightarrow>
          (let attempt = py_str render (or_val (get m ''attempt_id'') (PStr request_id)) in
           case outcome_of (get m ''outcome'') of
             None \<Rightarrow> unreadable attempt
           | Some w \<Rightarrow>
              \<lparr>rep_outcome = w, rep_reason = or_unstated render (get m ''reason''),
               rep_attempt_id = attempt, rep_provider = text_or_none (get m ''provider''),
               rep_provider_version = text_or_none (get m ''provider_version''),
               rep_method = text_or_none (get m ''method''),
               rep_detail = entries [''ifindex'', ''observed_name'', ''observed_mtu'',
                   ''kernel_errno'', ''kernel_error''] m @
                 [(''helper_detail'', or_val (get m ''detail'') (PDict []))]\<rparr>)
      | _ \<Rightarrow> unreadable request_id)"

definition unreachable :: "string \<Rightarrow> facts \<Rightarrow> guard_report" where
  "unreachable reason detail =
     \<lparr>grp_phase = GP_Unreachable, grp_holder_id = None, grp_fired_at = None, grp_mutation = None,
      grp_reason = Some reason, grp_detail = detail\<rparr>"

definition guard_report_mtu ::
  "'w host_services \<Rightarrow> bool \<Rightarrow> string \<Rightarrow> 'w \<Rightarrow> (py_error + guard_report) \<times> 'w" where
  "guard_report_mtu S release guard_id w =
     (case client_guard S release guard_id w of
        (Inl (Call_Raised x), w') \<Rightarrow> (Inl x, w')
      | (Inl (Call_Failed e), w') \<Rightarrow>
          (Inr (unreachable (ce_code e) [(''agent_error'', PDict (ce_as_dict e)),
             (''guard_id'', PStr guard_id)]), w')
      | (Inr answer, w') \<Rightarrow>
          (bindE (part answer ''guard'') (\<lambda>g.
           Inr (case phase_of (get g ''phase'') of
              None \<Rightarrow> unreachable ''unreadable_guard_phase'' [(''guard'', PDict g)]
            | Some p \<Rightarrow>
               \<lparr>grp_phase = p, grp_holder_id = text_or_none (get answer ''agent_instance_id''),
                grp_fired_at = text_or_none (get g ''fired_at''),
                grp_mutation = (if p = GP_Fired
                  then Some (reversal_report (hv_render S) guard_id (get g ''mutation'')) else None),
                grp_reason = None,
                grp_detail = (''guard_id'', PStr guard_id) # entries [''expires_at'', ''window_s''] g\<rparr>)), w'))"

definition vt_of :: "string \<Rightarrow> py_error + value_type" where
  "vt_of s = (if s = vt_str VT_Boolean then Inr VT_Boolean
     else if s = vt_str VT_Integer then Inr VT_Integer
     else Inl (ValueError ''not a valid ValueType''))"

definition fact_of :: "facts \<Rightarrow> string option \<Rightarrow> pyval" where
  "fact_of fs k = (case k of None \<Rightarrow> PNone | Some s \<Rightarrow> get fs s)"

definition proof_state ::
  "verification_outcome \<Rightarrow> ivalue option \<Rightarrow> string option \<Rightarrow> string option \<Rightarrow> proof_of_state" where
  "proof_state v value state reason =
     \<lparr>pos_outcome = v, pos_value = value, pos_state = state, pos_reason = reason\<rparr>"

definition prove_mtu :: "facts \<Rightarrow> expectation \<Rightarrow> py_error + proof_of_state" where
  "prove_mtu fs e =
     bindE (vt_of (case ex_value_type e of None \<Rightarrow> [] | Some s \<Rightarrow> s)) (\<lambda>vt.
     Inr (case coerce vt (fact_of fs (ex_field e)) of
        None \<Rightarrow> proof_state VO_Value_Unreadable None None (Some ''value_unreadable'')
      | Some v \<Rightarrow>
         if (case ex_value e of None \<Rightarrow> False | Some u \<Rightarrow> val_eq v u)
         then proof_state VO_Verified (Some v) None None
         else proof_state VO_Mismatch (Some v) None (Some ''observed_value_differs'')))"

definition observe_mtu :: "'w host_services \<Rightarrow> object_record \<Rightarrow> 'w \<Rightarrow> observation_attempt \<times> 'w" where
  "observe_mtu S record w =
     (let name = oj_display_name record in
      swept S (oj_object_id record)
        [(''object_id'', PStr (oj_object_id record)), (''observed_name'', PStr name)]
        (hv_refresh_network S (if name = [] then None else Some [name]) w))"

section \<open>A container's lifecycle\<close>

definition correlate_container :: "object_record \<Rightarrow> engine_error + facts" where
  "correlate_container record =
     (case oj_observation record of
        None \<Rightarrow> Inl (Execution_Refused ''no_observation'')
      | Some ob \<Rightarrow>
         (case named (get (ob_facts ob) ''container_id'') of
            None \<Rightarrow> Inl (Execution_Refused ''execution_identity_unreadable'')
          | Some i \<Rightarrow>
             Inr [(''container_id'', PStr i), (''state'', get (ob_facts ob) ''state''),
                  (''started_at'', get (ob_facts ob) ''started_at''),
                  (''observation_id'', PStr (ob_observation_id ob))]))"

definition container_detail :: "facts \<Rightarrow> facts" where
  "container_detail m = entries [''action'', ''http_status''] m @
     [(''daemon_detail'', or_val (get m ''detail'') (PDict []))]"

definition mutate_container ::
  "lifecycle_action \<Rightarrow> 'w host_services \<Rightarrow> mutation_request \<Rightarrow> 'w \<Rightarrow>
   (py_error + mutation_report) \<times> 'w" where
  "mutate_container a S q w =
     (case getitem (mr_correlation q) ''container_id'' of
        Inl e \<Rightarrow> (Inl e, w)
      | Inr v \<Rightarrow>
         (let i = py_str (hv_render S) v in
          if mr_action q \<noteq> Some (la_str a) then (Inr (action_mismatch q (la_str a)), w)
          else report_of (hv_render S) (mr_attempt_id q) (''container_id'', PStr i) container_detail
                 (client_container_lifecycle S (mr_attempt_id q) i (la_str a) w)))"

definition no_reversal :: "string \<Rightarrow> guard_request \<Rightarrow> guard_refused" where
  "no_reversal verb q = \<lparr>grf_code = ''operation_has_no_unattended_reversal'',
     grf_detail = [(''action'', PStr verb), (''guard_id'', PStr (grq_guard_id q))]\<rparr>"

definition nothing_held :: "string \<Rightarrow> string \<Rightarrow> guard_report" where
  "nothing_held verb guard_id =
     \<lparr>grp_phase = GP_Lost, grp_holder_id = None, grp_fired_at = None, grp_mutation = None,
      grp_reason = Some ''operation_has_no_unattended_reversal'',
      grp_detail = [(''guard_id'', PStr guard_id), (''action'', PStr verb)]\<rparr>"

text \<open>Whether Docker's record of the last start moved.\<close>

definition started_again ::
  "(string \<Rightarrow> reading option) \<Rightarrow> pyval \<Rightarrow> string \<Rightarrow> py_error + bool" where
  "started_again rd before after =
     (case named before of
        None \<Rightarrow> Inr True
      | Some b \<Rightarrow>
         if b = after then Inr False
         else (case (parse_docker_instant rd (PStr b), parse_docker_instant rd (PStr after)) of
             (Some (aware, t), Some (aware', t')) \<Rightarrow>
               if aware = aware' then Inr (t < t')
               else Inl (TypeError ''can't compare offset-naive and offset-aware datetimes'')
           | _ \<Rightarrow> Inr True))"

definition prove_container ::
  "lifecycle_action \<Rightarrow> (string \<Rightarrow> reading option) \<Rightarrow> facts \<Rightarrow> expectation \<Rightarrow> py_error + proof_of_state" where
  "prove_container a rd fs e =
     (case named (get fs ''state'') of
        None \<Rightarrow> Inr (proof_state VO_Value_Unreadable None None (Some ''container_state_unreadable''))
      | Some state \<Rightarrow>
         if Some state \<noteq> ex_state e
         then Inr (proof_state VO_Mismatch None (Some state) (Some ''observed_state_differs''))
         else if is_running fs = None
         then Inr (proof_state VO_Value_Unreadable None (Some state)
                     (Some ''daemon_state_and_running_flag_disagree''))
         else if a \<noteq> LA_Restart then Inr (proof_state VO_Verified None (Some state) None)
         else (case named (get fs ''started_at'') of
             None \<Rightarrow> Inr (proof_state VO_Value_Unreadable None (Some state) (Some ''started_at_unreadable''))
           | Some after \<Rightarrow>
              bindE (started_again rd (get (ex_correlation e) ''started_at'') after) (\<lambda>again.
              Inr (if again then proof_state VO_Verified None (Some state) None
                   else proof_state VO_Mismatch None (Some state) (Some ''container_did_not_start_again'')))))"

definition observe_container :: "'w host_services \<Rightarrow> object_record \<Rightarrow> 'w \<Rightarrow> observation_attempt \<times> 'w" where
  "observe_container S record w =
     swept S (oj_object_id record) [(''object_id'', PStr (oj_object_id record))]
       (hv_refresh_containers S w)"

section \<open>A service's lifecycle\<close>

definition correlate_service ::
  "systemd_service_action \<Rightarrow> object_record \<Rightarrow> engine_error + facts" where
  "correlate_service a record =
     (case oj_observation record of
        None \<Rightarrow> Inl (Execution_Refused ''no_observation'')
      | Some ob \<Rightarrow>
         if get (ob_facts ob) ''canonical_id'' \<noteq> PStr (oj_identity_value record)
         then Inl (Execution_Refused ''execution_identity_unreadable'')
         else (let invocation = text_or_none (get (ob_facts ob) ''invocation_id'') in
           if a = SA_Restart \<and> invocation = None
           then Inl (Execution_Refused ''restart_baseline_invocation_id_missing'')
           else Inr [(''unit_id'', PStr (oj_identity_value record)),
                  (''invocation_id'', opt_text invocation),
                  (''active_state'', get (ob_facts ob) ''active_state''),
                  (''sub_state'', get (ob_facts ob) ''sub_state''),
                  (''observation_id'', PStr (ob_observation_id ob))]))"

definition service_detail :: "facts \<Rightarrow> facts" where
  "service_detail m = entries [''action'', ''job_id'', ''job_result''] m @
     [(''invocation_id_at_dispatch'', get m ''invocation_id''),
      (''manager_detail'', or_val (get m ''detail'') (PDict []))]"

definition mutate_service ::
  "systemd_service_action \<Rightarrow> 'w host_services \<Rightarrow> mutation_request \<Rightarrow> 'w \<Rightarrow>
   (py_error + mutation_report) \<times> 'w" where
  "mutate_service a S q w =
     (case getitem (mr_correlation q) ''unit_id'' of
        Inl e \<Rightarrow> (Inl e, w)
      | Inr v \<Rightarrow>
         (let i = py_str (hv_render S) v in
          if mr_action q \<noteq> Some (sa_str a) then (Inr (action_mismatch q (sa_str a)), w)
          else report_of (hv_render S) (mr_attempt_id q) (''unit_id'', PStr i) service_detail
                 (client_service_lifecycle S (mr_attempt_id q) i (sa_str a) w)))"

definition RUNNING_SUB_STATES :: "string list" where
  "RUNNING_SUB_STATES = [''running'', ''exited'']"

definition prove_service ::
  "systemd_service_action \<Rightarrow> facts \<Rightarrow> expectation \<Rightarrow> py_error + proof_of_state" where
  "prove_service a fs e =
     (case named (get fs ''active_state'') of
        None \<Rightarrow> Inr (proof_state VO_Value_Unreadable None None (Some ''active_state_unreadable''))
      | Some state \<Rightarrow>
         if Some state \<noteq> ex_state e \<and> \<not> (a = SA_Restart \<and> state = ''active'')
         then Inr (proof_state VO_Mismatch None (Some state) (Some ''observed_state_differs''))
         else if a \<noteq> SA_Stop \<and> unhashable (get fs ''sub_state'')
         then Inl (TypeError ''unhashable type'')
         else if a \<noteq> SA_Stop \<and> \<not> str_in (get fs ''sub_state'') RUNNING_SUB_STATES
         then Inr (proof_state VO_Mismatch None (Some state)
                     (Some ''service_sub_state_not_a_settled_running_shape''))
         else if a \<noteq> SA_Restart then Inr (proof_state VO_Verified None (Some state) None)
         else (case named (get fs ''invocation_id'') of
             None \<Rightarrow> Inr (proof_state VO_Value_Unreadable None (Some state) (Some ''invocation_id_unreadable''))
           | Some observed \<Rightarrow>
              Inr (if get (ex_correlation e) ''invocation_id'' = PStr observed
                   then proof_state VO_Mismatch None (Some state)
                          (Some ''service_did_not_start_a_new_execution'')
                   else proof_state VO_Verified None (Some state) None)))"

definition observe_service :: "'w host_services \<Rightarrow> object_record \<Rightarrow> 'w \<Rightarrow> observation_attempt \<times> 'w" where
  "observe_service S record w =
     swept S (oj_object_id record) [(''object_id'', PStr (oj_object_id record))]
       (hv_refresh_unit S (oj_identity_value record) w)"

section \<open>The executor of each operation\<close>

fun correlate_operation :: "operation_type \<Rightarrow> object_record \<Rightarrow> engine_error + facts" where
  "correlate_operation Network_Interface_Reconcile_Mtu = correlate_mtu"
| "correlate_operation Docker_Container_Start = correlate_container"
| "correlate_operation Docker_Container_Stop = correlate_container"
| "correlate_operation Docker_Container_Restart = correlate_container"
| "correlate_operation Systemd_Service_Start = correlate_service SA_Start"
| "correlate_operation Systemd_Service_Stop = correlate_service SA_Stop"
| "correlate_operation Systemd_Service_Restart = correlate_service SA_Restart"

fun mutate_operation ::
  "operation_type \<Rightarrow> 'w host_services \<Rightarrow> mutation_request \<Rightarrow> 'w \<Rightarrow> (py_error + mutation_report) \<times> 'w" where
  "mutate_operation Network_Interface_Reconcile_Mtu = mutate_mtu"
| "mutate_operation Docker_Container_Start = mutate_container LA_Start"
| "mutate_operation Docker_Container_Stop = mutate_container LA_Stop"
| "mutate_operation Docker_Container_Restart = mutate_container LA_Restart"
| "mutate_operation Systemd_Service_Start = mutate_service SA_Start"
| "mutate_operation Systemd_Service_Stop = mutate_service SA_Stop"
| "mutate_operation Systemd_Service_Restart = mutate_service SA_Restart"

fun observe_operation ::
  "operation_type \<Rightarrow> 'w host_services \<Rightarrow> object_record \<Rightarrow> 'w \<Rightarrow> observation_attempt \<times> 'w" where
  "observe_operation Network_Interface_Reconcile_Mtu = observe_mtu"
| "observe_operation Docker_Container_Start = observe_container"
| "observe_operation Docker_Container_Stop = observe_container"
| "observe_operation Docker_Container_Restart = observe_container"
| "observe_operation Systemd_Service_Start = observe_service"
| "observe_operation Systemd_Service_Stop = observe_service"
| "observe_operation Systemd_Service_Restart = observe_service"

fun prove_operation ::
  "operation_type \<Rightarrow> (string \<Rightarrow> reading option) \<Rightarrow> facts \<Rightarrow> expectation \<Rightarrow> py_error + proof_of_state" where
  "prove_operation Network_Interface_Reconcile_Mtu = (\<lambda>_. prove_mtu)"
| "prove_operation Docker_Container_Start = prove_container LA_Start"
| "prove_operation Docker_Container_Stop = prove_container LA_Stop"
| "prove_operation Docker_Container_Restart = prove_container LA_Restart"
| "prove_operation Systemd_Service_Start = (\<lambda>_. prove_service SA_Start)"
| "prove_operation Systemd_Service_Stop = (\<lambda>_. prove_service SA_Stop)"
| "prove_operation Systemd_Service_Restart = (\<lambda>_. prove_service SA_Restart)"

end
