(* ===== verification/Ipc_Properties.thy ===== *)
theory Ipc_Properties
  imports Ipc
begin

text \<open>
  What the channel of \<open>Ipc\<close> promises: the frame of a request is read back as the request, success
  and failure exclude each other, only allowed peers reach the handler, and a call over a socket
  that may fail at any byte is one of the four deliveries the write paths are reasoned with.
\<close>

section \<open>The JSON library and the codec\<close>

text \<open>What the program relies on of \<open>json\<close>: what was written reads back, on one line.\<close>

definition json_ok :: "json_env \<Rightarrow> bool" where
  "json_ok J \<longleftrightarrow> (\<forall>v body. jn_dumps J v = Inr body \<longrightarrow>
     jn_loads J body = Decoded v \<and> newline \<notin> set body)"

definition well_keyed :: "codec \<Rightarrow> bool" where
  "well_keyed C \<longleftrightarrow> cd_envelope_key C \<notin>
     {''request_id'', ''method'', ''params'', ''ok'', ''result'', ''error''}"

lemma well_keyedD [simp]:
  assumes "well_keyed C"
  shows "''request_id'' \<noteq> cd_envelope_key C" "''method'' \<noteq> cd_envelope_key C"
    "''params'' \<noteq> cd_envelope_key C" "''ok'' \<noteq> cd_envelope_key C"
    "''result'' \<noteq> cd_envelope_key C" "''error'' \<noteq> cd_envelope_key C"
    "cd_envelope_key C \<noteq> ''request_id''" "cd_envelope_key C \<noteq> ''ok''"
    "cd_envelope_key C \<noteq> ''result''" "cd_envelope_key C \<noteq> ''error''"
  using assms unfolding well_keyed_def by (metis insertCI)+

lemma json_okD:
  "json_ok J \<Longrightarrow> jn_dumps J v = Inr body \<Longrightarrow> jn_loads J body = Decoded v \<and> newline \<notin> set body"
  by (simp add: json_ok_def)

lemma frame_Inr:
  "frame J C payload = Inr out \<longleftrightarrow> (\<exists>body. jn_dumps J (PDict payload) = Inr body \<and>
     out = body @ [newline] \<and> length body + 1 \<le> cd_max_message_bytes C)"
  by (auto simp: frame_def too_large_def refuse_def split: sum.splits if_splits)

lemma takeWhile_line: "newline \<notin> set body \<Longrightarrow> takeWhile (\<lambda>c. c \<noteq> newline) (body @ newline # s) = body"
  by (induction body) auto

lemma takeWhile_all: "newline \<notin> set body \<Longrightarrow> takeWhile (\<lambda>c. c \<noteq> newline) body = body"
  by (induction body) auto

lemma readline_line:
  assumes "newline \<notin> set body" "length body + 1 \<le> n"
  shows "readline n (body @ newline # s) = body @ [newline]"
proof -
  have "take n (body @ newline # s) = body @ newline # take (n - length body - 1) s"
    using assms(2) by (simp add: take_Cons')
  then show ?thesis using takeWhile_line [OF assms(1)] by (simp add: readline_def Let_def)
qed

lemma readline_open: "newline \<notin> set s \<Longrightarrow> readline n s = take n s"
proof -
  assume "newline \<notin> set s"
  then have "newline \<notin> set (take n s)" by (blast dest: in_set_takeD)
  note line = takeWhile_all [OF this]
  show ?thesis unfolding readline_def Let_def line by simp
qed

lemma read_line:
  assumes "newline \<notin> set body" "length body + 1 \<le> cd_max_message_bytes C"
  shows "read_message C (body @ newline # s) = Inr (Some body)"
  using readline_line [OF assms(1), of "cd_max_message_bytes C + 1" s] assms(2)
  by (simp add: read_message_def)

text \<open>Without a newline there is no message.\<close>

lemma read_open:
  assumes "newline \<notin> set s"
  shows "read_message C s = Inr None \<or> (\<exists>c m d. read_message C s = Inl (Protocol_Exn c m d))"
proof (cases "readline (cd_max_message_bytes C + 1) s = []")
  case False
  have "last (readline (cd_max_message_bytes C + 1) s) \<noteq> newline"
    using False assms readline_open [OF assms] by (metis in_set_takeD last_in_set)
  with False show ?thesis by (simp add: read_message_def Let_def too_large_def refuse_def)
qed (simp add: read_message_def Let_def)

lemma decode_framed:
  assumes "json_ok J" "jn_dumps J (PDict payload) = Inr body" "length body + 1 \<le> cd_max_message_bytes C"
  shows "decode_object J C body = Inr payload"
  using json_okD [OF assms(1,2)] assms(3) by (simp add: decode_object_def)

lemma unknown_keys_Nil: "unknown_keys d allowed = [] \<longleftrightarrow> fst ` set d \<subseteq> set allowed"
proof -
  have "unknown_keys d allowed = [] \<longleftrightarrow> set (unknown_keys d allowed) = {}" by simp
  also have "\<dots> \<longleftrightarrow> fst ` set d \<subseteq> set allowed" by (auto simp: unknown_keys_def)
  finally show ?thesis .
qed

lemma only_keys_Inr: "only_keys d allowed what = Inr u \<longleftrightarrow> fst ` set d \<subseteq> set allowed"
  by (simp add: only_keys_def refuse_def unknown_keys_Nil Let_def)

definition params_allowed :: "codec \<Rightarrow> string \<Rightarrow> facts \<Rightarrow> bool" where
  "params_allowed C method params \<longleftrightarrow>
     (case cd_params C of None \<Rightarrow> True
      | Some ps \<Rightarrow> (case map_of ps method of None \<Rightarrow> False
          | Some allowed \<Rightarrow> fst ` set params \<subseteq> set allowed))"

lemma check_params_Inr: "check_params C method params = Inr u \<longleftrightarrow> params_allowed C method params"
  by (simp add: check_params_def params_allowed_def refuse_def unknown_keys_Nil Let_def split: option.splits)

lemma or_val_dict: "(case or_val (PDict p) (PDict []) of PDict d \<Rightarrow> f d | _ \<Rightarrow> g) = f p"
  by (simp add: or_val_def)

text \<open>Decoding what the client framed: only the parameters can still be refused.\<close>

lemma decode_own_request:
  assumes "json_ok J" "well_keyed C" "request_id \<noteq> []" "method \<in> set (cd_methods C)"
    and "jn_dumps J (PDict (request_payload C request_id method params)) = Inr body"
    and "length body + 1 \<le> cd_max_message_bytes C"
  shows "decode_request J C body =
    bindE (check_params C method (case params of None \<Rightarrow> [] | Some p \<Rightarrow> p))
      (\<lambda>_. Inr (request_id, method, case params of None \<Rightarrow> [] | Some p \<Rightarrow> p))"
proof -
  let ?d = "request_payload C request_id method params"
  let ?p = "case params of None \<Rightarrow> [] | Some p \<Rightarrow> p"
  have v: "require_version J C ?d = Inr ()" by (simp add: require_version_def request_payload_def)
  have k: "only_keys ?d [cd_envelope_key C, ''request_id'', ''method'', ''params''] ''request'' = Inr ()"
    by (simp add: only_keys_Inr request_payload_def)
  have g: "get ?d ''request_id'' = PStr request_id" "get ?d ''method'' = PStr method"
    "get ?d ''params'' = PDict ?p"
    using assms(2) by (simp_all add: request_payload_def)
  show ?thesis
    using decode_framed [OF assms(1,5,6)] v k g assms(3,4)
    by (simp add: decode_request_def read_request_id_def or_val_dict)
qed

text \<open>
  C23. A request is read back as it was framed. The bytes a client writes for a request are one
  message to the server's reader, whatever follows them, and that message decodes to exactly the
  request's identity, method and parameters, when the channel's closed vocabulary names them; a
  method outside the vocabulary is never framed, and a message outside it is never decoded.
\<close>

theorem request_round_trip:
  assumes "json_ok J" "well_keyed C" "request_id \<noteq> []"
    and "codec_request J C request_id method params = Inr out"
    and "params_allowed C method (case params of None \<Rightarrow> [] | Some p \<Rightarrow> p)"
  shows "read_message C (out @ rest_of_stream) = Inr (Some (butlast out)) \<and>
    decode_request J C (butlast out) =
      Inr (request_id, method, case params of None \<Rightarrow> [] | Some p \<Rightarrow> p) \<and>
    method \<in> set (cd_methods C)"
proof -
  from assms(4) have m: "method \<in> set (cd_methods C)"
    by (auto simp: codec_request_def unsupported_method_def refuse_def split: if_splits)
  with assms(4) obtain body where body: "out = body @ [newline]"
    "jn_dumps J (PDict (request_payload C request_id method params)) = Inr body"
    "length body + 1 \<le> cd_max_message_bytes C"
    by (auto simp: codec_request_def frame_Inr)
  have "newline \<notin> set body" using json_okD [OF assms(1) body(2)] by blast
  moreover have "check_params C method (case params of None \<Rightarrow> [] | Some p \<Rightarrow> p) = Inr ()"
    using assms(5) by (simp add: check_params_Inr)
  ultimately show ?thesis
    using read_line [of body C rest_of_stream] decode_own_request [OF assms(1-3) m body(2,3)] body m
    by simp
qed

definition opt_doc :: "facts option \<Rightarrow> pyval" where
  "opt_doc d = (case d of None \<Rightarrow> PNone | Some x \<Rightarrow> PDict x)"

lemma read_request_id_Inr:
  "read_request_id payload = Inr i \<longleftrightarrow> get payload ''request_id'' = PStr i \<and> i \<noteq> []"
  by (cases "get payload ''request_id''") (auto simp: read_request_id_def refuse_def)

lemma decode_object_Inr:
  "decode_object J C raw = Inr d \<longleftrightarrow>
     length raw \<le> cd_max_message_bytes C \<and> jn_loads J raw = Decoded (PDict d)"
  by (auto simp: decode_object_def too_large_def refuse_def split: decoded.splits pyval.splits)

text \<open>The last step of \<open>decode_response\<close>.\<close>

lemma response_body_Inr:
  "(case get payload ''ok'' of
      PBool claimed \<Rightarrow>
        if claimed \<noteq> has_result then refuse a b (c claimed)
        else if has_result
        then (case get payload ''result'' of PDict r \<Rightarrow> Inr (i, True, Some r, None) | _ \<Rightarrow> refuse a1 b1 c1)
        else (case get payload ''error'' of
                PDict err \<Rightarrow> (case get err ''code'' of PStr _ \<Rightarrow> Inr (i, False, None, Some err) | _ \<Rightarrow> refuse a2 b2 c2)
              | _ \<Rightarrow> refuse a2 b2 c2)
    | _ \<Rightarrow> refuse a3 b3 c3) = Inr (rid, ok, result, error) \<longleftrightarrow>
   rid = i \<and> get payload ''ok'' = PBool ok \<and> has_result = ok \<and>
   (if ok then error = None \<and> (\<exists>r. result = Some r \<and> get payload ''result'' = PDict r)
    else result = None \<and> (\<exists>err code. error = Some err \<and> get payload ''error'' = PDict err \<and>
       get err ''code'' = PStr code))"
proof (cases "get payload ''ok''")
  case (PBool claimed)
  have e: "(case get payload ''error'' of
                PDict err \<Rightarrow> (case get err ''code'' of PStr _ \<Rightarrow> Inr (i, False, None, Some err) | _ \<Rightarrow> refuse a2 b2 c2)
              | _ \<Rightarrow> refuse a2 b2 c2) = Inr (rid, ok, result, error) \<longleftrightarrow>
    rid = i \<and> \<not> ok \<and> result = None \<and> (\<exists>err code. error = Some err \<and> get payload ''error'' = PDict err \<and>
       get err ''code'' = PStr code)"
  proof (cases "get payload ''error''")
    case (PDict err)
    then show ?thesis by (cases "get err ''code''") (auto simp: refuse_def)
  qed (simp_all add: refuse_def)
  have r: "(case get payload ''result'' of PDict r \<Rightarrow> Inr (i, True, Some r, None) | _ \<Rightarrow> refuse a1 b1 c1)
      = Inr (rid, ok, result, error) \<longleftrightarrow>
    rid = i \<and> ok \<and> error = None \<and> (\<exists>r. result = Some r \<and> get payload ''result'' = PDict r)"
    by (cases "get payload ''result''") (auto simp: refuse_def)
  show ?thesis
    by (cases claimed; cases has_result;
        simp only: PBool pyval.case e r if_True if_False not_True_eq_False not_False_eq_True simp_thms;
        auto simp: refuse_def)
qed (simp_all add: refuse_def)

text \<open>
  C24. Success and failure exclude each other. A response that is accepted names a request, and
  carries a result and no error exactly when it says ok, an error with a code and no result
  otherwise; a frame that claims ok over an error, carries both or neither, or says nothing
  boolean, is never accepted.
\<close>

theorem response_is_exclusive:
  assumes "decode_response J C raw = Inr (request_id, ok, result, error)"
  shows "request_id \<noteq> [] \<and> (\<exists>payload. jn_loads J raw = Decoded (PDict payload) \<and>
    get payload ''request_id'' = PStr request_id \<and>
    get payload ''ok'' = PBool ok \<and> has_key payload ''result'' = ok \<and> has_key payload ''error'' = (\<not> ok) \<and>
    (if ok then error = None \<and> get payload ''result'' = opt_doc result \<and> result \<noteq> None
     else result = None \<and> get payload ''error'' = opt_doc error \<and>
       (\<exists>err code. error = Some err \<and> get err ''code'' = PStr code)))"
proof -
  from assms [unfolded decode_response_def bindE_Inr Let_def] obtain payload u v i where p:
    "decode_object J C raw = Inr payload" "read_request_id payload = Inr i"
    and b: "(if has_key payload ''result'' = has_key payload ''error''
       then refuse MALFORMED_MESSAGE ''a response must carry exactly one of result or error''
            [(''has_result'', PBool (has_key payload ''result'')),
             (''has_error'', PBool (has_key payload ''error''))]
       else case get payload ''ok'' of
         PBool claimed \<Rightarrow>
           if claimed \<noteq> has_key payload ''result''
           then refuse MALFORMED_MESSAGE ''ok does not agree with the body of the response''
                  [(''ok'', PBool claimed), (''has_result'', PBool (has_key payload ''result''))]
           else if has_key payload ''result''
           then (case get payload ''result'' of
                   PDict r \<Rightarrow> Inr (i, True, Some r, None)
                 | _ \<Rightarrow> refuse MALFORMED_MESSAGE ''result must be an object'' [])
           else (case get payload ''error'' of
                   PDict err \<Rightarrow>
                     (case get err ''code'' of
                        PStr _ \<Rightarrow> Inr (i, False, None, Some err)
                      | _ \<Rightarrow> refuse MALFORMED_MESSAGE ''error must be an object with a code'' [])
                 | _ \<Rightarrow> refuse MALFORMED_MESSAGE ''error must be an object with a code'' [])
       | _ \<Rightarrow> refuse MALFORMED_MESSAGE ''ok must be a boolean'' []) = Inr (request_id, ok, result, error)"
    by blast
  from b have x: "has_key payload ''result'' \<noteq> has_key payload ''error''"
    by (auto simp: refuse_def split: if_splits)
  from b [unfolded if_not_P [OF x] response_body_Inr] x p show ?thesis
    by (auto simp: read_request_id_Inr decode_object_Inr opt_doc_def split: if_splits)
qed

section \<open>Who reaches the handler\<close>

text \<open>
  C25. Only an allowed peer reaches the handler. A connection whose credentials could not be read,
  or whose user and group are on neither list, is answered with a refusal that names no request,
  and whatever it sends, nothing is decoded and the handler is not run; a peer is allowed exactly
  when its user is listed or its group is, so empty lists allow nobody.
\<close>

theorem only_allowed_peers_are_served:
  fixes h :: "'w handler"
  shows "(fst (authorize V p) \<longleftrightarrow> pe_uid p \<in> set (lv_allowed_uids V) \<or> pe_gid p \<in> set (lv_allowed_gids V)) \<and>
    (fst (authorize V p) \<or> (\<exists>message detail. \<forall>(h :: 'w handler) s w. serve_connection J V h (Some p) s w =
       (turned_away J (lv_codec V) message detail, w))) \<and>
    (\<forall>s w. serve_connection J V h None s w =
       (turned_away J (lv_codec V) ''peer credentials could not be read'' [], w)) \<and>
    authorize (V\<lparr>lv_allowed_uids := [], lv_allowed_gids := []\<rparr>) p = (False, ''no_peer_is_allowed'')"
proof (intro conjI)
  show "fst (authorize V p) \<longleftrightarrow> pe_uid p \<in> set (lv_allowed_uids V) \<or> pe_gid p \<in> set (lv_allowed_gids V)"
    by (auto simp: authorize_def)
  obtain ok reason where a: "authorize V p = (ok, reason)" by (cases "authorize V p")
  show "fst (authorize V p) \<or> (\<exists>message detail. \<forall>(h :: 'w handler) s w. serve_connection J V h (Some p) s w =
       (turned_away J (lv_codec V) message detail, w))"
    by (cases ok) (auto simp: a serve_connection_def)
qed (simp_all add: serve_connection_def authorize_def)

section \<open>A call over a socket that may fail\<close>

text \<open>
  What may become of one connection: it is not made; some of the frame, but not all of it, arrives;
  all of it arrives and the client gets an exception instead of the answer; or the client reads
  some of the answer, or all of it, before the end.
\<close>

datatype fate =
  Unconnected socket_exn | Cut nat socket_exn | Unheard socket_exn | Heard nat

definition socket_to ::
  "fate \<Rightarrow> (string \<Rightarrow> 'w \<Rightarrow> string \<times> 'w) \<Rightarrow> string \<Rightarrow> 'w \<Rightarrow> exchange \<times> 'w" where
  "socket_to fate server out w =
     (case fate of
        Unconnected x \<Rightarrow> (Not_Through x, w)
      | Cut n x \<Rightarrow> (Not_Through x, snd (server (take (min n (length out - 1)) out) w))
      | Unheard x \<Rightarrow> (No_Answer x, snd (server out w))
      | Heard n \<Rightarrow> (Readable (take n (fst (server out w))), snd (server out w)))"

text \<open>Reading from a socket does not report a missing file.\<close>

definition possible :: "fate \<Rightarrow> bool" where
  "possible fate \<longleftrightarrow> fate \<noteq> Unheard File_Not_Found"

text \<open>The abstract call: a delivery, and of a failure only whether the request had left.\<close>

definition deliver ::
  "delivery \<Rightarrow> ('w \<Rightarrow> (helper_exn + facts) \<times> 'w) \<Rightarrow> 'w \<Rightarrow> (bool + facts) \<times> 'w" where
  "deliver dl h w =
     (case dl of
        Not_Sent _ \<Rightarrow> (Inl False, w)
      | Sent_Unread _ \<Rightarrow> (Inl True, w)
      | Answer_Lost _ \<Rightarrow> (Inl True, snd (h w))
      | Answered \<Rightarrow> (case h w of (Inr d, w') \<Rightarrow> (Inr d, w') | (Inl _, w') \<Rightarrow> (Inl True, w')))"

definition news :: "call_exn + facts \<Rightarrow> (bool + facts) option" where
  "news r = (case r of
     Inr d \<Rightarrow> Some (Inr d)
   | Inl (Call_Failed e) \<Rightarrow> Some (Inl (ce_dispatched e))
   | Inl (Call_Raised _) \<Rightarrow> None)"

lemma news_simps [simp]:
  "news (Inr r) = Some (Inr r)" "news (failed c m d b) = Some (Inl b)"
  "news (line_failed (Protocol_Exn c n fs) b) = Some (Inl b)"
  by (simp_all add: news_def failed_def line_failed_def)

lemma news_socket_failed [simp]: "news (socket_failed H method x b) = Some (Inl (b \<and> x \<noteq> File_Not_Found))"
  by (cases x) (simp_all add: socket_failed_def Let_def)

lemma take_line: "n < length (body @ [newline]) \<Longrightarrow> take n (body @ [newline]) = take n body"
  by simp

lemma open_answer:
  assumes "newline \<notin> set s"
  shows "news (read_answer J C H method i s) = Some (Inl True)"
  using read_open [OF assms, of C] by (auto simp: read_answer_def)

lemma serve_open:
  assumes "newline \<notin> set s"
  shows "snd (serve J C h s w) = w"
  using read_open [OF assms, of C] by (subst serve.simps) auto

lemma serve_connection_open:
  assumes "newline \<notin> set s"
  shows "snd (serve_connection J V h p s w) = w"
  using serve_open [OF assms] by (auto simp: serve_connection_def split: option.splits prod.splits bool.splits)

text \<open>Reading a failure, or a result, some of which may be missing.\<close>

lemma framed_answer:
  assumes "json_ok J" "jn_dumps J (PDict payload) = Inr body" "length body + 1 \<le> cd_max_message_bytes C"
  shows "n < length (body @ [newline]) \<Longrightarrow>
      news (read_answer J C H method i (take n (body @ [newline]))) = Some (Inl True)"
    and "length (body @ [newline]) \<le> n \<Longrightarrow>
      read_message C (take n (body @ [newline])) = Inr (Some body)"
    and "decode_object J C body = Inr payload"
proof -
  have n: "newline \<notin> set body" using json_okD [OF assms(1,2)] by blast
  show "news (read_answer J C H method i (take n (body @ [newline]))) = Some (Inl True)"
    if "n < length (body @ [newline])"
  proof -
    have "newline \<notin> set (take n body)" using n by (blast dest: in_set_takeD)
    from open_answer [OF this] that show ?thesis by simp
  qed
  show "read_message C (take n (body @ [newline])) = Inr (Some body)" if "length (body @ [newline]) \<le> n"
    using read_line [OF n assms(3), of "[]"] that by simp
  show "decode_object J C body = Inr payload" by (rule decode_framed [OF assms])
qed

lemma failure_answer:
  assumes "json_ok J" "well_keyed C" "j \<noteq> []" "codec_failure J C j code message detail = Inr out"
  shows "news (read_answer J C H method i (take n out)) = Some (Inl True)"
proof -
  let ?d = "failure_payload C j code message detail"
  from assms(4) obtain body where b: "out = body @ [newline]" "jn_dumps J (PDict ?d) = Inr body"
    "length body + 1 \<le> cd_max_message_bytes C"
    by (auto simp: codec_failure_def frame_Inr)
  note f = framed_answer [OF assms(1) b(2,3)]
  have k: "only_keys ?d [cd_envelope_key C, ''request_id'', ''ok'', ''result'', ''error''] ''response'' = Inr ()"
    by (simp add: only_keys_Inr failure_payload_def)
  have g: "read_request_id ?d = Inr j"
    using assms(2,3) by (simp add: read_request_id_Inr failure_payload_def)
  have d: "decode_response J C body = Inr (j, False, None,
      Some [(''code'', PStr code), (''message'', PStr message), (''detail'', PDict detail)])"
    using assms(2,3) f(3) k g
    by (simp add: decode_response_def failure_payload_def require_version_def has_key_def)
  show ?thesis
  proof (cases "n < length out")
    case True
    with f(1) b(1) show ?thesis by simp
  next
    case False
    with f(2) [of n] b(1) d show ?thesis
      by (simp add: read_answer_def answered_error_def)
  qed
qed

lemma ok_answer:
  assumes "json_ok J" "well_keyed C" "i \<noteq> []" "codec_ok J C i result = Inr out"
  shows "news (read_answer J C H method i (take n out)) \<in> {Some (Inl True), Some (Inr result)}"
proof -
  let ?d = "ok_payload C i result"
  from assms(4) obtain body where b: "out = body @ [newline]" "jn_dumps J (PDict ?d) = Inr body"
    "length body + 1 \<le> cd_max_message_bytes C"
    by (auto simp: codec_ok_def frame_Inr)
  note f = framed_answer [OF assms(1) b(2,3)]
  have k: "only_keys ?d [cd_envelope_key C, ''request_id'', ''ok'', ''result'', ''error''] ''response'' = Inr ()"
    by (simp add: only_keys_Inr ok_payload_def)
  have g: "read_request_id ?d = Inr i"
    using assms(2,3) by (simp add: read_request_id_Inr ok_payload_def)
  have d: "decode_response J C body = Inr (i, True, Some result, None)"
    using assms(2,3) f(3) k g
    by (simp add: decode_response_def ok_payload_def require_version_def has_key_def)
  show ?thesis
  proof (cases "n < length out")
    case True
    with f(1) b(1) show ?thesis by simp
  next
    case False
    with f(2) [of n] b(1) d show ?thesis by (simp add: read_answer_def)
  qed
qed

lemma serve_Nil [simp]: "serve J C h [] w = ([], w)"
  by (subst serve.simps) (simp add: read_message_def readline_def Let_def)

lemma serve_one:
  assumes "newline \<notin> set body" "length body + 1 \<le> cd_max_message_bytes C"
  shows "serve J C h (body @ [newline]) w =
    (case respond J C h body w of (Inl _, w') \<Rightarrow> ([], w') | (Inr out, w') \<Rightarrow> (out, w'))"
  using read_line [OF assms, of "[]"]
  by (subst serve.simps) (auto simp: split: prod.split sum.split)

text \<open>What the client can make of any part of what the server wrote.\<close>

definition lost_answer :: "json_env \<Rightarrow> codec \<Rightarrow> channel \<Rightarrow> string \<Rightarrow> string \<Rightarrow> string \<Rightarrow> bool" where
  "lost_answer J C H method i s \<longleftrightarrow>
     (\<forall>n. news (read_answer J C H method i (take n s)) = Some (Inl True))"

lemma lost_Nil [simp]: "lost_answer J C H method i []"
  by (simp add: lost_answer_def open_answer)

lemma lost_failure:
  assumes "json_ok J" "well_keyed C" "j \<noteq> []"
  shows "lost_answer J C H method i
    (case codec_failure J C j code message detail of Inl _ \<Rightarrow> [] | Inr out \<Rightarrow> out)"
proof (cases "codec_failure J C j code message detail")
  case (Inr out)
  with failure_answer [OF assms Inr] show ?thesis by (simp add: lost_answer_def)
qed (simp add: lost_Nil)

lemma lost_frame:
  assumes "json_ok J" "well_keyed C" "j \<noteq> []" "codec_failure J C j code message detail = Inr out"
  shows "lost_answer J C H method i out"
  using lost_failure [OF assms(1-3), where H = H and code = code and message = message and detail = detail] assms(4) by simp

lemma uncorrelated_nonempty: "UNCORRELATED_REQUEST_ID \<noteq> []"
  by (simp add: UNCORRELATED_REQUEST_ID_def)

lemma respond_served:
  fixes h :: "'w handler"
  assumes "json_ok J" "well_keyed C" "i \<noteq> []" "m \<in> set (cd_methods C)"
    and "jn_dumps J (PDict (request_payload C i m params)) = Inr body"
    and "length body + 1 \<le> cd_max_message_bytes C"
    and "serve J C h (body @ [newline]) w = (s, w')"
  shows "w' = w \<and> lost_answer J C H m i s \<or>
    w' = snd (h m (case params of None \<Rightarrow> [] | Some q \<Rightarrow> q) w) \<and>
    (\<forall>n. news (read_answer J C H m i (take n s)) = Some (Inl True) \<or>
       (\<exists>d. fst (h m (case params of None \<Rightarrow> [] | Some q \<Rightarrow> q) w) = Inr d \<and>
          news (read_answer J C H m i (take n s)) = Some (Inr d)))"
proof -
  let ?q = "case params of None \<Rightarrow> [] | Some q \<Rightarrow> q"
  have n: "newline \<notin> set body" using json_okD [OF assms(1,5)] by blast
  note d = decode_own_request [OF assms(1-6)]
  note s = assms(7) [unfolded serve_one [OF n assms(6)]]
  note lost = lost_frame [OF assms(1,2) uncorrelated_nonempty]
  show ?thesis
  proof (cases "check_params C m ?q")
    case (Inl e)
    have "w' = w \<and> lost_answer J C H m i s"
    proof (cases e)
      case (Protocol_Exn c t f)
      then have "respond J C h body w = (codec_failure J C UNCORRELATED_REQUEST_ID c t f, w)"
        using d Inl by (simp add: respond_def)
      with s lost show ?thesis by (auto split: sum.splits)
    next
      case (Py_Exn x)
      then have "respond J C h body w = (Inl (Py_Exn x), w)" using d Inl by (simp add: respond_def)
      with s show ?thesis by auto
    qed
    then show ?thesis ..
  next
    case (Inr u)
    then have dec: "decode_request J C body = Inr (i, m, ?q)" using d by simp
    obtain r v where h: "h m ?q w = (r, v)" by (cases "h m ?q w") auto
    have "w' = v \<and> (lost_answer J C H m i s \<or> (\<exists>d. r = Inr d \<and> codec_ok J C i d = Inr s))"
    proof (cases r)
      case (Inl e)
      then show ?thesis
        using s dec h lost_frame [OF assms(1-3)]
        by (cases e) (auto simp: respond_def split: sum.splits)
    next
      case (Inr d)
      show ?thesis
      proof (cases "codec_ok J C i d")
        case (Inl e)
        with s dec h \<open>r = Inr d\<close> lost_frame [OF assms(1-3)] show ?thesis
          by (cases e) (auto simp: respond_def split: sum.splits)
      next
        case (Inr out)
        with s dec h \<open>r = Inr d\<close> show ?thesis by (auto simp: respond_def)
      qed
    qed
    then show ?thesis using h ok_answer [OF assms(1-3)] by (fastforce simp: lost_answer_def)
  qed
qed

lemma connection_served:
  fixes h :: "'w handler"
  assumes "json_ok J" "well_keyed C" "i \<noteq> []" "m \<in> set (cd_methods C)" "lv_codec V = C"
    and "jn_dumps J (PDict (request_payload C i m params)) = Inr body"
    and "length body + 1 \<le> cd_max_message_bytes C"
    and "serve_connection J V h p (body @ [newline]) w = (s, w')"
  shows "w' = w \<and> lost_answer J C H m i s \<or>
    w' = snd (h m (case params of None \<Rightarrow> [] | Some q \<Rightarrow> q) w) \<and>
    (\<forall>n. news (read_answer J C H m i (take n s)) = Some (Inl True) \<or>
       (\<exists>d. fst (h m (case params of None \<Rightarrow> [] | Some q \<Rightarrow> q) w) = Inr d \<and>
          news (read_answer J C H m i (take n s)) = Some (Inr d)))"
proof -
  have away: "lost_answer J C H m i (turned_away J C message detail)" for message detail
    unfolding turned_away_def by (rule lost_failure [OF assms(1,2) uncorrelated_nonempty])
  show ?thesis
  proof (cases p)
    case None
    with assms(5,8) away show ?thesis by (auto simp: serve_connection_def)
  next
    case (Some p')
    obtain ok reason where a: "authorize V p' = (ok, reason)" by (cases "authorize V p'")
    show ?thesis
    proof (cases ok)
      case True
      with assms(5,8) Some a have "serve J C h (body @ [newline]) w = (s, w')"
        by (simp add: serve_connection_def)
      from respond_served [OF assms(1-4,6,7) this] show ?thesis .
    next
      case False
      with assms(5,8) Some a away show ?thesis by (auto simp: serve_connection_def)
    qed
  qed
qed

text \<open>
  C17. A call over the socket is a delivery. Whatever becomes of the connection, and whoever the
  peer is, a client's call either raises before anything is sent, because its parameters cannot be
  encoded, or it is one of the four deliveries: not sent, and then the server did nothing and the
  call says it had not left; sent and never served; served, the answer lost, and then the call says
  it had left; or answered, with the very result the handler returned. So an error that says the
  request had not left is a proof that nothing was done, a result is only ever the handler's own,
  and in no case is the handler run twice.
\<close>

theorem call_is_a_delivery:
  assumes "json_ok J" "well_keyed C" "request_id \<noteq> []" "lv_codec V = C" "possible fate"
    and "ipc_call J C H (socket_to fate (serve_connection J V h p)) request_id method params w = (r, w')"
  shows "(\<exists>e. r = Inl (Call_Raised e) \<and> w' = w \<and>
      jn_dumps J (PDict (request_payload C request_id method params)) = Inl e) \<or>
    (\<exists>dl x. news r = Some x \<and>
       deliver dl (h method (case params of None \<Rightarrow> [] | Some q \<Rightarrow> q)) w = (x, w'))"
proof (cases "codec_request J C request_id method params")
  case (Inl e)
  show ?thesis
  proof (cases e)
    case (Protocol_Exn c t f)
    with Inl assms(6) have "news r = Some (Inl False)" "w' = w" by (auto simp: ipc_call_def)
    then show ?thesis by (intro disjI2 exI [of _ "Not_Sent []"]) (simp add: deliver_def)
  next
    case (Py_Exn x)
    with Inl assms(6) show ?thesis
      by (auto simp: ipc_call_def line_failed_def codec_request_def unsupported_method_def refuse_def
          frame_def too_large_def split: if_splits sum.splits)
  qed
next
  case (Inr out)
  then have m: "method \<in> set (cd_methods C)"
    by (auto simp: codec_request_def unsupported_method_def refuse_def split: if_splits)
  with Inr obtain body where b: "out = body @ [newline]"
    "jn_dumps J (PDict (request_payload C request_id method params)) = Inr body"
    "length body + 1 \<le> cd_max_message_bytes C"
    by (auto simp: codec_request_def frame_Inr)
  obtain s v where s: "serve_connection J V h p (body @ [newline]) w = (s, v)"
    by (cases "serve_connection J V h p (body @ [newline]) w") auto
  let ?h = "h method (case params of None \<Rightarrow> [] | Some q \<Rightarrow> q)"
  note served = connection_served [OF assms(1-3) m assms(4) b(2,3) s, of H]
  have lost: "\<exists>dl. deliver dl ?h w = (Inl True, v)"
  proof (cases "v = w")
    case True then show ?thesis by (intro exI [of _ "Sent_Unread []"]) (simp add: deliver_def)
  next
    case False
    with served have "v = snd (?h w)" by blast
    then show ?thesis by (intro exI [of _ "Answer_Lost []"]) (simp add: deliver_def)
  qed
  show ?thesis
  proof (cases fate)
    case (Unconnected x)
    with Inr assms(6) have "news r = Some (Inl False)" "w' = w"
      by (auto simp: ipc_call_def socket_to_def)
    then show ?thesis by (intro disjI2 exI [of _ "Not_Sent []"]) (simp add: deliver_def)
  next
    case (Cut n x)
    have "newline \<notin> set (take (min n (length body)) body)"
      using json_okD [OF assms(1) b(2)] by (blast dest: in_set_takeD)
    from serve_connection_open [OF this, of J V h p w]
    have "snd (serve_connection J V h p (take (min n (length out - 1)) out) w) = w"
      using b(1) by simp
    with Inr Cut assms(6) have "news r = Some (Inl False)" "w' = w"
      by (auto simp: ipc_call_def socket_to_def)
    then show ?thesis by (intro disjI2 exI [of _ "Not_Sent []"]) (simp add: deliver_def)
  next
    case (Unheard x)
    with Inr assms(5,6) s b(1) have "news r = Some (Inl True)" "w' = v"
      by (auto simp: ipc_call_def socket_to_def possible_def)
    with lost show ?thesis by auto
  next
    case (Heard n)
    with Inr assms(6) s b(1) have r: "r = read_answer J C H method request_id (take n s)" "w' = v"
      by (auto simp: ipc_call_def socket_to_def)
    show ?thesis
    proof (cases "news r = Some (Inl True)")
      case True
      with lost r show ?thesis by auto
    next
      case False
      with served r obtain d where d: "v = snd (?h w)" "fst (?h w) = Inr d" "news r = Some (Inr d)"
        unfolding lost_answer_def by blast
      then have "?h w = (Inr d, v)" by (metis prod.collapse)
      with d r show ?thesis by (intro disjI2 exI [of _ Answered]) (simp add: deliver_def)
    qed
  qed
qed

text \<open>
  The codec turns two errors of decoding into its own; any other exception of \<open>json.loads\<close> (an
  integer of more digits than Python converts, nesting too deep) leaves the client's call as it is,
  not as the channel's error, although the call says it raises only through \<open>fail\<close>; and on the
  server's side it ends the connection without an answer.
\<close>

theorem undecodable_answer_escapes:
  assumes "jn_loads J body = Decoding_Raised e" "newline \<notin> set body"
    and "length body + 1 \<le> cd_max_message_bytes C"
  shows "read_answer J C H method i (body @ newline # s) = Inl (Call_Raised e) \<and>
    serve J C h (body @ newline # s) w = ([], w)"
proof
  have d: "decode_object J C body = Inl (Py_Exn e)"
    using assms(1,3) by (simp add: decode_object_def)
  note r = read_line [OF assms(2,3), of s]
  show "read_answer J C H method i (body @ newline # s) = Inl (Call_Raised e)"
    using r d by (simp add: read_answer_def decode_response_def line_failed_def)
  have "respond J C h body w = (Inl (Py_Exn e), w)"
    using d by (simp add: respond_def decode_request_def)
  with r show "serve J C h (body @ newline # s) w = ([], w)"
    by (subst serve.simps) simp
qed

end
