(* ===== verification/Agent_Service.thy ===== *)
theory Agent_Service
  imports Host_Guard Executors Ipc_Properties
begin

text \<open>
  The two channels (\<open>src/localplane/protocol/wire.py\<close>, \<open>src/localplane/helper/protocol.py\<close>), the
  helper's dispatch (\<open>helper/service.py\<close>) and its client (\<open>helper/client.py\<close>), and the agent's
  handlers that can change the host (\<open>src/localplane/agent/service.py\<close>), each as it is served over
  the socket. What the agent's handlers stand on is a record: the write through the helper, the
  guard registry's operations, the lifecycle calls of the Docker and systemd providers, and the
  handlers that only read.
\<close>

section \<open>The channels\<close>

definition AGENT_METHODS :: "string list" where
  "AGENT_METHODS = [''agent.hello'', ''host.identify'', ''capabilities.list'',
     ''storage.observe_filesystems'', ''network.observe_interfaces'', ''network.observe_providers'',
     ''network.observe_route'', METHOD_SET_MTU, METHOD_ARM_GUARD, METHOD_DISARM_GUARD,
     METHOD_GUARD_STATUS, ''docker.observe_containers'', ''docker.container_logs'',
     ''docker.container_stats'', METHOD_CONTAINER, ''systemd.observe_units'', ''systemd.observe_unit'',
     ''systemd.unit_journal'', ''systemd.resolve_agent_unit'', ''systemd.observe_lifecycle_context'',
     METHOD_SERVICE]"

definition MUTATING_METHODS :: "string list" where
  "MUTATING_METHODS = [METHOD_SET_MTU, METHOD_ARM_GUARD, METHOD_CONTAINER, METHOD_SERVICE]"

definition AGENT_CODEC :: codec where
  "AGENT_CODEC = \<lparr>cd_envelope_key = ''localplane_protocol'', cd_version = ''1'',
     cd_max_message_bytes = 16 * 1024 * 1024, cd_methods = AGENT_METHODS, cd_params = None\<rparr>"

definition HELPER_HELLO :: string where "HELPER_HELLO = ''helper.hello''"
definition HELPER_SET_MTU :: string where "HELPER_SET_MTU = ''network.interface.set_mtu''"

definition HELPER_PARAMS :: "(string \<times> string list) list" where
  "HELPER_PARAMS = [(HELPER_HELLO, []), (HELPER_SET_MTU, [''attempt_id'', ''ifindex'',
     ''expected_current_mtu'', ''desired_mtu'', ''expected_interface_name''])]"

definition HELPER_CODEC :: codec where
  "HELPER_CODEC = \<lparr>cd_envelope_key = ''localplane_helper'', cd_version = ''1'',
     cd_max_message_bytes = 64 * 1024, cd_methods = [HELPER_HELLO, HELPER_SET_MTU],
     cd_params = Some HELPER_PARAMS\<rparr>"

section \<open>The helper and its client\<close>

definition helper_handle ::
  "json_env \<Rightarrow> 'h link_env \<Rightarrow> facts \<Rightarrow> (helper_state \<times> 'h) handler" where
  "helper_handle J K hello method params st =
     (if method = HELPER_HELLO then (Inr hello, st)
      else if method = HELPER_SET_MTU then service_set_mtu K params st
      else (refuse UNSUPPORTED_METHOD (''unsupported helper method: '' @ jn_repr J (PStr method))
              [(''method'', PStr method), (''supported'', texts_of (sort [HELPER_HELLO, HELPER_SET_MTU]))], st))"

text \<open>The typed outcome the agent states of a write whose call failed.\<close>

definition failed_write :: "string \<Rightarrow> mtu_request \<Rightarrow> call_error \<Rightarrow> facts" where
  "failed_write sock q e =
     [(''outcome'', PStr (mo_str (if ce_dispatched e then MO_Write_Unknown else MO_Not_Written))),
      (''reason'', PStr (ce_code e)), (''attempt_id'', PStr (mq_attempt_id q)),
      (''ifindex'', PInt (mq_ifindex q)), (''expected_current_mtu'', PInt (mq_expected q)),
      (''desired_mtu'', PInt (mq_desired q)), (''provider'', PNone), (''provider_version'', PNone),
      (''method'', PStr METHOD_SET_MTU), (''observed_name'', PNone), (''observed_mtu'', PNone),
      (''kernel_errno'', PNone), (''kernel_error'', PNone),
      (''detail'', PDict [(''helper_error'', PDict (ce_as_dict e)), (''helper_socket'', PStr sock),
         (''dispatched'', PBool (ce_dispatched e))])]"

definition write_through_helper ::
  "json_env \<Rightarrow> channel \<Rightarrow> (string \<Rightarrow> 'w \<Rightarrow> exchange \<times> 'w) \<Rightarrow> string \<Rightarrow>
   mtu_request \<Rightarrow> 'w \<Rightarrow> (helper_exn + facts) \<times> 'w" where
  "write_through_helper J H transport request_id q w =
     (case ipc_call J HELPER_CODEC H transport request_id HELPER_SET_MTU (Some (client_params q)) w of
        (Inr d, w') \<Rightarrow> (Inr d, w')
      | (Inl (Call_Failed e), w') \<Rightarrow> (Inr (failed_write (ch_socket H) q e), w')
      | (Inl (Call_Raised x), w') \<Rightarrow> (Inl (Py_Exn x), w'))"

section \<open>The agent's handlers\<close>

datatype capability_status = CS_Available | CS_Degraded | CS_Unavailable

fun cs_str :: "capability_status \<Rightarrow> string" where
  "cs_str CS_Available = ''available''" | "cs_str CS_Degraded = ''degraded''"
| "cs_str CS_Unavailable = ''unavailable''"

record discovered_capability =
  dc_capability :: string
  dc_status :: capability_status
  dc_reason :: "string option"
  dc_detail :: facts

record 'w agent_services =
  as_instance_id :: string
  as_capabilities :: "'w \<Rightarrow> discovered_capability list"
  as_identity :: "'w \<Rightarrow> helper_exn + string"
  as_set_interface_mtu :: "mtu_request \<Rightarrow> 'w \<Rightarrow> (helper_exn + facts) \<times> 'w"
  as_guard_arm :: "arming \<Rightarrow> 'w \<Rightarrow> (guard_refusal + facts) \<times> 'w"
  as_guard_disarm :: "string \<Rightarrow> 'w \<Rightarrow> facts \<times> 'w"
  as_guard_status :: "string \<Rightarrow> 'w \<Rightarrow> facts"
  as_docker_lifecycle :: "string \<Rightarrow> string \<Rightarrow> 'w \<Rightarrow> (helper_exn + facts) \<times> 'w"
  as_systemd_lifecycle :: "string \<Rightarrow> string \<Rightarrow> 'w \<Rightarrow> (helper_exn + facts) \<times> 'w"
  as_manager_version :: "'w \<Rightarrow> pyval"
  as_unit_name :: "string \<Rightarrow> helper_exn + unit"
  as_read :: "string \<Rightarrow> facts \<Rightarrow> 'w \<Rightarrow> (helper_exn + facts) \<times> 'w"

definition reject_unknown_params :: "facts \<Rightarrow> string list \<Rightarrow> string \<Rightarrow> helper_exn + unit" where
  "reject_unknown_params params allowed method =
     (let unknown = unknown_keys params allowed in
      if unknown \<noteq> []
      then refuse UNKNOWN_FIELD (''unknown parameter(s) for '' @ method @ '': '' @ comma_joined unknown)
             [(''method'', PStr method), (''unknown'', texts_of unknown),
              (''allowed'', texts_of (sort (remdups allowed)))]
      else Inr ())"

definition require_str :: "pyval \<Rightarrow> string \<Rightarrow> helper_exn + string" where
  "require_str v name =
     (case named v of
        None \<Rightarrow> refuse INVALID_PARAMS (name @ '' must be a non-empty string'') []
      | Some s \<Rightarrow> Inr s)"

definition require_number :: "pyval \<Rightarrow> string \<Rightarrow> helper_exn + int" where
  "require_number v name =
     (case v of PInt i \<Rightarrow> Inr i | _ \<Rightarrow> refuse INVALID_PARAMS (name @ '' must be an integer'') [])"

definition require_link_name :: "pyval \<Rightarrow> helper_exn + string option" where
  "require_link_name v =
     (case v of PNone \<Rightarrow> Inr None | PStr s \<Rightarrow> Inr (Some s)
      | _ \<Rightarrow> refuse INVALID_PARAMS ''expected_interface_name must be a string'' [])"

definition require_capability :: "discovered_capability list \<Rightarrow> string \<Rightarrow> helper_exn + unit" where
  "require_capability cs capability =
     (let unusable = (\<lambda>status reason detail.
        refuse ''capability_unavailable'' (''capability '' @ capability @ '' is not available on this host'')
          [(''capability'', PStr capability), (''status'', PStr status), (''reason'', reason),
           (''detail'', PDict detail)]) in
      case find (\<lambda>c. dc_capability c = capability) cs of
        None \<Rightarrow> unusable ''absent'' PNone []
      | Some c \<Rightarrow>
         if dc_status c = CS_Unavailable
         then unusable (cs_str (dc_status c)) (opt_text (dc_reason c)) (dc_detail c) else Inr ())"

text \<open>What a handler answers, around the part that is its own.\<close>

definition answer_with :: "'w agent_services \<Rightarrow> string \<Rightarrow> string \<Rightarrow> facts \<Rightarrow> facts" where
  "answer_with A host key doc = [(''agent_instance_id'', PStr (as_instance_id A)),
     (''host_id'', PStr host), (key, PDict doc)]"

definition checked ::
  "helper_exn + 'a \<Rightarrow> ('a \<Rightarrow> 'w \<Rightarrow> (helper_exn + 'b) \<times> 'w) \<Rightarrow> 'w \<Rightarrow> (helper_exn + 'b) \<times> 'w" where
  "checked r f w = (case r of Inl e \<Rightarrow> (Inl e, w) | Inr x \<Rightarrow> f x w)"

definition mtu_params :: "facts \<Rightarrow> helper_exn + mtu_request" where
  "mtu_params params =
     bindE (require_str (get params ''attempt_id'') ''attempt_id'') (\<lambda>a.
     bindE (require_number (get params ''ifindex'') ''ifindex'') (\<lambda>i.
     bindE (require_number (get params ''expected_current_mtu'') ''expected_current_mtu'') (\<lambda>e.
     bindE (require_number (get params ''desired_mtu'') ''desired_mtu'') (\<lambda>d.
     bindE (require_link_name (get params ''expected_interface_name'')) (\<lambda>n.
     Inr \<lparr>mq_attempt_id = a, mq_ifindex = i, mq_expected = e, mq_desired = d, mq_name = n\<rparr>)))))"

definition MTU_PARAMS :: "string list" where
  "MTU_PARAMS = [''attempt_id'', ''ifindex'', ''expected_current_mtu'', ''desired_mtu'',
     ''expected_interface_name'']"

text \<open>The identity is read before the write.\<close>

definition network_set_interface_mtu :: "'w agent_services \<Rightarrow> facts \<Rightarrow> 'w \<Rightarrow> (helper_exn + facts) \<times> 'w" where
  "network_set_interface_mtu A params w =
     checked
       (bindE (reject_unknown_params params MTU_PARAMS METHOD_SET_MTU) (\<lambda>_.
        bindE (require_capability (as_capabilities A w) CAPABILITY_SET_MTU) (\<lambda>_.
        bindE (mtu_params params) (\<lambda>q.
        bindE (as_identity A w) (\<lambda>host. Inr (q, host))))))
       (\<lambda>(q, host) w. case as_set_interface_mtu A q w of
            (Inl e, w') \<Rightarrow> (Inl e, w')
          | (Inr d, w') \<Rightarrow> (Inr (answer_with A host ''mutation'' d), w')) w"

definition GUARD_PARAMS :: "string list" where
  "GUARD_PARAMS = [''guard_id'', ''attempt_id'', ''ifindex'', ''expected_interface_name'',
     ''guarded_mtu'', ''restore_mtu'', ''window_s'']"

text \<open>The identity is read after a guard is armed, and before one is released.\<close>

definition network_arm_mtu_guard :: "'w agent_services \<Rightarrow> facts \<Rightarrow> 'w \<Rightarrow> (helper_exn + facts) \<times> 'w" where
  "network_arm_mtu_guard A params w =
     checked
       (bindE (reject_unknown_params params GUARD_PARAMS METHOD_ARM_GUARD) (\<lambda>_.
        bindE (require_capability (as_capabilities A w) CAPABILITY_MTU_GUARD) (\<lambda>_.
        bindE (require_link_name (get params ''expected_interface_name'')) (\<lambda>n.
        bindE (require_str (get params ''guard_id'') ''guard_id'') (\<lambda>g.
        bindE (require_str (get params ''attempt_id'') ''attempt_id'') (\<lambda>a.
        bindE (require_number (get params ''ifindex'') ''ifindex'') (\<lambda>i.
        bindE (require_number (get params ''guarded_mtu'') ''guarded_mtu'') (\<lambda>u.
        bindE (require_number (get params ''restore_mtu'') ''restore_mtu'') (\<lambda>v.
        bindE (require_number (get params ''window_s'') ''window_s'') (\<lambda>s.
        Inr \<lparr>am_guard_id = g, am_attempt_id = a, am_ifindex = i, am_name = n, am_guarded_mtu = u,
             am_restore_mtu = v, am_window_s = s\<rparr>))))))))))
       (\<lambda>arming w. case as_guard_arm A arming w of
            (Inl (Guard_Refusal code detail), w') \<Rightarrow> (refuse INVALID_PARAMS code detail, w')
          | (Inr d, w') \<Rightarrow>
              (bindE (as_identity A w') (\<lambda>host. Inr (answer_with A host ''guard'' d)), w')) w"

definition guard_id_param :: "facts \<Rightarrow> string \<Rightarrow> helper_exn + string" where
  "guard_id_param params method =
     bindE (reject_unknown_params params [''guard_id''] method) (\<lambda>_.
       require_str (get params ''guard_id'') ''guard_id'')"

definition network_disarm_mtu_guard :: "'w agent_services \<Rightarrow> facts \<Rightarrow> 'w \<Rightarrow> (helper_exn + facts) \<times> 'w" where
  "network_disarm_mtu_guard A params w =
     checked (bindE (guard_id_param params METHOD_DISARM_GUARD) (\<lambda>g.
         bindE (as_identity A w) (\<lambda>host. Inr (g, host))))
       (\<lambda>(g, host) w. case as_guard_disarm A g w of (d, w') \<Rightarrow>
          (Inr (answer_with A host ''guard'' d), w')) w"

definition network_mtu_guard_status :: "'w agent_services \<Rightarrow> facts \<Rightarrow> 'w \<Rightarrow> (helper_exn + facts) \<times> 'w" where
  "network_mtu_guard_status A params w =
     checked (bindE (guard_id_param params METHOD_GUARD_STATUS) (\<lambda>g.
         bindE (as_identity A w) (\<lambda>host. Inr (g, host))))
       (\<lambda>(g, host) w. (Inr (answer_with A host ''guard'' (as_guard_status A g w)), w)) w"

definition LIFECYCLE_ACTIONS :: "string list" where
  "LIFECYCLE_ACTIONS = [''start'', ''stop'', ''restart'']"

definition require_action :: "json_env \<Rightarrow> pyval \<Rightarrow> helper_exn + string" where
  "require_action J v =
     bindE (require_str v ''action'') (\<lambda>a.
       if a \<notin> set LIFECYCLE_ACTIONS
       then refuse INVALID_PARAMS (''unsupported lifecycle action: '' @ jn_repr J (PStr a))
              [(''action'', PStr a), (''supported'', texts_of LIFECYCLE_ACTIONS)]
       else Inr a)"

definition updated :: "facts \<Rightarrow> facts \<Rightarrow> facts" where
  "updated d kvs = fold (\<lambda>(k, v) e. dict_set k v e) kvs d"

definition docker_engine_version :: "discovered_capability list \<Rightarrow> pyval" where
  "docker_engine_version cs =
     (case find (\<lambda>c. dc_capability c = CAPABILITY_DOCKER_CONTAINER_LIFECYCLE) cs of
        None \<Rightarrow> PNone
      | Some c \<Rightarrow> opt_text (text_or_none (get (dc_detail c) ''engine_version'')))"

text \<open>The daemon, and the system manager, are asked first; the identity is read after.\<close>

definition docker_container_lifecycle ::
  "json_env \<Rightarrow> 'w agent_services \<Rightarrow> facts \<Rightarrow> 'w \<Rightarrow> (helper_exn + facts) \<times> 'w" where
  "docker_container_lifecycle J A params w =
     checked
       (bindE (reject_unknown_params params [''attempt_id'', ''container_id'', ''action''] METHOD_CONTAINER) (\<lambda>_.
        bindE (require_capability (as_capabilities A w) CAPABILITY_DOCKER_CONTAINER_LIFECYCLE) (\<lambda>_.
        bindE (require_str (get params ''attempt_id'') ''attempt_id'') (\<lambda>t.
        bindE (require_str (get params ''container_id'') ''container_id'') (\<lambda>c.
        bindE (require_action J (get params ''action'')) (\<lambda>a. Inr (t, c, a)))))))
       (\<lambda>(t, c, a) w. case as_docker_lifecycle A c a w of (r, w') \<Rightarrow>
          (bindE r (\<lambda>d. bindE (as_identity A w') (\<lambda>host. Inr (answer_with A host ''mutation''
             (updated d [(''attempt_id'', PStr t),
                (''provider_version'', docker_engine_version (as_capabilities A w'))])))), w')) w"

definition systemd_service_lifecycle ::
  "json_env \<Rightarrow> 'w agent_services \<Rightarrow> facts \<Rightarrow> 'w \<Rightarrow> (helper_exn + facts) \<times> 'w" where
  "systemd_service_lifecycle J A params w =
     checked
       (bindE (reject_unknown_params params [''attempt_id'', ''unit_id'', ''action''] METHOD_SERVICE) (\<lambda>_.
        bindE (require_capability (as_capabilities A w) SYSTEMD_SERVICE_LIFECYCLE) (\<lambda>_.
        bindE (require_str (get params ''attempt_id'') ''attempt_id'') (\<lambda>t.
        bindE (require_str (get params ''unit_id'') ''unit_id'') (\<lambda>u.
        bindE (require_action J (get params ''action'')) (\<lambda>a.
        bindE (as_unit_name A u) (\<lambda>_. Inr (t, u, a))))))))
       (\<lambda>(t, u, a) w. case as_systemd_lifecycle A u a w of (r, w') \<Rightarrow>
          (bindE r (\<lambda>d. bindE (as_identity A w') (\<lambda>host. Inr (answer_with A host ''mutation''
             (updated d [(''attempt_id'', PStr t), (''provider'', PStr PROVIDER_SYSTEMD),
                (''provider_version'', as_manager_version A w')])))), w')) w"

definition agent_handle :: "json_env \<Rightarrow> 'w agent_services \<Rightarrow> 'w handler" where
  "agent_handle J A method params =
     (if method = METHOD_SET_MTU then network_set_interface_mtu A params
      else if method = METHOD_ARM_GUARD then network_arm_mtu_guard A params
      else if method = METHOD_DISARM_GUARD then network_disarm_mtu_guard A params
      else if method = METHOD_GUARD_STATUS then network_mtu_guard_status A params
      else if method = METHOD_CONTAINER then docker_container_lifecycle J A params
      else if method = METHOD_SERVICE then systemd_service_lifecycle J A params
      else if method \<in> set AGENT_METHODS then as_read A method params
      else (\<lambda>w. (refuse UNSUPPORTED_METHOD (''unsupported method: '' @ jn_repr J (PStr method))
              [(''method'', PStr method), (''supported'', texts_of (sort AGENT_METHODS))], w)))"

end
