(* ===== verification/Executor_Properties.thy ===== *)
theory Executor_Properties
  imports Executors Change_Engine
begin

text \<open>
  What the executors of \<open>Executors\<close> promise the change engine: one call and an honest report of it,
  the object the records name, a proof that is evidence, and a reading that is of the very sweep
  that was asked for.
\<close>

section \<open>Reading answers\<close>

lemma outcome_of_iff [simp]: "outcome_of v = Some w \<longleftrightarrow> v = PStr (mo_str w)"
  by (cases w) (auto simp: outcome_of_def)

lemma outcome_of_stated [simp]: "outcome_of (PStr (mo_str w)) = Some w"
  by simp

lemma part_Inr: "part answer k = Inr m \<longleftrightarrow>
    get answer k = PDict m \<or> \<not> truthy (get answer k) \<and> m = []"
  by (cases "get answer k") (auto simp: part_def or_val_def)

lemma part_Inl: "(\<exists>e. part answer k = Inl e) \<longleftrightarrow>
    truthy (get answer k) \<and> \<not> (\<exists>m. get answer k = PDict m)"
  by (cases "get answer k") (auto simp: part_def or_val_def)

definition stated :: "facts \<Rightarrow> mutation_outcome" where
  "stated m = (case outcome_of (get m ''outcome'') of None \<Rightarrow> MO_Write_Unknown | Some w \<Rightarrow> w)"

text \<open>What a report says of the call it reports.\<close>

definition reports :: "string \<Rightarrow> call_exn + facts \<Rightarrow> mutation_report \<Rightarrow> bool" where
  "reports attempt r rep \<longleftrightarrow> rep_attempt_id rep = attempt \<and>
     (case r of
        Inl (Call_Failed e) \<Rightarrow> rep_outcome rep = (if ce_dispatched e then MO_Write_Unknown else MO_Not_Written)
      | Inl (Call_Raised _) \<Rightarrow> False
      | Inr answer \<Rightarrow> (\<exists>m. part answer ''mutation'' = Inr m \<and> rep_outcome rep = stated m))"

lemma answered_call_Inr:
  assumes "answered_call render attempt subject extra answer = Inr rep"
  shows "\<exists>m. part answer ''mutation'' = Inr m \<and> rep_attempt_id rep = attempt \<and> rep_outcome rep = stated m"
proof -
  obtain m where m: "part answer ''mutation'' = Inr m"
    using assms by (auto simp: answered_call_def bindE_Inr)
  with assms show ?thesis
    by (cases "outcome_of (get m ''outcome'')") (auto simp: answered_call_def stated_def)
qed

lemma report_of_Inr:
  assumes "report_of render attempt subject extra (r, w) = (Inr rep, w')"
  shows "w' = w \<and> reports attempt r rep"
  using assms
  by (auto simp: report_of_def reports_def failed_call_def dest: answered_call_Inr
      split: sum.splits call_exn.splits)

lemma report_of_world: "snd (report_of render attempt subject extra r) = snd r"
  by (cases r) (auto simp: report_of_def split: sum.splits call_exn.splits)

lemma report_of_Inl:
  "(\<exists>e. fst (report_of render attempt subject extra (r, w)) = Inl e) \<longleftrightarrow>
   (\<exists>x. r = Inl (Call_Raised x)) \<or> (\<exists>answer. r = Inr answer \<and> truthy (get answer ''mutation'') \<and>
      \<not> (\<exists>m. get answer ''mutation'' = PDict m))"
  unfolding part_Inl [symmetric]
  by (auto simp: report_of_def answered_call_def bindE_def split: sum.splits call_exn.splits)

section \<open>The call of an operation\<close>

fun container_verb :: "operation_type \<Rightarrow> lifecycle_action option" where
  "container_verb Docker_Container_Start = Some LA_Start"
| "container_verb Docker_Container_Stop = Some LA_Stop"
| "container_verb Docker_Container_Restart = Some LA_Restart"
| "container_verb _ = None"

fun service_verb :: "operation_type \<Rightarrow> systemd_service_action option" where
  "service_verb Systemd_Service_Start = Some SA_Start"
| "service_verb Systemd_Service_Stop = Some SA_Stop"
| "service_verb Systemd_Service_Restart = Some SA_Restart"
| "service_verb _ = None"

definition verb_of :: "operation_type \<Rightarrow> string option" where
  "verb_of op = (case container_verb op of Some a \<Rightarrow> Some (la_str a)
     | None \<Rightarrow> map_option sa_str (service_verb op))"

definition method_of :: "operation_type \<Rightarrow> string" where
  "method_of op = (if container_verb op \<noteq> None then METHOD_CONTAINER
     else if service_verb op \<noteq> None then METHOD_SERVICE else METHOD_SET_MTU)"

text \<open>The parameters, from the material \<open>correlate\<close> made.\<close>

definition params_of :: "operation_type \<Rightarrow> mutation_request \<Rightarrow> facts" where
  "params_of op q = (let c = mr_correlation q; attempt = (''attempt_id'', PStr (mr_attempt_id q)) in
     case verb_of op of
       None \<Rightarrow> [attempt, (''ifindex'', get c ''ifindex''),
         (''expected_current_mtu'', PInt (or_zero (mr_expected_current q))),
         (''desired_mtu'', PInt (or_zero (mr_desired q)))] @ named_link (correlated_name c)
     | Some verb \<Rightarrow> [attempt, (if container_verb op \<noteq> None then (''container_id'', get c ''container_id'')
         else (''unit_id'', get c ''unit_id'')), (''action'', PStr verb)])"

lemma operation_cases:
  obtains (mtu) "op = Network_Interface_Reconcile_Mtu"
  | (container) a where "container_verb op = Some a" "service_verb op = None"
  | (service) a where "service_verb op = Some a" "container_verb op = None"
  by (cases op) (simp_all add: that)

lemma container_executor:
  assumes "container_verb op = Some a"
  shows "mutate_operation op = mutate_container a" "correlate_operation op = correlate_container"
    "observe_operation op = observe_container" "prove_operation op = prove_container a"
  using assms by (cases op; simp)+

lemma service_executor:
  assumes "service_verb op = Some a"
  shows "mutate_operation op = mutate_service a" "correlate_operation op = correlate_service a"
    "observe_operation op = observe_service" "prove_operation op = (\<lambda>_. prove_service a)"
  using assms by (cases op; simp)+

text \<open>
  With material that \<open>correlate\<close> made and the verb the change recorded, the operation is one call,
  and its report reports that call.
\<close>

definition made_by :: "operation_type \<Rightarrow> object_record \<Rightarrow> mutation_request \<Rightarrow> bool" where
  "made_by op record q \<longleftrightarrow> correlate_operation op record = Inr (mr_correlation q) \<and>
     (verb_of op \<noteq> None \<longrightarrow> mr_action q = verb_of op)"

lemma correlate_mtu_Inr:
  "correlate_mtu record = Inr c \<longleftrightarrow> (\<exists>ob i. oj_observation record = Some ob \<and>
     get (ob_facts ob) ''ifindex'' = PInt i \<and> 0 < i \<and>
     c = [(''ifindex'', PInt i),
          (''interface_name'', or_val (get (ob_facts ob) ''name'') (PStr (oj_display_name record))),
          (''observation_id'', PStr (ob_observation_id ob))])"
proof (cases "oj_observation record")
  case (Some ob)
  show ?thesis
    by (cases "get (ob_facts ob) ''ifindex''") (auto simp: correlate_mtu_def Some)
qed (simp add: correlate_mtu_def)

lemma correlate_container_Inr:
  "correlate_container record = Inr c \<longleftrightarrow> (\<exists>ob i. oj_observation record = Some ob \<and>
     get (ob_facts ob) ''container_id'' = PStr i \<and> i \<noteq> [] \<and>
     c = [(''container_id'', PStr i), (''state'', get (ob_facts ob) ''state''),
          (''started_at'', get (ob_facts ob) ''started_at''),
          (''observation_id'', PStr (ob_observation_id ob))])"
proof (cases "oj_observation record")
  case (Some ob)
  show ?thesis
    by (cases "named (get (ob_facts ob) ''container_id'')")
      (auto simp: correlate_container_def Some named_Some)
qed (simp add: correlate_container_def)

lemma correlate_service_Inr:
  "correlate_service a record = Inr c \<longleftrightarrow> (\<exists>ob invocation. oj_observation record = Some ob \<and>
     get (ob_facts ob) ''canonical_id'' = PStr (oj_identity_value record) \<and>
     invocation = text_or_none (get (ob_facts ob) ''invocation_id'') \<and>
     (a = SA_Restart \<longrightarrow> invocation \<noteq> None) \<and>
     c = [(''unit_id'', PStr (oj_identity_value record)), (''invocation_id'', opt_text invocation),
          (''active_state'', get (ob_facts ob) ''active_state''),
          (''sub_state'', get (ob_facts ob) ''sub_state''),
          (''observation_id'', PStr (ob_observation_id ob))])"
  by (cases "oj_observation record") (auto simp: correlate_service_def Let_def)

lemma mutate_made:
  assumes "made_by op record q"
  obtains subject extra where
    "mutate_operation op S q w = report_of (hv_render S) (mr_attempt_id q) subject extra
       (hv_agent S (method_of op) (params_of op q) w)"
proof (cases rule: operation_cases [of op])
  case mtu
  with assms obtain i where "map_of (mr_correlation q) ''ifindex'' = Some (PInt i)"
    by (auto simp: made_by_def correlate_mtu_Inr)
  then have "index_of S (mr_correlation q) = Inr i" "get (mr_correlation q) ''ifindex'' = PInt i"
    by (simp_all add: index_of_def getitem_def as_int_def get_def)
  with mtu show ?thesis
    by (intro that [of "(''ifindex'', PInt i)" mtu_detail])
      (simp add: mutate_mtu_def client_set_interface_mtu_def method_of_def params_of_def verb_of_def)
next
  case (container a)
  with assms container_executor [OF container(1)] obtain i where "map_of (mr_correlation q) ''container_id'' = Some (PStr i)"
    by (auto simp: made_by_def correlate_container_Inr)
  then have "getitem (mr_correlation q) ''container_id'' = Inr (PStr i)"
    "get (mr_correlation q) ''container_id'' = PStr i"
    by (simp_all add: getitem_def get_def)
  moreover have "mr_action q = Some (la_str a)"
    using assms container(1) by (simp add: made_by_def verb_of_def)
  ultimately show ?thesis using container
    by (intro that [of "(''container_id'', PStr i)" container_detail])
      (simp add: container_executor [OF container(1)] mutate_container_def client_container_lifecycle_def method_of_def params_of_def verb_of_def)
next
  case (service a)
  with assms service_executor [OF service(1)] obtain i where "map_of (mr_correlation q) ''unit_id'' = Some (PStr i)"
    by (auto simp: made_by_def correlate_service_Inr)
  then have "getitem (mr_correlation q) ''unit_id'' = Inr (PStr i)"
    "get (mr_correlation q) ''unit_id'' = PStr i"
    by (simp_all add: getitem_def get_def)
  moreover have "mr_action q = Some (sa_str a)"
    using assms service(1,2) by (simp add: made_by_def verb_of_def)
  ultimately show ?thesis using service
    by (intro that [of "(''unit_id'', PStr i)" service_detail])
      (simp add: service_executor [OF service(1)] mutate_service_def client_service_lifecycle_def method_of_def params_of_def verb_of_def)
qed

text \<open>
  C19. A mutation is one call of the operation's own method, and its report is honest about it. On
  the material correlate made of an observation, and for the verb the change recorded, an executor
  calls the agent once, with parameters fixed by the records; it raises exactly when the call raises
  something other than an agent error, or the agent answers with a mutation that is neither empty
  nor a mapping; and otherwise reports, under the attempt it
  was given, not written only if the request never left or the agent says so, written only if the
  agent says so, and unknown in every other case.
\<close>

theorem mutation_is_one_call_honestly_reported:
  assumes "made_by op record q"
  shows "\<exists>r w'. hv_agent S (method_of op) (params_of op q) w = (r, w') \<and>
    snd (mutate_operation op S q w) = w' \<and>
    ((\<exists>e. fst (mutate_operation op S q w) = Inl e) \<longleftrightarrow>
       (\<exists>x. r = Inl (Call_Raised x)) \<or> (\<exists>answer. r = Inr answer \<and> truthy (get answer ''mutation'') \<and>
          \<not> (\<exists>m. get answer ''mutation'' = PDict m))) \<and>
    (\<forall>rep. fst (mutate_operation op S q w) = Inr rep \<longrightarrow>
       rep_attempt_id rep = mr_attempt_id q \<and>
       rep_outcome rep = (case r of
           Inl (Call_Failed e) \<Rightarrow> if ce_dispatched e then MO_Write_Unknown else MO_Not_Written
         | Inl (Call_Raised _) \<Rightarrow> rep_outcome rep
         | Inr answer \<Rightarrow> stated (as_dict (get answer ''mutation''))))"
proof -
  obtain subject extra where m: "mutate_operation op S q w =
      report_of (hv_render S) (mr_attempt_id q) subject extra (hv_agent S (method_of op) (params_of op q) w)"
    by (rule mutate_made [OF assms])
  obtain r w' where r: "hv_agent S (method_of op) (params_of op q) w = (r, w')"
    by (cases "hv_agent S (method_of op) (params_of op q) w") auto
  have part: "m = as_dict (get answer ''mutation'')" if "part answer ''mutation'' = Inr m" for m answer
    using that by (cases "get answer ''mutation''") (auto simp: part_Inr)
  have "reports (mr_attempt_id q) r rep" if "fst (mutate_operation op S q w) = Inr rep" for rep
    using report_of_Inr [of "hv_render S" "mr_attempt_id q" subject extra r w' rep
        "snd (mutate_operation op S q w)"] that m r by (metis prod.collapse)
  moreover have "snd (mutate_operation op S q w) = w'"
    using m r by (simp add: report_of_world)
  moreover have "(\<exists>e. fst (mutate_operation op S q w) = Inl e) \<longleftrightarrow>
       (\<exists>x. r = Inl (Call_Raised x)) \<or> (\<exists>answer. r = Inr answer \<and> truthy (get answer ''mutation'') \<and>
          \<not> (\<exists>m. get answer ''mutation'' = PDict m))"
    unfolding m r by (rule report_of_Inl)
  ultimately show ?thesis
    using r by (intro exI [of _ r] exI [of _ w']) (auto simp: reports_def dest: part split: sum.splits call_exn.splits)
qed

section \<open>The target\<close>

text \<open>
  What is changed is what was observed. Without an observation, or with one that does not
  name its object, an executor refuses before anything is sent; otherwise the call addresses the
  interface index, the container or the unit of that observation, and of a unit only the one the
  object is known by; and a restart is only begun where its proof has something to be compared
  with.
\<close>

theorem call_addresses_what_was_observed:
  assumes "made_by op record q"
  shows "\<exists>ob. oj_observation record = Some ob \<and>
    get (mr_correlation q) ''observation_id'' = PStr (ob_observation_id ob) \<and>
    (op = Network_Interface_Reconcile_Mtu \<longrightarrow>
       get (params_of op q) ''ifindex'' = get (ob_facts ob) ''ifindex'' \<and>
       (\<exists>i > 0. get (ob_facts ob) ''ifindex'' = PInt i)) \<and>
    (container_verb op \<noteq> None \<longrightarrow>
       get (params_of op q) ''container_id'' = get (ob_facts ob) ''container_id'' \<and>
       get (params_of op q) ''action'' = opt_text (verb_of op)) \<and>
    (service_verb op \<noteq> None \<longrightarrow>
       get (params_of op q) ''unit_id'' = get (ob_facts ob) ''canonical_id'' \<and>
       get (ob_facts ob) ''canonical_id'' = PStr (oj_identity_value record) \<and>
       get (params_of op q) ''action'' = opt_text (verb_of op)) \<and>
    (op = Systemd_Service_Restart \<longrightarrow>
       (\<exists>i. get (mr_correlation q) ''invocation_id'' = PStr i))"
proof (cases rule: operation_cases [of op])
  case mtu
  with assms show ?thesis
    by (auto simp: made_by_def correlate_mtu_Inr params_of_def verb_of_def Let_def)
next
  case (container a)
  have "op \<noteq> Network_Interface_Reconcile_Mtu" "op \<noteq> Systemd_Service_Restart" using container(1) by auto
  with container container_executor [OF container(1)] assms show ?thesis
    by (auto simp: made_by_def correlate_container_Inr params_of_def verb_of_def Let_def)
next
  case (service a)
  have n: "op \<noteq> Network_Interface_Reconcile_Mtu" using service(1) by auto
  have s: "op = Systemd_Service_Restart \<Longrightarrow> a = SA_Restart" using service(1) by auto
  from assms obtain ob invocation where ob: "oj_observation record = Some ob"
    "get (ob_facts ob) ''canonical_id'' = PStr (oj_identity_value record)"
    "a = SA_Restart \<longrightarrow> invocation \<noteq> None"
    "mr_correlation q = [(''unit_id'', PStr (oj_identity_value record)),
       (''invocation_id'', opt_text invocation),
       (''active_state'', get (ob_facts ob) ''active_state''),
       (''sub_state'', get (ob_facts ob) ''sub_state''),
       (''observation_id'', PStr (ob_observation_id ob))]"
    unfolding made_by_def service_executor(2) [OF service(1)] correlate_service_Inr by blast
  with service n s show ?thesis by (auto simp: params_of_def verb_of_def Let_def)
qed

section \<open>Proof and reading\<close>

text \<open>What a reading must show, per operation.\<close>

definition later_start :: "(string \<Rightarrow> reading option) \<Rightarrow> pyval \<Rightarrow> string \<Rightarrow> bool" where
  "later_start rd before after \<longleftrightarrow>
     (\<forall>b. named before = Some b \<longrightarrow> b \<noteq> after \<and>
        (\<forall>aware aware' t t'. parse_docker_instant rd (PStr b) = Some (aware, t) \<longrightarrow>
           parse_docker_instant rd (PStr after) = Some (aware', t') \<longrightarrow> t < t'))"

definition shows_container ::
  "lifecycle_action \<Rightarrow> (string \<Rightarrow> reading option) \<Rightarrow> facts \<Rightarrow> expectation \<Rightarrow> bool" where
  "shows_container a rd fs e \<longleftrightarrow>
     (\<exists>state. get fs ''state'' = PStr state \<and> ex_state e = Some state \<and>
        get fs ''running'' \<noteq> PBool (state \<noteq> ls_str LS_Running) \<and>
        (a = LA_Restart \<longrightarrow> (\<exists>after. get fs ''started_at'' = PStr after \<and> after \<noteq> [] \<and>
           later_start rd (get (ex_correlation e) ''started_at'') after)))"

definition shows_service :: "systemd_service_action \<Rightarrow> facts \<Rightarrow> expectation \<Rightarrow> bool" where
  "shows_service a fs e \<longleftrightarrow>
     (\<exists>state. get fs ''active_state'' = PStr state \<and>
        (ex_state e = Some state \<or> a = SA_Restart \<and> state = ''active'') \<and>
        (a \<noteq> SA_Stop \<longrightarrow> get fs ''sub_state'' \<in> {PStr ''running'', PStr ''exited''}) \<and>
        (a = SA_Restart \<longrightarrow> (\<exists>i. get fs ''invocation_id'' = PStr i \<and> i \<noteq> [] \<and>
           get (ex_correlation e) ''invocation_id'' \<noteq> PStr i)))"

definition shows_field :: "facts \<Rightarrow> expectation \<Rightarrow> bool" where
  "shows_field fs e \<longleftrightarrow>
     (\<exists>vt k v u. ex_value_type e = Some (vt_str vt) \<and> ex_field e = Some k \<and>
        get fs k = to_pyval v \<and> well_typed vt v \<and> ex_value e = Some u \<and> val_eq v u)"

definition shows_wanted ::
  "operation_type \<Rightarrow> (string \<Rightarrow> reading option) \<Rightarrow> facts \<Rightarrow> expectation \<Rightarrow> bool" where
  "shows_wanted op rd fs e =
     (case container_verb op of
        Some a \<Rightarrow> shows_container a rd fs e
      | None \<Rightarrow> (case service_verb op of Some a \<Rightarrow> shows_service a fs e | None \<Rightarrow> shows_field fs e))"

lemma pos_outcome_proof_state [simp]: "pos_outcome (proof_state v value state reason) = v"
  by (simp add: proof_state_def)

lemma verified_if:
  assumes "pos_outcome p = VO_Verified"
  shows "pos_outcome q \<noteq> VO_Verified \<Longrightarrow> (if b then Inr q else r) = Inr p \<longleftrightarrow> \<not> b \<and> r = Inr p"
    "(if b then Inl u else r) = Inr p \<longleftrightarrow> \<not> b \<and> r = Inr p"
  using assms by auto

lemma started_again_True:
  "started_again rd before after = Inr True \<Longrightarrow> later_start rd before after"
  by (cases "named before")
    (auto simp: started_again_def later_start_def split: if_splits option.splits prod.splits)

lemma is_running_agrees:
  assumes "get fs ''state'' = PStr state" "state \<noteq> []" "is_running fs \<noteq> None"
  shows "get fs ''running'' \<noteq> PBool (state \<noteq> ls_str LS_Running)"
proof
  assume "get fs ''running'' = PBool (state \<noteq> ls_str LS_Running)"
  with assms show False by (auto simp: is_running_def split: if_splits)
qed

lemma prove_container_verified:
  assumes "prove_container a rd fs e = Inr p" "pos_outcome p = VO_Verified"
  shows "shows_container a rd fs e"
proof (cases "named (get fs ''state'')")
  case (Some state)
  then have s: "get fs ''state'' = PStr state" "state \<noteq> []" by (simp_all add: named_Some)
  from assms Some have e: "ex_state e = Some state" and r: "is_running fs \<noteq> None"
    by (auto simp: prove_container_def split: if_splits)
  note agree = is_running_agrees [OF s r]
  show ?thesis
  proof (cases "a = LA_Restart")
    case True
    with assms Some e r obtain after where "named (get fs ''started_at'') = Some after"
      "started_again rd (get (ex_correlation e) ''started_at'') after = Inr True"
      by (auto simp: prove_container_def bindE_Inr split: option.splits if_splits)
    with s e agree show ?thesis
      by (auto simp: shows_container_def named_Some intro: started_again_True)
  qed (use s e agree in \<open>auto simp: shows_container_def\<close>)
qed (use assms in \<open>auto simp: prove_container_def\<close>)

lemma str_in_running: "str_in v RUNNING_SUB_STATES \<longleftrightarrow> v \<in> {PStr ''running'', PStr ''exited''}"
  by (cases v) (auto simp: RUNNING_SUB_STATES_def)

lemma prove_service_verified:
  assumes "prove_service a fs e = Inr p" "pos_outcome p = VO_Verified"
  shows "shows_service a fs e"
proof (cases "named (get fs ''active_state'')")
  case (Some state)
  then have s: "get fs ''active_state'' = PStr state" by (simp add: named_Some)
  note v = assms(1) [unfolded prove_service_def Some option.case]
  from v have e: "ex_state e = Some state \<or> a = SA_Restart \<and> state = ''active''"
    "a \<noteq> SA_Stop \<longrightarrow> str_in (get fs ''sub_state'') RUNNING_SUB_STATES"
    unfolding verified_if [OF assms(2)] by (simp_all add: verified_if [OF assms(2)] eq_commute [of "Some state"]) argo
  have i: "\<exists>i. named (get fs ''invocation_id'') = Some i \<and> get (ex_correlation e) ''invocation_id'' \<noteq> PStr i"
    if "a = SA_Restart"
  proof (cases "named (get fs ''invocation_id'')")
    case None
    with v that assms(2) show ?thesis by (auto simp: verified_if [OF assms(2)])
  next
    case (Some i)
    with v that assms(2) show ?thesis by (auto simp: verified_if [OF assms(2)] split: if_split_asm)
  qed
  show ?thesis
    unfolding shows_service_def using s e i by (auto simp: named_Some str_in_running)
qed (use assms in \<open>auto simp: prove_service_def\<close>)

lemma vt_of_Inr: "vt_of s = Inr vt \<Longrightarrow> s = vt_str vt"
  by (auto simp: vt_of_def split: if_splits)

lemma vt_str_nonempty: "vt_str vt \<noteq> []"
  by (cases vt) simp_all

lemma prove_mtu_verified:
  assumes "prove_mtu fs e = Inr p" "pos_outcome p = VO_Verified"
  shows "shows_field fs e"
proof -
  from assms(1) obtain vt where vt: "vt_of (case ex_value_type e of None \<Rightarrow> [] | Some s \<Rightarrow> s) = Inr vt"
    unfolding prove_mtu_def bindE_Inr by blast
  then have "ex_value_type e = Some (vt_str vt)"
    using vt_of_Inr [OF vt] vt_str_nonempty [of vt] by (cases "ex_value_type e") auto
  moreover obtain v where v: "coerce vt (fact_of fs (ex_field e)) = Some v"
    using assms vt by (cases "coerce vt (fact_of fs (ex_field e))")
      (auto simp: prove_mtu_def)
  moreover obtain u where "ex_value e = Some u" "val_eq v u"
    using assms vt v by (cases "ex_value e") (auto simp: prove_mtu_def split: if_splits)
  moreover obtain k where "ex_field e = Some k" "get fs k = to_pyval v"
    using coerce_to_pyval [OF v] by (cases "ex_field e"; cases v) (auto simp: fact_of_def)
  ultimately show ?thesis
    using coerce_well_typed [OF v] by (auto simp: shows_field_def)
qed

lemma prove_verified:
  assumes "prove_operation op rd fs e = Inr p" "pos_outcome p = VO_Verified"
  shows "shows_wanted op rd fs e"
proof (cases rule: operation_cases [of op])
  case mtu
  with assms prove_mtu_verified show ?thesis by (auto simp: shows_wanted_def)
next
  case (container a)
  with assms prove_container_verified show ?thesis
    by (auto simp: shows_wanted_def container_executor)
next
  case (service a)
  with assms prove_service_verified show ?thesis
    by (auto simp: shows_wanted_def service_executor)
qed

text \<open>The sweep of an operation, and the reading it may leave.\<close>

definition refresh_of ::
  "operation_type \<Rightarrow> 'w host_services \<Rightarrow> object_record \<Rightarrow> 'w \<Rightarrow> (call_error + string) \<times> 'w" where
  "refresh_of op S record =
     (if container_verb op \<noteq> None then hv_refresh_containers S
      else if service_verb op \<noteq> None then hv_refresh_unit S (oj_identity_value record)
      else hv_refresh_network S (if oj_display_name record = [] then None
             else Some [oj_display_name record]))"

lemma swept_taken:
  assumes "swept S i detail (r, w) = (att, w')" "oa_taken att"
  shows "\<exists>sweep fresh ob. r = Inr sweep \<and> w' = w \<and> oa_record att = Some fresh \<and>
    hv_object S w i = Some fresh \<and> oj_observation fresh = Some ob \<and> ob_sweep_id ob = sweep"
  using assms
  by (auto simp: swept_def no_reading_def oa_taken_def split: sum.splits option.splits if_splits)

lemma observe_as_swept:
  "\<exists>detail. observe_operation op S record w = swept S (oj_object_id record) detail (refresh_of op S record w)"
proof (cases rule: operation_cases [of op])
  case mtu
  then show ?thesis by (auto simp: observe_mtu_def refresh_of_def Let_def)
next
  case (container a)
  then show ?thesis by (auto simp: container_executor observe_container_def refresh_of_def)
next
  case (service a)
  then show ?thesis by (auto simp: service_executor observe_service_def refresh_of_def)
qed

text \<open>An engine's executor that is the operation's own, as far as reading back goes.\<close>

definition reads_as ::
  "operation_type \<Rightarrow> 'w host_services \<Rightarrow> 'w operation_executor \<Rightarrow> bool" where
  "reads_as op S x \<longleftrightarrow> xc_observe x = observe_operation op S \<and>
     (\<forall>fs e. case prove_operation op (hv_read S) fs e of
         Inr p \<Rightarrow> xc_prove x fs e = p
       | Inl _ \<Rightarrow> pos_outcome (xc_prove x fs e) \<noteq> VO_Verified)"

lemma reads_as_prove:
  assumes "reads_as op S x" "pos_outcome (xc_prove x fs e) = VO_Verified"
  shows "shows_wanted op (hv_read S) fs e"
proof -
  have "case prove_operation op (hv_read S) fs e of
         Inr p \<Rightarrow> xc_prove x fs e = p
       | Inl _ \<Rightarrow> pos_outcome (xc_prove x fs e) \<noteq> VO_Verified"
    using assms(1) by (simp add: reads_as_def)
  with assms(2) show ?thesis
    by (cases "prove_operation op (hv_read S) fs e") (auto intro: prove_verified)
qed

text \<open>
  C18. Verified means seen. When the change engine reads a change back as verified, through the
  operation's own executor, then a sweep was taken during this very reading, the object's newest
  observation is of that sweep and of the source the plan named, and it shows the wanted end state:
  the field's value, correctly typed; a container's state, not contradicted by its running flag,
  and after a restart a start of its own that is not the recorded one and not before it; a unit's
  state, settled unless it was to stop, and after a restart an execution other than the recorded
  one.
\<close>

theorem verified_means_seen:
  assumes "reads_as op S x"
    and "read_back E r x e s = (Inr read, s')" and "rb_outcome read = VO_Verified"
  shows "\<exists>record sweep fresh ob. ev_object E (es_world s) (rn_object_id r) = Some record \<and>
    refresh_of op S record (es_world s) = (Inr sweep, es_world s') \<and>
    hv_object S (es_world s') (oj_object_id record) = Some fresh \<and>
    oj_observation fresh = Some ob \<and> ob_sweep_id ob = sweep \<and>
    rb_observation_id read = Some (ob_observation_id ob) \<and>
    ob_capability ob = rv_verification_capability (rn_preview r) \<and>
    ob_provider ob = rv_verification_provider (rn_preview r) \<and>
    shows_wanted op (hv_read S) (ob_facts ob) e"
proof -
  note unfold = read_back_def bindM_def world_def ask_def ret_def fail_def assertM_def unread_def
  show ?thesis
  proof (cases "ev_object E (es_world s) (rn_object_id r)")
    case None
    with assms show ?thesis by (auto simp: unfold oa_taken_def Let_def split: if_splits)
  next
    case (Some y)
    obtain att w where obs: "observe_operation op S y (es_world s) = (att, w)"
      by (cases "observe_operation op S y (es_world s)") auto
    have x: "xc_observe x y (es_world s) = (att, w)" using assms(1) obs by (simp add: reads_as_def)
    show ?thesis
    proof (cases "oa_taken att")
      case False
      with assms Some x show ?thesis by (auto simp: unfold Let_def split: if_splits)
    next
      case True
      obtain detail where "swept S (oj_object_id y) detail (refresh_of op S y (es_world s)) = (att, w)"
        using observe_as_swept [of op S y "es_world s"] obs by auto
      then obtain q v where q: "refresh_of op S y (es_world s) = (q, v)"
        "swept S (oj_object_id y) detail (q, v) = (att, w)"
        by (cases "refresh_of op S y (es_world s)") auto
      from swept_taken [OF q(2) True] obtain sweep fresh ob where f: "q = Inr sweep" "w = v"
        "oa_record att = Some fresh" "hv_object S v (oj_object_id y) = Some fresh"
        "oj_observation fresh = Some ob" "ob_sweep_id ob = sweep" by blast
      from assms(2,3) Some x True f have p: "es_world s' = w"
        "ob_capability ob = rv_verification_capability (rn_preview r)"
        "ob_provider ob = rv_verification_provider (rn_preview r)"
        "rb_observation_id read = Some (ob_observation_id ob)"
        "pos_outcome (xc_prove x (ob_facts ob) e) = VO_Verified"
        by (auto simp: unfold Let_def split: if_splits)
      with reads_as_prove [OF assms(1) p(5)] Some q f show ?thesis by auto
    qed
  qed
qed

end
