(* ===== verification/Outcome_Truth.thy ===== *)
theory Outcome_Truth
  imports Agent_Service Executor_Properties
begin

text \<open>
  What a stated outcome promises of a host, as an interface (\<open>outcome_truth\<close>): not written is true of a
  host that did not move, and whatever is true is also unknown. From a handler of the agent that
  states true outcomes, everything on the way back keeps the truth: the socket that may fail at any
  byte, the client's error, and the executor's report.
\<close>

section \<open>The agent as it is served\<close>

lemma helper_codec: "well_keyed HELPER_CODEC" "well_keyed AGENT_CODEC"
  by (simp_all add: well_keyed_def HELPER_CODEC_def AGENT_CODEC_def)

lemma news_failed: "news r = Some (Inl b) \<longleftrightarrow> (\<exists>e. r = Inl (Call_Failed e) \<and> ce_dispatched e = b)"
  by (auto simp: news_def split: sum.splits call_exn.splits)

lemma news_result: "news r = Some (Inr d) \<longleftrightarrow> r = Inr d"
  by (auto simp: news_def split: sum.splits call_exn.splits)

record 'w agent_hop =
  ah_json :: json_env
  ah_channel :: channel
  ah_server :: line_server
  ah_peer :: "peer option"
  ah_fate :: fate
  ah_request_id :: string
  ah_agent :: "'w agent_services"

definition agent_hop_ok :: "'w agent_hop \<Rightarrow> bool" where
  "agent_hop_ok Y \<longleftrightarrow> json_ok (ah_json Y) \<and> lv_codec (ah_server Y) = AGENT_CODEC \<and>
     possible (ah_fate Y) \<and> ah_request_id Y \<noteq> []"

definition agent_call :: "'w agent_hop \<Rightarrow> string \<Rightarrow> facts \<Rightarrow> 'w \<Rightarrow> (call_exn + facts) \<times> 'w" where
  "agent_call Y method params = ipc_call (ah_json Y) AGENT_CODEC (ah_channel Y)
     (socket_to (ah_fate Y) (serve_connection (ah_json Y) (ah_server Y)
        (agent_handle (ah_json Y) (ah_agent Y)) (ah_peer Y))) (ah_request_id Y) method (Some params)"

section \<open>Outcomes that are true\<close>

definition states_truth ::
  "(mutation_outcome \<Rightarrow> 'w \<Rightarrow> 'w \<Rightarrow> bool) \<Rightarrow> 'e + facts \<Rightarrow> 'w \<Rightarrow> 'w \<Rightarrow> bool" where
  "states_truth T r w w' \<longleftrightarrow> (case r of
     Inl _ \<Rightarrow> T MO_Write_Unknown w w'
   | Inr answer \<Rightarrow> (\<exists>d x. get answer ''mutation'' = PDict d \<and> states_outcome d x \<and> T x w w'))"

locale outcome_truth =
  fixes T :: "mutation_outcome \<Rightarrow> 'w \<Rightarrow> 'w \<Rightarrow> bool"
  assumes unmoved: "T MO_Not_Written w w"
    and unknown: "T x w w' \<Longrightarrow> T MO_Write_Unknown w w'"
begin

lemma states_truth_unknown: "states_truth T r w w' \<Longrightarrow> T MO_Write_Unknown w w'"
  by (cases r) (auto simp: states_truth_def dest: unknown)

lemma states_truth_refused: "states_truth T (Inl e) w w"
  by (simp add: states_truth_def unknown [OF unmoved])

lemma delivered:
  assumes "agent_hop_ok Y"
    and served: "\<And>b v. agent_handle (ah_json Y) (ah_agent Y) method params w = (b, v) \<Longrightarrow> states_truth T b w v"
    and "agent_call Y method params w = (c, w')"
  shows "case c of
      Inl (Call_Failed e) \<Rightarrow> T (if ce_dispatched e then MO_Write_Unknown else MO_Not_Written) w w'
    | Inl (Call_Raised _) \<Rightarrow> w' = w
    | Inr answer \<Rightarrow> states_truth T (Inr answer :: unit + facts) w w'"
proof -
  let ?h = "agent_handle (ah_json Y) (ah_agent Y) method params"
  obtain b v where b: "?h w = (b, v)" by (meson surj_pair)
  note t = served [OF b]
  consider (raised) e where "c = Inl (Call_Raised e)" "w' = w"
    | (delivered) dl x where "news c = Some x" "deliver dl ?h w = (x, w')"
    using call_is_a_delivery [OF _ helper_codec(2) _ _ _ assms(3) [unfolded agent_call_def]] assms(1)
    by (auto simp: agent_hop_ok_def)
  then show ?thesis
  proof cases
    case (delivered dl x)
    show ?thesis
    proof (cases dl)
      case Answered
      show ?thesis
      proof (cases b)
        case (Inl e)
        with Answered delivered b states_truth_unknown [OF t] show ?thesis by (auto simp: deliver_def news_failed)
      next
        case (Inr answer)
        with Answered delivered b have "c = Inr answer" "w' = v" by (auto simp: deliver_def news_result)
        with t Inr show ?thesis by (simp add: states_truth_def)
      qed
    qed (use delivered b states_truth_unknown [OF t] unmoved unknown [OF unmoved]
          in \<open>auto simp: deliver_def news_failed\<close>)
  qed simp
qed

text \<open>The report of the executor that made the call.\<close>

lemma reported:
  assumes "agent_hop_ok Y"
    and "\<And>b v. agent_handle (ah_json Y) (ah_agent Y) method params w = (b, v) \<Longrightarrow> states_truth T b w v"
    and "report_of render attempt subject extra (agent_call Y method params w) = (Inr rep, w')"
  shows "T (rep_outcome rep) w w'"
proof -
  obtain c v where c: "agent_call Y method params w = (c, v)" by (meson surj_pair)
  note t = delivered [OF assms(1,2) c]
  from assms(3) have w': "w' = v" and rep: "reports attempt c rep" unfolding c by (auto dest: report_of_Inr)
  show ?thesis
  proof (cases c)
    case (Inl x)
    with t rep w' show ?thesis by (cases x) (simp_all add: reports_def)
  next
    case (Inr answer)
    with t w' obtain d x where d: "get answer ''mutation'' = PDict d" "states_outcome d x" "T x w w'"
      by (auto simp: states_truth_def)
    then have "stated d = x" by (simp add: stated_def states_outcome_def)
    moreover have "rep_outcome rep = stated d" using rep Inr d(1) by (auto simp: reports_def part_Inr)
    ultimately show ?thesis using d(3) by simp
  qed
qed

end

end
