(* ===== verification/Write_Path.thy ===== *)
theory Write_Path
  imports Outcome_Truth
begin

text \<open>
  The write path as a whole: the change engine's executor, the socket to the agent, the agent's
  handler, the socket to the helper, the helper's service and the kernel, with either socket failing
  at any byte. What the executor reports of an MTU write is true of the host's links.
\<close>

section \<open>The agent's write over the socket\<close>

lemma unknown_if_true: "outcome_true w q a b \<Longrightarrow> outcome_true MO_Write_Unknown q a b"
  by (cases w) (auto simp: outcome_true_def Let_def)

text \<open>The helper as it is served, and the agent's write through it.\<close>

record 'h helper_hop =
  hh_json :: json_env
  hh_channel :: channel
  hh_server :: line_server
  hh_peer :: "peer option"
  hh_fate :: fate
  hh_request_id :: string
  hh_kernel :: "'h link_env"
  hh_hello :: facts

definition hop_ok :: "'h helper_hop \<Rightarrow> ('h \<Rightarrow> int \<rightharpoonup> nat) \<Rightarrow> bool" where
  "hop_ok X m \<longleftrightarrow> json_ok (hh_json X) \<and> lv_codec (hh_server X) = HELPER_CODEC \<and>
     possible (hh_fate X) \<and> hh_request_id X \<noteq> [] \<and> kernel_ok (hh_kernel X) m"

definition helper_write ::
  "'h helper_hop \<Rightarrow> mtu_request \<Rightarrow> helper_state \<times> 'h \<Rightarrow> (helper_exn + facts) \<times> helper_state \<times> 'h" where
  "helper_write X = write_through_helper (hh_json X) (hh_channel X)
     (socket_to (hh_fate X) (serve_connection (hh_json X) (hh_server X)
        (helper_handle (hh_json X) (hh_kernel X) (hh_hello X)) (hh_peer X))) (hh_request_id X)"

lemma failed_write_states:
  "states_outcome (failed_write sock q e) (if ce_dispatched e then MO_Write_Unknown else MO_Not_Written)"
  by (simp add: states_outcome_def failed_write_def)

lemma helper_served [simp]: "helper_handle J K hello HELPER_SET_MTU = service_set_mtu K"
  by (rule ext)+ (simp add: helper_handle_def HELPER_SET_MTU_def HELPER_HELLO_def)

lemma helper_write_true:
  assumes "hop_ok X m" "agent_fresh q st" "helper_write X q st = (r, st')"
  shows "case r of Inl _ \<Rightarrow> st' = st
    | Inr d \<Rightarrow> \<exists>w. states_outcome d w \<and> outcome_true w q (m (snd st)) (m (snd st'))"
proof -
  let ?t = "socket_to (hh_fate X) (serve_connection (hh_json X) (hh_server X)
        (helper_handle (hh_json X) (hh_kernel X) (hh_hello X)) (hh_peer X))"
  obtain c v where c: "ipc_call (hh_json X) HELPER_CODEC (hh_channel X) ?t (hh_request_id X)
      HELPER_SET_MTU (Some (client_params q)) st = (c, v)" by (meson surj_pair)
  obtain hs h where st: "st = (hs, h)" by (cases st)
  obtain a hs' h' where a: "service_set_mtu (hh_kernel X) (client_params q) st = (a, hs', h')"
    by (cases "service_set_mtu (hh_kernel X) (client_params q) st") auto
  have s: "\<exists>w. answer_states a w \<and> outcome_true w q (m h) (m h')"
    using service_truthful [of "hh_kernel X" m hs q h] assms(1,2) a st
    by (auto simp: hop_ok_def agent_fresh_def)
  then have unknown: "outcome_true MO_Write_Unknown q (m h) (m h')"
    using unknown_if_true by blast
  consider (raised) e where "c = Inl (Call_Raised e)" "v = st"
    | (delivered) dl x where "news c = Some x"
        "deliver dl (service_set_mtu (hh_kernel X) (client_params q)) st = (x, v)"
    using call_is_a_delivery [OF _ helper_codec(1) _ _ _ c] assms(1) by (auto simp: hop_ok_def)
  then show ?thesis
  proof cases
    case raised
    with c assms(3) show ?thesis by (auto simp: helper_write_def write_through_helper_def)
  next
    case (delivered dl x)
    have failed: ?thesis if "x = Inl b" "outcome_true (if b then MO_Write_Unknown else MO_Not_Written) q
        (m (snd st)) (m (snd v))" for b
    proof -
      note x = that
      obtain e where e: "c = Inl (Call_Failed e)" "ce_dispatched e = b"
        using x(1) delivered(1) by (auto simp: news_failed)
      then have "r = Inr (failed_write (ch_socket (hh_channel X)) q e)" "st' = v"
        using c assms(3) by (auto simp: helper_write_def write_through_helper_def)
      with x(2) e(2) failed_write_states show ?thesis by auto
    qed
    show ?thesis
    proof (cases dl)
      case (Not_Sent code)
      with delivered failed [of False] show ?thesis by (simp add: deliver_def outcome_same)
    next
      case (Sent_Unread code)
      with delivered failed [of True] show ?thesis by (simp add: deliver_def outcome_same)
    next
      case (Answer_Lost code)
      with delivered a st unknown failed [of True] show ?thesis by (auto simp: deliver_def)
    next
      case Answered
      show ?thesis
      proof (cases a)
        case (Inl e)
        with Answered delivered a st unknown failed [of True] show ?thesis by (auto simp: deliver_def)
      next
        case (Inr d)
        with Answered delivered a have "c = Inr d" "v = (hs', h')"
          by (auto simp: deliver_def news_result)
        with s st c Inr assms(3) show ?thesis
          by (auto simp: helper_write_def write_through_helper_def answer_states_def)
      qed
    qed
  qed
qed

section \<open>The agent's handler\<close>

lemma mtu_params_client:
  assumes "mtu_params (client_params q) = Inr q'"
  shows "q' = q"
proof -
  have "require_link_name (case mq_name q of None \<Rightarrow> PNone | Some n \<Rightarrow> PStr n) = Inr (mq_name q)"
    by (simp add: require_link_name_def split: option.split)
  with assms show ?thesis
    by (auto simp: mtu_params_def get_client_params bindE_Inr require_str_def require_number_def
        refuse_def split: option.splits if_splits)
qed

lemma set_mtu_handled:
  assumes "network_set_interface_mtu A (client_params q) w = (r, w')"
  shows "(\<exists>e. r = Inl e) \<and> w' = w \<or>
    (\<exists>d answer. as_set_interface_mtu A q w = (Inr d, w') \<and> r = Inr answer \<and>
       get answer ''mutation'' = PDict d) \<or>
    (\<exists>e. as_set_interface_mtu A q w = (Inl e, w') \<and> r = Inl e)"
proof -
  let ?c = "bindE (reject_unknown_params (client_params q) MTU_PARAMS METHOD_SET_MTU) (\<lambda>_.
        bindE (require_capability (as_capabilities A w) CAPABILITY_SET_MTU) (\<lambda>_.
        bindE (mtu_params (client_params q)) (\<lambda>q.
        bindE (as_identity A w) (\<lambda>host. Inr (q, host)))))"
  show ?thesis
  proof (cases ?c)
    case (Inl e)
    with assms show ?thesis by (auto simp: network_set_interface_mtu_def checked_def)
  next
    case (Inr z)
    then obtain host where z: "z = (q, host)" by (auto simp: bindE_Inr dest: mtu_params_client)
    with assms Inr show ?thesis
      by (auto simp: network_set_interface_mtu_def checked_def answer_with_def split: prod.splits sum.splits)
  qed
qed

lemma set_mtu_method [simp]: "agent_handle J A METHOD_SET_MTU = network_set_interface_mtu A"
  by (rule ext) (simp add: agent_handle_def)

section \<open>The whole path\<close>

text \<open>The write an executor asks for.\<close>

definition asked_write :: "mutation_request \<Rightarrow> int \<Rightarrow> mtu_request" where
  "asked_write q i = \<lparr>mq_attempt_id = mr_attempt_id q, mq_ifindex = i,
     mq_expected = or_zero (mr_expected_current q), mq_desired = or_zero (mr_desired q),
     mq_name = correlated_name (mr_correlation q)\<rparr>"

lemma asked_params:
  "client_set_interface_mtu S (mr_attempt_id q) i (or_zero (mr_expected_current q))
     (or_zero (mr_desired q)) (correlated_name (mr_correlation q)) =
   hv_agent S METHOD_SET_MTU (client_params (asked_write q i))"
  by (simp add: client_set_interface_mtu_def client_params_def asked_write_def named_link_def)

text \<open>The outcomes of an MTU write are true of the links.\<close>

interpretation mtu_outcome: outcome_truth "\<lambda>x st st'. outcome_true x q (m (snd st)) (m (snd st'))"
    for q and m :: "'h \<Rightarrow> int \<rightharpoonup> nat"
  by unfold_locales (simp add: outcome_same, rule unknown_if_true)

lemma agent_write_states_truth:
  assumes "hop_ok X m" "as_set_interface_mtu A = helper_write X" "agent_fresh r st"
    and "agent_handle J A METHOD_SET_MTU (client_params r) st = (b, v)"
  shows "states_truth (\<lambda>x st st'. outcome_true x r (m (snd st)) (m (snd st'))) b st v"
proof -
  from assms(4) set_mtu_handled [of A r st b v] consider (refused) e where "b = Inl e" "v = st"
    | (written) d answer where "helper_write X r st = (Inr d, v)" "b = Inr answer"
        "get answer ''mutation'' = PDict d"
    | (raised) e where "helper_write X r st = (Inl e, v)" "b = Inl e"
    unfolding assms(2) by auto
  then show ?thesis
  proof cases
    case refused
    then show ?thesis using mtu_outcome.states_truth_refused by metis
  next
    case written
    with helper_write_true [OF assms(1,3) written(1)] show ?thesis
      by (auto simp: states_truth_def)
  next
    case raised
    with helper_write_true [OF assms(1,3) raised(1)] show ?thesis
      using mtu_outcome.states_truth_refused by simp
  qed
qed

text \<open>
  C12. What LocalPlane records of a write is true of the host. Let an executor carry out an MTU
  change through the agent and the helper, with either socket failing at any point, against a
  kernel that behaves as rtnetlink documents, for an attempt the helper has not seen. Whatever the
  executor reports then holds of the links: not written, and no link's MTU moved; written, and
  exactly the addressed link went from the expected to the desired value; unknown, and it is one
  of the two.
\<close>

theorem reported_write_is_true_of_the_host:
  assumes "agent_hop_ok Y" and "hop_ok X m" and "as_set_interface_mtu (ah_agent Y) = helper_write X"
    and "hv_agent S = agent_call Y" and "index_of S (mr_correlation q) = Inr i"
    and "map_of (hs_attempts hs) (mr_attempt_id q) = None"
    and "mutate_mtu S q (hs, h) = (Inr rep, hs', h')"
  shows "outcome_true (rep_outcome rep) (asked_write q i) (m h) (m h')"
proof -
  have "agent_fresh (asked_write q i) (hs, h)"
    using assms(6) by (simp add: agent_fresh_def asked_write_def)
  note t = agent_write_states_truth [OF assms(2,3) this]
  have "report_of (hv_render S) (mr_attempt_id q) (''ifindex'', PInt i) mtu_detail
      (agent_call Y METHOD_SET_MTU (client_params (asked_write q i)) (hs, h)) = (Inr rep, hs', h')"
    using assms(5,7) by (simp add: mutate_mtu_def asked_params assms(4))
  from mtu_outcome.reported [OF assms(1) t this] show ?thesis by simp
qed

section \<open>The lifecycle calls\<close>

lemma require_action_closed:
  "require_action J v = Inr a \<Longrightarrow> v = PStr a \<and> a \<in> set LIFECYCLE_ACTIONS"
  by (auto simp: require_action_def require_str_def refuse_def bindE_Inr named_Some
      split: option.splits if_splits)

lemma require_capability_usable:
  "require_capability cs capability = Inr u \<Longrightarrow>
   \<exists>c \<in> set cs. dc_capability c = capability \<and> dc_status c \<noteq> CS_Unavailable"
  by (auto simp: require_capability_def refuse_def Let_def find_Some_iff split: option.splits if_splits)

lemma checked_cases:
  assumes "checked c f w = (r, w')"
  obtains e where "c = Inl e" "r = Inl e" "w' = w" | x where "c = Inr x" "f x w = (r, w')"
  using assms by (cases c) (auto simp: checked_def)

lemma get_updated: "get (updated d kvs) k = (case map_of (rev kvs) k of None \<Rightarrow> get d k | Some v \<Rightarrow> v)"
proof (induction kvs arbitrary: d)
  case (Cons kv kvs)
  obtain k' v where kv: "kv = (k', v)" by (cases kv)
  have "get (dict_set k' v d) k = (if k = k' then v else get d k)"
    by (simp add: get_def map_of_dict_set)
  with Cons kv show ?case by (auto simp: updated_def map_add_def split: option.split)
qed (simp add: updated_def)

lemma method_neq [simp]: "METHOD_SERVICE \<noteq> METHOD_CONTAINER"
  by (simp add: METHOD_SERVICE_def METHOD_CONTAINER_def)

lemma lifecycle_method [simp]:
  "agent_handle J A METHOD_CONTAINER = docker_container_lifecycle J A"
  "agent_handle J A METHOD_SERVICE = systemd_service_lifecycle J A"
  by (simp_all add: agent_handle_def METHOD_SERVICE_def METHOD_CONTAINER_def METHOD_SET_MTU_def
      METHOD_ARM_GUARD_def METHOD_DISARM_GUARD_def METHOD_GUARD_STATUS_def fun_eq_iff)

lemma require_str_Inr: "require_str v name = Inr s \<longleftrightarrow> v = PStr s \<and> s \<noteq> []"
  by (cases v) (auto simp: require_str_def refuse_def named_def)

text \<open>The answer passes on the provider's outcome, under the request's attempt.\<close>

definition passed_on :: "facts \<Rightarrow> helper_exn + facts \<Rightarrow> facts \<Rightarrow> bool" where
  "passed_on params d answer \<longleftrightarrow> (\<exists>m doc. get answer ''mutation'' = PDict m \<and> d = Inr doc \<and>
     get m ''attempt_id'' = get params ''attempt_id'' \<and> get m ''outcome'' = get doc ''outcome'')"

lemma passed_on_attempt:
  "passed_on params d answer \<Longrightarrow>
     \<exists>m. get answer ''mutation'' = PDict m \<and> get m ''attempt_id'' = get params ''attempt_id''"
  by (auto simp: passed_on_def)

lemma container_lifecycle_run:
  assumes "docker_container_lifecycle J A params w = (r, w')"
  shows "(w' = w \<and> (\<exists>e. r = Inl e)) \<or>
    (\<exists>target verb d. as_docker_lifecycle A target verb w = (d, w') \<and>
       verb \<in> set LIFECYCLE_ACTIONS \<and> get params ''action'' = PStr verb \<and>
       get params ''container_id'' = PStr target \<and>
       (\<exists>c \<in> set (as_capabilities A w). dc_status c \<noteq> CS_Unavailable \<and>
          dc_capability c = CAPABILITY_DOCKER_CONTAINER_LIFECYCLE) \<and>
       (\<forall>answer. r = Inr answer \<longrightarrow> passed_on params d answer))"
  using assms unfolding docker_container_lifecycle_def
proof (cases rule: checked_cases)
  case (2 x)
  then obtain t c a where x: "x = (t, c, a)" "get params ''attempt_id'' = PStr t"
    "get params ''container_id'' = PStr c" "require_action J (get params ''action'') = Inr a"
    "require_capability (as_capabilities A w) CAPABILITY_DOCKER_CONTAINER_LIFECYCLE = Inr ()"
    by (auto simp: bindE_Inr require_str_Inr)
  obtain d v where d: "as_docker_lifecycle A c a w = (d, v)" by (meson surj_pair)
  show ?thesis
    using 2(2) x d require_action_closed [OF x(4)] require_capability_usable [OF x(5)]
    by (auto simp: bindE_Inr answer_with_def get_updated passed_on_def)
qed auto

lemma service_lifecycle_run:
  assumes "systemd_service_lifecycle J A params w = (r, w')"
  shows "(w' = w \<and> (\<exists>e. r = Inl e)) \<or>
    (\<exists>target verb d. as_systemd_lifecycle A target verb w = (d, w') \<and>
       verb \<in> set LIFECYCLE_ACTIONS \<and> get params ''action'' = PStr verb \<and>
       get params ''unit_id'' = PStr target \<and>
       (\<exists>c \<in> set (as_capabilities A w). dc_status c \<noteq> CS_Unavailable \<and>
          dc_capability c = SYSTEMD_SERVICE_LIFECYCLE) \<and>
       (\<forall>answer. r = Inr answer \<longrightarrow> passed_on params d answer))"
  using assms unfolding systemd_service_lifecycle_def
proof (cases rule: checked_cases)
  case (2 x)
  then obtain t u a where x: "x = (t, u, a)" "get params ''attempt_id'' = PStr t"
    "get params ''unit_id'' = PStr u" "require_action J (get params ''action'') = Inr a"
    "require_capability (as_capabilities A w) SYSTEMD_SERVICE_LIFECYCLE = Inr ()"
    by (auto simp: bindE_Inr require_str_Inr)
  obtain d v where d: "as_systemd_lifecycle A u a w = (d, v)" by (meson surj_pair)
  show ?thesis
    using 2(2) x d require_action_closed [OF x(4)] require_capability_usable [OF x(5)]
    by (auto simp: bindE_Inr answer_with_def get_updated passed_on_def)
qed auto

text \<open>
  The agent runs only the verbs of the protocol. A lifecycle request to the agent leaves the
  host alone and fails, or is exactly one call of the provider, with one of start, stop and restart,
  on a target the request names and while the agent's probe of that capability stands; and every
  answer that is a result repeats the request's own attempt.
\<close>

theorem lifecycle_runs_only_closed_verbs:
  assumes "method \<in> {METHOD_CONTAINER, METHOD_SERVICE}"
    and "agent_handle J A method params w = (r, w')"
  shows "(w' = w \<and> (\<exists>e. r = Inl e)) \<or>
    (\<exists>target verb d. (if method = METHOD_CONTAINER then as_docker_lifecycle A else as_systemd_lifecycle A)
         target verb w = (d, w') \<and>
       verb \<in> set LIFECYCLE_ACTIONS \<and> get params ''action'' = PStr verb \<and>
       get params (if method = METHOD_CONTAINER then ''container_id'' else ''unit_id'') = PStr target \<and>
       (\<exists>c \<in> set (as_capabilities A w). dc_status c \<noteq> CS_Unavailable \<and> dc_capability c =
          (if method = METHOD_CONTAINER then CAPABILITY_DOCKER_CONTAINER_LIFECYCLE else SYSTEMD_SERVICE_LIFECYCLE)) \<and>
       (\<forall>answer. r = Inr answer \<longrightarrow> (\<exists>m. get answer ''mutation'' = PDict m \<and>
          get m ''attempt_id'' = get params ''attempt_id'')))"
proof (cases "method = METHOD_CONTAINER")
  case True
  with assms(2) have "docker_container_lifecycle J A params w = (r, w')" by simp
  from container_lifecycle_run [OF this] True passed_on_attempt [of params] show ?thesis
    by (simp only: if_True refl) meson
next
  case False
  with assms have "method = METHOD_SERVICE" "systemd_service_lifecycle J A params w = (r, w')" by auto
  from service_lifecycle_run [OF this(2)] this(1) passed_on_attempt [of params] show ?thesis
    by (simp only: method_neq if_False) meson
qed

section \<open>The guard's handlers and the host's identity\<close>

text \<open>
  Releasing a guard reads the host's identity first: where it cannot be read, the release is
  refused and the guard goes on holding its reversal. Arming reads it last: where it cannot be
  read then, the guard is held although the answer is an error.
\<close>

theorem release_needs_the_identity:
  assumes "as_identity A w = Inl e"
  shows "\<exists>e'. network_disarm_mtu_guard A params w = (Inl e', w)"
  using assms by (cases "guard_id_param params METHOD_DISARM_GUARD")
    (auto simp: network_disarm_mtu_guard_def checked_def)

theorem armed_though_answered_with_an_error:
  assumes "network_arm_mtu_guard A params w = (Inr answer, w')"
  shows "network_arm_mtu_guard (A\<lparr>as_identity := \<lambda>_. Inl e\<rparr>) params w = (Inl e, w')"
  using assms unfolding network_arm_mtu_guard_def
  by (cases rule: checked_cases)
    (auto simp: checked_def refuse_def split: sum.splits prod.splits guard_refusal.splits)

end
