(* ===== verification/Path_Samples.thy ===== *)
theory Path_Samples
  imports Write_Path Sample_System
begin

text \<open>
  The properties of the executors, the channel and the write path at concrete inputs: the interface
  of \<open>Sample_System\<close> with its index and MTU observed, an agent that answers every call, a JSON
  library that writes and reads a few documents, and sockets of several fates.
\<close>

section \<open>Executors\<close>

definition sample_reading_of :: "facts \<Rightarrow> object_record" where
  "sample_reading_of fs = sample_object\<lparr>oj_observation :=
     map_option (\<lambda>ob. ob\<lparr>ob_facts := fs\<rparr>) (oj_observation sample_object)\<rparr>"

definition sample_fresh :: object_record where
  "sample_fresh = sample_reading_of [(''ifindex'', PInt 2), (''mtu'', PInt 1500)]"

definition sample_answer :: facts where
  "sample_answer = [(''mutation'', PDict [(''outcome'', PStr ''written''), (''reason'', PStr ''acknowledged'')])]"

definition sample_services :: "bool host_services" where
  "sample_services = \<lparr>hv_agent = \<lambda>_ _ w. (Inr sample_answer, w),
     hv_refresh_network = \<lambda>_ w. (Inr ''s2'', w), hv_refresh_containers = \<lambda>w. (Inr ''s2'', w),
     hv_refresh_unit = \<lambda>_ w. (Inr ''s2'', w), hv_object = \<lambda>_ _. Some sample_fresh,
     hv_int = \<lambda>_. Inl (TypeError []), hv_render = \<lambda>_. [], hv_read = \<lambda>_. None\<rparr>"

definition sample_mutation :: mutation_request where
  "sample_mutation = \<lparr>mr_kind = CHANGE_KIND_FIELD, mr_attempt_id = ''attempt-1'',
     mr_correlation = [(''ifindex'', PInt 2), (''interface_name'', PStr ''eth1''),
       (''observation_id'', PStr ''o2'')],
     mr_expected_current = Some (VInt 1400), mr_desired = Some (VInt 1500), mr_action = None\<rparr>"

lemmas sample_executor_defs = sample_reading_of_def sample_fresh_def sample_object_def
  sample_services_def sample_mutation_def sample_answer_def

lemma sample_made: "made_by Network_Interface_Reconcile_Mtu sample_fresh sample_mutation"
  by (simp add: made_by_def correlate_mtu_Inr verb_of_def sample_executor_defs or_val_def)

theorem mutation_is_one_call_honestly_reported_witness:
  "\<exists>rep. fst (mutate_operation Network_Interface_Reconcile_Mtu sample_services sample_mutation True) = Inr rep \<and>
     rep_outcome rep = MO_Written \<and> rep_attempt_id rep = ''attempt-1''"
proof -
  have call: "hv_agent sample_services m p True = (Inr sample_answer, True)" for m p
    by (simp add: sample_services_def)
  have part: "get sample_answer ''mutation'' =
      PDict [(''outcome'', PStr ''written''), (''reason'', PStr ''acknowledged'')]"
    by (simp add: sample_answer_def)
  have "stated (as_dict (get sample_answer ''mutation'')) = MO_Written"
    by (simp add: part stated_def outcome_of_def)
  moreover have "mr_attempt_id sample_mutation = ''attempt-1''" by (simp add: sample_mutation_def)
  ultimately show ?thesis
    using mutation_is_one_call_honestly_reported [OF sample_made, of sample_services True] call part
    by (cases "fst (mutate_operation Network_Interface_Reconcile_Mtu sample_services sample_mutation True)")
      auto
qed

theorem call_addresses_what_was_observed_witness:
  "get (params_of Network_Interface_Reconcile_Mtu sample_mutation) ''ifindex'' = PInt 2 \<and>
   oj_observation sample_fresh \<noteq> None"
  using call_addresses_what_was_observed [OF sample_made]
  by (auto simp: sample_fresh_def sample_reading_of_def sample_object_def)

text \<open>An executor that reads as the operation's own, and reads back the wanted value.\<close>

definition reading_executor :: "operation_type \<Rightarrow> bool host_services \<Rightarrow> bool operation_executor" where
  "reading_executor op S = (sample_executor MO_Written VO_Verified id)
     \<lparr>xc_observe := observe_operation op S,
      xc_prove := \<lambda>fs e. case prove_operation op (hv_read S) fs e of
        Inr p \<Rightarrow> p | Inl _ \<Rightarrow> proof_state VO_Not_Attempted None None None\<rparr>"

lemma reading_executor_reads: "reads_as op S (reading_executor op S)"
  by (simp add: reads_as_def reading_executor_def split: sum.split)

definition wanted_mtu :: expectation where
  "wanted_mtu = \<lparr>ex_kind = CHANGE_KIND_FIELD, ex_correlation = [], ex_field = Some ''mtu'',
     ex_value_type = Some ''integer'', ex_value = Some (VInt 1500), ex_state = None\<rparr>"

lemma sample_read_back:
  "read_back (sample_env MO_Written VO_Verified id) sample_run
     (reading_executor Network_Interface_Reconcile_Mtu sample_services) wanted_mtu sample_state =
   (Inr \<lparr>rb_outcome = VO_Verified, rb_observation_id = Some ''o2'', rb_value = Some (VInt 1500),
      rb_state = None, rb_reason = None\<rparr>, sample_state)"
  by (simp add: read_back_def bindM_def world_def ask_def ret_def assertM_def sample_env_simps
      sample_run_def sample_preview_def sample_state_def reading_executor_def observe_mtu_def swept_def
      sample_executor_defs oa_taken_def prove_mtu_def vt_of_def wanted_mtu_def fact_of_def
      proof_state_def Let_def)

theorem verified_means_seen_witness:
  "shows_wanted Network_Interface_Reconcile_Mtu (\<lambda>_. None) [(''ifindex'', PInt 2), (''mtu'', PInt 1500)] wanted_mtu"
  using verified_means_seen [OF reading_executor_reads sample_read_back]
  by (auto simp: sample_state_def sample_executor_defs)

section \<open>The channel\<close>

text \<open>A JSON library for the documents of a list, each written as as many letters as its place.\<close>

definition listed_json :: "pyval list \<Rightarrow> json_env" where
  "listed_json vs = \<lparr>
     jn_dumps = \<lambda>v. (if v \<in> set vs then Inr (replicate (length (takeWhile (\<lambda>u. u \<noteq> v) vs)) (CHR ''x''))
        else Inl (ValueError [])),
     jn_loads = \<lambda>s. (if length s < length vs then Decoded (vs ! length s) else Undecodable []),
     jn_repr = \<lambda>_. [], jn_exn = \<lambda>_. []\<rparr>"

lemma listed_json_ok: "json_ok (listed_json vs)"
proof -
  have "length (takeWhile (\<lambda>u. u \<noteq> v) vs) < length vs \<and> vs ! length (takeWhile (\<lambda>u. u \<noteq> v) vs) = v"
    if "v \<in> set vs" for v
    using that by (induction vs) auto
  then show ?thesis by (auto simp: json_ok_def listed_json_def newline_def split: if_splits)
qed

definition hello_json :: json_env where
  "hello_json = listed_json [PDict (request_payload HELPER_CODEC ''r1'' HELPER_HELLO None),
     PDict (ok_payload HELPER_CODEC ''r1'' [(''can_configure_network'', PBool True)])]"

lemma hello_frames:
  "codec_request hello_json HELPER_CODEC ''r1'' HELPER_HELLO None = Inr [newline]"
  "codec_ok hello_json HELPER_CODEC ''r1'' [(''can_configure_network'', PBool True)] = Inr [CHR ''x'', newline]"
  by (simp_all add: codec_request_def codec_ok_def frame_def hello_json_def listed_json_def
      HELPER_CODEC_def request_payload_def ok_payload_def)

theorem request_round_trip_witness:
  "decode_request hello_json HELPER_CODEC [] = Inr (''r1'', HELPER_HELLO, [])"
  using request_round_trip [of hello_json HELPER_CODEC "''r1''" HELPER_HELLO None "[newline]"]
    hello_frames helper_codec listed_json_ok
  by (simp add: hello_json_def params_allowed_def HELPER_CODEC_def HELPER_PARAMS_def)

theorem response_is_exclusive_witness:
  "\<exists>payload. jn_loads hello_json [CHR ''x''] = Decoded (PDict payload) \<and> has_key payload ''result'' \<and>
     \<not> has_key payload ''error''"
proof -
  have "decode_response hello_json HELPER_CODEC [CHR ''x''] =
      Inr (''r1'', True, Some [(''can_configure_network'', PBool True)], None)"
    by (simp add: decode_response_def decode_object_def hello_json_def listed_json_def HELPER_CODEC_def
        ok_payload_def only_keys_def unknown_keys_def require_version_def read_request_id_def has_key_def)
  from response_is_exclusive [OF this] show ?thesis by auto
qed

definition local_channel :: channel where
  "local_channel = \<lparr>ch_socket = ''/run/s'', ch_timeout_text = ''10'', ch_unavailable = ''unavailable'',
     ch_timeout_code = ''timeout''\<rparr>"

definition root_only :: "codec \<Rightarrow> line_server" where
  "root_only C = \<lparr>lv_codec = C, lv_allowed_uids = [0], lv_allowed_gids = []\<rparr>"

definition root_peer :: peer where
  "root_peer = \<lparr>pe_pid = 1, pe_uid = 0, pe_gid = 0\<rparr>"

lemma unheard_call:
  assumes "codec_request J C i m params = Inr out"
  shows "ipc_call J C local_channel (socket_to (Unheard Timed_Out) server) i m params w =
    (socket_failed local_channel m Timed_Out True, snd (server out w))"
  using assms by (simp add: ipc_call_def socket_to_def)

theorem call_is_a_delivery_witness:
  "\<exists>dl. deliver dl (helper_handle hello_json ideal_env [] HELPER_HELLO [])
     (\<lparr>hs_sequence = 0, hs_attempts = []\<rparr>, [2 \<mapsto> 1400]) =
     (Inl True, \<lparr>hs_sequence = 0, hs_attempts = []\<rparr>, [2 \<mapsto> 1400])"
proof -
  let ?st = "(\<lparr>hs_sequence = 0, hs_attempts = []\<rparr>, [2 \<mapsto> 1400]) :: helper_state \<times> (int \<rightharpoonup> nat)"
  let ?server = "serve_connection hello_json (root_only HELPER_CODEC)
      (helper_handle hello_json ideal_env []) (Some root_peer)"
  obtain v where v: "snd (?server [newline] ?st) = v" by blast
  have c: "ipc_call hello_json HELPER_CODEC local_channel (socket_to (Unheard Timed_Out) ?server)
      ''r1'' HELPER_HELLO None ?st = (socket_failed local_channel HELPER_HELLO Timed_Out True, v)"
    using unheard_call [OF hello_frames(1), of ?server ?st] v by simp
  have "\<not> (\<exists>e. socket_failed local_channel HELPER_HELLO Timed_Out True = Inl (Call_Raised e))"
    by (simp add: socket_failed_def failed_def Let_def)
  with call_is_a_delivery [OF _ _ _ _ _ c] obtain dl x where d:
    "news (socket_failed local_channel HELPER_HELLO Timed_Out True :: call_exn + facts) = Some x"
    "deliver dl (helper_handle hello_json ideal_env [] HELPER_HELLO []) ?st = (x, v)"
    using listed_json_ok helper_codec(1)
    by (auto simp: hello_json_def root_only_def possible_def)
  from d(1) have x: "x = Inl True" by simp
  from d(2) have "v = ?st" by (auto simp: deliver_def helper_handle_def split: delivery.splits)
  with d x show ?thesis by auto
qed

section \<open>The write path\<close>

type_synonym sample_host = "helper_state \<times> (int \<rightharpoonup> nat)"

definition path_json :: json_env where
  "path_json = listed_json
     [PDict (request_payload AGENT_CODEC ''r2'' METHOD_SET_MTU
        (Some (client_params (asked_write sample_mutation 2)))),
      PDict (request_payload HELPER_CODEC ''r3'' HELPER_SET_MTU
        (Some (client_params (asked_write sample_mutation 2))))]"

definition sample_helper_hop :: "(int \<rightharpoonup> nat) helper_hop" where
  "sample_helper_hop = \<lparr>hh_json = path_json, hh_channel = local_channel,
     hh_server = root_only HELPER_CODEC, hh_peer = Some root_peer, hh_fate = Unheard Timed_Out,
     hh_request_id = ''r3'', hh_kernel = ideal_env, hh_hello = []\<rparr>"

definition sample_agent :: "sample_host agent_services" where
  "sample_agent = \<lparr>as_instance_id = ''agent_1'',
     as_capabilities = \<lambda>_. [\<lparr>dc_capability = CAPABILITY_SET_MTU, dc_status = CS_Available,
         dc_reason = None, dc_detail = []\<rparr>,
       \<lparr>dc_capability = CAPABILITY_DOCKER_CONTAINER_LIFECYCLE, dc_status = CS_Available,
         dc_reason = None, dc_detail = []\<rparr>],
     as_identity = \<lambda>_. Inr ''h'', as_set_interface_mtu = helper_write sample_helper_hop,
     as_guard_arm = \<lambda>_ w. (Inl (Guard_Refusal [] []), w), as_guard_disarm = \<lambda>_ w. ([], w),
     as_guard_status = \<lambda>_ _. [],
     as_docker_lifecycle = \<lambda>_ _ w. (Inr [(''outcome'', PStr ''written'')], w),
     as_systemd_lifecycle = \<lambda>_ _ w. (Inr [(''outcome'', PStr ''written'')], w),
     as_manager_version = \<lambda>_. PNone, as_unit_name = \<lambda>_. Inr (),
     as_read = \<lambda>_ _ w. (Inr [], w)\<rparr>"

definition sample_agent_hop :: "sample_host agent_hop" where
  "sample_agent_hop = \<lparr>ah_json = path_json, ah_channel = local_channel,
     ah_server = root_only AGENT_CODEC, ah_peer = Some root_peer, ah_fate = Unheard Timed_Out,
     ah_request_id = ''r2'', ah_agent = sample_agent\<rparr>"

definition path_services :: "sample_host host_services" where
  "path_services = \<lparr>hv_agent = agent_call sample_agent_hop,
     hv_refresh_network = \<lambda>_ w. (Inr ''s2'', w), hv_refresh_containers = \<lambda>w. (Inr ''s2'', w),
     hv_refresh_unit = \<lambda>_ w. (Inr ''s2'', w), hv_object = \<lambda>_ _. Some sample_fresh,
     hv_int = \<lambda>_. Inl (TypeError []), hv_render = \<lambda>_. [], hv_read = \<lambda>_. None\<rparr>"

lemma sample_hops_ok: "hop_ok sample_helper_hop id" "agent_hop_ok sample_agent_hop"
  using ideal_kernel_ok listed_json_ok
  by (simp_all add: hop_ok_def agent_hop_ok_def sample_helper_hop_def sample_agent_hop_def path_json_def
      root_only_def possible_def)

lemma path_frame:
  "codec_request path_json AGENT_CODEC ''r2'' METHOD_SET_MTU
     (Some (client_params (asked_write sample_mutation 2))) = Inr [newline]"
  by (simp add: codec_request_def frame_def path_json_def listed_json_def AGENT_CODEC_def AGENT_METHODS_def)

lemma path_index: "index_of path_services (mr_correlation sample_mutation) = Inr 2"
  by (simp add: index_of_def sample_mutation_def as_int_def)

lemma path_call:
  "\<exists>v. agent_call sample_agent_hop METHOD_SET_MTU (client_params (asked_write sample_mutation 2)) st =
     (socket_failed local_channel METHOD_SET_MTU Timed_Out True, v)"
  by (simp add: agent_call_def sample_agent_hop_def unheard_call [OF path_frame])

theorem reported_write_is_true_of_the_host_witness:
  "\<exists>rep hs h. mutate_mtu path_services sample_mutation (\<lparr>hs_sequence = 0, hs_attempts = []\<rparr>, [2 \<mapsto> 1400]) =
      (Inr rep, hs, h) \<and> rep_outcome rep = MO_Write_Unknown \<and>
     outcome_true MO_Write_Unknown (asked_write sample_mutation 2) [2 \<mapsto> 1400] h"
proof -
  let ?st = "(\<lparr>hs_sequence = 0, hs_attempts = []\<rparr>, [2 \<mapsto> 1400]) :: sample_host"
  obtain hs h where c: "agent_call sample_agent_hop METHOD_SET_MTU
      (client_params (asked_write sample_mutation 2)) ?st =
      (socket_failed local_channel METHOD_SET_MTU Timed_Out True, hs, h)"
    using path_call [of ?st] by auto
  have s: "hv_agent path_services = agent_call sample_agent_hop" by (simp add: path_services_def)
  obtain rep where rep: "mutate_mtu path_services sample_mutation ?st = (Inr rep, hs, h)"
    "rep_outcome rep = MO_Write_Unknown"
    using c by (auto simp: mutate_mtu_def path_index asked_params s report_of_def socket_failed_def
        failed_def failed_call_def Let_def)
  have "outcome_true (rep_outcome rep) (asked_write sample_mutation 2) (id [2 \<mapsto> 1400]) (id h)"
    by (rule reported_write_is_true_of_the_host [OF sample_hops_ok(2,1) _ s path_index _ rep(1)])
      (simp_all add: sample_agent_hop_def sample_agent_def)
  with rep show ?thesis by auto
qed

lemma sample_lifecycle:
  "\<exists>r. agent_handle path_json sample_agent METHOD_CONTAINER
     [(''attempt_id'', PStr ''a1''), (''container_id'', PStr ''c1''), (''action'', PStr ''stop'')]
     (\<lparr>hs_sequence = 0, hs_attempts = []\<rparr>, [2 \<mapsto> 1400]) =
   (Inr r, (\<lparr>hs_sequence = 0, hs_attempts = []\<rparr>, [2 \<mapsto> 1400]))"
  by (simp add: docker_container_lifecycle_def checked_def reject_unknown_params_def unknown_keys_def
      require_capability_def sample_agent_def require_str_def require_action_def LIFECYCLE_ACTIONS_def
      CAPABILITY_SET_MTU_def CAPABILITY_DOCKER_CONTAINER_LIFECYCLE_def Let_def)

theorem lifecycle_runs_only_closed_verbs_witness:
  "\<exists>answer m. fst (agent_handle path_json sample_agent METHOD_CONTAINER
     [(''attempt_id'', PStr ''a1''), (''container_id'', PStr ''c1''), (''action'', PStr ''stop'')]
     (\<lparr>hs_sequence = 0, hs_attempts = []\<rparr>, [2 \<mapsto> 1400])) = Inr answer \<and>
     get answer ''mutation'' = PDict m \<and> get m ''attempt_id'' = PStr ''a1''"
proof -
  obtain r where r: "agent_handle path_json sample_agent METHOD_CONTAINER
     [(''attempt_id'', PStr ''a1''), (''container_id'', PStr ''c1''), (''action'', PStr ''stop'')]
     (\<lparr>hs_sequence = 0, hs_attempts = []\<rparr>, [2 \<mapsto> 1400]) =
   (Inr r, (\<lparr>hs_sequence = 0, hs_attempts = []\<rparr>, [2 \<mapsto> 1400]))"
    using sample_lifecycle by blast
  from lifecycle_runs_only_closed_verbs [OF _ r] r show ?thesis by auto
qed

end
