(* ===== verification/Lifecycle_Dispatch.thy ===== *)
theory Lifecycle_Dispatch
  imports Agent_Service Management_Path
begin

text \<open>
  The two calls of the host's agent that start, stop and restart: \<open>DockerProvider.lifecycle\<close>
  (\<open>src/localplane/agent/providers/docker.py\<close>) and \<open>SystemdProvider.dispatch_service_lifecycle\<close>
  (\<open>src/localplane/agent/providers/systemd.py\<close>). Docker's daemon is reached by one HTTP request over
  a socket (\<open>docker_env\<close>), the system manager by a few D-Bus calls on one connection
  (\<open>systemd_bus\<close>), each of which may raise; \<open>bus_exn\<close> distinguishes the exceptions the code does.
\<close>

section \<open>Docker\<close>

definition STOP_TIMEOUT_S :: string where "STOP_TIMEOUT_S = ''10''"
definition DOCKER_METHOD :: string where "DOCKER_METHOD = ''unix_socket_http''"

text \<open>
  \<open>_CONTAINER_ID.match\<close>: twelve to sixty-four lowercase hexadecimal digits; the pattern's \<open>$\<close> also
  matches before a final newline.
\<close>

definition is_container_id :: "string \<Rightarrow> bool" where
  "is_container_id s \<longleftrightarrow>
     (let t = (if s \<noteq> [] \<and> last s = newline then butlast s else s) in
      12 \<le> length t \<and> length t \<le> 64 \<and> list_all lower_hex t)"

definition container_path :: "string \<Rightarrow> string \<Rightarrow> string option" where
  "container_path c suffix = (if is_container_id c then Some (''/containers/'' @ c @ suffix) else None)"

text \<open>What comes of one request: not connected, broken off after the connection, or answered.\<close>

datatype http_exn = Permission_Denied string | Not_Answering string | Socket_Broken string | Http_Protocol string

datatype http_event = Not_Connected http_exn | Broken_Off http_exn | Http_Answer int string

record 'w docker_env =
  dk_post :: "string \<Rightarrow> 'w \<Rightarrow> http_event \<times> 'w"
  dk_loads :: "string \<Rightarrow> decoded"
  dk_lenient :: "string \<Rightarrow> string"

record docker_failure =
  df_reason :: string
  df_detail :: facts
  df_dispatched :: bool
  df_http_status :: "int option"

definition docker_failed :: "http_exn \<Rightarrow> bool \<Rightarrow> docker_failure" where
  "docker_failed x dispatched =
     (let f = (\<lambda>reason text. \<lparr>df_reason = reason, df_detail = [(''error'', PStr text)],
                 df_dispatched = dispatched, df_http_status = None\<rparr>) in
      case x of Permission_Denied t \<Rightarrow> f ''permission_denied'' t
      | Not_Answering t \<Rightarrow> f ''daemon_not_answering'' t
      | Socket_Broken t \<Rightarrow> f ''socket_error'' t
      | Http_Protocol t \<Rightarrow> f ''http_protocol_error'' t)"

definition MAX_RESPONSE_BYTES :: nat where "MAX_RESPONSE_BYTES = 8 * 1024 * 1024"

definition docker_post ::
  "'w docker_env \<Rightarrow> string \<Rightarrow> 'w \<Rightarrow> (docker_failure + int \<times> string) \<times> 'w" where
  "docker_post D url w =
     (case dk_post D url w of
        (Not_Connected x, w') \<Rightarrow> (Inl (docker_failed x False), w')
      | (Broken_Off x, w') \<Rightarrow> (Inl (docker_failed x True), w')
      | (Http_Answer status body, w') \<Rightarrow> (Inr (status, take MAX_RESPONSE_BYTES body), w'))"

definition daemon_message :: "'w docker_env \<Rightarrow> string \<Rightarrow> py_error + pyval" where
  "daemon_message D body =
     (if body = [] then Inr PNone
      else case dk_loads D body of
          Decoding_Raised e \<Rightarrow> Inl e
        | Undecodable _ \<Rightarrow> Inr (opt_text (let t = dk_lenient D body in if t = [] then None else Some t))
        | Decoded v \<Rightarrow> Inr (case v of
            PDict d \<Rightarrow> (case get d ''message'' of PStr s \<Rightarrow> PStr (take 512 s) | _ \<Rightarrow> PNone)
          | _ \<Rightarrow> PNone))"

record docker_result =
  dr_outcome :: string
  dr_reason :: string
  dr_action :: string
  dr_container_id :: string
  dr_http_status :: "int option"
  dr_detail :: facts

definition docker_result_dict :: "docker_result \<Rightarrow> facts" where
  "docker_result_dict r =
     [(''outcome'', PStr (dr_outcome r)), (''reason'', PStr (dr_reason r)),
      (''action'', PStr (dr_action r)), (''container_id'', PStr (dr_container_id r)),
      (''http_status'', opt_int (dr_http_status r)), (''provider'', PStr PROVIDER_DOCKER),
      (''method'', PStr DOCKER_METHOD), (''detail'', PDict (dr_detail r))]"

definition lifecycle_url :: "string \<Rightarrow> string \<Rightarrow> string" where
  "lifecycle_url path action =
     (if action = ''stop'' \<or> action = ''restart'' then path @ ''?t='' @ STOP_TIMEOUT_S else path)"

text \<open>What an answered request says of the host, by its status.\<close>

definition status_outcome :: "int \<Rightarrow> string \<times> string" where
  "status_outcome status =
     (if status = 204 then (''written'', ''daemon_acknowledged'')
      else if status = 304 then (''not_written'', ''already_in_that_state'')
      else if status = 400 then (''not_written'', ''bad_request'')
      else if status = 404 then (''not_written'', ''container_not_found'')
      else if status = 409 then (''not_written'', ''conflict'')
      else (''write_unknown'', ''daemon_error''))"

definition docker_lifecycle ::
  "'w docker_env \<Rightarrow> string \<Rightarrow> string \<Rightarrow> 'w \<Rightarrow> (py_error + docker_result) \<times> 'w" where
  "docker_lifecycle D container_id action w =
     (let result = (\<lambda>(outcome, reason) status detail.
        \<lparr>dr_outcome = outcome, dr_reason = reason, dr_action = action, dr_container_id = container_id,
         dr_http_status = status, dr_detail = detail\<rparr>) in
      if action \<notin> set LIFECYCLE_ACTIONS then (Inl (ValueError ''unsupported lifecycle action''), w)
      else case container_path container_id (''/'' @ action) of
        None \<Rightarrow> (Inr (result (''not_written'', ''invalid_container_id'') None
                  [(''error'', PStr ''a container id must be 12 to 64 lowercase hexadecimal characters'')]), w)
      | Some path \<Rightarrow>
         (case docker_post D (lifecycle_url path action) w of
            (Inl f, w') \<Rightarrow>
              (Inr (result (if df_dispatched f then ''write_unknown'' else ''not_written'', df_reason f)
                 (df_http_status f)
                 (updated (df_detail f) [(''dispatched'', PBool (df_dispatched f))])), w')
          | (Inr (status, body), w') \<Rightarrow>
              (bindE (daemon_message D body) (\<lambda>message.
                 Inr (result (status_outcome status) (Some status)
                   [(''daemon_message'', message), (''dispatched'', PBool True)])), w')))"

section \<open>The system manager\<close>

text \<open>What a bus call may raise, and the document the code makes of it.\<close>

datatype bus_exn =
    Unit_Absent string
  | Error_Reply string
  | OS_Failure string "int option"
  | Provider_Failure string facts
  | Other_Failure string string

definition failure_detail :: "bus_exn \<Rightarrow> facts" where
  "failure_detail x = (case x of
     Unit_Absent t \<Rightarrow> [(''error_type'', PStr ''_LoadedUnitAbsent''), (''error'', PStr (take 512 t))]
   | Error_Reply n \<Rightarrow> [(''error_type'', PStr ''DBusErrorResponse''), (''dbus_error'', PStr n)]
   | OS_Failure t n \<Rightarrow> [(''error_type'', PStr t), (''errno'', opt_int n)]
   | Provider_Failure r d \<Rightarrow>
       updated (updated [(''error_type'', PStr ''SystemdFailure'')] d) [(''reason'', PStr r)]
   | Other_Failure t m \<Rightarrow> [(''error_type'', PStr t), (''error'', PStr (take 512 m))])"

text \<open>Unit names: \<open>[^/\0\r\n]{1,255}\<close>, one of six suffixes, no glob.\<close>

definition is_unit_name :: "string \<Rightarrow> bool" where
  "is_unit_name s \<longleftrightarrow> s \<noteq> [] \<and> length s \<le> 255 \<and>
     list_all (\<lambda>c. c \<notin> {CHR ''/'', CHR 0x00, CHR 0x0D, newline}) s"

definition SUPPORTED_UNIT_SUFFIXES :: "string list" where
  "SUPPORTED_UNIT_SUFFIXES = [''.service'', ''.socket'', ''.timer'', ''.target'', ''.path'', ''.mount'']"

definition unit_type_of :: "string \<Rightarrow> string option" where
  "unit_type_of u = map_option (drop 1) (find (endswith u) SUPPORTED_UNIT_SUFFIXES)"

definition validate_unit_name :: "string \<Rightarrow> string + unit" where
  "validate_unit_name u =
     (if \<not> is_unit_name u then Inl ''unit_id must be one systemd unit name, not a path''
      else if \<not> list_ex (endswith u) SUPPORTED_UNIT_SUFFIXES
      then Inl ''unit_id must name a supported service, socket, timer, target, path or mount unit''
      else if list_ex (\<lambda>c. c \<in> set u) ''*?[''
      then Inl ''unit_id must not contain a glob expression'' else Inr ())"

definition SYSTEMD_LIFECYCLE_UNIT_TYPE :: string where "SYSTEMD_LIFECYCLE_UNIT_TYPE = ''service''"

definition validate_service_unit_name :: "(pyval \<Rightarrow> string) \<Rightarrow> string \<Rightarrow> string + unit" where
  "validate_service_unit_name repr u =
     bindE (validate_unit_name u) (\<lambda>_.
     if unit_type_of u \<noteq> Some SYSTEMD_LIFECYCLE_UNIT_TYPE
     then Inl (''systemd lifecycle acts only on service units: '' @ repr (PStr u)) else Inr ())"

text \<open>One connection to the manager. A unit's \<open>Start\<close>, \<open>Stop\<close> or \<open>Restart\<close> answers with a job's path.\<close>

datatype job_signal = Malformed_Signal | Job_Removed int string string string

record 'w systemd_bus =
  sb_now :: "'w \<Rightarrow> string"
  sb_runtime_path :: "string option"
  sb_runtime_exists :: "'w \<Rightarrow> bool"
  sb_open :: "'w \<Rightarrow> (bus_exn + unit) \<times> 'w"
  sb_close :: "'w \<Rightarrow> (bus_exn + unit) \<times> 'w"
  sb_subscribe :: "'w \<Rightarrow> (bus_exn + unit) \<times> 'w"
  sb_watch :: "'w \<Rightarrow> (bus_exn + unit) \<times> 'w"
  sb_unwatch :: "'w \<Rightarrow> (bus_exn + unit) \<times> 'w"
  sb_get_unit :: "string \<Rightarrow> 'w \<Rightarrow> (bus_exn + string) \<times> 'w"
  sb_properties :: "string \<Rightarrow> 'w \<Rightarrow> (bus_exn + facts) \<times> 'w"
  sb_check_owner :: "'w \<Rightarrow> (bus_exn + unit) \<times> 'w"
  sb_unit_call :: "string \<Rightarrow> string \<Rightarrow> 'w \<Rightarrow> (bus_exn + string) \<times> 'w"
  sb_signals :: "'w \<Rightarrow> (job_signal list \<times> bus_exn option) \<times> 'w"
  sb_repr :: "pyval \<Rightarrow> string"

definition LIFECYCLE_UNIT_METHOD_FOR :: "(string \<times> string) list" where
  "LIFECYCLE_UNIT_METHOD_FOR = [(''start'', ''Start''), (''stop'', ''Stop''), (''restart'', ''Restart'')]"

definition SYSTEMD_DISPATCH_MODE :: string where "SYSTEMD_DISPATCH_MODE = ''fail''"
definition JOB_RESULT_DONE :: string where "JOB_RESULT_DONE = ''done''"

definition AUTHORIZATION_ERRORS :: "string list" where
  "AUTHORIZATION_ERRORS = [''org.freedesktop.DBus.Error.AccessDenied'',
     ''org.freedesktop.DBus.Error.InteractiveAuthorizationRequired'',
     ''org.freedesktop.DBus.Error.AuthFailed'']"

definition environment_unavailable :: "'w systemd_bus \<Rightarrow> 'w \<Rightarrow> (string \<times> facts) option" where
  "environment_unavailable B w =
     (case sb_runtime_path B of
        None \<Rightarrow> None
      | Some p \<Rightarrow> if sb_runtime_exists B w then None
          else Some (''systemd_system_manager_absent'',
                 [(''runtime_path'', PStr p), (''manager_scope'', PStr ''system'')]))"

text \<open>An invocation identifier is sixteen bytes in hexadecimal; bytes are a list of small integers.\<close>

fun byte_of :: "pyval \<Rightarrow> nat option" where
  "byte_of (PInt i) = (if 0 \<le> i \<and> i \<le> 255 then Some (nat i) else None)"
| "byte_of (PBool b) = Some (if b then 1 else 0)"
| "byte_of _ = None"

definition invocation_id :: "pyval \<Rightarrow> string option" where
  "invocation_id v = (case v of
     PList xs \<Rightarrow>
       if list_all (\<lambda>x. byte_of x \<noteq> None) xs then
         (let raw = map (\<lambda>x. the (byte_of x)) xs in
          if list_ex (\<lambda>b. b \<noteq> 0) raw
          then Some (concat (map (\<lambda>b. [hex_digit (b div 16), hex_digit (b mod 16)]) raw)) else None)
       else None
   | _ \<Rightarrow> None)"

text \<open>The answer to this job alone; the owner is looked up again before it is trusted.\<close>

definition is_answer :: "string \<Rightarrow> string \<Rightarrow> job_signal \<Rightarrow> bool" where
  "is_answer job unit m \<longleftrightarrow> (case m of Malformed_Signal \<Rightarrow> False | Job_Removed _ p u _ \<Rightarrow> p = job \<and> u = unit)"

definition result_for ::
  "'w systemd_bus \<Rightarrow> string \<Rightarrow> string \<Rightarrow> 'w \<Rightarrow> (bus_exn + (int \<times> string) option) \<times> 'w" where
  "result_for B job unit w =
     (case sb_signals B w of ((heard, end_of_wait), w') \<Rightarrow>
        (case find (is_answer job unit) heard of
           Some (Job_Removed i _ _ res) \<Rightarrow>
             (case sb_check_owner B w' of
                (Inl x, w'') \<Rightarrow> (Inl x, w'') | (Inr _, w'') \<Rightarrow> (Inr (Some (i, res)), w''))
         | _ \<Rightarrow> (case end_of_wait of None \<Rightarrow> Inr None | Some x \<Rightarrow> Inl x, w')))"

section \<open>Dispatching one job\<close>

record dispatch_result =
  ds_outcome :: string
  ds_reason :: string
  ds_action :: string
  ds_unit_id :: string
  ds_job_id :: "int option"
  ds_job_result :: "string option"
  ds_invocation_id :: "string option"
  ds_active_state :: "string option"
  ds_detail :: facts

definition dispatch_result_dict :: "dispatch_result \<Rightarrow> facts" where
  "dispatch_result_dict r =
     [(''outcome'', PStr (ds_outcome r)), (''reason'', PStr (ds_reason r)),
      (''action'', PStr (ds_action r)), (''unit_id'', PStr (ds_unit_id r)),
      (''job_id'', opt_int (ds_job_id r)), (''job_result'', opt_text (ds_job_result r)),
      (''invocation_id'', opt_text (ds_invocation_id r)),
      (''active_state'', opt_text (ds_active_state r)), (''detail'', PDict (ds_detail r))]"

text \<open>The variables of a dispatch that outlive an exception.\<close>

record dispatch_vars =
  dv_detail :: facts
  dv_job_path :: "string option"
  dv_invocation :: "string option"
  dv_active_state :: "string option"
  dv_completion :: "(int \<times> string) option"

definition without_job ::
  "string \<Rightarrow> string \<Rightarrow> string \<Rightarrow> string \<Rightarrow> facts \<Rightarrow> string option \<Rightarrow> string option \<Rightarrow> dispatch_result" where
  "without_job outcome action unit reason detail invocation active =
     \<lparr>ds_outcome = outcome, ds_reason = reason, ds_action = action, ds_unit_id = unit, ds_job_id = None,
      ds_job_result = None, ds_invocation_id = invocation, ds_active_state = active, ds_detail = detail\<rparr>"

definition not_dispatched ::
  "string \<Rightarrow> string \<Rightarrow> string \<Rightarrow> facts \<Rightarrow> string option \<Rightarrow> string option \<Rightarrow> dispatch_result" where
  "not_dispatched = without_job ''not_written''"

definition write_unknown ::
  "string \<Rightarrow> string \<Rightarrow> string \<Rightarrow> facts \<Rightarrow> string option \<Rightarrow> string option \<Rightarrow> dispatch_result" where
  "write_unknown = without_job ''write_unknown''"

text \<open>A step of the dispatch raises, returns a result, or goes on.\<close>

type_synonym 'w dispatching =
  "dispatch_vars \<Rightarrow> 'w \<Rightarrow> (bus_exn + dispatch_result option) \<times> dispatch_vars \<times> 'w"

definition step_of :: "('w \<Rightarrow> (bus_exn + 'a) \<times> 'w) \<Rightarrow> ('a \<Rightarrow> 'w dispatching) \<Rightarrow> 'w dispatching" where
  "step_of call k v w = (case call w of (Inl x, w') \<Rightarrow> (Inl x, v, w') | (Inr y, w') \<Rightarrow> k y v w')"

definition within :: "('w \<Rightarrow> (bus_exn + unit) \<times> 'w) \<Rightarrow> ('w \<Rightarrow> (bus_exn + unit) \<times> 'w) \<Rightarrow> 'w dispatching \<Rightarrow>
    'w dispatching" where
  "within enter exit body =
     step_of enter (\<lambda>_ v w. case body v w of (r, v', w') \<Rightarrow>
       (case exit w' of (Inl x, w'') \<Rightarrow> (Inl x, v', w'') | (Inr _, w'') \<Rightarrow> (r, v', w'')))"

text \<open>The one mutating call, and the wait for its job.\<close>

definition call_unit :: "'w systemd_bus \<Rightarrow> string \<Rightarrow> string \<Rightarrow> string \<Rightarrow> 'w dispatching" where
  "call_unit B action unit path v w =
     (case sb_unit_call B path action w of
        (Inl (Error_Reply n), w') \<Rightarrow>
          (Inr (Some (not_dispatched action unit
             (if n \<in> set AUTHORIZATION_ERRORS then ''authorization_denied'' else ''dispatch_refused'')
             (updated (dv_detail v) [(''dbus_error'', PStr n), (''authorization_decision_point'', PStr ''dispatch'')])
             (dv_invocation v) (dv_active_state v))), v, w')
      | (Inl x, w') \<Rightarrow>
          (Inr (Some (write_unknown action unit ''dispatch_answer_untrustworthy''
             (updated (dv_detail v) (failure_detail x)) (dv_invocation v) (dv_active_state v))), v, w')
      | (Inr job, w') \<Rightarrow>
          step_of (result_for B job unit) (\<lambda>c v w. (Inr None, v\<lparr>dv_completion := c\<rparr>, w))
            (v\<lparr>dv_job_path := Some job\<rparr>) w')"

definition watched_dispatch :: "'w systemd_bus \<Rightarrow> string \<Rightarrow> string \<Rightarrow> 'w dispatching" where
  "watched_dispatch B action unit v w =
     (case sb_get_unit B unit w of
        (Inl (Unit_Absent _), w') \<Rightarrow>
          (Inr (Some (not_dispatched action unit ''unit_not_loaded'' (dv_detail v) None None)), v, w')
      | (Inl x, w') \<Rightarrow> (Inl x, v, w')
      | (Inr path, w') \<Rightarrow>
          step_of (sb_properties B path) (\<lambda>p v w.
            let identity = named (get p ''Id''); load_state = named (get p ''LoadState'');
                invocation = invocation_id (get p ''InvocationID'');
                active = named (get p ''ActiveState'');
                v1 = v\<lparr>dv_invocation := invocation, dv_active_state := active\<rparr> in
            if identity \<noteq> Some unit \<or> load_state \<noteq> Some ''loaded''
            then (Inr (Some (not_dispatched action unit ''dispatch_identity_not_canonical''
                    (updated (dv_detail v1) [(''resolved_id'', opt_text identity), (''load_state'', opt_text load_state)])
                    None None)), v1, w)
            else step_of (sb_check_owner B) (\<lambda>_. call_unit B action unit path)
                   (v1\<lparr>dv_detail := updated (dv_detail v1) [(''invocation_id_at_dispatch'', opt_text invocation),
                      (''active_state_at_dispatch'', opt_text active)]\<rparr>) w) v w')"

definition dispatch_detail :: "string \<Rightarrow> string \<Rightarrow> facts" where
  "dispatch_detail action observed_at =
     [(''manager_scope'', PStr ''system''), (''transport'', PStr ''system_bus_dbus''),
      (''dispatch_interface'', PStr ''org.freedesktop.systemd1.Unit''),
      (''dispatch_member'', opt_text (map_of LIFECYCLE_UNIT_METHOD_FOR action)),
      (''mode'', PStr SYSTEMD_DISPATCH_MODE), (''loaded_unit_lookup'', PStr ''Manager.GetUnit''),
      (''transport_handle_persisted'', PBool False),
      (''authorization_preflight'', PStr ''not_preflighted''), (''observed_at'', PStr observed_at)]"

text \<open>What the dispatch concludes from an exception, and from a job that was heard of or not.\<close>

definition after_exception :: "string \<Rightarrow> string \<Rightarrow> dispatch_vars \<Rightarrow> bus_exn \<Rightarrow> dispatch_result" where
  "after_exception action unit v x =
     (let detail = updated (dv_detail v) (failure_detail x) in
      if dv_job_path v \<noteq> None
      then write_unknown action unit ''job_result_unobservable'' detail (dv_invocation v) (dv_active_state v)
      else not_dispatched action unit
             (case x of Error_Reply _ \<Rightarrow> ''systemd_refused_before_dispatch'' | _ \<Rightarrow> ''systemd_unreachable'')
             detail (dv_invocation v) (dv_active_state v))"

definition after_wait :: "string \<Rightarrow> string \<Rightarrow> dispatch_vars \<Rightarrow> dispatch_result" where
  "after_wait action unit v =
     (case dv_completion v of
        None \<Rightarrow> write_unknown action unit ''job_result_not_observed''
                  (updated (dv_detail v) [(''timeout_s'', POther 1)]) (dv_invocation v) (dv_active_state v)
      | Some (i, res) \<Rightarrow>
          \<lparr>ds_outcome = (if res = JOB_RESULT_DONE then ''written'' else ''write_unknown''),
           ds_reason = (if res = JOB_RESULT_DONE then ''job_completed'' else ''job_did_not_complete''),
           ds_action = action, ds_unit_id = unit, ds_job_id = Some i, ds_job_result = Some res,
           ds_invocation_id = dv_invocation v, ds_active_state = dv_active_state v,
           ds_detail = dv_detail v\<rparr>)"

definition dispatch_service_lifecycle ::
  "'w systemd_bus \<Rightarrow> string \<Rightarrow> string \<Rightarrow> 'w \<Rightarrow> dispatch_result \<times> 'w" where
  "dispatch_service_lifecycle B unit action w =
     (let detail = dispatch_detail action (sb_now B w) in
      if action \<notin> set LIFECYCLE_ACTIONS
      then (not_dispatched action unit ''unsupported_lifecycle_action''
              (updated detail [(''supported'', texts_of LIFECYCLE_ACTIONS)]) None None, w)
      else case validate_service_unit_name (sb_repr B) unit of
        Inl error \<Rightarrow>
          (not_dispatched action unit ''invalid_service_unit_name''
             (updated detail [(''required_unit_type'', PStr SYSTEMD_LIFECYCLE_UNIT_TYPE),
                (''error'', PStr error)]) None None, w)
      | Inr _ \<Rightarrow>
         (case environment_unavailable B w of
            Some (reason, why) \<Rightarrow> (not_dispatched action unit reason (updated detail why) None None, w)
          | None \<Rightarrow>
             (case within (sb_open B) (sb_close B)
                 (step_of (sb_subscribe B) (\<lambda>_. within (sb_watch B) (sb_unwatch B) (watched_dispatch B action unit)))
                 \<lparr>dv_detail = detail, dv_job_path = None, dv_invocation = None, dv_active_state = None,
                  dv_completion = None\<rparr> w of
                (Inl x, v, w') \<Rightarrow> (after_exception action unit v x, w')
              | (Inr (Some r), _, w') \<Rightarrow> (r, w')
              | (Inr None, v, w') \<Rightarrow> (after_wait action unit v, w'))))"

section \<open>As the agent calls them\<close>

definition docker_provider_call ::
  "'w docker_env \<Rightarrow> string \<Rightarrow> string \<Rightarrow> 'w \<Rightarrow> (helper_exn + facts) \<times> 'w" where
  "docker_provider_call D c action w =
     (case docker_lifecycle D c action w of
        (Inl e, w') \<Rightarrow> (Inl (Py_Exn e), w') | (Inr r, w') \<Rightarrow> (Inr (docker_result_dict r), w'))"

definition systemd_provider_call ::
  "'w systemd_bus \<Rightarrow> string \<Rightarrow> string \<Rightarrow> 'w \<Rightarrow> (helper_exn + facts) \<times> 'w" where
  "systemd_provider_call B unit action w =
     (case dispatch_service_lifecycle B unit action w of (r, w') \<Rightarrow> (Inr (dispatch_result_dict r), w'))"

definition service_unit_param :: "'w systemd_bus \<Rightarrow> string \<Rightarrow> helper_exn + unit" where
  "service_unit_param B unit =
     (case validate_service_unit_name (sb_repr B) unit of
        Inl error \<Rightarrow> refuse INVALID_PARAMS error
          [(''unit_id'', PStr unit), (''required_suffix'', PStr ''.service'')]
      | Inr _ \<Rightarrow> Inr ())"

end
