(* ===== verification/Lifecycle_Path.thy ===== *)
theory Lifecycle_Path
  imports Lifecycle_Dispatch Write_Path
begin

text \<open>
  Starting, stopping and restarting, from the executor to the daemon: the outcome the agent's two
  providers state of a lifecycle call is true of the jobs, or requests, that were carried out, and
  so is what the executor reports over a socket that may fail at any byte.
\<close>

section \<open>Docker's daemon\<close>

text \<open>
  \<open>log\<close> is what the daemon carried out, request by request. A request that never reached it is not
  in the log; the statuses of the API say what was; nothing is said of a connection that broke off.
\<close>

definition status_tells :: "('w \<Rightarrow> string list) \<Rightarrow> int \<Rightarrow> string \<Rightarrow> 'w \<Rightarrow> 'w \<Rightarrow> bool" where
  "status_tells log status url w w' \<longleftrightarrow>
     (if status = 204 then log w' = log w @ [url]
      else if status \<in> {304, 400, 404, 409} then log w' = log w
      else log w' = log w \<or> log w' = log w @ [url])"

definition daemon_ok :: "'w docker_env \<Rightarrow> ('w \<Rightarrow> string list) \<Rightarrow> bool" where
  "daemon_ok D log \<longleftrightarrow> (\<forall>url w e w'. dk_post D url w = (e, w') \<longrightarrow>
     (case e of
        Not_Connected _ \<Rightarrow> log w' = log w
      | Broken_Off _ \<Rightarrow> log w' = log w \<or> log w' = log w @ [url]
      | Http_Answer status _ \<Rightarrow> status_tells log status url w w'))"

definition carried_out :: "('w \<Rightarrow> 'j list) \<Rightarrow> ('j \<Rightarrow> bool) \<Rightarrow> ('j \<Rightarrow> 'w \<Rightarrow> bool) \<Rightarrow> mutation_outcome \<Rightarrow> 'w \<Rightarrow> 'w \<Rightarrow> bool" where
  "carried_out log ours finished outcome w w' \<longleftrightarrow> (case outcome of
     MO_Not_Written \<Rightarrow> log w' = log w
   | MO_Written \<Rightarrow> (\<exists>j. ours j \<and> log w' = log w @ [j] \<and> finished j w')
   | MO_Write_Unknown \<Rightarrow> log w' = log w \<or> (\<exists>j. ours j \<and> log w' = log w @ [j]))"

text \<open>An outcome in terms of a log of what was carried out is one an executor can pass on.\<close>

interpretation lifecycle_outcome: outcome_truth "carried_out log ours finished"
    for log :: "'w \<Rightarrow> 'j list" and ours finished
  by unfold_locales (auto simp: carried_out_def split: mutation_outcome.splits)

definition container_url :: "string \<Rightarrow> string \<Rightarrow> string" where
  "container_url c verb = lifecycle_url (''/containers/'' @ c @ ''/'' @ verb) verb"

abbreviation container_request :: "string \<Rightarrow> string \<Rightarrow> string \<Rightarrow> bool" where
  "container_request c verb \<equiv> \<lambda>url. url = container_url c verb"

lemma stated_word [simp]:
  "(\<exists>x. ''not_written'' = mo_str x \<and> P x) \<longleftrightarrow> P MO_Not_Written"
  "(\<exists>x. ''written'' = mo_str x \<and> P x) \<longleftrightarrow> P MO_Written"
  "(\<exists>x. ''write_unknown'' = mo_str x \<and> P x) \<longleftrightarrow> P MO_Write_Unknown"
proof -
  have mo: "(\<exists>x. Q x) \<longleftrightarrow> Q MO_Not_Written \<or> Q MO_Written \<or> Q MO_Write_Unknown" for Q
    by (rule iffI, erule exE, rename_tac x, case_tac x) auto
  show "(\<exists>x. ''not_written'' = mo_str x \<and> P x) \<longleftrightarrow> P MO_Not_Written"
    "(\<exists>x. ''written'' = mo_str x \<and> P x) \<longleftrightarrow> P MO_Written"
    "(\<exists>x. ''write_unknown'' = mo_str x \<and> P x) \<longleftrightarrow> P MO_Write_Unknown"
    unfolding mo by simp_all
qed

lemma status_outcome_true:
  assumes "status_tells log status url w w'"
  shows "\<exists>x. fst (status_outcome status) = mo_str x \<and> carried_out log (\<lambda>u. u = url) (\<lambda>_ _. True) x w w'"
proof -
  consider "status = 204" | "status \<in> {304, 400, 404, 409}" | "status \<notin> {204, 304, 400, 404, 409}"
    by blast
  then show ?thesis
    by cases (use assms in \<open>auto simp: status_outcome_def status_tells_def carried_out_def\<close>)
qed

lemma docker_lifecycle_true:
  assumes "daemon_ok D log" "docker_lifecycle D c verb w = (r, w')"
  shows "case r of
      Inl _ \<Rightarrow> carried_out log (container_request c verb) (\<lambda>_ _. True) MO_Write_Unknown w w'
    | Inr d \<Rightarrow> \<exists>x. dr_outcome d = mo_str x \<and>
        carried_out log (container_request c verb) (\<lambda>_ _. True) x w w'"
proof -
  note unmoved = lifecycle_outcome.unmoved [of log "container_request c verb" "\<lambda>_ _. True" w]
  show ?thesis
  proof (cases "verb \<in> set LIFECYCLE_ACTIONS \<and> is_container_id c")
    case False
    with assms(2) unmoved lifecycle_outcome.unknown [OF unmoved] show ?thesis
      by (auto simp: docker_lifecycle_def container_path_def Let_def split: if_splits)
  next
    case True
    then have path: "container_path c (''/'' @ verb) = Some (''/containers/'' @ c @ ''/'' @ verb)"
      by (simp add: container_path_def)
    obtain e v where e: "dk_post D (container_url c verb) w = (e, v)" by (meson surj_pair)
    from assms(1) e have ok: "case e of
        Not_Connected _ \<Rightarrow> log v = log w
      | Broken_Off _ \<Rightarrow> log v = log w \<or> log v = log w @ [container_url c verb]
      | Http_Answer status _ \<Rightarrow> status_tells log status (container_url c verb) w v"
      unfolding daemon_ok_def by blast
    show ?thesis
    proof (cases e)
      case (Http_Answer status body)
      with ok have s: "status_tells log status (container_url c verb) w v" by simp
      obtain x where x: "fst (status_outcome status) = mo_str x"
        "carried_out log (container_request c verb) (\<lambda>_ _. True) x w v"
        using status_outcome_true [OF s] by blast
      have "w' = v" "r = bindE (daemon_message D (take MAX_RESPONSE_BYTES body)) (\<lambda>message.
          Inr \<lparr>dr_outcome = fst (status_outcome status), dr_reason = snd (status_outcome status),
             dr_action = verb, dr_container_id = c, dr_http_status = Some status,
             dr_detail = [(''daemon_message'', message), (''dispatched'', PBool True)]\<rparr>)"
        using assms(2) True Http_Answer e path
        by (auto simp: docker_lifecycle_def docker_post_def container_url_def Let_def case_prod_unfold)
      with x lifecycle_outcome.unknown [OF x(2)] show ?thesis
        by (cases "daemon_message D (take MAX_RESPONSE_BYTES body)") auto
    qed (use assms(2) True e path ok in \<open>auto simp: docker_lifecycle_def docker_post_def docker_failed_def
          container_url_def Let_def carried_out_def split: http_exn.splits\<close>)
  qed
qed

section \<open>The system manager\<close>

text \<open>
  \<open>jobs\<close> is what the manager enqueued: the unit, the verb and the job's path; \<open>finished\<close> are the jobs it
  carried through. Only the mutating call enqueues, and an error reply to it means it did not; a
  unit object's \<open>Id\<close> is its name; the signal \<open>done\<close> is sent for finished jobs.
\<close>

type_synonym job = "string \<times> string \<times> string"

definition idle :: "('w \<Rightarrow> job list) \<Rightarrow> ('w \<Rightarrow> string set) \<Rightarrow> ('w \<Rightarrow> 'r \<times> 'w) \<Rightarrow> bool" where
  "idle jobs finished call \<longleftrightarrow>
     (\<forall>w r w'. call w = (r, w') \<longrightarrow> jobs w' = jobs w \<and> finished w \<subseteq> finished w')"

record 'w manager_view =
  mv_jobs :: "'w \<Rightarrow> job list"
  mv_finished :: "'w \<Rightarrow> string set"
  mv_unit_at :: "string \<Rightarrow> string"

definition enqueues :: "'w manager_view \<Rightarrow> string \<Rightarrow> string \<Rightarrow> string \<Rightarrow> 'w \<Rightarrow> 'w \<Rightarrow> bool" where
  "enqueues M unit verb job w w' \<longleftrightarrow> mv_jobs M w' = mv_jobs M w @ [(unit, verb, job)]"

definition manager_ok :: "'w systemd_bus \<Rightarrow> 'w manager_view \<Rightarrow> bool" where
  "manager_ok B M \<longleftrightarrow>
     (\<forall>call \<in> {sb_open B, sb_close B, sb_subscribe B, sb_watch B, sb_unwatch B, sb_check_owner B}.
        idle (mv_jobs M) (mv_finished M) call) \<and>
     (\<forall>u. idle (mv_jobs M) (mv_finished M) (sb_get_unit B u)) \<and>
     (\<forall>p. idle (mv_jobs M) (mv_finished M) (sb_properties B p)) \<and>
     idle (mv_jobs M) (mv_finished M) (sb_signals B) \<and>
     (\<forall>p w fs w' u. sb_properties B p w = (Inr fs, w') \<longrightarrow> get fs ''Id'' = PStr u \<longrightarrow> mv_unit_at M p = u) \<and>
     (\<forall>w heard e w' i job u. sb_signals B w = ((heard, e), w') \<longrightarrow>
        Job_Removed i job u JOB_RESULT_DONE \<in> set heard \<longrightarrow> job \<in> mv_finished M w') \<and>
     (\<forall>p verb w r w'. sb_unit_call B p verb w = (r, w') \<longrightarrow>
        (case r of
           Inr job \<Rightarrow> enqueues M (mv_unit_at M p) verb job w w'
         | Inl (Error_Reply _) \<Rightarrow> mv_jobs M w' = mv_jobs M w
         | Inl _ \<Rightarrow> mv_jobs M w' = mv_jobs M w \<or> (\<exists>job. enqueues M (mv_unit_at M p) verb job w w')))"

text \<open>Leaving the signal match and closing the connection raise nothing.\<close>

definition tidy :: "'w systemd_bus \<Rightarrow> bool" where
  "tidy B \<longleftrightarrow> (\<forall>w. fst (sb_unwatch B w) = Inr ()) \<and> (\<forall>w. fst (sb_close B w) = Inr ())"

definition unit_job :: "string \<Rightarrow> string \<Rightarrow> job \<Rightarrow> bool" where
  "unit_job unit verb j \<longleftrightarrow> (\<exists>job. j = (unit, verb, job))"

definition finished_job :: "'w manager_view \<Rightarrow> job \<Rightarrow> 'w \<Rightarrow> bool" where
  "finished_job M j w \<longleftrightarrow> snd (snd j) \<in> mv_finished M w"

abbreviation job_outcome :: "'w manager_view \<Rightarrow> string \<Rightarrow> string \<Rightarrow> mutation_outcome \<Rightarrow> 'w \<Rightarrow> 'w \<Rightarrow> bool" where
  "job_outcome M unit verb \<equiv> carried_out (mv_jobs M) (unit_job unit verb) (finished_job M)"

text \<open>Where a dispatch stands: no job yet, or its own job, and a completion that was heard of is true.\<close>

definition dispatching_at :: "'w manager_view \<Rightarrow> string \<Rightarrow> string \<Rightarrow> 'w \<Rightarrow> dispatch_vars \<Rightarrow> 'w \<Rightarrow> bool" where
  "dispatching_at M unit verb w0 v w \<longleftrightarrow>
     (case dv_job_path v of
        None \<Rightarrow> mv_jobs M w = mv_jobs M w0 \<and> dv_completion v = None
      | Some job \<Rightarrow> enqueues M unit verb job w0 w \<and>
          (\<forall>i. dv_completion v = Some (i, JOB_RESULT_DONE) \<longrightarrow> job \<in> mv_finished M w))"

definition dispatched :: "'w manager_view \<Rightarrow> string \<Rightarrow> string \<Rightarrow> 'w \<Rightarrow>
    (bus_exn + dispatch_result option) \<times> dispatch_vars \<times> 'w \<Rightarrow> bool" where
  "dispatched M unit verb w0 out \<longleftrightarrow> (case out of
     (Inr (Some d), v, w) \<Rightarrow> (\<exists>x. ds_outcome d = mo_str x \<and> job_outcome M unit verb x w0 w \<and> x \<noteq> MO_Written)
   | (Inr None, v, w) \<Rightarrow> dispatching_at M unit verb w0 v w \<and> dv_job_path v \<noteq> None
   | (Inl _, v, w) \<Rightarrow> dispatching_at M unit verb w0 v w)"

lemma dispatching_idle:
  assumes "idle (mv_jobs M) (mv_finished M) call" "call w = (r, w')" "dispatching_at M unit verb w0 v w"
  shows "dispatching_at M unit verb w0 v w'"
proof -
  have "mv_jobs M w' = mv_jobs M w" "mv_finished M w \<subseteq> mv_finished M w'"
    using assms(1,2) by (auto simp: idle_def)
  with assms(3) show ?thesis by (auto simp: dispatching_at_def enqueues_def split: option.splits)
qed

lemma dispatched_step:
  assumes "idle (mv_jobs M) (mv_finished M) call" "dispatching_at M unit verb w0 v w"
    and "\<And>y w'. call w = (Inr y, w') \<Longrightarrow> dispatching_at M unit verb w0 v w' \<Longrightarrow>
      dispatched M unit verb w0 (k y v w')"
  shows "dispatched M unit verb w0 (step_of call k v w)"
proof -
  obtain r w' where r: "call w = (r, w')" by (meson surj_pair)
  note d = dispatching_idle [OF assms(1) r assms(2)]
  show ?thesis
  proof (cases r)
    case (Inl x)
    with r d show ?thesis by (simp add: step_of_def dispatched_def)
  next
    case (Inr y)
    with r d assms(3) show ?thesis by (simp add: step_of_def)
  qed
qed

lemma dispatched_within:
  assumes "idle (mv_jobs M) (mv_finished M) enter" "idle (mv_jobs M) (mv_finished M) exit"
    and "\<And>w. fst (exit w) = Inr ()" "dispatching_at M unit verb w0 v w"
    and "\<And>w'. dispatching_at M unit verb w0 v w' \<Longrightarrow> dispatched M unit verb w0 (body v w')"
  shows "dispatched M unit verb w0 (within enter exit body v w)"
  unfolding within_def
proof (rule dispatched_step [OF assms(1,4)])
  fix y w' assume at: "dispatching_at M unit verb w0 v w'"
  obtain r v' w'' where b: "body v w' = (r, v', w'')" by (metis prod_cases3)
  obtain w3 where e: "exit w'' = (Inr (), w3)" using assms(3) [of w''] by (metis prod.collapse)
  have i: "mv_jobs M w3 = mv_jobs M w''" "mv_finished M w'' \<subseteq> mv_finished M w3"
    using assms(2) e by (auto simp: idle_def)
  have "dispatched M unit verb w0 (r, v', w'')" using assms(5) [OF at] b by simp
  then have "dispatched M unit verb w0 (r, v', w3)"
    using i dispatching_idle [OF assms(2) e]
    by (auto simp: dispatched_def carried_out_def finished_job_def split: sum.splits option.splits mutation_outcome.splits)
  then show "dispatched M unit verb w0 (case body v w' of (r, v', w') \<Rightarrow>
       (case exit w' of (Inl x, w'') \<Rightarrow> (Inl x, v', w'') | (Inr _, w'') \<Rightarrow> (r, v', w'')))"
    by (simp add: b e)
qed

lemma manager_okD:
  assumes "manager_ok B M"
  shows "idle (mv_jobs M) (mv_finished M) (sb_open B)" "idle (mv_jobs M) (mv_finished M) (sb_close B)"
    "idle (mv_jobs M) (mv_finished M) (sb_subscribe B)" "idle (mv_jobs M) (mv_finished M) (sb_watch B)"
    "idle (mv_jobs M) (mv_finished M) (sb_unwatch B)" "idle (mv_jobs M) (mv_finished M) (sb_check_owner B)"
    "idle (mv_jobs M) (mv_finished M) (sb_get_unit B u)" "idle (mv_jobs M) (mv_finished M) (sb_properties B p)"
    "idle (mv_jobs M) (mv_finished M) (sb_signals B)"
  using assms by (simp_all add: manager_ok_def)

lemma result_for_true:
  assumes ok: "manager_ok B M" and r: "result_for B job unit w = (r, w')"
  shows "mv_jobs M w' = mv_jobs M w \<and> mv_finished M w \<subseteq> mv_finished M w' \<and>
    (\<forall>i. r = Inr (Some (i, JOB_RESULT_DONE)) \<longrightarrow> job \<in> mv_finished M w')"
proof -
  obtain heard e v where s: "sb_signals B w = ((heard, e), v)" by (metis surj_pair)
  have v: "mv_jobs M v = mv_jobs M w" "mv_finished M w \<subseteq> mv_finished M v"
    using manager_okD(9) [OF ok] s unfolding idle_def by blast+
  show ?thesis
  proof (cases "find (is_answer job unit) heard")
    case None
    with r s v show ?thesis by (auto simp: result_for_def split: option.splits)
  next
    case (Some m)
    then have m: "m \<in> set heard" "is_answer job unit m" by (auto simp: find_Some_iff)
    from m(2) obtain i res where m': "m = Job_Removed i job unit res"
      by (cases m) (auto simp: is_answer_def)
    obtain c v' where c: "sb_check_owner B v = (c, v')" by (meson surj_pair)
    have v': "mv_jobs M v' = mv_jobs M v" "mv_finished M v \<subseteq> mv_finished M v'"
      using manager_okD(6) [OF ok] c unfolding idle_def by blast+
    have "job \<in> mv_finished M v" if "res = JOB_RESULT_DONE"
      using ok s m(1) m' that unfolding manager_ok_def by blast
    then show ?thesis
      using r s Some m' c v v' by (auto simp: result_for_def split: sum.splits)
  qed
qed

lemma call_unit_true:
  assumes ok: "manager_ok B M" and "mv_unit_at M p = unit" and "dispatching_at M unit verb w0 v w"
    and "dv_job_path v = None"
  shows "dispatched M unit verb w0 (call_unit B verb unit p v w)"
proof -
  have w: "mv_jobs M w = mv_jobs M w0" "dv_completion v = None"
    using assms(3,4) by (simp_all add: dispatching_at_def)
  obtain r w' where r: "sb_unit_call B p verb w = (r, w')" by (meson surj_pair)
  from ok r have c: "case r of
         Inr job \<Rightarrow> enqueues M unit verb job w w'
       | Inl (Error_Reply _) \<Rightarrow> mv_jobs M w' = mv_jobs M w
       | Inl _ \<Rightarrow> mv_jobs M w' = mv_jobs M w \<or> (\<exists>job. enqueues M unit verb job w w')"
    unfolding manager_ok_def assms(2) [symmetric] by blast
  show ?thesis
  proof (cases r)
    case (Inl x)
    have "mv_jobs M w' = mv_jobs M w0 \<or> (\<exists>j. unit_job unit verb j \<and> mv_jobs M w' = mv_jobs M w0 @ [j])"
      "(\<exists>n. x = Error_Reply n) \<longrightarrow> mv_jobs M w' = mv_jobs M w0"
      using c Inl w(1) by (auto simp: enqueues_def unit_job_def split: bus_exn.splits)
    with r Inl show ?thesis
      by (cases x) (auto simp: call_unit_def dispatched_def not_dispatched_def write_unknown_def
          without_job_def carried_out_def)
  next
    case (Inr job)
    with c w have j: "enqueues M unit verb job w0 w'" by (simp add: enqueues_def)
    obtain a v' where a: "result_for B job unit w' = (a, v')" by (meson surj_pair)
    from result_for_true [OF ok a] j w(2) show ?thesis
      by (cases a) (auto simp: call_unit_def r Inr step_of_def a dispatched_def dispatching_at_def enqueues_def)
  qed
qed

lemma watched_dispatch_true:
  assumes ok: "manager_ok B M" and "dispatching_at M unit verb w0 v w" and "dv_job_path v = None"
  shows "dispatched M unit verb w0 (watched_dispatch B verb unit v w)"
proof -
  obtain r w' where r: "sb_get_unit B unit w = (r, w')" by (meson surj_pair)
  note at = dispatching_idle [OF manager_okD(7) [OF ok] r assms(2)]
  have stopped: "dispatched M unit verb w0 (Inr (Some (not_dispatched verb unit reason d i a)), v', u)"
    if "mv_jobs M u = mv_jobs M w0" for reason d i a v' u
    using that by (simp add: dispatched_def not_dispatched_def without_job_def carried_out_def)
  show ?thesis
  proof (cases r)
    case (Inl x)
    with r at assms(3) stopped show ?thesis
      by (cases x) (auto simp: watched_dispatch_def dispatched_def dispatching_at_def)
  next
    case (Inr p)
    let ?k = "\<lambda>fs v w. let identity = named (get fs ''Id''); load_state = named (get fs ''LoadState'');
                invocation = invocation_id (get fs ''InvocationID'');
                active = named (get fs ''ActiveState'');
                v1 = v\<lparr>dv_invocation := invocation, dv_active_state := active\<rparr> in
            if identity \<noteq> Some unit \<or> load_state \<noteq> Some ''loaded''
            then (Inr (Some (not_dispatched verb unit ''dispatch_identity_not_canonical''
                    (updated (dv_detail v1) [(''resolved_id'', opt_text identity), (''load_state'', opt_text load_state)])
                    None None)), v1, w)
            else step_of (sb_check_owner B) (\<lambda>_. call_unit B verb unit p)
                   (v1\<lparr>dv_detail := updated (dv_detail v1) [(''invocation_id_at_dispatch'', opt_text invocation),
                      (''active_state_at_dispatch'', opt_text active)]\<rparr>) w"
    have "dispatched M unit verb w0 (step_of (sb_properties B p) ?k v w')"
    proof (rule dispatched_step [OF manager_okD(8) [OF ok] at])
      fix fs u
      assume fs: "sb_properties B p w' = (Inr fs, u)" and u: "dispatching_at M unit verb w0 v u"
      have jobs: "mv_jobs M u = mv_jobs M w0" using u assms(3) by (simp add: dispatching_at_def)
      show "dispatched M unit verb w0 (?k fs v u)"
      proof (cases "named (get fs ''Id'') = Some unit \<and> named (get fs ''LoadState'') = Some ''loaded''")
        case True
        then have "get fs ''Id'' = PStr unit" by (simp add: named_Some)
        with ok fs have unit: "mv_unit_at M p = unit" unfolding manager_ok_def by blast
        let ?v = "v\<lparr>dv_invocation := invocation_id (get fs ''InvocationID''),
            dv_active_state := named (get fs ''ActiveState''),
            dv_detail := updated (dv_detail v) [(''invocation_id_at_dispatch'',
                opt_text (invocation_id (get fs ''InvocationID''))),
              (''active_state_at_dispatch'', opt_text (named (get fs ''ActiveState'')))]\<rparr>"
        have v: "dispatching_at M unit verb w0 ?v u" "dv_job_path ?v = None"
          using u assms(3) by (simp_all add: dispatching_at_def)
        have "dispatched M unit verb w0 (step_of (sb_check_owner B) (\<lambda>_. call_unit B verb unit p) ?v u)"
          by (rule dispatched_step [OF manager_okD(6) [OF ok] v(1)]) (rule call_unit_true [OF ok unit _ v(2)])
        with True show ?thesis by (simp add: Let_def)
      next
        case False
        with stopped [OF jobs] show ?thesis by (auto simp: Let_def)
      qed
    qed
    with r Inr show ?thesis by (simp add: watched_dispatch_def)
  qed
qed

text \<open>The dispatch as a whole states what is true of the manager's jobs.\<close>

lemma dispatch_true:
  assumes ok: "manager_ok B M" and "tidy B" and d: "dispatch_service_lifecycle B unit verb w = (r, w')"
  shows "\<exists>x. ds_outcome r = mo_str x \<and> job_outcome M unit verb x w w'"
proof -
  have unmoved: ?thesis if "ds_outcome r = ''not_written''" "w' = w"
    using that lifecycle_outcome.unmoved by fastforce
  show ?thesis
  proof (cases "verb \<in> set LIFECYCLE_ACTIONS \<and> validate_service_unit_name (sb_repr B) unit = Inr () \<and>
      environment_unavailable B w = None")
    case False
    then show ?thesis
      using d by (intro unmoved) (auto simp: dispatch_service_lifecycle_def Let_def not_dispatched_def
          without_job_def split: if_splits sum.splits option.splits)
  next
    case True
    let ?v0 = "\<lparr>dv_detail = dispatch_detail verb (sb_now B w), dv_job_path = None, dv_invocation = None,
        dv_active_state = None, dv_completion = None\<rparr>"
    let ?inner = "step_of (sb_subscribe B) (\<lambda>_. within (sb_watch B) (sb_unwatch B) (watched_dispatch B verb unit))"
    have v0: "dispatching_at M unit verb w ?v0 w" "dv_job_path ?v0 = None" by (simp_all add: dispatching_at_def)
    have tidy: "fst (sb_unwatch B u) = Inr ()" "fst (sb_close B u) = Inr ()" for u
      using assms(2) by (simp_all add: tidy_def)
    have run: "dispatched M unit verb w (within (sb_open B) (sb_close B) ?inner ?v0 w)"
      by (rule dispatched_within [OF manager_okD(1,2) [OF ok] tidy(2) v0(1)],
        rule dispatched_step [OF manager_okD(3) [OF ok]], assumption,
        rule dispatched_within [OF manager_okD(4,5) [OF ok] tidy(1)], assumption,
        rule watched_dispatch_true [OF ok _ v0(2)])
    obtain o' v u where out: "within (sb_open B) (sb_close B) ?inner ?v0 w = (o', v, u)" by (metis prod_cases3)
    note run [unfolded out]
    moreover have "case o' of
        Inl x \<Rightarrow> r = after_exception verb unit v x | Inr (Some q) \<Rightarrow> r = q
      | Inr None \<Rightarrow> r = after_wait verb unit v" "w' = u"
      using d True out by (auto simp: dispatch_service_lifecycle_def split: sum.splits option.splits)
    ultimately show ?thesis
      by (auto simp: dispatched_def dispatching_at_def after_exception_def after_wait_def not_dispatched_def
          write_unknown_def without_job_def carried_out_def enqueues_def unit_job_def finished_job_def
          Let_def split: sum.splits option.splits)
  qed
qed

section \<open>From the executor to the daemon\<close>

lemma container_states_truth:
  assumes "daemon_ok D log" "as_docker_lifecycle A = docker_provider_call D"
    and "get params ''container_id'' = PStr c" "get params ''action'' = PStr verb"
    and "agent_handle J A METHOD_CONTAINER params w = (b, v)"
  shows "states_truth (carried_out log (container_request c verb) (\<lambda>_ _. True)) b w v"
proof -
  from assms(5) have "docker_container_lifecycle J A params w = (b, v)" by simp
  from container_lifecycle_run [OF this] assms(2-4)
  consider (refused) e where "v = w" "b = Inl e"
    | (ran) d where "docker_provider_call D c verb w = (d, v)"
        "\<And>answer. b = Inr answer \<Longrightarrow> passed_on params d answer"
    by auto
  then show ?thesis
  proof cases
    case refused
    then show ?thesis using lifecycle_outcome.states_truth_refused by metis
  next
    case ran
    obtain r u where r: "docker_lifecycle D c verb w = (r, u)" by (meson surj_pair)
    note t = docker_lifecycle_true [OF assms(1) r]
    have u: "u = v" "d = (case r of Inl e \<Rightarrow> Inl (Py_Exn e) | Inr x \<Rightarrow> Inr (docker_result_dict x))"
      using ran(1) r by (auto simp: docker_provider_call_def split: sum.splits)
    have unknown: "carried_out log (container_request c verb) (\<lambda>_ _. True) MO_Write_Unknown w v"
      using t u(1) by (auto dest: lifecycle_outcome.unknown split: sum.splits)
    show ?thesis
    proof (cases b)
      case (Inl e)
      with unknown show ?thesis by (simp add: states_truth_def)
    next
      case (Inr answer)
      from ran(2) [OF Inr] obtain m doc where m: "get answer ''mutation'' = PDict m" "d = Inr doc"
        "get m ''outcome'' = get doc ''outcome''" by (auto simp: passed_on_def)
      with u(2) obtain x where "r = Inr x" "doc = docker_result_dict x" by (cases r) auto
      with t u(1) m(1,3) Inr show ?thesis
        by (auto simp: states_truth_def states_outcome_def docker_result_dict_def)
    qed
  qed
qed

lemma service_states_truth:
  assumes "manager_ok B M" "tidy B" "as_systemd_lifecycle A = systemd_provider_call B"
    and "get params ''unit_id'' = PStr unit" "get params ''action'' = PStr verb"
    and "agent_handle J A METHOD_SERVICE params w = (b, v)"
  shows "states_truth (job_outcome M unit verb) b w v"
proof -
  from assms(6) have "systemd_service_lifecycle J A params w = (b, v)" by simp
  from service_lifecycle_run [OF this] assms(3-5)
  consider (refused) e where "v = w" "b = Inl e"
    | (ran) d where "systemd_provider_call B unit verb w = (d, v)"
        "\<And>answer. b = Inr answer \<Longrightarrow> passed_on params d answer"
    by auto
  then show ?thesis
  proof cases
    case refused
    then show ?thesis using lifecycle_outcome.states_truth_refused by metis
  next
    case ran
    obtain r where r: "dispatch_service_lifecycle B unit verb w = (r, v)" "d = Inr (dispatch_result_dict r)"
      using ran(1) by (auto simp: systemd_provider_call_def split: prod.splits)
    obtain x where x: "ds_outcome r = mo_str x" "job_outcome M unit verb x w v"
      using dispatch_true [OF assms(1,2) r(1)] by blast
    show ?thesis
    proof (cases b)
      case (Inl e)
      with lifecycle_outcome.unknown [OF x(2)] show ?thesis by (simp add: states_truth_def)
    next
      case (Inr answer)
      from ran(2) [OF Inr] r(2) x Inr show ?thesis
        by (auto simp: states_truth_def states_outcome_def dispatch_result_dict_def passed_on_def)
    qed
  qed
qed


end
