(* ===== verification/Lifecycle_Samples.thy ===== *)
theory Lifecycle_Samples
  imports Lifecycle_Path Path_Samples
begin

text \<open>
  The properties of the lifecycle calls at concrete inputs: a daemon that carries out what it is
  asked, a system manager that refuses, and one whose connection fails to close.
\<close>

type_synonym container_host = "string list"

definition sample_daemon :: "container_host docker_env" where
  "sample_daemon = \<lparr>dk_post = \<lambda>url w. (Http_Answer 204 [], w @ [url]), dk_loads = \<lambda>_. Undecodable [],
     dk_lenient = \<lambda>_. []\<rparr>"

definition refusing_bus :: "container_host systemd_bus" where
  "refusing_bus = \<lparr>sb_now = \<lambda>_. [], sb_runtime_path = None, sb_runtime_exists = \<lambda>_. True,
     sb_open = \<lambda>w. (Inr (), w), sb_close = \<lambda>w. (Inr (), w), sb_subscribe = \<lambda>w. (Inr (), w),
     sb_watch = \<lambda>w. (Inr (), w), sb_unwatch = \<lambda>w. (Inr (), w), sb_get_unit = \<lambda>u w. (Inr u, w),
     sb_properties = \<lambda>p w. (Inr [(''Id'', PStr p), (''LoadState'', PStr ''loaded'')], w),
     sb_check_owner = \<lambda>w. (Inr (), w), sb_unit_call = \<lambda>_ _ w. (Inl (Error_Reply []), w),
     sb_signals = \<lambda>w. (([], None), w), sb_repr = \<lambda>_. []\<rparr>"

definition quiet_view :: "container_host manager_view" where
  "quiet_view = \<lparr>mv_jobs = \<lambda>_. [], mv_finished = \<lambda>_. {}, mv_unit_at = id\<rparr>"

lemma sample_providers_ok:
  "daemon_ok sample_daemon id" "manager_ok refusing_bus quiet_view" "tidy refusing_bus"
  by (auto simp: daemon_ok_def status_tells_def sample_daemon_def manager_ok_def refusing_bus_def
      quiet_view_def idle_def tidy_def)

definition CONTAINER :: string where "CONTAINER = ''0123456789ab''"

definition sample_container :: object_record where
  "sample_container = sample_reading_of [(''container_id'', PStr CONTAINER), (''state'', PStr ''running''),
     (''started_at'', PStr ''t1'')]"

definition sample_stop :: mutation_request where
  "sample_stop = sample_mutation\<lparr>mr_correlation := [(''container_id'', PStr CONTAINER),
       (''state'', PStr ''running''), (''started_at'', PStr ''t1''), (''observation_id'', PStr ''o2'')],
     mr_action := Some ''stop''\<rparr>"

lemma stop_made: "made_by Docker_Container_Stop sample_container sample_stop"
  by (simp add: made_by_def correlate_container_Inr verb_of_def sample_stop_def sample_container_def
      sample_reading_of_def sample_object_def sample_mutation_def CONTAINER_def la_str.simps)

definition stop_json :: json_env where
  "stop_json = listed_json [PDict (request_payload AGENT_CODEC ''r2'' METHOD_CONTAINER
     (Some (params_of Docker_Container_Stop sample_stop)))]"

definition stop_agent :: "container_host agent_services" where
  "stop_agent = \<lparr>as_instance_id = ''agent_1'',
     as_capabilities = \<lambda>_. [\<lparr>dc_capability = CAPABILITY_DOCKER_CONTAINER_LIFECYCLE,
         dc_status = CS_Available, dc_reason = None, dc_detail = []\<rparr>],
     as_identity = \<lambda>_. Inr ''h'', as_set_interface_mtu = \<lambda>_ w. (Inr [], w),
     as_guard_arm = \<lambda>_ w. (Inl (Guard_Refusal [] []), w), as_guard_disarm = \<lambda>_ w. ([], w),
     as_guard_status = \<lambda>_ _. [], as_docker_lifecycle = docker_provider_call sample_daemon,
     as_systemd_lifecycle = systemd_provider_call refusing_bus,
     as_manager_version = \<lambda>_. PNone, as_unit_name = service_unit_param refusing_bus,
     as_read = \<lambda>_ _ w. (Inr [], w)\<rparr>"

definition stop_hop :: "container_host agent_hop" where
  "stop_hop = \<lparr>ah_json = stop_json, ah_channel = local_channel, ah_server = root_only AGENT_CODEC,
     ah_peer = Some root_peer, ah_fate = Unheard Timed_Out, ah_request_id = ''r2'', ah_agent = stop_agent\<rparr>"

definition stop_services :: "container_host host_services" where
  "stop_services = \<lparr>hv_agent = agent_call stop_hop,
     hv_refresh_network = \<lambda>_ w. (Inr ''s2'', w), hv_refresh_containers = \<lambda>w. (Inr ''s2'', w),
     hv_refresh_unit = \<lambda>_ w. (Inr ''s2'', w), hv_object = \<lambda>_ _. Some sample_container,
     hv_int = \<lambda>_. Inl (TypeError []), hv_render = \<lambda>_. [], hv_read = \<lambda>_. None\<rparr>"

lemma stop_hop_ok: "agent_hop_ok stop_hop"
  using listed_json_ok by (simp add: agent_hop_ok_def stop_hop_def stop_json_def root_only_def possible_def)

lemma stop_frame:
  "codec_request stop_json AGENT_CODEC ''r2'' METHOD_CONTAINER
     (Some (params_of Docker_Container_Stop sample_stop)) = Inr [newline]"
  by (simp add: codec_request_def frame_def stop_json_def listed_json_def AGENT_CODEC_def AGENT_METHODS_def)


text \<open>
  Where closing the connection raises, the unknown outcome of a call that was sent and not
  intelligibly answered is replaced by the claim that nothing was written: the job's path, by which
  the handler decides, was never set, although the manager ran the job.
\<close>

definition broken_bus :: "nat systemd_bus" where
  "broken_bus = \<lparr>sb_now = \<lambda>_. [], sb_runtime_path = None, sb_runtime_exists = \<lambda>_. True,
     sb_open = \<lambda>w. (Inr (), w), sb_close = \<lambda>w. (Inl (OS_Failure ''OSError'' (Some 5)), w),
     sb_subscribe = \<lambda>w. (Inr (), w), sb_watch = \<lambda>w. (Inr (), w), sb_unwatch = \<lambda>w. (Inr (), w),
     sb_get_unit = \<lambda>u w. (Inr u, w),
     sb_properties = \<lambda>p w. (Inr [(''Id'', PStr p), (''LoadState'', PStr ''loaded'')], w),
     sb_check_owner = \<lambda>w. (Inr (), w),
     sb_unit_call = \<lambda>_ _ w. (Inl (OS_Failure ''TimeoutError'' None), Suc w),
     sb_signals = \<lambda>w. (([], None), w), sb_repr = \<lambda>_. []\<rparr>"

theorem failing_close_forgets_the_call:
  "ds_outcome (fst (dispatch_service_lifecycle broken_bus ''ssh.service'' ''stop'' 0)) = ''not_written''"
  "snd (dispatch_service_lifecycle broken_bus ''ssh.service'' ''stop'' 0) = 1"
  by (simp_all add: dispatch_service_lifecycle_def broken_bus_def LIFECYCLE_ACTIONS_def
      validate_service_unit_name_def validate_unit_name_def is_unit_name_def newline_def
      SUPPORTED_UNIT_SUFFIXES_def endswith_def unit_type_of_def SYSTEMD_LIFECYCLE_UNIT_TYPE_def
      environment_unavailable_def within_def step_of_def watched_dispatch_def call_unit_def named_def
      after_exception_def not_dispatched_def without_job_def Let_def)

end
