(* ===== verification/Unit_Reading.thy ===== *)
theory Unit_Reading
  imports Lifecycle_Dispatch
begin

text \<open>
  What the agent keeps of one unit: \<open>SystemdProvider._observe_path\<close> and the functions it normalises
  the manager's properties with (\<open>src/localplane/agent/providers/systemd.py\<close>). A value of the wrong
  type becomes \<open>None\<close>; a property the manager did not send is named as a gap; object paths, mount
  options and the user part of a mount's source are left out.

  Python collects the gaps in a list it sorts at the end; here they are the names of the absent
  properties, each under the prefix of its source. Tuples and lists are both \<open>PList\<close>.
\<close>

section \<open>Single values\<close>

definition string_or_none :: "pyval \<Rightarrow> pyval" where
  "string_or_none v = (case v of PStr s \<Rightarrow> if s \<noteq> [] then v else PNone | _ \<Rightarrow> PNone)"

definition path_or_none :: "pyval \<Rightarrow> pyval" where
  "path_or_none v = (let s = string_or_none v in if s = PStr ''/'' then PNone else s)"

definition bool_or_none :: "pyval \<Rightarrow> pyval" where
  "bool_or_none v = (case v of PBool _ \<Rightarrow> v | _ \<Rightarrow> PNone)"

definition int_or_none :: "pyval \<Rightarrow> pyval" where
  "int_or_none v = (case v of PInt _ \<Rightarrow> v | _ \<Rightarrow> PNone)"

definition int_if :: "(int \<Rightarrow> bool) \<Rightarrow> pyval \<Rightarrow> pyval" where
  "int_if P v = (case v of PInt i \<Rightarrow> if P i then v else PNone | _ \<Rightarrow> PNone)"

definition pid_or_none :: "pyval \<Rightarrow> pyval" where "pid_or_none = int_if (\<lambda>i. i > 0)"
definition timestamp_or_none :: "pyval \<Rightarrow> pyval" where "timestamp_or_none = int_if (\<lambda>i. i > 0)"

definition UINT64_MAX :: int where "UINT64_MAX = 2 ^ 64 - 1"

definition duration_or_none :: "pyval \<Rightarrow> pyval" where
  "duration_or_none = int_if (\<lambda>i. 0 \<le> i \<and> i < UINT64_MAX)"

fun oct_text :: "nat \<Rightarrow> string" where
  "oct_text n = (if n < 8 then [hex_digit n] else oct_text (n div 8) @ [hex_digit (n mod 8)])"

definition mode_or_none :: "pyval \<Rightarrow> pyval" where
  "mode_or_none v = (case v of
     PInt i \<Rightarrow> PStr (''0o'' @ (if i < 0 then ''-'' else []) @ oct_text (nat \<bar>i\<bar>)) | _ \<Rightarrow> PNone)"

text \<open>A pending job is kept by its number; the object path is not.\<close>

definition job_or_none :: "pyval \<Rightarrow> pyval" where
  "job_or_none v = (case v of
     PList (job # path # _) \<Rightarrow>
       (case (job, path_or_none path) of
          (PInt i, PStr _) \<Rightarrow> if i \<noteq> 0 then PDict [(''id'', PInt i)] else PNone
        | _ \<Rightarrow> PNone)
   | _ \<Rightarrow> PNone)"

definition is_upper :: "char \<Rightarrow> bool" where
  "is_upper c \<longleftrightarrow> c \<noteq> lower_char c"

fun underscored :: "string \<Rightarrow> string" where
  "underscored [] = []"
| "underscored (c # cs) = (if is_upper c then CHR ''_'' # c # underscored cs else c # underscored cs)"

definition snake :: "string \<Rightarrow> string" where
  "snake name = lower (case name of [] \<Rightarrow> [] | c # cs \<Rightarrow> c # underscored cs)"

text \<open>\<open>text.rpartition(c)\<close> where the character occurs: what is before its last occurrence, and after.\<close>

fun last_split :: "char \<Rightarrow> string \<Rightarrow> (string \<times> string) option" where
  "last_split c [] = None"
| "last_split c (x # xs) = (case last_split c xs of
     Some (a, b) \<Rightarrow> Some (x # a, b)
   | None \<Rightarrow> if x = c then Some ([], xs) else None)"

fun first_split :: "char \<Rightarrow> string \<Rightarrow> (string \<times> string) option" where
  "first_split c [] = None"
| "first_split c (x # xs) = (if x = c then Some ([], xs)
     else map_option (\<lambda>(a, b). (x # a, b)) (first_split c xs))"

definition template_name :: "string \<Rightarrow> pyval" where
  "template_name u = (case last_split CHR ''.'' u of
     None \<Rightarrow> PNone
   | Some (stem, suffix) \<Rightarrow>
       (case first_split CHR ''@'' stem of
          None \<Rightarrow> PNone
        | Some (prefix, inst) \<Rightarrow>
            if inst = [] then PStr u else PStr (prefix @ ''@.'' @ suffix)))"

text \<open>The text before the first \<open>://\<close>.\<close>

fun scheme_of :: "string \<Rightarrow> string option" where
  "scheme_of [] = None"
| "scheme_of (x # xs) = (if take 3 (x # xs) = ''://'' then Some []
     else map_option (\<lambda>s. x # s) (scheme_of xs))"

definition safe_mount_source :: "pyval \<Rightarrow> pyval" where
  "safe_mount_source v = (case v of
     PStr s \<Rightarrow>
       (case last_split CHR ''@'' s of
          None \<Rightarrow> v
        | Some (prefix, host) \<Rightarrow>
            if CHR '':'' \<notin> set prefix then v
            else (case scheme_of prefix of
                Some scheme \<Rightarrow> PStr (scheme @ ''://'' @ host)
              | None \<Rightarrow> if take 2 prefix = ''//'' then PStr (''//'' @ host)
                  else PStr (''[redacted-userinfo]@'' @ host)))
   | _ \<Rightarrow> v)"

section \<open>The properties a reading asks for\<close>

definition RELATIONSHIP_GROUPS :: "(string \<times> string) list" where
  "RELATIONSHIP_GROUPS = [(''Requires'', ''requirement''), (''Wants'', ''requirement''),
     (''Requisite'', ''requirement''), (''BindsTo'', ''requirement''), (''PartOf'', ''requirement''),
     (''Before'', ''ordering''), (''After'', ''ordering''), (''Conflicts'', ''conflict''),
     (''Triggers'', ''activation''), (''TriggeredBy'', ''activation''), (''OnFailure'', ''outcome''),
     (''OnSuccess'', ''outcome''), (''OnFailureOf'', ''outcome''), (''OnSuccessOf'', ''outcome''),
     (''Upholds'', ''requirement''), (''UpheldBy'', ''reverse_requirement''),
     (''RequiredBy'', ''reverse_requirement''), (''RequisiteOf'', ''reverse_requirement''),
     (''BoundBy'', ''reverse_requirement''), (''ConsistsOf'', ''reverse_requirement''),
     (''PropagatesStopTo'', ''stop_propagation''), (''StopPropagatedFrom'', ''stop_propagation''),
     (''ConflictedBy'', ''conflict'')]"

definition LIFECYCLE_ONLY_RELATIONSHIPS :: "string list" where
  "LIFECYCLE_ONLY_RELATIONSHIPS = [''Upholds'', ''UpheldBy'', ''RequiredBy'', ''RequisiteOf'',
     ''BoundBy'', ''ConsistsOf'', ''PropagatesStopTo'', ''StopPropagatedFrom'', ''ConflictedBy'']"

definition TIMESTAMPS :: "string list" where
  "TIMESTAMPS = [''StateChangeTimestamp'', ''StateChangeTimestampMonotonic'',
     ''InactiveExitTimestamp'', ''InactiveExitTimestampMonotonic'', ''ActiveEnterTimestamp'',
     ''ActiveEnterTimestampMonotonic'', ''ActiveExitTimestamp'', ''ActiveExitTimestampMonotonic'',
     ''InactiveEnterTimestamp'', ''InactiveEnterTimestampMonotonic'']"

definition unit_properties_read :: "string list" where
  "unit_properties_read = [''LoadState'', ''ActiveState'', ''SubState'', ''Names'', ''DropInPaths''] @
     filter (\<lambda>r. r \<notin> set LIFECYCLE_ONLY_RELATIONSHIPS) (map fst RELATIONSHIP_GROUPS) @
     [''Description'', ''UnitFileState'', ''UnitFilePreset'', ''CanStart'', ''CanStop'', ''CanReload'',
      ''RefuseManualStart'', ''RefuseManualStop'', ''NeedDaemonReload'', ''FragmentPath'', ''SourcePath'',
      ''Transient'', ''Job'', ''InvocationID''] @ TIMESTAMPS"

definition absent :: "string \<Rightarrow> facts \<Rightarrow> string list \<Rightarrow> string list" where
  "absent prefix source names =
     map (\<lambda>n. prefix @ ''.'' @ n) (filter (\<lambda>n. map_of source n = None) names)"

text \<open>The fields of a typed document: the key, the property, and what is kept of its value.\<close>

type_synonym field_rule = "string \<times> string \<times> (pyval \<Rightarrow> pyval)"

definition read_fields :: "field_rule list \<Rightarrow> facts \<Rightarrow> facts" where
  "read_fields rules source = map (\<lambda>(key, name, f). (key, f (get source name))) rules"

definition fields_absent :: "string \<Rightarrow> field_rule list \<Rightarrow> facts \<Rightarrow> string list" where
  "fields_absent prefix rules source = absent prefix source (map (\<lambda>(_, name, _). name) rules)"

definition service_fields :: "field_rule list" where
  "service_fields =
     [(''type'', ''Type'', string_or_none), (''main_pid'', ''MainPID'', pid_or_none),
      (''control_pid'', ''ControlPID'', pid_or_none), (''exec_main_pid'', ''ExecMainPID'', pid_or_none),
      (''result'', ''Result'', string_or_none), (''exec_main_code'', ''ExecMainCode'', int_or_none),
      (''exec_main_status'', ''ExecMainStatus'', int_or_none), (''restart'', ''Restart'', string_or_none),
      (''restart_usec'', ''RestartUSec'', duration_or_none), (''n_restarts'', ''NRestarts'', int_or_none),
      (''remain_after_exit'', ''RemainAfterExit'', bool_or_none),
      (''guess_main_pid'', ''GuessMainPID'', bool_or_none),
      (''exec_main_start_timestamp_monotonic'', ''ExecMainStartTimestampMonotonic'', timestamp_or_none),
      (''watchdog_usec'', ''WatchdogUSec'', duration_or_none),
      (''watchdog_timestamp_monotonic'', ''WatchdogTimestampMonotonic'', timestamp_or_none),
      (''watchdog_signal'', ''WatchdogSignal'', int_or_none), (''watchdog_pid'', ''WatchdogPID'', pid_or_none),
      (''control_group'', ''ControlGroup'', path_or_none)]"

definition two_texts :: "(pyval \<Rightarrow> string) \<Rightarrow> string \<Rightarrow> pyval \<Rightarrow> pyval" where
  "two_texts render key v = (case v of
     PList es \<Rightarrow> PList (map (\<lambda>e. case e of PList (a # b # _) \<Rightarrow>
           PDict [(''kind'', PStr (py_str render a)), (key, PStr (py_str render b))] | _ \<Rightarrow> PNone)
         (filter (\<lambda>e. case e of PList (_ # _ # _) \<Rightarrow> True | _ \<Rightarrow> False) es))
   | _ \<Rightarrow> PNone)"

definition socket_fields :: "(pyval \<Rightarrow> string) \<Rightarrow> field_rule list" where
  "socket_fields render =
     [(''listen'', ''Listen'', two_texts render ''address''), (''accept'', ''Accept'', bool_or_none),
      (''accepted'', ''NAccepted'', int_or_none), (''connections'', ''NConnections'', int_or_none),
      (''refused'', ''NRefused'', int_or_none), (''result'', ''Result'', string_or_none),
      (''trigger_limit_interval_usec'', ''TriggerLimitIntervalUSec'', duration_or_none),
      (''trigger_limit_burst'', ''TriggerLimitBurst'', int_or_none)]"

definition timer_fields :: "field_rule list" where
  "timer_fields =
     [(''unit'', ''Unit'', string_or_none),
      (''next_elapse_usec_realtime'', ''NextElapseUSecRealtime'', timestamp_or_none),
      (''next_elapse_usec_monotonic'', ''NextElapseUSecMonotonic'', timestamp_or_none),
      (''last_trigger_usec'', ''LastTriggerUSec'', timestamp_or_none),
      (''last_trigger_usec_monotonic'', ''LastTriggerUSecMonotonic'', timestamp_or_none),
      (''persistent'', ''Persistent'', bool_or_none),
      (''randomized_delay_usec'', ''RandomizedDelayUSec'', duration_or_none),
      (''fixed_random_delay'', ''FixedRandomDelay'', bool_or_none),
      (''accuracy_usec'', ''AccuracyUSec'', duration_or_none), (''result'', ''Result'', string_or_none)]"

definition path_fields :: "(pyval \<Rightarrow> string) \<Rightarrow> field_rule list" where
  "path_fields render =
     [(''unit'', ''Unit'', string_or_none), (''paths'', ''Paths'', two_texts render ''path''),
      (''make_directory'', ''MakeDirectory'', bool_or_none),
      (''directory_mode'', ''DirectoryMode'', mode_or_none), (''result'', ''Result'', string_or_none)]"

definition mount_fields :: "field_rule list" where
  "mount_fields =
     [(''what'', ''What'', \<lambda>v. safe_mount_source (string_or_none v)), (''where'', ''Where'', path_or_none),
      (''type'', ''Type'', string_or_none), (''control_pid'', ''ControlPID'', pid_or_none),
      (''directory_mode'', ''DirectoryMode'', mode_or_none), (''result'', ''Result'', string_or_none),
      (''sloppy_options'', ''SloppyOptions'', bool_or_none), (''lazy_unmount'', ''LazyUnmount'', bool_or_none),
      (''force_unmount'', ''ForceUnmount'', bool_or_none),
      (''timeout_usec'', ''TimeoutUSec'', duration_or_none)]"

definition typed_fields :: "(pyval \<Rightarrow> string) \<Rightarrow> string \<Rightarrow> field_rule list option" where
  "typed_fields render unit_type = map_of
     [(''service'', service_fields), (''socket'', socket_fields render), (''timer'', timer_fields),
      (''path'', path_fields render), (''mount'', mount_fields)] unit_type"

section \<open>One unit\<close>

definition nonempty_texts :: "pyval \<Rightarrow> string list option" where
  "nonempty_texts v = (case v of PList vs \<Rightarrow> Some (List.map_filter named vs) | _ \<Rightarrow> None)"

definition relationship :: "string \<Rightarrow> string \<Rightarrow> string \<Rightarrow> pyval" where
  "relationship kind family u =
     PDict [(''kind'', PStr kind), (''group'', PStr family), (''target_unit'', PStr u)]"

definition relationships_of :: "facts \<Rightarrow> pyval list" where
  "relationships_of unit_facts = concat (map (\<lambda>(name, family).
     case nonempty_texts (get unit_facts name) of
       None \<Rightarrow> [] | Some us \<Rightarrow> map (relationship name family) us) RELATIONSHIP_GROUPS)"

definition with_activation :: "pyval \<Rightarrow> pyval list \<Rightarrow> pyval list" where
  "with_activation v relationships = (case named v of
     None \<Rightarrow> relationships
   | Some u \<Rightarrow>
       if list_ex (\<lambda>r. is_str (get (as_dict r) ''kind'') ''Triggers'' \<and>
            is_str (get (as_dict r) ''target_unit'') u) relationships
       then relationships else relationships @ [relationship ''Triggers'' ''activation'' u])"

definition unit_fields :: "(pyval \<Rightarrow> string) \<Rightarrow> facts \<Rightarrow> facts \<Rightarrow> string \<Rightarrow> facts" where
  "unit_fields render d typed unit_type =
     (let field = (\<lambda>key name f. (key, f (get d name)));
          texts_or_none = (\<lambda>v. case v of None \<Rightarrow> PNone | Some ts \<Rightarrow> texts_of ts);
          document = map_option (\<lambda>rules. read_fields rules typed) (typed_fields render unit_type);
          relationships = (case document of
             Some doc \<Rightarrow> if unit_type \<in> {''timer'', ''path''} then with_activation (get doc ''unit'') (relationships_of d)
               else relationships_of d
           | None \<Rightarrow> relationships_of d) in
      [(''canonical_id'', get d ''Id''),
       (''names'', texts_or_none (map_option sorted_set (nonempty_texts (get d ''Names'')))),
       field ''description'' ''Description'' string_or_none,
       (''unit_type'', PStr unit_type),
       field ''load_state'' ''LoadState'' string_or_none, field ''active_state'' ''ActiveState'' string_or_none,
       field ''sub_state'' ''SubState'' string_or_none,
       field ''unit_file_state'' ''UnitFileState'' string_or_none,
       field ''unit_file_preset'' ''UnitFilePreset'' string_or_none,
       field ''can_start'' ''CanStart'' bool_or_none, field ''can_stop'' ''CanStop'' bool_or_none,
       field ''can_reload'' ''CanReload'' bool_or_none,
       field ''refuse_manual_start'' ''RefuseManualStart'' bool_or_none,
       field ''refuse_manual_stop'' ''RefuseManualStop'' bool_or_none,
       field ''need_daemon_reload'' ''NeedDaemonReload'' bool_or_none,
       field ''fragment_path'' ''FragmentPath'' path_or_none, field ''source_path'' ''SourcePath'' path_or_none,
       (''drop_in_paths'', texts_or_none (nonempty_texts (get d ''DropInPaths''))),
       field ''transient'' ''Transient'' bool_or_none, field ''current_job'' ''Job'' job_or_none,
       field ''invocation_id'' ''InvocationID'' (\<lambda>v. opt_text (invocation_id v)),
       (''timestamps'', PDict (map (\<lambda>n. (snake n, timestamp_or_none (get d n))) TIMESTAMPS)),
       (''template'', template_name (py_str render (get d ''Id''))),
       (''relationships'', PList relationships)] @
      (case document of None \<Rightarrow> [] | Some doc \<Rightarrow> [(unit_type, PDict doc)]))"

definition normalise_unit :: "(pyval \<Rightarrow> string) \<Rightarrow> facts \<Rightarrow> facts \<Rightarrow> string \<Rightarrow> facts \<times> string list" where
  "normalise_unit render d typed unit_type =
     (unit_fields render d typed unit_type,
      absent ''unit'' d unit_properties_read @
      (case typed_fields render unit_type of None \<Rightarrow> []
       | Some rules \<Rightarrow> fields_absent unit_type rules typed))"

record unit_observation =
  uo_canonical_id :: string
  uo_facts :: facts
  uo_observed_at :: string
  uo_gaps :: "string list"
  uo_evidence :: facts

definition uo_as_dict :: "unit_observation \<Rightarrow> facts" where
  "uo_as_dict u = [(''method'', PStr ''systemd_dbus''),
     (''fidelity'', PStr (if uo_gaps u = [] then ''complete'' else ''partial'')),
     (''observed_at'', PStr (uo_observed_at u)), (''gaps'', texts_of (uo_gaps u)),
     (''facts'', PDict (uo_facts u)), (''evidence'', PDict (uo_evidence u))]"

definition UNKNOWN_METHOD_ERRORS :: "string list" where
  "UNKNOWN_METHOD_ERRORS = [''org.freedesktop.DBus.Error.UnknownMethod'',
     ''org.freedesktop.DBus.Error.UnknownInterface'']"

definition TYPE_INTERFACES :: "(string \<times> string) list" where
  "TYPE_INTERFACES = [(''service'', ''org.freedesktop.systemd1.Service''),
     (''socket'', ''org.freedesktop.systemd1.Socket''), (''timer'', ''org.freedesktop.systemd1.Timer''),
     (''path'', ''org.freedesktop.systemd1.Path''), (''mount'', ''org.freedesktop.systemd1.Mount'')]"

text \<open>The type a name shows when it is none of the supported ones.\<close>

definition type_in_name :: "string \<Rightarrow> string" where
  "type_in_name u = (case last_split CHR ''.'' u of None \<Rightarrow> ''unknown'' | Some (_, suffix) \<Rightarrow> suffix)"

definition row_evidence :: "(pyval \<Rightarrow> string) \<Rightarrow> pyval list option \<Rightarrow> pyval" where
  "row_evidence render row = (case row of
     None \<Rightarrow> PNone
   | Some cells \<Rightarrow>
       (let cell = (\<lambda>i f. if i < length cells then f (cells ! i) else PNone);
            text = (\<lambda>v. PStr (py_str render v)) in
        PDict [(''name'', cell 0 text), (''load_state'', cell 2 text), (''active_state'', cell 3 text),
          (''sub_state'', cell 4 text), (''following'', cell 5 string_or_none),
          (''job_id'', cell 7 int_or_none), (''job_type'', cell 8 string_or_none)]))"

definition observation_evidence ::
  "(pyval \<Rightarrow> string) \<Rightarrow> string \<Rightarrow> string option \<Rightarrow> pyval list option \<Rightarrow> facts" where
  "observation_evidence render unit_type listed_name row =
     [(''source'', PStr ''systemd.units''), (''transport'', PStr ''system_bus_dbus''),
      (''destination'', PStr ''org.freedesktop.systemd1''),
      (''transport_handle_persisted'', PBool False),
      (''interfaces_read'', texts_of (''org.freedesktop.systemd1.Unit'' #
         (case map_of TYPE_INTERFACES unit_type of None \<Rightarrow> [] | Some i \<Rightarrow> [i]))),
      (''listed_name'', opt_text listed_name), (''list_row'', row_evidence render row),
      (''manager_scope'', PStr ''system'')]"

text \<open>
  The reading: the unit's properties, and for the five types with an interface of their own that
  interface's. \<open>tick\<close> is what is run before each call (the deadline of a walk, or nothing).
\<close>

record 'w unit_reader =
  rd_bus :: "'w systemd_bus"
  rd_type_properties :: "string \<Rightarrow> string \<Rightarrow> 'w \<Rightarrow> (bus_exn + facts) \<times> 'w"
  rd_tick :: "'w \<Rightarrow> (bus_exn + unit) \<times> 'w"

definition observe_path ::
  "'w unit_reader \<Rightarrow> string \<Rightarrow> string option \<Rightarrow> pyval list option \<Rightarrow> bool \<Rightarrow> 'w \<Rightarrow>
   (bus_exn + unit_observation) \<times> 'w" where
  "observe_path R path listed_name row allow_out_of_scope w =
     (let render = sb_repr (rd_bus R) in
      case rd_tick R w of (Inl x, w1) \<Rightarrow> (Inl x, w1) | (Inr _, w1) \<Rightarrow>
      case sb_properties (rd_bus R) path w1 of (Inl x, w2) \<Rightarrow> (Inl x, w2) | (Inr d, w2) \<Rightarrow>
      case named (get d ''Id'') of
        None \<Rightarrow> (Inl (Provider_Failure ''canonical_id_unavailable''
            [(''listed_name'', opt_text listed_name), (''interface'', PStr ''org.freedesktop.systemd1.Unit'')]), w2)
      | Some canonical \<Rightarrow>
         if unit_type_of canonical = None \<and> \<not> allow_out_of_scope
         then (Inl (Provider_Failure ''unsupported_unit_type'' [(''canonical_id'', PStr canonical)]), w2)
         else
           (let unit_type = (case unit_type_of canonical of Some t \<Rightarrow> t | None \<Rightarrow> type_in_name canonical);
                finish = (\<lambda>typed type_gap w. (Inr (case normalise_unit render d typed unit_type of (fs, gs) \<Rightarrow>
                   \<lparr>uo_canonical_id = canonical, uo_facts = fs, uo_observed_at = sb_now (rd_bus R) w,
                    uo_gaps = sorted_set (gs @ type_gap),
                    uo_evidence = observation_evidence render unit_type listed_name row\<rparr>), w)) in
            if map_of TYPE_INTERFACES unit_type = None then finish [] [] w2
            else case rd_tick R w2 of (Inl x, w3) \<Rightarrow> (Inl x, w3) | (Inr _, w3) \<Rightarrow>
              (case rd_type_properties R path unit_type w3 of
                 (Inl (Error_Reply n), w4) \<Rightarrow>
                   if n \<in> set UNKNOWN_METHOD_ERRORS then finish [] [unit_type @ ''.interface''] w4
                   else (Inl (Error_Reply n), w4)
               | (Inl x, w4) \<Rightarrow> (Inl x, w4)
               | (Inr typed, w4) \<Rightarrow> finish typed [] w4)))"

text \<open>The manager's own properties.\<close>

definition MANAGER_CORE_PROPERTIES :: "string list" where
  "MANAGER_CORE_PROPERTIES = [''Version'', ''SystemState'']"

definition MANAGER_OPTIONAL_PROPERTIES :: "string list" where
  "MANAGER_OPTIONAL_PROPERTIES = [''Features'', ''Virtualization'', ''Architecture'', ''Tainted'']"

record manager_observation =
  mb_status :: string
  mb_observed_at :: string
  mb_version :: "string option"
  mb_facts :: facts
  mb_gaps :: "string list"
  mb_reason :: "string option"
  mb_detail :: facts

definition normalise_manager :: "facts \<Rightarrow> string \<Rightarrow> manager_observation" where
  "normalise_manager d observed_at =
     (let core = absent ''manager'' d MANAGER_CORE_PROPERTIES;
          optional = absent ''manager'' d MANAGER_OPTIONAL_PROPERTIES; all_gaps = core @ optional in
      \<lparr>mb_status = (if all_gaps = [] then ''ok'' else ''degraded''), mb_observed_at = observed_at,
       mb_version = named (get d ''Version''),
       mb_facts = map (\<lambda>(key, name). (key, string_or_none (get d name)))
         [(''version'', ''Version''), (''system_state'', ''SystemState''), (''features'', ''Features''),
          (''virtualization'', ''Virtualization''), (''architecture'', ''Architecture''), (''tainted'', ''Tainted'')],
       mb_gaps = all_gaps, mb_reason = (if all_gaps = [] then None else Some ''manager_properties_incomplete''),
       mb_detail = [(''manager_scope'', PStr ''system''), (''transport'', PStr ''system_bus_dbus''),
         (''core_gaps'', texts_of core), (''optional_gaps'', texts_of optional)]\<rparr>)"

end
