(* ===== verification/Effect_Graph.thy ===== *)
theory Effect_Graph
  imports Unit_Reading "HOL-Library.While_Combinator"
begin

text \<open>
  What starting, stopping or restarting a unit could touch: \<open>SystemdProvider.observe_effect_graph\<close>
  (\<open>src/localplane/agent/providers/systemd.py\<close>), a bounded breadth-first walk over the units the
  manager has loaded. Everything it could not establish is a gap, and a graph without gaps is
  complete.

  The walk is written as the code's loop, over the code's variables (\<open>walk\<close>); every call of
  \<open>remaining()\<close> reads the clock (\<open>ge_tick\<close>) and may raise, and so may every read, which ends the walk
  with what it has. Python's sets are sets, but for the edges, which the code iterates over in an
  order that is not specified and the model keeps in the order of insertion.
\<close>

section \<open>The walk's variables\<close>

datatype effect_kind = K_Start | K_Stop | K_Restart | K_Verify | K_Inspect | K_Source | K_Footprint

fun kind_of_action :: "string \<Rightarrow> effect_kind" where
  "kind_of_action a = (if a = ''start'' then K_Start else if a = ''stop'' then K_Stop else K_Restart)"

definition START_JOB_RELATIONSHIPS :: "(string \<times> effect_kind) list" where
  "START_JOB_RELATIONSHIPS = [(''Requires'', K_Start), (''Wants'', K_Start), (''BindsTo'', K_Start),
     (''Upholds'', K_Start), (''Requisite'', K_Verify), (''Conflicts'', K_Stop), (''ConflictedBy'', K_Stop)]"

definition STOP_JOB_RELATIONSHIPS :: "string list" where
  "STOP_JOB_RELATIONSHIPS = [''RequiredBy'', ''RequisiteOf'', ''BoundBy'', ''ConsistsOf'']"

definition RELEASED_DEPENDENCIES :: "string list" where
  "RELEASED_DEPENDENCIES = [''Requires'', ''Requisite'', ''Wants'', ''BindsTo'', ''Upholds'']"

definition REACTIVATION_RELATIONSHIPS :: "string list" where
  "REACTIVATION_RELATIONSHIPS = [''TriggeredBy'', ''UpheldBy'']"

definition CONDITIONAL_RELATIONSHIPS :: "string list" where
  "CONDITIONAL_RELATIONSHIPS = [''OnFailure'', ''OnSuccess'', ''Triggers'']"

definition REACTIVATION_STABLE_NEGATIVE_STATES :: "string list" where
  "REACTIVATION_STABLE_NEGATIVE_STATES = [''inactive'', ''failed'']"

definition REACTIVATION_CHANGING_STATES :: "string list" where
  "REACTIVATION_CHANGING_STATES =
     [''activating'', ''deactivating'', ''reloading'', ''refreshing'', ''maintenance'']"

definition EFFECT_GRAPH_MAX_NODES :: int where "EFFECT_GRAPH_MAX_NODES = 128"
definition EFFECT_GRAPH_MAX_DEPTH :: int where "EFFECT_GRAPH_MAX_DEPTH = 12"
definition EFFECT_GRAPH_MAX_EDGES :: int where "EFFECT_GRAPH_MAX_EDGES = 2048"

record graph_limits =
  gl_nodes :: nat
  gl_depth :: nat
  gl_edges :: nat

definition limits_of :: "int \<Rightarrow> int \<Rightarrow> int \<Rightarrow> graph_limits" where
  "limits_of max_nodes max_depth max_edges =
     \<lparr>gl_nodes = nat (max 1 (min max_nodes EFFECT_GRAPH_MAX_NODES)),
      gl_depth = nat (max 0 (min max_depth EFFECT_GRAPH_MAX_DEPTH)),
      gl_edges = nat (max 1 (min max_edges EFFECT_GRAPH_MAX_EDGES))\<rparr>"

type_synonym effect_edge3 = "string \<times> string \<times> string"

record walk =
  wk_pending :: "(string \<times> effect_kind \<times> nat) list"
  wk_queued :: "(string \<times> effect_kind) set"
  wk_visited :: "(string \<times> effect_kind) set"
  wk_names :: "string set"
  wk_aliases :: "string \<rightharpoonup> string"
  wk_attempted :: "string set"
  wk_nodes :: "string \<rightharpoonup> facts"
  wk_units :: "string set"
  wk_edges :: "effect_edge3 list"
  wk_reactivation :: "effect_edge3 set"
  wk_gaps :: "string set"
  wk_budget :: nat
  wk_final :: "effect_edge3 set"
  wk_active :: "string set"
  wk_upholding :: "string set"

record 'w graph_env =
  ge_bus :: "'w systemd_bus"
  ge_type_properties :: "string \<Rightarrow> string \<Rightarrow> 'w \<Rightarrow> (bus_exn + facts) \<times> 'w"
  ge_tick :: "'w \<Rightarrow> bool \<times> 'w"
  ge_manager_properties :: "'w \<Rightarrow> (bus_exn + facts) \<times> 'w"

text \<open>A part of the walk, which may raise.\<close>

type_synonym 'w walking = "walk \<Rightarrow> 'w \<Rightarrow> bus_exn option \<times> walk \<times> 'w"

definition and_then :: "'w walking \<Rightarrow> 'w walking \<Rightarrow> 'w walking" where
  "and_then f g s w = (case f s w of (Some x, s', w') \<Rightarrow> (Some x, s', w') | (None, s', w') \<Rightarrow> g s' w')"

fun for_each :: "('a \<Rightarrow> 'w walking) \<Rightarrow> 'a list \<Rightarrow> 'w walking" where
  "for_each f [] s w = (None, s, w)"
| "for_each f (x # xs) s w = and_then (f x) (for_each f xs) s w"

definition deadline_expired :: bus_exn where
  "deadline_expired = OS_Failure ''_InventoryDeadline'' None"

definition remaining :: "'w graph_env \<Rightarrow> 'w walking" where
  "remaining G s w = (case ge_tick G w of
     (True, w') \<Rightarrow> (None, s, w') | (False, w') \<Rightarrow> (Some deadline_expired, s, w'))"

definition ge_observe :: "'w graph_env \<Rightarrow> string \<Rightarrow> string \<Rightarrow> 'w \<Rightarrow> (bus_exn + unit_observation) \<times> 'w" where
  "ge_observe G path unit w = observe_path
     \<lparr>rd_bus = ge_bus G, rd_type_properties = ge_type_properties G,
      rd_tick = (\<lambda>w. case ge_tick G w of
         (True, w') \<Rightarrow> (Inr (), w') | (False, w') \<Rightarrow> (Inl deadline_expired, w'))\<rparr>
     path (Some unit) None False w"

definition gap :: "string \<Rightarrow> walk \<Rightarrow> walk" where
  "gap t s = s\<lparr>wk_gaps := insert (''effect_graph.'' @ t) (wk_gaps s)\<rparr>"

section \<open>Following a relation\<close>

definition enqueue :: "graph_limits \<Rightarrow> string \<Rightarrow> effect_kind \<Rightarrow> nat \<Rightarrow> walk \<Rightarrow> walk" where
  "enqueue L u kind depth s =
     (if (u, kind) \<in> wk_queued s then s
      else if depth > gl_depth L then gap ''depth_limit'' s
      else if u \<notin> wk_names s \<and> card (wk_names s) \<ge> gl_nodes L then gap ''node_limit'' s
      else s\<lparr>wk_names := insert u (wk_names s), wk_queued := insert (u, kind) (wk_queued s),
             wk_pending := wk_pending s @ [(u, kind, depth)]\<rparr>)"

definition follow :: "graph_limits \<Rightarrow> string \<Rightarrow> string \<Rightarrow> effect_kind \<Rightarrow> nat \<Rightarrow> string \<Rightarrow> walk \<Rightarrow> walk" where
  "follow L canonical relation kind depth u s =
     (let e = (canonical, relation, u) in
      if e \<notin> set (wk_edges s) \<and> length (wk_edges s) \<ge> gl_edges L then gap ''edge_limit'' s
      else enqueue L u kind (depth + 1)
             (s\<lparr>wk_edges := (if e \<in> set (wk_edges s) then wk_edges s else wk_edges s @ [e])\<rparr>))"

definition unreadable_relation :: "string \<Rightarrow> string \<Rightarrow> walk \<Rightarrow> walk" where
  "unreadable_relation relation canonical = gap (''unreadable:'' @ relation @ '':'' @ canonical)"

fun each_listed ::
  "'w graph_env \<Rightarrow> string \<Rightarrow> string \<Rightarrow> (string \<Rightarrow> walk \<Rightarrow> walk) \<Rightarrow> pyval list \<Rightarrow> 'w walking" where
  "each_listed G relation canonical body [] s w = (None, s, w)"
| "each_listed G relation canonical body (v # vs) s w =
     and_then (remaining G) (\<lambda>s w.
       if wk_budget s = 0 then (None, gap ''edge_limit'' s, w)
       else let s' = s\<lparr>wk_budget := wk_budget s - 1\<rparr> in
         each_listed G relation canonical body vs
           (case v of
              PStr u \<Rightarrow> if is_unit_name u then body u s' else unreadable_relation relation canonical s'
            | _ \<Rightarrow> unreadable_relation relation canonical s') w) s w"

definition each_reference ::
  "'w graph_env \<Rightarrow> facts \<Rightarrow> string \<Rightarrow> string \<times> (string \<Rightarrow> walk \<Rightarrow> walk) \<Rightarrow> 'w walking" where
  "each_reference G properties canonical rb s w =
     (case rb of (relation, body) \<Rightarrow>
       (case get properties relation of
          PNone \<Rightarrow> (None, gap (''unsupported:'' @ relation @ '':'' @ canonical) s, w)
        | PList vs \<Rightarrow> each_listed G relation canonical body vs s w
        | _ \<Rightarrow> (None, unreadable_relation relation canonical s, w)))"

text \<open>The relations a work kind follows, in the code's order, each with what a reference does.\<close>

definition start_reference ::
  "graph_limits \<Rightarrow> string \<Rightarrow> nat \<Rightarrow> string \<Rightarrow> effect_kind \<Rightarrow> string \<Rightarrow> walk \<Rightarrow> walk" where
  "start_reference L c depth rel child u s =
     (if rel = ''Upholds'' then gap (''runtime_upholding:'' @ c) else id) (follow L c rel child depth u s)"

definition graceful_reference :: "graph_limits \<Rightarrow> string \<Rightarrow> nat \<Rightarrow> string \<Rightarrow> walk \<Rightarrow> walk" where
  "graceful_reference L c depth u s =
     follow L c ''PropagatesStopTo'' K_Restart depth u (gap (''graceful_stop:'' @ c) s)"

definition conditional_reference ::
  "graph_limits \<Rightarrow> string \<Rightarrow> nat \<Rightarrow> string \<Rightarrow> string \<Rightarrow> walk \<Rightarrow> walk" where
  "conditional_reference L c depth rel u s =
     follow L c rel K_Footprint depth u (gap (''conditional:'' @ rel @ '':'' @ c) s)"

definition source_reference ::
  "graph_limits \<Rightarrow> string \<Rightarrow> nat \<Rightarrow> string \<Rightarrow> string \<Rightarrow> walk \<Rightarrow> walk" where
  "source_reference L c depth rel u s =
     (let s' = follow L c rel K_Source depth u s in
      if (c, rel, u) \<in> set (wk_edges s')
      then s'\<lparr>wk_reactivation := insert (c, rel, u) (wk_reactivation s')\<rparr> else s')"

definition work_relations ::
  "graph_limits \<Rightarrow> effect_kind \<Rightarrow> nat \<Rightarrow> string \<Rightarrow> (string \<times> (string \<Rightarrow> walk \<Rightarrow> walk)) list" where
  "work_relations L kind depth c =
     (if kind \<in> {K_Start, K_Restart} then
        map (\<lambda>(rel, child). (rel, start_reference L c depth rel child)) START_JOB_RELATIONSHIPS
      else []) @
     (if kind \<in> {K_Stop, K_Restart} then
        map (\<lambda>rel. (rel, follow L c rel kind depth)) STOP_JOB_RELATIONSHIPS @
        [(''PropagatesStopTo'', graceful_reference L c depth)] @
        map (\<lambda>rel. (rel, \<lambda>u. enqueue L u K_Inspect (depth + 1))) RELEASED_DEPENDENCIES
      else []) @
     map (\<lambda>rel. (rel, conditional_reference L c depth rel)) CONDITIONAL_RELATIONSHIPS @
     map (\<lambda>rel. (rel, source_reference L c depth rel)) REACTIVATION_RELATIONSHIPS"

section \<open>One unit\<close>

text \<open>Whether a source is active, and what is uncertain of it; an unhashable state raises.\<close>

definition reactivation_job_state :: "pyval \<Rightarrow> string" where
  "reactivation_job_state v = (case v of
     PList [job, path] \<Rightarrow>
       (case (job, named path) of
          (PInt i, p) \<Rightarrow>
            if i = 0 \<and> p = Some ''/'' then ''none''
            else if i > 0 \<and> p \<noteq> None \<and> p \<noteq> Some ''/'' then ''pending'' else ''unreadable''
        | _ \<Rightarrow> ''unreadable'')
   | _ \<Rightarrow> ''unreadable'')"

definition reactivation_source_evidence :: "facts \<Rightarrow> bus_exn + bool \<times> string list" where
  "reactivation_source_evidence properties =
     (let state = get properties ''ActiveState''; active = is_str state ''active'';
          job = reactivation_job_state (get properties ''Job'') in
      if unhashable state then Inl (Other_Failure ''TypeError'' ''unhashable type'')
      else Inr (active,
        (if active \<or> str_in state REACTIVATION_STABLE_NEGATIVE_STATES then []
         else if str_in state REACTIVATION_CHANGING_STATES then [''state_changing'']
         else if named state \<noteq> None then [''state_unknown''] else [''state_unreadable'']) @
        (if job = ''pending'' then [''job_pending'']
         else if job = ''unreadable'' then [''job_unreadable''] else [])))"

definition gaps_from :: "string \<Rightarrow> string list \<Rightarrow> string \<Rightarrow> walk \<Rightarrow> walk" where
  "gaps_from prefix gs suffix s = fold (\<lambda>g. gap (prefix @ g @ suffix)) gs s"

definition check_unneeded :: "string \<Rightarrow> effect_kind \<Rightarrow> facts \<Rightarrow> string \<Rightarrow> walk \<Rightarrow> walk" where
  "check_unneeded action kind properties c s =
     (if action \<in> {''stop'', ''restart''} \<or> kind \<in> {K_Stop, K_Restart, K_Inspect} then
        (case get properties ''StopWhenUnneeded'' of
           PNone \<Rightarrow> gap (''unsupported:StopWhenUnneeded:'' @ c) s
         | PBool True \<Rightarrow> (gap (''stop_when_unneeded:'' @ c) s)\<lparr>wk_units := insert c (wk_units s)\<rparr>
         | PBool False \<Rightarrow> s
         | _ \<Rightarrow> gap (''unreadable:StopWhenUnneeded:'' @ c) s)
      else s)"

definition enter_unit :: "effect_kind \<Rightarrow> facts \<Rightarrow> string \<Rightarrow> walk \<Rightarrow> walk" where
  "enter_unit kind properties c s =
     (let s1 = s\<lparr>wk_visited := insert (c, kind) (wk_visited s),
                 wk_units := (if kind \<noteq> K_Inspect then insert c (wk_units s) else wk_units s)\<rparr> in
      if \<not> is_str (get properties ''LoadState'') ''loaded'' then gap (''load_state:'' @ c) s1 else s1)"

definition visit_unit ::
  "'w graph_env \<Rightarrow> graph_limits \<Rightarrow> string \<Rightarrow> string \<Rightarrow> effect_kind \<Rightarrow> nat \<Rightarrow> facts \<Rightarrow> 'w walking" where
  "visit_unit G L action c kind depth properties s w =
     (let s1 = enter_unit kind properties c s in
      case reactivation_source_evidence properties of
        Inl x \<Rightarrow> (Some x, s1, w)
      | Inr (_, gs) \<Rightarrow>
         (let s2 = check_unneeded action kind properties c (gaps_from ''runtime_'' gs ('':'' @ c) s1) in
          if kind \<in> {K_Verify, K_Inspect, K_Source, K_Footprint} then (None, s2, w)
          else for_each (each_reference G properties c) (work_relations L kind depth c) s2 w))"

text \<open>The first time a name comes up it is read; an alias is a gap that stays.\<close>

definition read_properties :: "'w graph_env \<Rightarrow> string \<Rightarrow> string \<Rightarrow> string \<Rightarrow> walk \<Rightarrow> 'w \<Rightarrow>
    (bus_exn + facts) \<times> walk \<times> 'w" where
  "read_properties G target target_path requested s w =
     (let props = (\<lambda>path w. case remaining G s w of
             (Some x, _, w') \<Rightarrow> (Inl x, s, w')
           | (None, _, w') \<Rightarrow> (case sb_properties (ge_bus G) path w' of (r, w'') \<Rightarrow> (r, s, w''))) in
      if requested = target then props target_path w
      else case remaining G s w of
          (Some x, _, w') \<Rightarrow> (Inl x, s, w')
        | (None, _, w') \<Rightarrow>
           (case sb_get_unit (ge_bus G) requested w' of
              (Inl x, w'') \<Rightarrow> (Inl x, s, w'') | (Inr path, w'') \<Rightarrow> props path w''))"

definition attempt_read :: "'w graph_env \<Rightarrow> string \<Rightarrow> string \<Rightarrow> string \<Rightarrow> 'w walking" where
  "attempt_read G target target_path requested s w =
     (if requested \<in> wk_attempted s then (None, s, w)
      else case read_properties G target target_path requested
               (s\<lparr>wk_attempted := insert requested (wk_attempted s)\<rparr>) w of
          (Inl (Unit_Absent _), s', w') \<Rightarrow> (None, gap (''unresolved:'' @ requested) s', w')
        | (Inl x, s', w') \<Rightarrow> (Some x, s', w')
        | (Inr properties, s', w') \<Rightarrow>
           (None,
            (case get properties ''Id'' of
               PStr c \<Rightarrow>
                 if is_unit_name c
                 then (if requested \<noteq> c then gap (''alias_reference:'' @ requested) else id)
                   (s'\<lparr>wk_aliases := (wk_aliases s')(requested \<mapsto> c),
                      wk_nodes := (case wk_nodes s' c of None \<Rightarrow> (wk_nodes s')(c \<mapsto> properties) | Some _ \<Rightarrow> wk_nodes s')\<rparr>)
                 else gap (''canonical_id:'' @ requested) s'
             | _ \<Rightarrow> gap (''canonical_id:'' @ requested) s'), w'))"

text \<open>One round of the loop.\<close>

definition walk_round :: "'w graph_env \<Rightarrow> graph_limits \<Rightarrow> string \<Rightarrow> string \<Rightarrow> string \<Rightarrow> 'w walking" where
  "walk_round G L action target target_path =
     and_then (remaining G) (\<lambda>s w. case wk_pending s of
         [] \<Rightarrow> (None, s, w)
       | (requested, kind, depth) # rest \<Rightarrow>
          and_then (attempt_read G target target_path requested) (\<lambda>s w.
            case wk_aliases s requested of
              None \<Rightarrow> (None, s, w)
            | Some c \<Rightarrow>
               if (c, kind) \<in> wk_visited s then (None, s, w)
               else (case wk_nodes s c of
                   None \<Rightarrow> (Some (Other_Failure ''KeyError'' c), s, w)
                 | Some properties \<Rightarrow> visit_unit G L action c kind depth properties s w))
            (s\<lparr>wk_pending := rest\<rparr>) w)"

definition walk_loop ::
  "'w graph_env \<Rightarrow> graph_limits \<Rightarrow> string \<Rightarrow> string \<Rightarrow> string \<Rightarrow> walk \<Rightarrow> 'w \<Rightarrow>
   (bus_exn option \<times> walk \<times> 'w) option" where
  "walk_loop G L action target target_path s w =
     while_option (\<lambda>(x, s, w). x = None \<and> wk_pending s \<noteq> [])
       (\<lambda>(x, s, w). walk_round G L action target target_path s w) (None, s, w)"

section \<open>The edges\<close>

definition settle_edge :: "'w graph_env \<Rightarrow> string \<Rightarrow> effect_edge3 \<Rightarrow> 'w walking" where
  "settle_edge G target e =
     and_then (remaining G) (\<lambda>s w. case e of (source, relation, referenced) \<Rightarrow>
       (let resolved = (case wk_aliases s referenced of None \<Rightarrow> referenced | Some c \<Rightarrow> c);
            s1 = s\<lparr>wk_final := insert (source, relation, resolved) (wk_final s)\<rparr> in
        case wk_nodes s1 resolved of
          None \<Rightarrow> (None, gap (''unresolved:'' @ referenced) s1, w)
        | Some properties \<Rightarrow>
           if e \<notin> wk_reactivation s1 then (None, s1, w)
           else (case reactivation_source_evidence properties of
               Inl x \<Rightarrow> (Some x, s1, w)
             | Inr (active, gs) \<Rightarrow>
                (let s2 = gaps_from ''reactivation_source_'' gs ('':'' @ relation @ '':'' @ resolved) s1;
                     s3 = (if \<exists>k \<in> {K_Start, K_Stop, K_Restart}. (resolved, k) \<in> wk_visited s2
                           then gap (''reactivation_source_in_closure:'' @ relation @ '':'' @ resolved) s2 else s2);
                     s4 = (if active \<and> source \<noteq> target
                           then gap (''transitive_reactivation:'' @ relation @ '':'' @ source) s3 else s3) in
                 (None, s4\<lparr>
                    wk_active := (if active \<and> source = target \<and> relation = ''TriggeredBy''
                                  then insert resolved (wk_active s4) else wk_active s4),
                    wk_upholding := (if active \<and> source = target \<and> relation = ''UpheldBy''
                                  then insert resolved (wk_upholding s4) else wk_upholding s4)\<rparr>, w)))))"

definition settle_edges :: "'w graph_env \<Rightarrow> string \<Rightarrow> 'w walking" where
  "settle_edges G target s w = for_each (settle_edge G target) (wk_edges s) s w"

section \<open>The observation\<close>

record effect_graph =
  eg_status :: string
  eg_observed_at :: string
  eg_requested_unit :: string
  eg_action :: string
  eg_provider_version :: "string option"
  eg_canonical_target :: "string option"
  eg_target :: "unit_observation option"
  eg_units :: "string list"
  eg_edges :: "effect_edge3 list"
  eg_active_activation_sources :: "string list"
  eg_active_upholding_sources :: "string list"
  eg_gaps :: "string list"
  eg_reason :: "string option"
  eg_detail :: facts

definition eg_complete :: "effect_graph \<Rightarrow> bool" where
  "eg_complete g \<longleftrightarrow> eg_status g = ''complete'' \<and> eg_gaps g = []"

definition no_graph :: "string \<Rightarrow> string \<Rightarrow> string \<Rightarrow> string \<Rightarrow> string list \<Rightarrow> effect_graph" where
  "no_graph observed_at unit action reason open_gaps =
     \<lparr>eg_status = ''failed'', eg_observed_at = observed_at, eg_requested_unit = unit, eg_action = action,
      eg_provider_version = None, eg_canonical_target = None, eg_target = None, eg_units = [],
      eg_edges = [], eg_active_activation_sources = [], eg_active_upholding_sources = [],
      eg_gaps = open_gaps, eg_reason = Some reason, eg_detail = []\<rparr>"

definition edge_list :: "effect_edge3 set \<Rightarrow> effect_edge3 list" where
  "edge_list es = map (\<lambda>k. (k ! 0, k ! 1, k ! 2)) (sorted_list_of_set ((\<lambda>(a, b, c). [a, b, c]) ` es))"

text \<open>What the walk has, as the graph it returns.\<close>

definition graph_of :: "string \<Rightarrow> string \<Rightarrow> string \<Rightarrow> string option \<Rightarrow> unit_observation option \<Rightarrow> walk \<Rightarrow>
    string \<Rightarrow> string option \<Rightarrow> facts \<Rightarrow> effect_graph" where
  "graph_of observed_at unit action version target s status reason detail =
     \<lparr>eg_status = status, eg_observed_at = observed_at, eg_requested_unit = unit, eg_action = action,
      eg_provider_version = version, eg_canonical_target = map_option uo_canonical_id target,
      eg_target = target, eg_units = sorted_list_of_set (wk_units s), eg_edges = edge_list (wk_final s),
      eg_active_activation_sources = sorted_list_of_set (wk_active s),
      eg_active_upholding_sources = sorted_list_of_set (wk_upholding s),
      eg_gaps = sorted_list_of_set (wk_gaps s), eg_reason = reason, eg_detail = detail\<rparr>"

definition no_walk :: walk where
  "no_walk = \<lparr>wk_pending = [], wk_queued = {}, wk_visited = {}, wk_names = {}, wk_aliases = Map.empty,
     wk_attempted = {}, wk_nodes = Map.empty, wk_units = {}, wk_edges = [], wk_reactivation = {},
     wk_gaps = {}, wk_budget = 0, wk_final = {}, wk_active = {}, wk_upholding = {}\<rparr>"

definition first_walk :: "graph_limits \<Rightarrow> string \<Rightarrow> string \<Rightarrow> walk" where
  "first_walk L target action = no_walk\<lparr>wk_pending := [(target, kind_of_action action, 0)],
     wk_queued := {(target, kind_of_action action)}, wk_names := {target}, wk_budget := gl_edges L * 7\<rparr>"

definition read_failed :: "string \<Rightarrow> string \<Rightarrow> string \<Rightarrow> string option \<Rightarrow> unit_observation option \<Rightarrow> walk \<Rightarrow>
    bus_exn \<Rightarrow> effect_graph" where
  "read_failed observed_at unit action version target s x =
     graph_of observed_at unit action version target (gap ''read_failed'' s)
       (if target \<noteq> None then ''partial'' else ''failed'') (Some ''effect_graph_read_failed'') (failure_detail x)"

definition finished_graph :: "graph_limits \<Rightarrow> string \<Rightarrow> string \<Rightarrow> string \<Rightarrow> string option \<Rightarrow>
    unit_observation option \<Rightarrow> walk \<Rightarrow> effect_graph" where
  "finished_graph L observed_at unit action version target s =
     graph_of observed_at unit action version target s
       (if wk_gaps s = {} then ''complete'' else ''partial'')
       (if wk_gaps s = {} then None else Some ''effect_graph_incomplete'')
       [(''max_nodes'', PInt (int (gl_nodes L))), (''max_depth'', PInt (int (gl_depth L))),
        (''max_edges'', PInt (int (gl_edges L))), (''deadline_s'', POther 1),
        (''ordering_relationships_excluded'', texts_of [''Before'', ''After'']),
        (''transport_handles_persisted'', PBool False)]"

text \<open>The read inside the connection: an exception, a graph at once, or the walk to its end.\<close>

datatype graph_read =
    Raised_At bus_exn "string option" "unit_observation option" walk
  | Early effect_graph "string option" "unit_observation option"
  | Walked "string option" unit_observation walk

definition read_walk ::
  "'w graph_env \<Rightarrow> graph_limits \<Rightarrow> string \<Rightarrow> string \<Rightarrow> string option \<Rightarrow> unit_observation \<Rightarrow> string \<Rightarrow> 'w \<Rightarrow>
   (graph_read \<times> 'w) option" where
  "read_walk G L unit action version target path w =
     map_option (\<lambda>(x, s, w'). case x of
          Some e \<Rightarrow> (Raised_At e version (Some target) s, w')
        | None \<Rightarrow> (case settle_edges G unit s w' of
             (Some e, s', w'') \<Rightarrow> (Raised_At e version (Some target) s', w'')
           | (None, s', w'') \<Rightarrow> (Walked version target s', w'')))
       (walk_loop G L action unit path (first_walk L unit action) w)"

definition read_graph ::
  "'w graph_env \<Rightarrow> graph_limits \<Rightarrow> string \<Rightarrow> string \<Rightarrow> string \<Rightarrow> 'w \<Rightarrow> (graph_read \<times> 'w) option" where
  "read_graph G L observed_at unit action w =
     (let B = ge_bus G; failed = (\<lambda>x version target w. Some (Raised_At x version target no_walk, w)) in
      case remaining G no_walk w of
        (Some x, _, w1) \<Rightarrow> failed x None None w1
      | (None, _, w1) \<Rightarrow>
      case ge_manager_properties G w1 of
        (Inl x, w2) \<Rightarrow> failed x None None w2
      | (Inr d, w2) \<Rightarrow>
      let version = mb_version (normalise_manager d (sb_now B w2)) in
      case remaining G no_walk w2 of
        (Some x, _, w3) \<Rightarrow> failed x version None w3
      | (None, _, w3) \<Rightarrow>
      case sb_get_unit B unit w3 of
        (Inl (Unit_Absent _), w4) \<Rightarrow>
          Some (Early ((no_graph observed_at unit action ''loaded_unit_absent'' [''target.loaded_unit''])
                  \<lparr>eg_provider_version := version\<rparr>) version None, w4)
      | (Inl x, w4) \<Rightarrow> failed x version None w4
      | (Inr path, w4) \<Rightarrow>
      case ge_observe G path unit w4 of
        (Inl x, w5) \<Rightarrow> failed x version None w5
      | (Inr target, w5) \<Rightarrow>
          if uo_canonical_id target \<noteq> unit
          then Some (Early ((no_graph observed_at unit action ''canonical_target_mismatch'' [''target.canonical_id''])
                  \<lparr>eg_provider_version := version, eg_target := Some target,
                   eg_canonical_target := Some (uo_canonical_id target)\<rparr>) version (Some target), w5)
          else read_walk G L unit action version target path w5)"

definition observe_effect_graph ::
  "'w graph_env \<Rightarrow> int \<Rightarrow> int \<Rightarrow> int \<Rightarrow> string \<Rightarrow> string \<Rightarrow> 'w \<Rightarrow> ((py_error + effect_graph) \<times> 'w) option" where
  "observe_effect_graph G max_nodes max_depth max_edges unit action w =
     (let B = ge_bus G; L = limits_of max_nodes max_depth max_edges; noted = sb_now B w in
      case validate_unit_name unit of
        Inl t \<Rightarrow> Some (Inl (ValueError t), w)
      | Inr _ \<Rightarrow>
      if action \<notin> set LIFECYCLE_ACTIONS
      then Some (Inl (ValueError ''unsupported systemd lifecycle action''), w)
      else if \<not> endswith unit ''.service''
      then Some (Inr (no_graph noted unit action ''target_not_service'' []), w)
      else case environment_unavailable B w of
        Some (reason, detail) \<Rightarrow>
          Some (Inr ((no_graph noted unit action reason [''systemd.manager''])\<lparr>eg_detail := detail\<rparr>), w)
      | None \<Rightarrow>
      case sb_open B w of
        (Inl x, w1) \<Rightarrow> Some (Inr (read_failed noted unit action None None no_walk x), w1)
      | (Inr _, w1) \<Rightarrow>
          map_option (\<lambda>(r, w2).
            let (closed, w3) = sb_close B w2 in
            (Inr (case (r, closed) of
               (Raised_At x version target s, Inr _) \<Rightarrow> read_failed noted unit action version target s x
             | (Raised_At _ version target s, Inl x) \<Rightarrow> read_failed noted unit action version target s x
             | (Early g version target, Inr _) \<Rightarrow> g
             | (Early g version target, Inl x) \<Rightarrow> read_failed noted unit action version target no_walk x
             | (Walked version target s, Inr _) \<Rightarrow> finished_graph L noted unit action version (Some target) s
             | (Walked version target s, Inl x) \<Rightarrow> read_failed noted unit action version (Some target) s x), w3))
           (read_graph G L noted unit action w1))"

end
