(* ===== verification/Lifecycle_Evidence.thy ===== *)
theory Lifecycle_Evidence
  imports Effect_Graph
begin

text \<open>
  The evidence a lifecycle action is judged on, as the agent composes it
  (\<open>src/localplane/agent/systemd_lifecycle_context.py\<close>): what the action reaches (\<open>Effect_Graph\<close>), the
  units that carry the operator's connection, and the unit the agent runs in; with the resolutions of
  units by control group, by process and by provider (\<open>agent/providers/systemd.py\<close>), and the agent's
  handler for the read (\<open>agent/service.py\<close>).

  The kernel's socket table and its control groups (\<open>linux_socket_diag.py\<close>) and the correlation of a
  container with its runtime (\<open>docker_runtime_owner.py\<close>) are parameters, as what they return.
\<close>

section \<open>Resolving a unit\<close>

record unit_resolution =
  ur_status :: string
  ur_observed_at :: string
  ur_method :: string
  ur_cgroup :: "string option"
  ur_canonical_id :: "string option"
  ur_invocation_id :: pyval
  ur_unit :: "unit_observation option"
  ur_gaps :: "string list"
  ur_reason :: "string option"
  ur_detail :: facts

definition ur_as_dict :: "unit_resolution \<Rightarrow> facts" where
  "ur_as_dict r = [(''provider'', PStr PROVIDER_SYSTEMD), (''status'', PStr (ur_status r)),
     (''method'', PStr (ur_method r)), (''observed_at'', PStr (ur_observed_at r)),
     (''cgroup'', opt_text (ur_cgroup r)), (''canonical_id'', opt_text (ur_canonical_id r)),
     (''invocation_id'', ur_invocation_id r),
     (''unit'', (case ur_unit r of None \<Rightarrow> PNone | Some u \<Rightarrow> PDict (uo_as_dict u))),
     (''gaps'', texts_of (ur_gaps r)), (''reason'', opt_text (ur_reason r)), (''detail'', PDict (ur_detail r))]"

definition SELF_UNIT_METHOD :: string where "SELF_UNIT_METHOD = ''manager_get_unit_by_control_group''"

definition unresolved_unit :: "string \<Rightarrow> string \<Rightarrow> string \<Rightarrow> string option \<Rightarrow> string \<Rightarrow> facts \<Rightarrow> unit_resolution" where
  "unresolved_unit status observed_at how cgroup reason detail =
     \<lparr>ur_status = status, ur_observed_at = observed_at, ur_method = how, ur_cgroup = cgroup,
      ur_canonical_id = None, ur_invocation_id = PNone, ur_unit = None, ur_gaps = [],
      ur_reason = Some reason, ur_detail = detail\<rparr>"

definition resolved_unit :: "string \<Rightarrow> string \<Rightarrow> string option \<Rightarrow> unit_observation \<Rightarrow> facts \<Rightarrow> unit_resolution" where
  "resolved_unit observed_at how cgroup u detail =
     \<lparr>ur_status = ''resolved'', ur_observed_at = observed_at, ur_method = how, ur_cgroup = cgroup,
      ur_canonical_id = Some (uo_canonical_id u), ur_invocation_id = get (uo_facts u) ''invocation_id'',
      ur_unit = Some u, ur_gaps = [], ur_reason = None, ur_detail = detail\<rparr>"

text \<open>The manager's answers beyond those of a walk, and the kernel's.\<close>

record socket_match =
  sm_cgroup_id :: int
  sm_socket_inode :: int
  sm_uid :: int

record socket_diag =
  sd_status :: string
  sd_reason :: string
  sd_match :: "socket_match option"
  sd_match_count :: int
  sd_inspected_count :: int
  sd_detail :: facts

record cgroup_path =
  cg_status :: string
  cg_reason :: string
  cg_path :: "string option"
  cg_inspected_count :: int
  cg_detail :: facts

record socket_tuple =
  st_family :: string
  st_peer_ip :: string
  st_peer_port :: int
  st_local_ip :: string
  st_local_port :: int

record 'w evidence_env =
  ev_graph :: "'w graph_env"
  ev_unit_by_cgroup :: "string \<Rightarrow> 'w \<Rightarrow> (bus_exn + string) \<times> 'w"
  ev_name_owner_pid :: "string \<Rightarrow> 'w \<Rightarrow> (bus_exn + string \<times> int) \<times> 'w"
  ev_unit_by_pid :: "int \<Rightarrow> 'w \<Rightarrow> (bus_exn + string) \<times> 'w"
  ev_proc_cgroup :: "'w \<Rightarrow> bus_exn + string"
  ev_proc_path :: string
  ev_netns_inode :: "'w \<Rightarrow> int option"
  ev_socket_lookup :: "socket_tuple \<Rightarrow> 'w \<Rightarrow> socket_diag \<times> 'w"
  ev_cgroup_path :: "int \<Rightarrow> 'w \<Rightarrow> cgroup_path"
  ev_runtime_owner :: "(string \<Rightarrow> 'w \<Rightarrow> (runtime_owner_correlation \<times> facts) \<times> 'w) option"
  ev_int :: "pyval \<Rightarrow> py_error + int"

text \<open>The block of a connection: closing it may raise, in place of what the block had.\<close>

definition connected :: "'w systemd_bus \<Rightarrow> ('w \<Rightarrow> (bus_exn + 'a) \<times> 'w) \<Rightarrow> 'w \<Rightarrow> (bus_exn + 'a) \<times> 'w" where
  "connected B f w = (case sb_open B w of
     (Inl x, w1) \<Rightarrow> (Inl x, w1)
   | (Inr _, w1) \<Rightarrow> (case f w1 of (r, w2) \<Rightarrow> (case sb_close B w2 of
       (Inl x, w3) \<Rightarrow> (Inl x, w3) | (Inr _, w3) \<Rightarrow> (r, w3))))"

definition observe_any :: "'w evidence_env \<Rightarrow> string \<Rightarrow> 'w \<Rightarrow> (bus_exn + unit_observation) \<times> 'w" where
  "observe_any E path w = observe_path
     \<lparr>rd_bus = ge_bus (ev_graph E), rd_type_properties = ge_type_properties (ev_graph E),
      rd_tick = (\<lambda>w. (Inr (), w))\<rparr> path None None True w"

definition unit_of_cgroup :: "'w evidence_env \<Rightarrow> string \<Rightarrow> 'w \<Rightarrow> (bus_exn + unit_observation) \<times> 'w" where
  "unit_of_cgroup E g w = connected (ge_bus (ev_graph E)) (\<lambda>w.
     case ev_unit_by_cgroup E g w of
       (Inl x, w') \<Rightarrow> (Inl x, w') | (Inr path, w') \<Rightarrow> observe_any E path w') w"

definition cgroup_resolution ::
  "string \<Rightarrow> string \<Rightarrow> bus_exn + unit_observation \<Rightarrow> unit_resolution" where
  "cgroup_resolution observed_at g r = (case r of
     Inl (Error_Reply n) \<Rightarrow> unresolved_unit ''unresolved'' observed_at SELF_UNIT_METHOD (Some g)
         ''control_group_not_resolved'' (failure_detail (Error_Reply n))
   | Inl x \<Rightarrow> unresolved_unit ''failed'' observed_at SELF_UNIT_METHOD (Some g)
         ''control_group_resolution_failed'' (failure_detail x)
   | Inr u \<Rightarrow> resolved_unit observed_at SELF_UNIT_METHOD (Some g) u [])"

definition resolve_control_group_unit :: "'w evidence_env \<Rightarrow> string \<Rightarrow> 'w \<Rightarrow> unit_resolution \<times> 'w" where
  "resolve_control_group_unit E g w =
     (let observed_at = sb_now (ge_bus (ev_graph E)) w in
      if take 1 g \<noteq> ''/'' \<or> CHR 0x00 \<in> set g \<or> length g > 4096
      then (unresolved_unit ''failed'' observed_at SELF_UNIT_METHOD None ''invalid_control_group_evidence'' [], w)
      else case unit_of_cgroup E g w of (r, w') \<Rightarrow> (cgroup_resolution observed_at g r, w'))"

definition PROVIDER_DBUS_NAMES :: "(string \<times> string) list" where
  "PROVIDER_DBUS_NAMES = [(''networkmanager'', ''org.freedesktop.NetworkManager'')]"

definition unit_of_name :: "'w evidence_env \<Rightarrow> string \<Rightarrow> 'w \<Rightarrow>
    (bus_exn + (string \<times> int) \<times> unit_observation) \<times> 'w" where
  "unit_of_name E bus_name w = connected (ge_bus (ev_graph E)) (\<lambda>w.
     case ev_name_owner_pid E bus_name w of
       (Inl x, w1) \<Rightarrow> (Inl x, w1)
     | (Inr (owner, pid), w1) \<Rightarrow>
     case ev_unit_by_pid E pid w1 of
       (Inl x, w2) \<Rightarrow> (Inl x, w2)
     | (Inr path, w2) \<Rightarrow>
     case observe_any E path w2 of
       (Inl x, w3) \<Rightarrow> (Inl x, w3) | (Inr u, w3) \<Rightarrow> (Inr ((owner, pid), u), w3)) w"

definition resolve_provider_unit :: "'w evidence_env \<Rightarrow> string \<Rightarrow> 'w \<Rightarrow> unit_resolution \<times> 'w" where
  "resolve_provider_unit E provider w =
     (let observed_at = sb_now (ge_bus (ev_graph E)) w; asked = [(''provider'', PStr provider)] in
      case map_of PROVIDER_DBUS_NAMES provider of
        None \<Rightarrow> (unresolved_unit ''unresolved'' observed_at ''provider_owner_to_systemd_unit'' None
            ''provider_owner_resolution_unsupported'' asked, w)
      | Some bus_name \<Rightarrow>
         (case unit_of_name E bus_name w of
            (Inl x, w') \<Rightarrow> (unresolved_unit ''failed'' observed_at ''dbus_owner_pid_to_systemd_unit'' None
                ''provider_owner_resolution_failed''
                (updated (asked @ [(''bus_name'', PStr bus_name)]) (failure_detail x)), w')
          | (Inr ((owner, pid), u), w') \<Rightarrow>
              (resolved_unit observed_at ''dbus_owner_pid_to_systemd_unit'' None u
                (asked @ [(''bus_name'', PStr bus_name), (''owner'', PStr owner), (''pid'', PInt pid)]), w')))"

text \<open>
  \<open>/proc/self/cgroup\<close>: the unified hierarchy's line where there is one, else the last line of systemd's
  own hierarchy. Lines end where \<open>str.splitlines\<close> ends them.
\<close>

definition ends_line :: "char \<Rightarrow> bool" where
  "ends_line c \<longleftrightarrow> code c \<in> {10, 11, 12, 13, 28, 29, 30, 133}"

fun split_lines :: "string \<Rightarrow> string \<Rightarrow> string list" where
  "split_lines acc [] = (if acc = [] then [] else [acc])"
| "split_lines acc [c] = (if ends_line c then [acc] else [acc @ [c]])"
| "split_lines acc (c # d # cs) =
     (if c = CHR 0x0D \<and> d = newline then acc # split_lines [] cs
      else if ends_line c then acc # split_lines [] (d # cs)
      else split_lines (acc @ [c]) (d # cs))"

fun cgroup_in :: "string option \<Rightarrow> string list \<Rightarrow> string option" where
  "cgroup_in v1 [] = v1"
| "cgroup_in v1 (l # ls) = (case first_split CHR '':'' l of
     None \<Rightarrow> cgroup_in v1 ls
   | Some (hierarchy, rest) \<Rightarrow> (case first_split CHR '':'' rest of
       None \<Rightarrow> cgroup_in v1 ls
     | Some (controllers, g) \<Rightarrow>
         if take 1 g \<noteq> ''/'' then cgroup_in v1 ls
         else if hierarchy = ''0'' \<and> controllers = [] then Some g
         else if ''name=systemd'' \<in> set (split_on CHR '','' controllers) \<or>
                 ''systemd'' \<in> set (split_on CHR '','' controllers) then cgroup_in (Some g) ls
         else cgroup_in v1 ls))"

definition read_systemd_cgroup :: "string \<Rightarrow> string option" where
  "read_systemd_cgroup text = cgroup_in None (split_lines [] text)"

definition resolve_current_process_unit :: "'w evidence_env \<Rightarrow> 'w \<Rightarrow> unit_resolution \<times> 'w" where
  "resolve_current_process_unit E w =
     (let B = ge_bus (ev_graph E); observed_at = sb_now B w;
          here = (\<lambda>d. (''path'', PStr (ev_proc_path E)) # d) in
      case ev_proc_cgroup E w of
        Inl x \<Rightarrow> (unresolved_unit ''failed'' observed_at SELF_UNIT_METHOD None ''proc_cgroup_unreadable''
            (here (failure_detail x)), w)
      | Inr text \<Rightarrow>
      (case read_systemd_cgroup text of
         None \<Rightarrow> ((unresolved_unit ''unresolved'' observed_at SELF_UNIT_METHOD None ''systemd_cgroup_unavailable''
             (here []))\<lparr>ur_gaps := [''proc_self_cgroup.systemd'']\<rparr>, w)
       | Some g \<Rightarrow>
         (case environment_unavailable B w of
            Some (reason, detail) \<Rightarrow>
              (unresolved_unit ''failed'' observed_at SELF_UNIT_METHOD (Some g) reason detail, w)
          | None \<Rightarrow> (case unit_of_cgroup E g w of (r, w') \<Rightarrow> (cgroup_resolution observed_at g r, w')))))"

section \<open>The accepted connection\<close>

definition sd_as_dict :: "socket_diag \<Rightarrow> facts" where
  "sd_as_dict d = [(''status'', PStr (sd_status d)), (''reason'', PStr (sd_reason d)),
     (''match_count'', PInt (sd_match_count d)), (''inspected_count'', PInt (sd_inspected_count d)),
     (''match'', (case sd_match d of None \<Rightarrow> PNone
        | Some m \<Rightarrow> PDict [(''cgroup_id'', PInt (sm_cgroup_id m)), (''socket_inode'', PInt (sm_socket_inode m)),
            (''uid'', PInt (sm_uid m))])),
     (''detail'', PDict (sd_detail d))]"

definition cg_as_dict :: "cgroup_path \<Rightarrow> facts" where
  "cg_as_dict c = [(''status'', PStr (cg_status c)), (''reason'', PStr (cg_reason c)),
     (''path'', opt_text (cg_path c)), (''inspected_count'', PInt (cg_inspected_count c)),
     (''detail'', PDict (cg_detail c))]"

text \<open>The tuple the kernel is asked for: two addresses of the family named, and two ports.\<close>

definition validate_tuple :: "socket_tuple \<Rightarrow> py_error + ip_address \<times> ip_address" where
  "validate_tuple t =
     (case (ip_address (st_peer_ip t), ip_address (st_local_ip t)) of
        (Some peer, Some local) \<Rightarrow>
          (let expected = (if st_family t = ''ipv4'' then 4 else if st_family t = ''ipv6'' then 6 else 0) in
           if expected = 0 \<or> version_of peer \<noteq> expected \<or> version_of local \<noteq> expected
           then Inl (ValueError ''socket tuple family and addresses must agree'')
           else if \<not> (1 \<le> st_peer_port t \<and> st_peer_port t \<le> 65535 \<and>
                       1 \<le> st_local_port t \<and> st_local_port t \<le> 65535)
           then Inl (ValueError ''socket tuple ports must be between 1 and 65535'')
           else Inr (peer, local))
      | _ \<Rightarrow> Inl (ValueError ''not an address''))"

definition tuple_from :: "'w evidence_env \<Rightarrow> facts \<Rightarrow> py_error + socket_tuple \<times> ip_address \<times> ip_address" where
  "tuple_from E c =
     (let text = (\<lambda>k. bindE (getitem c k) (\<lambda>v. Inr (py_str (sb_repr (ge_bus (ev_graph E))) v)));
          number = (\<lambda>k. bindE (getitem c k) (ev_int E)) in
      bindE (text ''family'') (\<lambda>f. bindE (text ''peer_ip'') (\<lambda>pi. bindE (number ''peer_port'') (\<lambda>pp.
      bindE (text ''local_ip'') (\<lambda>li. bindE (number ''local_port'') (\<lambda>lp.
      (let t = \<lparr>st_family = f, st_peer_ip = pi, st_peer_port = pp, st_local_ip = li, st_local_port = lp\<rparr> in
       bindE (validate_tuple t) (\<lambda>ends. Inr (t, ends)))))))))"

definition caught_here :: "py_error \<Rightarrow> bool" where
  "caught_here e \<longleftrightarrow> (case e of KeyError _ \<Rightarrow> True | TypeError _ \<Rightarrow> True | ValueError _ \<Rightarrow> True | _ \<Rightarrow> False)"

record socket_context =
  sx_unit :: "string option"
  sx_cgroup :: "string option"
  sx_type :: pyval
  sx_evidence :: facts
  sx_gaps :: "string list"

definition no_socket :: "facts \<Rightarrow> string \<Rightarrow> socket_context" where
  "no_socket evidence g =
     \<lparr>sx_unit = None, sx_cgroup = None, sx_type = PNone, sx_evidence = evidence, sx_gaps = [''management_path.'' @ g]\<rparr>"

definition tuple_dict :: "socket_tuple \<Rightarrow> facts" where
  "tuple_dict t = [(''family'', PStr (st_family t)), (''peer_ip'', PStr (st_peer_ip t)),
     (''peer_port'', PInt (st_peer_port t)), (''local_ip'', PStr (st_local_ip t)),
     (''local_port'', PInt (st_local_port t))]"

definition dependency :: "string \<Rightarrow> string \<Rightarrow> pyval \<Rightarrow> pyval \<Rightarrow> string option \<Rightarrow> facts" where
  "dependency status reason unit unit_type owner =
     [(''status'', PStr status), (''reason'', PStr reason), (''containing_unit'', unit),
      (''containing_unit_type'', unit_type), (''authoritative_owner_unit'', opt_text owner)]"

text \<open>A socket found: its control group, the unit of that, and whether it is a service.\<close>

definition matched_context ::
  "'w evidence_env \<Rightarrow> facts \<Rightarrow> socket_match \<Rightarrow> 'w \<Rightarrow> socket_context \<times> 'w" where
  "matched_context E socket m w =
     (let cgroup = ev_cgroup_path E (sm_cgroup_id m) w;
          s1 = socket @ [(''cgroup'', PDict (cg_as_dict cgroup))];
          details = (\<lambda>s. [(''accepted_socket'', PDict s)]) in
      case (if cg_status cgroup = ''resolved'' then cg_path cgroup else None) of
        None \<Rightarrow> (no_socket (details s1) (''cgroup:'' @ cg_reason cgroup), w)
      | Some path \<Rightarrow>
      (case resolve_control_group_unit E path w of (r, w') \<Rightarrow>
        (let s2 = s1 @ [(''systemd_unit'', PDict (ur_as_dict r))] in
         case (if ur_status r = ''resolved'' then named (opt_text (ur_canonical_id r)) else None) of
           None \<Rightarrow>
             ((no_socket (details s2) (''systemd_unit:'' @
                 (case ur_reason r of None \<Rightarrow> ''None'' | Some t \<Rightarrow> t)))\<lparr>sx_cgroup := Some path\<rparr>, w')
         | Some unit \<Rightarrow>
             (let unit_type = (case ur_unit r of None \<Rightarrow> PNone | Some u \<Rightarrow> get (uo_facts u) ''unit_type'');
                  dep = (if is_str unit_type ''service''
                    then dependency ''not_applicable'' ''containing_unit_is_systemd_service'' (PStr unit) unit_type None
                    else dependency ''pending'' ''non_service_runtime_owner_correlation_required'' (PStr unit)
                           unit_type None) in
              (\<lparr>sx_unit = Some unit, sx_cgroup = Some path, sx_type = unit_type,
                sx_evidence = details (s2 @ [(''runtime_dependency'', PDict dep)]), sx_gaps = []\<rparr>, w')))))"

definition socket_context :: "'w evidence_env \<Rightarrow> facts \<Rightarrow> 'w \<Rightarrow> (py_error + socket_context) \<times> 'w" where
  "socket_context E c w =
     (case tuple_from E c of
        Inl e \<Rightarrow> (if caught_here e then Inr (no_socket [] ''accepted_tcp_tuple_invalid'') else Inl e, w)
      | Inr (t, peer, local) \<Rightarrow>
      if is_loopback peer \<or> is_loopback local
      then (Inr (no_socket [(''accepted_socket'', PDict [(''status'', PStr ''unsupported''),
               (''reason'', PStr ''loopback_transport'')])] ''loopback_transport''), w)
      else (case ev_socket_lookup E t w of (diag, w1) \<Rightarrow>
        (let socket = [(''tuple'', PDict (tuple_dict t)), (''diag'', PDict (sd_as_dict diag))] in
         case (if sd_status diag = ''matched'' then sd_match diag else None) of
           None \<Rightarrow> (Inr (no_socket [(''accepted_socket'', PDict socket)] (''socket_diag:'' @ sd_reason diag)), w1)
         | Some m \<Rightarrow> (case matched_context E socket m w1 of (x, w2) \<Rightarrow> (Inr x, w2)))))"

section \<open>The units that carry the connection\<close>

record management_evidence =
  me_units :: "string set"
  me_complete :: bool
  me_unit :: "string option"
  me_type :: pyval
  me_gaps :: "string set"
  me_evidence :: facts
  me_owner :: "runtime_owner_correlation option"

definition incomplete :: "string list \<Rightarrow> management_evidence \<Rightarrow> management_evidence" where
  "incomplete gs m = m\<lparr>me_complete := False, me_gaps := me_gaps m \<union> set gs\<rparr>"

definition set_dependency :: "facts \<Rightarrow> management_evidence \<Rightarrow> management_evidence" where
  "set_dependency dep m = m\<lparr>me_evidence := dict_set ''accepted_socket''
     (PDict (dict_set ''runtime_dependency'' (PDict dep) (as_dict (get (me_evidence m) ''accepted_socket''))))
     (me_evidence m)\<rparr>"

definition roc_resolved :: "runtime_owner_correlation \<Rightarrow> bool" where
  "roc_resolved r \<longleftrightarrow> roc_status r = RO_Resolved \<and> roc_gaps r = []"

text \<open>A unit that is no service: its container's runtime has to be correlated.\<close>

definition runtime_evidence ::
  "'w evidence_env \<Rightarrow> string \<Rightarrow> pyval \<Rightarrow> string option \<Rightarrow> management_evidence \<Rightarrow> 'w \<Rightarrow>
   management_evidence \<times> 'w" where
  "runtime_evidence E unit unit_type cgroup m w =
     (let unproven = (\<lambda>extra. dependency ''unknown'' ''accepted_connection_unit_runtime_owner_unproven''
            (PStr unit) unit_type None @ extra) in
      case (ev_runtime_owner E, cgroup) of
        (Some correlate, Some path) \<Rightarrow>
          (case correlate path w of ((owner, evidence), w') \<Rightarrow>
            (let m1 = m\<lparr>me_owner := Some owner, me_evidence := dict_set ''runtime_owner'' (PDict evidence) (me_evidence m)\<rparr>;
                 contract = [(''contract'', PStr (roc_contract_version owner))] in
             case (if roc_resolved owner then named (opt_text (roc_owner_unit_id owner)) else None) of
               Some u \<Rightarrow>
                 (set_dependency (dependency ''resolved'' ''docker_direct_unix_runtime_owner_verified''
                     (PStr unit) unit_type (Some u) @ contract) (m1\<lparr>me_units := insert u (me_units m1)\<rparr>), w')
             | None \<Rightarrow>
                 (set_dependency (unproven contract)
                   (incomplete (RUNTIME_OWNER_UMBRELLA_GAP # roc_gaps owner) m1), w')))
      | _ \<Rightarrow> (set_dependency (unproven []) (incomplete [RUNTIME_OWNER_UMBRELLA_GAP] m), w))"

definition connection_evidence ::
  "'w evidence_env \<Rightarrow> facts \<Rightarrow> management_evidence \<Rightarrow> 'w \<Rightarrow> (py_error + management_evidence) \<times> 'w" where
  "connection_evidence E c m w =
     (case socket_context E c w of
        (Inl e, w') \<Rightarrow> (Inl e, w')
      | (Inr x, w') \<Rightarrow>
         (let m1 = m\<lparr>me_evidence := updated (me_evidence m) (sx_evidence x), me_unit := sx_unit x,
                     me_type := sx_type x,
                     me_units := (case sx_unit x of None \<Rightarrow> me_units m | Some u \<Rightarrow> insert u (me_units m))\<rparr> in
          if sx_gaps x \<noteq> [] then (Inr (incomplete (sx_gaps x) m1), w')
          else (case sx_unit x of
              None \<Rightarrow> (Inr m1, w')
            | Some u \<Rightarrow>
                if is_str (sx_type x) ''service'' then (Inr m1, w')
                else (case runtime_evidence E u (sx_type x) (sx_cgroup x) m1 w' of (m2, w'') \<Rightarrow> (Inr m2, w'')))))"

fun int_value :: "pyval \<Rightarrow> int option" where
  "int_value (PInt i) = Some i"
| "int_value (PBool b) = Some (if b then 1 else 0)"
| "int_value _ = None"

text \<open>The connection is looked for only where the agent and the backend share a network namespace.\<close>

definition namespace_evidence ::
  "'w evidence_env \<Rightarrow> facts \<Rightarrow> management_evidence \<Rightarrow> 'w \<Rightarrow> (py_error + management_evidence) \<times> 'w" where
  "namespace_evidence E c m w =
     (let inode = ev_netns_inode E w; backend = get c ''backend_netns_inode'';
          m1 = m\<lparr>me_evidence := me_evidence m @ [(''network_namespace'', PDict [(''backend_inode'', backend),
                 (''agent_inode'', case inode of None \<Rightarrow> PNone | Some i \<Rightarrow> PInt i)])]\<rparr> in
      case (int_value backend, inode) of
        (Some b, Some i) \<Rightarrow>
          if b \<noteq> i then (Inr (incomplete [''management_path.network_namespace_mismatch''] m1), w)
          else connection_evidence E c m1 w
      | _ \<Rightarrow> (Inr (incomplete [''management_path.network_namespace''] m1), w))"

definition MANAGEMENT_PROVIDERS :: "string list" where
  "MANAGEMENT_PROVIDERS = [''networkmanager'', ''docker'', ''tailscale'']"

fun provider_units ::
  "'w evidence_env \<Rightarrow> string list \<Rightarrow> management_evidence \<Rightarrow> 'w \<Rightarrow> management_evidence \<times> 'w" where
  "provider_units E [] m w = (m, w)"
| "provider_units E (p # ps) m w =
     (if p \<notin> set MANAGEMENT_PROVIDERS
      then provider_units E ps (incomplete [''management_path.provider_vocabulary_unknown''] m) w
      else case resolve_provider_unit E p w of (r, w') \<Rightarrow>
        (let m1 = m\<lparr>me_evidence := dict_set ''provider_owners''
               (PDict (dict_set p (PDict (ur_as_dict r)) (as_dict (get (me_evidence m) ''provider_owners''))))
               (me_evidence m)\<rparr> in
         provider_units E ps
           (case (if ur_status r = ''resolved'' then named (opt_text (ur_canonical_id r)) else None) of
              Some u \<Rightarrow> m1\<lparr>me_units := insert u (me_units m1)\<rparr>
            | None \<Rightarrow> incomplete [''management_path.provider_owner:'' @ p] m1) w'))"

section \<open>The observation\<close>

record lifecycle_observation =
  lo_status :: string
  lo_observed_at :: string
  lo_target_unit :: string
  lo_action :: string
  lo_target_facts :: facts
  lo_effect_units :: "string list"
  lo_effect_edges :: "effect_edge3 list"
  lo_effect_complete :: bool
  lo_active_activation_sources :: "string list"
  lo_active_upholding_sources :: "string list"
  lo_management_units :: "string list"
  lo_management_complete :: bool
  lo_connection_unit :: "string option"
  lo_connection_unit_type :: pyval
  lo_agent_unit :: "string option"
  lo_agent_complete :: bool
  lo_agent_unit_type :: pyval
  lo_gaps :: "string list"
  lo_evidence :: facts
  lo_runtime_owner :: "runtime_owner_correlation option"

definition edge_dict :: "effect_edge3 \<Rightarrow> facts" where
  "edge_dict e = (case e of (s, r, t) \<Rightarrow> [(''source'', PStr s), (''relation'', PStr r), (''target'', PStr t)])"

definition lo_as_dict :: "lifecycle_observation \<Rightarrow> facts" where
  "lo_as_dict c = [(''status'', PStr (lo_status c)), (''observed_at'', PStr (lo_observed_at c)),
     (''target_unit'', PStr (lo_target_unit c)), (''action'', PStr (lo_action c)),
     (''target_facts'', PDict (lo_target_facts c)), (''effect_units'', texts (lo_effect_units c)),
     (''effect_edges'', PList (map (\<lambda>e. PDict (edge_dict e)) (lo_effect_edges c))),
     (''effect_complete'', PBool (lo_effect_complete c)),
     (''active_activation_sources'', texts (lo_active_activation_sources c)),
     (''active_upholding_sources'', texts (lo_active_upholding_sources c)),
     (''management_units'', texts (lo_management_units c)),
     (''management_complete'', PBool (lo_management_complete c)),
     (''connection_unit'', opt_text (lo_connection_unit c)),
     (''connection_unit_type'', lo_connection_unit_type c),
     (''agent_unit'', opt_text (lo_agent_unit c)), (''agent_complete'', PBool (lo_agent_complete c)),
     (''agent_unit_type'', lo_agent_unit_type c), (''gaps'', texts (lo_gaps c)),
     (''evidence'', PDict (lo_evidence c)),
     (''runtime_owner'', (case lo_runtime_owner c of None \<Rightarrow> PNone | Some r \<Rightarrow> PDict (owner_as_dict r)))]"

definition graph_evidence :: "effect_graph \<Rightarrow> facts" where
  "graph_evidence g =
     [(''transport_source'', PStr ''accepted_asgi_tcp_socket''),
      (''caller_supplied_transport_fields'', PBool False), (''forwarded_headers_authoritative'', PBool False),
      (''effect_graph'', PDict [(''status'', PStr (eg_status g)), (''reason'', opt_text (eg_reason g)),
         (''detail'', PDict (eg_detail g)), (''provider_version'', opt_text (eg_provider_version g)),
         (''target_observation'', (case eg_target g of None \<Rightarrow> PNone | Some u \<Rightarrow> PDict (uo_as_dict u)))])]"

definition first_evidence :: "effect_graph \<Rightarrow> management_evidence" where
  "first_evidence g =
     \<lparr>me_units = {}, me_complete = True, me_unit = None, me_type = PNone,
      me_gaps = set (eg_gaps g) \<union> (if eg_complete g then {} else {''systemd.effect_graph''}),
      me_evidence = graph_evidence g, me_owner = None\<rparr>"

definition composed ::
  "string \<Rightarrow> string \<Rightarrow> string \<Rightarrow> effect_graph \<Rightarrow> management_evidence \<Rightarrow> unit_resolution \<Rightarrow> lifecycle_observation" where
  "composed observed_at target action g m self =
     (let agent_complete = (ur_status self = ''resolved'' \<and> named (opt_text (ur_canonical_id self)) \<noteq> None);
          gs = me_gaps m \<union> (if agent_complete then {} else {''localplane_agent.containing_unit''}) in
      \<lparr>lo_status = (if eg_complete g \<and> me_complete m \<and> agent_complete \<and> gs = {} then ''complete'' else ''partial''),
       lo_observed_at = observed_at, lo_target_unit = target, lo_action = action,
       lo_target_facts = (case eg_target g of None \<Rightarrow> [] | Some u \<Rightarrow> uo_facts u),
       lo_effect_units = eg_units g, lo_effect_edges = eg_edges g, lo_effect_complete = eg_complete g,
       lo_active_activation_sources = eg_active_activation_sources g,
       lo_active_upholding_sources = eg_active_upholding_sources g,
       lo_management_units = sorted_list_of_set (me_units m), lo_management_complete = me_complete m,
       lo_connection_unit = me_unit m, lo_connection_unit_type = me_type m,
       lo_agent_unit = ur_canonical_id self, lo_agent_complete = agent_complete,
       lo_agent_unit_type = (case ur_unit self of None \<Rightarrow> PNone | Some u \<Rightarrow> get (uo_facts u) ''unit_type''),
       lo_gaps = sorted_list_of_set gs,
       lo_evidence = me_evidence m @ [(''agent_containment'', PDict (ur_as_dict self))],
       lo_runtime_owner = me_owner m\<rparr>)"

definition observe_lifecycle ::
  "'w evidence_env \<Rightarrow> string \<Rightarrow> string \<Rightarrow> facts \<Rightarrow> string list \<Rightarrow> bool \<Rightarrow> 'w \<Rightarrow>
   ((py_error + lifecycle_observation) \<times> 'w) option" where
  "observe_lifecycle E target action c providers providers_complete w =
     map_option (\<lambda>(r, w1). case r of
          Inl e \<Rightarrow> (Inl e, w1)
        | Inr g \<Rightarrow>
          (case namespace_evidence E c (first_evidence g) w1 of
             (Inl e, w2) \<Rightarrow> (Inl e, w2)
           | (Inr m, w2) \<Rightarrow>
             (let m1 = (if providers_complete then m
                        else incomplete [''management_path.provider_evidence_incomplete''] m) in
              case provider_units E providers m1 w2 of (m2, w3) \<Rightarrow>
              (case resolve_current_process_unit E w3 of (self, w4) \<Rightarrow>
                (Inr (composed (sb_now (ge_bus (ev_graph E)) w) target action g m2 self), w4)))))
       (observe_effect_graph (ev_graph E) EFFECT_GRAPH_MAX_NODES EFFECT_GRAPH_MAX_DEPTH EFFECT_GRAPH_MAX_EDGES
          target action w)"

end
