(* ===== verification/Lifecycle_Context.thy ===== *)
theory Lifecycle_Context
  imports Lifecycle_Evidence Protection Provenance
begin

text \<open>
  How the backend comes to the context it judges a lifecycle action on: the accepted connection of
  the request (\<open>src/localplane/backend/api/transport.py\<close>), the agent's handler for the read
  (\<open>agent/service.py\<close>), and the service between them (\<open>backend/systemd_lifecycle_context.py\<close>).
  The client's call, the ingest of the target's observation and the provenance of an object are
  parameters of that service.
\<close>

section \<open>The accepted connection\<close>

record request_connection =
  rc_status :: string
  rc_family :: "string option"
  rc_peer_ip :: "string option"
  rc_peer_port :: "int option"
  rc_local_ip :: "string option"
  rc_local_port :: "int option"
  rc_netns_inode :: "int option"
  rc_reason :: "string option"

definition usable_connection :: "request_connection \<Rightarrow> bool" where
  "usable_connection c \<longleftrightarrow> rc_status c = ''observed''"

definition unsupported_connection :: "string \<Rightarrow> request_connection" where
  "unsupported_connection reason =
     \<lparr>rc_status = ''unsupported'', rc_family = None, rc_peer_ip = None, rc_peer_port = None,
      rc_local_ip = None, rc_local_port = None, rc_netns_inode = None, rc_reason = Some reason\<rparr>"

definition tcp_endpoint :: "pyval \<Rightarrow> (ip_address \<times> int) option" where
  "tcp_endpoint v = (case v of
     PList (PStr host # PInt port # _) \<Rightarrow>
       if \<not> (1 \<le> port \<and> port \<le> 65535) then None
       else map_option (\<lambda>a. (a, port))
         (ip_address (case first_split CHR ''%'' host of None \<Rightarrow> host | Some (h, _) \<Rightarrow> h))
   | _ \<Rightarrow> None)"

definition ipv4_mapped :: "ip_address \<Rightarrow> ip_address option" where
  "ipv4_mapped a = (case a of
     IPv4 _ \<Rightarrow> None | IPv6 n _ \<Rightarrow> if n div 2 ^ 32 = 65535 then Some (unmap a) else None)"

text \<open>\<open>inode\<close> is what \<open>os.stat\<close> says of the backend's network namespace, when it says anything.\<close>

definition request_connection_from_scope :: "facts \<Rightarrow> int option \<Rightarrow> request_connection" where
  "request_connection_from_scope scope inode =
     (case (tcp_endpoint (get scope ''client''), tcp_endpoint (get scope ''server'')) of
        (Some (p, peer_port), Some (l, local_port)) \<Rightarrow>
          (let (peer, local) = (case (ipv4_mapped p, ipv4_mapped l) of
                 (Some p', Some l') \<Rightarrow> (p', l') | _ \<Rightarrow> (p, l)) in
           if version_of peer \<noteq> version_of local then unsupported_connection ''accepted_tcp_family_mismatch''
           else (case inode of
               None \<Rightarrow> unsupported_connection ''backend_network_namespace_unreadable''
             | Some i \<Rightarrow>
                 \<lparr>rc_status = ''observed'', rc_family = Some (if version_of peer = 4 then ''ipv4'' else ''ipv6''),
                  rc_peer_ip = Some (address_text peer), rc_peer_port = Some peer_port,
                  rc_local_ip = Some (address_text local), rc_local_port = Some local_port,
                  rc_netns_inode = Some i, rc_reason = None\<rparr>))
      | _ \<Rightarrow> unsupported_connection ''accepted_tcp_tuple_unavailable'')"

definition wire_connection :: "request_connection \<Rightarrow> facts" where
  "wire_connection c =
     [(''family'', opt_text (rc_family c)), (''peer_ip'', opt_text (rc_peer_ip c)),
      (''peer_port'', opt_int (rc_peer_port c)), (''local_ip'', opt_text (rc_local_ip c)),
      (''local_port'', opt_int (rc_local_port c)), (''backend_netns_inode'', opt_int (rc_netns_inode c))]"

section \<open>The agent's handler\<close>

definition METHOD_LIFECYCLE_CONTEXT :: string where
  "METHOD_LIFECYCLE_CONTEXT = ''systemd.observe_lifecycle_context''"

definition CAPABILITY_LIFECYCLE_CONTEXT :: string where
  "CAPABILITY_LIFECYCLE_CONTEXT = ''systemd.service.lifecycle_context.observe''"

definition CONNECTION_FIELDS :: "string list" where
  "CONNECTION_FIELDS = [''family'', ''peer_ip'', ''peer_port'', ''local_ip'', ''local_port'', ''backend_netns_inode'']"

definition connection_param :: "pyval \<Rightarrow> helper_exn + facts" where
  "connection_param v = (case v of
     PDict c \<Rightarrow>
       bindE (reject_unknown_params c CONNECTION_FIELDS METHOD_LIFECYCLE_CONTEXT) (\<lambda>_.
         let missing = sort (filter (\<lambda>k. k \<notin> fst ` set c) CONNECTION_FIELDS) in
         if missing \<noteq> []
         then refuse INVALID_PARAMS ''connection is missing required accepted-socket evidence''
                [(''missing'', texts_of missing)]
         else Inr c)
   | _ \<Rightarrow> refuse INVALID_PARAMS ''connection must be an object'' [])"

definition lifecycle_params ::
  "'w agent_services \<Rightarrow> facts \<Rightarrow> 'w \<Rightarrow> helper_exn + string \<times> string \<times> facts \<times> string list \<times> bool" where
  "lifecycle_params A params w =
     bindE (reject_unknown_params params [''target_unit_id'', ''action'', ''connection'',
         ''management_providers'', ''provider_evidence_complete''] METHOD_LIFECYCLE_CONTEXT) (\<lambda>_.
     bindE (require_capability (as_capabilities A w) CAPABILITY_LIFECYCLE_CONTEXT) (\<lambda>_.
     bindE (require_str (get params ''target_unit_id'') ''target_unit_id'') (\<lambda>target.
     bindE (require_str (get params ''action'') ''action'') (\<lambda>action.
     bindE (if action \<in> set LIFECYCLE_ACTIONS then Inr ()
            else refuse INVALID_PARAMS ''action is not a supported systemd service lifecycle action''
                   [(''supported'', texts_of LIFECYCLE_ACTIONS)]) (\<lambda>_.
     bindE (connection_param (get params ''connection'')) (\<lambda>c.
     bindE (case (case get params ''management_providers'' of PList vs \<Rightarrow> str_list vs | _ \<Rightarrow> None) of
              None \<Rightarrow> refuse INVALID_PARAMS ''management_providers must be a list of strings'' []
            | Some ps \<Rightarrow> Inr ps) (\<lambda>providers.
     bindE (case get params ''provider_evidence_complete'' of PBool b \<Rightarrow> Inr b
            | _ \<Rightarrow> refuse INVALID_PARAMS ''provider_evidence_complete must be a boolean'' []) (\<lambda>complete.
     Inr (target, action, c, providers, complete)))))))))"

text \<open>A value the read refuses becomes a refusal of the parameters; anything else leaves as it came.\<close>

definition systemd_observe_lifecycle_context ::
  "'w evidence_env \<Rightarrow> 'w agent_services \<Rightarrow> facts \<Rightarrow> 'w \<Rightarrow> ((helper_exn + facts) \<times> 'w) option" where
  "systemd_observe_lifecycle_context E A params w =
     (case lifecycle_params A params w of
        Inl e \<Rightarrow> Some (Inl e, w)
      | Inr (target, action, c, providers, complete) \<Rightarrow>
          map_option (\<lambda>(r, w'). (case r of
                Inl (ValueError t) \<Rightarrow> refuse INVALID_PARAMS t []
              | Inl e \<Rightarrow> Inl (Py_Exn e)
              | Inr observation \<Rightarrow> bindE (as_identity A w') (\<lambda>host.
                  Inr (answer_with A host ''context'' (lo_as_dict observation))), w'))
            (observe_lifecycle E target action c providers complete w))"

section \<open>The backend's service\<close>

record 'w context_env =
  cv_call :: "facts \<Rightarrow> 'w \<Rightarrow> (call_exn + facts) \<times> 'w"
  cv_object :: "string \<Rightarrow> 'w \<Rightarrow> object_record option"
  cv_provenance :: "object_record \<Rightarrow> 'w \<Rightarrow> provenance"
  cv_ingest :: "facts \<Rightarrow> 'w \<Rightarrow> (py_error + unit) \<times> 'w"
  cv_now :: "'w \<Rightarrow> string"
  cv_rd :: "string \<Rightarrow> (bool \<times> int) option"
  cv_render :: "pyval \<Rightarrow> string"

definition management_providers ::
  "'w context_env \<Rightarrow> management_path_verdict \<Rightarrow> 'w \<Rightarrow> string list \<times> bool" where
  "management_providers V mp w =
     (case mpv_resource_id mp of
        None \<Rightarrow> ([], False)
      | Some i \<Rightarrow> (case cv_object V i w of
          None \<Rightarrow> ([], False)
        | Some record \<Rightarrow>
           (let p = cv_provenance V record w in
            (sorted_set (map (\<lambda>c. oi_provider (oc_owner c))
               (filter (\<lambda>c. external (oc_owner c)) (claims_for Configured_By (pv_claims p)))), gaps p = []))))"

definition unavailable_context ::
  "'w context_env \<Rightarrow> object_record \<Rightarrow> systemd_service_action \<Rightarrow> string \<Rightarrow> 'w \<Rightarrow> systemd_lifecycle_context" where
  "unavailable_context V rec action reason w =
     \<lparr>cx_status = ''partial'', cx_observed_at = cv_now V w, cx_target_unit = oj_identity_value rec,
      cx_action = action,
      cx_target_facts = (case oj_observation rec of Some ob \<Rightarrow> ob_facts ob
        | None \<Rightarrow> [(''canonical_id'', PStr (oj_identity_value rec))]),
      cx_effect_units = [oj_identity_value rec], cx_effect_edges = [], cx_effect_complete = False,
      cx_active_activation_sources = [], cx_active_upholding_sources = [], cx_management_units = [],
      cx_management_complete = False, cx_connection_unit = None, cx_connection_unit_type = None,
      cx_agent_unit = None, cx_agent_complete = False, cx_agent_unit_type = None, cx_gaps = [reason],
      cx_evidence = [(''context_read'', PDict [(''status'', PStr ''unavailable''), (''reason'', PStr reason)])],
      cx_runtime_owner = None, cx_observation_id = map_option ob_observation_id (oj_observation rec)\<rparr>"

definition or_text :: "'w context_env \<Rightarrow> pyval \<Rightarrow> string \<Rightarrow> string" where
  "or_text V v d = (if truthy v then py_str (cv_render V) v else d)"

text \<open>The target as the walk observed it, as a targeted sweep.\<close>

definition target_sweep :: "'w context_env \<Rightarrow> facts \<Rightarrow> facts \<Rightarrow> facts \<Rightarrow> facts \<Rightarrow> 'w \<Rightarrow> facts" where
  "target_sweep V answer raw g target w =
     (let observed_at = or_text V (get raw ''observed_at'') (cv_now V w) in
      [(''host_id'', get answer ''host_id''), (''agent_instance_id'', get answer ''agent_instance_id''),
       (''units'', PDict [(''capability'', PStr ''systemd.units.observe''), (''provider'', PStr ''systemd''),
          (''provider_version'', PStr (or_text V (get g ''provider_version'') ''unknown'')),
          (''source'', PStr ''systemd.units''), (''status'', PStr ''ok''), (''scope'', PStr ''targeted''),
          (''requested_unit'', get raw ''target_unit''), (''started_at'', PStr observed_at),
          (''completed_at'', PStr observed_at), (''reason'', PNone), (''units'', PList [PDict target]),
          (''missing'', PList []), (''issues'', PList [])])])"

definition ingest_target :: "'w context_env \<Rightarrow> facts \<Rightarrow> facts \<Rightarrow> 'w \<Rightarrow> (py_error + unit) \<times> 'w" where
  "ingest_target V answer raw w =
     (case get_or raw ''evidence'' (PDict []) of
        PDict evidence \<Rightarrow>
          (case get_or evidence ''effect_graph'' (PDict []) of
             PDict g \<Rightarrow> (case get g ''target_observation'' of
                 PDict target \<Rightarrow> cv_ingest V (target_sweep V answer raw g target w) w
               | _ \<Rightarrow> (Inr (), w))
           | _ \<Rightarrow> (Inr (), w))
      | _ \<Rightarrow> (Inl (AttributeError ''get''), w))"

definition request_params :: "object_record \<Rightarrow> systemd_service_action \<Rightarrow> request_connection \<Rightarrow> string list \<Rightarrow> bool \<Rightarrow> facts" where
  "request_params rec action c providers complete =
     [(''target_unit_id'', PStr (oj_identity_value rec)), (''action'', PStr (sa_str action)),
      (''connection'', PDict (wire_connection c)), (''management_providers'', texts_of providers),
      (''provider_evidence_complete'', PBool complete)]"

definition observe_context ::
  "'w context_env \<Rightarrow> object_record \<Rightarrow> systemd_service_action \<Rightarrow> request_connection \<Rightarrow>
   management_path_verdict \<Rightarrow> 'w \<Rightarrow> (py_error + systemd_lifecycle_context) \<times> 'w" where
  "observe_context V rec action c mp w =
     (let (providers, complete) = management_providers V mp w;
          unavailable = (\<lambda>reason w. (Inr (unavailable_context V rec action reason w), w)) in
      if \<not> usable_connection c
      then unavailable (case rc_reason c of Some t \<Rightarrow> if t \<noteq> [] then t else ''accepted_tcp_tuple_unavailable''
             | None \<Rightarrow> ''accepted_tcp_tuple_unavailable'') w
      else case cv_call V (request_params rec action c providers complete) w of
        (Inl (Call_Failed x), w1) \<Rightarrow> unavailable (''agent:'' @ ce_code x) w1
      | (Inl (Call_Raised x), w1) \<Rightarrow> (Inl x, w1)
      | (Inr answer, w1) \<Rightarrow>
      (case (if is_str (get answer ''host_id'') (oj_host_id rec) then get answer ''context'' else PNone) of
         PDict raw \<Rightarrow>
           (case ingest_target V answer raw w1 of
              (Inl x, w2) \<Rightarrow> (Inl x, w2)
            | (Inr _, w2) \<Rightarrow>
               (let observed = (case cv_object V (oj_object_id rec) w2 of None \<Rightarrow> None
                      | Some now_rec \<Rightarrow> map_option ob_observation_id (oj_observation now_rec)) in
                case context_from_dict (cv_rd V) (cv_render V)
                       (dict_set ''observation_id'' (opt_text observed) raw) of
                  Inr ctx \<Rightarrow> (Inr ctx, w2)
                | Inl e \<Rightarrow> if caught_here e then unavailable ''malformed_lifecycle_context_evidence'' w2
                    else (Inl e, w2)))
       | _ \<Rightarrow> unavailable ''malformed_lifecycle_context_response'' w1))"

end
