(* ===== verification/Effect_Bounds.thy ===== *)
theory Effect_Bounds
  imports Effect_Graph
begin

text \<open>
  The walk of \<open>observe_effect_graph\<close> always ends, and what it returns stays within the limits: each
  round takes one of at most seven kinds of work on at most 128 names from the queue for good.
\<close>

section \<open>Parts of the walk that only move it forward\<close>

text \<open>
  What the parts of the walk share: they relate the variables before to those after by an order that
  allows a gap and a spent reference.
\<close>

locale walk_order =
  fixes R :: "walk \<Rightarrow> walk \<Rightarrow> bool"
  assumes same: "R s s"
    and onward: "R s s' \<Longrightarrow> R s' s'' \<Longrightarrow> R s s''"
    and noted: "R s (gap t s)"
    and spent: "R s (s\<lparr>wk_budget := b\<rparr>)"
begin

definition advances :: "'w walking \<Rightarrow> bool" where
  "advances f \<longleftrightarrow> (\<forall>s w. R s (fst (snd (f s w))))"

lemma advances_and_then:
  assumes f: "advances f" and g: "advances g"
  shows "advances (and_then f g)"
  unfolding advances_def
proof (intro allI)
  fix s w
  obtain x s' w' where r: "f s w = (x, s', w')" using prod_cases3 by blast
  then have "R s s'" using f by (metis advances_def fst_conv snd_conv)
  moreover have "R s' (fst (snd (g s' w')))" using g by (simp add: advances_def)
  ultimately show "R s (fst (snd (and_then f g s w)))"
    using onward by (auto simp: and_then_def r split: option.split)
qed

lemma advances_for_each:
  "(\<And>x. x \<in> set xs \<Longrightarrow> advances (f x)) \<Longrightarrow> advances (for_each f xs)"
proof (induction xs)
  case Nil
  show ?case by (simp add: advances_def same)
next
  case (Cons x xs)
  then have "advances (and_then (f x) (for_each f xs))" by (intro advances_and_then) auto
  then show ?case by (simp add: advances_def)
qed

text \<open>What runs to its end ran each of its parts, and went on from there.\<close>

lemma for_each_at:
  assumes "\<And>x. x \<in> set xs \<Longrightarrow> advances (f x)" and "for_each f xs s w = (None, s', w')" and "x \<in> set xs"
  obtains s1 w1 s2 w2 where "f x s1 w1 = (None, s2, w2)" and "R s2 s'"
  using assms
proof (induction xs arbitrary: s w thesis)
  case (Cons y ys)
  from Cons.prems(3) obtain s1 w1 where one: "f y s w = (None, s1, w1)" and rest: "for_each f ys s1 w1 = (None, s', w')"
    by (auto simp: and_then_def split: prod.splits option.splits)
  show ?case
  proof (cases "x = y")
    case True
    have "advances (for_each f ys)" using Cons.prems(2) by (intro advances_for_each) auto
    then have "R s1 s'" using rest by (metis advances_def fst_conv snd_conv)
    then show ?thesis using Cons.prems(1) one True by blast
  next
    case False
    then show ?thesis
      using Cons.IH [OF _ _ rest] Cons.prems by (metis list.set_intros(2) set_ConsD)
  qed
qed simp

lemma advances_remaining: "advances (remaining G)"
  by (auto simp: advances_def remaining_def same split: prod.split bool.split)

lemma advances_each_listed:
  assumes "\<And>u s. PStr u \<in> set vs \<Longrightarrow> R s (body u s)"
  shows "advances (each_listed G relation canonical body vs)"
  using assms
proof (induction vs)
  case Nil
  show ?case by (simp add: advances_def same)
next
  case (Cons v vs)
  have rest: "advances (each_listed G relation canonical body vs)" using Cons by simp
  let ?one = "\<lambda>s. case v of
        PStr u \<Rightarrow> if is_unit_name u then body u s else unreadable_relation relation canonical s
      | _ \<Rightarrow> unreadable_relation relation canonical s"
  have one: "R s (?one s)" for s
    using Cons.prems by (cases v) (auto simp: unreadable_relation_def noted)
  have "R s (fst (snd (each_listed G relation canonical body vs (?one (s\<lparr>wk_budget := b\<rparr>)) w)))" for s b w
    by (rule onward [OF onward [OF spent one [of "s\<lparr>wk_budget := b\<rparr>"]]]) (use rest in \<open>simp only: advances_def\<close>)
  then have "advances (\<lambda>s w. if wk_budget s = 0 then (None, gap ''edge_limit'' s, w)
       else let s' = s\<lparr>wk_budget := wk_budget s - 1\<rparr> in
         each_listed G relation canonical body vs
           (case v of
              PStr u \<Rightarrow> if is_unit_name u then body u s' else unreadable_relation relation canonical s'
            | _ \<Rightarrow> unreadable_relation relation canonical s') w)"
    by (simp add: advances_def noted Let_def)
  from advances_and_then [OF advances_remaining this] show ?case
    by (simp add: advances_def)
qed

lemma advances_each_reference:
  assumes "\<And>vs u s. get properties (fst rb) = PList vs \<Longrightarrow> PStr u \<in> set vs \<Longrightarrow> R s (snd rb u s)"
  shows "advances (each_reference G properties canonical rb)"
proof -
  have "R s (fst (snd (each_listed G (fst rb) canonical (snd rb) vs s w)))"
    if "get properties (fst rb) = PList vs" for vs s w
    using advances_each_listed [of vs "snd rb" G "fst rb" canonical] assms [OF that] by (simp add: advances_def)
  then show ?thesis
    by (auto simp: advances_def each_reference_def unreadable_relation_def noted
        split: prod.split pyval.split)
qed


end

section \<open>The walk ends\<close>

lemma effect_kinds: "UNIV = {K_Start, K_Stop, K_Restart, K_Verify, K_Inspect, K_Source, K_Footprint}"
  using effect_kind.exhaust by auto

instantiation effect_kind :: finite
begin
instance by standard (simp add: effect_kinds)
end

lemma card_effect_kind [simp]: "CARD(effect_kind) = 7"
  by (simp add: effect_kinds)

definition bounded :: "graph_limits \<Rightarrow> walk \<Rightarrow> bool" where
  "bounded L s \<longleftrightarrow> finite (wk_names s) \<and> card (wk_names s) \<le> gl_nodes L \<and>
     wk_queued s \<subseteq> wk_names s \<times> UNIV \<and> fst ` set (wk_pending s) \<subseteq> wk_names s \<and>
     wk_attempted s \<subseteq> wk_names s \<and> dom (wk_aliases s) \<subseteq> wk_attempted s \<and>
     wk_units s \<subseteq> ran (wk_aliases s) \<and> length (wk_edges s) \<le> gl_edges L \<and> wk_final s = {}"

text \<open>What can still be put on the queue, and what is on it.\<close>

definition outstanding :: "graph_limits \<Rightarrow> walk \<Rightarrow> nat" where
  "outstanding L s = (gl_nodes L * CARD(effect_kind) - card (wk_queued s)) + length (wk_pending s)"

definition within_limits :: "graph_limits \<Rightarrow> walk \<Rightarrow> walk \<Rightarrow> bool" where
  "within_limits L s s' \<longleftrightarrow>
     (bounded L s \<longrightarrow> bounded L s' \<and> outstanding L s' = outstanding L s \<and> wk_aliases s' = wk_aliases s)"

interpretation limited: walk_order "within_limits L" for L
  by unfold_locales (auto simp: within_limits_def bounded_def outstanding_def gap_def)

lemma queued_bounded:
  assumes "bounded L s"
  shows "finite (wk_queued s)" and "card (wk_queued s) \<le> gl_nodes L * 7"
proof -
  have sub: "wk_queued s \<subseteq> wk_names s \<times> (UNIV :: effect_kind set)" and fin: "finite (wk_names s)"
    and names: "card (wk_names s) \<le> gl_nodes L"
    using assms by (auto simp: bounded_def)
  have prod: "finite (wk_names s \<times> (UNIV :: effect_kind set))" using fin by simp
  show "finite (wk_queued s)" using finite_subset [OF sub prod] .
  have "card (wk_queued s) \<le> card (wk_names s) * 7"
    using card_mono [OF prod sub] by (simp add: card_cartesian_product)
  also have "\<dots> \<le> gl_nodes L * 7" using names by simp
  finally show "card (wk_queued s) \<le> gl_nodes L * 7" .
qed

lemma within_limits_enqueue: "within_limits L s (enqueue L u k d s)"
proof (cases "(u, k) \<in> wk_queued s \<or> d > gl_depth L \<or> u \<notin> wk_names s \<and> card (wk_names s) \<ge> gl_nodes L")
  case True
  then show ?thesis by (auto simp: enqueue_def limited.same limited.noted)
next
  case False
  let ?s = "s\<lparr>wk_names := insert u (wk_names s), wk_queued := insert (u, k) (wk_queued s),
               wk_pending := wk_pending s @ [(u, k, d)]\<rparr>"
  have eq: "enqueue L u k d s = ?s" using False by (auto simp: enqueue_def)
  have "bounded L ?s \<and> outstanding L ?s = outstanding L s" if b: "bounded L s"
  proof
    show b': "bounded L ?s" using b False by (auto simp: bounded_def card_insert_if)
    have "Suc (card (wk_queued s)) \<le> gl_nodes L * 7"
      using queued_bounded(2) [OF b'] queued_bounded(1) [OF b] False by simp
    then show "outstanding L ?s = outstanding L s"
      using queued_bounded(1) [OF b] False by (simp add: outstanding_def)
  qed
  then show ?thesis by (simp add: eq within_limits_def)
qed

lemma within_limits_follow: "within_limits L s (follow L c rel k d u s)"
proof (cases "(c, rel, u) \<notin> set (wk_edges s) \<and> length (wk_edges s) \<ge> gl_edges L")
  case True
  then show ?thesis by (auto simp: follow_def limited.noted)
next
  case False
  let ?e = "(c, rel, u)"
  have "within_limits L s (s\<lparr>wk_edges := (if ?e \<in> set (wk_edges s) then wk_edges s else wk_edges s @ [?e])\<rparr>)"
    using False by (auto simp: within_limits_def bounded_def outstanding_def)
  from limited.onward [OF this within_limits_enqueue] show ?thesis
    using False by (auto simp: follow_def Let_def)
qed

lemma within_limits_work:
  assumes "rb \<in> set (work_relations L kind depth c)"
  shows "within_limits L s (snd rb u s)"
proof -
  have "within_limits L s (follow L c rel k depth u (gap t s))" for rel k t
    by (rule limited.onward [OF limited.noted within_limits_follow])
  moreover have "within_limits L s (gap t (follow L c rel k depth u s))" for rel k t
    by (rule limited.onward [OF within_limits_follow limited.noted])
  moreover have "within_limits L s (follow L c rel k depth u s \<lparr>wk_reactivation := r\<rparr>)" for rel k r
    using within_limits_follow [of L s c rel k depth u]
    by (auto simp: within_limits_def bounded_def outstanding_def)
  ultimately show ?thesis
    using assms within_limits_follow within_limits_enqueue
    by (auto simp: work_relations_def start_reference_def graceful_reference_def conditional_reference_def
        source_reference_def Let_def split: if_splits)
qed

lemma gaps_from_eq:
  "gaps_from p gs q s = s\<lparr>wk_gaps := wk_gaps s \<union> (\<lambda>g. ''effect_graph.'' @ p @ g @ q) ` set gs\<rparr>"
  unfolding gaps_from_def by (induction gs arbitrary: s) (simp_all add: gap_def)

lemma within_limits_gaps_from: "within_limits L s (gaps_from p gs q s)"
  by (auto simp: gaps_from_eq within_limits_def bounded_def outstanding_def)

lemma within_limits_visit:
  assumes "wk_aliases s u = Some c"
  shows "within_limits L s (fst (snd (visit_unit G L action c kind depth properties s w)))"
proof -
  have enter: "within_limits L s (enter_unit kind properties c s)"
    using assms by (auto simp: within_limits_def bounded_def outstanding_def enter_unit_def gap_def Let_def
        intro: ranI)
  have unneeded: "within_limits L s' (check_unneeded action kind properties c s')"
    if "wk_aliases s' u = Some c" for s'
    using that by (auto simp: within_limits_def bounded_def outstanding_def check_unneeded_def gap_def
        split: pyval.split bool.split intro: ranI)
  have "within_limits L s' (fst (snd (for_each (each_reference G properties c)
      (work_relations L kind depth c) s' w)))" for s'
    using limited.advances_for_each [of "work_relations L kind depth c" L "each_reference G properties c"]
      limited.advances_each_reference within_limits_work
    by (metis limited.advances_def)
  note work = this
  have checked: "within_limits L s (check_unneeded action kind properties c
      (gaps_from p gs q (enter_unit kind properties c s)))" for p gs q
    by (rule limited.onward [OF limited.onward [OF enter within_limits_gaps_from] unneeded])
      (use assms in \<open>simp add: gaps_from_eq enter_unit_def gap_def Let_def\<close>)
  show ?thesis
    using enter checked limited.onward [OF checked work]
    by (auto simp: visit_unit_def Let_def split: sum.split prod.split)
qed

lemma remaining_eq: "remaining G s w = (if fst (ge_tick G w) then None else Some deadline_expired, s, snd (ge_tick G w))"
  by (auto simp: remaining_def split: prod.split bool.split)

lemma read_properties_walk: "fst (snd (read_properties G target path u s w)) = s"
  by (auto simp: read_properties_def remaining_eq Let_def split: prod.split sum.split)

text \<open>A read keeps the walk within its limits, and takes nothing from the queue.\<close>

lemma bounded_attempt_read:
  assumes "bounded L s" and "u \<in> wk_names s"
  shows "bounded L (fst (snd (attempt_read G target path u s w)))"
    and "outstanding L (fst (snd (attempt_read G target path u s w))) = outstanding L s"
proof -
  let ?s = "s\<lparr>wk_attempted := insert u (wk_attempted s)\<rparr>"
  obtain r w' where r: "read_properties G target path u ?s w = (r, ?s, w')"
    by (metis prod_cases3 fst_conv snd_conv read_properties_walk)
  have "wk_aliases s u = None \<or> u \<in> wk_attempted s" using assms(1) by (auto simp: bounded_def)
  moreover have "wk_aliases s u = None \<Longrightarrow> ran ((wk_aliases s)(u \<mapsto> c)) = insert c (ran (wk_aliases s))" for c
    by simp
  ultimately show "bounded L (fst (snd (attempt_read G target path u s w)))"
    using assms
    by (cases r) (auto simp: attempt_read_def r bounded_def gap_def Let_def
        split: bus_exn.split pyval.split)
  show "outstanding L (fst (snd (attempt_read G target path u s w))) = outstanding L s"
    by (cases r) (auto simp: attempt_read_def r outstanding_def gap_def Let_def
        split: bus_exn.split pyval.split)
qed

text \<open>Each round takes one pair from the queue for good, or raises.\<close>

lemma walk_round_limits:
  assumes "bounded L s" and "wk_pending s \<noteq> []"
  shows "bounded L (fst (snd (walk_round G L action target path s w)))" (is ?B)
    and "fst (walk_round G L action target path s w) = None \<Longrightarrow>
      outstanding L (fst (snd (walk_round G L action target path s w))) < outstanding L s" (is "?N \<Longrightarrow> ?O")
proof -
  obtain u kind depth rest where p: "wk_pending s = (u, kind, depth) # rest"
    using assms(2) by (metis neq_Nil_conv prod_cases3)
  let ?s = "s\<lparr>wk_pending := rest\<rparr>"
  have b: "bounded L ?s" and u: "u \<in> wk_names ?s" and less: "outstanding L ?s < outstanding L s"
    using assms(1) p by (auto simp: bounded_def outstanding_def)
  obtain x s1 w1 where r: "attempt_read G target path u ?s (snd (ge_tick G w)) = (x, s1, w1)"
    using prod_cases3 by blast
  have b1: "bounded L s1" and o1: "outstanding L s1 = outstanding L ?s"
    using bounded_attempt_read [OF b u, of G target path "snd (ge_tick G w)"] by (simp_all add: r)
  have visit: "bounded L (fst (snd (visit_unit G L action c kind depth properties s1 w1)))"
    "outstanding L (fst (snd (visit_unit G L action c kind depth properties s1 w1))) = outstanding L s1"
    if "wk_aliases s1 u = Some c" for c properties
    using within_limits_visit [OF that, of L G action kind depth properties w1] b1
    by (simp_all add: within_limits_def)
  show ?B
    using assms(1) b1 visit
    by (auto simp: walk_round_def and_then_def remaining_eq p r split: option.split)
  show "?N \<Longrightarrow> ?O"
    using less o1 visit
    by (auto simp: walk_round_def and_then_def remaining_eq p r split: option.splits if_splits)
qed

lemma walk_loop_ends:
  assumes "bounded L s"
  obtains x s' w' where "walk_loop G L action target path s w = Some (x, s', w')"
    and "bounded L s'" and "x = None \<Longrightarrow> wk_pending s' = []"
proof -
  let ?P = "\<lambda>(x, s, w). bounded L s"
  let ?b = "\<lambda>(x :: bus_exn option, s, w). x = None \<and> wk_pending s \<noteq> []"
  let ?c = "\<lambda>(x :: bus_exn option, s, w). walk_round G L action target path s w"
  let ?f = "\<lambda>(x :: bus_exn option, s, w). if x = None then Suc (outstanding L s) else 0"
  have "?P (?c t) \<and> ?f (?c t) < ?f t" if "?P t" and "?b t" for t
    using that walk_round_limits [of L "fst (snd t)" G action target path "snd (snd t)"]
    by (auto simp: split_beta)
  then have "\<exists>t. while_option ?b ?c (None, s, w) = Some t"
    using measure_while_option_Some [of ?P ?b ?c ?f "(None, s, w)"] assms by simp
  then obtain t where t: "while_option ?b ?c (None, s, w) = Some t" ..
  have "?P (?c t)" if "?P t" and "?b t" for t
    using that walk_round_limits(1) [of L "fst (snd t)" G action target path "snd (snd t)"]
    by (auto simp: split_beta)
  from while_option_rule [of ?P ?b ?c, OF this t] have "?P t" using assms by simp
  moreover have "\<not> ?b t" using while_option_stop [OF t] .
  ultimately show ?thesis using that t by (cases t) (auto simp: walk_loop_def)
qed

text \<open>Settling the edges adds at most one edge for each, and no unit.\<close>

lemma settle_edge_fields:
  "wk_units (fst (snd (settle_edge G target e s w))) = wk_units s"
  "wk_final (fst (snd (settle_edge G target e s w))) \<subseteq>
     insert (fst e, fst (snd e), case wk_aliases s (snd (snd e)) of None \<Rightarrow> snd (snd e) | Some c \<Rightarrow> c) (wk_final s)"
  by (cases e; auto simp: settle_edge_def and_then_def remaining_eq gaps_from_eq gap_def Let_def
      split: option.split sum.split prod.split)+

lemma settle_edges_bounds:
  assumes "finite (wk_final s)"
  shows "wk_units (fst (snd (for_each (settle_edge G target) es s w))) = wk_units s \<and>
    finite (wk_final (fst (snd (for_each (settle_edge G target) es s w)))) \<and>
    card (wk_final (fst (snd (for_each (settle_edge G target) es s w)))) \<le> card (wk_final s) + length es"
  using assms
proof (induction es arbitrary: s w)
  case Nil
  then show ?case by simp
next
  case (Cons e es)
  obtain x s1 w1 where r: "settle_edge G target e s w = (x, s1, w1)" using prod_cases3 by blast
  have units: "wk_units s1 = wk_units s" using settle_edge_fields(1) [of G target e s w] by (simp add: r)
  obtain e' where "wk_final s1 \<subseteq> insert e' (wk_final s)"
    using settle_edge_fields(2) [of G target e s w] by (auto simp: r)
  then have fin: "finite (wk_final s1)" and le: "card (wk_final s1) \<le> Suc (card (wk_final s))"
    using card_mono [of "insert e' (wk_final s)" "wk_final s1"] finite_subset Cons.prems
    by (fastforce simp: card_insert_if split: if_splits)+
  have "and_then (settle_edge G target e) (for_each (settle_edge G target) es) s w =
      (if x = None then for_each (settle_edge G target) es s1 w1 else (x, s1, w1))"
    by (auto simp: and_then_def r)
  then show ?case using Cons.IH [OF fin, of w1] units fin le by auto
qed

definition within_graph :: "graph_limits \<Rightarrow> effect_graph \<Rightarrow> bool" where
  "within_graph L g \<longleftrightarrow> length (eg_units g) \<le> gl_nodes L \<and> length (eg_edges g) \<le> gl_edges L"

lemma bounded_units:
  assumes "bounded L s"
  shows bounded_finite_units: "finite (wk_units s)" and bounded_card_units: "card (wk_units s) \<le> gl_nodes L"
proof -
  have dom: "dom (wk_aliases s) \<subseteq> wk_names s" and fin: "finite (wk_names s)"
    and units: "wk_units s \<subseteq> ran (wk_aliases s)" and n: "card (wk_names s) \<le> gl_nodes L"
    using assms by (auto simp: bounded_def)
  have ran: "ran (wk_aliases s) = (\<lambda>u. the (wk_aliases s u)) ` dom (wk_aliases s)"
    by (force simp: ran_def)
  have findom: "finite (dom (wk_aliases s))" using finite_subset [OF dom fin] .
  then have finran: "finite (ran (wk_aliases s))" by (simp add: ran)
  show "finite (wk_units s)" using finite_subset [OF units finran] .
  have "card (wk_units s) \<le> card (ran (wk_aliases s))" using card_mono [OF finran units] .
  also have "\<dots> \<le> card (dom (wk_aliases s))" using card_image_le [OF findom] by (simp add: ran)
  also have "\<dots> \<le> card (wk_names s)" using card_mono [OF fin dom] .
  finally show "card (wk_units s) \<le> gl_nodes L" using n by simp
qed

lemma within_graph_of:
  assumes "card (wk_units s) \<le> gl_nodes L" and "card (wk_final s) \<le> gl_edges L"
  shows "within_graph L (graph_of noted unit action version target s status reason detail)"
proof -
  have "inj_on (\<lambda>(a :: string, b :: string, c :: string). [a, b, c]) (wk_final s)"
    by (auto simp: inj_on_def)
  then have "card ((\<lambda>(a, b, c). [a, b, c]) ` wk_final s) = card (wk_final s)" by (rule card_image)
  then show ?thesis using assms by (simp add: within_graph_def graph_of_def edge_list_def)
qed

lemma bounded_final: "bounded L s \<Longrightarrow> length (wk_edges s) \<le> gl_edges L"
  by (simp add: bounded_def)

text \<open>The walk's variables, wherever the read stopped, stay within the limits.\<close>

definition small :: "graph_limits \<Rightarrow> walk \<Rightarrow> bool" where
  "small L s \<longleftrightarrow> card (wk_units s) \<le> gl_nodes L \<and> card (wk_final s) \<le> gl_edges L"

definition small_read :: "graph_limits \<Rightarrow> graph_read \<Rightarrow> bool" where
  "small_read L r \<longleftrightarrow> (case r of
     Raised_At _ _ _ s \<Rightarrow> small L s | Early g _ _ \<Rightarrow> within_graph L g | Walked _ _ s \<Rightarrow> small L s)"

lemma small_no_walk: "small L no_walk"
  by (simp add: small_def no_walk_def)

lemma within_no_graph: "within_graph L (no_graph noted unit action reason gs)"
  by (simp add: within_graph_def no_graph_def)

lemma read_walk_limits:
  assumes "gl_nodes L > 0"
  shows "\<exists>r w'. read_walk G L unit action version tg path w = Some (r, w') \<and> small_read L r"
proof -
  have "bounded L (first_walk L unit action)"
    using assms by (auto simp: bounded_def first_walk_def no_walk_def)
  then obtain x s w1 where loop: "walk_loop G L action unit path (first_walk L unit action) w = Some (x, s, w1)"
    and b: "bounded L s" by (rule walk_loop_ends)
  then have none: "wk_final s = {}" by (simp add: bounded_def)
  obtain y s' w2 where settle: "settle_edges G unit s w1 = (y, s', w2)" using prod_cases3 by blast
  have "small L s" using bounded_card_units [OF b] none by (simp add: small_def)
  moreover have "small L s'"
    using settle_edges_bounds [of s G unit "wk_edges s" w1] none settle bounded_card_units [OF b] bounded_final [OF b]
    by (simp add: small_def settle_edges_def)
  ultimately show ?thesis
    by (cases x; cases y) (auto simp: read_walk_def loop settle small_read_def)
qed

lemma read_graph_limits:
  assumes "gl_nodes L > 0"
  shows "\<exists>r w'. read_graph G L noted unit action w = Some (r, w') \<and> small_read L r"
  using read_walk_limits [OF assms, of G unit action]
  by (auto simp: read_graph_def Let_def remaining_eq small_read_def small_no_walk within_no_graph
      within_graph_def no_graph_def split: prod.split sum.split bus_exn.split)

text \<open>
  C16. The walk over the effects of a lifecycle action ends, whatever the service manager answers and
  however its answers change: every observation returns a graph (or refuses the unit's name or the
  action), and the graph has at most 128 units and 2048 edges.
\<close>

theorem effect_graph_walk_ends:
  "\<exists>r w'. observe_effect_graph G max_nodes max_depth max_edges unit action w = Some (r, w') \<and>
     (case r of Inl _ \<Rightarrow> True
      | Inr g \<Rightarrow> int (length (eg_units g)) \<le> EFFECT_GRAPH_MAX_NODES \<and>
          int (length (eg_edges g)) \<le> EFFECT_GRAPH_MAX_EDGES)"
proof -
  let ?L = "limits_of max_nodes max_depth max_edges"
  have pos: "gl_nodes ?L > 0" by (simp add: limits_of_def)
  have le: "int (gl_nodes ?L) \<le> EFFECT_GRAPH_MAX_NODES" "int (gl_edges ?L) \<le> EFFECT_GRAPH_MAX_EDGES"
    by (auto simp: limits_of_def EFFECT_GRAPH_MAX_NODES_def EFFECT_GRAPH_MAX_EDGES_def)
  have fine: "int (length (eg_units g)) \<le> EFFECT_GRAPH_MAX_NODES \<and>
      int (length (eg_edges g)) \<le> EFFECT_GRAPH_MAX_EDGES" if "within_graph ?L g" for g
    using that le by (auto simp: within_graph_def)
  have failed: "within_graph ?L (read_failed noted unit action version tg s x)" if "small ?L s" for noted version tg s x
    using that by (auto simp: read_failed_def small_def gap_def intro!: within_graph_of)
  have finished: "within_graph ?L (finished_graph ?L noted unit action version tg s)" if "small ?L s" for noted version tg s
    using that by (auto simp: finished_graph_def small_def intro!: within_graph_of)
  have early: "within_graph ?L ((no_graph noted unit action reason gs)\<lparr>eg_detail := detail\<rparr>)"
    for noted reason gs detail by (simp add: within_graph_def no_graph_def)
  obtain y w1 where opened: "sb_open (ge_bus G) w = (y, w1)" by (cases "sb_open (ge_bus G) w")
  obtain r w2 where read: "read_graph G ?L (sb_now (ge_bus G) w) unit action w1 = Some (r, w2)"
    and small: "small_read ?L r"
    using read_graph_limits [OF pos, of G "sb_now (ge_bus G) w" unit action w1] by auto
  obtain z w3 where closed: "sb_close (ge_bus G) w2 = (z, w3)" by (cases "sb_close (ge_bus G) w2")
  have "\<exists>r w'. observe_effect_graph G max_nodes max_depth max_edges unit action w = Some (r, w') \<and>
      (case r of Inl _ \<Rightarrow> True | Inr g \<Rightarrow> within_graph ?L g)"
    using within_no_graph [of ?L] early failed failed [OF small_no_walk] finished small
    by (cases r; cases z)
      (auto simp: observe_effect_graph_def Let_def opened read closed small_read_def
        split: sum.split option.split)
  then show ?thesis using fine by (fastforce split: sum.splits)
qed

end
