(* ===== verification/Effect_Closure.thy ===== *)
theory Effect_Closure
  imports Effect_Bounds
begin

text \<open>
  Against a manager whose answers do not change, a graph the walk calls complete is exactly the closure
  of the relations it follows. The reference, \<open>effect_pull\<close>, is a relation over what the manager says
  of its units, and its closure knows no queue, no limits and no aliases.
\<close>

section \<open>The reference\<close>

definition lists :: "(string \<Rightarrow> facts) \<Rightarrow> string \<Rightarrow> string \<Rightarrow> string \<Rightarrow> bool" where
  "lists M u rel v \<longleftrightarrow> (\<exists>vs. get (M u) rel = PList vs \<and> PStr v \<in> set vs)"

text \<open>What work on a unit makes the manager do to the units it names.\<close>

inductive effect_pull ::
  "(string \<Rightarrow> facts) \<Rightarrow> string \<times> effect_kind \<Rightarrow> string \<Rightarrow> string \<times> effect_kind \<Rightarrow> bool" for M where
  start_job: "kind \<in> {K_Start, K_Restart} \<Longrightarrow> (rel, child) \<in> set START_JOB_RELATIONSHIPS \<Longrightarrow>
    lists M u rel v \<Longrightarrow> effect_pull M (u, kind) rel (v, child)"
| stop_job: "kind \<in> {K_Stop, K_Restart} \<Longrightarrow> rel \<in> set STOP_JOB_RELATIONSHIPS \<Longrightarrow>
    lists M u rel v \<Longrightarrow> effect_pull M (u, kind) rel (v, kind)"
| graceful_stop: "kind \<in> {K_Stop, K_Restart} \<Longrightarrow> lists M u ''PropagatesStopTo'' v \<Longrightarrow>
    effect_pull M (u, kind) ''PropagatesStopTo'' (v, K_Restart)"
| released: "kind \<in> {K_Stop, K_Restart} \<Longrightarrow> rel \<in> set RELEASED_DEPENDENCIES \<Longrightarrow>
    lists M u rel v \<Longrightarrow> effect_pull M (u, kind) rel (v, K_Inspect)"
| conditional: "kind \<in> {K_Start, K_Stop, K_Restart} \<Longrightarrow> rel \<in> set CONDITIONAL_RELATIONSHIPS \<Longrightarrow>
    lists M u rel v \<Longrightarrow> effect_pull M (u, kind) rel (v, K_Footprint)"
| reactivation: "kind \<in> {K_Start, K_Stop, K_Restart} \<Longrightarrow> rel \<in> set REACTIVATION_RELATIONSHIPS \<Longrightarrow>
    lists M u rel v \<Longrightarrow> effect_pull M (u, kind) rel (v, K_Source)"

definition affects :: "(string \<Rightarrow> facts) \<Rightarrow> string \<times> effect_kind \<Rightarrow> string \<times> effect_kind \<Rightarrow> bool" where
  "affects M = (\<lambda>p q. \<exists>rel. effect_pull M p rel q)\<^sup>*\<^sup>*"

text \<open>The manager's answers do not change, though a read may fail at any time.\<close>

definition manager_reads :: "'w graph_env \<Rightarrow> (string \<Rightarrow> string) \<Rightarrow> (string \<Rightarrow> facts) \<Rightarrow> bool" where
  "manager_reads G path_of M \<longleftrightarrow>
     (\<forall>u w p w'. sb_get_unit (ge_bus G) u w = (Inr p, w') \<longrightarrow> p = path_of u) \<and>
     (\<forall>u w d w'. sb_properties (ge_bus G) (path_of u) w = (Inr d, w') \<longrightarrow> d = M u)"

section \<open>What following a reference adds\<close>

definition pairs :: "walk \<Rightarrow> (string \<times> effect_kind) set" where
  "pairs s = (\<lambda>(u, k, d). (u, k)) ` set (wk_pending s)"

definition same_reads :: "walk \<Rightarrow> walk \<Rightarrow> bool" where
  "same_reads s s' \<longleftrightarrow> wk_visited s' = wk_visited s \<and> wk_aliases s' = wk_aliases s \<and>
     wk_nodes s' = wk_nodes s \<and> wk_attempted s' = wk_attempted s \<and> wk_units s' = wk_units s"

definition edge_of :: "(string \<Rightarrow> facts) \<Rightarrow> string \<times> effect_kind \<Rightarrow> effect_edge3 \<Rightarrow> bool" where
  "edge_of M p e \<longleftrightarrow> (\<exists>rel v child. e = (fst p, rel, v) \<and> effect_pull M p rel (v, child) \<and> child \<noteq> K_Inspect)"

definition grows :: "(string \<Rightarrow> facts) \<Rightarrow> string \<times> effect_kind \<Rightarrow> walk \<Rightarrow> walk \<Rightarrow> bool" where
  "grows M p s s' \<longleftrightarrow> (wk_gaps s' = {} \<longrightarrow>
     wk_gaps s = {} \<and> same_reads s s' \<and>
     (\<exists>new. wk_queued s' = wk_queued s \<union> new \<and> pairs s' = pairs s \<union> new \<and>
        (\<forall>q \<in> new. \<exists>rel. effect_pull M p rel q)) \<and>
     (\<exists>new. set (wk_edges s') = set (wk_edges s) \<union> new \<and> (\<forall>e \<in> new. edge_of M p e)))"

lemma grows_onward:
  assumes "grows M p s s'" and "grows M p s' s''"
  shows "grows M p s s''"
proof (unfold grows_def, intro impI)
  assume "wk_gaps s'' = {}"
  with assms obtain n1 n2 e1 e2 where "wk_gaps s = {}" "same_reads s s'" "same_reads s' s''"
    "wk_queued s' = wk_queued s \<union> n1" "pairs s' = pairs s \<union> n1" "\<forall>q \<in> n1. \<exists>rel. effect_pull M p rel q"
    "wk_queued s'' = wk_queued s' \<union> n2" "pairs s'' = pairs s' \<union> n2" "\<forall>q \<in> n2. \<exists>rel. effect_pull M p rel q"
    "set (wk_edges s') = set (wk_edges s) \<union> e1" "\<forall>e \<in> e1. edge_of M p e"
    "set (wk_edges s'') = set (wk_edges s') \<union> e2" "\<forall>e \<in> e2. edge_of M p e"
    unfolding grows_def by fastforce
  then show "wk_gaps s = {} \<and> same_reads s s'' \<and>
     (\<exists>new. wk_queued s'' = wk_queued s \<union> new \<and> pairs s'' = pairs s \<union> new \<and>
        (\<forall>q \<in> new. \<exists>rel. effect_pull M p rel q)) \<and>
     (\<exists>new. set (wk_edges s'') = set (wk_edges s) \<union> new \<and> (\<forall>e \<in> new. edge_of M p e))"
    by (intro conjI exI [of _ "n1 \<union> n2"] exI [of _ "e1 \<union> e2"]) (auto simp: same_reads_def)
qed

interpretation grown: walk_order "grows M p" for M p
proof unfold_locales
  show "grows M p s s" for s by (auto simp: grows_def same_reads_def)
  show "grows M p s s' \<Longrightarrow> grows M p s' s'' \<Longrightarrow> grows M p s s''" for s s' s'' by (rule grows_onward)
  show "grows M p s (gap t s)" for s t by (simp add: grows_def gap_def)
  show "grows M p s (s\<lparr>wk_budget := b\<rparr>)" for s b
    by (auto simp: grows_def same_reads_def pairs_def)
qed

text \<open>A reference has been followed: its unit is queued, and the edge is kept.\<close>

definition served :: "string \<Rightarrow> string \<Rightarrow> string \<Rightarrow> effect_kind \<Rightarrow> walk \<Rightarrow> bool" where
  "served c rel v child s \<longleftrightarrow> (v, child) \<in> wk_queued s \<and> (child \<noteq> K_Inspect \<longrightarrow> (c, rel, v) \<in> set (wk_edges s))"

lemma served_pending [simp]: "served c rel v child (s\<lparr>wk_pending := ps\<rparr>) = served c rel v child s"
  by (simp add: served_def)

lemma served_grows:
  "served c rel v child s \<Longrightarrow> grows M p s s' \<Longrightarrow> wk_gaps s' = {} \<Longrightarrow> served c rel v child s'"
  by (auto simp: served_def grows_def)

lemma gap_not_empty [simp]: "wk_gaps (gap t s) \<noteq> {}"
  by (simp add: gap_def)

lemma enqueue_serves: "wk_gaps (enqueue L v child d s) = {} \<Longrightarrow> (v, child) \<in> wk_queued (enqueue L v child d s)"
  by (auto simp: enqueue_def split: if_splits)

lemma enqueue_grows:
  assumes "effect_pull M p rel (v, child)"
  shows "grows M p s (enqueue L v child d s)"
proof -
  have "grows M p s (s\<lparr>wk_names := insert v (wk_names s), wk_queued := insert (v, child) (wk_queued s),
             wk_pending := wk_pending s @ [(v, child, d)]\<rparr>)"
    using assms by (auto simp: grows_def same_reads_def pairs_def intro!: exI [of _ "{(v, child)}"])
  then show ?thesis by (auto simp: enqueue_def grown.same grown.noted)
qed

lemma enqueue_edges [simp]: "wk_edges (enqueue L v child d s) = wk_edges s"
  by (simp add: enqueue_def gap_def)

lemma follow_serves:
  "wk_gaps (follow L c rel child d v s) = {} \<Longrightarrow> served c rel v child (follow L c rel child d v s)"
  by (auto simp: follow_def served_def Let_def intro: enqueue_serves split: if_splits)

lemma follow_grows:
  assumes pull: "effect_pull M (c, kind) rel (v, child)" and kind: "child \<noteq> K_Inspect"
  shows "grows M (c, kind) s (follow L c rel child d v s)"
proof -
  let ?e = "(c, rel, v)"
  have e: "edge_of M (c, kind) ?e" using assms by (auto simp: edge_of_def)
  have "grows M (c, kind) s (s\<lparr>wk_edges := (if ?e \<in> set (wk_edges s) then wk_edges s else wk_edges s @ [?e])\<rparr>)"
    using e by (auto simp: grows_def same_reads_def pairs_def intro!: exI [of _ "{?e}"])
  from grown.onward [OF this enqueue_grows [OF pull]] show ?thesis
    by (auto simp: follow_def Let_def grown.noted)
qed

text \<open>Every entry of the code's table pulls what the reference pulls, and the other way around.\<close>

lemma gap_grows: "grows M p s s' \<Longrightarrow> grows M p s (gap t s')"
  by (rule grown.onward [OF _ grown.noted])

lemma from_gap_grows: "grows M p (gap t s) s' \<Longrightarrow> grows M p s s'"
  by (rule grown.onward [OF grown.noted])

lemma work_grows:
  assumes rb: "rb \<in> set (work_relations L kind depth c)" and "lists M c (fst rb) v"
    and kind: "kind \<in> {K_Start, K_Stop, K_Restart}"
  shows "grows M (c, kind) s (snd rb v s)"
proof -
  have source_rec: "grows M (c, kind) s (s'\<lparr>wk_reactivation := r\<rparr>)" if "grows M (c, kind) s s'" for s' r
    using that by (simp add: grows_def same_reads_def pairs_def)
  have not_inspect: "(rel, child) \<in> set START_JOB_RELATIONSHIPS \<Longrightarrow> child \<noteq> K_Inspect" for rel child
    by (auto simp: START_JOB_RELATIONSHIPS_def)
  from rb consider
      (start) rel child where "kind \<in> {K_Start, K_Restart}" "(rel, child) \<in> set START_JOB_RELATIONSHIPS"
        "rb = (rel, start_reference L c depth rel child)"
    | (stop) rel where "kind \<in> {K_Stop, K_Restart}" "rel \<in> set STOP_JOB_RELATIONSHIPS"
        "rb = (rel, follow L c rel kind depth)"
    | (graceful) "kind \<in> {K_Stop, K_Restart}" "rb = (''PropagatesStopTo'', graceful_reference L c depth)"
    | (released) rel where "kind \<in> {K_Stop, K_Restart}" "rel \<in> set RELEASED_DEPENDENCIES"
        "rb = (rel, \<lambda>u. enqueue L u K_Inspect (depth + 1))"
    | (conditional) rel where "rel \<in> set CONDITIONAL_RELATIONSHIPS" "rb = (rel, conditional_reference L c depth rel)"
    | (source) rel where "rel \<in> set REACTIVATION_RELATIONSHIPS" "rb = (rel, source_reference L c depth rel)"
    by (auto simp: work_relations_def split: if_splits)
  then show ?thesis
  proof cases
    case start
    then show ?thesis
      using assms(2) not_inspect
      by (auto simp: start_reference_def intro!: gap_grows follow_grows effect_pull.start_job)
  next
    case stop
    then show ?thesis using assms(2) by (auto intro!: follow_grows effect_pull.stop_job)
  next
    case graceful
    then show ?thesis
      using assms(2)
      by (auto simp: graceful_reference_def intro!: from_gap_grows [OF follow_grows] effect_pull.graceful_stop)
  next
    case released
    then show ?thesis using assms(2) by (auto intro!: enqueue_grows effect_pull.released)
  next
    case conditional
    then show ?thesis
      using assms(2) kind
      by (auto simp: conditional_reference_def intro!: from_gap_grows [OF follow_grows] effect_pull.conditional)
  next
    case source
    then have "grows M (c, kind) s (follow L c rel K_Source depth v s)"
      using assms(2) kind by (auto intro!: follow_grows effect_pull.reactivation)
    then show ?thesis using source source_rec by (simp add: source_reference_def Let_def)
  qed
qed

lemma follow_gap_open: "wk_gaps (follow L c rel child d v (gap t s)) \<noteq> {}"
  by (auto simp: follow_def enqueue_def Let_def gap_def)

lemma pull_is_worked:
  assumes "effect_pull M (c, kind) rel (v, child)"
  obtains body where "(rel, body) \<in> set (work_relations L kind depth c)"
    and "\<And>s. wk_gaps (body v s) = {} \<Longrightarrow> served c rel v child (body v s)"
  using assms
proof cases
  case start_job
  then show ?thesis
    by (intro that [of "start_reference L c depth rel child"])
      (auto simp: work_relations_def start_reference_def follow_serves)
next
  case stop_job
  then show ?thesis
    by (intro that [of "follow L c rel kind depth"]) (auto simp: work_relations_def follow_serves)
next
  case graceful_stop
  then show ?thesis
    by (intro that [of "graceful_reference L c depth"])
      (auto simp: work_relations_def graceful_reference_def follow_gap_open)
next
  case released
  then show ?thesis
    by (intro that [of "\<lambda>u. enqueue L u K_Inspect (depth + 1)"])
      (auto simp: work_relations_def served_def enqueue_serves)
next
  case conditional
  then show ?thesis
    by (intro that [of "conditional_reference L c depth rel"])
      (auto simp: work_relations_def conditional_reference_def follow_gap_open)
next
  case reactivation
  then show ?thesis
    using follow_serves
    by (intro that [of "source_reference L c depth rel"])
      (fastforce simp: work_relations_def source_reference_def Let_def served_def)+
qed

section \<open>One unit\<close>

lemma each_listed_serves:
  assumes "\<And>u s. PStr u \<in> set vs \<Longrightarrow> grows M p s (body u s)"
    and "\<And>s. wk_gaps (body v s) = {} \<Longrightarrow> served c rel v child (body v s)"
    and "PStr v \<in> set vs" and "each_listed G relation canonical body vs s w = (None, s', w')"
    and "wk_gaps s' = {}"
  shows "served c rel v child s'"
  using assms
proof (induction vs arbitrary: s w)
  case (Cons a as)
  let ?one = "\<lambda>s. case a of
        PStr u \<Rightarrow> if is_unit_name u then body u s else unreadable_relation relation canonical s
      | _ \<Rightarrow> unreadable_relation relation canonical s"
  from Cons.prems(4) have "wk_budget s \<noteq> 0"
    using Cons.prems(5) by (auto simp: and_then_def remaining_eq split: if_splits)
  with Cons.prems(4) obtain s1 w1 where s1: "s1 = ?one (s\<lparr>wk_budget := wk_budget s - Suc 0\<rparr>)"
      and rest: "each_listed G relation canonical body as s1 w1 = (None, s', w')"
    by (auto simp: and_then_def remaining_eq Let_def split: if_splits)
  have "grown.advances M p (each_listed G relation canonical body as)"
    using Cons.prems(1) by (intro grown.advances_each_listed) auto
  then have g: "grows M p s1 s'" using rest by (metis grown.advances_def fst_conv snd_conv)
  show ?case
  proof (cases "PStr v \<in> set as")
    case True
    then show ?thesis using Cons.IH [OF _ Cons.prems(2) _ rest Cons.prems(5)] Cons.prems(1) by simp
  next
    case False
    have "wk_gaps s1 = {}" using g Cons.prems(5) by (simp add: grows_def)
    moreover have "a = PStr v" using False Cons.prems(3) by simp
    ultimately have "served c rel v child s1"
      using Cons.prems(2) s1 by (auto simp: unreadable_relation_def split: if_splits)
    then show ?thesis by (rule served_grows [OF _ g Cons.prems(5)])
  qed
qed simp

lemma working_kinds: "kind \<notin> {K_Verify, K_Inspect, K_Source, K_Footprint} \<longleftrightarrow> kind \<in> {K_Start, K_Stop, K_Restart}"
  by (cases kind) auto

lemma only_work_pulls: "effect_pull M (c, kind) rel q \<Longrightarrow> kind \<in> {K_Start, K_Stop, K_Restart}"
  by (auto elim: effect_pull.cases)

text \<open>A visit without a gap enters the unit, and follows every reference the manager lists for it.\<close>

definition entered :: "string \<Rightarrow> effect_kind \<Rightarrow> walk \<Rightarrow> walk" where
  "entered c kind s = s\<lparr>wk_visited := insert (c, kind) (wk_visited s),
     wk_units := (if kind \<noteq> K_Inspect then insert c (wk_units s) else wk_units s)\<rparr>"

lemma check_unneeded_open:
  assumes "wk_gaps (check_unneeded action kind properties c s) = {}"
  shows "check_unneeded action kind properties c s = s"
proof (cases "action \<in> {''stop'', ''restart''} \<or> kind \<in> {K_Stop, K_Restart, K_Inspect}")
  case True
  then show ?thesis
    using assms unfolding check_unneeded_def
    by (cases "get properties ''StopWhenUnneeded''") (auto simp: gap_def split: bool.splits)
next
  case False
  then show ?thesis by (simp only: check_unneeded_def if_False)
qed

lemma gaps_from_open: "wk_gaps (gaps_from p gs q s) = {} \<Longrightarrow> gaps_from p gs q s = s"
  by (simp add: gaps_from_eq)

lemma enter_unit_open:
  "wk_gaps (enter_unit kind properties c s) = {} \<Longrightarrow>
     enter_unit kind properties c s = entered c kind s \<and> is_str (get properties ''LoadState'') ''loaded'' \<and> wk_gaps s = {}"
  by (auto simp: enter_unit_def entered_def gap_def Let_def split: if_splits)

lemma visit_unit_serves:
  assumes visit: "visit_unit G L action c kind depth (M c) s w = (None, s', w')" and gaps: "wk_gaps s' = {}"
  shows "wk_gaps s = {}" and "is_str (get (M c) ''LoadState'') ''loaded''"
    and "grows M (c, kind) (entered c kind s) s'"
    and "effect_pull M (c, kind) rel (v, child) \<Longrightarrow> served c rel v child s'"
proof -
  from visit obtain active gs where evidence: "reactivation_source_evidence (M c) = Inr (active, gs)"
    by (auto simp: visit_unit_def Let_def split: sum.splits)
  let ?s1 = "gaps_from ''runtime_'' gs ('':'' @ c) (enter_unit kind (M c) c s)"
  let ?s2 = "check_unneeded action kind (M c) c ?s1"
  let ?work = "for_each (each_reference G (M c) c) (work_relations L kind depth c)"
  have rest: "(if kind \<in> {K_Verify, K_Inspect, K_Source, K_Footprint} then (None, ?s2, w) else ?work ?s2 w) = (None, s', w')"
    using visit by (simp only: visit_unit_def Let_def evidence sum.case prod.case)
  have each: "grown.advances M (c, kind) (each_reference G (M c) c rb)"
    if "rb \<in> set (work_relations L kind depth c)" "kind \<in> {K_Start, K_Stop, K_Restart}" for rb
    using that work_grows [OF that(1) _ that(2), of M] by (intro grown.advances_each_reference) (auto simp: lists_def)
  have run: "?work ?s2 w = (None, s', w')" if "kind \<in> {K_Start, K_Stop, K_Restart}"
  proof -
    have "(kind \<in> {K_Verify, K_Inspect, K_Source, K_Footprint}) = False"
      using that working_kinds [of kind] by blast
    then show ?thesis using rest by (simp only: if_False)
  qed
  have grow: "grows M (c, kind) ?s2 s'"
  proof (cases "kind \<in> {K_Start, K_Stop, K_Restart}")
    case True
    have "grown.advances M (c, kind) ?work" using each True by (intro grown.advances_for_each) auto
    then show ?thesis using run [OF True] by (metis grown.advances_def fst_conv snd_conv)
  next
    case False
    then show ?thesis using rest working_kinds [of kind] grown.same by (auto split: if_splits)
  qed
  then have open2: "wk_gaps ?s2 = {}" using gaps by (simp add: grows_def)
  have s1: "?s2 = ?s1" using check_unneeded_open [OF open2] .
  then have "?s1 = enter_unit kind (M c) c s" using open2 by (intro gaps_from_open) simp
  then have s2: "?s2 = entered c kind s" and loaded: "is_str (get (M c) ''LoadState'') ''loaded''" and none: "wk_gaps s = {}"
    using enter_unit_open [of kind "M c" c s] open2 s1 by auto
  show "wk_gaps s = {}" "is_str (get (M c) ''LoadState'') ''loaded''" by (fact none, fact loaded)
  show "grows M (c, kind) (entered c kind s) s'" using grow by (simp only: s2)
  assume pull: "effect_pull M (c, kind) rel (v, child)"
  then have kind: "kind \<in> {K_Start, K_Stop, K_Restart}" by (rule only_work_pulls)
  obtain body where body: "(rel, body) \<in> set (work_relations L kind depth c)"
    and serves: "\<And>s. wk_gaps (body v s) = {} \<Longrightarrow> served c rel v child (body v s)"
    using pull_is_worked [OF pull] by metis
  obtain s3 w3 s4 w4 where ref: "each_reference G (M c) c (rel, body) s3 w3 = (None, s4, w4)"
    and g: "grows M (c, kind) s4 s'"
    using grown.for_each_at [OF each [OF _ kind] run [OF kind] body] by metis
  have open4: "wk_gaps s4 = {}" using g gaps by (simp add: grows_def)
  obtain vs where vs: "get (M c) rel = PList vs" and v: "PStr v \<in> set vs"
    using pull by (auto simp: lists_def elim!: effect_pull.cases)
  have "each_listed G rel c body vs s3 w3 = (None, s4, w4)"
    using ref by (simp add: each_reference_def vs)
  then have "served c rel v child s4"
    using each_listed_serves [of vs M "(c, kind)" body v c rel child G rel c s3 w3 s4 w4, OF _ serves v _ open4]
      work_grows [OF body _ kind, of M] vs
    by (auto simp: lists_def)
  then show "served c rel v child s'" by (rule served_grows [OF _ g gaps])
qed

lemma visit_unit_open:
  "visit_unit G L action c kind depth d s w = (None, s', w') \<Longrightarrow> wk_gaps s' = {} \<Longrightarrow> wk_gaps s = {}"
  using visit_unit_serves(1) [where M = "\<lambda>_. d" and G = G] by blast

section \<open>The invariant of the walk\<close>

text \<open>
  As long as no gap was noted: what was queued was visited or waits, everything queued is in the
  closure, and what a visited unit pulls has been followed.
\<close>

definition known :: "(string \<Rightarrow> facts) \<Rightarrow> string \<Rightarrow> bool" where
  "known M u \<longleftrightarrow> get (M u) ''Id'' = PStr u"

definition tracks :: "(string \<Rightarrow> facts) \<Rightarrow> string \<times> effect_kind \<Rightarrow> (string \<times> effect_kind) set \<Rightarrow> walk \<Rightarrow> bool" where
  "tracks M p0 waiting s \<longleftrightarrow> (wk_gaps s = {} \<longrightarrow>
     p0 \<in> wk_queued s \<and> wk_queued s = wk_visited s \<union> waiting \<and> (\<forall>q \<in> wk_queued s. affects M p0 q) \<and>
     (\<forall>u \<in> wk_attempted s. wk_aliases s u = Some u \<and> known M u) \<and>
     (\<forall>u c. wk_aliases s u = Some c \<longrightarrow> c = u) \<and> (\<forall>c d. wk_nodes s c = Some d \<longrightarrow> d = M c) \<and>
     wk_units s = {u. \<exists>k. k \<noteq> K_Inspect \<and> (u, k) \<in> wk_visited s} \<and>
     (\<forall>(u, k) \<in> wk_visited s. known M u \<and> is_str (get (M u) ''LoadState'') ''loaded'' \<and>
        (\<forall>rel v child. effect_pull M (u, k) rel (v, child) \<longrightarrow> served u rel v child s)) \<and>
     (\<forall>e \<in> set (wk_edges s). \<exists>p. affects M p0 p \<and> edge_of M p e))"

text \<open>A read against a manager that does not change leaves the unit known under its own name.\<close>

lemma attempt_read_tracks:
  assumes tracks: "tracks M p0 waiting s" and reads: "manager_reads G path_of M" and path: "path = path_of target"
    and run: "attempt_read G target path u s w = (None, s', w')" and gaps: "wk_gaps s' = {}"
  shows "tracks M p0 waiting s'" and "wk_aliases s' u = Some u" and "known M u" and "wk_gaps s = {}"
    and "wk_pending s' = wk_pending s"
proof -
  have "tracks M p0 waiting s' \<and> wk_aliases s' u = Some u \<and> known M u \<and> wk_gaps s = {} \<and> wk_pending s' = wk_pending s"
  proof (cases "u \<in> wk_attempted s")
    case True
    then show ?thesis using run gaps tracks by (auto simp: attempt_read_def tracks_def)
  next
    case False
    let ?s = "s\<lparr>wk_attempted := insert u (wk_attempted s)\<rparr>"
    obtain r w1 where r: "read_properties G target path u ?s w = (r, ?s, w1)"
      by (metis prod_cases3 fst_conv snd_conv read_properties_walk)
    obtain d where d: "r = Inr d"
      using run gaps False by (auto simp: attempt_read_def r split: sum.splits bus_exn.splits)
    have get: "sb_get_unit (ge_bus G) v w = (Inr p, w') \<Longrightarrow> p = path_of v"
      and props: "sb_properties (ge_bus G) (path_of v) w = (Inr f, w') \<Longrightarrow> f = M v" for v w p f w'
      using reads unfolding manager_reads_def by blast+
    have M: "d = M u"
      using r unfolding d path read_properties_def remaining_eq
      by (auto simp: Let_def split: if_splits prod.splits sum.splits dest: get dest!: props)
    have s': "s' = ?s\<lparr>wk_aliases := (wk_aliases s)(u \<mapsto> u),
        wk_nodes := (case wk_nodes s u of None \<Rightarrow> (wk_nodes s)(u \<mapsto> M u) | Some _ \<Rightarrow> wk_nodes s)\<rparr>"
      and id: "get (M u) ''Id'' = PStr u"
      using run gaps False
      by (cases "wk_nodes s u"; auto simp: attempt_read_def r d M split: pyval.splits if_splits)+
    then show ?thesis using gaps tracks
      by (auto simp: tracks_def known_def served_def split: option.splits if_splits)
  qed
  then show "tracks M p0 waiting s'" "wk_aliases s' u = Some u" "known M u" "wk_gaps s = {}"
    "wk_pending s' = wk_pending s" by auto
qed

text \<open>A visit keeps the invariant, and takes its pair from those that wait.\<close>

lemma visit_unit_tracks:
  assumes tracks: "tracks M p0 (insert (c, kind) (pairs s)) s" and known: "known M c"
    and visit: "visit_unit G L action c kind depth (M c) s w = (None, s', w')"
  shows "tracks M p0 (pairs s') s'"
proof (unfold tracks_def, intro impI)
  assume gaps: "wk_gaps s' = {}"
  note visited = visit_unit_serves [where M = M and c = c, OF visit gaps]
  let ?t = "entered c kind s"
  have inv: "p0 \<in> wk_queued s" "wk_queued s = wk_visited s \<union> insert (c, kind) (pairs s)"
    "\<forall>q \<in> wk_queued s. affects M p0 q"
    "\<forall>u \<in> wk_attempted s. wk_aliases s u = Some u \<and> known M u"
    "\<forall>u c. wk_aliases s u = Some c \<longrightarrow> c = u" "\<forall>c d. wk_nodes s c = Some d \<longrightarrow> d = M c"
    "wk_units s = {u. \<exists>k. k \<noteq> K_Inspect \<and> (u, k) \<in> wk_visited s}"
    "\<forall>e \<in> set (wk_edges s). \<exists>p. affects M p0 p \<and> edge_of M p e"
    using tracks visited(1) by (auto simp: tracks_def)
  have old: "known M u \<and> is_str (get (M u) ''LoadState'') ''loaded'' \<and>
      (\<forall>rel v child. effect_pull M (u, k) rel (v, child) \<longrightarrow> served u rel v child s)" if "(u, k) \<in> wk_visited s" for u k
    using tracks visited(1) that by (auto simp: tracks_def)
  from visited(3) gaps obtain new edges where same: "same_reads ?t s'"
    and q: "wk_queued s' = wk_queued ?t \<union> new" and p: "pairs s' = pairs ?t \<union> new"
    and new: "\<forall>q \<in> new. \<exists>rel. effect_pull M (c, kind) rel q"
    and e: "set (wk_edges s') = set (wk_edges ?t) \<union> edges" and edges: "\<forall>e \<in> edges. edge_of M (c, kind) e"
    unfolding grows_def by blast
  have t: "wk_queued ?t = wk_queued s" "pairs ?t = pairs s" "wk_edges ?t = wk_edges s"
    "wk_visited s' = insert (c, kind) (wk_visited s)" "wk_attempted s' = wk_attempted s"
    "wk_aliases s' = wk_aliases s" "wk_nodes s' = wk_nodes s"
    "wk_units s' = (if kind \<noteq> K_Inspect then insert c (wk_units s) else wk_units s)"
    using same by (auto simp: entered_def same_reads_def pairs_def)
  have here: "affects M p0 (c, kind)" using inv by simp
  have step: "affects M p0 q" if "q \<in> new" for q
    using here new that unfolding affects_def by (auto intro: rtranclp.rtrancl_into_rtrancl)
  have keep: "served u rel v child s'" if "served u rel v child s" for u rel v child
    using that q e t by (auto simp: served_def)
  have each: "known M u \<and> is_str (get (M u) ''LoadState'') ''loaded'' \<and>
      (\<forall>rel v child. effect_pull M (u, k) rel (v, child) \<longrightarrow> served u rel v child s')"
    if "(u, k) \<in> wk_visited s'" for u k
    using that t old [of u k] keep visited(2,4) known by auto
  show "p0 \<in> wk_queued s' \<and> wk_queued s' = wk_visited s' \<union> pairs s' \<and> (\<forall>q \<in> wk_queued s'. affects M p0 q) \<and>
     (\<forall>u \<in> wk_attempted s'. wk_aliases s' u = Some u \<and> known M u) \<and>
     (\<forall>u c. wk_aliases s' u = Some c \<longrightarrow> c = u) \<and> (\<forall>c d. wk_nodes s' c = Some d \<longrightarrow> d = M c) \<and>
     wk_units s' = {u. \<exists>k. k \<noteq> K_Inspect \<and> (u, k) \<in> wk_visited s'} \<and>
     (\<forall>(u, k) \<in> wk_visited s'. known M u \<and> is_str (get (M u) ''LoadState'') ''loaded'' \<and>
        (\<forall>rel v child. effect_pull M (u, k) rel (v, child) \<longrightarrow> served u rel v child s')) \<and>
     (\<forall>e \<in> set (wk_edges s'). \<exists>p. affects M p0 p \<and> edge_of M p e)"
  proof (intro conjI)
    show "p0 \<in> wk_queued s'" "wk_queued s' = wk_visited s' \<union> pairs s'" using inv(1,2) q p t by auto
    show "\<forall>q \<in> wk_queued s'. affects M p0 q" using inv(3) q t step by auto
    show "\<forall>u \<in> wk_attempted s'. wk_aliases s' u = Some u \<and> known M u"
      "\<forall>u c. wk_aliases s' u = Some c \<longrightarrow> c = u" "\<forall>c d. wk_nodes s' c = Some d \<longrightarrow> d = M c"
      using inv(4-6) t by simp_all
    show "wk_units s' = {u. \<exists>k. k \<noteq> K_Inspect \<and> (u, k) \<in> wk_visited s'}" using inv(7) t by auto
    show "\<forall>(u, k) \<in> wk_visited s'. known M u \<and> is_str (get (M u) ''LoadState'') ''loaded'' \<and>
        (\<forall>rel v child. effect_pull M (u, k) rel (v, child) \<longrightarrow> served u rel v child s')" using each by auto
    show "\<forall>e \<in> set (wk_edges s'). \<exists>p. affects M p0 p \<and> edge_of M p e"
      using inv(8) e t edges here by (metis UnE)
  qed
qed

lemma walk_round_tracks:
  assumes tracks: "tracks M p0 (pairs s) s" and some: "wk_pending s \<noteq> []"
    and reads: "manager_reads G path_of M" and path: "path = path_of target"
    and run: "walk_round G L action target path s w = (None, s', w')"
  shows "tracks M p0 (pairs s') s'"
proof (cases "wk_gaps s' = {}")
  case True
  obtain u kind depth rest where p: "wk_pending s = (u, kind, depth) # rest"
    using some by (metis neq_Nil_conv prod_cases3)
  let ?s = "s\<lparr>wk_pending := rest\<rparr>"
  have s: "pairs s = insert (u, kind) (pairs ?s)" by (simp add: pairs_def p)
  have t: "tracks M p0 (insert (u, kind) (pairs ?s)) ?s"
    using tracks by (auto simp: tracks_def s)
  from run obtain s1 w1 where read: "attempt_read G target path u ?s (snd (ge_tick G w)) = (None, s1, w1)"
    and tail: "(case wk_aliases s1 u of None \<Rightarrow> (None, s1, w1)
        | Some c \<Rightarrow> if (c, kind) \<in> wk_visited s1 then (None, s1, w1)
            else (case wk_nodes s1 c of None \<Rightarrow> (Some (Other_Failure ''KeyError'' c), s1, w1)
              | Some properties \<Rightarrow> visit_unit G L action c kind depth properties s1 w1)) = (None, s', w')"
    by (auto simp: walk_round_def and_then_def remaining_eq p split: if_splits prod.splits option.splits)
  have open1: "wk_gaps s1 = {}"
    using tail True visit_unit_open
    by (fastforce split: option.splits if_splits)
  note read' = attempt_read_tracks [OF t reads path read open1]
  have p1: "pairs s1 = pairs ?s" using read'(5) by (simp add: pairs_def)
  show ?thesis
  proof (cases "(u, kind) \<in> wk_visited s1")
    case True
    then have "s' = s1" using tail read'(2) by simp
    then show ?thesis using read'(1) p1 True by (simp add: tracks_def insert_absorb) blast
  next
    case False
    then obtain d where d: "wk_nodes s1 u = Some d" and visit: "visit_unit G L action u kind depth d s1 w1 = (None, s', w')"
      using tail read'(2) by (auto split: option.splits)
    have "d = M u" using read'(1) open1 d by (simp add: tracks_def)
    then show ?thesis using visit_unit_tracks [of M p0 u kind s1] read'(1,3) p1 visit by simp
  qed
next
  case False
  then show ?thesis by (simp add: tracks_def)
qed

lemma walk_loop_tracks:
  assumes "tracks M p0 (pairs s) s" and "manager_reads G path_of M" and "path = path_of target"
    and "walk_loop G L action target path s w = Some (None, s', w')"
  shows "tracks M p0 (pairs s') s'" and "wk_pending s' = []"
proof -
  let ?P = "\<lambda>(x :: bus_exn option, s, w). x = None \<longrightarrow> tracks M p0 (pairs s) s"
  let ?b = "\<lambda>(x :: bus_exn option, s, w). x = None \<and> wk_pending s \<noteq> []"
  let ?c = "\<lambda>(x :: bus_exn option, s, w). walk_round G L action target path s w"
  have "?P (?c t)" if "?P t" and "?b t" for t
    using that walk_round_tracks [where M = M and s = "fst (snd t)" and w = "snd (snd t)", OF _ _ assms(2,3)]
    by (auto simp: split_beta prod_eq_iff)
  from while_option_rule [of ?P ?b ?c, OF this assms(4) [unfolded walk_loop_def]]
  show "tracks M p0 (pairs s') s'" using assms(1) by simp
  show "wk_pending s' = []" using while_option_stop [OF assms(4) [unfolded walk_loop_def]] by simp
qed

text \<open>At the end of a walk without gaps the visited pairs are the closure.\<close>

lemma visited_is_closure:
  assumes "tracks M p0 (pairs s) s" and "wk_pending s = []" and "wk_gaps s = {}"
  shows "wk_visited s = {q. affects M p0 q}"
proof -
  have none: "pairs s = {}" using assms(2) by (simp add: pairs_def)
  have start: "p0 \<in> wk_visited s" and sub: "\<forall>q \<in> wk_visited s. affects M p0 q"
    and closed: "\<And>p rel q. p \<in> wk_visited s \<Longrightarrow> effect_pull M p rel q \<Longrightarrow> q \<in> wk_visited s"
    using assms(1,3) none by (auto simp: tracks_def served_def)
  have "q \<in> wk_visited s" if "affects M p0 q" for q
    using that unfolding affects_def
    by (induction rule: rtranclp_induct) (auto intro: start closed)
  then show ?thesis using sub by auto
qed

section \<open>The graph\<close>

lemma settle_edge_steps:
  "wk_aliases (fst (snd (settle_edge G target e s w))) = wk_aliases s"
  "wk_gaps s \<subseteq> wk_gaps (fst (snd (settle_edge G target e s w)))"
  "fst (settle_edge G target e s w) = None \<Longrightarrow> wk_final (fst (snd (settle_edge G target e s w))) =
     insert (fst e, fst (snd e), case wk_aliases s (snd (snd e)) of None \<Rightarrow> snd (snd e) | Some c \<Rightarrow> c) (wk_final s)"
  by (cases e; auto simp: settle_edge_def and_then_def remaining_eq gaps_from_eq gap_def Let_def
      split: option.split sum.split prod.split)+

lemma settle_edges_serve:
  assumes "for_each (settle_edge G target) es s w = (None, s', w')" and "wk_gaps s' = {}"
    and "wk_gaps s = {} \<longrightarrow> (\<forall>u c. wk_aliases s u = Some c \<longrightarrow> c = u)"
  shows "wk_gaps s = {} \<and> wk_final s' = wk_final s \<union> set es \<and> wk_units s' = wk_units s"
  using assms
proof (induction es arbitrary: s w)
  case (Cons e es)
  from Cons.prems(1) obtain s1 w1 where one: "settle_edge G target e s w = (None, s1, w1)"
    and rest: "for_each (settle_edge G target) es s1 w1 = (None, s', w')"
    by (auto simp: and_then_def split: prod.splits option.splits)
  have aliases: "wk_aliases s1 = wk_aliases s" and gaps: "wk_gaps s \<subseteq> wk_gaps s1" and units: "wk_units s1 = wk_units s"
    using settle_edge_steps(1) [of G target e s w] settle_edge_steps(2) [of s G target e w]
      settle_edge_fields(1) [of G target e s w] by (simp_all add: one)
  have tail: "wk_gaps s1 = {} \<and> wk_final s' = wk_final s1 \<union> set es \<and> wk_units s' = wk_units s1"
    using Cons.IH [OF rest Cons.prems(2)] Cons.prems(3) aliases gaps by auto
  then have "(case wk_aliases s (snd (snd e)) of None \<Rightarrow> snd (snd e) | Some c \<Rightarrow> c) = snd (snd e)"
    using Cons.prems(3) gaps by (auto split: option.split)
  then have "wk_final s1 = insert e (wk_final s)"
    using settle_edge_steps(3) [of G target e s w] by (simp add: one)
  then show ?case using tail units gaps by auto
qed simp

lemma edge_list_set: "finite es \<Longrightarrow> set (edge_list es) = es"
  by (force simp: edge_list_def image_iff)

text \<open>A complete graph comes from a walk that went to its end, and from nothing else.\<close>

lemma read_walk_walked:
  assumes "read_walk G L unit action version tg path w = Some (Walked version' tg' s3, w3)"
  obtains s2 w2 where "walk_loop G L action unit path (first_walk L unit action) w = Some (None, s2, w2)"
    and "for_each (settle_edge G unit) (wk_edges s2) s2 w2 = (None, s3, w3)"
  using assms by (auto simp: read_walk_def settle_edges_def split: option.splits prod.splits)

lemma read_graph_walked:
  assumes "read_graph G L noted unit action w = Some (Walked version tg s3, w3)"
  obtains path w1 w1' w2 version' tg' where "sb_get_unit (ge_bus G) unit w1 = (Inr path, w1')"
    and "read_walk G L unit action version' tg' path w2 = Some (Walked version tg s3, w3)"
  using assms
  by (auto simp: read_graph_def Let_def remaining_eq split: prod.splits sum.splits bus_exn.splits if_splits)

lemma not_complete:
  "\<not> eg_complete (no_graph noted unit action reason gs)"
  "\<not> eg_complete ((no_graph noted unit action reason gs)\<lparr>eg_detail := d\<rparr>)"
  "\<not> eg_complete (read_failed noted unit action version tg s x)"
  by (auto simp: eg_complete_def no_graph_def read_failed_def graph_of_def)

lemma read_graph_early:
  assumes "read_graph G L noted unit action w = Some (Early g version tg, w')"
  shows "\<not> eg_complete g"
proof -
  have "read_walk G L unit action v t path w1 \<noteq> Some (Early g version tg, w')" for v t path w1
    by (auto simp: read_walk_def split: option.splits prod.splits)
  then show ?thesis
    using assms
    by (auto simp: read_graph_def Let_def remaining_eq eg_complete_def no_graph_def
        split: prod.splits sum.splits bus_exn.splits if_splits)
qed

lemma complete_read:
  assumes run: "observe_effect_graph G max_nodes max_depth max_edges unit action w = Some (Inr g, w')" and ok: "eg_complete g"
  obtains noted version tg w1 s3 w3 where
    "read_graph G (limits_of max_nodes max_depth max_edges) noted unit action w1 = Some (Walked version tg s3, w3)"
    "g = finished_graph (limits_of max_nodes max_depth max_edges) noted unit action version (Some tg) s3" "wk_gaps s3 = {}"
proof -
  let ?L = "limits_of max_nodes max_depth max_edges"
  obtain y w1 where opened: "sb_open (ge_bus G) w = (y, w1)" by (cases "sb_open (ge_bus G) w")
  have "gl_nodes ?L > 0" by (simp add: limits_of_def)
  then have "\<exists>r w2. read_graph G ?L (sb_now (ge_bus G) w) unit action w1 = Some (r, w2)"
    using read_graph_limits [of ?L G "sb_now (ge_bus G) w" unit action w1] by blast
  then obtain r w2 where read: "read_graph G ?L (sb_now (ge_bus G) w) unit action w1 = Some (r, w2)" by blast
  obtain z w3 where closed: "sb_close (ge_bus G) w2 = (z, w3)" by (cases "sb_close (ge_bus G) w2")
  from run ok obtain version tg s3 where r: "r = Walked version tg s3"
    and g: "g = finished_graph ?L (sb_now (ge_bus G) w) unit action version (Some tg) s3"
    using read_graph_early [of G ?L "sb_now (ge_bus G) w" unit action w1]
    by (cases r; cases z)
      (auto simp: observe_effect_graph_def Let_def opened read closed not_complete
        split: sum.splits option.splits if_splits prod.splits)
  have "wk_gaps s3 = {}"
    using ok by (auto simp: g eg_complete_def finished_graph_def graph_of_def split: if_splits)
  then show ?thesis using that read r g by blast
qed

lemma complete_graph_closure:
  assumes "observe_effect_graph G max_nodes max_depth max_edges unit action w = Some (Inr g, w')"
    and "eg_complete g" and "manager_reads G path_of M"
  shows "set (eg_units g) = {u. \<exists>k. k \<noteq> K_Inspect \<and> affects M (unit, kind_of_action action) (u, k)} \<and>
    set (eg_edges g) = {e. \<exists>p. affects M (unit, kind_of_action action) p \<and> edge_of M p e} \<and>
    {q. affects M (unit, kind_of_action action) q} \<subseteq>
      {(u, k). known M u \<and> is_str (get (M u) ''LoadState'') ''loaded''}"
proof -
  let ?p0 = "(unit, kind_of_action action)"
  let ?L = "limits_of max_nodes max_depth max_edges"
  obtain noted version tg w0 s3 w3 where
    read: "read_graph G ?L noted unit action w0 = Some (Walked version tg s3, w3)"
    and g: "g = finished_graph ?L noted unit action version (Some tg) s3" and gaps: "wk_gaps s3 = {}"
    by (rule complete_read [OF assms(1,2)])
  obtain path u u' w1 version' tg' where path: "sb_get_unit (ge_bus G) unit u = (Inr path, u')"
    and walk: "read_walk G ?L unit action version' tg' path w1 = Some (Walked version tg s3, w3)"
    by (rule read_graph_walked [OF read])
  obtain s2 w2 where loop: "walk_loop G ?L action unit path (first_walk ?L unit action) w1 = Some (None, s2, w2)"
    and settle: "for_each (settle_edge G unit) (wk_edges s2) s2 w2 = (None, s3, w3)"
    by (rule read_walk_walked [OF walk])
  have "path = path_of unit" using path assms(3) by (auto simp: manager_reads_def)
  moreover have "tracks M ?p0 (pairs (first_walk ?L unit action)) (first_walk ?L unit action)"
    by (auto simp: tracks_def first_walk_def no_walk_def pairs_def affects_def)
  ultimately have t: "tracks M ?p0 (pairs s2) s2" and idle: "wk_pending s2 = []"
    using walk_loop_tracks [OF _ assms(3) _ loop] by blast+
  have "bounded ?L (first_walk ?L unit action)"
    by (auto simp: bounded_def first_walk_def no_walk_def limits_of_def)
  then have b: "bounded ?L s2" 
    by (rule walk_loop_ends [of _ _ G action unit path w1]) (use loop in simp)
  have "wk_gaps s2 = {} \<longrightarrow> (\<forall>u c. wk_aliases s2 u = Some c \<longrightarrow> c = u)" using t by (simp add: tracks_def)
  from settle_edges_serve [OF settle gaps this] b
  have open2: "wk_gaps s2 = {}" and final: "wk_final s3 = set (wk_edges s2)" and units: "wk_units s3 = wk_units s2"
    by (auto simp: bounded_def)
  note visited = visited_is_closure [OF t idle open2]
  have fin: "finite (wk_units s3)" using bounded_finite_units [OF b] units by simp
  have walked: "wk_units s2 = {u. \<exists>k. k \<noteq> K_Inspect \<and> (u, k) \<in> wk_visited s2}"
    "\<And>u k. (u, k) \<in> wk_visited s2 \<Longrightarrow> known M u \<and> is_str (get (M u) ''LoadState'') ''loaded''"
    "\<And>u k rel v child. (u, k) \<in> wk_visited s2 \<Longrightarrow> effect_pull M (u, k) rel (v, child) \<Longrightarrow> served u rel v child s2"
    "\<And>e. e \<in> set (wk_edges s2) \<Longrightarrow> \<exists>p. affects M ?p0 p \<and> edge_of M p e"
    using t open2 unfolding tracks_def by blast+
  have "set (eg_units g) = {u. \<exists>k. k \<noteq> K_Inspect \<and> affects M ?p0 (u, k)}"
    using fin units walked(1) visited by (simp add: g finished_graph_def graph_of_def)
  moreover have "set (eg_edges g) = set (wk_edges s2)"
    using edge_list_set [of "wk_final s3"] final by (simp add: g finished_graph_def graph_of_def)
  moreover have "set (wk_edges s2) = {e. \<exists>p. affects M ?p0 p \<and> edge_of M p e}"
    using walked(3,4) visited by (fastforce simp: edge_of_def served_def)
  moreover have "{q. affects M ?p0 q} \<subseteq> {(u, k). known M u \<and> is_str (get (M u) ''LoadState'') ''loaded''}"
    using walked(2) visited by blast
  ultimately show ?thesis by simp
qed

text \<open>
  C15. Against a service manager whose answers do not change while it is read, a graph the walk calls
  complete is exact. Its units are the units that the action reaches by the relations the walk follows
  (the closure of \<open>effect_pull\<close>, whatever order, limits and queue the walk used), less those only
  inspected; its edges are the references between them; and every unit reached is loaded and was named
  by its own name.
\<close>

theorem complete_effect_graph_is_the_closure:
  assumes "observe_effect_graph G max_nodes max_depth max_edges unit action w = Some (Inr g, w')"
    and "eg_complete g" and "manager_reads G path_of M"
  shows "set (eg_units g) = {u. \<exists>k. k \<noteq> K_Inspect \<and> affects M (unit, kind_of_action action) (u, k)} \<and>
    set (eg_edges g) = {e. \<exists>p. affects M (unit, kind_of_action action) p \<and> edge_of M p e} \<and>
    {q. affects M (unit, kind_of_action action) q} \<subseteq>
      {(u, k). known M u \<and> is_str (get (M u) ''LoadState'') ''loaded''}"
  using complete_graph_closure [OF assms] .

end
