(* ===== verification/Lifecycle_Clearance.thy ===== *)
theory Lifecycle_Clearance
  imports Lifecycle_Context Effect_Closure
begin

text \<open>
  What it takes for a lifecycle action to be cleared of the operator's own connection and of the agent:
  from the verdict (\<open>Lifecycle\<close>) back through the context the backend reads, the document the agent
  sends, and the evidence it composes, to the service manager and the kernel.
\<close>

section \<open>The host\<close>

text \<open>
  What the host is, as far as these reads ask: the manager's units, the unit of a control group, the
  unit of the process that owns a bus name, the agent's control group, the control group of a
  connection, and the unit whose runtime owns a container's control group. A read may fail at any
  time; when it answers, it answers this.
\<close>

record host_view =
  hv_path :: "string \<Rightarrow> string"
  hv_unit :: "string \<Rightarrow> facts"
  hv_cgroup_unit :: "string \<Rightarrow> string"
  hv_name_unit :: "string \<Rightarrow> string"
  hv_agent_cgroup :: string
  hv_connection_cgroup :: "socket_tuple \<Rightarrow> string"
  hv_runtime_owner :: "string \<Rightarrow> string"

definition host_reads :: "'w evidence_env \<Rightarrow> host_view \<Rightarrow> bool" where
  "host_reads E H \<longleftrightarrow>
     manager_reads (ev_graph E) (hv_path H) (hv_unit H) \<and>
     (\<forall>g w u w'. unit_of_cgroup E g w = (Inr u, w') \<longrightarrow> uo_canonical_id u = hv_cgroup_unit H g) \<and>
     (\<forall>n w x u w'. unit_of_name E n w = (Inr (x, u), w') \<longrightarrow> uo_canonical_id u = hv_name_unit H n) \<and>
     (\<forall>w body g. ev_proc_cgroup E w = Inr body \<longrightarrow> read_systemd_cgroup body = Some g \<longrightarrow> g = hv_agent_cgroup H) \<and>
     (\<forall>t w d m w' w'' path. ev_socket_lookup E t w = (d, w') \<longrightarrow> sd_status d = ''matched'' \<longrightarrow>
        sd_match d = Some m \<longrightarrow> cg_status (ev_cgroup_path E (sm_cgroup_id m) w'') = ''resolved'' \<longrightarrow>
        cg_path (ev_cgroup_path E (sm_cgroup_id m) w'') = Some path \<longrightarrow> path = hv_connection_cgroup H t) \<and>
     (\<forall>f path w owner evidence w' u. ev_runtime_owner E = Some f \<longrightarrow> f path w = ((owner, evidence), w') \<longrightarrow>
        roc_resolved owner \<longrightarrow> roc_owner_unit_id owner = Some u \<longrightarrow> u = hv_runtime_owner H path)"

lemma host_readsD:
  assumes "host_reads E H"
  shows "manager_reads (ev_graph E) (hv_path H) (hv_unit H)"
    and "unit_of_cgroup E g w = (Inr u, w') \<Longrightarrow> uo_canonical_id u = hv_cgroup_unit H g"
    and "unit_of_name E n w = (Inr (x, u), w') \<Longrightarrow> uo_canonical_id u = hv_name_unit H n"
    and "ev_proc_cgroup E w = Inr body \<Longrightarrow> read_systemd_cgroup body = Some g \<Longrightarrow> g = hv_agent_cgroup H"
    and "ev_socket_lookup E t w = (d, w') \<Longrightarrow> sd_status d = ''matched'' \<Longrightarrow> sd_match d = Some m \<Longrightarrow>
      cg_status (ev_cgroup_path E (sm_cgroup_id m) w'') = ''resolved'' \<Longrightarrow>
      cg_path (ev_cgroup_path E (sm_cgroup_id m) w'') = Some path \<Longrightarrow> path = hv_connection_cgroup H t"
    and "ev_runtime_owner E = Some f \<Longrightarrow> f path w = ((owner, evidence), w') \<Longrightarrow> roc_resolved owner \<Longrightarrow>
      roc_owner_unit_id owner = Some v \<Longrightarrow> v = hv_runtime_owner H path"
  using assms unfolding host_reads_def by metis+

text \<open>
  The units an action must spare: those the connection lives in, the ones that configure its path, and
  the agent's.
\<close>

definition connection_units :: "host_view \<Rightarrow> socket_tuple \<Rightarrow> string set" where
  "connection_units H t =
     (let g = hv_connection_cgroup H t; u = hv_cgroup_unit H g in
      {u} \<union> (if unit_type_of u = Some ''service'' then {} else {hv_runtime_owner H g}))"

definition provider_unit :: "host_view \<Rightarrow> string \<Rightarrow> string option" where
  "provider_unit H p = map_option (hv_name_unit H) (map_of PROVIDER_DBUS_NAMES p)"

definition agent_unit :: "host_view \<Rightarrow> string" where
  "agent_unit H = hv_cgroup_unit H (hv_agent_cgroup H)"

section \<open>What complete evidence holds\<close>

lemma named_opt_text: "named (opt_text x) = Some u \<longleftrightarrow> x = Some u \<and> u \<noteq> []"
  by (cases x) (auto simp: named_def split: list.splits)

lemma incomplete_sel [simp]:
  "\<not> me_complete (incomplete gs m)" "me_units (incomplete gs m) = me_units m"
  by (simp_all add: incomplete_def)

lemma set_dependency_sel [simp]:
  "me_complete (set_dependency d m) = me_complete m" "me_units (set_dependency d m) = me_units m"
  by (simp_all add: set_dependency_def)

lemma cgroup_resolution_resolved:
  "ur_status (cgroup_resolution noted g r) = ''resolved'' \<Longrightarrow>
     \<exists>u. r = Inr u \<and> ur_canonical_id (cgroup_resolution noted g r) = Some (uo_canonical_id u) \<and>
       ur_unit (cgroup_resolution noted g r) = Some u"
  by (auto simp: cgroup_resolution_def unresolved_unit_def resolved_unit_def split: sum.splits bus_exn.splits)

lemma provider_units_complete:
  assumes "provider_units E ps m w = (m', w')"
  shows "finite (me_units m) \<longrightarrow> finite (me_units m')" and "me_units m \<subseteq> me_units m'"
    and "me_complete m' \<Longrightarrow> host_reads E H \<Longrightarrow>
      me_complete m \<and> (\<forall>p \<in> set ps. \<exists>u. provider_unit H p = Some u \<and> u \<in> me_units m')"
proof -
  have "(finite (me_units m) \<longrightarrow> finite (me_units m')) \<and> me_units m \<subseteq> me_units m' \<and>
      (me_complete m' \<and> host_reads E H \<longrightarrow>
       me_complete m \<and> (\<forall>p \<in> set ps. \<exists>u. provider_unit H p = Some u \<and> u \<in> me_units m'))"
    using assms
  proof (induction ps arbitrary: m w)
    case (Cons p ps)
    show ?case
    proof (cases "p \<in> set MANAGEMENT_PROVIDERS")
      case False
      then have "provider_units E ps (incomplete [''management_path.provider_vocabulary_unknown''] m) w = (m', w')"
        using Cons.prems by simp
      from Cons.IH [OF this] show ?thesis by auto
    next
      case True
      obtain r w1 where r: "resolve_provider_unit E p w = (r, w1)" by (cases "resolve_provider_unit E p w")
      define found where "found = (if ur_status r = ''resolved'' then named (opt_text (ur_canonical_id r)) else None)"
      obtain m1 where m1: "provider_units E ps (case found of Some u \<Rightarrow> m1\<lparr>me_units := insert u (me_units m1)\<rparr>
            | None \<Rightarrow> incomplete [''management_path.provider_owner:'' @ p] m1) w1 = (m', w')"
        and same: "me_units m1 = me_units m" "me_complete m1 = me_complete m"
        using Cons.prems True by (auto simp: r Let_def found_def)
      note ih = Cons.IH [OF m1]
      have unit: "provider_unit H p = Some u" if "found = Some u" "host_reads E H" for u
      proof -
        from that(1) have "ur_status r = ''resolved''" "ur_canonical_id r = Some u"
          by (auto simp: found_def named_opt_text split: if_splits)
        then obtain bus x v where "map_of PROVIDER_DBUS_NAMES p = Some bus" "unit_of_name E bus w = (Inr (x, v), w1)"
            "uo_canonical_id v = u"
          using r by (auto simp: resolve_provider_unit_def unresolved_unit_def resolved_unit_def Let_def
              split: option.splits prod.splits sum.splits)
        then show ?thesis using host_readsD(3) [OF that(2)] by (auto simp: provider_unit_def)
      qed
      show ?thesis
      proof (cases found)
        case None
        with ih same show ?thesis by auto
      next
        case (Some u)
        with ih same unit show ?thesis by auto
      qed
    qed
  qed simp
  then show "finite (me_units m) \<longrightarrow> finite (me_units m')" "me_units m \<subseteq> me_units m'"
    "me_complete m' \<Longrightarrow> host_reads E H \<Longrightarrow>
      me_complete m \<and> (\<forall>p \<in> set ps. \<exists>u. provider_unit H p = Some u \<and> u \<in> me_units m')" by auto
qed

text \<open>The type a reading gives a unit says service exactly where its name does.\<close>

lemma last_split_Some: "last_split c xs = Some (a, b) \<Longrightarrow> xs = a @ c # b"
  by (induction xs arbitrary: a b) (auto split: option.splits prod.splits if_splits)

lemma type_in_name_scope: "unit_type_of u = None \<Longrightarrow> type_in_name u \<noteq> ''service''"
proof
  assume none: "unit_type_of u = None" and "type_in_name u = ''service''"
  then obtain a where "last_split CHR ''.'' u = Some (a, ''service'')"
    by (auto simp: type_in_name_def split: option.splits prod.splits)
  then have "u = a @ ''.service''" using last_split_Some by fastforce
  then have "endswith u ''.service''" by simp
  then show False using none by (auto simp: unit_type_of_def SUPPORTED_UNIT_SUFFIXES_def)
qed

lemma normalise_unit_type: "get (fst (normalise_unit render d typed t)) ''unit_type'' = PStr t"
  by (simp add: normalise_unit_def unit_fields_def Let_def)

lemma observe_path_type:
  assumes "observe_path R path listed row b w = (Inr u, w')"
  shows "is_str (get (uo_facts u) ''unit_type'') ''service'' \<longleftrightarrow> unit_type_of (uo_canonical_id u) = Some ''service''"
proof -
  define t where "t = (case unit_type_of (uo_canonical_id u) of Some t \<Rightarrow> t | None \<Rightarrow> type_in_name (uo_canonical_id u))"
  have fst_case: "(case p of (fs, gs) \<Rightarrow> f fs gs) = f (fst p) (snd p)" for p :: "facts \<times> string list" and f
    by (cases p) simp
  from assms have "get (uo_facts u) ''unit_type'' = PStr t"
    by (auto simp: observe_path_def Let_def t_def fst_case normalise_unit_type
        split: prod.splits sum.splits option.splits if_splits bus_exn.splits)
  then show ?thesis
    using type_in_name_scope [of "uo_canonical_id u"]
    by (auto simp: is_str_def t_def split: option.splits)
qed

lemma unit_of_cgroup_type:
  assumes "unit_of_cgroup E g w = (Inr u, w')"
  shows "is_str (get (uo_facts u) ''unit_type'') ''service'' \<longleftrightarrow> unit_type_of (uo_canonical_id u) = Some ''service''"
proof -
  obtain path w1 w2 where "observe_any E path w1 = (Inr u, w2)"
    using assms by (auto simp: unit_of_cgroup_def connected_def split: prod.splits sum.splits)
  then show ?thesis unfolding observe_any_def by (rule observe_path_type)
qed

lemma resolve_control_group_resolved:
  assumes "resolve_control_group_unit E g w = (r, w')" and "ur_status r = ''resolved''"
  obtains u v where "unit_of_cgroup E g w = (Inr u, v)" and "ur_canonical_id r = Some (uo_canonical_id u)"
    and "ur_unit r = Some u"
  using assms cgroup_resolution_resolved
  by (fastforce simp: resolve_control_group_unit_def unresolved_unit_def Let_def split: if_splits prod.splits)

text \<open>A context without a gap is of the unit of the connection's control group.\<close>

lemma matched_context_complete:
  assumes "matched_context E socket m w = (x, w')" and "sx_gaps x = []"
  obtains u g v v' where "cg_status (ev_cgroup_path E (sm_cgroup_id m) w) = ''resolved''"
    and "cg_path (ev_cgroup_path E (sm_cgroup_id m) w) = Some g" and "unit_of_cgroup E g v = (Inr u, v')"
    and "sx_unit x = Some (uo_canonical_id u)" and "sx_cgroup x = Some g"
    and "sx_type x = get (uo_facts u) ''unit_type''"
proof -
  let ?c = "ev_cgroup_path E (sm_cgroup_id m) w"
  obtain g where g: "cg_status ?c = ''resolved''" "cg_path ?c = Some g"
    using assms by (auto simp: matched_context_def no_socket_def Let_def split: option.splits if_splits)
  obtain r w1 where r: "resolve_control_group_unit E g w = (r, w1)" by (cases "resolve_control_group_unit E g w")
  obtain n where n: "ur_status r = ''resolved''" "named (opt_text (ur_canonical_id r)) = Some n"
    using assms by (auto simp: matched_context_def no_socket_def Let_def g r split: option.splits if_splits)
  obtain u v where u: "unit_of_cgroup E g w = (Inr u, v)" "ur_canonical_id r = Some (uo_canonical_id u)" "ur_unit r = Some u"
    by (rule resolve_control_group_resolved [OF r n(1)])
  show ?thesis
    by (rule that [OF g u(1)])
      (use assms(1) n u(2,3) in \<open>auto simp: matched_context_def Let_def g r named_opt_text split: if_splits\<close>)
qed

lemma socket_context_complete:
  assumes "socket_context E c w = (Inr x, w')" and "sx_gaps x = []" and H: "host_reads E H"
  obtains t ends where "tuple_from E c = Inr (t, ends)" and "sx_cgroup x = Some (hv_connection_cgroup H t)"
    and "sx_unit x = Some (hv_cgroup_unit H (hv_connection_cgroup H t))"
    and "is_str (sx_type x) ''service'' \<longleftrightarrow>
      unit_type_of (hv_cgroup_unit H (hv_connection_cgroup H t)) = Some ''service''"
proof -
  from assms(1,2) obtain t peer local diag w1 m where t: "tuple_from E c = Inr (t, peer, local)"
    and d: "ev_socket_lookup E t w = (diag, w1)" "sd_status diag = ''matched''" "sd_match diag = Some m"
    and x: "matched_context E [(''tuple'', PDict (tuple_dict t)), (''diag'', PDict (sd_as_dict diag))] m w1 = (x, w')"
    by (auto simp: socket_context_def no_socket_def Let_def split: sum.splits prod.splits if_splits option.splits)
  obtain u g v v' where g: "cg_status (ev_cgroup_path E (sm_cgroup_id m) w1) = ''resolved''"
    "cg_path (ev_cgroup_path E (sm_cgroup_id m) w1) = Some g" and u: "unit_of_cgroup E g v = (Inr u, v')"
    and sx: "sx_unit x = Some (uo_canonical_id u)" "sx_cgroup x = Some g" "sx_type x = get (uo_facts u) ''unit_type''"
    by (rule matched_context_complete [OF x assms(2)])
  have "g = hv_connection_cgroup H t" and "uo_canonical_id u = hv_cgroup_unit H g"
    using host_readsD(5) [OF H d g] host_readsD(2) [OF H u] by auto
  then show ?thesis using that [OF t] sx unit_of_cgroup_type [OF u] by simp
qed

lemma runtime_evidence_complete:
  assumes "runtime_evidence E u ty cgroup m w = (m', w')"
  shows "finite (me_units m) \<longrightarrow> finite (me_units m')" and "me_units m \<subseteq> me_units m'"
    and "me_complete m' \<Longrightarrow> host_reads E H \<Longrightarrow> cgroup = Some g \<Longrightarrow> me_complete m \<and> hv_runtime_owner H g \<in> me_units m'"
proof -
  have "(finite (me_units m) \<longrightarrow> finite (me_units m')) \<and> me_units m \<subseteq> me_units m' \<and>
      (me_complete m' \<and> host_reads E H \<and> cgroup = Some g \<longrightarrow> me_complete m \<and> hv_runtime_owner H g \<in> me_units m')"
  proof (cases "ev_runtime_owner E = None \<or> cgroup = None")
    case True
    then show ?thesis using assms by (auto simp: runtime_evidence_def Let_def split: option.splits)
  next
    case False
    then obtain f path where f: "ev_runtime_owner E = Some f" "cgroup = Some path" by auto
    obtain owner ev w1 where r: "f path w = ((owner, ev), w1)" by (metis surj_pair)
    define found where "found = (if roc_resolved owner then named (opt_text (roc_owner_unit_id owner)) else None)"
    show ?thesis
    proof (cases found)
      case None
      then show ?thesis using assms by (auto simp: runtime_evidence_def Let_def f r found_def [symmetric])
    next
      case (Some v)
      then have "roc_resolved owner" "roc_owner_unit_id owner = Some v"
        by (auto simp: found_def named_opt_text split: if_splits)
      then have "v = hv_runtime_owner H path" if "host_reads E H" using host_readsD(6) [OF that f(1) r] by blast
      then show ?thesis using assms Some by (auto simp: runtime_evidence_def Let_def f r found_def [symmetric])
    qed
  qed
  then show "finite (me_units m) \<longrightarrow> finite (me_units m')" "me_units m \<subseteq> me_units m'"
    "me_complete m' \<Longrightarrow> host_reads E H \<Longrightarrow> cgroup = Some g \<Longrightarrow> me_complete m \<and> hv_runtime_owner H g \<in> me_units m'"
    by auto
qed

lemma connection_evidence_complete:
  assumes run: "connection_evidence E c m w = (Inr m', w')"
  shows "finite (me_units m) \<longrightarrow> finite (me_units m')" and "me_units m \<subseteq> me_units m'"
    and "me_complete m' \<Longrightarrow> host_reads E H \<Longrightarrow>
      me_complete m \<and> (\<exists>t ends. tuple_from E c = Inr (t, ends) \<and> connection_units H t \<subseteq> me_units m')"
proof -
  obtain x w1 where x: "socket_context E c w = (Inr x, w1)"
    using run by (auto simp: connection_evidence_def split: prod.splits sum.splits)
  define m1 where "m1 = m\<lparr>me_evidence := updated (me_evidence m) (sx_evidence x), me_unit := sx_unit x,
    me_type := sx_type x, me_units := (case sx_unit x of None \<Rightarrow> me_units m | Some u \<Rightarrow> insert u (me_units m))\<rparr>"
  have m1: "finite (me_units m) \<longrightarrow> finite (me_units m1)" "me_units m \<subseteq> me_units m1" "me_complete m1 = me_complete m"
    "sx_unit x = Some u \<Longrightarrow> u \<in> me_units m1" for u
    by (auto simp: m1_def split: option.splits)
  have tail: "(if sx_gaps x \<noteq> [] then (Inr (incomplete (sx_gaps x) m1), w1)
      else (case sx_unit x of None \<Rightarrow> (Inr m1, w1)
        | Some u \<Rightarrow> if is_str (sx_type x) ''service'' then (Inr m1, w1)
            else (case runtime_evidence E u (sx_type x) (sx_cgroup x) m1 w1 of (m2, w'') \<Rightarrow> (Inr m2, w'')))) =
      ((Inr m', w') :: (py_error + management_evidence) \<times> _)"
    using run by (simp add: connection_evidence_def x m1_def [symmetric] Let_def)
  show "finite (me_units m) \<longrightarrow> finite (me_units m')" "me_units m \<subseteq> me_units m'"
    using tail m1 runtime_evidence_complete(1,2) [of E _ "sx_type x" "sx_cgroup x" m1 w1 m' w']
    by (auto split: if_splits option.splits prod.splits)
  assume ok: "me_complete m'" and H: "host_reads E H"
  then have none: "sx_gaps x = []" using tail by (auto split: if_splits)
  obtain t ends where t: "tuple_from E c = Inr (t, ends)" and g: "sx_cgroup x = Some (hv_connection_cgroup H t)"
    and u: "sx_unit x = Some (hv_cgroup_unit H (hv_connection_cgroup H t))"
    and ty: "is_str (sx_type x) ''service'' \<longleftrightarrow>
      unit_type_of (hv_cgroup_unit H (hv_connection_cgroup H t)) = Some ''service''"
    by (rule socket_context_complete [OF x none H])
  show "me_complete m \<and> (\<exists>t ends. tuple_from E c = Inr (t, ends) \<and> connection_units H t \<subseteq> me_units m')"
  proof (cases "is_str (sx_type x) ''service''")
    case True
    then have "m' = m1" using tail none u by simp
    then show ?thesis using t m1(3,4) u ty True ok by (auto simp: connection_units_def Let_def)
  next
    case False
    then obtain w2 where r: "runtime_evidence E (hv_cgroup_unit H (hv_connection_cgroup H t)) (sx_type x) (sx_cgroup x) m1 w1 = (m', w2)"
      using tail none u by (auto split: prod.splits)
    from runtime_evidence_complete(2) [OF r] runtime_evidence_complete(3) [OF r ok H g] m1(3,4) u t ty False
    show ?thesis by (auto simp: connection_units_def Let_def)
  qed
qed

lemma namespace_evidence_complete:
  assumes run: "namespace_evidence E c m w = (Inr m', w')"
  shows "finite (me_units m) \<longrightarrow> finite (me_units m')" and "me_units m \<subseteq> me_units m'"
    and "me_complete m' \<Longrightarrow> host_reads E H \<Longrightarrow>
      me_complete m \<and> (\<exists>t ends. tuple_from E c = Inr (t, ends) \<and> connection_units H t \<subseteq> me_units m')"
proof -
  let ?m = "m\<lparr>me_evidence := me_evidence m @ [(''network_namespace'', PDict [(''backend_inode'', get c ''backend_netns_inode''),
     (''agent_inode'', case ev_netns_inode E w of None \<Rightarrow> PNone | Some i \<Rightarrow> PInt i)])]\<rparr>"
  from run consider gs where "m' = incomplete gs ?m" | "connection_evidence E c ?m w = (Inr m', w')"
    by (auto simp: namespace_evidence_def Let_def split: option.splits if_splits)
  then have "(finite (me_units m) \<longrightarrow> finite (me_units m')) \<and> me_units m \<subseteq> me_units m' \<and>
      (me_complete m' \<and> host_reads E H \<longrightarrow>
       me_complete m \<and> (\<exists>t ends. tuple_from E c = Inr (t, ends) \<and> connection_units H t \<subseteq> me_units m'))"
  proof cases
    case 2
    note r = connection_evidence_complete [OF 2]
    show ?thesis using r(1,2) r(3) [of H] by auto
  qed simp
  then show "finite (me_units m) \<longrightarrow> finite (me_units m')" "me_units m \<subseteq> me_units m'"
    "me_complete m' \<Longrightarrow> host_reads E H \<Longrightarrow>
      me_complete m \<and> (\<exists>t ends. tuple_from E c = Inr (t, ends) \<and> connection_units H t \<subseteq> me_units m')"
    by auto
qed

lemma self_resolved:
  assumes "resolve_current_process_unit E w = (r, w')" and "ur_status r = ''resolved''" and H: "host_reads E H"
  shows "ur_canonical_id r = Some (agent_unit H)"
proof -
  from assms(1,2) obtain body g v noted where body: "ev_proc_cgroup E w = Inr body" "read_systemd_cgroup body = Some g"
    and v: "unit_of_cgroup E g w = (v, w')" and r: "r = cgroup_resolution noted g v"
    by (auto simp: resolve_current_process_unit_def unresolved_unit_def Let_def
        split: sum.splits option.splits prod.splits)
  obtain u where u: "v = Inr u" "ur_canonical_id r = Some (uo_canonical_id u)"
    using cgroup_resolution_resolved assms(2) r by blast
  have "g = hv_agent_cgroup H" using host_readsD(4) [OF H body] .
  moreover have "uo_canonical_id u = hv_cgroup_unit H g" using host_readsD(2) [OF H] v u by auto
  ultimately show ?thesis using u by (simp add: agent_unit_def)
qed

text \<open>What an observation whose parts are complete holds of the host.\<close>

lemma observe_lifecycle_complete:
  assumes run: "observe_lifecycle E target action c providers pc w = Some (Inr lo, w')" and H: "host_reads E H"
    and effect: "lo_effect_complete lo" and management: "lo_management_complete lo" and agent: "lo_agent_complete lo"
  obtains t ends where "tuple_from E c = Inr (t, ends)"
    and "set (lo_effect_units lo) = {u. \<exists>k. k \<noteq> K_Inspect \<and> affects (hv_unit H) (target, kind_of_action action) (u, k)}"
    and "connection_units H t \<subseteq> set (lo_management_units lo)"
    and "\<forall>p \<in> set providers. \<exists>u. provider_unit H p = Some u \<and> u \<in> set (lo_management_units lo)"
    and "lo_agent_unit lo = Some (agent_unit H)" and "pc"
proof -
  let ?graph = "observe_effect_graph (ev_graph E) EFFECT_GRAPH_MAX_NODES EFFECT_GRAPH_MAX_DEPTH
        EFFECT_GRAPH_MAX_EDGES target action w"
  obtain v w1 where "?graph = Some (v, w1)" using run by (cases ?graph) (auto simp: observe_lifecycle_def)
  moreover from this run obtain g where "v = Inr g" by (cases v) (auto simp: observe_lifecycle_def)
  ultimately have g: "?graph = Some (Inr g, w1)" by simp
  obtain v2 w2 where n: "namespace_evidence E c (first_evidence g) w1 = (v2, w2)" by (metis surj_pair)
  with run obtain m where "v2 = Inr m" by (cases v2) (auto simp: observe_lifecycle_def g)
  then have m: "namespace_evidence E c (first_evidence g) w1 = (Inr m, w2)" using n by simp
  obtain m2 w3 where m2: "provider_units E providers (if pc then m
      else incomplete [''management_path.provider_evidence_incomplete''] m) w2 = (m2, w3)" by (metis surj_pair)
  obtain self w4 where own: "resolve_current_process_unit E w3 = (self, w4)" by (metis surj_pair)
  have lo: "lo = composed (sb_now (ge_bus (ev_graph E)) w) target action g m2 self"
    using run by (simp add: observe_lifecycle_def g m Let_def m2 own)
  have complete: "eg_complete g" "me_complete m2" "ur_status self = ''resolved''"
    using effect management agent by (auto simp: lo composed_def Let_def)
  have all: "me_complete m" "pc" and prov: "\<forall>p \<in> set providers. \<exists>u. provider_unit H p = Some u \<and> u \<in> me_units m2"
    using provider_units_complete(3) [OF m2 complete(2) H] by (auto split: if_splits)
  obtain t ends where t: "tuple_from E c = Inr (t, ends)" "connection_units H t \<subseteq> me_units m"
    using namespace_evidence_complete(3) [OF m all(1) H] by blast
  have sub: "me_units m \<subseteq> me_units m2" using provider_units_complete(2) [OF m2] by (auto split: if_splits)
  have "finite (me_units m)" using namespace_evidence_complete(1) [OF m] by (simp add: first_evidence_def)
  then have fin: "finite (me_units m2)" using provider_units_complete(1) [OF m2] by (auto split: if_splits)
  have units: "set (lo_management_units lo) = me_units m2" using fin by (simp add: lo composed_def Let_def)
  have "set (lo_effect_units lo) = {u. \<exists>k. k \<noteq> K_Inspect \<and> affects (hv_unit H) (target, kind_of_action action) (u, k)}"
    using complete_graph_closure [OF g complete(1) host_readsD(1) [OF H]] by (simp add: lo composed_def Let_def)
  moreover have "lo_agent_unit lo = Some (agent_unit H)"
    using self_resolved [OF own complete(3) H] by (simp add: lo composed_def Let_def)
  ultimately show ?thesis using that [OF t(1)] t(2) sub prov units all(2) by auto
qed

section \<open>The document\<close>

text \<open>A context the backend accepts says of these parts what the agent's document says.\<close>

lemma context_of_document:
  assumes "context_from_dict rd render (dict_set ''observation_id'' (opt_text x) (lo_as_dict lo)) = Inr c"
  shows "cx_effect_units c = lo_effect_units lo" and "cx_effect_complete c = lo_effect_complete lo"
    and "cx_management_units c = lo_management_units lo" and "cx_management_complete c = lo_management_complete lo"
    and "cx_agent_unit c = lo_agent_unit lo" and "cx_agent_complete c = lo_agent_complete lo"
proof -
  let ?d = "dict_set ''observation_id'' (opt_text x) (lo_as_dict lo)"
  have d: "?d = lo_as_dict lo @ [(''observation_id'', opt_text x)]" by (simp add: dict_set_def lo_as_dict_def)
  have keys: "get_or ?d ''effect_units'' (PList []) = texts (lo_effect_units lo)"
    "get_or ?d ''management_units'' (PList []) = texts (lo_management_units lo)"
    unfolding d by (simp_all add: lo_as_dict_def)
  note lists = texts_from_eq [OF keys(1)] texts_from_eq [OF keys(2)]
  have fetch: "get ?d ''effect_complete'' = PBool (lo_effect_complete lo)"
    "get ?d ''management_complete'' = PBool (lo_management_complete lo)"
    "get ?d ''agent_complete'' = PBool (lo_agent_complete lo)" "get ?d ''agent_unit'' = opt_text (lo_agent_unit lo)"
    unfolding d by (simp_all add: lo_as_dict_def)
  show "cx_effect_units c = lo_effect_units lo" "cx_effect_complete c = lo_effect_complete lo"
    "cx_management_units c = lo_management_units lo" "cx_management_complete c = lo_management_complete lo"
    "cx_agent_unit c = lo_agent_unit lo" "cx_agent_complete c = lo_agent_complete lo"
    using assms unfolding context_from_dict_def by (auto simp: bindE_Inr lists fetch Let_def)
qed

text \<open>A document without a runtime owner is accepted, when its action and its unit types are.\<close>

lemma edges_from_document: "edges_from render (map (\<lambda>e. PDict (edge_dict e)) es) =
    Inr (map (\<lambda>(s, r, t). \<lparr>ee_source = s, ee_relation = r, ee_target = t\<rparr>) es)"
  by (induction es) (auto simp: edge_dict_def edge_from_def split: prod.split)

lemma document_accepted:
  assumes "sa_of (lo_action lo) = Inr a" and "optional_text (lo_connection_unit_type lo) = Inr ct"
    and "optional_text (lo_agent_unit_type lo) = Inr ut" and "lo_runtime_owner lo = None"
  shows "\<exists>c. context_from_dict rd render (dict_set ''observation_id'' (opt_text x) (lo_as_dict lo)) = Inr c"
proof -
  let ?d = "dict_set ''observation_id'' (opt_text x) (lo_as_dict lo)"
  have d: "?d = lo_as_dict lo @ [(''observation_id'', opt_text x)]" by (simp add: dict_set_def lo_as_dict_def)
  have keys: "get_or ?d ''effect_units'' (PList []) = texts (lo_effect_units lo)"
    "get_or ?d ''management_units'' (PList []) = texts (lo_management_units lo)"
    "get_or ?d ''active_activation_sources'' (PList []) = texts (lo_active_activation_sources lo)"
    "get_or ?d ''active_upholding_sources'' (PList []) = texts (lo_active_upholding_sources lo)"
    "get_or ?d ''gaps'' (PList []) = texts (lo_gaps lo)"
    unfolding d by (simp_all add: lo_as_dict_def)
  have fetch: "get ?d ''runtime_owner'' = PNone"
    "get_or ?d ''effect_edges'' (PList []) = PList (map (\<lambda>e. PDict (edge_dict e)) (lo_effect_edges lo))"
    "get_or ?d ''action'' (PStr ''start'') = PStr (lo_action lo)"
    "get ?d ''connection_unit'' = opt_text (lo_connection_unit lo)"
    "get ?d ''connection_unit_type'' = lo_connection_unit_type lo"
    "get ?d ''agent_unit_type'' = lo_agent_unit_type lo"
    unfolding d using assms(4) by (simp_all add: lo_as_dict_def)
  show ?thesis
    unfolding context_from_dict_def
    by (simp add: fetch assms edges_from_document Let_def context_post_init_def
        texts_from_eq [OF keys(1)] texts_from_eq [OF keys(2)] texts_from_eq [OF keys(3)]
        texts_from_eq [OF keys(4)] texts_from_eq [OF keys(5)])
qed

section \<open>The verdict\<close>

text \<open>The client's answers are the agent's: each is what the handler answered these parameters somewhere.\<close>

definition agent_answers :: "'w context_env \<Rightarrow> 'a evidence_env \<Rightarrow> 'a agent_services \<Rightarrow> bool" where
  "agent_answers V E A \<longleftrightarrow> (\<forall>params w answer w'. cv_call V params w = (Inr answer, w') \<longrightarrow>
     (\<exists>u u'. systemd_observe_lifecycle_context E A params u = Some (Inr answer, u')))"

lemma lifecycle_params_request:
  assumes "lifecycle_params A (request_params rec action c providers complete) w = Inr q"
  shows "q = (oj_identity_value rec, sa_str action, wire_connection c, providers, complete)"
proof -
  let ?p = "request_params rec action c providers complete"
  have fetch: "get ?p ''target_unit_id'' = PStr (oj_identity_value rec)" "get ?p ''action'' = PStr (sa_str action)"
    "get ?p ''connection'' = PDict (wire_connection c)" "get ?p ''management_providers'' = PList (map PStr providers)"
    "get ?p ''provider_evidence_complete'' = PBool complete"
    by (simp_all add: request_params_def texts_def texts_of_def)
  have str: "require_str (PStr x) name = Inr y \<Longrightarrow> y = x" for x name y
    by (auto simp: require_str_def named_def refuse_def split: option.splits if_splits)
  have conn: "connection_param (PDict x) = Inr y \<Longrightarrow> y = x" for x y
    by (auto simp: connection_param_def bindE_Inr Let_def refuse_def split: if_splits)
  show ?thesis
    using assms unfolding lifecycle_params_def by (auto simp: bindE_Inr fetch dest!: str conn)
qed

lemma handler_answer:
  assumes "systemd_observe_lifecycle_context E A (request_params rec action c providers complete) u = Some (Inr answer, u')"
  obtains lo v where "observe_lifecycle E (oj_identity_value rec) (sa_str action) (wire_connection c) providers complete u = Some (Inr lo, v)"
    and "get answer ''context'' = PDict (lo_as_dict lo)"
proof -
  let ?run = "observe_lifecycle E (oj_identity_value rec) (sa_str action) (wire_connection c) providers complete u"
  obtain q where q: "lifecycle_params A (request_params rec action c providers complete) u = Inr q"
    using assms by (auto simp: systemd_observe_lifecycle_context_def split: sum.splits)
  obtain r v where r: "?run = Some (r, v)"
    using assms by (auto simp: systemd_observe_lifecycle_context_def q lifecycle_params_request [OF q])
  obtain lo where lo: "r = Inr lo"
    using assms
    by (cases r) (auto simp: systemd_observe_lifecycle_context_def q lifecycle_params_request [OF q] r refuse_def
        split: py_error.splits)
  show ?thesis
    by (rule that [of lo v])
      (use assms in \<open>auto simp: systemd_observe_lifecycle_context_def q lifecycle_params_request [OF q] r lo
        bindE_Inr answer_with_def\<close>)
qed

definition cleared :: "systemd_lifecycle_context \<Rightarrow> bool" where
  "cleared c \<longleftrightarrow> (case assess_lifecycle_protection c of Inr p \<Rightarrow> pa_status p = PS_Clear | Inl _ \<Rightarrow> False)"

lemma clearedD:
  assumes "cleared c"
  shows "cx_effect_complete c" and "cx_management_complete c" and "cx_agent_complete c"
    and "set (cx_effect_units c) \<inter> set (cx_management_units c) = {}"
    and "cx_agent_unit c = Some u \<Longrightarrow> u \<notin> set (cx_effect_units c)"
proof -
  obtain p where p: "assess_lifecycle_protection c = Inr p" "pa_status p = PS_Clear"
    using assms by (auto simp: cleared_def split: sum.splits)
  have "PS_Protected \<notin> {ra_status (management_unit_reason c), ra_status (agent_unit_reason c)}"
    "PS_Unknown \<notin> {ra_status (management_unit_reason c), ra_status (agent_unit_reason c)}"
    using assess_lifecycle_status(1) [OF p(1)] p(2) by (metis protection_status.distinct)+
  then have clear: "ra_status (management_unit_reason c) = PS_Clear" "ra_status (agent_unit_reason c) = PS_Clear"
    by (metis insertI1 insertI2 protection_status.exhaust)+
  show "cx_effect_complete c" "cx_management_complete c" "cx_agent_complete c"
    "set (cx_effect_units c) \<inter> set (cx_management_units c) = {}"
    "cx_agent_unit c = Some u \<Longrightarrow> u \<notin> set (cx_effect_units c)"
    using clear by (auto simp: lifecycle_reason_status opt_mem_def split: if_splits)
qed

lemma clearedI:
  assumes "cx_effect_complete c" "cx_management_complete c" "cx_agent_complete c"
    and "set (cx_effect_units c) \<inter> set (cx_management_units c) = {}"
    and "cx_agent_unit c = Some u" "u \<noteq> []" "u \<notin> set (cx_effect_units c)"
  shows "cleared c"
proof -
  obtain p where p: "assess_lifecycle_protection c = Inr p" using assess_lifecycle_total by blast
  then show ?thesis
    using assess_lifecycle_status(1) [OF p] assms
    by (simp add: cleared_def lifecycle_reason_status opt_mem_def present_def)
qed

lemma unavailable_not_cleared: "\<not> cleared (unavailable_context V rec action reason w)"
  using clearedD(1) [of "unavailable_context V rec action reason w"]
  by (cases "cleared (unavailable_context V rec action reason w)") (simp_all add: unavailable_context_def)

text \<open>A cleared context came from the agent.\<close>

lemma observe_context_answered:
  assumes "observe_context V rec action c mp w = (Inr ctx, w')" and "cleared ctx"
  obtains answer raw x w1 where "cv_call V (request_params rec action c (fst (management_providers V mp w))
        (snd (management_providers V mp w))) w = (Inr answer, w1)"
    and "get answer ''context'' = PDict raw"
    and "context_from_dict (cv_rd V) (cv_render V) (dict_set ''observation_id'' (opt_text x) raw) = Inr ctx"
proof -
  let ?ps = "fst (management_providers V mp w)" and ?pc = "snd (management_providers V mp w)"
  obtain r w1 where call: "cv_call V (request_params rec action c ?ps ?pc) w = (r, w1)" by (metis surj_pair)
  have not: "ctx \<noteq> unavailable_context V rec action reason v" for reason v
    using assms(2) unavailable_not_cleared [of V rec action reason v] by metis
  from assms(1) not obtain answer where answer: "r = Inr answer" and "usable_connection c"
    by (cases r) (auto simp: observe_context_def Let_def split_beta call split: if_splits call_exn.splits)
  with assms(1) not obtain raw where raw: "is_str (get answer ''host_id'') (oj_host_id rec)" "get answer ''context'' = PDict raw"
    by (auto simp: observe_context_def Let_def split_beta call split: if_splits pyval.splits)
  obtain z w2 where z: "ingest_target V answer raw w1 = (z, w2)" by (metis surj_pair)
  with assms(1) \<open>usable_connection c\<close> have "z = Inr ()"
    by (cases z) (auto simp: observe_context_def Let_def split_beta call answer raw)
  let ?x = "case cv_object V (oj_object_id rec) w2 of None \<Rightarrow> None
    | Some now_rec \<Rightarrow> map_option ob_observation_id (oj_observation now_rec)"
  have "context_from_dict (cv_rd V) (cv_render V) (dict_set ''observation_id'' (opt_text ?x) raw) = Inr ctx"
    using assms(1) not \<open>usable_connection c\<close> z \<open>z = Inr ()\<close>
    by (auto simp: observe_context_def Let_def split_beta call answer raw split: sum.splits if_splits)
  then show ?thesis using that call answer raw(2) by blast
qed

text \<open>
  C14. A lifecycle action the backend clears spares the operator and the agent. When the context it
  observed (through the client, the agent's handler, the walk over the manager's units and the kernel's
  account of the connection) is judged clear, then on a host whose reads answer as it is, no unit the
  action reaches is the unit the operator's connection lives in, nor (where that is no service) the unit
  whose runtime owns it, nor the unit of a provider that configures the connection's object, nor the
  agent's own unit; and the path itself was confirmed, with evidence of its providers that has no gap,
  every one of them resolved.
\<close>

theorem cleared_action_spares_the_connection:
  assumes "observe_context V rec action c mp w = (Inr ctx, w')" and "agent_answers V E A"
    and "host_reads E H" and "cleared ctx"
  shows "snd (management_providers V mp w) \<and> (\<exists>t ends. tuple_from E (wire_connection c) = Inr (t, ends) \<and>
    (\<forall>u k. affects (hv_unit H) (oj_identity_value rec, kind_of_action (sa_str action)) (u, k) \<longrightarrow> k \<noteq> K_Inspect \<longrightarrow>
       u \<notin> connection_units H t \<and> u \<noteq> agent_unit H \<and>
       (\<forall>p \<in> set (fst (management_providers V mp w)). \<exists>v. provider_unit H p = Some v \<and> u \<noteq> v)))"
proof -
  let ?ps = "fst (management_providers V mp w)" and ?pc = "snd (management_providers V mp w)"
  obtain answer raw x w1 where call: "cv_call V (request_params rec action c ?ps ?pc) w = (Inr answer, w1)"
    and raw: "get answer ''context'' = PDict raw"
    and ctx: "context_from_dict (cv_rd V) (cv_render V) (dict_set ''observation_id'' (opt_text x) raw) = Inr ctx"
    by (rule observe_context_answered [OF assms(1,4)])
  obtain u u' where "systemd_observe_lifecycle_context E A (request_params rec action c ?ps ?pc) u = Some (Inr answer, u')"
    using assms(2) call unfolding agent_answers_def by blast
  then obtain lo v where lo: "observe_lifecycle E (oj_identity_value rec) (sa_str action) (wire_connection c) ?ps ?pc u = Some (Inr lo, v)"
    and "raw = lo_as_dict lo"
    using raw by (auto elim!: handler_answer)
  note same = context_of_document [OF ctx [unfolded this(2)]]
  note clear = clearedD [OF assms(4), unfolded same]
  obtain t ends where t: "tuple_from E (wire_connection c) = Inr (t, ends)"
    and "set (lo_effect_units lo) = {u. \<exists>k. k \<noteq> K_Inspect \<and> affects (hv_unit H) (oj_identity_value rec, kind_of_action (sa_str action)) (u, k)}"
    and "connection_units H t \<subseteq> set (lo_management_units lo)"
    and "\<forall>p \<in> set ?ps. \<exists>u. provider_unit H p = Some u \<and> u \<in> set (lo_management_units lo)"
    and "lo_agent_unit lo = Some (agent_unit H)" and ?pc
    by (rule observe_lifecycle_complete [OF lo assms(3) clear(1-3)])
  with clear(4) clear(5) [OF this(5)] show ?thesis
    by (intro conjI exI [of _ t] exI [of _ ends]) (assumption | blast)+
qed

end
