(* ===== verification/Effect_Samples.thy ===== *)
theory Effect_Samples
  imports Effect_Closure
begin

text \<open>
  A manager with a web service that requires a database and conflicts with nothing: the walk over what
  starting it does, evaluated, and compared with the closure.
\<close>

definition none_of :: "string list \<Rightarrow> facts" where
  "none_of rels = map (\<lambda>r. (r, PList [])) rels"

definition every_relation :: "string list" where
  "every_relation = map fst START_JOB_RELATIONSHIPS @ STOP_JOB_RELATIONSHIPS @
     ''PropagatesStopTo'' # RELEASED_DEPENDENCIES @ CONDITIONAL_RELATIONSHIPS @ REACTIVATION_RELATIONSHIPS"

definition unit_facts :: "string \<Rightarrow> facts \<Rightarrow> facts" where
  "unit_facts u own = own @ [(''Id'', PStr u), (''LoadState'', PStr ''loaded''),
     (''ActiveState'', PStr ''inactive''), (''Job'', PList [PInt 0, PStr ''/'']),
     (''StopWhenUnneeded'', PBool False)] @ none_of every_relation"

definition web_manager :: "string \<Rightarrow> facts" where
  "web_manager u = unit_facts u (if u = ''w.service'' then [(''Requires'', PList [PStr ''d.service''])] else [])"

definition web_bus :: "unit systemd_bus" where
  "web_bus = \<lparr>sb_now = \<lambda>_. [], sb_runtime_path = None, sb_runtime_exists = \<lambda>_. True,
     sb_open = \<lambda>w. (Inr (), w), sb_close = \<lambda>w. (Inr (), w), sb_subscribe = \<lambda>w. (Inr (), w),
     sb_watch = \<lambda>w. (Inr (), w), sb_unwatch = \<lambda>w. (Inr (), w), sb_get_unit = \<lambda>u w. (Inr u, w),
     sb_properties = \<lambda>p w. (Inr (web_manager p), w),
     sb_check_owner = \<lambda>w. (Inr (), w), sb_unit_call = \<lambda>_ _ w. (Inl (Error_Reply []), w),
     sb_signals = \<lambda>w. (([], None), w), sb_repr = \<lambda>_. []\<rparr>"

definition web_env :: "unit graph_env" where
  "web_env = \<lparr>ge_bus = web_bus, ge_type_properties = \<lambda>_ _ w. (Inr [], w), ge_tick = \<lambda>w. (True, w),
     ge_manager_properties = \<lambda>w. (Inr [(''Version'', PStr ''257'')], w)\<rparr>"

text \<open>The walk by its steps: only the web service names a unit, its database, and only once.\<close>

lemma web_relations:
  "rel \<in> set every_relation \<Longrightarrow>
     get (web_manager u) rel = (if u = ''w.service'' \<and> rel = ''Requires'' then PList [PStr ''d.service''] else PList [])"
  by (auto simp: every_relation_def web_manager_def unit_facts_def none_of_def START_JOB_RELATIONSHIPS_def
      STOP_JOB_RELATIONSHIPS_def RELEASED_DEPENDENCIES_def CONDITIONAL_RELATIONSHIPS_def
      REACTIVATION_RELATIONSHIPS_def)

lemma web_facts:
  "get (web_manager u) ''Id'' = PStr u" "get (web_manager u) ''LoadState'' = PStr ''loaded''"
  "reactivation_source_evidence (web_manager u) = Inr (False, [])"
  by (simp_all add: web_manager_def unit_facts_def reactivation_source_evidence_def is_str_def
      reactivation_job_state_def REACTIVATION_STABLE_NEGATIVE_STATES_def named_def)

lemma web_remaining [simp]: "remaining web_env s w = (None, s, w)"
  by (simp add: remaining_def web_env_def)

lemma nothing_listed:
  assumes "\<forall>rb \<in> set rbs. get d (fst rb) = PList []"
  shows "for_each (each_reference G d c) rbs s w = (None, s, w)"
  using assms by (induction rbs) (auto simp: and_then_def each_reference_def)

lemma web_work:
  "\<exists>rest. work_relations L K_Start depth ''w.service'' = (''Requires'', start_reference L ''w.service'' depth ''Requires'' K_Start) # rest \<and>
     (\<forall>rb \<in> set rest. fst rb \<in> set every_relation \<and> fst rb \<noteq> ''Requires'')"
  "\<forall>rb \<in> set (work_relations L K_Start depth c). fst rb \<in> set every_relation"
  by (auto simp: work_relations_def every_relation_def START_JOB_RELATIONSHIPS_def
      CONDITIONAL_RELATIONSHIPS_def REACTIVATION_RELATIONSHIPS_def)

definition big_enough :: "graph_limits \<Rightarrow> bool" where
  "big_enough L \<longleftrightarrow> gl_nodes L > 1 \<and> gl_depth L > 0 \<and> gl_edges L > 0"

lemma web_bus_reads [simp]:
  "sb_get_unit (ge_bus web_env) u w = (Inr u, w)" "sb_properties (ge_bus web_env) p w = (Inr (web_manager p), w)"
  "ge_tick web_env w = (True, w)" "ge_type_properties web_env p t w = (Inr [], w)"
  by (simp_all add: web_env_def web_bus_def)

lemma web_read:
  assumes "u \<notin> wk_attempted s" and "wk_nodes s u = None" and "is_unit_name u"
  shows "attempt_read web_env ''w.service'' ''w.service'' u s w =
    (None, s\<lparr>wk_attempted := insert u (wk_attempted s), wk_aliases := (wk_aliases s)(u \<mapsto> u),
       wk_nodes := (wk_nodes s)(u \<mapsto> web_manager u)\<rparr>, w)"
  using assms by (cases "u = ''w.service''") (auto simp: attempt_read_def read_properties_def Let_def web_facts)

lemma web_names: "is_unit_name ''w.service''" "is_unit_name ''d.service''"
  by (simp_all add: is_unit_name_def newline_def)

lemma web_visit:
  "visit_unit web_env L ''start'' c K_Start depth (web_manager c) s w =
     for_each (each_reference web_env (web_manager c) c) (work_relations L K_Start depth c) (entered c K_Start s) w"
  by (simp add: visit_unit_def Let_def web_facts enter_unit_def entered_def is_str_def gaps_from_def
      check_unneeded_def)

lemma web_visit_database:
  "visit_unit web_env L ''start'' ''d.service'' K_Start depth (web_manager ''d.service'') s w =
     (None, entered ''d.service'' K_Start s, w)"
  using web_work(2) [of L depth "''d.service''"]
  by (simp add: web_visit nothing_listed web_relations)

lemma web_visit_web:
  assumes "wk_budget s \<noteq> 0"
  shows "visit_unit web_env L ''start'' ''w.service'' K_Start depth (web_manager ''w.service'') s w =
     (None, follow L ''w.service'' ''Requires'' K_Start depth ''d.service''
        ((entered ''w.service'' K_Start s)\<lparr>wk_budget := wk_budget s - 1\<rparr>), w)"
proof -
  obtain rest where rest: "work_relations L K_Start depth ''w.service'' =
      (''Requires'', start_reference L ''w.service'' depth ''Requires'' K_Start) # rest"
    "\<forall>rb \<in> set rest. fst rb \<in> set every_relation \<and> fst rb \<noteq> ''Requires''"
    using web_work(1) [of L depth] by blast
  have first: "get (web_manager ''w.service'') ''Requires'' = PList [PStr ''d.service'']"
    by (simp add: web_relations every_relation_def START_JOB_RELATIONSHIPS_def)
  have quiet: "\<forall>rb \<in> set rest. get (web_manager ''w.service'') (fst rb) = PList []"
    using rest(2) by (simp add: web_relations)
  show ?thesis
    using assms
    by (simp add: web_visit rest(1) nothing_listed [OF quiet] and_then_def each_reference_def first web_names
        start_reference_def entered_def Let_def)
qed

definition web_walk :: "graph_limits \<Rightarrow> walk" where
  "web_walk L = \<lparr>wk_pending = [],
     wk_queued = {(''d.service'', K_Start), (''w.service'', K_Start)},
     wk_visited = {(''d.service'', K_Start), (''w.service'', K_Start)},
     wk_names = {''d.service'', ''w.service''},
     wk_aliases = [''w.service'' \<mapsto> ''w.service'', ''d.service'' \<mapsto> ''d.service''],
     wk_attempted = {''d.service'', ''w.service''},
     wk_nodes = [''w.service'' \<mapsto> web_manager ''w.service'', ''d.service'' \<mapsto> web_manager ''d.service''],
     wk_units = {''d.service'', ''w.service''}, wk_edges = [(''w.service'', ''Requires'', ''d.service'')],
     wk_reactivation = {}, wk_gaps = {}, wk_budget = gl_edges L * 7 - 1, wk_final = {}, wk_active = {},
     wk_upholding = {}\<rparr>"

lemma web_walked:
  assumes "big_enough L"
  shows "walk_loop web_env L ''start'' ''w.service'' ''w.service'' (first_walk L ''w.service'' ''start'') w =
    Some (None, web_walk L, w)"
  using assms
  by (simp add: walk_loop_def while_option_unfold walk_round_def and_then_def first_walk_def no_walk_def
      web_read web_names web_visit_web web_visit_database entered_def follow_def enqueue_def big_enough_def
      web_walk_def Let_def insert_commute)

lemma web_settled:
  "settle_edges web_env ''w.service'' (web_walk L) w =
     (None, (web_walk L)\<lparr>wk_final := {(''w.service'', ''Requires'', ''d.service'')}\<rparr>, w)"
  by (simp add: settle_edges_def settle_edge_def and_then_def web_walk_def Let_def)

lemma web_target:
  "\<exists>tg. ge_observe web_env ''w.service'' ''w.service'' w = (Inr tg, w) \<and> uo_canonical_id tg = ''w.service''"
  by (simp add: ge_observe_def observe_path_def web_facts named_def Let_def unit_type_of_def endswith_def
      SUPPORTED_UNIT_SUFFIXES_def TYPE_INTERFACES_def split: prod.split)

lemma web_graph:
  assumes "big_enough (limits_of n d e)"
  shows "\<exists>g. observe_effect_graph web_env n d e ''w.service'' ''start'' () = Some (Inr g, ()) \<and> eg_complete g \<and>
    eg_units g = [''d.service'', ''w.service''] \<and> eg_gaps g = []"
proof -
  let ?L = "limits_of n d e"
  obtain tg where tg: "ge_observe web_env ''w.service'' ''w.service'' () = (Inr tg, ())" "uo_canonical_id tg = ''w.service''"
    using web_target by blast
  have walk: "read_walk web_env ?L ''w.service'' ''start'' v tg ''w.service'' () =
      Some (Walked v tg ((web_walk ?L)\<lparr>wk_final := {(''w.service'', ''Requires'', ''d.service'')}\<rparr>), ())" for v
    using web_walked [OF assms, of "()"] by (simp add: read_walk_def web_settled)
  have name: "validate_unit_name ''w.service'' = Inr ()" "endswith ''w.service'' ''.service''"
    by (simp_all add: validate_unit_name_def web_names endswith_def SUPPORTED_UNIT_SUFFIXES_def)
  have bus: "sb_open (ge_bus web_env) () = (Inr (), ())" "sb_close (ge_bus web_env) () = (Inr (), ())"
    "environment_unavailable (ge_bus web_env) () = None"
    "ge_manager_properties web_env () = (Inr [(''Version'', PStr ''257'')], ())"
    by (simp_all add: web_env_def web_bus_def environment_unavailable_def)
  have read: "\<exists>v. read_graph web_env ?L noted ''w.service'' ''start'' () =
      Some (Walked v tg ((web_walk ?L)\<lparr>wk_final := {(''w.service'', ''Requires'', ''d.service'')}\<rparr>), ())" for noted
    by (simp add: read_graph_def Let_def bus tg walk)
  have "sorted_list_of_set {''d.service'', ''w.service''} = [''d.service'', ''w.service'']"
    by (simp add: sorted_list_of_set_insert_remove)
  then show ?thesis
    using read [of "sb_now (ge_bus web_env) ()"]
    by (auto simp: observe_effect_graph_def Let_def name bus LIFECYCLE_ACTIONS_def finished_graph_def graph_of_def
        eg_complete_def web_walk_def)
qed

lemma web_reads: "manager_reads web_env id web_manager"
  by (simp add: manager_reads_def)

theorem complete_effect_graph_is_the_closure_witness:
  "{u. \<exists>k. k \<noteq> K_Inspect \<and> affects web_manager (''w.service'', K_Start) (u, k)} = {''d.service'', ''w.service''} \<and>
   (\<exists>g. observe_effect_graph web_env 128 12 2048 ''w.service'' ''start'' () = Some (Inr g, ()) \<and>
      set (eg_edges g) = {e. \<exists>p. affects web_manager (''w.service'', K_Start) p \<and> edge_of web_manager p e})"
proof -
  have "big_enough (limits_of 128 12 2048)"
    by (simp add: big_enough_def limits_of_def EFFECT_GRAPH_MAX_NODES_def EFFECT_GRAPH_MAX_DEPTH_def
        EFFECT_GRAPH_MAX_EDGES_def)
  then obtain g where run: "observe_effect_graph web_env 128 12 2048 ''w.service'' ''start'' () = Some (Inr g, ())"
    and "eg_complete g" and units: "eg_units g = [''d.service'', ''w.service'']"
    using web_graph by blast
  from complete_effect_graph_is_the_closure [OF run this(2) web_reads] run units show ?thesis
    by simp
qed

end
