(* ===== verification/Clearance_Samples.thy ===== *)
theory Clearance_Samples
  imports Lifecycle_Clearance Effect_Samples
begin

text \<open>
  A host where the web service of \<open>Effect_Samples\<close> may be started: the operator's connection lives in
  the backend's own service, the network manager configures its interface, and the agent has a unit.
\<close>

definition web_evidence :: "unit evidence_env" where
  "web_evidence = \<lparr>ev_graph = web_env,
     ev_unit_by_cgroup = \<lambda>g w. (Inr (if g = ''/a'' then ''a.service'' else ''c.service''), w),
     ev_name_owner_pid = \<lambda>n w. (Inr ('':1'', 5), w), ev_unit_by_pid = \<lambda>p w. (Inr ''n.service'', w),
     ev_proc_cgroup = \<lambda>w. Inr ''0::/a'', ev_proc_path = ''/proc/self/cgroup'', ev_netns_inode = \<lambda>w. Some 4,
     ev_socket_lookup = \<lambda>t w. (\<lparr>sd_status = ''matched'', sd_reason = [],
        sd_match = Some \<lparr>sm_cgroup_id = 7, sm_socket_inode = 8, sm_uid = 0\<rparr>, sd_match_count = 1,
        sd_inspected_count = 1, sd_detail = []\<rparr>, w),
     ev_cgroup_path = \<lambda>i w. \<lparr>cg_status = ''resolved'', cg_reason = [], cg_path = Some ''/c'',
        cg_inspected_count = 1, cg_detail = []\<rparr>,
     ev_runtime_owner = None,
     ev_int = \<lambda>v. case v of PInt i \<Rightarrow> Inr i | _ \<Rightarrow> Inl (TypeError [])\<rparr>"

definition web_host :: host_view where
  "web_host = \<lparr>hv_path = id, hv_unit = web_manager,
     hv_cgroup_unit = \<lambda>g. if g = ''/a'' then ''a.service'' else ''c.service'',
     hv_name_unit = \<lambda>_. ''n.service'', hv_agent_cgroup = ''/a'', hv_connection_cgroup = \<lambda>_. ''/c'',
     hv_runtime_owner = \<lambda>_. []\<rparr>"

definition web_agent :: "unit agent_services" where
  "web_agent = \<lparr>as_instance_id = ''i'',
     as_capabilities = \<lambda>_. [\<lparr>dc_capability = CAPABILITY_LIFECYCLE_CONTEXT, dc_status = CS_Available,
        dc_reason = None, dc_detail = []\<rparr>],
     as_identity = \<lambda>_. Inr ''h'', as_set_interface_mtu = \<lambda>_ w. (Inr [], w),
     as_guard_arm = \<lambda>_ w. (Inl (Guard_Refusal [] []), w), as_guard_disarm = \<lambda>_ w. ([], w),
     as_guard_status = \<lambda>_ _. [], as_docker_lifecycle = \<lambda>_ _ w. (Inr [], w),
     as_systemd_lifecycle = \<lambda>_ _ w. (Inr [], w), as_manager_version = \<lambda>_. PNone,
     as_unit_name = \<lambda>_. Inr (), as_read = \<lambda>_ _ w. (Inr [], w)\<rparr>"

definition web_record :: object_record where
  "web_record = \<lparr>oj_object_id = ''o1'', oj_host_id = ''h'', oj_kind = ''systemd_unit'',
     oj_identity_basis = [], oj_identity_value = ''w.service'', oj_identity_confidence = [],
     oj_display_name = [], oj_management_state = [], oj_management_reason = [], oj_active_intent_id = None,
     oj_first_seen_at = [], oj_last_seen_at = [], oj_observation = None\<rparr>"

definition nm_provenance :: provenance where
  "nm_provenance = \<lparr>pv_state = OS_Attributed, pv_reason = [],
     pv_claims = [\<lparr>oc_relation = Configured_By,
       oc_owner = \<lparr>oi_provider = PROVIDER_NETWORKMANAGER, oi_instance = PNone, oi_label = PNone, oi_version = None\<rparr>,
       oc_confidence = OC_Confirmed, oc_reason = [], oc_evidence = []\<rparr>],
     pv_sources = []\<rparr>"

definition web_context :: "unit context_env" where
  "web_context = \<lparr>cv_call = \<lambda>p w. (case systemd_observe_lifecycle_context web_evidence web_agent p w of
        Some (Inr answer, w') \<Rightarrow> (Inr answer, w') | _ \<Rightarrow> (Inl (Call_Raised (ValueError [])), w)),
     cv_object = \<lambda>i w. Some web_record, cv_provenance = \<lambda>r w. nm_provenance,
     cv_ingest = \<lambda>d w. (Inr (), w), cv_now = \<lambda>w. [], cv_rd = \<lambda>_. None, cv_render = \<lambda>_. []\<rparr>"

definition web_connection :: request_connection where
  "web_connection = request_connection_from_scope
     [(''client'', PList [PStr ''192.168.1.20'', PInt 4000]), (''server'', PList [PStr ''192.168.1.5'', PInt 443])] (Some 4)"

definition web_path :: management_path_verdict where
  "web_path = \<lparr>mpv_resource_id = Some ''o2'', mpv_reason = [], mpv_evidence_id = None,
     mpv_observed_at = None, mpv_missing_evidence = []\<rparr>"

text \<open>The reads, one by one: each answers the host as it is.\<close>

lemma web_any:
  assumes "unit_type_of p = Some ''service''" and "p \<noteq> []"
  shows "\<exists>u. observe_any web_evidence p w = (Inr u, w) \<and> uo_canonical_id u = p \<and>
    get (uo_facts u) ''unit_type'' = PStr ''service''"
proof -
  have "\<exists>u. observe_any web_evidence p w = (Inr u, w) \<and> uo_canonical_id u = p"
    using assms
    by (cases p) (simp_all add: observe_any_def observe_path_def web_evidence_def web_facts named_def Let_def
        TYPE_INTERFACES_def split: prod.split)
  then obtain u where u: "observe_any web_evidence p w = (Inr u, w)" "uo_canonical_id u = p" by blast
  then have "is_str (get (uo_facts u) ''unit_type'') ''service''"
    using observe_path_type assms(1) unfolding observe_any_def by metis
  then show ?thesis using u by (auto simp: is_str_def split: pyval.splits)
qed

lemma web_names_type:
  "unit_type_of ''a.service'' = Some ''service''" "unit_type_of ''c.service'' = Some ''service''"
  "unit_type_of ''n.service'' = Some ''service''"
  by (simp_all add: unit_type_of_def endswith_def SUPPORTED_UNIT_SUFFIXES_def)

lemma web_bus_opens [simp]:
  "ev_graph web_evidence = web_env" "sb_open (ge_bus web_env) w = (Inr (), w)"
  "sb_close (ge_bus web_env) w = (Inr (), w)" "environment_unavailable (ge_bus web_env) w = None"
  by (simp_all add: web_evidence_def web_env_def web_bus_def environment_unavailable_def)

lemma web_cgroup_unit:
  "\<exists>u. unit_of_cgroup web_evidence g w = (Inr u, w) \<and> uo_canonical_id u = hv_cgroup_unit web_host g \<and>
    get (uo_facts u) ''unit_type'' = PStr ''service''"
proof -
  let ?p = "if g = ''/a'' then ''a.service'' else ''c.service''"
  have "ev_unit_by_cgroup web_evidence g w = (Inr ?p, w)" by (simp add: web_evidence_def)
  moreover obtain u where "observe_any web_evidence ?p w = (Inr u, w)" "uo_canonical_id u = ?p"
      "get (uo_facts u) ''unit_type'' = PStr ''service''"
    using web_any [of ?p w] web_names_type by (cases "g = ''/a''") auto
  ultimately show ?thesis by (simp add: unit_of_cgroup_def connected_def web_host_def)
qed

lemma web_name_unit:
  "\<exists>u. unit_of_name web_evidence b w = (Inr (('':1'', 5), u), w) \<and> uo_canonical_id u = ''n.service''"
proof -
  have "ev_unit_by_pid web_evidence i w = (Inr ''n.service'', w)" "ev_name_owner_pid web_evidence b w = (Inr ('':1'', 5), w)" for i
    by (simp_all add: web_evidence_def)
  then show ?thesis
    using web_any [OF web_names_type(3), of w] by (auto simp: unit_of_name_def connected_def)
qed

lemma web_cgroup_file: "ev_proc_cgroup web_evidence w = Inr ''0::/a''" "read_systemd_cgroup ''0::/a'' = Some ''/a''"
  by (simp add: web_evidence_def) code_simp

lemma web_self:
  "\<exists>r. resolve_current_process_unit web_evidence w = (r, w) \<and> ur_status r = ''resolved'' \<and>
    ur_canonical_id r = Some ''a.service'' \<and> (\<exists>u. ur_unit r = Some u \<and> get (uo_facts u) ''unit_type'' = PStr ''service'')"
  using web_cgroup_unit [of "''/a''" w]
  by (auto simp: resolve_current_process_unit_def web_cgroup_file cgroup_resolution_def resolved_unit_def web_host_def Let_def)

lemma web_provider:
  "\<exists>r. resolve_provider_unit web_evidence PROVIDER_NETWORKMANAGER w = (r, w) \<and> ur_status r = ''resolved'' \<and>
    ur_canonical_id r = Some ''n.service''"
  using web_name_unit [of "''org.freedesktop.NetworkManager''" w]
  by (auto simp: resolve_provider_unit_def PROVIDER_NETWORKMANAGER_def PROVIDER_DBUS_NAMES_def resolved_unit_def Let_def)

lemma web_resolved:
  "\<exists>r. resolve_control_group_unit web_evidence ''/c'' w = (r, w) \<and> ur_status r = ''resolved'' \<and>
    ur_canonical_id r = Some ''c.service'' \<and> (\<exists>u. ur_unit r = Some u \<and> get (uo_facts u) ''unit_type'' = PStr ''service'')"
  using web_cgroup_unit [of "''/c''" w]
  by (auto simp: resolve_control_group_unit_def cgroup_resolution_def resolved_unit_def web_host_def Let_def)

text \<open>The connection of the request, as the agent reads it back.\<close>

lemma web_hosts:
  "ip_address ''192.168.1.20'' = Some (IPv4 3232235796)" "ip_address ''192.168.1.5'' = Some (IPv4 3232235781)"
  "first_split CHR ''%'' ''192.168.1.20'' = None" "first_split CHR ''%'' ''192.168.1.5'' = None"
  by (simp_all add: ip_address_def sample_quads)

lemma web_wire: "wire_connection web_connection =
    [(''family'', PStr ''ipv4''), (''peer_ip'', PStr ''192.168.1.20''), (''peer_port'', PInt 4000),
     (''local_ip'', PStr ''192.168.1.5''), (''local_port'', PInt 443), (''backend_netns_inode'', PInt 4)]"
  by (simp add: wire_connection_def web_connection_def request_connection_from_scope_def tcp_endpoint_def Let_def
      web_hosts opt_int_def ipv4_mapped_def sample_texts del: address_text.simps)

definition web_tuple :: socket_tuple where
  "web_tuple = \<lparr>st_family = ''ipv4'', st_peer_ip = ''192.168.1.20'', st_peer_port = 4000,
     st_local_ip = ''192.168.1.5'', st_local_port = 443\<rparr>"

lemma web_tuple_read:
  "\<exists>peer local. tuple_from web_evidence (wire_connection web_connection) = Inr (web_tuple, peer, local) \<and>
     \<not> is_loopback peer \<and> \<not> is_loopback local"
proof -
  have "(case validate_tuple web_tuple of Inr (peer, local) \<Rightarrow> \<not> is_loopback peer \<and> \<not> is_loopback local | _ \<Rightarrow> False)"
    by (simp add: validate_tuple_def web_tuple_def web_hosts)
  moreover have "ev_int web_evidence (PInt i) = Inr i" for i by (simp add: web_evidence_def)
  ultimately show ?thesis
    by (auto simp: tuple_from_def web_wire getitem_def bindE_Inr web_tuple_def Let_def split: sum.splits prod.splits)
qed

lemma web_socket:
  "\<exists>x. socket_context web_evidence (wire_connection web_connection) () = (Inr x, ()) \<and> sx_gaps x = [] \<and>
     sx_unit x = Some ''c.service'' \<and> sx_type x = PStr ''service''"
proof -
  obtain d m where d: "ev_socket_lookup web_evidence web_tuple () = (d, ())" "sd_status d = ''matched''" "sd_match d = Some m"
    by (simp add: web_evidence_def)
  have g: "cg_status (ev_cgroup_path web_evidence i ()) = ''resolved''"
    "cg_path (ev_cgroup_path web_evidence i ()) = Some ''/c''" for i by (simp_all add: web_evidence_def)
  obtain peer local where t: "tuple_from web_evidence (wire_connection web_connection) = Inr (web_tuple, peer, local)"
    "\<not> is_loopback peer" "\<not> is_loopback local" using web_tuple_read by blast
  obtain r u where r: "resolve_control_group_unit web_evidence ''/c'' () = (r, ())" "ur_status r = ''resolved''"
    "ur_canonical_id r = Some ''c.service''" "ur_unit r = Some u" "get (uo_facts u) ''unit_type'' = PStr ''service''"
    using web_resolved [of "()"] by blast
  show ?thesis
    by (simp add: socket_context_def matched_context_def named_def is_str_def Let_def d g t r)
qed

lemma web_namespace:
  "\<exists>m. namespace_evidence web_evidence (wire_connection web_connection) (first_evidence g) () = (Inr m, ()) \<and>
     me_complete m \<and> me_units m = {''c.service''} \<and> me_type m = PStr ''service'' \<and> me_owner m = None"
proof -
  have "ev_netns_inode web_evidence () = Some 4" by (simp add: web_evidence_def)
  moreover have "get (wire_connection web_connection) ''backend_netns_inode'' = PInt 4" by (simp add: web_wire)
  ultimately show ?thesis
    using web_socket
    by (auto simp: namespace_evidence_def connection_evidence_def first_evidence_def is_str_def Let_def)
qed

lemma web_providers:
  assumes "me_complete m"
  shows "\<exists>m'. provider_units web_evidence [PROVIDER_NETWORKMANAGER] m w = (m', w) \<and> me_complete m' \<and>
     me_units m' = insert ''n.service'' (me_units m) \<and> me_type m' = me_type m \<and> me_owner m' = me_owner m"
  using web_provider [of w] assms
  by (auto simp: MANAGEMENT_PROVIDERS_def PROVIDER_NETWORKMANAGER_def named_def Let_def)

lemma web_limits: "big_enough (limits_of EFFECT_GRAPH_MAX_NODES EFFECT_GRAPH_MAX_DEPTH EFFECT_GRAPH_MAX_EDGES)"
  by (simp add: big_enough_def limits_of_def EFFECT_GRAPH_MAX_NODES_def EFFECT_GRAPH_MAX_DEPTH_def
      EFFECT_GRAPH_MAX_EDGES_def)

lemma web_observation:
  "\<exists>lo. observe_lifecycle web_evidence ''w.service'' ''start'' (wire_connection web_connection)
        [PROVIDER_NETWORKMANAGER] True () = Some (Inr lo, ()) \<and>
     lo_action lo = ''start'' \<and> lo_effect_complete lo \<and> lo_management_complete lo \<and> lo_agent_complete lo \<and>
     lo_effect_units lo = [''d.service'', ''w.service''] \<and> set (lo_management_units lo) = {''c.service'', ''n.service''} \<and>
     lo_agent_unit lo = Some ''a.service'' \<and> lo_connection_unit_type lo = PStr ''service'' \<and>
     lo_agent_unit_type lo = PStr ''service'' \<and> lo_runtime_owner lo = None"
proof -
  obtain g where g: "observe_effect_graph web_env EFFECT_GRAPH_MAX_NODES EFFECT_GRAPH_MAX_DEPTH EFFECT_GRAPH_MAX_EDGES
      ''w.service'' ''start'' () = Some (Inr g, ())" "eg_complete g" "eg_units g = [''d.service'', ''w.service'']"
    using web_graph [OF web_limits] by blast
  obtain m where m: "namespace_evidence web_evidence (wire_connection web_connection) (first_evidence g) () = (Inr m, ())"
    "me_complete m" "me_units m = {''c.service''}" "me_type m = PStr ''service''" "me_owner m = None"
    using web_namespace [of g] by blast
  obtain m' where m': "provider_units web_evidence [PROVIDER_NETWORKMANAGER] m () = (m', ())" "me_complete m'"
    "me_units m' = insert ''n.service'' (me_units m)" "me_type m' = me_type m" "me_owner m' = me_owner m"
    using web_providers [OF m(2), of "()"] by blast
  obtain r u where r: "resolve_current_process_unit web_evidence () = (r, ())" "ur_status r = ''resolved''"
    "ur_canonical_id r = Some ''a.service''" "ur_unit r = Some u" "get (uo_facts u) ''unit_type'' = PStr ''service''"
    using web_self [of "()"] by blast
  show ?thesis
    using g m m' r by (auto simp: observe_lifecycle_def composed_def named_def Let_def)
qed

text \<open>The handler's answer to the request, and the context the backend reads from it.\<close>

lemma web_management: "management_providers web_context web_path w = ([PROVIDER_NETWORKMANAGER], True)"
  by (simp add: management_providers_def web_context_def web_path_def nm_provenance_def claims_for_def
      external_def gaps_def sorted_set_def provider_defs Let_def)

lemma web_params:
  "lifecycle_params web_agent (request_params web_record SA_Start web_connection [PROVIDER_NETWORKMANAGER] True) () =
     Inr (''w.service'', ''start'', wire_connection web_connection, [PROVIDER_NETWORKMANAGER], True)"
  unfolding request_params_def web_wire by code_simp

lemma web_answer:
  "\<exists>lo answer. cv_call web_context (request_params web_record SA_Start web_connection [PROVIDER_NETWORKMANAGER] True) () =
       (Inr answer, ()) \<and>
     get answer ''context'' = PDict (lo_as_dict lo) \<and> get answer ''host_id'' = PStr ''h'' \<and>
     lo_action lo = ''start'' \<and> lo_effect_complete lo \<and> lo_management_complete lo \<and> lo_agent_complete lo \<and>
     lo_effect_units lo = [''d.service'', ''w.service''] \<and> set (lo_management_units lo) = {''c.service'', ''n.service''} \<and>
     lo_agent_unit lo = Some ''a.service'' \<and> lo_connection_unit_type lo = PStr ''service'' \<and>
     lo_agent_unit_type lo = PStr ''service'' \<and> lo_runtime_owner lo = None"
proof -
  obtain lo where "observe_lifecycle web_evidence ''w.service'' ''start'' (wire_connection web_connection)
        [PROVIDER_NETWORKMANAGER] True () = Some (Inr lo, ())"
    and rest: "lo_action lo = ''start''" "lo_effect_complete lo" "lo_management_complete lo" "lo_agent_complete lo"
     "lo_effect_units lo = [''d.service'', ''w.service'']" "set (lo_management_units lo) = {''c.service'', ''n.service''}"
     "lo_agent_unit lo = Some ''a.service''" "lo_connection_unit_type lo = PStr ''service''"
     "lo_agent_unit_type lo = PStr ''service''" "lo_runtime_owner lo = None"
    using web_observation by blast
  moreover have "as_identity web_agent () = Inr ''h''" by (simp add: web_agent_def)
  ultimately have "systemd_observe_lifecycle_context web_evidence web_agent
      (request_params web_record SA_Start web_connection [PROVIDER_NETWORKMANAGER] True) () =
      Some (Inr (answer_with web_agent ''h'' ''context'' (lo_as_dict lo)), ())"
    by (simp add: systemd_observe_lifecycle_context_def web_params)
  then have "cv_call web_context (request_params web_record SA_Start web_connection [PROVIDER_NETWORKMANAGER] True) () =
      (Inr (answer_with web_agent ''h'' ''context'' (lo_as_dict lo)), ())"
    by (simp add: web_context_def)
  with rest show ?thesis by (intro exI conjI) (assumption | simp add: answer_with_def)+
qed

lemma web_cleared:
  "\<exists>ctx. observe_context web_context web_record SA_Start web_connection web_path () = (Inr ctx, ()) \<and> cleared ctx"
proof -
  obtain lo answer where call: "cv_call web_context (request_params web_record SA_Start web_connection
        [PROVIDER_NETWORKMANAGER] True) () = (Inr answer, ())"
    and answer: "get answer ''context'' = PDict (lo_as_dict lo)" "get answer ''host_id'' = PStr ''h''"
    and lo: "lo_action lo = ''start''" "lo_effect_complete lo" "lo_management_complete lo" "lo_agent_complete lo"
     "lo_effect_units lo = [''d.service'', ''w.service'']" "set (lo_management_units lo) = {''c.service'', ''n.service''}"
     "lo_agent_unit lo = Some ''a.service''" "lo_connection_unit_type lo = PStr ''service''"
     "lo_agent_unit_type lo = PStr ''service''" "lo_runtime_owner lo = None"
    using web_answer by blast
  have "get_or (lo_as_dict lo) ''evidence'' (PDict []) = PDict (lo_evidence lo)"
    by (simp add: lo_as_dict_def)
  moreover have "cv_ingest web_context d () = (Inr (), ())" for d by (simp add: web_context_def)
  ultimately have ingest: "ingest_target web_context answer (lo_as_dict lo) () = (Inr (), ())"
    by (simp add: ingest_target_def split: pyval.split)
  have usable: "usable_connection web_connection"
    by (simp add: usable_connection_def web_connection_def request_connection_from_scope_def tcp_endpoint_def Let_def
      web_hosts ipv4_mapped_def del: address_text.simps)
  let ?x = "case cv_object web_context (oj_object_id web_record) () of None \<Rightarrow> None
    | Some now_rec \<Rightarrow> map_option ob_observation_id (oj_observation now_rec)"
  have doc: "sa_of (lo_action lo) = Inr SA_Start" "optional_text (lo_connection_unit_type lo) = Inr (Some ''service'')"
    "optional_text (lo_agent_unit_type lo) = Inr (Some ''service'')"
    by (simp_all add: sa_of_def optional_text_def lo)
  obtain ctx where ctx: "context_from_dict (cv_rd web_context) (cv_render web_context)
      (dict_set ''observation_id'' (opt_text ?x) (lo_as_dict lo)) = Inr ctx"
    using document_accepted [OF doc lo(10), of "cv_rd web_context" "cv_render web_context" ?x] by (elim exE)
  note same = context_of_document [OF ctx]
  have "cleared ctx"
    by (rule clearedI [of _ "''a.service''"]) (use same lo in auto)
  moreover have "oj_host_id web_record = ''h''" by (simp add: web_record_def)
  ultimately show ?thesis
    by (intro exI [of _ ctx])
      (simp add: observe_context_def Let_def web_management usable call answer is_str_def ctx ingest)
qed

lemma web_host_reads: "host_reads web_evidence web_host"
  unfolding host_reads_def
proof (intro conjI)
  show "manager_reads (ev_graph web_evidence) (hv_path web_host) (hv_unit web_host)"
    using web_reads by (simp add: web_host_def)
  show "\<forall>g w u w'. unit_of_cgroup web_evidence g w = (Inr u, w') \<longrightarrow> uo_canonical_id u = hv_cgroup_unit web_host g"
    using web_cgroup_unit by (metis Pair_inject sum.inject(2))
  show "\<forall>n w x u w'. unit_of_name web_evidence n w = (Inr (x, u), w') \<longrightarrow> uo_canonical_id u = hv_name_unit web_host n"
  proof (intro allI impI)
    fix n w x u w' assume "unit_of_name web_evidence n w = (Inr (x, u), w')"
    with web_name_unit [of n w] show "uo_canonical_id u = hv_name_unit web_host n"
      by (elim exE conjE) (simp add: web_host_def)
  qed
qed (auto simp: web_evidence_def web_host_def web_cgroup_file)

lemma web_agent_answers: "agent_answers web_context web_evidence web_agent"
  by (auto simp: agent_answers_def web_context_def split: option.splits sum.splits)

theorem cleared_action_spares_the_connection_witness:
  "\<exists>t. st_peer_port t = 4000 \<and>
     (\<forall>u k. affects web_manager (''w.service'', K_Start) (u, k) \<longrightarrow> k \<noteq> K_Inspect \<longrightarrow>
        u \<notin> connection_units web_host t \<and> u \<noteq> ''a.service'' \<and> u \<noteq> ''n.service'') \<and>
     connection_units web_host t = {''c.service''}"
proof -
  obtain ctx where run: "observe_context web_context web_record SA_Start web_connection web_path () = (Inr ctx, ())"
    and ok: "cleared ctx" using web_cleared by blast
  obtain ends where t: "tuple_from web_evidence (wire_connection web_connection) = Inr (web_tuple, ends)"
    using web_tuple_read by blast
  have host: "agent_unit web_host = ''a.service''" "hv_unit web_host = web_manager"
    "provider_unit web_host PROVIDER_NETWORKMANAGER = Some ''n.service''" "oj_identity_value web_record = ''w.service''"
    by (simp_all add: agent_unit_def web_host_def provider_unit_def PROVIDER_DBUS_NAMES_def PROVIDER_NETWORKMANAGER_def
        web_record_def)
  have "connection_units web_host web_tuple = {''c.service''}"
    using web_names_type by (simp add: connection_units_def web_host_def Let_def)
  moreover have "st_peer_port web_tuple = 4000" by (simp add: web_tuple_def)
  ultimately show ?thesis
    using cleared_action_spares_the_connection [OF run web_agent_answers web_host_reads ok] t
    by (intro exI [of _ web_tuple]) (simp add: host web_management)
qed

end
