(* ===== verification/Authentication.thy ===== *)
theory Authentication
  imports Management_Path Unit_Reading "HOL-Library.AList"
begin

text \<open>
  Who is let in: \<open>src/localplane/backend/auth.py\<close> and the session routes of
  \<open>src/localplane/backend/api/routes.py\<close>. A request carries the master secret as a Bearer
  credential, or the cookie of a browser session; a session is known by the digest of its token and
  expires at a fixed time. The digest, the random tokens and the clock are parameters; what the HTTP
  library makes of a request is a record. Lower-casing is that of ASCII.

  The files of the master secret (\<open>load_master_secret\<close>, \<open>initialize_master_secret\<close>) are input and
  output and are not modelled; the secret is a text here, and that it encodes 32 bytes, which the
  constructor checks, is not used.
\<close>

section \<open>The session store\<close>

definition SESSION_LIFETIME :: int where "SESSION_LIFETIME = 12 * 60 * 60 * 1000000"

text \<open>Digests with the instant each expires, in microseconds, in the order of the dictionary.\<close>

type_synonym session_store = "(string \<times> int) list"

datatype auth_exn = Http_Refused nat string | Auth_Runtime string | Auth_Type_Error

text \<open>The clock of the store: an instant, or a reading without a time zone, which is an error.\<close>

definition session_now :: "int option \<Rightarrow> auth_exn + int" where
  "session_now clock = (case clock of
     None \<Rightarrow> Inl (Auth_Runtime ''authentication clock must return an aware datetime'')
   | Some t \<Rightarrow> Inr t)"

definition prune :: "int \<Rightarrow> session_store \<Rightarrow> session_store" where
  "prune t s = filter (\<lambda>(_, expiry). \<not> expiry \<le> t) s"

definition session_create ::
  "(string \<Rightarrow> string) \<Rightarrow> string \<Rightarrow> int option \<Rightarrow> session_store \<Rightarrow> (auth_exn + string \<times> int) \<times> session_store" where
  "session_create D token clock s = (case session_now clock of
     Inl e \<Rightarrow> (Inl e, s)
   | Inr t \<Rightarrow> (let expires_at = t + SESSION_LIFETIME in
       (Inr (token, expires_at), AList.update (D token) expires_at (prune t s))))"

definition session_lookup ::
  "(string \<Rightarrow> string) \<Rightarrow> string \<Rightarrow> int option \<Rightarrow> session_store \<Rightarrow> (auth_exn + int option) \<times> session_store" where
  "session_lookup D token clock s = (case session_now clock of
     Inl e \<Rightarrow> (Inl e, s)
   | Inr t \<Rightarrow> (let s' = prune t s in (Inr (map_of s' (D token)), s')))"

definition session_revoke :: "(string \<Rightarrow> string) \<Rightarrow> string \<Rightarrow> session_store \<Rightarrow> bool \<times> session_store" where
  "session_revoke D token s = (map_of s (D token) \<noteq> None, AList.delete (D token) s)"

definition stored_hashes :: "session_store \<Rightarrow> string list" where
  "stored_hashes s = map fst s"

section \<open>Origins\<close>

text \<open>Characters for which \<open>str.isspace\<close> holds, and the ASCII ones.\<close>

definition py_space :: "char \<Rightarrow> bool" where
  "py_space c \<longleftrightarrow> (9 \<le> code c \<and> code c \<le> 13) \<or> (28 \<le> code c \<and> code c \<le> 32) \<or> code c = 133 \<or> code c = 160"

definition ascii :: "string \<Rightarrow> bool" where
  "ascii s \<longleftrightarrow> list_all (\<lambda>c. code c < 128) s"

definition letter :: "char \<Rightarrow> bool" where
  "letter c \<longleftrightarrow> (65 \<le> code c \<and> code c \<le> 90) \<or> (97 \<le> code c \<and> code c \<le> 122)"

definition scheme_char :: "char \<Rightarrow> bool" where
  "scheme_char c \<longleftrightarrow> letter c \<or> is_digit c \<or> c \<in> set ''+-.''"

text \<open>
  \<open>urllib.parse.urlsplit\<close> of a text without whitespace. The check of a network location that is not
  ASCII against its Unicode normal form is the parameter \<open>nfkc\<close>.
\<close>

record split_url =
  su_scheme :: string
  su_netloc :: string
  su_path :: string
  su_query :: string
  su_fragment :: string

definition cut_scheme :: "string \<Rightarrow> string \<times> string" where
  "cut_scheme u = (case first_split CHR '':'' u of
     Some (scheme, rest) \<Rightarrow>
       if scheme \<noteq> [] \<and> letter (hd scheme) \<and> list_all scheme_char scheme then (lower scheme, rest) else ([], u)
   | None \<Rightarrow> ([], u))"

definition future_address :: "string \<Rightarrow> bool" where
  "future_address h = (case first_split CHR ''.'' (tl h) of
     None \<Rightarrow> False
   | Some (version, rest) \<Rightarrow> version \<noteq> [] \<and> list_all (\<lambda>c. hex_value c \<noteq> None) version \<and> rest \<noteq> [])"

definition bracketed_ok :: "string \<Rightarrow> bool" where
  "bracketed_ok netloc = (case first_split CHR ''['' netloc of
     None \<Rightarrow> CHR '']'' \<notin> set netloc
   | Some (_, after) \<Rightarrow> CHR '']'' \<in> set netloc \<and>
      (let host = (case first_split CHR '']'' after of None \<Rightarrow> after | Some (h, _) \<Rightarrow> h) in
       if take 1 host = ''v'' then future_address host
       else (case ip_address host of Some (IPv6 _ _) \<Rightarrow> True | _ \<Rightarrow> False)))"

definition cut_off :: "char \<Rightarrow> string \<Rightarrow> string \<times> string" where
  "cut_off c s = (case first_split c s of None \<Rightarrow> (s, []) | Some (a, b) \<Rightarrow> (a, b))"

definition urlsplit :: "(string \<Rightarrow> bool) \<Rightarrow> string \<Rightarrow> split_url option" where
  "urlsplit nfkc v =
     (let (scheme, u) = cut_scheme (dropWhile (\<lambda>c. code c \<le> 32) v);
          (netloc, rest) = (if take 2 u = ''//''
             then (let w = drop 2 u; inside = (\<lambda>c. c \<notin> set ''/?#'') in (takeWhile inside w, dropWhile inside w))
             else ([], u));
          (front, fragment) = cut_off CHR ''#'' rest;
          (path, query) = cut_off CHR ''?'' front in
      if \<not> bracketed_ok netloc \<or> (\<not> ascii netloc \<and> \<not> nfkc netloc) then None
      else Some \<lparr>su_scheme = scheme, su_netloc = netloc, su_path = path, su_query = query, su_fragment = fragment\<rparr>)"

text \<open>The host and the port a network location names; a port that is no number is an error.\<close>

definition host_and_port :: "string \<Rightarrow> string \<times> string" where
  "host_and_port netloc =
     (let info = (case last_split CHR ''@'' netloc of None \<Rightarrow> netloc | Some (_, h) \<Rightarrow> h) in
      case first_split CHR ''['' info of
        Some (_, bracketed) \<Rightarrow> (let (h, after) = cut_off CHR '']'' bracketed in (h, snd (cut_off CHR '':'' after)))
      | None \<Rightarrow> cut_off CHR '':'' info)"

definition url_hostname :: "string \<Rightarrow> string option" where
  "url_hostname netloc =
     (let h = fst (host_and_port netloc) in
      if h = [] then None
      else Some (case first_split CHR ''%'' h of
          None \<Rightarrow> lower h | Some (a, zone) \<Rightarrow> lower a @ ''%'' @ zone))"

definition url_port :: "string \<Rightarrow> nat option option" where
  "url_port netloc =
     (let p = snd (host_and_port netloc) in
      if p = [] then Some None
      else if \<not> list_all is_digit p then None
      else (let n = number 10 (map (\<lambda>c. code c - 48) p) in if n > 65535 then None else Some (Some n)))"

definition default_port :: "string \<Rightarrow> nat" where
  "default_port scheme = (if scheme = ''http'' then 80 else 443)"

definition port_suffix :: "string \<Rightarrow> nat option \<Rightarrow> string" where
  "port_suffix scheme port = (case port of
     None \<Rightarrow> [] | Some n \<Rightarrow> if n = default_port scheme then [] else '':'' @ dec_text n)"

text \<open>One canonical HTTP origin, or a refusal (here \<open>None\<close>).\<close>

definition normalise_origin :: "(string \<Rightarrow> bool) \<Rightarrow> string \<Rightarrow> string option" where
  "normalise_origin nfkc v =
     (if v = [] \<or> list_ex (\<lambda>c. py_space c \<or> code c = 127) v then None
      else Option.bind (urlsplit nfkc v) (\<lambda>u.
           Option.bind (url_port (su_netloc u)) (\<lambda>port.
           Option.bind (url_hostname (su_netloc u)) (\<lambda>hostname.
             let scheme = lower (su_scheme u); host = lower hostname in
             if scheme \<notin> {''http'', ''https''} \<or> CHR ''@'' \<in> set (su_netloc u) \<or>
                su_path u \<notin> {[], ''/''} \<or> su_query u \<noteq> [] \<or> su_fragment u \<noteq> [] then None
             else if (if CHR '':'' \<in> set host then parse_ipv6 host = None else \<not> ascii host) then None
             else (let authority = (if CHR '':'' \<in> set host then ''['' @ host @ '']'' else host) in
               if lower (su_netloc u) \<noteq> authority @ (case port of None \<Rightarrow> [] | Some n \<Rightarrow> '':'' @ dec_text n)
               then None
               else Some (scheme @ ''://'' @ authority @ port_suffix scheme port))))))"

section \<open>Requests\<close>

text \<open>
  What the HTTP library makes of a request: the method and the two headers, the parts of the request's
  own address, the session cookie, and the Bearer credential it recognised in the Authorization header
  (a scheme and a credential).
\<close>

record api_request =
  rq_method :: string
  rq_authorization :: "string option"
  rq_origin :: "string option"
  rq_scheme :: string
  rq_hostname :: "string option"
  rq_port :: "nat option"
  rq_cookie :: "string option"
  rq_bearer :: "(string \<times> string) option"

record authentication =
  au_master_secret :: string
  au_bind_host :: string
  au_development_origin :: "string option"
  au_digest :: "string \<Rightarrow> string"
  au_normal :: "string \<Rightarrow> bool"

record authenticated_request =
  ar_mechanism :: string
  ar_expires_at :: "int option"
  ar_session_token :: "string option"

definition UNSAFE_METHODS :: "string list" where
  "UNSAFE_METHODS = [''POST'', ''PUT'', ''PATCH'', ''DELETE'']"

definition unauthenticated :: "string \<Rightarrow> auth_exn" where "unauthenticated c = Http_Refused 401 c"
definition origin_refusal :: "string \<Rightarrow> auth_exn" where "origin_refusal c = Http_Refused 403 c"

text \<open>\<open>hmac.compare_digest\<close> compares texts only when both are ASCII.\<close>

definition verify_master :: "authentication \<Rightarrow> string \<Rightarrow> auth_exn + bool" where
  "verify_master A candidate =
     (if ascii candidate \<and> ascii (au_master_secret A) then Inr (candidate = au_master_secret A)
      else Inl Auth_Type_Error)"

definition require_valid_master ::
  "authentication \<Rightarrow> (string \<times> string) option \<Rightarrow> auth_exn + authenticated_request" where
  "require_valid_master A bearer = (case bearer of
     Some (scheme, credentials) \<Rightarrow>
       if lower scheme \<noteq> ''bearer'' \<or> credentials = [] then Inl (unauthenticated ''bearer_malformed'')
       else bindE (verify_master A credentials) (\<lambda>ok.
         if \<not> ok then Inl (unauthenticated ''bearer_invalid'')
         else Inr \<lparr>ar_mechanism = ''bearer'', ar_expires_at = None, ar_session_token = None\<rparr>)
   | None \<Rightarrow> Inl (unauthenticated ''bearer_malformed''))"

definition parse_bearer :: "string \<Rightarrow> (string \<times> string) option" where
  "parse_bearer v = (case first_split CHR '' '' v of
     None \<Rightarrow> None
   | Some (scheme, credential) \<Rightarrow>
       if lower scheme \<noteq> ''bearer'' \<or> credential = [] \<or> CHR '' '' \<in> set credential then None
       else Some (scheme, credential))"

definition request_origin :: "api_request \<Rightarrow> auth_exn + string" where
  "request_origin rq = (case rq_hostname rq of
     None \<Rightarrow> Inl (origin_refusal ''origin_unavailable'')
   | Some h \<Rightarrow>
       (let host = (if CHR '':'' \<in> set h then ''['' @ h @ '']'' else h) in
        Inr (rq_scheme rq @ ''://'' @ lower host @ port_suffix (rq_scheme rq) (rq_port rq))))"

text \<open>The method is compared in upper case: no ASCII letter but its own case differs.\<close>

definition unsafe_method :: "string \<Rightarrow> bool" where
  "unsafe_method m \<longleftrightarrow> lower m \<in> set (map lower UNSAFE_METHODS)"

definition require_cookie_origin :: "authentication \<Rightarrow> api_request \<Rightarrow> auth_exn + unit" where
  "require_cookie_origin A rq =
     (if \<not> unsafe_method (rq_method rq) then Inr ()
      else case rq_origin rq of
        None \<Rightarrow> Inl (origin_refusal ''origin_required'')
      | Some supplied \<Rightarrow>
         (case normalise_origin (au_normal A) supplied of
            None \<Rightarrow> Inl (origin_refusal ''origin_invalid'')
          | Some origin \<Rightarrow> bindE (request_origin rq) (\<lambda>own.
              if origin = own \<or> au_development_origin A = Some origin then Inr ()
              else Inl (origin_refusal ''origin_not_allowed''))))"

text \<open>A browser session: the cookie is looked up first, the origin judged after.\<close>

definition session_request ::
  "authentication \<Rightarrow> api_request \<Rightarrow> string \<Rightarrow> int option \<Rightarrow> session_store \<Rightarrow>
   (auth_exn + authenticated_request) \<times> session_store" where
  "session_request A rq cookie clock s =
     (case session_lookup (au_digest A) cookie clock s of
        (Inl e, s') \<Rightarrow> (Inl e, s')
      | (Inr None, s') \<Rightarrow> (Inl (unauthenticated ''session_invalid''), s')
      | (Inr (Some expiry), s') \<Rightarrow>
         (bindE (require_cookie_origin A rq) (\<lambda>_.
            Inr \<lparr>ar_mechanism = ''session'', ar_expires_at = Some expiry, ar_session_token = Some cookie\<rparr>), s'))"

definition require_authentication ::
  "authentication \<Rightarrow> api_request \<Rightarrow> int option \<Rightarrow> session_store \<Rightarrow>
   (auth_exn + authenticated_request) \<times> session_store" where
  "require_authentication A rq clock s =
     (if rq_authorization rq \<noteq> None then (require_valid_master A (rq_bearer rq), s)
      else case rq_cookie rq of
        None \<Rightarrow> (Inl (unauthenticated ''authentication_required''), s)
      | Some cookie \<Rightarrow> session_request A rq cookie clock s)"

definition require_master_bearer :: "authentication \<Rightarrow> api_request \<Rightarrow> auth_exn + authenticated_request" where
  "require_master_bearer A rq =
     (if rq_authorization rq = None then Inl (unauthenticated ''master_bearer_required'')
      else require_valid_master A (rq_bearer rq))"

definition require_browser_session ::
  "authentication \<Rightarrow> api_request \<Rightarrow> int option \<Rightarrow> session_store \<Rightarrow>
   (auth_exn + authenticated_request) \<times> session_store" where
  "require_browser_session A rq clock s =
     (case rq_authorization rq of
        Some v \<Rightarrow> (bindE (require_valid_master A (parse_bearer v)) (\<lambda>_.
            Inl (unauthenticated ''browser_session_required'')), s)
      | None \<Rightarrow> (case rq_cookie rq of
          None \<Rightarrow> (Inl (unauthenticated ''browser_session_required''), s)
        | Some cookie \<Rightarrow> session_request A rq cookie clock s))"

definition stripped :: "string \<Rightarrow> string" where
  "stripped s = rev (dropWhile py_space (rev (dropWhile py_space s)))"

definition permits_loopback_http :: "authentication \<Rightarrow> bool" where
  "permits_loopback_http A =
     (let host = lower (stripped (au_bind_host A)) in
      host = ''localhost'' \<or> (case ip_address host of None \<Rightarrow> False | Some a \<Rightarrow> is_loopback a))"

definition cookie_is_secure :: "authentication \<Rightarrow> api_request \<Rightarrow> auth_exn + bool" where
  "cookie_is_secure A rq =
     (if rq_scheme rq = ''https'' then Inr True
      else if rq_scheme rq = ''http'' \<and> permits_loopback_http A then Inr False
      else Inl (Http_Refused 403 ''browser_session_requires_https''))"

section \<open>The session routes\<close>

definition create_session ::
  "authentication \<Rightarrow> string option \<Rightarrow> string \<Rightarrow> int option \<Rightarrow> session_store \<Rightarrow>
   (auth_exn + string \<times> int) \<times> session_store" where
  "create_session A existing token clock s =
     session_create (au_digest A) token clock
       (case existing of None \<Rightarrow> s | Some t \<Rightarrow> snd (session_revoke (au_digest A) t s))"

text \<open>The exchange of the master for a session: the cookie set is the token, its end and its flag.\<close>

definition create_browser_session ::
  "authentication \<Rightarrow> api_request \<Rightarrow> string \<Rightarrow> int option \<Rightarrow> session_store \<Rightarrow>
   (auth_exn + string \<times> int \<times> bool) \<times> session_store" where
  "create_browser_session A rq token clock s =
     (case bindE (require_master_bearer A rq) (\<lambda>_. cookie_is_secure A rq) of
        Inl e \<Rightarrow> (Inl e, s)
      | Inr secure \<Rightarrow>
         (case create_session A (rq_cookie rq) token clock s of
            (Inl e, s') \<Rightarrow> (Inl e, s') | (Inr (t, e), s') \<Rightarrow> (Inr (t, e, secure), s')))"

definition delete_browser_session ::
  "authentication \<Rightarrow> api_request \<Rightarrow> int option \<Rightarrow> session_store \<Rightarrow> (auth_exn + bool) \<times> session_store" where
  "delete_browser_session A rq clock s =
     (case require_browser_session A rq clock s of
        (Inl e, s') \<Rightarrow> (Inl e, s')
      | (Inr a, s') \<Rightarrow>
         (case ar_session_token a of
            None \<Rightarrow> (Inl (Auth_Runtime ''AssertionError''), s')
          | Some t \<Rightarrow> (cookie_is_secure A rq, snd (session_revoke (au_digest A) t s'))))"

section \<open>What a store holds\<close>

text \<open>
  The history of a store: a session was created for a request, the clock was read on its behalf, a
  session was revoked.
\<close>

datatype session_event =
  Session_Created api_request string int | Session_Read int | Session_Revoked string

definition after_event :: "(string \<Rightarrow> string) \<Rightarrow> session_event \<Rightarrow> session_store \<Rightarrow> session_store" where
  "after_event D x s = (case x of
     Session_Created _ token t \<Rightarrow> snd (session_create D token (Some t) s)
   | Session_Read t \<Rightarrow> prune t s
   | Session_Revoked token \<Rightarrow> snd (session_revoke D token s))"

definition replay :: "(string \<Rightarrow> string) \<Rightarrow> session_event list \<Rightarrow> session_store" where
  "replay D h = fold (after_event D) h []"

text \<open>An event that leaves the session of a digest, expiring at an instant, where it is.\<close>

definition survives :: "(string \<Rightarrow> string) \<Rightarrow> string \<Rightarrow> int \<Rightarrow> session_event \<Rightarrow> bool" where
  "survives D d e x \<longleftrightarrow> (case x of
     Session_Created _ token t \<Rightarrow> D token \<noteq> d \<and> t < e
   | Session_Read t \<Rightarrow> t < e
   | Session_Revoked token \<Rightarrow> D token \<noteq> d)"

definition stands :: "(string \<Rightarrow> string) \<Rightarrow> session_event list \<Rightarrow> string \<Rightarrow> int \<Rightarrow> bool" where
  "stands D h d e \<longleftrightarrow> (\<exists>h1 rq token t h2. h = h1 @ Session_Created rq token t # h2 \<and> D token = d \<and>
     e = t + SESSION_LIFETIME \<and> list_all (survives D d e) h2)"

lemma map_of_prune:
  "distinct (map fst s) \<Longrightarrow> map_of (prune t s) d = (case map_of s d of
     None \<Rightarrow> None | Some e \<Rightarrow> if e \<le> t then None else Some e)"
proof (induction s)
  case (Cons p s)
  obtain k e where p: "p = (k, e)" by (cases p)
  from Cons show ?case by (auto simp: prune_def p map_of_eq_None_iff split: option.splits)
qed (simp add: prune_def)

lemma prune_distinct: "distinct (map fst s) \<Longrightarrow> distinct (map fst (prune t s))"
  by (simp add: prune_def distinct_map_filter)

lemma after_event_distinct: "distinct (map fst s) \<Longrightarrow> distinct (map fst (after_event D x s))"
  by (auto simp: after_event_def session_create_def session_now_def session_revoke_def Let_def
      prune_distinct AList.distinct_update AList.distinct_delete split: session_event.split)

lemma replay_snoc [simp]: "replay D (h @ [x]) = after_event D x (replay D h)" and replay_Nil [simp]: "replay D [] = []"
  by (simp_all add: replay_def)

lemma replay_distinct: "distinct (map fst (replay D h))"
  by (induction h rule: rev_induct) (simp_all add: after_event_distinct)

lemma map_of_after_event:
  assumes "distinct (map fst s)"
  shows "map_of (after_event D x s) d = Some e \<longleftrightarrow>
    (\<exists>rq token t. x = Session_Created rq token t \<and> D token = d \<and> e = t + SESSION_LIFETIME) \<or>
    (map_of s d = Some e \<and> survives D d e x)"
  using map_of_prune [OF assms]
  by (auto simp: after_event_def survives_def session_create_def session_now_def session_revoke_def Let_def
      AList.update_conv' AList.delete_conv' split: session_event.split option.splits if_splits)

lemma stands_snoc:
  "stands D (h @ [x]) d e \<longleftrightarrow>
    (\<exists>rq token t. x = Session_Created rq token t \<and> D token = d \<and> e = t + SESSION_LIFETIME) \<or>
    (stands D h d e \<and> survives D d e x)"
proof
  assume "stands D (h @ [x]) d e"
  then obtain h1 rq token t h2 where h: "h @ [x] = h1 @ Session_Created rq token t # h2" "D token = d"
    "e = t + SESSION_LIFETIME" "list_all (survives D d e) h2" by (auto simp: stands_def)
  show "(\<exists>rq token t. x = Session_Created rq token t \<and> D token = d \<and> e = t + SESSION_LIFETIME) \<or>
    (stands D h d e \<and> survives D d e x)"
  proof (cases h2 rule: rev_cases)
    case Nil
    then show ?thesis using h by auto
  next
    case (snoc h3 y)
    then have "h = h1 @ Session_Created rq token t # h3" "x = y" using h(1) by auto
    then show ?thesis using h snoc by (auto simp: stands_def)
  qed
next
  assume "(\<exists>rq token t. x = Session_Created rq token t \<and> D token = d \<and> e = t + SESSION_LIFETIME) \<or>
    (stands D h d e \<and> survives D d e x)"
  then show "stands D (h @ [x]) d e"
  proof
    assume "\<exists>rq token t. x = Session_Created rq token t \<and> D token = d \<and> e = t + SESSION_LIFETIME"
    then obtain rq token t where "x = Session_Created rq token t" "D token = d" "e = t + SESSION_LIFETIME" by blast
    then show ?thesis unfolding stands_def by (intro exI [of _ h] exI [of _ rq] exI [of _ token] exI [of _ t] exI [of _ "[]"]) simp
  next
    assume "stands D h d e \<and> survives D d e x"
    then obtain h1 rq token t h2 where h: "h = h1 @ Session_Created rq token t # h2" "D token = d"
      "e = t + SESSION_LIFETIME" "list_all (survives D d e) h2" and "survives D d e x" by (auto simp: stands_def)
    then show ?thesis
      unfolding stands_def
      by (intro exI [of _ h1] exI [of _ rq] exI [of _ token] exI [of _ t] exI [of _ "h2 @ [x]"]) simp
  qed
qed

text \<open>A store holds a digest exactly when a session of it was created and nothing has ended it since.\<close>

lemma replay_holds: "map_of (replay D h) d = Some e \<longleftrightarrow> stands D h d e"
proof (induction h arbitrary: e rule: rev_induct)
  case Nil
  then show ?case by (simp add: stands_def)
next
  case (snoc x h)
  then show ?case by (simp add: map_of_after_event replay_distinct stands_snoc)
qed

section \<open>Who is let in\<close>

definition check_events :: "api_request \<Rightarrow> int option \<Rightarrow> session_event list" where
  "check_events rq clock =
     (if rq_authorization rq = None \<and> rq_cookie rq \<noteq> None
      then (case clock of None \<Rightarrow> [] | Some t \<Rightarrow> [Session_Read t]) else [])"

definition revoked_events :: "api_request \<Rightarrow> session_event list" where
  "revoked_events rq = (case rq_cookie rq of None \<Rightarrow> [] | Some t \<Rightarrow> [Session_Revoked t])"

definition exchange_events ::
  "authentication \<Rightarrow> api_request \<Rightarrow> string \<Rightarrow> int option \<Rightarrow> session_event list" where
  "exchange_events A rq token clock =
     (case bindE (require_master_bearer A rq) (\<lambda>_. cookie_is_secure A rq) of
        Inl _ \<Rightarrow> []
      | Inr _ \<Rightarrow> revoked_events rq @ (case clock of None \<Rightarrow> [] | Some t \<Rightarrow> [Session_Created rq token t]))"

definition logout_events ::
  "authentication \<Rightarrow> api_request \<Rightarrow> int option \<Rightarrow> session_store \<Rightarrow> session_event list" where
  "logout_events A rq clock s = check_events rq clock @
     (case fst (require_browser_session A rq clock s) of Inl _ \<Rightarrow> [] | Inr _ \<Rightarrow> revoked_events rq)"

text \<open>The requests a process serves, in any order, each with its own reading of the clock.\<close>

inductive serving :: "authentication \<Rightarrow> session_event list \<Rightarrow> session_store \<Rightarrow> bool" for A where
  started: "serving A [] []"
| checked_request: "serving A h s \<Longrightarrow> require_authentication A rq clock s = (r, s') \<Longrightarrow>
    serving A (h @ check_events rq clock) s'"
| exchanged: "serving A h s \<Longrightarrow> create_browser_session A rq token clock s = (r', s') \<Longrightarrow>
    serving A (h @ exchange_events A rq token clock) s'"
| logged_out: "serving A h s \<Longrightarrow> delete_browser_session A rq clock s = (r'', s') \<Longrightarrow>
    serving A (h @ logout_events A rq clock s) s'"

inductive_cases servingE: "serving A h s"

definition master_presented :: "authentication \<Rightarrow> api_request \<Rightarrow> bool" where
  "master_presented A rq \<longleftrightarrow> rq_authorization rq \<noteq> None \<and>
     (\<exists>scheme. rq_bearer rq = Some (scheme, au_master_secret A) \<and> lower scheme = ''bearer'' \<and>
        au_master_secret A \<noteq> [] \<and> ascii (au_master_secret A))"

definition origin_accepted :: "authentication \<Rightarrow> api_request \<Rightarrow> bool" where
  "origin_accepted A rq \<longleftrightarrow> \<not> unsafe_method (rq_method rq) \<or>
     (\<exists>supplied origin own. rq_origin rq = Some supplied \<and> normalise_origin (au_normal A) supplied = Some origin \<and>
        request_origin rq = Inr own \<and> (origin = own \<or> au_development_origin A = Some origin))"

lemma require_cookie_origin_iff: "require_cookie_origin A rq = Inr u \<longleftrightarrow> origin_accepted A rq"
  by (auto simp: require_cookie_origin_def origin_accepted_def bindE_Inr split: option.splits)

lemma require_valid_master_iff:
  "(\<exists>a. require_valid_master A b = Inr a) \<longleftrightarrow> (\<exists>scheme. b = Some (scheme, au_master_secret A) \<and>
     lower scheme = ''bearer'' \<and> au_master_secret A \<noteq> [] \<and> ascii (au_master_secret A))"
  by (auto simp: require_valid_master_def verify_master_def bindE_Inr split: option.splits)

lemma require_master_bearer_iff: "(\<exists>a. require_master_bearer A rq = Inr a) \<longleftrightarrow> master_presented A rq"
  using require_valid_master_iff [of A "rq_bearer rq"]
  by (auto simp: require_master_bearer_def master_presented_def)

lemma session_request_store:
  "snd (session_request A rq cookie clock s) = (case clock of None \<Rightarrow> s | Some t \<Rightarrow> prune t s)"
  by (auto simp: session_request_def session_lookup_def session_now_def Let_def split: option.splits sum.splits)

lemma check_store:
  "fold (after_event (au_digest A)) (check_events rq clock) s = snd (require_authentication A rq clock s)"
  "fold (after_event (au_digest A)) (check_events rq clock) s = snd (require_browser_session A rq clock s)"
  by (auto simp: check_events_def require_authentication_def require_browser_session_def session_request_store
      after_event_def split: option.splits)

lemma exchange_store:
  "fold (after_event (au_digest A)) (exchange_events A rq token clock) s = snd (create_browser_session A rq token clock s)"
  by (auto simp: exchange_events_def create_browser_session_def create_session_def revoked_events_def
      session_create_def session_now_def after_event_def Let_def split: sum.splits option.splits prod.splits)

lemma browser_session_token:
  "fst (require_browser_session A rq clock s) = Inr a \<Longrightarrow> ar_session_token a = rq_cookie rq \<and> rq_cookie rq \<noteq> None"
  by (auto simp: require_browser_session_def session_request_def bindE_Inr split: option.splits sum.splits prod.splits)

lemma logout_store:
  "fold (after_event (au_digest A)) (logout_events A rq clock s) s = snd (delete_browser_session A rq clock s)"
proof -
  obtain r s' where r: "require_browser_session A rq clock s = (r, s')" by (metis surj_pair)
  then have s': "fold (after_event (au_digest A)) (check_events rq clock) s = s'" using check_store(2) by (metis snd_conv)
  show ?thesis
  proof (cases r)
    case (Inl e)
    then show ?thesis using r s' by (simp add: logout_events_def delete_browser_session_def)
  next
    case (Inr a)
    then obtain t where "ar_session_token a = Some t" "rq_cookie rq = Some t"
      using browser_session_token [of A rq clock s a] r by auto
    then show ?thesis
      using r s' Inr by (simp add: logout_events_def delete_browser_session_def revoked_events_def after_event_def)
  qed
qed

lemma created_by_the_master:
  "Session_Created rq token t \<in> set (exchange_events A rq' token' clock) \<Longrightarrow> master_presented A rq"
  using require_master_bearer_iff [of A rq']
  by (cases "require_master_bearer A rq'")
    (auto simp: exchange_events_def revoked_events_def split: sum.splits option.splits)

lemma nothing_created:
  "Session_Created q u t \<notin> set (check_events rq clock)" "Session_Created q u t \<notin> set (logout_events A rq clock s)"
proof -
  have "check_events rq clock \<in> {[]} \<union> range (\<lambda>i. [Session_Read i])"
    by (cases clock) (simp_all add: check_events_def)
  then show a: "Session_Created q u t \<notin> set (check_events rq clock)" by auto
  then show "Session_Created q u t \<notin> set (logout_events A rq clock s)"
    by (cases "fst (require_browser_session A rq clock s)"; cases "rq_cookie rq")
      (simp_all add: logout_events_def revoked_events_def)
qed

lemma serving_history:
  assumes "serving A h s"
  shows "s = replay (au_digest A) h \<and> (\<forall>rq token t. Session_Created rq token t \<in> set h \<longrightarrow> master_presented A rq)"
  using assms
proof induction
  case started
  then show ?case by simp
next
  case (checked_request h s rq clock r s')
  moreover have "s' = fold (after_event (au_digest A)) (check_events rq clock) s"
    using check_store(1) checked_request.hyps(2) by (metis snd_conv)
  ultimately show ?case using nothing_created by (auto simp: replay_def)
next
  case (exchanged h s rq token clock r' s')
  moreover have "s' = fold (after_event (au_digest A)) (exchange_events A rq token clock) s"
    using exchange_store exchanged.hyps(2) by (metis snd_conv)
  ultimately show ?case using created_by_the_master by (fastforce simp: replay_def)
next
  case (logged_out h s rq clock r'' s')
  moreover have "s' = fold (after_event (au_digest A)) (logout_events A rq clock s) s"
    using logout_store logged_out.hyps(2) by (metis snd_conv)
  ultimately show ?case using nothing_created by (auto simp: replay_def)
qed

text \<open>The session of a digest, in a history: the exchange that made it, its end, and nothing in between.\<close>

definition admitted :: "authentication \<Rightarrow> session_event list \<Rightarrow> string \<Rightarrow> int \<Rightarrow> bool" where
  "admitted A h cookie e \<longleftrightarrow> (\<exists>h1 rq token t h2. h = h1 @ Session_Created rq token t # h2 \<and>
     master_presented A rq \<and> au_digest A token = au_digest A cookie \<and> e = t + SESSION_LIFETIME \<and>
     (\<forall>x \<in> set h2. survives (au_digest A) (au_digest A cookie) e x))"

lemma admitted_iff:
  assumes "serving A h s"
  shows "admitted A h cookie e \<longleftrightarrow> map_of s (au_digest A cookie) = Some e"
  using serving_history [OF assms] by (fastforce simp: replay_holds admitted_def stands_def list_all_iff)

text \<open>
  C21. A request is let in exactly when it is entitled to be. Whatever requests the process has served
  since it started, in whatever order and whatever the clock read, a request that carries an
  Authorization header is let in exactly when that presents the master secret, never by its cookie; any
  other exactly when its cookie is a session that an exchange of the master secret created, whose twelve
  hours are not over now and were not over at any reading of the clock since, that no logout and no later
  exchange has revoked, and, where the method is unsafe, when its origin is the request's own or the
  development origin.
\<close>

theorem request_let_in_iff_entitled:
  assumes "serving A h s"
  shows "(\<exists>a s'. require_authentication A rq (Some instant) s = (Inr a, s')) \<longleftrightarrow>
    (if rq_authorization rq \<noteq> None then master_presented A rq
     else \<exists>cookie e. rq_cookie rq = Some cookie \<and> admitted A h cookie e \<and> instant < e \<and> origin_accepted A rq)"
proof (cases "rq_authorization rq \<noteq> None \<or> rq_cookie rq = None")
  case True
  then show ?thesis
    using require_valid_master_iff [of A "rq_bearer rq"]
    by (auto simp: require_authentication_def master_presented_def)
next
  case False
  then obtain cookie where c: "rq_authorization rq = None" "rq_cookie rq = Some cookie" by auto
  have "distinct (map fst s)" using serving_history [OF assms] replay_distinct by metis
  then have "map_of (prune instant s) (au_digest A cookie) = Some e \<longleftrightarrow> admitted A h cookie e \<and> instant < e" for e
    using admitted_iff [OF assms, of cookie e]
    by (cases "map_of s (au_digest A cookie)") (auto simp: map_of_prune simp del: map_of_eq_Some_iff)
  moreover have "(\<exists>a s'. require_authentication A rq (Some instant) s = (Inr a, s')) \<longleftrightarrow>
      (\<exists>e. map_of (prune instant s) (au_digest A cookie) = Some e \<and> require_cookie_origin A rq = Inr ())"
    using c
    by (cases "map_of (prune instant s) (au_digest A cookie)"; cases "require_cookie_origin A rq")
      (simp_all add: require_authentication_def session_request_def session_lookup_def session_now_def Let_def)
  ultimately show ?thesis
    using c require_cookie_origin_iff [of A rq "()"] by simp
qed

text \<open>A run: the master is exchanged for a session, whose cookie then reads, and writes from its own origin.\<close>

definition sample_auth :: authentication where
  "sample_auth = \<lparr>au_master_secret = replicate 43 CHR ''A'', au_bind_host = ''127.0.0.1'', au_development_origin = None,
     au_digest = \<lambda>t. t, au_normal = \<lambda>_. True\<rparr>"

definition plain_request :: api_request where
  "plain_request = \<lparr>rq_method = ''GET'', rq_authorization = None, rq_origin = None, rq_scheme = ''https'',
     rq_hostname = Some ''h'', rq_port = None, rq_cookie = None, rq_bearer = None\<rparr>"

definition exchange_request :: api_request where
  "exchange_request = plain_request\<lparr>rq_method := ''POST'', rq_authorization := Some (''Bearer '' @ replicate 43 CHR ''A''),
     rq_bearer := Some (''Bearer'', replicate 43 CHR ''A'')\<rparr>"

definition cookie_request :: "string \<Rightarrow> api_request" where
  "cookie_request origin = plain_request\<lparr>rq_method := ''POST'', rq_cookie := Some ''tok'', rq_origin := Some origin\<rparr>"

lemma sample_exchanged:
  "serving sample_auth [Session_Created exchange_request ''tok'' 0] [(''tok'', SESSION_LIFETIME)]"
proof -
  have "create_browser_session sample_auth exchange_request ''tok'' (Some 0) [] =
      (Inr (''tok'', SESSION_LIFETIME, True), [(''tok'', SESSION_LIFETIME)])"
    and "exchange_events sample_auth exchange_request ''tok'' (Some 0) = [Session_Created exchange_request ''tok'' 0]"
    by code_simp+
  then show ?thesis
    using exchanged [OF started, of sample_auth exchange_request "''tok''" "Some 0"] by simp
qed

lemma sample_answers:
  "fst (require_authentication sample_auth (cookie_request ''https://H'') (Some 5) [(''tok'', SESSION_LIFETIME)]) =
     Inr \<lparr>ar_mechanism = ''session'', ar_expires_at = Some SESSION_LIFETIME, ar_session_token = Some ''tok''\<rparr>"
  "fst (require_authentication sample_auth (cookie_request ''https://g'') (Some 5) [(''tok'', SESSION_LIFETIME)]) =
     Inl (origin_refusal ''origin_not_allowed'')"
  by code_simp+

theorem request_let_in_iff_entitled_witness:
  "(\<exists>e. admitted sample_auth [Session_Created exchange_request ''tok'' 0] ''tok'' e \<and> 5 < e) \<and>
   origin_accepted sample_auth (cookie_request ''https://H'') \<and>
   \<not> origin_accepted sample_auth (cookie_request ''https://g'')"
proof -
  have c: "rq_authorization (cookie_request x) = None" "rq_cookie (cookie_request x) = Some ''tok''" for x
    by (simp_all add: cookie_request_def plain_request_def)
  have yes: "\<exists>a s'. require_authentication sample_auth (cookie_request ''https://H'') (Some 5)
      [(''tok'', SESSION_LIFETIME)] = (Inr a, s')"
    and no: "\<nexists>a s'. require_authentication sample_auth (cookie_request ''https://g'') (Some 5)
      [(''tok'', SESSION_LIFETIME)] = (Inr a, s')"
    using sample_answers by (metis prod.collapse, metis fst_conv sum.distinct(1))
  show ?thesis
    using yes no request_let_in_iff_entitled [OF sample_exchanged, of "cookie_request ''https://H''" 5]
      request_let_in_iff_entitled [OF sample_exchanged, of "cookie_request ''https://g''" 5]
    by (auto simp: c)
qed

end
