(* ===== verification/Spec2Isabelle.thy ===== *)
theory Spec2Isabelle
  imports Reconciliation Management_Path Self_Impact Provenance Policy Host_Guard Engine_Properties Recovery_Properties
    Planner_Properties Path_Samples Lifecycle_Samples Clearance_Samples
    Authentication
begin

text \<open>
  LocalPlane: a local operations control plane for one Linux host. A backend plans and applies
  changes; an agent on the host observes it and holds the connection guard; a privileged helper
  performs the one kernel mutation. The development models the decision core of all three.

  \<^bold>\<open>Parts\<close> (files under \<open>src/src/localplane/\<close>)

  \<^item> \<open>Prelude\<close>: dynamically typed values (\<open>pyval\<close>), Python's exceptions as values
    (\<open>py_error + 'a\<close>, \<open>bindE\<close>, \<open>mapE\<close>), and the generic lemmas.
  \<^item> \<open>Intent\<close> (\<open>backend/domain/intent.py\<close>) and \<open>Reconciliation\<close>
    (\<open>backend/domain/reconciliation.py\<close>): what is captured on adoption, how an intent is revised,
    and the comparison of an intent with an observation.
  \<^item> \<open>States\<close> (\<open>states.py\<close>, \<open>network.py\<close>, \<open>systemd.py\<close>): freshness, health, management state.
  \<^item> \<open>Protection\<close>, \<open>Management_Path\<close>: protected resources and the proof of which object
    carries the operator's connection.
  \<^item> \<open>Lifecycle\<close>, \<open>Self_Impact\<close>: evidence and judgements of systemd service lifecycle actions.
  \<^item> \<open>Provenance\<close>: ownership of objects and what it forbids.
  \<^item> \<open>Runs_Model\<close> (\<open>backend/domain/runs.py\<close>): plans, their canonical documents, digest and
    validity. \<open>Policy\<close> (\<open>backend/domain/policy.py\<close>): risk, confirmation, execution eligibility.
  \<^item> \<open>Changes\<close>, \<open>Guard_Model\<close>: the vocabulary of the write boundary and of the guard.
  \<^item> \<open>Helper_Mtu\<close> (\<open>helper/mtu.py\<close>), \<open>Helper_Service\<close> (\<open>helper/service.py\<close>, the agent's
    write in \<open>agent/service.py\<close>), \<open>Host_Guard\<close> (\<open>agent/guard.py\<close>): the write itself, byte for
    byte, its at-most-once memory, and the guard registry with its timers.
  \<^item> \<open>Store\<close> (\<open>backend/db/repositories.py\<close>): the tables of the change engine, and the methods
    that read and write them. \<open>Engine_Base\<close> (\<open>backend/runs.py\<close>, \<open>backend/db/database.py\<close>): the
    executor seam, transactions, and how a method of the engine is written here.
  \<^item> \<open>Change_Engine\<close>, \<open>Change_Settlement\<close>, \<open>Change_Recovery\<close> (\<open>backend/changes.py\<close>): the engine,
    method by method: confirming and applying a run; keeping a guarded change, and settling what a
    restart interrupted; recovering a change that ended without proof.
  \<^item> \<open>Engine_Logic\<close>: what the store must say at every point the process may stop, and a
    strongest-postcondition calculus for the engine's methods. \<open>Engine_Apply\<close>, \<open>Engine_Rest\<close>: the
    methods' contracts. \<open>Engine_Properties\<close>, \<open>Recovery_Properties\<close>: the engine's theorems, with
    the concrete runs of \<open>Engine_Sample\<close> (on the host of \<open>Sample_System\<close>) as witnesses.
  \<^item> \<open>Docker_Domain\<close> (\<open>backend/domain/docker.py\<close>), \<open>Operations\<close> (\<open>backend/operations.py\<close>,
    \<open>container_operations.py\<close>, \<open>systemd_operations.py\<close>): the judgements of containers, and the
    planners of the seven typed operations. \<open>Planner_Properties\<close>: a plan is of current work, restores
    the retained value, and executes only as its operation can.
  \<^item> \<open>Executors\<close> (the other half of those files, and \<open>backend/agent_client.py\<close>): correlating, mutating,
    observing, proving and the guard. \<open>Executor_Properties\<close>: one call, of what was observed, honestly
    reported, and a proof that was seen.
  \<^item> \<open>Ipc\<close> (\<open>ipc.py\<close>): the codec, one connection of the server, one call of the client, over a socket
    that may fail at any byte. \<open>Ipc_Properties\<close>: round trip, exclusive responses, who is served, and
    that a call is one of four deliveries.
  \<^item> \<open>Agent_Service\<close> (\<open>agent/service.py\<close>, \<open>protocol/wire.py\<close>, \<open>helper/client.py\<close>,
    \<open>helper/service.py\<close>): the agent's handlers that can change the host. \<open>Write_Path\<close> composes the
    executor, both sockets, the agent, the helper and the kernel: what is reported of a write is true.
    \<open>Path_Samples\<close> holds the concrete runs that witness these theorems.
  \<^item> \<open>Lifecycle_Dispatch\<close> (\<open>agent/providers/docker.py\<close>, \<open>agent/providers/systemd.py\<close>): one request to
    Docker's daemon, one job of the system manager. \<open>Outcome_Truth\<close> is what an outcome has to mean;
    \<open>Lifecycle_Path\<close> composes the executors with the agent and these calls, and \<open>Lifecycle_Samples\<close> runs
    them, also on a connection that fails to close.
  \<^item> \<open>Unit_Reading\<close>, \<open>Effect_Graph\<close> (\<open>agent/providers/systemd.py\<close>): the reading of one unit, and the
    walk over what a lifecycle action may reach. \<open>Effect_Bounds\<close>: the walk ends, within its limits;
    \<open>Effect_Closure\<close>: a complete graph is the closure of the pull relation of the manager's units;
    \<open>Effect_Samples\<close>: a walk over two units.
  \<^item> \<open>Lifecycle_Evidence\<close> (\<open>agent/systemd_lifecycle_context.py\<close>), \<open>Lifecycle_Context\<close>
    (\<open>backend/systemd_lifecycle_context.py\<close>, \<open>backend/api/transport.py\<close>, the handler in
    \<open>agent/service.py\<close>): the evidence such an action is judged on, from the kernel's account of the
    operator's connection to the context the backend accepts. \<open>Lifecycle_Clearance\<close>: a cleared action
    spares the connection and the agent, with \<open>Clearance_Samples\<close> as the host where one is cleared.
  \<^item> \<open>Authentication\<close> (\<open>backend/auth.py\<close>, the session routes of \<open>backend/api/routes.py\<close>): the browser
    sessions, the origins, and who is let in after any sequence of requests.

  \<^bold>\<open>State and operations.\<close> Pure functions of the source are functions here, with the source's
  names where HOL allows; a dataclass is a record with a short prefix on its fields; an
  enumeration is a datatype. The helper's service and the guard registry pass their state
  explicitly; the timers that call \<open>GuardRegistry._fire\<close> and the other ways the registry is
  entered are the rules of \<open>guard_step\<close>, under one lock, as in the code.

  \<^bold>\<open>Interfaces.\<close> The contract of a compare-and-set writer is the locale \<open>cas_writer\<close>, interpreted
  on the agent's write over the helper's service; the guard's properties rest on that
  interpretation. The locale \<open>in_flight\<close> is what every method that moves a change on keeps (the run
  it works on, the mutations sent so far, the rows that stay fixed); it is interpreted on a change
  inside \<open>apply\<close> (\<open>flying\<close>) and on one that outlived it (\<open>resting\<close>), so rollback, verification and
  the ends of a run are proved once for both. The locale \<open>outcome_truth\<close> is the contract of a call that
  states an outcome; it is interpreted on the MTU write and on the lifecycle calls.
  The locale \<open>walk_order\<close> is what a relation between states of the walk needs to survive every step;
  it is interpreted on the limits (\<open>limited\<close>) and on the growth towards the closure (\<open>grown\<close>).

  \<^bold>\<open>Parameters and hypotheses.\<close> The kernel's netlink socket is \<open>link_env\<close>, with what rtnetlink
  documents as \<open>kernel_ok\<close> (which \<open>ideal_env\<close> satisfies): in particular the model has no other
  writer between the helper's query and its write. A digest function is a parameter
  (sha256 over JSON), and so are the reading of ISO timestamps, the rendering of numbers, and the
  write a guard dispatches. Over the sockets the JSON library is \<open>json_env\<close> with its documented
  round trip as \<open>json_ok\<close>, and the operating system's socket is any function from the bytes sent to an
  \<open>exchange\<close>. The engine takes from \<open>engine_env\<close> the clock, the random identifiers, the
  inventory, the planner and the executors: its theorems hold for every executor and every host,
  whatever they answer and however they change the world between two steps.

  The daemon and the manager are \<open>docker_env\<close> and \<open>systemd_bus\<close>, with what their interfaces document as
  \<open>daemon_ok\<close> and \<open>manager_ok\<close>. A manager that answers every read of a unit alike is \<open>manager_reads\<close>,
  and a host whose further reads (control groups, bus names, the socket table, the correlation of a
  container's runtime) answer what is there, when they answer, is \<open>host_reads\<close>; \<open>agent_answers\<close> says
  that the client's answers are the agent's. Of authentication the digest of a token, the random tokens,
  the clock, what the HTTP library reads of a request and the Unicode check of a host are parameters.

  \<^bold>\<open>Stopping.\<close> The process may stop after any commit and after any mutation left; the journal in
  the engine's state holds the store at each of these points, so the theorems on crashes speak of
  its entries, and the settlement after a restart starts from one of them. Requests are modelled one
  at a time; what a second request of the same run meets is the state it starts from
  (\<open>refusal_lets_the_lock_go\<close>).

  \<^bold>\<open>Bounds.\<close> 256 remembered attempts (\<open>ATTEMPT_MEMORY\<close>), 64 settled guards (\<open>SETTLED_MEMORY\<close>),
  windows of 5 to 600 seconds, MTUs of 68 to 65536: the source's own. Recursions over datagrams end
  because each message advances by at least its header. The walk over effects has the source's limits
  (128 units, depth 12, 2048 edges, and seven references for each edge); it is a \<open>while_option\<close> whose
  end is proved for every manager, so no fuel is chosen.

  \<^bold>\<open>Not modelled.\<close> The HTTP surface, the response schemas and views, the remaining repositories,
  and the inventories of Docker, systemd and NetworkManager are input and output around the rules
  above. The contract probes of the manager and of the runtime's owner, and the parsing of the kernel's
  socket table, stand outside the lifecycle evidence as its parameters; that \<open>/proc/self/cgroup\<close> may
  hold bytes that are no text, and ports too large to be numbers, are left out. The files of the master
  secret are not modelled, and lower-casing is that of ASCII. Of the engine's transcript the events, their order and their states are kept, not their
  explanatory details; refusals are kept by their code; log lines are not kept. The triggers and
  CHECK constraints of the schema, which can only refuse more, are not part of the store's model.
\<close>

end
